(* ===== verification/GoBase.thy ===== *)
theory GoBase
  imports Main "HOL-Library.Sublist" "HOL-Library.AList"
begin

text \<open>
  The part of Go's standard library and of the relational store that the components share:
  byte strings with the operations of package \<open>strings\<close> the source calls, decimal
  rendering, signed 64-bit wrap-around, and tables as lists of rows with the
  \<open>WHERE\<close>/\<open>ORDER BY\<close>/\<open>LIMIT\<close> clauses the repositories use.
  A Go string is its list of bytes. \<open>TrimSpace\<close> strips the UTF-8 encodings of every code
  point that Go's \<open>unicode.IsSpace\<close> accepts; \<open>ToLower\<close> is the mapping on ASCII
  letters, bytes outside ASCII are left as they are.
\<close>

named_theorems go_string_simps

section \<open>Strings\<close>

type_synonym gostr = string

text \<open>The UTF-8 encodings of the code points \<open>unicode.IsSpace\<close> accepts.\<close>

definition space_encodings :: "gostr list" where
  "space_encodings =
     [[CHR 0x20], [CHR 0x09], [CHR 0x0A], [CHR 0x0B], [CHR 0x0C], [CHR 0x0D],
      [CHR 0xC2, CHR 0x85], [CHR 0xC2, CHR 0xA0], [CHR 0xE1, CHR 0x9A, CHR 0x80],
      [CHR 0xE2, CHR 0x80, CHR 0x80], [CHR 0xE2, CHR 0x80, CHR 0x81],
      [CHR 0xE2, CHR 0x80, CHR 0x82], [CHR 0xE2, CHR 0x80, CHR 0x83],
      [CHR 0xE2, CHR 0x80, CHR 0x84], [CHR 0xE2, CHR 0x80, CHR 0x85],
      [CHR 0xE2, CHR 0x80, CHR 0x86], [CHR 0xE2, CHR 0x80, CHR 0x87],
      [CHR 0xE2, CHR 0x80, CHR 0x88], [CHR 0xE2, CHR 0x80, CHR 0x89],
      [CHR 0xE2, CHR 0x80, CHR 0x8A], [CHR 0xE2, CHR 0x80, CHR 0xA8],
      [CHR 0xE2, CHR 0x80, CHR 0xA9], [CHR 0xE2, CHR 0x80, CHR 0xAF],
      [CHR 0xE2, CHR 0x81, CHR 0x9F], [CHR 0xE3, CHR 0x80, CHR 0x80]]"

text \<open>Strip from the front, as long as possible, any of the given strings.\<close>

function strip_any :: "gostr list \<Rightarrow> gostr \<Rightarrow> gostr" where
  "strip_any es s =
     (case find (\<lambda>e. e \<noteq> [] \<and> prefix e s) es of
        None \<Rightarrow> s
      | Some e \<Rightarrow> strip_any es (drop (length e) s))"
  by pat_completeness auto
termination
proof (relation "measure (\<lambda>(es, s). length s)", simp)
  fix es :: "gostr list" and s e
  assume "find (\<lambda>e. e \<noteq> [] \<and> prefix e s) es = Some e"
  then have "e \<noteq> [] \<and> prefix e s" by (auto simp: find_Some_iff)
  then show "((es, drop (length e) s), (es, s)) \<in> measure (\<lambda>(es, s). length s)"
    by (auto simp: prefix_def)
qed

declare strip_any.simps [simp del]

definition trim_left_space :: "gostr \<Rightarrow> gostr" where
  "trim_left_space s = strip_any space_encodings s"

definition trim_right_space :: "gostr \<Rightarrow> gostr" where
  "trim_right_space s = rev (strip_any (map rev space_encodings) (rev s))"

text \<open>\<open>strings.TrimSpace\<close>.\<close>

definition trim_space :: "gostr \<Rightarrow> gostr" where
  "trim_space s = trim_right_space (trim_left_space s)"

text \<open>\<open>strings.Trim(s, "c")\<close> and \<open>strings.TrimRight(s, "c")\<close> for a one-byte cutset.\<close>

definition trim_right_char :: "char \<Rightarrow> gostr \<Rightarrow> gostr" where
  "trim_right_char c s = rev (dropWhile (\<lambda>x. x = c) (rev s))"

definition trim_char :: "char \<Rightarrow> gostr \<Rightarrow> gostr" where
  "trim_char c s = trim_right_char c (dropWhile (\<lambda>x. x = c) s)"

text \<open>\<open>strings.ToLower\<close> on ASCII.\<close>

definition lower_char :: "char \<Rightarrow> char" where
  "lower_char c =
     (if 65 \<le> (of_char c :: nat) \<and> (of_char c :: nat) \<le> 90
      then char_of ((of_char c :: nat) + 32) else c)"

definition to_lower :: "gostr \<Rightarrow> gostr" where
  "to_lower s = map lower_char s"

text \<open>\<open>strings.Split\<close> with a one-byte separator: never empty.\<close>

fun split_on :: "char \<Rightarrow> gostr \<Rightarrow> gostr list" where
  "split_on c [] = [[]]"
| "split_on c (x # xs) =
     (if x = c then [] # split_on c xs
      else (case split_on c xs of [] \<Rightarrow> [[x]] | y # ys \<Rightarrow> (x # y) # ys))"

text \<open>\<open>strings.Join\<close>.\<close>

fun join_with :: "gostr \<Rightarrow> gostr list \<Rightarrow> gostr" where
  "join_with sep [] = []"
| "join_with sep [x] = x"
| "join_with sep (x # y # ys) = x @ sep @ join_with sep (y # ys)"

abbreviation has_prefix :: "gostr \<Rightarrow> gostr \<Rightarrow> bool" where
  "has_prefix s p \<equiv> prefix p s"

abbreviation slash :: char where
  "slash \<equiv> CHR 0x2F"

text \<open>\<open>%d\<close> of package \<open>fmt\<close>.\<close>

fun show_nat :: "nat \<Rightarrow> gostr" where
  "show_nat n = (if n < 10 then [char_of (48 + n)]
                 else show_nat (n div 10) @ [char_of (48 + n mod 10)])"

declare show_nat.simps [simp del]

definition show_int :: "int \<Rightarrow> gostr" where
  "show_int i = (if i < 0 then CHR 0x2D # show_nat (nat (- i)) else show_nat (nat i))"

text \<open>Signed 64-bit arithmetic wraps around.\<close>

definition wrap64 :: "int \<Rightarrow> int" where
  "wrap64 x = (x + 2 ^ 63) mod 2 ^ 64 - 2 ^ 63"

text \<open>\<open>len([]rune(s))\<close>: the width of the first rune, one byte where the encoding is broken.\<close>

definition cont_byte :: "nat \<Rightarrow> nat \<Rightarrow> char \<Rightarrow> bool" where
  "cont_byte lo hi c \<longleftrightarrow> lo \<le> (of_char c :: nat) \<and> (of_char c :: nat) \<le> hi"

definition second_byte :: "nat \<Rightarrow> char \<Rightarrow> bool" where
  "second_byte b = (if b = 0xE0 then cont_byte 0xA0 0xBF
     else if b = 0xED then cont_byte 0x80 0x9F
     else if b = 0xF0 then cont_byte 0x90 0xBF
     else if b = 0xF4 then cont_byte 0x80 0x8F
     else cont_byte 0x80 0xBF)"

definition rune_bytes :: "nat \<Rightarrow> nat" where
  "rune_bytes b = (if 0xC2 \<le> b \<and> b \<le> 0xDF then 2
     else if 0xE0 \<le> b \<and> b \<le> 0xEF then 3
     else if 0xF0 \<le> b \<and> b \<le> 0xF4 then 4 else 1)"

definition rune_width :: "char \<Rightarrow> gostr \<Rightarrow> nat" where
  "rune_width c rest =
     (let b = of_char c; n = rune_bytes b; tail = take (n - 1) rest in
      if length tail = n - 1 \<and>
         (case tail of [] \<Rightarrow> True
          | x # xs \<Rightarrow> second_byte b x \<and> list_all (cont_byte 0x80 0xBF) xs)
      then n else 1)"

function rune_count :: "gostr \<Rightarrow> nat" where
  "rune_count [] = 0"
| "rune_count (c # rest) = Suc (rune_count (drop (rune_width c rest - 1) rest))"
  by pat_completeness auto
termination
  by (relation "measure length") auto

text \<open>SQL \<open>LIKE\<close>: the percent sign, the underscore and the backslash escape.\<close>

function sql_like :: "gostr \<Rightarrow> gostr \<Rightarrow> bool" where
  "sql_like [] s = (s = [])"
| "sql_like (p # ps) [] = (p = CHR ''%'' \<and> sql_like ps [])"
| "sql_like (p # ps) (c # s) =
     (if p = CHR ''%'' then sql_like ps (c # s) \<or> sql_like (p # ps) s
      else if p = CHR ''_'' then sql_like ps s
      else if p = CHR 0x5C \<and> ps \<noteq> [] then c = hd ps \<and> sql_like (tl ps) s
      else c = p \<and> sql_like ps s)"
  by pat_completeness auto
termination
  by (relation "measure (\<lambda>(p, s). length p + length s)") auto

section \<open>Facts about trimming\<close>

definition no_lead :: "gostr list \<Rightarrow> gostr \<Rightarrow> bool" where
  "no_lead es s \<longleftrightarrow> (\<forall>e \<in> set es. e \<noteq> [] \<longrightarrow> \<not> prefix e s)"

lemma strip_any_fix: "no_lead es s \<Longrightarrow> strip_any es s = s"
  by (subst strip_any.simps) (auto simp: no_lead_def find_None_iff split: option.splits
      dest!: find_Some_iff [THEN iffD1] nth_mem)

lemma no_lead_strip_any: "no_lead es (strip_any es s)"
proof (induction es s rule: strip_any.induct)
  case (1 es s)
  show ?case
  proof (cases "find (\<lambda>e. e \<noteq> [] \<and> prefix e s) es")
    case None
    then have "no_lead es s" by (auto simp: find_None_iff no_lead_def)
    then show ?thesis by (simp add: strip_any_fix)
  next
    case (Some e)
    with "1" [OF Some] show ?thesis by (subst strip_any.simps) simp
  qed
qed

lemma strip_any_suffix: "suffix (strip_any es s) s"
proof (induction es s rule: strip_any.induct)
  case (1 es s)
  show ?case
  proof (cases "find (\<lambda>e. e \<noteq> [] \<and> prefix e s) es")
    case None
    then show ?thesis by (subst strip_any.simps) simp
  next
    case (Some e)
    have "suffix (strip_any es (drop (length e) s)) s"
      by (rule suffix_order.trans [OF "1" [OF Some] suffix_drop])
    with Some show ?thesis by (subst strip_any.simps) simp
  qed
qed

lemma no_lead_prefix: "no_lead es s \<Longrightarrow> prefix t s \<Longrightarrow> no_lead es t"
  by (auto simp: no_lead_def dest: prefix_order.trans)

lemma prefix_trim_right_space: "prefix (trim_right_space s) s"
  unfolding trim_right_space_def
  using strip_any_suffix [of "map rev space_encodings" "rev s"]
  by (metis rev_rev_ident suffix_to_prefix)

definition trimmed :: "gostr \<Rightarrow> bool" where
  "trimmed s \<longleftrightarrow> no_lead space_encodings s \<and> no_lead (map rev space_encodings) (rev s)"

lemma trim_space_fix: "trimmed s \<Longrightarrow> trim_space s = s"
  by (simp add: trimmed_def trim_space_def trim_left_space_def trim_right_space_def strip_any_fix)

lemma trimmed_trim_space [simp]: "trimmed (trim_space s)"
proof -
  have "no_lead space_encodings (trim_space s)"
    unfolding trim_space_def trim_left_space_def
    by (rule no_lead_prefix [OF no_lead_strip_any prefix_trim_right_space])
  moreover have "no_lead (map rev space_encodings) (rev (trim_space s))"
    by (simp add: trim_space_def trim_right_space_def no_lead_strip_any)
  ultimately show ?thesis by (simp add: trimmed_def)
qed

lemma trim_space_idem [simp]: "trim_space (trim_space s) = trim_space s"
  by (simp add: trim_space_fix)

lemma trim_space_Nil [simp]: "trim_space [] = []"
proof -
  have "trimmed []" by (auto simp: trimmed_def no_lead_def)
  then show ?thesis by (rule trim_space_fix)
qed

text \<open>A string that starts and ends with a printing ASCII byte is its own trim.\<close>

definition plain_char :: "char \<Rightarrow> bool" where
  "plain_char c \<longleftrightarrow> 33 \<le> (of_char c :: nat) \<and> (of_char c :: nat) \<le> 126"

lemma space_encodings_ends:
  "e \<in> set space_encodings \<Longrightarrow> e \<noteq> [] \<and> \<not> plain_char (hd e) \<and> \<not> plain_char (last e)"
  by (auto simp: space_encodings_def plain_char_def)

lemma no_lead_plain:
  assumes "s = [] \<or> plain_char (hd s)" and "\<And>e. e \<in> set es \<Longrightarrow> e \<noteq> [] \<and> \<not> plain_char (hd e)"
  shows "no_lead es s"
  using assms by (fastforce simp: no_lead_def prefix_def)

lemma trimmed_plain:
  assumes "s = [] \<or> plain_char (hd s) \<and> plain_char (last s)"
  shows "trimmed s"
proof -
  have "no_lead space_encodings s"
    using assms by (intro no_lead_plain) (auto dest: space_encodings_ends)
  moreover have "no_lead (map rev space_encodings) (rev s)"
    using assms by (intro no_lead_plain) (auto simp: hd_rev dest: space_encodings_ends)
  ultimately show ?thesis by (simp add: trimmed_def)
qed

lemma trim_space_plain [go_string_simps]:
  "s = [] \<or> plain_char (hd s) \<and> plain_char (last s) \<Longrightarrow> trim_space s = s"
  by (rule trim_space_fix [OF trimmed_plain])

lemma prefix_trim_right_char: "prefix (trim_right_char c s) s"
  unfolding trim_right_char_def by (metis rev_rev_ident suffix_dropWhile suffix_to_prefix)

lemma trim_char_ends:
  assumes "trim_char c s \<noteq> []"
  shows "hd (trim_char c s) \<noteq> c \<and> last (trim_char c s) \<noteq> c"
proof
  let ?d = "dropWhile (\<lambda>x. x = c) s"
  have "?d \<noteq> []"
    using assms by (auto simp: trim_char_def trim_right_char_def simp del: dropWhile_eq_Nil_conv)
  then have "hd ?d \<noteq> c" using hd_dropWhile [of "\<lambda>x. x = c" s] by auto
  moreover obtain zs where "?d = trim_char c s @ zs"
    using prefix_trim_right_char [of c ?d] by (auto simp: trim_char_def prefix_def)
  ultimately show "hd (trim_char c s) \<noteq> c" using assms by (cases "trim_char c s") auto
  have "dropWhile (\<lambda>x. x = c) (rev ?d) \<noteq> []"
    using assms by (simp add: trim_char_def trim_right_char_def)
  then show "last (trim_char c s) \<noteq> c"
    using hd_dropWhile [of "\<lambda>x. x = c" "rev ?d"]
    by (simp add: trim_char_def trim_right_char_def last_rev)
qed

lemma trim_char_fix:
  assumes "s = [] \<or> hd s \<noteq> c \<and> last s \<noteq> c"
  shows "trim_char c s = s"
proof (cases "s = []")
  case True
  then show ?thesis by (simp add: trim_char_def trim_right_char_def)
next
  case False
  with assms have "dropWhile (\<lambda>x. x = c) s = s" by (cases s) auto
  moreover have "dropWhile (\<lambda>x. x = c) (rev s) = rev s"
    using assms False by (cases "rev s") (auto simp: last_rev [symmetric] hd_rev)
  ultimately show ?thesis by (simp add: trim_char_def trim_right_char_def)
qed

section \<open>Facts about splitting, joining and case\<close>

lemma split_on_not_Nil [simp]: "split_on c s \<noteq> []"
  by (induction s) (auto split: list.splits)

lemma split_on_no_sep: "x \<in> set (split_on c s) \<Longrightarrow> c \<notin> set x"
  by (induction s arbitrary: x) (auto split: list.splits if_splits)

lemma join_split_on: "join_with [c] (split_on c s) = s"
proof (induction s)
  case Nil
  then show ?case by simp
next
  case (Cons a s)
  obtain y ys where "split_on c s = y # ys" by (cases "split_on c s") auto
  with Cons show ?case by (cases ys) auto
qed

lemma split_on_append_sep:
  "c \<notin> set x \<Longrightarrow> split_on c (x @ c # s) = x # split_on c s"
  by (induction x) auto

lemma length_split_on: "length (split_on c s) = Suc (count_list s c)"
  by (induction s) (auto split: list.splits)

lemma split_on_single: "c \<notin> set x \<Longrightarrow> split_on c x = [x]"
  by (induction x) auto

lemma split_on_join_with:
  "xs \<noteq> [] \<Longrightarrow> (\<And>x. x \<in> set xs \<Longrightarrow> c \<notin> set x) \<Longrightarrow> split_on c (join_with [c] xs) = xs"
  by (induction "[c]" xs rule: join_with.induct) (auto simp: split_on_append_sep split_on_single)

lemma join_with_append:
  "xs \<noteq> [] \<Longrightarrow> ys \<noteq> [] \<Longrightarrow> join_with sep (xs @ ys) = join_with sep xs @ sep @ join_with sep ys"
  by (induction sep xs rule: join_with.induct) (auto simp: neq_Nil_conv)

lemma split_on_append: "split_on c (x @ c # s) = split_on c x @ split_on c s"
  by (induction x) (auto split: list.splits)

lemma join_take_split:
  assumes "0 < i" and "i \<le> length (split_on c s)"
  shows "s = join_with [c] (take i (split_on c s)) \<or>
         prefix (join_with [c] (take i (split_on c s)) @ [c]) s"
proof (cases "i = length (split_on c s)")
  case True
  then show ?thesis by (simp add: join_split_on)
next
  case False
  let ?p = "split_on c s"
  have "take i ?p \<noteq> []" and "drop i ?p \<noteq> []" using assms False by auto
  then have "join_with [c] (take i ?p @ drop i ?p) =
      join_with [c] (take i ?p) @ [c] @ join_with [c] (drop i ?p)"
    by (rule join_with_append)
  then have "s = (join_with [c] (take i ?p) @ [c]) @ join_with [c] (drop i ?p)"
    by (simp add: join_split_on)
  then show ?thesis by (metis prefixI)
qed

lemma prefix_is_join_take:
  assumes "prefix (x @ [c]) s"
  shows "x = join_with [c] (take (length (split_on c x)) (split_on c s)) \<and>
         0 < length (split_on c x) \<and> length (split_on c x) \<le> length (split_on c s)"
proof -
  from assms obtain t where "s = x @ c # t" by (auto simp: prefix_def)
  then have "split_on c s = split_on c x @ split_on c t" by (simp add: split_on_append)
  then show ?thesis by (simp add: join_split_on)
qed

lemma lower_char_idem [simp]: "lower_char (lower_char c) = lower_char c"
  by (auto simp: lower_char_def)

lemma to_lower_idem [simp]: "to_lower (to_lower s) = to_lower s"
  by (simp add: to_lower_def)

lemma to_lower_Nil [simp]: "to_lower [] = []" "to_lower s = [] \<longleftrightarrow> s = []"
  by (auto simp: to_lower_def)

text \<open>Lower-casing neither makes nor removes white space.\<close>

lemma lower_char_inert:
  assumes "\<not> (65 \<le> (of_char x :: nat) \<and> of_char x \<le> (90 :: nat))"
    and "\<not> (97 \<le> (of_char x :: nat) \<and> of_char x \<le> (122 :: nat))"
  shows "lower_char c = x \<longleftrightarrow> c = x"
proof
  assume l: "lower_char c = x"
  show "c = x"
  proof (cases "65 \<le> (of_char c :: nat) \<and> (of_char c :: nat) \<le> 90")
    case True
    then have "(of_char (lower_char c) :: nat) = of_char c + 32"
      by (simp add: lower_char_def)
    with True assms(2) l show ?thesis by simp
  next
    case False
    with l show ?thesis by (simp only: lower_char_def if_False)
  qed
next
  assume "c = x"
  with assms(1) show "lower_char c = x" by (auto simp: lower_char_def)
qed

lemma space_encodings_inert:
  "e \<in> set space_encodings \<Longrightarrow> x \<in> set e \<Longrightarrow> lower_char c = x \<longleftrightarrow> c = x"
  by (rule lower_char_inert) (auto simp: space_encodings_def)

lemma prefix_to_lower:
  "(\<And>x c. x \<in> set e \<Longrightarrow> lower_char c = x \<longleftrightarrow> c = x) \<Longrightarrow> prefix e (map lower_char s) \<longleftrightarrow> prefix e s"
proof (induction e arbitrary: s)
  case Nil
  then show ?case by simp
next
  case (Cons a e)
  then show ?case by (cases s) (auto simp: eq_commute [of a])
qed

lemma trimmed_to_lower [simp]: "trimmed (to_lower s) \<longleftrightarrow> trimmed s"
proof -
  have "prefix e (map lower_char s) \<longleftrightarrow> prefix e s" if "e \<in> set space_encodings" for e
    using that by (intro prefix_to_lower) (rule space_encodings_inert)
  moreover have "prefix (rev e) (map lower_char (rev s)) \<longleftrightarrow> prefix (rev e) (rev s)"
    if "e \<in> set space_encodings" for e
    using that by (intro prefix_to_lower) (auto dest: space_encodings_inert)
  ultimately show ?thesis by (auto simp: trimmed_def no_lead_def to_lower_def rev_map)
qed

lemma lower_trim_idem [simp]: "to_lower (trim_space (to_lower (trim_space s))) = to_lower (trim_space s)"
  by (simp add: trim_space_fix)

lemma trim_lower_trim [simp]: "trim_space (to_lower (trim_space s)) = to_lower (trim_space s)"
  by (simp add: trim_space_fix)

lemma wrap64_id: "- (2 ^ 63) \<le> x \<Longrightarrow> x < 2 ^ 63 \<Longrightarrow> wrap64 x = x"
  by (simp add: wrap64_def)

lemma wrap64_range: "- (2 ^ 63) \<le> wrap64 x \<and> wrap64 x < 2 ^ 63"
  by (simp add: wrap64_def)

section \<open>Patterns\<close>

text \<open>\<open>LIKE\<close> without wildcards in the fixed part.\<close>

definition literal_pattern :: "gostr \<Rightarrow> bool" where
  "literal_pattern p \<longleftrightarrow> CHR ''%'' \<notin> set p \<and> CHR ''_'' \<notin> set p \<and> CHR 0x5C \<notin> set p"

lemma like_percent: "sql_like ''%'' s"
  by (induction s) (simp_all only: sql_like.simps, simp_all)

lemma like_literal_prefix:
  "literal_pattern p \<Longrightarrow> sql_like (p @ ''%'') s \<longleftrightarrow> has_prefix s p"
proof (induction p arbitrary: s)
  case Nil
  show ?case by (simp add: like_percent)
next
  case (Cons c p)
  then have "c \<noteq> CHR ''%''" "c \<noteq> CHR ''_''" "c \<noteq> CHR 0x5C" "literal_pattern p"
    by (auto simp: literal_pattern_def)
  with Cons.IH show ?case by (cases s) auto
qed

end
