(* ===== verification/Store.thy ===== *)
theory Store
  imports GoBase
begin

text \<open>
  The relational store and the effects of a service: tables are lists of rows, a statement
  reads or rewrites the tables, may fail (the database is down, a connection drops), and a
  transaction that returns an error puts the tables back. Every operation of a service is an
  action on a world: the clock the service reads, the auto-increment counters, the pending
  faults that decide which of the next statements fail, and the tables.
\<close>

section \<open>Tables as lists of rows\<close>

named_theorems table_simps

text \<open>\<open>SELECT ... WHERE\<close>, \<open>UPDATE ... WHERE\<close>, \<open>RowsAffected\<close>, \<open>LIMIT\<close>.\<close>

definition sel :: "('r \<Rightarrow> bool) \<Rightarrow> 'r list \<Rightarrow> 'r list" where
  "sel P rows = filter P rows"

definition upd :: "('r \<Rightarrow> bool) \<Rightarrow> ('r \<Rightarrow> 'r) \<Rightarrow> 'r list \<Rightarrow> 'r list" where
  "upd P f rows = map (\<lambda>r. if P r then f r else r) rows"

definition hits :: "('r \<Rightarrow> bool) \<Rightarrow> 'r list \<Rightarrow> nat" where
  "hits P rows = length (filter P rows)"

definition first_row :: "('r \<Rightarrow> bool) \<Rightarrow> 'r list \<Rightarrow> 'r option" where
  "first_row P rows = find P rows"

definition limit_rows :: "int \<Rightarrow> 'r list \<Rightarrow> 'r list" where
  "limit_rows n rows = (if n > 0 then take (nat n) rows else rows)"

definition offset_rows :: "int \<Rightarrow> 'r list \<Rightarrow> 'r list" where
  "offset_rows n rows = (if n > 0 then drop (nat n) rows else rows)"

text \<open>\<open>ORDER BY k1 ASC, k2 ASC\<close>; a descending column is ordered by its negation.\<close>

definition order2 :: "('r \<Rightarrow> 'a::linorder) \<Rightarrow> ('r \<Rightarrow> 'b::linorder) \<Rightarrow> 'r list \<Rightarrow> 'r list" where
  "order2 k1 k2 rows = sort_key k1 (sort_key k2 rows)"

lemma set_upd: "set (upd P f rows) = (\<lambda>r. if P r then f r else r) ` set rows"
  by (simp add: upd_def)

lemma in_upd_iff [table_simps]:
  "x \<in> set (upd P f rows) \<longleftrightarrow> (\<exists>r \<in> set rows. x = (if P r then f r else r))"
  by (auto simp: upd_def)

lemma length_upd [simp]: "length (upd P f rows) = length rows"
  by (simp add: upd_def)

lemma map_upd [table_simps]: "(\<And>r. P r \<Longrightarrow> k (f r) = k r) \<Longrightarrow> map k (upd P f rows) = map k rows"
  by (simp add: upd_def)

lemma upd_Nil [simp]: "upd P f [] = []" and sel_Nil [simp]: "sel P [] = []"
  and hits_Nil [simp]: "hits P [] = 0" and first_row_Nil [simp]: "first_row P [] = None"
  by (simp_all add: upd_def sel_def hits_def first_row_def)

lemma upd_Cons [simp]: "upd P f (r # rows) = (if P r then f r else r) # upd P f rows"
  by (simp add: upd_def)

lemma sel_Cons [simp]: "sel P (r # rows) = (if P r then r # sel P rows else sel P rows)"
  by (simp add: sel_def)

lemma first_row_Cons [simp]:
  "first_row P (r # rows) = (if P r then Some r else first_row P rows)"
  by (simp add: first_row_def)

lemma hits_Cons [simp]: "hits P (r # rows) = (if P r then Suc (hits P rows) else hits P rows)"
  by (simp add: hits_def)

lemma set_sel [simp]: "set (sel P rows) = {r \<in> set rows. P r}"
  by (simp add: sel_def)

lemma hits_pos: "0 < hits P rows \<longleftrightarrow> (\<exists>r \<in> set rows. P r)"
  by (auto simp: hits_def filter_empty_conv)

lemma hits_append [simp]: "hits P (xs @ ys) = hits P xs + hits P ys"
  by (simp add: hits_def)

lemma first_row_Some: "first_row P rows = Some r \<Longrightarrow> r \<in> set rows \<and> P r"
  by (auto simp: first_row_def find_Some_iff)

lemma first_row_None: "first_row P rows = None \<longleftrightarrow> (\<forall>r \<in> set rows. \<not> P r)"
  by (auto simp: first_row_def find_None_iff)

lemma set_order2 [simp]: "set (order2 k1 k2 rows) = set rows"
  by (simp add: order2_def)

lemma set_limit_rows: "set (limit_rows n rows) \<subseteq> set rows"
  by (auto simp: limit_rows_def dest: in_set_takeD)

text \<open>How an update changes the number of rows of a kind.\<close>

lemma hits_upd_other:
  "(\<And>r. r \<in> set rows \<Longrightarrow> P r \<Longrightarrow> Q (f r) \<longleftrightarrow> Q r) \<Longrightarrow> hits Q (upd P f rows) = hits Q rows"
  by (induction rows) auto

lemma hits_upd_le:
  "(\<And>r. r \<in> set rows \<Longrightarrow> P r \<Longrightarrow> Q (f r) \<Longrightarrow> Q r) \<Longrightarrow> hits Q (upd P f rows) \<le> hits Q rows"
  by (induction rows) (auto simp: le_SucI)

lemma hits_upd_grow: "hits Q (upd P f rows) \<le> hits Q rows + hits P rows"
  by (induction rows) auto

lemma hits_mono: "(\<And>r. r \<in> set rows \<Longrightarrow> P r \<Longrightarrow> Q r) \<Longrightarrow> hits P rows \<le> hits Q rows"
  by (induction rows) (auto simp: le_SucI)

section \<open>Worlds and actions\<close>

record 's world =
  clock :: int
  seqs :: "string \<Rightarrow> int"
  faults :: "bool list"
  store :: 's

type_synonym ('s, 'e, 'a) act = "'s world \<Rightarrow> ('e + 'a) \<times> 's world"

definition ret :: "'a \<Rightarrow> ('s, 'e, 'a) act" where
  "ret a = (\<lambda>w. (Inr a, w))"

definition fail :: "'e \<Rightarrow> ('s, 'e, 'a) act" where
  "fail e = (\<lambda>w. (Inl e, w))"

definition andThen :: "('s, 'e, 'a) act \<Rightarrow> ('a \<Rightarrow> ('s, 'e, 'b) act) \<Rightarrow> ('s, 'e, 'b) act" where
  "andThen m f = (\<lambda>w. case m w of (Inl e, w') \<Rightarrow> (Inl e, w') | (Inr a, w') \<Rightarrow> f a w')"

text \<open>The result of an action as a value, for the code that inspects an error.\<close>

definition attempt :: "('s, 'e, 'a) act \<Rightarrow> ('s, 'f, 'e + 'a) act" where
  "attempt m = (\<lambda>w. case m w of (r, w') \<Rightarrow> (Inr r, w'))"

definition now :: "('s, 'e, int) act" where
  "now = (\<lambda>w. (Inr (clock w), w))"

definition next_fails :: "'s world \<Rightarrow> bool" where
  "next_fails w \<longleftrightarrow> (case faults w of [] \<Rightarrow> False | b # _ \<Rightarrow> b)"

text \<open>One statement: it fails with \<open>e\<close> if the next fault says so.\<close>

definition stmt :: "'e \<Rightarrow> ('s \<Rightarrow> ('e + 'a) \<times> 's) \<Rightarrow> ('s, 'e, 'a) act" where
  "stmt e f = (\<lambda>w.
     if next_fails w then (Inl e, w\<lparr>faults := tl (faults w)\<rparr>)
     else (case f (store w) of (r, s) \<Rightarrow> (r, w\<lparr>faults := tl (faults w), store := s\<rparr>)))"

definition query :: "'e \<Rightarrow> ('s \<Rightarrow> 'a) \<Rightarrow> ('s, 'e, 'a) act" where
  "query e f = stmt e (\<lambda>s. (Inr (f s), s))"

definition modify :: "'e \<Rightarrow> ('s \<Rightarrow> 'a \<times> 's) \<Rightarrow> ('s, 'e, 'a) act" where
  "modify e f = stmt e (\<lambda>s. case f s of (a, s') \<Rightarrow> (Inr a, s'))"

text \<open>The counter behind an auto-increment column; a rolled back insert still uses its number.\<close>

definition next_id :: "string \<Rightarrow> ('s, 'e, int) act" where
  "next_id t = (\<lambda>w. (Inr (seqs w t + 1), w\<lparr>seqs := (seqs w)(t := seqs w t + 1)\<rparr>))"

text \<open>\<open>db.Transaction\<close>: an error of the body or of the commit restores the tables.\<close>

definition tx :: "'e \<Rightarrow> ('s, 'e, 'a) act \<Rightarrow> ('s, 'e, 'a) act" where
  "tx e m = (\<lambda>w. case m w of
       (Inl err, w') \<Rightarrow> (Inl err, w'\<lparr>store := store w\<rparr>)
     | (Inr a, w') \<Rightarrow>
         (if next_fails w' then (Inl e, w'\<lparr>faults := tl (faults w'), store := store w\<rparr>)
          else (Inr a, w'\<lparr>faults := tl (faults w')\<rparr>)))"

definition only_if :: "bool \<Rightarrow> ('s, 'e, unit) act \<Rightarrow> ('s, 'e, unit) act" where
  "only_if b m = (if b then m else ret ())"

text \<open>A loop that runs an action for every element, and stops at the first error.\<close>

fun for_each :: "('x \<Rightarrow> ('s, 'e, unit) act) \<Rightarrow> 'x list \<Rightarrow> ('s, 'e, unit) act" where
  "for_each f [] = ret ()"
| "for_each f (x # xs) = andThen (f x) (\<lambda>_. for_each f xs)"

text \<open>A loop with an accumulator whose body handles its own errors.\<close>

fun fold_act :: "('x \<Rightarrow> 'acc \<Rightarrow> ('s, 'e, 'acc) act) \<Rightarrow> 'x list \<Rightarrow> 'acc \<Rightarrow> ('s, 'e, 'acc) act" where
  "fold_act f [] acc = ret acc"
| "fold_act f (x # xs) acc = andThen (f x acc) (\<lambda>acc'. fold_act f xs acc')"

section \<open>Successful runs\<close>

text \<open>What a run that returned a value has done: the rules that take an action apart.\<close>

named_theorems run_simps

lemma ret_Inr [run_simps]: "ret a w = (Inr b, w') \<longleftrightarrow> b = a \<and> w' = w"
  by (auto simp: ret_def)

lemma fail_Inr [run_simps]: "fail e w = (Inr b, w') \<longleftrightarrow> False"
  by (simp add: fail_def)

lemma andThen_Inr [run_simps]:
  "andThen m f w = (Inr b, w'') \<longleftrightarrow> (\<exists>a w'. m w = (Inr a, w') \<and> f a w' = (Inr b, w''))"
  by (auto simp: andThen_def split: prod.splits sum.splits)

lemma attempt_Inr [run_simps]: "attempt m w = (Inr r, w') \<longleftrightarrow> m w = (r, w')"
  by (auto simp: attempt_def split: prod.splits)

lemma now_Inr [run_simps]: "now w = (Inr t, w') \<longleftrightarrow> t = clock w \<and> w' = w"
  by (auto simp: now_def)

lemma next_id_Inr [run_simps]:
  "next_id t w = (Inr i, w') \<longleftrightarrow>
     i = seqs w t + 1 \<and> w' = w\<lparr>seqs := (seqs w)(t := seqs w t + 1)\<rparr>"
  by (auto simp: next_id_def)

definition next_world :: "'s world \<Rightarrow> 's \<Rightarrow> 's world" where
  "next_world w s = w\<lparr>faults := tl (faults w), store := s\<rparr>"

lemma next_world_fields [simp]:
  "clock (next_world w s) = clock w" "seqs (next_world w s) = seqs w"
  "store (next_world w s) = s" "faults (next_world w s) = tl (faults w)"
  by (simp_all add: next_world_def)

lemma stmt_Inr [run_simps]:
  "stmt e f w = (Inr a, w') \<longleftrightarrow>
     \<not> next_fails w \<and> (\<exists>s. f (store w) = (Inr a, s) \<and> w' = next_world w s)"
  by (auto simp: stmt_def next_world_def split: prod.splits)

lemma query_Inr [run_simps]:
  "query e f w = (Inr a, w') \<longleftrightarrow>
     \<not> next_fails w \<and> a = f (store w) \<and> w' = next_world w (store w)"
  by (auto simp: query_def stmt_Inr)

lemma modify_Inr [run_simps]:
  "modify e f w = (Inr a, w') \<longleftrightarrow>
     \<not> next_fails w \<and> a = fst (f (store w)) \<and> w' = next_world w (snd (f (store w)))"
  by (auto simp: modify_def stmt_Inr split: prod.splits)

lemma tx_Inr [run_simps]:
  "tx e m w = (Inr a, w'') \<longleftrightarrow>
     (\<exists>w'. m w = (Inr a, w') \<and> \<not> next_fails w' \<and> w'' = next_world w' (store w'))"
  by (auto simp: tx_def next_world_def split: prod.splits sum.splits if_splits)

lemma only_if_Inr [run_simps]:
  "only_if b m w = (Inr u, w') \<longleftrightarrow> (if b then m w = (Inr u, w') else w' = w)"
  by (auto simp: only_if_def ret_def)

lemma andThen_assoc: "andThen (andThen m f) g = andThen m (\<lambda>a. andThen (f a) g)"
  by (auto simp: andThen_def fun_eq_iff split: prod.split sum.split)

text \<open>A transaction that returned an error left the tables as they were.\<close>

lemma tx_Inl_store: "tx e m w = (Inl err, w') \<Longrightarrow> store w' = store w"
  by (auto simp: tx_def split: prod.splits sum.splits if_splits)

section \<open>Runs without a fault\<close>

text \<open>With no fault pending the actions compute: the rules that evaluate an action.\<close>

named_theorems calm_simps

lemma next_fails_calm [calm_simps]: "faults w = [] \<Longrightarrow> \<not> next_fails w"
  by (simp add: next_fails_def)

lemma stmt_calm [calm_simps]:
  "faults w = [] \<Longrightarrow> stmt e f w = (fst (f (store w)), w\<lparr>store := snd (f (store w))\<rparr>)"
  by (simp add: stmt_def next_fails_def split: prod.splits)

lemma query_calm [calm_simps]: "faults w = [] \<Longrightarrow> query e f w = (Inr (f (store w)), w)"
  by (simp add: query_def stmt_calm)

lemma modify_calm [calm_simps]:
  "faults w = [] \<Longrightarrow>
     modify e f w = (Inr (fst (f (store w))), w\<lparr>store := snd (f (store w))\<rparr>)"
  by (simp add: modify_def stmt_calm split: prod.splits)

lemma ret_calm [calm_simps]: "ret a w = (Inr a, w)"
  by (simp add: ret_def)

lemma fail_calm [calm_simps]: "fail e w = (Inl e, w)"
  by (simp add: fail_def)

lemma now_calm [calm_simps]: "now w = (Inr (clock w), w)"
  by (simp add: now_def)

lemma next_id_calm [calm_simps]:
  "next_id t w = (Inr (seqs w t + 1), w\<lparr>seqs := (seqs w)(t := seqs w t + 1)\<rparr>)"
  by (simp add: next_id_def)

lemma andThen_calm [calm_simps]:
  "andThen m f w = (case m w of (Inl e, w') \<Rightarrow> (Inl e, w') | (Inr a, w') \<Rightarrow> f a w')"
  by (simp add: andThen_def)

lemma attempt_calm [calm_simps]: "attempt m w = (case m w of (r, w') \<Rightarrow> (Inr r, w'))"
  by (simp add: attempt_def)

lemma only_if_calm [calm_simps]: "only_if b m w = (if b then m w else (Inr (), w))"
  by (simp add: only_if_def ret_def)

section \<open>Invariants of the tables\<close>

text \<open>An action keeps a predicate of the tables, whether it succeeds or fails.\<close>

definition stable :: "('s \<Rightarrow> bool) \<Rightarrow> ('s, 'e, 'a) act \<Rightarrow> bool" where
  "stable I m \<longleftrightarrow> (\<forall>w. I (store w) \<longrightarrow> I (store (snd (m w))))"

named_theorems stable_intros

lemma stableD: "stable I m \<Longrightarrow> I (store w) \<Longrightarrow> m w = (r, w') \<Longrightarrow> I (store w')"
  by (metis snd_conv stable_def)

lemma stable_ret [stable_intros]: "stable I (ret a)"
  and stable_fail [stable_intros]: "stable I (fail e)"
  and stable_now [stable_intros]: "stable I now"
  and stable_next_id [stable_intros]: "stable I (next_id t)"
  by (simp_all add: stable_def ret_def fail_def now_def next_id_def)

lemma stable_andThen [stable_intros]:
  "stable I m \<Longrightarrow> (\<And>a. stable I (f a)) \<Longrightarrow> stable I (andThen m f)"
  by (auto simp: stable_def andThen_def split: prod.splits sum.splits)

lemma stable_attempt [stable_intros]: "stable I m \<Longrightarrow> stable I (attempt m)"
  by (auto simp: stable_def attempt_def split: prod.splits)

lemma stable_only_if [stable_intros]: "(b \<Longrightarrow> stable I m) \<Longrightarrow> stable I (only_if b m)"
  by (auto simp: only_if_def stable_ret)

lemma stable_stmt:
  "(\<And>s. I s \<Longrightarrow> I (snd (f s))) \<Longrightarrow> stable I (stmt e f)"
  by (auto simp: stable_def stmt_def split: prod.splits) (metis snd_conv)

lemma stable_query [stable_intros]: "stable I (query e f)"
  by (simp add: query_def stable_stmt)

lemma stable_modify: "(\<And>s. I s \<Longrightarrow> I (snd (f s))) \<Longrightarrow> stable I (modify e f)"
  unfolding modify_def by (rule stable_stmt) (auto split: prod.splits, metis snd_conv)

lemma stable_for_each [stable_intros]:
  "(\<And>x. x \<in> set xs \<Longrightarrow> stable I (f x)) \<Longrightarrow> stable I (for_each f xs)"
  by (induction xs) (auto intro: stable_ret stable_andThen)

lemma stable_fold_act [stable_intros]:
  "(\<And>x acc. stable I (f x acc)) \<Longrightarrow> stable I (fold_act f xs acc)"
  by (induction xs arbitrary: acc) (auto intro: stable_ret stable_andThen)

text \<open>For a transaction only the successful runs of its body count.\<close>

lemma stable_tx:
  assumes "\<And>w a w'. I (store w) \<Longrightarrow> m w = (Inr a, w') \<Longrightarrow> I (store w')"
  shows "stable I (tx e m)"
  using assms by (auto simp: stable_def tx_def split: prod.splits sum.splits)

lemma stable_tx_body [stable_intros]: "stable I m \<Longrightarrow> stable I (tx e m)"
  by (rule stable_tx) (rule stableD)

section \<open>Counters and the clock\<close>

text \<open>Counters only go up.\<close>

definition counts_up :: "('s, 'e, 'a) act \<Rightarrow> bool" where
  "counts_up m \<longleftrightarrow> (\<forall>w t. seqs w t \<le> seqs (snd (m w)) t)"

named_theorems counts_intros

lemma counts_ret [counts_intros]: "counts_up (ret a)" and counts_fail [counts_intros]: "counts_up (fail e)"
  and counts_now [counts_intros]: "counts_up now" and counts_next_id [counts_intros]: "counts_up (next_id tb)"
  and counts_stmt [counts_intros]: "counts_up (stmt e f)"
  by (auto simp: counts_up_def ret_def fail_def now_def next_id_def stmt_def split: prod.split)

lemma counts_query [counts_intros]: "counts_up (query e q)"
  and counts_modify [counts_intros]: "counts_up (modify e g)"
  by (simp_all add: query_def modify_def counts_stmt)

lemma counts_andThen [counts_intros]:
  "counts_up m \<Longrightarrow> (\<And>a. counts_up (f a)) \<Longrightarrow> counts_up (andThen m f)"
  unfolding counts_up_def andThen_def
  by (auto split: prod.split sum.split) (metis order_trans snd_conv)+

lemma counts_attempt [counts_intros]: "counts_up m \<Longrightarrow> counts_up (attempt m)"
  unfolding counts_up_def attempt_def by (auto split: prod.split) (metis snd_conv)

lemma counts_tx [counts_intros]: "counts_up m \<Longrightarrow> counts_up (tx e m)"
  unfolding counts_up_def tx_def by (auto split: prod.split sum.split) (metis snd_conv)+

lemma counts_if [counts_intros]: "counts_up m \<Longrightarrow> counts_up m' \<Longrightarrow> counts_up (if b then m else m')"
  and counts_case_option [counts_intros]:
    "counts_up n \<Longrightarrow> (\<And>x. counts_up (h x)) \<Longrightarrow> counts_up (case v of None \<Rightarrow> n | Some x \<Rightarrow> h x)"
  and counts_case_sum [counts_intros]:
    "(\<And>x. counts_up (l x)) \<Longrightarrow> (\<And>y. counts_up (r y)) \<Longrightarrow> counts_up (case z of Inl x \<Rightarrow> l x | Inr y \<Rightarrow> r y)"
  and counts_case_prod [counts_intros]:
    "(\<And>a b. counts_up (g a b)) \<Longrightarrow> counts_up (case p of (a, b) \<Rightarrow> g a b)"
  by (simp_all split: option.split sum.split prod.split)

lemma counts_upD: "counts_up m \<Longrightarrow> m w = (r, w') \<Longrightarrow> seqs w t \<le> seqs w' t"
  by (metis counts_up_def snd_conv)

text \<open>No action moves the clock: time passes between them.\<close>

definition timeless :: "('s, 'e, 'a) act \<Rightarrow> bool" where
  "timeless m \<longleftrightarrow> (\<forall>w. clock (snd (m w)) = clock w)"

named_theorems timeless_intros

lemma timeless_ret [timeless_intros]: "timeless (ret a)"
  and timeless_fail [timeless_intros]: "timeless (fail e)"
  and timeless_now [timeless_intros]: "timeless now"
  and timeless_next_id [timeless_intros]: "timeless (next_id tb)"
  and timeless_stmt [timeless_intros]: "timeless (stmt e f)"
  by (auto simp: timeless_def ret_def fail_def now_def next_id_def stmt_def split: prod.split)

lemma timeless_query [timeless_intros]: "timeless (query e q)"
  and timeless_modify [timeless_intros]: "timeless (modify e g)"
  by (simp_all add: query_def modify_def timeless_stmt)

lemma timeless_andThen [timeless_intros]:
  "timeless m \<Longrightarrow> (\<And>a. timeless (f a)) \<Longrightarrow> timeless (andThen m f)"
  unfolding timeless_def andThen_def by (auto split: prod.split sum.split) (metis snd_conv)+

lemma timeless_attempt [timeless_intros]: "timeless m \<Longrightarrow> timeless (attempt m)"
  unfolding timeless_def attempt_def by (auto split: prod.split) (metis snd_conv)

lemma timeless_tx [timeless_intros]: "timeless m \<Longrightarrow> timeless (tx e m)"
  unfolding timeless_def tx_def by (auto split: prod.split sum.split) (metis snd_conv)+

lemma timeless_if [timeless_intros]: "timeless m \<Longrightarrow> timeless m' \<Longrightarrow> timeless (if b then m else m')"
  and timeless_case_option [timeless_intros]:
    "timeless n \<Longrightarrow> (\<And>x. timeless (h x)) \<Longrightarrow> timeless (case v of None \<Rightarrow> n | Some x \<Rightarrow> h x)"
  and timeless_case_sum [timeless_intros]:
    "(\<And>x. timeless (l x)) \<Longrightarrow> (\<And>y. timeless (r y)) \<Longrightarrow> timeless (case z of Inl x \<Rightarrow> l x | Inr y \<Rightarrow> r y)"
  by (simp_all split: option.split sum.split)

lemma timelessD: "timeless m \<Longrightarrow> m w = (r, w') \<Longrightarrow> clock w' = clock w"
  by (metis snd_conv timeless_def)

section \<open>Preconditions and postconditions of successful runs\<close>

text \<open>
  Inside a transaction only the runs that return a value matter, and what they do may depend on
  what an earlier statement read: \<open>hoare P m Q\<close> says that a successful run of \<open>m\<close> from tables
  that satisfy \<open>P\<close> returns a value and leaves tables that satisfy \<open>Q\<close>.
\<close>

definition hoare :: "('s \<Rightarrow> bool) \<Rightarrow> ('s, 'e, 'a) act \<Rightarrow> ('a \<Rightarrow> 's \<Rightarrow> bool) \<Rightarrow> bool" where
  "hoare P m Q \<longleftrightarrow> (\<forall>w a w'. P (store w) \<longrightarrow> m w = (Inr a, w') \<longrightarrow> Q a (store w'))"

abbreviation keeps :: "('s \<Rightarrow> bool) \<Rightarrow> ('s, 'e, 'a) act \<Rightarrow> bool" where
  "keeps I m \<equiv> hoare I m (\<lambda>_. I)"

named_theorems hoare_intros

lemma hoareD: "hoare P m Q \<Longrightarrow> P (store w) \<Longrightarrow> m w = (Inr a, w') \<Longrightarrow> Q a (store w')"
  by (auto simp: hoare_def)

lemma hoare_pre: "hoare P' m Q \<Longrightarrow> (\<And>s. P s \<Longrightarrow> P' s) \<Longrightarrow> hoare P m Q"
  by (auto simp: hoare_def)

lemma hoare_post: "hoare P m Q' \<Longrightarrow> (\<And>a s. Q' a s \<Longrightarrow> Q a s) \<Longrightarrow> hoare P m Q"
  by (auto simp: hoare_def)

lemma hoare_ret: "(\<And>s. P s \<Longrightarrow> Q a s) \<Longrightarrow> hoare P (ret a) Q"
  by (auto simp: hoare_def run_simps)

lemma hoare_fail [hoare_intros]: "hoare P (fail e) Q"
  by (auto simp: hoare_def run_simps)

lemma hoare_now: "(\<And>t s. P s \<Longrightarrow> Q t s) \<Longrightarrow> hoare P now Q"
  by (auto simp: hoare_def run_simps)

lemma hoare_next_id: "(\<And>i s. P s \<Longrightarrow> Q i s) \<Longrightarrow> hoare P (next_id t) Q"
  by (auto simp: hoare_def run_simps)

lemma hoare_andThen:
  "hoare P m R \<Longrightarrow> (\<And>a. hoare (R a) (f a) Q) \<Longrightarrow> hoare P (andThen m f) Q"
  unfolding hoare_def run_simps by blast

lemma hoare_query: "(\<And>s. P s \<Longrightarrow> Q (f s) s) \<Longrightarrow> hoare P (query e f) Q"
  by (auto simp: hoare_def run_simps)

lemma hoare_modify: "(\<And>s. P s \<Longrightarrow> Q (fst (f s)) (snd (f s))) \<Longrightarrow> hoare P (modify e f) Q"
  by (auto simp: hoare_def run_simps)

lemma keeps_stable: "stable I m \<Longrightarrow> keeps I m"
  by (auto simp: hoare_def dest: stableD)

lemma keeps_ret [hoare_intros]: "keeps I (ret a)"
  and keeps_now [hoare_intros]: "keeps I now"
  and keeps_next_id [hoare_intros]: "keeps I (next_id t)"
  and keeps_query [hoare_intros]: "keeps I (query e f)"
  by (auto simp: hoare_def run_simps)

lemma keeps_andThen [hoare_intros]:
  "keeps I m \<Longrightarrow> (\<And>a. hoare I (f a) Q) \<Longrightarrow> hoare I (andThen m f) Q"
  by (rule hoare_andThen)

lemma keeps_only_if [hoare_intros]: "(b \<Longrightarrow> keeps I m) \<Longrightarrow> keeps I (only_if b m)"
  by (auto simp: only_if_def keeps_ret)

lemma keeps_attempt [hoare_intros]: "stable I m \<Longrightarrow> keeps I (attempt m)"
  by (auto simp: hoare_def run_simps dest: stableD)

lemma hoare_tx: "hoare P m Q \<Longrightarrow> hoare P (tx e m) Q"
  unfolding hoare_def run_simps by auto

text \<open>A transaction whose body keeps an invariant when it succeeds keeps it always.\<close>

lemma stable_tx_keeps: "keeps I m \<Longrightarrow> stable I (tx e m)"
  by (rule stable_tx) (auto dest: hoareD)

section \<open>Runs that succeed\<close>

text \<open>
  \<open>achieves P m Q\<close>: with no fault pending, from tables that satisfy \<open>P\<close>, the action returns a
  value and leaves tables that satisfy \<open>Q\<close>, still without a fault.
\<close>

definition achieves :: "('s \<Rightarrow> bool) \<Rightarrow> ('s, 'e, 'a) act \<Rightarrow> ('a \<Rightarrow> 's \<Rightarrow> bool) \<Rightarrow> bool" where
  "achieves P m Q \<longleftrightarrow> (\<forall>w. faults w = [] \<longrightarrow> P (store w) \<longrightarrow>
     (\<exists>a w'. m w = (Inr a, w') \<and> faults w' = [] \<and> Q a (store w')))"

lemma achievesD:
  assumes "achieves P m Q" "faults w = []" "P (store w)"
  obtains a w' where "m w = (Inr a, w')" "faults w' = []" "Q a (store w')"
  using assms unfolding achieves_def by blast

lemma achieves_pre: "achieves P' m Q \<Longrightarrow> (\<And>s. P s \<Longrightarrow> P' s) \<Longrightarrow> achieves P m Q"
  unfolding achieves_def by blast

lemma achieves_post: "achieves P m Q' \<Longrightarrow> (\<And>a s. Q' a s \<Longrightarrow> Q a s) \<Longrightarrow> achieves P m Q"
  unfolding achieves_def by blast

lemma achieves_ret: "(\<And>s. P s \<Longrightarrow> Q a s) \<Longrightarrow> achieves P (ret a) Q"
  by (simp add: achieves_def ret_def)

lemma achieves_now: "(\<And>t s. P s \<Longrightarrow> Q t s) \<Longrightarrow> achieves P now Q"
  by (simp add: achieves_def now_def)

lemma achieves_next_id: "(\<And>i s. P s \<Longrightarrow> Q i s) \<Longrightarrow> achieves P (next_id t) Q"
  by (simp add: achieves_def next_id_def)

lemma achieves_query: "(\<And>s. P s \<Longrightarrow> Q (f s) s) \<Longrightarrow> achieves P (query e f) Q"
  by (simp add: achieves_def query_calm)

lemma achieves_modify: "(\<And>s. P s \<Longrightarrow> Q (fst (f s)) (snd (f s))) \<Longrightarrow> achieves P (modify e f) Q"
  by (simp add: achieves_def modify_calm)

lemma achieves_andThen:
  "achieves P m R \<Longrightarrow> (\<And>a. achieves (R a) (f a) Q) \<Longrightarrow> achieves P (andThen m f) Q"
  unfolding achieves_def andThen_def by fastforce

lemma achieves_attempt: "achieves P m (\<lambda>a. Q (Inr a)) \<Longrightarrow> achieves P (attempt m) Q"
  unfolding achieves_def attempt_def by fastforce

lemma achieves_tx: "achieves P m Q \<Longrightarrow> achieves P (tx e m) Q"
  unfolding achieves_def tx_def by (fastforce simp: next_fails_def)

lemma achieves_only_if:
  "(b \<Longrightarrow> achieves P m Q) \<Longrightarrow> (\<And>s. \<not> b \<Longrightarrow> P s \<Longrightarrow> Q () s) \<Longrightarrow> achieves P (only_if b m) Q"
  by (auto simp: only_if_def intro: achieves_ret)

text \<open>An invariant of every run can be carried along.\<close>

lemma achieves_conj:
  assumes "achieves P m Q" and "hoare R m (\<lambda>_. R')"
  shows "achieves (\<lambda>s. P s \<and> R s) m (\<lambda>a s. Q a s \<and> R' s)"
  using assms unfolding achieves_def hoare_def by blast

section \<open>One table of the store\<close>

text \<open>
  The interface through which the services see a table: its rows, the guarded update
  (\<open>UPDATE ... WHERE P\<close>, with the timestamp GORM adds) and what it promises. A row the guard
  excludes stays as it is; a row that changes is a guarded row with the update applied.
\<close>

locale guarded_table =
  fixes rows :: "'s \<Rightarrow> 'r list"
    and update :: "('r \<Rightarrow> bool) \<Rightarrow> ('r \<Rightarrow> 'r) \<Rightarrow> ('s, 'e, 'n) act"
    and stamp :: "int \<Rightarrow> 'r \<Rightarrow> 'r"
  assumes update_excluded: "\<not> P r \<Longrightarrow> stable (\<lambda>s. r \<in> set (rows s)) (update P f)"
    and update_included:
      "(\<And>x t. x \<in> R \<Longrightarrow> P x \<Longrightarrow> stamp t (f x) \<in> R) \<Longrightarrow>
         stable (\<lambda>s. set (rows s) \<subseteq> R) (update P f)"
begin

text \<open>A property of single rows that the update keeps is kept for the whole table.\<close>

lemma update_all_rows:
  assumes "\<And>x t. Q x \<Longrightarrow> P x \<Longrightarrow> Q (stamp t (f x))"
  shows "stable (\<lambda>s. \<forall>r \<in> set (rows s). Q r) (update P f)"
  using update_included [of "Collect Q" P f] assms by (simp add: subset_eq)

end

text \<open>
  A lifecycle: the rows in a final state, which every guard of the repository leaves out.
\<close>

locale lifecycle_table = guarded_table rows update stamp
  for rows :: "'s \<Rightarrow> 'r list" and update :: "('r \<Rightarrow> bool) \<Rightarrow> ('r \<Rightarrow> 'r) \<Rightarrow> ('s, 'e, 'n) act"
    and stamp +
  fixes final :: "'r \<Rightarrow> bool"
begin

definition spares :: "('r \<Rightarrow> bool) \<Rightarrow> bool" where
  "spares P \<longleftrightarrow> (\<forall>r. P r \<longrightarrow> \<not> final r)"

lemma final_row_frozen:
  "final r \<Longrightarrow> spares P \<Longrightarrow> stable (\<lambda>s. r \<in> set (rows s)) (update P f)"
  by (rule update_excluded) (auto simp: spares_def)

end

text \<open>How a provider discharges the laws: its update is one \<open>modify\<close> of the table.\<close>

lemma modify_upd_excluded:
  assumes "\<And>s rs. rows (put rs s) = rs" and "\<not> P r"
  shows "stable (\<lambda>s. r \<in> set (rows s))
    (andThen now (\<lambda>t. modify e (\<lambda>s. (h s, put (upd P (g t) (rows s)) s))))"
  by (intro stable_intros stable_modify) (use assms in \<open>force simp: in_upd_iff\<close>)

lemma modify_upd_included:
  assumes "\<And>s rs. rows (put rs s) = rs" and "\<And>x t. x \<in> R \<Longrightarrow> P x \<Longrightarrow> g t x \<in> R"
  shows "stable (\<lambda>s. set (rows s) \<subseteq> R)
    (andThen now (\<lambda>t. modify e (\<lambda>s. (h s, put (upd P (g t) (rows s)) s))))"
  by (intro stable_intros stable_modify) (use assms in \<open>auto simp: in_upd_iff subset_eq\<close>)

end
