(* ===== verification/SchedTypes.thy ===== *)
theory SchedTypes
  imports Store
begin

text \<open>
  The data of the timer scheduler: the SDK's schedules, requests and events
  (\<open>pkg/scheduledsdk\<close>), the three tables (\<open>core/timer-scheduler/model\<close>) and the error values.
  A \<open>time.Time\<close> is its instant in nanoseconds, 0 being Go's zero time; a \<open>*time.Time\<close> is an
  option. A JSON column holds the value whose encoding the source stores there, \<open>None\<close> standing
  for the null column; raw JSON payloads are their bytes. Status and type fields are strings
  in the source and stay strings.
\<close>

section \<open>Vocabulary\<close>

abbreviation ScheduleManual :: gostr where "ScheduleManual \<equiv> ''manual''"
abbreviation ScheduleAt :: gostr where "ScheduleAt \<equiv> ''atime''"
abbreviation ScheduleCron :: gostr where "ScheduleCron \<equiv> ''cron''"
abbreviation ScheduleEvery :: gostr where "ScheduleEvery \<equiv> ''every''"

abbreviation TaskPending :: gostr where "TaskPending \<equiv> ''pending''"
abbreviation TaskPaused :: gostr where "TaskPaused \<equiv> ''paused''"
abbreviation TaskDone :: gostr where "TaskDone \<equiv> ''done''"
abbreviation TaskFailed :: gostr where "TaskFailed \<equiv> ''failed''"
abbreviation TaskCancelled :: gostr where "TaskCancelled \<equiv> ''cancelled''"

abbreviation ExecWaiting :: gostr where "ExecWaiting \<equiv> ''waiting''"
abbreviation ExecQueued :: gostr where "ExecQueued \<equiv> ''queued''"
abbreviation ExecRunning :: gostr where "ExecRunning \<equiv> ''running''"
abbreviation ExecSuccess :: gostr where "ExecSuccess \<equiv> ''success''"
abbreviation ExecFailed :: gostr where "ExecFailed \<equiv> ''failed''"
abbreviation ExecTimeout :: gostr where "ExecTimeout \<equiv> ''timeout''"
abbreviation ExecCancelled :: gostr where "ExecCancelled \<equiv> ''cancelled''"
abbreviation ExecSkipped :: gostr where "ExecSkipped \<equiv> ''skipped''"

abbreviation PolicyForbid :: gostr where "PolicyForbid \<equiv> ''forbid''"
abbreviation PolicyQueueLatest :: gostr where "PolicyQueueLatest \<equiv> ''queue_latest''"
abbreviation PolicyAllow :: gostr where "PolicyAllow \<equiv> ''allow''"

abbreviation triggerScheduled :: gostr where "triggerScheduled \<equiv> ''scheduled''"
abbreviation triggerManual :: gostr where "triggerManual \<equiv> ''manual''"

abbreviation second :: int where "second \<equiv> 1000000000"
abbreviation minute :: int where "minute \<equiv> 60000000000"

text \<open>The error values the code compares with \<open>errors.Is\<close>, and the others by what they say.\<close>

datatype sched_error =
    ErrTaskBusy
  | ErrInvalidTaskStatus
  | ErrBuiltinTaskDefinition
  | ErrInvalidRequest gostr
  | ErrInvalidTimezone gostr
  | ErrUnsupportedSchedule gostr
  | ErrCron gostr
  | ErrRecordNotFound
  | ErrDuplicateKey
  | ErrNilPublisher
  | ErrDB

section \<open>SDK types\<close>

type_synonym metadata_map = "(gostr \<times> gostr) list"

record schedule =
  sch_type :: gostr
  sch_run_at :: int
  sch_cron_expr :: gostr
  sch_interval_seconds :: int
  sch_timezone :: gostr
  sch_max_runs :: int

definition At :: "int \<Rightarrow> schedule" where
  "At t = \<lparr>sch_type = ScheduleAt, sch_run_at = t, sch_cron_expr = [], sch_interval_seconds = 0,
           sch_timezone = [], sch_max_runs = 0\<rparr>"

definition Cron :: "gostr \<Rightarrow> schedule" where
  "Cron expr = \<lparr>sch_type = ScheduleCron, sch_run_at = 0, sch_cron_expr = trim_space expr,
           sch_interval_seconds = 0, sch_timezone = [], sch_max_runs = 0\<rparr>"

definition Every :: "int \<Rightarrow> schedule" where
  "Every seconds = \<lparr>sch_type = ScheduleEvery, sch_run_at = 0, sch_cron_expr = [],
           sch_interval_seconds = seconds, sch_timezone = [], sch_max_runs = 0\<rparr>"

definition Manual :: schedule where
  "Manual = \<lparr>sch_type = ScheduleManual, sch_run_at = 0, sch_cron_expr = [],
           sch_interval_seconds = 0, sch_timezone = [], sch_max_runs = 0\<rparr>"

text \<open>\<open>Schedule.Validate\<close>: \<open>None\<close> is the nil error.\<close>

definition Validate :: "schedule \<Rightarrow> sched_error option" where
  "Validate s =
     (if sch_type s = ScheduleManual then None
      else if sch_type s = ScheduleAt then
        (if sch_run_at s = 0 then Some (ErrInvalidRequest ''run_at is required for atime schedule'')
         else None)
      else if sch_type s = ScheduleCron then
        (if trim_space (sch_cron_expr s) = []
         then Some (ErrInvalidRequest ''cron_expr is required for cron schedule'') else None)
      else if sch_type s = ScheduleEvery then
        (if sch_interval_seconds s \<le> 0
         then Some (ErrInvalidRequest ''interval_seconds must be positive for every schedule'')
         else None)
      else Some (ErrUnsupportedSchedule (sch_type s)))"

record sdk_task =
  st_id :: int
  st_title :: gostr
  st_description :: gostr
  st_category :: gostr
  st_tags :: "gostr list"
  st_idempotency_key :: gostr
  st_executor_key :: gostr
  st_executor_payload :: gostr
  st_metadata :: metadata_map
  st_status :: gostr
  st_schedule :: schedule
  st_next_run_at :: "int option"
  st_run_count :: int
  st_overlap_policy :: gostr
  st_max_parallelism :: int
  st_inflight_execution_id :: int
  st_last_execution_id :: int
  st_last_error_message :: gostr
  st_source_type :: gostr
  st_source_ref :: gostr
  st_resource_scope :: gostr
  st_resource_key :: gostr
  st_request_user :: gostr
  st_request_user_dept :: gostr
  st_created_by :: gostr
  st_created_at :: int
  st_updated_at :: int

record sdk_execution =
  se_id :: int
  se_task_id :: int
  se_executor_key :: gostr
  se_status :: gostr
  se_trigger_type :: gostr
  se_executor_run_id :: gostr
  se_scheduled_at :: int
  se_started_at :: "int option"
  se_finished_at :: "int option"
  se_worker_id :: gostr
  se_lease_until :: "int option"
  se_heartbeat_at :: "int option"
  se_heartbeat_misses :: int
  se_attempt :: int
  se_duration_millis :: int
  se_output_summary :: gostr
  se_result_payload :: gostr
  se_error_message :: gostr
  se_trace_id :: gostr
  se_source_type :: gostr
  se_source_ref :: gostr
  se_resource_scope :: gostr
  se_resource_key :: gostr
  se_request_user :: gostr
  se_request_user_dept :: gostr
  se_last_dispatched_at :: "int option"
  se_created_at :: int
  se_updated_at :: int

record create_task_request =
  cr_title :: gostr
  cr_description :: gostr
  cr_category :: gostr
  cr_tags :: "gostr list option"
  cr_idempotency_key :: gostr
  cr_executor_key :: gostr
  cr_executor_payload :: gostr
  cr_metadata :: metadata_map
  cr_status :: gostr
  cr_schedule :: schedule
  cr_overlap_policy :: gostr
  cr_max_parallelism :: int
  cr_source_type :: gostr
  cr_source_ref :: gostr
  cr_resource_scope :: gostr
  cr_resource_key :: gostr
  cr_request_user :: gostr
  cr_request_user_dept :: gostr
  cr_created_by :: gostr

record update_task_request =
  ur_title :: "gostr option"
  ur_description :: "gostr option"
  ur_category :: "gostr option"
  ur_tags :: "gostr list option option"
  ur_executor_payload :: "gostr option"
  ur_metadata :: "metadata_map option"
  ur_schedule :: "schedule option"
  ur_overlap_policy :: "gostr option"
  ur_max_parallelism :: "int option"
  ur_source_type :: "gostr option"
  ur_source_ref :: "gostr option"
  ur_resource_scope :: "gostr option"
  ur_resource_key :: "gostr option"
  ur_request_user :: "gostr option"
  ur_request_user_dept :: "gostr option"

record list_tasks_request =
  lt_executor_key :: gostr
  lt_status :: gostr
  lt_category :: gostr
  lt_source_type :: gostr
  lt_source_ref :: gostr
  lt_resource_scope :: gostr
  lt_resource_key :: gostr
  lt_resource_key_prefix :: gostr
  lt_created_by :: gostr
  lt_page :: int
  lt_page_size :: int

record list_executions_request =
  le_status :: gostr
  le_page :: int
  le_page_size :: int

record execution_requested_event =
  ev_event_id :: gostr
  ev_task_id :: int
  ev_execution_id :: int
  ev_executor_key :: gostr
  ev_scheduled_at :: int
  ev_trace_id :: gostr
  ev_attempt :: int
  ev_source_type :: gostr
  ev_source_ref :: gostr
  ev_resource_scope :: gostr
  ev_resource_key :: gostr
  ev_token :: gostr
  ev_request_user :: gostr
  ev_request_user_dept :: gostr
  ev_metadata :: metadata_map
  ev_executor_payload :: gostr

record mark_started_request =
  ms_task_id :: int
  ms_execution_id :: int
  ms_worker_id :: gostr
  ms_started_at :: int
  ms_executor_run_id :: gostr

record mark_heartbeat_request =
  mh_task_id :: int
  mh_execution_id :: int
  mh_worker_id :: gostr
  mh_heartbeat_at :: int

record mark_finished_request =
  mf_task_id :: int
  mf_execution_id :: int
  mf_status :: gostr
  mf_executor_run_id :: gostr
  mf_finished_at :: int
  mf_duration_millis :: int
  mf_output_summary :: gostr
  mf_result_payload :: gostr
  mf_error_message :: gostr

end
