(* ===== verification/SchedRepo.thy ===== *)
theory SchedRepo
  imports SchedTypes
begin

text \<open>
  The tables of the timer scheduler and its three repositories
  (\<open>core/timer-scheduler/model\<close>, \<open>core/timer-scheduler/repository\<close>): each repository method
  is one statement, an action that may fail. Task rows are soft-deleted, and every query on
  them sees the live rows only. \<open>delivered\<close> is the list of messages the outbox publisher has
  handed to the broker.
\<close>

section \<open>Rows\<close>

record timer_task =
  tk_id :: int
  tk_created_at :: int
  tk_updated_at :: int
  tk_deleted_at :: "int option"
  tk_title :: gostr
  tk_description :: gostr
  tk_category :: gostr
  tk_tags :: "gostr list option"
  tk_idempotency_key :: "gostr option"
  tk_executor_key :: gostr
  tk_executor_payload :: gostr
  tk_metadata :: "metadata_map option"
  tk_schedule_type :: gostr
  tk_run_at :: "int option"
  tk_cron_expr :: gostr
  tk_interval_seconds :: int
  tk_timezone :: gostr
  tk_max_runs :: int
  tk_next_run_at :: "int option"
  tk_run_count :: int
  tk_overlap_policy :: gostr
  tk_max_parallelism :: int
  tk_status :: gostr
  tk_inflight_execution_id :: int
  tk_last_execution_id :: int
  tk_last_error_message :: gostr
  tk_lease_owner :: gostr
  tk_lease_until :: "int option"
  tk_source_type :: gostr
  tk_source_ref :: gostr
  tk_resource_scope :: gostr
  tk_resource_key :: gostr
  tk_request_user :: gostr
  tk_request_user_dept :: gostr
  tk_created_by :: gostr

record timer_execution =
  ex_id :: int
  ex_created_at :: int
  ex_updated_at :: int
  ex_task_id :: int
  ex_executor_key :: gostr
  ex_status :: gostr
  ex_trigger_type :: gostr
  ex_executor_run_id :: gostr
  ex_scheduled_at :: int
  ex_started_at :: "int option"
  ex_finished_at :: "int option"
  ex_worker_id :: gostr
  ex_lease_until :: "int option"
  ex_heartbeat_at :: "int option"
  ex_heartbeat_misses :: int
  ex_attempt :: int
  ex_last_dispatched_at :: "int option"
  ex_duration_millis :: int
  ex_output_summary :: gostr
  ex_result_payload :: gostr
  ex_error_message :: gostr
  ex_trace_id :: gostr
  ex_source_type :: gostr
  ex_source_ref :: gostr
  ex_resource_scope :: gostr
  ex_resource_key :: gostr
  ex_request_user :: gostr
  ex_request_user_dept :: gostr

text \<open>The JSON object of a finished event, by its fields.\<close>

record finished_event =
  fe_task_id :: int
  fe_execution_id :: int
  fe_executor_key :: gostr
  fe_status :: gostr
  fe_finished_at :: int
  fe_trace_id :: gostr
  fe_trigger_type :: gostr
  fe_source_type :: gostr
  fe_source_ref :: gostr
  fe_resource_scope :: gostr
  fe_resource_key :: gostr

datatype outbox_payload = RequestedPayload execution_requested_event | FinishedPayload finished_event

record outbox_event =
  ob_id :: int
  ob_created_at :: int
  ob_updated_at :: int
  ob_event_id :: gostr
  ob_event_type :: gostr
  ob_subject :: gostr
  ob_aggregate_id :: int
  ob_payload :: outbox_payload
  ob_status :: gostr
  ob_attempts :: int
  ob_next_attempt_at :: "int option"
  ob_last_error :: gostr
  ob_published_at :: "int option"

record sched_db =
  tasks :: "timer_task list"
  execs :: "timer_execution list"
  outbox :: "outbox_event list"
  delivered :: "(gostr \<times> outbox_payload) list"

type_synonym 'a sched = "(sched_db, sched_error, 'a) act"

section \<open>Statements\<close>

definition live :: "timer_task \<Rightarrow> bool" where
  "live t \<longleftrightarrow> tk_deleted_at t = None"

text \<open>\<open>Model(&T{}).Where(P).Updates(f)\<close>, answering \<open>RowsAffected > 0\<close>.\<close>

definition update_tasks :: "(timer_task \<Rightarrow> bool) \<Rightarrow> (timer_task \<Rightarrow> timer_task) \<Rightarrow> bool sched" where
  "update_tasks P f = andThen now (\<lambda>t. modify ErrDB (\<lambda>s.
     let Q = (\<lambda>r. live r \<and> P r) in
     (hits Q (tasks s) > 0, s\<lparr>tasks := upd Q (\<lambda>r. (f r)\<lparr>tk_updated_at := t\<rparr>) (tasks s)\<rparr>)))"

definition update_execs ::
  "(timer_execution \<Rightarrow> bool) \<Rightarrow> (timer_execution \<Rightarrow> timer_execution) \<Rightarrow> bool sched" where
  "update_execs P f = andThen now (\<lambda>t. modify ErrDB (\<lambda>s.
     (hits P (execs s) > 0, s\<lparr>execs := upd P (\<lambda>r. (f r)\<lparr>ex_updated_at := t\<rparr>) (execs s)\<rparr>)))"

definition update_outbox ::
  "(outbox_event \<Rightarrow> bool) \<Rightarrow> (outbox_event \<Rightarrow> outbox_event) \<Rightarrow> bool sched" where
  "update_outbox P f = andThen now (\<lambda>t. modify ErrDB (\<lambda>s.
     (hits P (outbox s) > 0, s\<lparr>outbox := upd P (\<lambda>r. (f r)\<lparr>ob_updated_at := t\<rparr>) (outbox s)\<rparr>)))"

text \<open>\<open>First\<close> answers \<open>ErrRecordNotFound\<close> when there is no row.\<close>

definition found :: "'r option \<Rightarrow> 'r sched" where
  "found r = (case r of None \<Rightarrow> fail ErrRecordNotFound | Some x \<Rightarrow> ret x)"

definition lease_expired :: "int option \<Rightarrow> int \<Rightarrow> bool" where
  "lease_expired lease t = (case lease of None \<Rightarrow> False | Some l \<Rightarrow> l < t)"

text \<open>An ordering key for a nullable column whose rows are filtered to be non-null.\<close>

definition the_default_int :: "int option \<Rightarrow> int" where
  "the_default_int x = (case x of None \<Rightarrow> 0 | Some i \<Rightarrow> i)"

definition active_status :: "gostr \<Rightarrow> bool" where
  "active_status st \<longleftrightarrow> st = ExecQueued \<or> st = ExecRunning"

section \<open>Execution repository\<close>

record active_execution_state =
  ac_queued :: nat
  ac_running :: nat
  ac_waiting :: "timer_execution option"

definition ActiveCount :: "active_execution_state \<Rightarrow> nat" where
  "ActiveCount s = ac_queued s + ac_running s"

definition ExecCreate :: "timer_execution \<Rightarrow> timer_execution sched" where
  "ExecCreate ex = andThen (next_id ''timer_execution'') (\<lambda>i. andThen now (\<lambda>t.
     let row = ex\<lparr>ex_id := i, ex_created_at := t, ex_updated_at := t\<rparr> in
     modify ErrDB (\<lambda>s. (row, s\<lparr>execs := execs s @ [row]\<rparr>))))"

definition ExecGetByID :: "int \<Rightarrow> int \<Rightarrow> timer_execution sched" where
  "ExecGetByID task_id execution_id =
     andThen (query ErrDB (\<lambda>s. first_row (\<lambda>e. ex_task_id e = task_id \<and> ex_id e = execution_id) (execs s)))
       found"

definition ListByTaskID :: "int \<Rightarrow> gostr \<Rightarrow> int \<Rightarrow> int \<Rightarrow> (timer_execution list \<times> nat) sched" where
  "ListByTaskID task_id status offset limit =
     (let P = (\<lambda>e. ex_task_id e = task_id \<and> (status \<noteq> [] \<longrightarrow> ex_status e = status)) in
      andThen (query ErrDB (\<lambda>s. hits P (execs s))) (\<lambda>total.
      andThen (query ErrDB (\<lambda>s. limit_rows limit (offset_rows offset
         (order2 (\<lambda>e. - ex_created_at e) (\<lambda>e. - ex_id e) (sel P (execs s)))))) (\<lambda>rows.
      ret (rows, total))))"

definition ListStale :: "int \<Rightarrow> int \<Rightarrow> timer_execution list sched" where
  "ListStale t limit = query ErrDB (\<lambda>s. limit_rows limit
     (order2 (\<lambda>e. the_default_int (ex_lease_until e)) ex_id
        (sel (\<lambda>e. active_status (ex_status e) \<and> lease_expired (ex_lease_until e) t) (execs s))))"

definition GetActiveState :: "int \<Rightarrow> active_execution_state sched" where
  "GetActiveState task_id =
     andThen (query ErrDB (\<lambda>s.
        (hits (\<lambda>e. ex_task_id e = task_id \<and> ex_status e = ExecQueued) (execs s),
         hits (\<lambda>e. ex_task_id e = task_id \<and> ex_status e = ExecRunning) (execs s)))) (\<lambda>(q, r).
     andThen (query ErrDB (\<lambda>s. first_row (\<lambda>_. True)
        (sort_key (\<lambda>e. - ex_id e)
           (sel (\<lambda>e. ex_task_id e = task_id \<and> ex_status e = ExecWaiting) (execs s))))) (\<lambda>w.
     ret \<lparr>ac_queued = q, ac_running = r, ac_waiting = w\<rparr>))"

definition UpdateWaitingScheduledAt :: "int \<Rightarrow> int \<Rightarrow> int \<Rightarrow> bool sched" where
  "UpdateWaitingScheduledAt task_id execution_id scheduled_at =
     update_execs (\<lambda>e. ex_task_id e = task_id \<and> ex_id e = execution_id \<and> ex_status e = ExecWaiting)
       (\<lambda>e. e\<lparr>ex_scheduled_at := scheduled_at\<rparr>)"

definition TryPromoteWaiting :: "timer_execution \<Rightarrow> int \<Rightarrow> int \<Rightarrow> bool sched" where
  "TryPromoteWaiting ex t lease_until =
     update_execs (\<lambda>e. ex_task_id e = ex_task_id ex \<and> ex_id e = ex_id ex \<and> ex_status e = ExecWaiting)
       (\<lambda>e. e\<lparr>ex_status := ExecQueued, ex_attempt := 1, ex_lease_until := Some lease_until,
              ex_last_dispatched_at := Some t\<rparr>)"

definition LatestActiveExecutionID :: "int \<Rightarrow> int sched" where
  "LatestActiveExecutionID task_id =
     andThen (query ErrDB (\<lambda>s. first_row (\<lambda>_. True)
        (sort_key (\<lambda>e. - ex_id e)
           (sel (\<lambda>e. ex_task_id e = task_id \<and> active_status (ex_status e)) (execs s)))))
       (\<lambda>r. andThen (found r) (\<lambda>e. ret (ex_id e)))"

definition CancelWaitingByTask :: "int \<Rightarrow> int \<Rightarrow> gostr \<Rightarrow> unit sched" where
  "CancelWaitingByTask task_id t message =
     andThen (update_execs (\<lambda>e. ex_task_id e = task_id \<and> ex_status e = ExecWaiting)
       (\<lambda>e. e\<lparr>ex_status := ExecCancelled, ex_finished_at := Some t, ex_error_message := message\<rparr>))
       (\<lambda>_. ret ())"

definition TryMarkRunning ::
  "int \<Rightarrow> int \<Rightarrow> gostr \<Rightarrow> gostr \<Rightarrow> int \<Rightarrow> int \<Rightarrow> bool sched" where
  "TryMarkRunning task_id execution_id worker_id executor_run_id started_at lease_until =
     update_execs (\<lambda>e. ex_task_id e = task_id \<and> ex_id e = execution_id \<and> ex_status e = ExecQueued)
       (\<lambda>e. let e = e\<lparr>ex_status := ExecRunning, ex_started_at := Some started_at,
                      ex_worker_id := worker_id, ex_heartbeat_at := Some started_at,
                      ex_heartbeat_misses := 0, ex_lease_until := Some lease_until\<rparr> in
            if executor_run_id \<noteq> [] then e\<lparr>ex_executor_run_id := executor_run_id\<rparr> else e)"

definition TryHeartbeat :: "int \<Rightarrow> int \<Rightarrow> gostr \<Rightarrow> int \<Rightarrow> int \<Rightarrow> bool sched" where
  "TryHeartbeat task_id execution_id worker_id heartbeat_at lease_until =
     update_execs (\<lambda>e. ex_task_id e = task_id \<and> ex_id e = execution_id \<and> ex_status e = ExecRunning \<and>
                       (worker_id \<noteq> [] \<longrightarrow> ex_worker_id e = worker_id))
       (\<lambda>e. e\<lparr>ex_heartbeat_at := Some heartbeat_at, ex_heartbeat_misses := 0,
              ex_lease_until := Some lease_until\<rparr>)"

definition TryRecordHeartbeatMiss :: "timer_execution \<Rightarrow> int \<Rightarrow> int \<Rightarrow> int \<Rightarrow> bool sched" where
  "TryRecordHeartbeatMiss ex t lease_until misses =
     update_execs (\<lambda>e. ex_task_id e = ex_task_id ex \<and> ex_id e = ex_id ex \<and>
                       ex_status e = ExecRunning \<and> lease_expired (ex_lease_until e) t)
       (\<lambda>e. e\<lparr>ex_heartbeat_misses := misses, ex_lease_until := Some lease_until\<rparr>)"

definition TryFinish :: "int \<Rightarrow> int \<Rightarrow> (timer_execution \<Rightarrow> timer_execution) \<Rightarrow> bool sched" where
  "TryFinish task_id execution_id updates =
     update_execs (\<lambda>e. ex_task_id e = task_id \<and> ex_id e = execution_id \<and> active_status (ex_status e))
       updates"

definition TryRequeueQueued :: "timer_execution \<Rightarrow> int \<Rightarrow> int \<Rightarrow> bool sched" where
  "TryRequeueQueued ex t lease_until =
     update_execs (\<lambda>e. ex_task_id e = ex_task_id ex \<and> ex_id e = ex_id ex \<and>
                       ex_status e = ExecQueued \<and> lease_expired (ex_lease_until e) t)
       (\<lambda>e. e\<lparr>ex_attempt := ex_attempt ex + 1, ex_lease_until := Some lease_until,
              ex_last_dispatched_at := Some t\<rparr>)"

section \<open>Outbox repository\<close>

text \<open>\<open>ON CONFLICT DO NOTHING\<close> on the unique event id.\<close>

definition OutboxCreate :: "outbox_event \<Rightarrow> unit sched" where
  "OutboxCreate event = andThen (next_id ''timer_outbox_event'') (\<lambda>i. andThen now (\<lambda>t.
     modify ErrDB (\<lambda>s.
       ((), if list_ex (\<lambda>o'. ob_event_id o' = ob_event_id event) (outbox s) then s
            else s\<lparr>outbox := outbox s @ [event\<lparr>ob_id := i, ob_created_at := t, ob_updated_at := t\<rparr>]\<rparr>))))"

definition outbox_open :: "gostr \<Rightarrow> bool" where
  "outbox_open st \<longleftrightarrow> st = ''pending'' \<or> st = ''retry''"

definition ListReady :: "int \<Rightarrow> int \<Rightarrow> outbox_event list sched" where
  "ListReady t limit = query ErrDB (\<lambda>s. limit_rows limit (order2 ob_created_at ob_id
     (sel (\<lambda>o'. outbox_open (ob_status o') \<and>
                (case ob_next_attempt_at o' of None \<Rightarrow> True | Some a \<Rightarrow> a \<le> t)) (outbox s))))"

definition MarkPublished :: "int \<Rightarrow> int \<Rightarrow> unit sched" where
  "MarkPublished i published_at =
     andThen (update_outbox (\<lambda>o'. ob_id o' = i \<and> outbox_open (ob_status o'))
       (\<lambda>o'. o'\<lparr>ob_status := ''published'', ob_published_at := Some published_at, ob_last_error := []\<rparr>))
       (\<lambda>_. ret ())"

definition MarkRetry :: "int \<Rightarrow> int \<Rightarrow> int \<Rightarrow> gostr \<Rightarrow> unit sched" where
  "MarkRetry i attempts next_attempt_at err_message =
     andThen (update_outbox (\<lambda>o'. ob_id o' = i \<and> outbox_open (ob_status o'))
       (\<lambda>o'. o'\<lparr>ob_status := ''retry'', ob_attempts := attempts,
               ob_next_attempt_at := Some next_attempt_at, ob_last_error := err_message\<rparr>))
       (\<lambda>_. ret ())"

definition MarkDeadLetter :: "int \<Rightarrow> int \<Rightarrow> gostr \<Rightarrow> unit sched" where
  "MarkDeadLetter i attempts err_message =
     andThen (update_outbox (\<lambda>o'. ob_id o' = i \<and> outbox_open (ob_status o'))
       (\<lambda>o'. o'\<lparr>ob_status := ''dead_letter'', ob_attempts := attempts, ob_last_error := err_message\<rparr>))
       (\<lambda>_. ret ())"

section \<open>Task repository\<close>

record list_tasks_filter =
  lf_executor_key :: gostr
  lf_status :: gostr
  lf_category :: gostr
  lf_source_type :: gostr
  lf_source_ref :: gostr
  lf_resource_scope :: gostr
  lf_resource_key :: gostr
  lf_resource_key_prefix :: gostr
  lf_created_by :: gostr
  lf_offset :: int
  lf_limit :: int

text \<open>The unique index on \<open>idempotency_key\<close> covers the soft-deleted rows too.\<close>

definition key_in_use :: "gostr option \<Rightarrow> timer_task list \<Rightarrow> bool" where
  "key_in_use key rows \<longleftrightarrow>
     (case key of None \<Rightarrow> False | Some k \<Rightarrow> list_ex (\<lambda>r. tk_idempotency_key r = Some k) rows)"

text \<open>For an update: another row than \<open>own\<close> holds the key.\<close>

definition key_taken :: "int \<Rightarrow> gostr option \<Rightarrow> timer_task list \<Rightarrow> bool" where
  "key_taken own key rows \<longleftrightarrow> key_in_use key (filter (\<lambda>r. tk_id r \<noteq> own) rows)"

definition TaskCreate :: "timer_task \<Rightarrow> timer_task sched" where
  "TaskCreate task = andThen (next_id ''timer_task'') (\<lambda>i. andThen now (\<lambda>t.
     let row = task\<lparr>tk_id := i, tk_created_at := t, tk_updated_at := t\<rparr> in
     stmt ErrDB (\<lambda>s. if key_in_use (tk_idempotency_key row) (tasks s) then (Inl ErrDuplicateKey, s)
                     else (Inr row, s\<lparr>tasks := tasks s @ [row]\<rparr>))))"

text \<open>\<open>Save\<close>: every column of the live row is overwritten with the value in memory.\<close>

definition TaskUpdate :: "timer_task \<Rightarrow> unit sched" where
  "TaskUpdate task = andThen now (\<lambda>t. stmt ErrDB (\<lambda>s.
     if key_taken (tk_id task) (tk_idempotency_key task) (tasks s) then (Inl ErrDuplicateKey, s)
     else (Inr (), s\<lparr>tasks := upd (\<lambda>r. live r \<and> tk_id r = tk_id task)
                                 (\<lambda>r. task\<lparr>tk_updated_at := t\<rparr>) (tasks s)\<rparr>)))"

definition TaskGetByID :: "int \<Rightarrow> timer_task sched" where
  "TaskGetByID i = andThen (query ErrDB (\<lambda>s. first_row (\<lambda>t. live t \<and> tk_id t = i) (tasks s))) found"

text \<open>The row lock of \<open>FOR UPDATE\<close> has no effect where transactions run one after the other.\<close>

definition GetByIDForUpdate :: "int \<Rightarrow> timer_task sched" where
  "GetByIDForUpdate i = TaskGetByID i"

definition GetByIdempotencyKey :: "gostr \<Rightarrow> timer_task sched" where
  "GetByIdempotencyKey key =
     (let key = trim_space key in
      if key = [] then fail ErrRecordNotFound
      else andThen (query ErrDB
             (\<lambda>s. first_row (\<lambda>t. live t \<and> tk_idempotency_key t = Some key) (tasks s))) found)"

definition releasedIdempotencyKey :: "(gostr \<Rightarrow> gostr) \<Rightarrow> int \<Rightarrow> gostr \<Rightarrow> gostr" where
  "releasedIdempotencyKey sha1_hex i key =
     ''terminal:'' @ show_int i @ '':'' @ take 24 (sha1_hex key)"

definition ReleaseIdempotencyKey :: "(gostr \<Rightarrow> gostr) \<Rightarrow> int \<Rightarrow> gostr \<Rightarrow> unit sched" where
  "ReleaseIdempotencyKey sha1_hex i key =
     (let key = trim_space key in
      if i \<le> 0 \<or> key = [] then ret ()
      else andThen now (\<lambda>t. stmt ErrDB (\<lambda>s.
        let P = (\<lambda>r. live r \<and> tk_id r = i \<and> tk_idempotency_key r = Some key);
            new = Some (releasedIdempotencyKey sha1_hex i key) in
        if hits P (tasks s) > 0 \<and> key_taken i new (tasks s) then (Inl ErrDuplicateKey, s)
        else (Inr (), s\<lparr>tasks := upd P (\<lambda>r. r\<lparr>tk_idempotency_key := new, tk_updated_at := t\<rparr>)
                               (tasks s)\<rparr>))))"

definition list_filter_matches :: "list_tasks_filter \<Rightarrow> timer_task \<Rightarrow> bool" where
  "list_filter_matches f t \<longleftrightarrow>
     live t \<and>
     (lf_executor_key f \<noteq> [] \<longrightarrow> tk_executor_key t = lf_executor_key f) \<and>
     (lf_status f \<noteq> [] \<longrightarrow> tk_status t = lf_status f) \<and>
     (lf_category f \<noteq> [] \<longrightarrow> tk_category t = lf_category f) \<and>
     (lf_source_type f \<noteq> [] \<longrightarrow> tk_source_type t = lf_source_type f) \<and>
     (lf_source_ref f \<noteq> [] \<longrightarrow> tk_source_ref t = lf_source_ref f) \<and>
     (lf_resource_scope f \<noteq> [] \<longrightarrow> tk_resource_scope t = lf_resource_scope f) \<and>
     (lf_resource_key f \<noteq> [] \<longrightarrow> tk_resource_key t = lf_resource_key f) \<and>
     (lf_resource_key_prefix f \<noteq> [] \<longrightarrow>
        (let pre = trim_right_char slash (lf_resource_key_prefix f) in
         tk_resource_key t = pre \<or> sql_like (pre @ ''/%'') (tk_resource_key t))) \<and>
     (lf_created_by f \<noteq> [] \<longrightarrow> tk_created_by t = lf_created_by f)"

definition TaskList :: "list_tasks_filter \<Rightarrow> (timer_task list \<times> nat) sched" where
  "TaskList f =
     andThen (query ErrDB (\<lambda>s. hits (list_filter_matches f) (tasks s))) (\<lambda>total.
     andThen (query ErrDB (\<lambda>s. limit_rows (lf_limit f) (offset_rows (lf_offset f)
        (order2 (\<lambda>t. - tk_created_at t) (\<lambda>t. - tk_id t) (sel (list_filter_matches f) (tasks s))))))
        (\<lambda>rows. ret (rows, total)))"

definition due :: "int \<Rightarrow> timer_task \<Rightarrow> bool" where
  "due t r \<longleftrightarrow> tk_status r = TaskPending \<and>
     (case tk_next_run_at r of None \<Rightarrow> False | Some n \<Rightarrow> n \<le> t) \<and>
     (tk_lease_until r = None \<or> lease_expired (tk_lease_until r) t)"

definition ListDue :: "int \<Rightarrow> int \<Rightarrow> timer_task list sched" where
  "ListDue t limit = query ErrDB (\<lambda>s. limit_rows limit
     (order2 (\<lambda>r. the_default_int (tk_next_run_at r)) tk_id
        (sel (\<lambda>r. live r \<and> due t r) (tasks s))))"

text \<open>No execution of the task, active and with a lease, is the one the task points at.\<close>

definition broken_inflight :: "sched_db \<Rightarrow> timer_task \<Rightarrow> bool" where
  "broken_inflight s r \<longleftrightarrow>
     live r \<and> tk_inflight_execution_id r \<noteq> 0 \<and>
     \<not> list_ex (\<lambda>e. ex_id e = tk_inflight_execution_id r \<and> ex_task_id e = tk_id r \<and>
                    active_status (ex_status e) \<and> ex_lease_until e \<noteq> None) (execs s)"

definition ListBrokenInflightReferences :: "int \<Rightarrow> timer_task list sched" where
  "ListBrokenInflightReferences limit = query ErrDB (\<lambda>s. limit_rows limit
     (order2 tk_updated_at tk_id (sel (broken_inflight s) (tasks s))))"

definition GetBrokenInflightReferenceByID :: "int \<Rightarrow> timer_task sched" where
  "GetBrokenInflightReferenceByID i =
     andThen (query ErrDB (\<lambda>s. first_row (\<lambda>r. tk_id r = i \<and> broken_inflight s r) (tasks s))) found"

definition TryAcquireDispatch :: "int \<Rightarrow> gostr \<Rightarrow> int \<Rightarrow> int \<Rightarrow> bool sched" where
  "TryAcquireDispatch i owner t lease_until =
     update_tasks (\<lambda>r. tk_id r = i \<and> due t r)
       (\<lambda>r. r\<lparr>tk_lease_owner := owner, tk_lease_until := Some lease_until\<rparr>)"

definition TryClearInflight :: "int \<Rightarrow> int \<Rightarrow> gostr \<Rightarrow> bool sched" where
  "TryClearInflight i execution_id last_error =
     update_tasks (\<lambda>r. tk_id r = i \<and> tk_inflight_execution_id r = execution_id)
       (\<lambda>r. let r = r\<lparr>tk_inflight_execution_id := 0, tk_lease_owner := [], tk_lease_until := None\<rparr> in
            if trim_space last_error \<noteq> [] then r\<lparr>tk_last_error_message := trim_space last_error\<rparr>
            else r)"

definition TrySetInflight :: "int \<Rightarrow> int \<Rightarrow> gostr \<Rightarrow> int option \<Rightarrow> bool sched" where
  "TrySetInflight task_id execution_id lease_owner next_run_at =
     update_tasks (\<lambda>r. tk_id r = task_id \<and> tk_status r = TaskPending \<and> tk_lease_owner r = lease_owner)
       (\<lambda>r. r\<lparr>tk_inflight_execution_id := execution_id, tk_last_execution_id := execution_id,
              tk_next_run_at := next_run_at, tk_lease_owner := [], tk_lease_until := None\<rparr>)"

definition TryAdvanceSchedule ::
  "int \<Rightarrow> gostr \<Rightarrow> gostr \<Rightarrow> int option \<Rightarrow> int \<Rightarrow> bool sched" where
  "TryAdvanceSchedule task_id lease_owner status next_run_at last_execution_id =
     update_tasks (\<lambda>r. tk_id r = task_id \<and> tk_status r = TaskPending \<and> tk_lease_owner r = lease_owner)
       (\<lambda>r. let r = r\<lparr>tk_next_run_at := next_run_at, tk_lease_owner := [], tk_lease_until := None\<rparr>;
                r = (if status \<noteq> [] then r\<lparr>tk_status := status\<rparr> else r) in
            if last_execution_id > 0 then r\<lparr>tk_last_execution_id := last_execution_id\<rparr> else r)"

definition SetInflightReference :: "int \<Rightarrow> int \<Rightarrow> unit sched" where
  "SetInflightReference task_id execution_id =
     andThen (update_tasks (\<lambda>r. tk_id r = task_id)
       (\<lambda>r. r\<lparr>tk_inflight_execution_id := execution_id, tk_last_execution_id := execution_id\<rparr>))
       (\<lambda>_. ret ())"

definition startable :: "gostr \<Rightarrow> bool" where
  "startable st \<longleftrightarrow> st = TaskPending \<or> st = TaskPaused"

definition TrySetManualInflight :: "int \<Rightarrow> int \<Rightarrow> bool sched" where
  "TrySetManualInflight task_id execution_id =
     update_tasks (\<lambda>r. tk_id r = task_id \<and> startable (tk_status r))
       (\<lambda>r. r\<lparr>tk_inflight_execution_id := execution_id, tk_last_execution_id := execution_id\<rparr>)"

definition RecordManualExecutionSubmitted :: "int \<Rightarrow> int \<Rightarrow> bool sched" where
  "RecordManualExecutionSubmitted task_id execution_id =
     update_tasks (\<lambda>r. tk_id r = task_id \<and> startable (tk_status r))
       (\<lambda>r. r\<lparr>tk_last_execution_id := execution_id\<rparr>)"

definition TryCompleteExecution :: "timer_task \<Rightarrow> int \<Rightarrow> bool sched" where
  "TryCompleteExecution task execution_id =
     update_tasks (\<lambda>r. tk_id r = tk_id task)
       (\<lambda>r. r\<lparr>tk_status := tk_status task, tk_next_run_at := tk_next_run_at task,
              tk_run_count := tk_run_count task, tk_last_execution_id := execution_id,
              tk_last_error_message := tk_last_error_message task,
              tk_inflight_execution_id :=
                (if tk_inflight_execution_id r = execution_id then 0 else tk_inflight_execution_id r),
              tk_lease_owner := [], tk_lease_until := None\<rparr>)"

definition TaskPause :: "int \<Rightarrow> unit sched" where
  "TaskPause i = andThen (update_tasks (\<lambda>r. tk_id r = i \<and> tk_status r = TaskPending)
     (\<lambda>r. r\<lparr>tk_status := TaskPaused\<rparr>)) (\<lambda>_. ret ())"

definition TaskResume :: "int \<Rightarrow> int option \<Rightarrow> unit sched" where
  "TaskResume i next_run_at = andThen (update_tasks (\<lambda>r. tk_id r = i \<and> tk_status r = TaskPaused)
     (\<lambda>r. r\<lparr>tk_status := TaskPending, tk_next_run_at := next_run_at\<rparr>)) (\<lambda>_. ret ())"

definition TaskCancel :: "int \<Rightarrow> unit sched" where
  "TaskCancel i = andThen (update_tasks (\<lambda>r. tk_id r = i \<and> startable (tk_status r))
     (\<lambda>r. r\<lparr>tk_status := TaskCancelled, tk_next_run_at := None, tk_inflight_execution_id := 0,
            tk_lease_owner := [], tk_lease_until := None\<rparr>)) (\<lambda>_. ret ())"

text \<open>The soft delete of GORM: the row stays, with its deletion time.\<close>

definition TaskDelete :: "timer_task \<Rightarrow> unit sched" where
  "TaskDelete task = andThen now (\<lambda>t. modify ErrDB (\<lambda>s.
     ((), s\<lparr>tasks := upd (\<lambda>r. live r \<and> tk_id r = tk_id task)
                        (\<lambda>r. r\<lparr>tk_deleted_at := Some t\<rparr>) (tasks s)\<rparr>)))"

section \<open>The tables as guarded tables\<close>

definition terminal_execution :: "timer_execution \<Rightarrow> bool" where
  "terminal_execution e \<longleftrightarrow> \<not> active_status (ex_status e) \<and> ex_status e \<noteq> ExecWaiting"

definition closed_event :: "outbox_event \<Rightarrow> bool" where
  "closed_event o' \<longleftrightarrow> \<not> outbox_open (ob_status o')"

interpretation execs_table: lifecycle_table execs update_execs
    "\<lambda>t e. e\<lparr>ex_updated_at := t\<rparr>" terminal_execution
  unfolding update_execs_def
  by unfold_locales
    ((rule modify_upd_excluded [where put = "\<lambda>rs s. s\<lparr>execs := rs\<rparr>"]
           modify_upd_included [where put = "\<lambda>rs s. s\<lparr>execs := rs\<rparr>"]; simp)+)

interpretation outbox_table: lifecycle_table outbox update_outbox
    "\<lambda>t e. e\<lparr>ob_updated_at := t\<rparr>" closed_event
  unfolding update_outbox_def
  by unfold_locales
    ((rule modify_upd_excluded [where put = "\<lambda>rs s. s\<lparr>outbox := rs\<rparr>"]
           modify_upd_included [where put = "\<lambda>rs s. s\<lparr>outbox := rs\<rparr>"]; simp)+)

text \<open>For tasks the final rows are the soft-deleted ones.\<close>

interpretation tasks_table: lifecycle_table tasks update_tasks
    "\<lambda>t r. r\<lparr>tk_updated_at := t\<rparr>" "\<lambda>r. \<not> live r"
  unfolding update_tasks_def Let_def
  by unfold_locales
    ((rule modify_upd_excluded [where put = "\<lambda>rs s. s\<lparr>tasks := rs\<rparr>"]
           modify_upd_included [where put = "\<lambda>rs s. s\<lparr>tasks := rs\<rparr>"]; simp)+)

text \<open>The statements of one table leave the others alone.\<close>

lemma stable_update_execs_other:
  "(\<And>s rs. I s \<Longrightarrow> I (s\<lparr>execs := rs\<rparr>)) \<Longrightarrow> stable I (update_execs P f)"
  unfolding update_execs_def by (intro stable_intros stable_modify) simp

lemma stable_update_tasks_other:
  "(\<And>s rs. I s \<Longrightarrow> I (s\<lparr>tasks := rs\<rparr>)) \<Longrightarrow> stable I (update_tasks P f)"
  unfolding update_tasks_def Let_def by (intro stable_intros stable_modify) simp

lemma stable_update_outbox_other:
  "(\<And>s rs. I s \<Longrightarrow> I (s\<lparr>outbox := rs\<rparr>)) \<Longrightarrow> stable I (update_outbox P f)"
  unfolding update_outbox_def by (intro stable_intros stable_modify) simp

lemma stable_found [stable_intros]: "stable I (found r)"
  by (auto simp: found_def split: option.splits intro: stable_intros)

text \<open>What an update of the tasks answers and establishes.\<close>

lemma update_tasks_none:
  "hoare (\<lambda>s. \<forall>r \<in> set (tasks s). \<not> (live r \<and> P r)) (update_tasks P f) (\<lambda>ok _. \<not> ok)"
  unfolding hoare_def update_tasks_def Let_def run_simps by (auto simp: hits_pos)

lemma update_tasks_some:
  "hoare (\<lambda>_. True) (update_tasks P f)
     (\<lambda>ok s. ok \<longrightarrow> (\<exists>r t. live r \<and> P r \<and> (f r)\<lparr>tk_updated_at := t\<rparr> \<in> set (tasks s)))"
  unfolding hoare_def update_tasks_def Let_def run_simps
  by (fastforce simp: hits_pos in_upd_iff)

lemma update_tasks_establish:
  assumes "\<And>x t. live x \<Longrightarrow> P x \<Longrightarrow> Q ((f x)\<lparr>tk_updated_at := t\<rparr>)"
    and "\<And>x. \<not> (live x \<and> P x) \<Longrightarrow> Q x"
  shows "hoare (\<lambda>_. True) (update_tasks P f) (\<lambda>_ s. \<forall>r \<in> set (tasks s). Q r)"
  unfolding hoare_def update_tasks_def Let_def run_simps using assms by (auto simp: in_upd_iff)

lemma achieves_update_execs:
  assumes "\<And>s t. P s \<Longrightarrow>
    Q (0 < hits G (execs s)) (s\<lparr>execs := upd G (\<lambda>r. (f r)\<lparr>ex_updated_at := t\<rparr>) (execs s)\<rparr>)"
  shows "achieves P (update_execs G f) Q"
  unfolding update_execs_def
  by (rule achieves_andThen [OF achieves_now [where Q = "\<lambda>_. P"]]) (auto intro!: achieves_modify assms)

lemma achieves_update_tasks:
  assumes "\<And>s rs b. P s \<Longrightarrow> Q b (s\<lparr>tasks := rs\<rparr>)"
  shows "achieves P (update_tasks G f) Q"
  unfolding update_tasks_def Let_def
  by (rule achieves_andThen [OF achieves_now [where Q = "\<lambda>_. P"]]) (auto intro!: achieves_modify assms)

lemma achieves_OutboxCreate:
  assumes "\<And>s rs. P s \<Longrightarrow> P (s\<lparr>outbox := rs\<rparr>)"
  shows "achieves P (OutboxCreate ev) (\<lambda>_. P)"
  unfolding OutboxCreate_def
  by (rule achieves_andThen [OF achieves_next_id [where Q = "\<lambda>_. P"]], assumption,
      rule achieves_andThen [OF achieves_now [where Q = "\<lambda>_. P"]], assumption,
      rule achieves_modify) (auto intro: assms)

lemma update_tasks_exists:
  assumes "\<And>y t. Q y \<Longrightarrow> live y \<Longrightarrow> P y \<Longrightarrow> Q ((f y)\<lparr>tk_updated_at := t\<rparr>)"
  shows "stable (\<lambda>s. \<exists>y \<in> set (tasks s). Q y) (update_tasks P f)"
proof -
  have "\<exists>z \<in> set (upd (\<lambda>r. live r \<and> P r) (\<lambda>r. (f r)\<lparr>tk_updated_at := t\<rparr>) rs). Q z"
    if "y \<in> set rs" "Q y" for y rs t
    using that assms [of y t]
    by (intro bexI [of _ "if live y \<and> P y then (f y)\<lparr>tk_updated_at := t\<rparr> else y"])
      (auto simp: in_upd_iff)
  then show ?thesis
    unfolding update_tasks_def Let_def by (intro stable_intros stable_modify) auto
qed

lemma update_tasks_hits:
  assumes "\<And>r t. live r \<Longrightarrow> P r \<Longrightarrow> Q ((f r)\<lparr>tk_updated_at := t\<rparr>)"
  shows "hoare (\<lambda>s. \<exists>r \<in> set (tasks s). live r \<and> P r) (update_tasks P f)
    (\<lambda>_ s. \<exists>r \<in> set (tasks s). Q r)"
proof -
  have "\<exists>z \<in> set (upd (\<lambda>r. live r \<and> P r) (\<lambda>r. (f r)\<lparr>tk_updated_at := t\<rparr>) rs). Q z"
    if "y \<in> set rs" "live y" "P y" for y rs t
    using that assms [of y t]
    by (intro bexI [of _ "(f y)\<lparr>tk_updated_at := t\<rparr>"]) (auto simp: in_upd_iff)
  then show ?thesis
    unfolding hoare_def update_tasks_def Let_def run_simps by auto
qed

end
