(* ===== verification/SchedHelpers.thy ===== *)
theory SchedHelpers
  imports SchedRepo
begin

text \<open>
  The pure half of \<open>core/timer-scheduler/service\<close> (\<open>helpers.go\<close>, \<open>mapper.go\<close>, the options of
  \<open>service.go\<close>) and \<open>pkg/subjects/timer.go\<close>: validation, the overlap policy, the computation
  of the next run and of the next task state, the mapping to SDK values. What the code takes
  from outside the repository is the record \<open>sched_env\<close>: the cron parser and its \<open>Next\<close>, the
  time zone database, \<open>json.Valid\<close>, UUIDs, SHA-1 and the JWT service.
\<close>

record token_claims =
  tc_email :: gostr
  tc_leader_username :: "gostr option"
  tc_department_full_path :: "gostr option"

record sched_env =
  env_cron_next :: "gostr \<Rightarrow> gostr \<Rightarrow> int \<Rightarrow> gostr + int"
  env_zone_known :: "gostr \<Rightarrow> bool"
  env_json_valid :: "gostr \<Rightarrow> bool"
  env_uuid :: "int \<Rightarrow> gostr"
  env_sha1_hex :: "gostr \<Rightarrow> gostr"
  env_validate_token :: "gostr \<Rightarrow> token_claims option"

section \<open>Options\<close>

record options =
  op_dispatch_lease :: int
  op_execution_lease :: int
  op_queue_ack_timeout :: int
  op_max_dispatch_attempts :: int
  op_max_heartbeat_misses :: int
  op_max_outbox_attempts :: int
  op_payload_limit_bytes :: int

definition NewService :: "options \<Rightarrow> options" where
  "NewService opts =
     (let opts = (if op_dispatch_lease opts \<le> 0 then opts\<lparr>op_dispatch_lease := 30 * second\<rparr> else opts);
          opts = (if op_execution_lease opts \<le> 0 then opts\<lparr>op_execution_lease := 3 * minute\<rparr> else opts);
          opts = (if op_queue_ack_timeout opts \<le> 0 then opts\<lparr>op_queue_ack_timeout := 2 * minute\<rparr> else opts);
          opts = (if op_max_dispatch_attempts opts \<le> 0 then opts\<lparr>op_max_dispatch_attempts := 30\<rparr> else opts);
          opts = (if op_max_heartbeat_misses opts \<le> 0 then opts\<lparr>op_max_heartbeat_misses := 3\<rparr> else opts);
          opts = (if op_max_outbox_attempts opts \<le> 0 then opts\<lparr>op_max_outbox_attempts := 8\<rparr> else opts) in
      if op_payload_limit_bytes opts \<le> 0 then opts\<lparr>op_payload_limit_bytes := 256 * 1024\<rparr> else opts)"

section \<open>Overlap policy\<close>

abbreviation maxTaskParallelism :: int where "maxTaskParallelism \<equiv> 16"

definition normalizedOverlapPolicy :: "gostr \<Rightarrow> gostr" where
  "normalizedOverlapPolicy policy =
     (let p = trim_space policy in
      if p = PolicyQueueLatest then PolicyQueueLatest
      else if p = PolicyAllow then PolicyAllow
      else PolicyForbid)"

definition normalizedMaxParallelism :: "gostr \<Rightarrow> int \<Rightarrow> int" where
  "normalizedMaxParallelism policy max_parallelism =
     (if normalizedOverlapPolicy policy \<noteq> PolicyAllow then 1
      else if max_parallelism \<le> 0 then 2
      else if max_parallelism > maxTaskParallelism then maxTaskParallelism
      else max_parallelism)"

definition validateOverlapConfig :: "gostr \<Rightarrow> int \<Rightarrow> sched_error option" where
  "validateOverlapConfig policy max_parallelism =
     (if policy \<noteq> [] \<and> policy \<notin> {PolicyForbid, PolicyQueueLatest, PolicyAllow}
      then Some (ErrInvalidRequest ''overlap_policy must be forbid, queue_latest, or allow'')
      else if max_parallelism < 0 \<or> max_parallelism > maxTaskParallelism
      then Some (ErrInvalidRequest ''max_parallelism must be between 1 and 16'')
      else None)"

section \<open>Validation\<close>

definition validatePayload :: "sched_env \<Rightarrow> gostr \<Rightarrow> int \<Rightarrow> sched_error option" where
  "validatePayload E payload limit =
     (if payload = [] then None
      else if limit > 0 \<and> int (length payload) > limit
      then Some (ErrInvalidRequest (''executor_payload exceeds '' @ show_int limit @ '' bytes''))
      else if \<not> env_json_valid E payload
      then Some (ErrInvalidRequest ''executor_payload must be valid json'')
      else None)"

definition validateCreateTaskRequest ::
  "sched_env \<Rightarrow> create_task_request \<Rightarrow> int \<Rightarrow> sched_error option" where
  "validateCreateTaskRequest E req payload_limit =
     (if trim_space (cr_executor_key req) = []
      then Some (ErrInvalidRequest ''executor_key is required'')
      else if trim_space (cr_status req) \<notin> {[], TaskPending, TaskPaused}
      then Some (ErrInvalidRequest ''status must be pending or paused'')
      else (case Validate (cr_schedule req) of
          Some e \<Rightarrow> Some e
        | None \<Rightarrow> (case validateOverlapConfig (cr_overlap_policy req) (cr_max_parallelism req) of
              Some e \<Rightarrow> Some e
            | None \<Rightarrow> validatePayload E (cr_executor_payload req) payload_limit)))"

definition createTaskInitialStatus :: "gostr \<Rightarrow> gostr" where
  "createTaskInitialStatus status =
     (if trim_space status = TaskPaused then TaskPaused else TaskPending)"

definition isTerminalTaskStatus :: "gostr \<Rightarrow> bool" where
  "isTerminalTaskStatus status \<longleftrightarrow> trim_space status \<in> {TaskCancelled, TaskDone, TaskFailed}"

section \<open>The next run\<close>

definition locationForSchedule :: "sched_env \<Rightarrow> gostr \<Rightarrow> sched_error + gostr" where
  "locationForSchedule E timezone =
     (let timezone = trim_space timezone in
      if timezone = [] then Inr []
      else if env_zone_known E timezone then Inr timezone
      else Inl (ErrInvalidTimezone timezone))"

text \<open>
  \<open>time.Duration(seconds) * time.Second\<close> is a signed 64-bit product. The location \<open>[]\<close> is
  \<open>time.Local\<close>.
\<close>

definition nextRunForSchedule :: "sched_env \<Rightarrow> schedule \<Rightarrow> int \<Rightarrow> sched_error + int option" where
  "nextRunForSchedule E s t =
     (case Validate s of Some e \<Rightarrow> Inl e
      | None \<Rightarrow> (case locationForSchedule E (sch_timezone s) of Inl e \<Rightarrow> Inl e
        | Inr loc \<Rightarrow>
            if sch_type s = ScheduleManual then Inr None
            else if sch_type s = ScheduleAt then Inr (Some (sch_run_at s))
            else if sch_type s = ScheduleEvery
            then Inr (Some (t + wrap64 (sch_interval_seconds s * second)))
            else if sch_type s = ScheduleCron
            then (case env_cron_next E (trim_space (sch_cron_expr s)) loc t of
                    Inl msg \<Rightarrow> Inl (ErrCron msg) | Inr n \<Rightarrow> Inr (Some n))
            else Inl (ErrUnsupportedSchedule (sch_type s))))"

definition task_schedule :: "timer_task \<Rightarrow> schedule" where
  "task_schedule task =
     \<lparr>sch_type = tk_schedule_type task,
      sch_run_at = (case tk_run_at task of None \<Rightarrow> 0 | Some t \<Rightarrow> t),
      sch_cron_expr = tk_cron_expr task, sch_interval_seconds = tk_interval_seconds task,
      sch_timezone = tk_timezone task, sch_max_runs = tk_max_runs task\<rparr>"

definition nextRunForTask :: "sched_env \<Rightarrow> timer_task \<Rightarrow> int \<Rightarrow> sched_error + int option" where
  "nextRunForTask E task t = nextRunForSchedule E (task_schedule task) t"

text \<open>The messages of the errors, with \<open>%q\<close> escaping quotes and backslashes.\<close>

definition go_quote :: "gostr \<Rightarrow> gostr" where
  "go_quote s = CHR 0x22 # concat (map (\<lambda>c. if c = CHR 0x22 \<or> c = CHR 0x5C then [CHR 0x5C, c] else [c]) s)
                @ [CHR 0x22]"

fun error_text :: "sched_error \<Rightarrow> gostr" where
  "error_text ErrTaskBusy = ''timer-scheduler: task dispatch was not acquired''"
| "error_text ErrInvalidTaskStatus = ''timer-scheduler: invalid task status''"
| "error_text ErrBuiltinTaskDefinition = ''timer-scheduler: built-in task definition is read-only''"
| "error_text (ErrInvalidRequest m) = ''scheduledsdk: invalid request: '' @ m"
| "error_text (ErrInvalidTimezone z) = ''scheduledsdk: invalid request: invalid timezone '' @ go_quote z"
| "error_text (ErrUnsupportedSchedule s) =
     ''scheduledsdk: invalid request: unsupported schedule type '' @ go_quote s"
| "error_text (ErrCron m) = m"
| "error_text ErrRecordNotFound = ''record not found''"
| "error_text ErrDuplicateKey = ''duplicated key not allowed''"
| "error_text ErrNilPublisher = ''timer-scheduler: outbox publisher is nil''"
| "error_text ErrDB = ''database error''"

definition computeTaskNextState ::
  "sched_env \<Rightarrow> timer_task \<Rightarrow> bool \<Rightarrow> int \<Rightarrow> gostr \<times> int option \<times> gostr" where
  "computeTaskNextState E task success t =
     (let last_err = tk_last_error_message task in
      if tk_max_runs task > 0 \<and> tk_run_count task \<ge> tk_max_runs task then (TaskDone, None, last_err)
      else if tk_schedule_type task = ScheduleManual then (TaskPaused, None, last_err)
      else if tk_schedule_type task = ScheduleAt then
        (if success then (TaskDone, None, []) else (TaskFailed, None, last_err))
      else if tk_schedule_type task = ScheduleCron \<or> tk_schedule_type task = ScheduleEvery then
        (case nextRunForTask E task t of
           Inl e \<Rightarrow> (TaskFailed, None, error_text e)
         | Inr n \<Rightarrow> (TaskPending, n, last_err))
      else (TaskFailed, None, ''unsupported schedule type''))"

definition nextRunAfterScheduledDispatch ::
  "sched_env \<Rightarrow> timer_task \<Rightarrow> int \<Rightarrow> sched_error + int option" where
  "nextRunAfterScheduledDispatch E task t =
     (if tk_schedule_type task = ScheduleManual then Inr None
      else if tk_schedule_type task = ScheduleAt then Inr None
      else if tk_schedule_type task = ScheduleCron \<or> tk_schedule_type task = ScheduleEvery
      then nextRunForTask E task t
      else Inl (ErrUnsupportedSchedule (tk_schedule_type task)))"

definition scheduledAtForTask :: "timer_task \<Rightarrow> int \<Rightarrow> int" where
  "scheduledAtForTask task fallback = (case tk_next_run_at task of None \<Rightarrow> fallback | Some n \<Rightarrow> n)"

section \<open>Payloads, pages, back-off\<close>

definition cloneRaw :: "gostr \<Rightarrow> gostr" where
  "cloneRaw raw = (if raw = [] then [] else raw)"

text \<open>A JSON column is its value: encoding keeps it, decoding a null column gives the nil value.\<close>

definition mustJSON :: "'a option \<Rightarrow> 'a option" where
  "mustJSON v = v"

definition decodeStringList :: "gostr list option \<Rightarrow> gostr list" where
  "decodeStringList raw = (case raw of None \<Rightarrow> [] | Some l \<Rightarrow> l)"

definition decodeStringMap :: "metadata_map option \<Rightarrow> metadata_map" where
  "decodeStringMap raw = (case raw of None \<Rightarrow> [] | Some m \<Rightarrow> m)"

definition normalizePage :: "int \<Rightarrow> int \<Rightarrow> int \<times> int" where
  "normalizePage page page_size =
     (let page = (if page \<le> 0 then 1 else page);
          page_size = (if page_size \<le> 0 then 20 else page_size) in
      (page, if page_size > 100 then 100 else page_size))"

definition outboxBackoff :: "int \<Rightarrow> int" where
  "outboxBackoff attempts =
     (if attempts \<le> 1 then second else if attempts = 2 then 5 * second
      else if attempts = 3 then 30 * second else 5 * minute)"

section \<open>Mapping rows to SDK values\<close>

definition taskToSDK :: "timer_task \<Rightarrow> sdk_task" where
  "taskToSDK task =
     \<lparr>st_id = tk_id task,
      st_title = tk_title task,
      st_description = tk_description task,
      st_category = tk_category task,
      st_tags = decodeStringList (tk_tags task),
      st_idempotency_key = (case tk_idempotency_key task of None \<Rightarrow> [] | Some k \<Rightarrow> k),
      st_executor_key = tk_executor_key task,
      st_executor_payload = cloneRaw (tk_executor_payload task),
      st_metadata = decodeStringMap (tk_metadata task),
      st_status = tk_status task,
      st_schedule = task_schedule task,
      st_next_run_at = tk_next_run_at task,
      st_run_count = tk_run_count task,
      st_overlap_policy = normalizedOverlapPolicy (tk_overlap_policy task),
      st_max_parallelism = normalizedMaxParallelism (tk_overlap_policy task) (tk_max_parallelism task),
      st_inflight_execution_id = tk_inflight_execution_id task,
      st_last_execution_id = tk_last_execution_id task,
      st_last_error_message = tk_last_error_message task,
      st_source_type = tk_source_type task,
      st_source_ref = tk_source_ref task,
      st_resource_scope = tk_resource_scope task,
      st_resource_key = tk_resource_key task,
      st_request_user = tk_request_user task,
      st_request_user_dept = tk_request_user_dept task,
      st_created_by = tk_created_by task,
      st_created_at = tk_created_at task,
      st_updated_at = tk_updated_at task\<rparr>"

definition executionToSDK :: "timer_execution \<Rightarrow> sdk_execution" where
  "executionToSDK ex =
     \<lparr>se_id = ex_id ex,
      se_task_id = ex_task_id ex,
      se_executor_key = ex_executor_key ex,
      se_status = ex_status ex,
      se_trigger_type = ex_trigger_type ex,
      se_executor_run_id = ex_executor_run_id ex,
      se_scheduled_at = ex_scheduled_at ex,
      se_started_at = ex_started_at ex,
      se_finished_at = ex_finished_at ex,
      se_worker_id = ex_worker_id ex,
      se_lease_until = ex_lease_until ex,
      se_heartbeat_at = ex_heartbeat_at ex,
      se_heartbeat_misses = ex_heartbeat_misses ex,
      se_attempt = ex_attempt ex,
      se_duration_millis = ex_duration_millis ex,
      se_output_summary = ex_output_summary ex,
      se_result_payload = cloneRaw (ex_result_payload ex),
      se_error_message = ex_error_message ex,
      se_trace_id = ex_trace_id ex,
      se_source_type = ex_source_type ex,
      se_source_ref = ex_source_ref ex,
      se_resource_scope = ex_resource_scope ex,
      se_resource_key = ex_resource_key ex,
      se_request_user = ex_request_user ex,
      se_request_user_dept = ex_request_user_dept ex,
      se_last_dispatched_at = ex_last_dispatched_at ex,
      se_created_at = ex_created_at ex,
      se_updated_at = ex_updated_at ex\<rparr>"

section \<open>NATS subjects\<close>

text \<open>
  The loop over the runes: \<open>.\<close>, \<open>-\<close>, \<open>_\<close>, letters and digits are kept (lower-cased), a run of
  anything else becomes one dash. Bytes outside ASCII count as letters.
\<close>

definition subject_char :: "char \<Rightarrow> bool" where
  "subject_char c \<longleftrightarrow>
     (let n = (of_char c :: nat) in
      (48 \<le> n \<and> n \<le> 57) \<or> (65 \<le> n \<and> n \<le> 90) \<or> (97 \<le> n \<and> n \<le> 122) \<or> 128 \<le> n)"

fun subject_loop :: "gostr \<Rightarrow> bool \<Rightarrow> gostr" where
  "subject_loop [] last_dash = []"
| "subject_loop (c # cs) last_dash =
     (if c = CHR ''.'' \<or> c = CHR ''-'' \<or> c = CHR ''_'' then c # subject_loop cs False
      else if subject_char c then lower_char c # subject_loop cs False
      else if \<not> last_dash then CHR ''-'' # subject_loop cs True
      else subject_loop cs last_dash)"

definition subject_sep :: "char \<Rightarrow> bool" where
  "subject_sep c \<longleftrightarrow> c = CHR ''.'' \<or> c = CHR ''-'' \<or> c = CHR ''_''"

definition NormalizeTimerSubjectSuffix :: "gostr \<Rightarrow> gostr" where
  "NormalizeTimerSubjectSuffix value =
     (let value = trim_space value in
      if value = [] then ''unknown''
      else let out = rev (dropWhile subject_sep (rev (dropWhile subject_sep (subject_loop value False)))) in
           if out = [] then ''unknown'' else out)"

definition TimerExecutionRequestedSubject :: "gostr \<Rightarrow> gostr" where
  "TimerExecutionRequestedSubject executor_key =
     ''timer.v1.cmd.execution.requested.'' @ NormalizeTimerSubjectSuffix executor_key"

definition TimerWorkerQueueGroup :: "gostr \<Rightarrow> gostr" where
  "TimerWorkerQueueGroup executor_key = ''timer.worker.'' @ NormalizeTimerSubjectSuffix executor_key"

abbreviation TimerExecutionFinishedSubject :: gostr where
  "TimerExecutionFinishedSubject \<equiv> ''timer.v1.event.execution.finished''"

section \<open>The request context\<close>

record req_context =
  cx_request_user :: gostr
  cx_department :: gostr
  cx_token :: gostr
  cx_client_source :: gostr
  cx_source_type :: gostr

definition ResolveClientSource :: "req_context \<Rightarrow> gostr" where
  "ResolveClientSource cx =
     (let source = trim_space (cx_client_source cx); low = to_lower source in
      if low = ''api'' then ''openapi''
      else if low \<noteq> [] then source
      else let st = trim_space (cx_source_type cx) in
        if st = ''openapi_token'' then ''openapi''
        else if st = ''public_share'' then ''public_share''
        else if st = ''agent_tool'' then ''agent''
        else if st = ''scheduled_task'' then ''scheduled_task''
        else [])"

text \<open>A missing key of a Go map reads as the empty string.\<close>

definition map_get :: "metadata_map \<Rightarrow> gostr \<Rightarrow> gostr" where
  "map_get m k = (case map_of m k of None \<Rightarrow> [] | Some v \<Rightarrow> v)"

definition scheduledTaskMetadataWithContext ::
  "sched_env \<Rightarrow> req_context \<Rightarrow> metadata_map \<Rightarrow> metadata_map option" where
  "scheduledTaskMetadataWithContext E cx metadata =
     (let token = trim_space (cx_token cx);
          out = (if token = [] then metadata
            else (case env_validate_token E token of None \<Rightarrow> metadata
              | Some claims \<Rightarrow>
                  let out = (if tc_email claims \<noteq> [] \<and> trim_space (map_get metadata ''request_email'') = []
                             then AList.update ''request_email'' (tc_email claims) metadata else metadata) in
                  (case tc_leader_username claims of None \<Rightarrow> out
                   | Some leader \<Rightarrow>
                       if trim_space leader \<noteq> [] \<and> trim_space (map_get out ''leader_username'') = []
                       then AList.update ''leader_username'' (trim_space leader) out else out))) in
      if out = [] then None else Some out)"

definition isBuiltinTaskDefinition :: "timer_task \<Rightarrow> bool" where
  "isBuiltinTaskDefinition task =
     (let metadata = decodeStringMap (tk_metadata task) in
      if trim_space (map_get metadata ''origin'') = ''manifest'' then True
      else trim_space (map_get metadata ''managed_by'') \<in> {''app_manifest'', ''capability_bundle''})"

definition canManageBuiltinTaskDefinition :: "req_context \<Rightarrow> bool" where
  "canManageBuiltinTaskDefinition cx \<longleftrightarrow>
     trim_space (ResolveClientSource cx) \<in> {''app_manifest'', ''capability_bundle''}"

definition scheduledTaskRequestUser :: "timer_task \<Rightarrow> gostr" where
  "scheduledTaskRequestUser task =
     (let user = trim_space (tk_request_user task) in
      if user \<noteq> [] then user else trim_space (tk_created_by task))"

end
