(* ===== verification/SchedService.thy ===== *)
theory SchedService
  imports SchedHelpers
begin

text \<open>
  The operations of \<open>core/timer-scheduler/service/service.go\<close>: task management, dispatch with the
  overlap policy, execution reports from workers, recovery of stale executions, and the
  transactional outbox. Every operation is an action over the tables of \<open>SchedRepo\<close>; the
  statements of a \<open>db.Transaction\<close> run inside \<open>tx\<close>. \<open>s.now()\<close> is the world's clock, the same
  instant for all readings within one operation.
\<close>

section \<open>Outbox events\<close>

definition executionRequestedOutbox :: "timer_task \<Rightarrow> timer_execution \<Rightarrow> outbox_event" where
  "executionRequestedOutbox task ex =
     (let event_id = ''timer-execution-requested-'' @ show_int (ex_id ex) @ ''-attempt-'' @
                     show_int (ex_attempt ex);
          event = \<lparr>ev_event_id = event_id, ev_task_id = tk_id task, ev_execution_id = ex_id ex,
            ev_executor_key = tk_executor_key task, ev_scheduled_at = ex_scheduled_at ex,
            ev_trace_id = ex_trace_id ex, ev_attempt = ex_attempt ex,
            ev_source_type = tk_source_type task, ev_source_ref = tk_source_ref task,
            ev_resource_scope = tk_resource_scope task, ev_resource_key = tk_resource_key task,
            ev_token = [], ev_request_user = scheduledTaskRequestUser task,
            ev_request_user_dept = tk_request_user_dept task,
            ev_metadata = decodeStringMap (tk_metadata task),
            ev_executor_payload = cloneRaw (tk_executor_payload task)\<rparr> in
      \<lparr>ob_id = 0, ob_created_at = 0, ob_updated_at = 0, ob_event_id = event_id,
       ob_event_type = ''timer.execution.requested'',
       ob_subject = TimerExecutionRequestedSubject (tk_executor_key task),
       ob_aggregate_id = ex_id ex, ob_payload = RequestedPayload event, ob_status = ''pending'',
       ob_attempts = 0, ob_next_attempt_at = None, ob_last_error = [], ob_published_at = None\<rparr>)"

definition createExecutionFinishedOutbox ::
  "mark_finished_request \<Rightarrow> timer_execution \<Rightarrow> int \<Rightarrow> unit sched" where
  "createExecutionFinishedOutbox req ex finished_at =
     OutboxCreate
      \<lparr>ob_id = 0, ob_created_at = 0, ob_updated_at = 0,
       ob_event_id = ''timer-execution-finished-'' @ show_int (mf_execution_id req),
       ob_event_type = ''timer.execution.finished'', ob_subject = TimerExecutionFinishedSubject,
       ob_aggregate_id = mf_execution_id req,
       ob_payload = FinishedPayload
         \<lparr>fe_task_id = mf_task_id req, fe_execution_id = mf_execution_id req,
          fe_executor_key = ex_executor_key ex, fe_status = mf_status req,
          fe_finished_at = finished_at, fe_trace_id = ex_trace_id ex,
          fe_trigger_type = ex_trigger_type ex, fe_source_type = ex_source_type ex,
          fe_source_ref = ex_source_ref ex, fe_resource_scope = ex_resource_scope ex,
          fe_resource_key = ex_resource_key ex\<rparr>,
       ob_status = ''pending'', ob_attempts = 0, ob_next_attempt_at = None, ob_last_error = [],
       ob_published_at = None\<rparr>"

section \<open>Creating executions\<close>

definition newTimerExecution ::
  "sched_env \<Rightarrow> timer_task \<Rightarrow> gostr \<Rightarrow> gostr \<Rightarrow> int \<Rightarrow> timer_execution sched" where
  "newTimerExecution E task status trigger_type scheduled_at =
     andThen (next_id ''uuid'') (\<lambda>u. ret
       \<lparr>ex_id = 0, ex_created_at = 0, ex_updated_at = 0, ex_task_id = tk_id task,
        ex_executor_key = tk_executor_key task, ex_status = status,
        ex_trigger_type = trigger_type, ex_executor_run_id = [], ex_scheduled_at = scheduled_at,
        ex_started_at = None, ex_finished_at = None, ex_worker_id = [], ex_lease_until = None,
        ex_heartbeat_at = None, ex_heartbeat_misses = 0, ex_attempt = 0,
        ex_last_dispatched_at = None, ex_duration_millis = 0, ex_output_summary = [],
        ex_result_payload = [], ex_error_message = [], ex_trace_id = env_uuid E u,
        ex_source_type = tk_source_type task, ex_source_ref = tk_source_ref task,
        ex_resource_scope = tk_resource_scope task, ex_resource_key = tk_resource_key task,
        ex_request_user = scheduledTaskRequestUser task,
        ex_request_user_dept = tk_request_user_dept task\<rparr>)"

definition require :: "sched_error \<Rightarrow> bool \<Rightarrow> unit sched" where
  "require e ok = (if ok then ret () else fail e)"

definition promoteWaitingExecution ::
  "options \<Rightarrow> timer_task \<Rightarrow> timer_execution \<Rightarrow> int \<Rightarrow> timer_execution sched" where
  "promoteWaitingExecution opts task ex t =
     andThen (TryPromoteWaiting ex t (t + op_queue_ack_timeout opts)) (\<lambda>ok.
     andThen (require ErrTaskBusy ok) (\<lambda>_.
     let ex = ex\<lparr>ex_status := ExecQueued, ex_attempt := 1,
                 ex_lease_until := Some (t + op_queue_ack_timeout opts),
                 ex_last_dispatched_at := Some t\<rparr> in
     andThen (SetInflightReference (tk_id task) (ex_id ex)) (\<lambda>_.
     andThen (OutboxCreate (executionRequestedOutbox task ex)) (\<lambda>_. ret ex))))"

section \<open>Dispatch\<close>

definition capacity :: "timer_task \<Rightarrow> int" where
  "capacity task = normalizedMaxParallelism (tk_overlap_policy task) (tk_max_parallelism task)"

definition atCapacity :: "timer_task \<Rightarrow> active_execution_state \<Rightarrow> bool" where
  "atCapacity task state =
     (let policy = normalizedOverlapPolicy (tk_overlap_policy task) in
      if policy = PolicyForbid then ActiveCount state > 0 \<or> ac_waiting state \<noteq> None
      else if policy = PolicyQueueLatest then ActiveCount state > 0
      else int (ActiveCount state) \<ge> capacity task)"

text \<open>Policy forbid: the run is recorded as skipped and the schedule moves on.\<close>

definition dispatch_skip ::
  "sched_env \<Rightarrow> timer_task \<Rightarrow> gostr \<Rightarrow> int \<Rightarrow> gostr \<Rightarrow> int \<Rightarrow> int option \<Rightarrow> timer_execution option sched" where
  "dispatch_skip E task owner scheduled_at trigger_type t next_run_at =
     andThen (newTimerExecution E task ExecSkipped trigger_type scheduled_at) (\<lambda>ex.
     andThen (ExecCreate (ex\<lparr>ex_finished_at := Some t,
        ex_output_summary := ''Skipped because a previous execution is still active''\<rparr>)) (\<lambda>ex.
     andThen (TryAdvanceSchedule (tk_id task) owner
        (if tk_schedule_type task = ScheduleAt then TaskDone else []) next_run_at (ex_id ex)) (\<lambda>ok.
     andThen (require ErrTaskBusy ok) (\<lambda>_. ret (Some ex)))))"

text \<open>At capacity with a waiting execution: it takes over the new time, no second one is queued.\<close>

definition dispatch_refresh ::
  "timer_task \<Rightarrow> gostr \<Rightarrow> int \<Rightarrow> int option \<Rightarrow> timer_execution \<Rightarrow> timer_execution option sched" where
  "dispatch_refresh task owner scheduled_at next_run_at wx =
     andThen (UpdateWaitingScheduledAt (tk_id task) (ex_id wx) scheduled_at) (\<lambda>ok.
     andThen (require ErrTaskBusy ok) (\<lambda>_.
     andThen (TryAdvanceSchedule (tk_id task) owner [] next_run_at (ex_id wx)) (\<lambda>ok.
     andThen (require ErrTaskBusy ok) (\<lambda>_. ret None))))"

definition dispatch_wait ::
  "sched_env \<Rightarrow> timer_task \<Rightarrow> gostr \<Rightarrow> int \<Rightarrow> gostr \<Rightarrow> int option \<Rightarrow> timer_execution option sched" where
  "dispatch_wait E task owner scheduled_at trigger_type next_run_at =
     andThen (newTimerExecution E task ExecWaiting trigger_type scheduled_at) (\<lambda>ex.
     andThen (ExecCreate ex) (\<lambda>ex.
     andThen (TryAdvanceSchedule (tk_id task) owner [] next_run_at (ex_id ex)) (\<lambda>ok.
     andThen (require ErrTaskBusy ok) (\<lambda>_. ret (Some ex)))))"

text \<open>Below capacity with a waiting execution left over: it is the one that runs.\<close>

definition dispatch_promote ::
  "options \<Rightarrow> timer_task \<Rightarrow> gostr \<Rightarrow> int \<Rightarrow> int \<Rightarrow> int option \<Rightarrow> timer_execution \<Rightarrow>
   timer_execution option sched" where
  "dispatch_promote opts task owner scheduled_at t next_run_at wx =
     andThen (UpdateWaitingScheduledAt (tk_id task) (ex_id wx) scheduled_at) (\<lambda>ok.
     andThen (require ErrTaskBusy ok) (\<lambda>_.
     andThen (promoteWaitingExecution opts task (wx\<lparr>ex_scheduled_at := scheduled_at\<rparr>) t) (\<lambda>wx.
     andThen (TryAdvanceSchedule (tk_id task) owner [] next_run_at (ex_id wx)) (\<lambda>ok.
     andThen (require ErrTaskBusy ok) (\<lambda>_. ret (Some wx))))))"

definition dispatch_new ::
  "sched_env \<Rightarrow> options \<Rightarrow> timer_task \<Rightarrow> gostr \<Rightarrow> int \<Rightarrow> gostr \<Rightarrow> int \<Rightarrow> timer_execution option sched" where
  "dispatch_new E opts task owner scheduled_at trigger_type t =
     andThen (newTimerExecution E task ExecQueued trigger_type scheduled_at) (\<lambda>ex.
     andThen (ExecCreate (ex\<lparr>ex_lease_until := Some (t + op_queue_ack_timeout opts), ex_attempt := 1,
        ex_last_dispatched_at := Some t\<rparr>)) (\<lambda>ex.
     andThen
       (if trigger_type = triggerManual then
          andThen (TrySetManualInflight (tk_id task) (ex_id ex)) (\<lambda>ok.
            if ok then ret True else RecordManualExecutionSubmitted (tk_id task) (ex_id ex))
        else (case nextRunAfterScheduledDispatch E task t of Inl e \<Rightarrow> fail e
          | Inr next_run_at \<Rightarrow> TrySetInflight (tk_id task) (ex_id ex) owner next_run_at)) (\<lambda>ok.
     andThen (require (if trigger_type = triggerManual then ErrInvalidTaskStatus else ErrTaskBusy) ok) (\<lambda>_.
     andThen (OutboxCreate (executionRequestedOutbox task ex)) (\<lambda>_. ret (Some ex))))))"

definition dispatch_scheduled ::
  "sched_env \<Rightarrow> options \<Rightarrow> timer_task \<Rightarrow> gostr \<Rightarrow> int \<Rightarrow> gostr \<Rightarrow> int \<Rightarrow> timer_execution option sched" where
  "dispatch_scheduled E opts task owner scheduled_at trigger_type t =
     (case nextRunAfterScheduledDispatch E task t of Inl e \<Rightarrow> fail e
      | Inr next_run_at \<Rightarrow>
        andThen (GetActiveState (tk_id task)) (\<lambda>state.
          if atCapacity task state \<and> normalizedOverlapPolicy (tk_overlap_policy task) = PolicyForbid
          then dispatch_skip E task owner scheduled_at trigger_type t next_run_at
          else if atCapacity task state
          then (case ac_waiting state of
                  Some wx \<Rightarrow> dispatch_refresh task owner scheduled_at next_run_at wx
                | None \<Rightarrow> dispatch_wait E task owner scheduled_at trigger_type next_run_at)
          else (case ac_waiting state of
                  Some wx \<Rightarrow> dispatch_promote opts task owner scheduled_at t next_run_at wx
                | None \<Rightarrow> dispatch_new E opts task owner scheduled_at trigger_type t)))"

definition dispatchTask ::
  "sched_env \<Rightarrow> options \<Rightarrow> timer_task \<Rightarrow> gostr \<Rightarrow> int \<Rightarrow> gostr \<Rightarrow> timer_execution option sched" where
  "dispatchTask E opts task owner scheduled_at trigger_type =
     (let trigger_type = (if trigger_type = [] then triggerScheduled else trigger_type) in
      andThen now (\<lambda>t. tx ErrDB
        (if trigger_type \<noteq> triggerManual
         then dispatch_scheduled E opts task owner scheduled_at trigger_type t
         else dispatch_new E opts task owner scheduled_at trigger_type t)))"

definition RunNow :: "sched_env \<Rightarrow> options \<Rightarrow> int \<Rightarrow> sdk_execution option sched" where
  "RunNow E opts task_id =
     andThen (TaskGetByID task_id) (\<lambda>task. andThen now (\<lambda>t.
     andThen (dispatchTask E opts task [] t triggerManual) (\<lambda>ex. ret (map_option executionToSDK ex))))"

text \<open>
  One task of \<open>DispatchDue\<close>. The loop collects the executions and the errors, so a task that
  fails does not stop the others.
\<close>

definition dispatch_due_one ::
  "sched_env \<Rightarrow> options \<Rightarrow> gostr \<Rightarrow> int \<Rightarrow> timer_task \<Rightarrow> sdk_execution list \<times> sched_error list \<Rightarrow>
   (sdk_execution list \<times> sched_error list) sched" where
  "dispatch_due_one E opts owner t task acc =
     andThen (attempt (TryAcquireDispatch (tk_id task) owner t (t + op_dispatch_lease opts))) (\<lambda>r.
       case r of Inl e \<Rightarrow> ret (fst acc, snd acc @ [e])
       | Inr ok \<Rightarrow>
           if \<not> ok then ret acc
           else andThen (attempt (dispatchTask E opts task owner (scheduledAtForTask task t) triggerScheduled))
             (\<lambda>r. case r of Inl e \<Rightarrow> ret (fst acc, snd acc @ [e])
                  | Inr None \<Rightarrow> ret acc
                  | Inr (Some ex) \<Rightarrow> ret (fst acc @ [executionToSDK ex], snd acc)))"

definition DispatchDue ::
  "sched_env \<Rightarrow> options \<Rightarrow> gostr \<Rightarrow> int \<Rightarrow> (sdk_execution list \<times> sched_error list) sched" where
  "DispatchDue E opts owner limit =
     andThen now (\<lambda>t. andThen (ListDue t limit) (\<lambda>ts.
       fold_act (dispatch_due_one E opts owner t) ts ([], [])))"

end
