(* ===== verification/SchedManage.thy ===== *)
theory SchedManage
  imports SchedService
begin

text \<open>
  Task management of \<open>core/timer-scheduler/service/service.go\<close>: creating a task under its
  idempotency key, updating, pausing, resuming, cancelling and deleting it, and the queries.
  An update reads the row and saves it back in separate statements, so its two halves are
  definitions of their own and can be interleaved with other operations.
\<close>

section \<open>Creating a task\<close>

text \<open>The row \<open>CreateTask\<close> builds from the request and the context.\<close>

definition new_task_row ::
  "sched_env \<Rightarrow> req_context \<Rightarrow> create_task_request \<Rightarrow> int option \<Rightarrow> timer_task" where
  "new_task_row E cx req next_run_at =
     (let key = trim_space (cr_idempotency_key req);
          user0 = trim_space (cr_request_user req);
          user = (if user0 = [] then trim_space (cx_request_user cx) else user0);
          dept0 = trim_space (cr_request_user_dept req);
          dept1 = (if dept0 = [] then trim_space (cx_department cx) else dept0);
          dept = (if dept1 = [] then
                    (case env_validate_token E (trim_space (cx_token cx)) of
                       None \<Rightarrow> dept1
                     | Some claims \<Rightarrow> (case tc_department_full_path claims of
                          None \<Rightarrow> dept1 | Some d \<Rightarrow> trim_space d))
                  else dept1);
          by0 = trim_space (cr_created_by req);
          policy = normalizedOverlapPolicy (cr_overlap_policy req);
          s = cr_schedule req in
      \<lparr>tk_id = 0, tk_created_at = 0, tk_updated_at = 0, tk_deleted_at = None,
       tk_title = trim_space (cr_title req),
       tk_description = trim_space (cr_description req),
       tk_category = trim_space (cr_category req),
       tk_tags = mustJSON (cr_tags req),
       tk_idempotency_key = (if key = [] then None else Some key),
       tk_executor_key = trim_space (cr_executor_key req),
       tk_executor_payload = cloneRaw (cr_executor_payload req),
       tk_metadata = mustJSON (scheduledTaskMetadataWithContext E cx (cr_metadata req)),
       tk_schedule_type = sch_type s,
       tk_run_at = (if sch_run_at s = 0 then None else Some (sch_run_at s)),
       tk_cron_expr = trim_space (sch_cron_expr s),
       tk_interval_seconds = sch_interval_seconds s,
       tk_timezone = trim_space (sch_timezone s),
       tk_max_runs = sch_max_runs s,
       tk_next_run_at = next_run_at,
       tk_run_count = 0,
       tk_overlap_policy = policy,
       tk_max_parallelism = normalizedMaxParallelism policy (cr_max_parallelism req),
       tk_status = createTaskInitialStatus (cr_status req),
       tk_inflight_execution_id = 0, tk_last_execution_id = 0, tk_last_error_message = [],
       tk_lease_owner = [], tk_lease_until = None,
       tk_source_type = trim_space (cr_source_type req),
       tk_source_ref = trim_space (cr_source_ref req),
       tk_resource_scope = trim_space (cr_resource_scope req),
       tk_resource_key = trim_space (cr_resource_key req),
       tk_request_user = user, tk_request_user_dept = dept,
       tk_created_by = (if by0 = [] then user else by0)\<rparr>)"

definition CreateTask_tx ::
  "sched_env \<Rightarrow> gostr \<Rightarrow> timer_task \<Rightarrow> timer_task sched" where
  "CreateTask_tx E key row = tx ErrDB
     (andThen (attempt (GetByIdempotencyKey key)) (\<lambda>r.
        case r of
          Inr existing \<Rightarrow>
            if \<not> isTerminalTaskStatus (tk_status existing) then ret existing
            else andThen (ReleaseIdempotencyKey (env_sha1_hex E) (tk_id existing) (trim_space key))
                   (\<lambda>_. TaskCreate row)
        | Inl e \<Rightarrow> if e = ErrRecordNotFound then TaskCreate row else fail e))"

definition CreateTask ::
  "sched_env \<Rightarrow> options \<Rightarrow> req_context \<Rightarrow> create_task_request \<Rightarrow> sdk_task sched" where
  "CreateTask E opts cx req =
     (case validateCreateTaskRequest E req (op_payload_limit_bytes opts) of Some e \<Rightarrow> fail e
      | None \<Rightarrow> andThen now (\<lambda>t.
          case nextRunForSchedule E (cr_schedule req) t of Inl e \<Rightarrow> fail e
          | Inr next_run_at \<Rightarrow>
              andThen (CreateTask_tx E (cr_idempotency_key req) (new_task_row E cx req next_run_at))
                (\<lambda>task. ret (taskToSDK task))))"

section \<open>Updating a task\<close>

definition set_opt :: "'a option \<Rightarrow> ('a \<Rightarrow> 'r \<Rightarrow> 'r) \<Rightarrow> 'r \<Rightarrow> 'r" where
  "set_opt v f r = (case v of None \<Rightarrow> r | Some x \<Rightarrow> f x r)"

definition update_overlap ::
  "update_task_request \<Rightarrow> timer_task \<Rightarrow> sched_error + timer_task" where
  "update_overlap req task =
     (if ur_overlap_policy req = None \<and> ur_max_parallelism req = None then Inr task
      else
        let previous = normalizedOverlapPolicy (tk_overlap_policy task);
            policy = (case ur_overlap_policy req of None \<Rightarrow> previous | Some p \<Rightarrow> p);
            parallel0 = (if ur_overlap_policy req \<noteq> None \<and> policy = PolicyAllow \<and>
                            previous \<noteq> PolicyAllow \<and> ur_max_parallelism req = None
                         then 0 else tk_max_parallelism task);
            parallel = (case ur_max_parallelism req of None \<Rightarrow> parallel0 | Some n \<Rightarrow> n) in
        (case validateOverlapConfig policy parallel of Some e \<Rightarrow> Inl e
         | None \<Rightarrow>
             let policy = normalizedOverlapPolicy policy in
             Inr (task\<lparr>tk_overlap_policy := policy,
                       tk_max_parallelism := normalizedMaxParallelism policy parallel\<rparr>)))"

definition update_schedule ::
  "sched_env \<Rightarrow> int \<Rightarrow> update_task_request \<Rightarrow> timer_task \<Rightarrow> sched_error + timer_task" where
  "update_schedule E t req task =
     (case ur_schedule req of None \<Rightarrow> Inr task
      | Some s \<Rightarrow> (case Validate s of Some e \<Rightarrow> Inl e
        | None \<Rightarrow> (case nextRunForSchedule E s t of Inl e \<Rightarrow> Inl e
          | Inr next_run_at \<Rightarrow>
              Inr (task\<lparr>tk_schedule_type := sch_type s, tk_cron_expr := trim_space (sch_cron_expr s),
                        tk_interval_seconds := sch_interval_seconds s,
                        tk_timezone := trim_space (sch_timezone s), tk_max_runs := sch_max_runs s,
                        tk_next_run_at := next_run_at,
                        tk_run_at := (if sch_run_at s = 0 then None else Some (sch_run_at s))\<rparr>))))"

text \<open>All the fields an update request may set, in the order the code sets them.\<close>

definition apply_update ::
  "sched_env \<Rightarrow> options \<Rightarrow> req_context \<Rightarrow> int \<Rightarrow> update_task_request \<Rightarrow> timer_task \<Rightarrow>
   sched_error + timer_task" where
  "apply_update E opts cx t req task =
     (let task = set_opt (ur_title req) (\<lambda>v r. r\<lparr>tk_title := trim_space v\<rparr>) task;
          task = set_opt (ur_description req) (\<lambda>v r. r\<lparr>tk_description := trim_space v\<rparr>) task;
          task = set_opt (ur_category req) (\<lambda>v r. r\<lparr>tk_category := trim_space v\<rparr>) task;
          task = set_opt (ur_tags req) (\<lambda>v r. r\<lparr>tk_tags := mustJSON v\<rparr>) task in
      (case (case ur_executor_payload req of None \<Rightarrow> None
             | Some p \<Rightarrow> validatePayload E p (op_payload_limit_bytes opts)) of Some e \<Rightarrow> Inl e
       | None \<Rightarrow>
         let task = set_opt (ur_executor_payload req)
                      (\<lambda>v r. r\<lparr>tk_executor_payload := cloneRaw v\<rparr>) task;
             task = set_opt (ur_metadata req)
                      (\<lambda>v r. r\<lparr>tk_metadata := mustJSON (scheduledTaskMetadataWithContext E cx v)\<rparr>) task in
         (case update_overlap req task of Inl e \<Rightarrow> Inl e
          | Inr task \<Rightarrow>
            let task = set_opt (ur_source_type req) (\<lambda>v r. r\<lparr>tk_source_type := trim_space v\<rparr>) task;
                task = set_opt (ur_source_ref req) (\<lambda>v r. r\<lparr>tk_source_ref := trim_space v\<rparr>) task;
                task = set_opt (ur_resource_scope req) (\<lambda>v r. r\<lparr>tk_resource_scope := trim_space v\<rparr>) task;
                task = set_opt (ur_resource_key req) (\<lambda>v r. r\<lparr>tk_resource_key := trim_space v\<rparr>) task;
                task = set_opt (ur_request_user req) (\<lambda>v r. r\<lparr>tk_request_user := trim_space v\<rparr>) task;
                task = set_opt (ur_request_user_dept req)
                         (\<lambda>v r. r\<lparr>tk_request_user_dept := trim_space v\<rparr>) task in
            update_schedule E t req task)))"

text \<open>What the code checks and computes on the row it has read, before it saves.\<close>

definition UpdateTask_plan ::
  "sched_env \<Rightarrow> options \<Rightarrow> req_context \<Rightarrow> int \<Rightarrow> update_task_request \<Rightarrow> timer_task \<Rightarrow>
   sched_error + timer_task" where
  "UpdateTask_plan E opts cx t req task =
     (if isBuiltinTaskDefinition task \<and> \<not> canManageBuiltinTaskDefinition cx
      then Inl ErrBuiltinTaskDefinition
      else if tk_status task = TaskCancelled \<or> tk_status task = TaskDone then Inl ErrInvalidTaskStatus
      else apply_update E opts cx t req task)"

definition UpdateTask_save :: "timer_task \<Rightarrow> sdk_task sched" where
  "UpdateTask_save task =
     andThen (TaskUpdate task) (\<lambda>_. andThen now (\<lambda>t.
     andThen (only_if (normalizedOverlapPolicy (tk_overlap_policy task) = PolicyForbid)
                (CancelWaitingByTask (tk_id task) t ''overlap policy changed to forbid'')) (\<lambda>_.
     ret (taskToSDK (task\<lparr>tk_updated_at := t\<rparr>)))))"

definition UpdateTask ::
  "sched_env \<Rightarrow> options \<Rightarrow> req_context \<Rightarrow> int \<Rightarrow> update_task_request \<Rightarrow> sdk_task sched" where
  "UpdateTask E opts cx task_id req =
     andThen (TaskGetByID task_id) (\<lambda>task. andThen now (\<lambda>t.
       case UpdateTask_plan E opts cx t req task of Inl e \<Rightarrow> fail e
       | Inr task \<Rightarrow> UpdateTask_save task))"

section \<open>Pause, resume, cancel, delete\<close>

definition PauseTask :: "int \<Rightarrow> unit sched" where
  "PauseTask task_id = andThen now (\<lambda>t. tx ErrDB
     (andThen (TaskPause task_id) (\<lambda>_.
        CancelWaitingByTask task_id t ''task paused before queued overlap could run'')))"

definition ResumeTask :: "sched_env \<Rightarrow> int \<Rightarrow> unit sched" where
  "ResumeTask E task_id =
     andThen (TaskGetByID task_id) (\<lambda>task.
       if tk_schedule_type task = ScheduleManual
       then fail (ErrInvalidRequest ''configure a schedule before enabling a manual task'')
       else andThen now (\<lambda>t. case nextRunForTask E task t of Inl e \<Rightarrow> fail e
         | Inr next_run_at \<Rightarrow> TaskResume task_id next_run_at))"

definition require_manageable :: "req_context \<Rightarrow> timer_task \<Rightarrow> unit sched" where
  "require_manageable cx task =
     require ErrBuiltinTaskDefinition
       (\<not> (isBuiltinTaskDefinition task \<and> \<not> canManageBuiltinTaskDefinition cx))"

definition CancelTask_tx :: "int \<Rightarrow> unit sched" where
  "CancelTask_tx task_id = andThen now (\<lambda>t. tx ErrDB
     (andThen (TaskCancel task_id) (\<lambda>_.
        CancelWaitingByTask task_id t ''task cancelled before queued overlap could run'')))"

definition CancelTask :: "req_context \<Rightarrow> int \<Rightarrow> unit sched" where
  "CancelTask cx task_id =
     andThen (TaskGetByID task_id) (\<lambda>task.
     andThen (require_manageable cx task) (\<lambda>_. CancelTask_tx task_id))"

definition DeleteTask_tx :: "sched_env \<Rightarrow> int \<Rightarrow> unit sched" where
  "DeleteTask_tx E task_id = andThen now (\<lambda>t. tx ErrDB
     (andThen (TaskGetByID task_id) (\<lambda>task.
      andThen (case tk_idempotency_key task of None \<Rightarrow> ret ()
               | Some key \<Rightarrow> ReleaseIdempotencyKey (env_sha1_hex E) (tk_id task) key) (\<lambda>_.
      andThen (CancelWaitingByTask task_id t ''task deleted before queued overlap could run'') (\<lambda>_.
      TaskDelete task)))))"

definition DeleteTask :: "sched_env \<Rightarrow> req_context \<Rightarrow> int \<Rightarrow> unit sched" where
  "DeleteTask E cx task_id =
     andThen (TaskGetByID task_id) (\<lambda>task.
     andThen (require_manageable cx task) (\<lambda>_. DeleteTask_tx E task_id))"

section \<open>Queries\<close>

definition GetTask :: "int \<Rightarrow> sdk_task sched" where
  "GetTask task_id = andThen (TaskGetByID task_id) (\<lambda>task. ret (taskToSDK task))"

definition ListTasks :: "list_tasks_request \<Rightarrow> (sdk_task list \<times> nat) sched" where
  "ListTasks req =
     (case normalizePage (lt_page req) (lt_page_size req) of (page, page_size) \<Rightarrow>
      andThen (TaskList
        \<lparr>lf_executor_key = lt_executor_key req, lf_status = lt_status req,
         lf_category = lt_category req, lf_source_type = lt_source_type req,
         lf_source_ref = lt_source_ref req, lf_resource_scope = lt_resource_scope req,
         lf_resource_key = lt_resource_key req,
         lf_resource_key_prefix = lt_resource_key_prefix req, lf_created_by = lt_created_by req,
         lf_offset = (page - 1) * page_size, lf_limit = page_size\<rparr>)
        (\<lambda>(rows, total). ret (map taskToSDK rows, total)))"

definition GetExecution :: "int \<Rightarrow> int \<Rightarrow> sdk_execution sched" where
  "GetExecution task_id execution_id =
     andThen (ExecGetByID task_id execution_id) (\<lambda>ex. ret (executionToSDK ex))"

definition ListExecutions :: "int \<Rightarrow> list_executions_request \<Rightarrow> (sdk_execution list \<times> nat) sched" where
  "ListExecutions task_id req =
     (case normalizePage (le_page req) (le_page_size req) of (page, page_size) \<Rightarrow>
      andThen (ListByTaskID task_id (le_status req) ((page - 1) * page_size) page_size)
        (\<lambda>(rows, total). ret (map executionToSDK rows, total)))"

definition PlatformStats :: "(nat \<times> nat) sched" where
  "PlatformStats =
     andThen (query ErrDB (\<lambda>s. hits live (tasks s))) (\<lambda>total.
     andThen (query ErrDB (\<lambda>s. hits (\<lambda>r. live r \<and> tk_status r = TaskPending) (tasks s))) (\<lambda>active.
     ret (total, active)))"

end
