(* ===== verification/SchedReports.thy ===== *)
theory SchedReports
  imports SchedManage
begin

text \<open>
  What workers report and what the background loops repair
  (\<open>core/timer-scheduler/service/service.go\<close>): an execution is started, sends heartbeats and
  finishes; executions whose lease ran out are dispatched again or timed out; broken references
  of tasks are cleared; the outbox is published with retries and a dead letter.
\<close>

section \<open>Started and heartbeat\<close>

definition time_or_now :: "int \<Rightarrow> int sched" where
  "time_or_now reported = (if reported = 0 then now else ret reported)"

definition MarkExecutionStarted :: "options \<Rightarrow> mark_started_request \<Rightarrow> unit sched" where
  "MarkExecutionStarted opts req =
     andThen (time_or_now (ms_started_at req)) (\<lambda>started_at.
     andThen (TryMarkRunning (ms_task_id req) (ms_execution_id req) (trim_space (ms_worker_id req))
                (trim_space (ms_executor_run_id req)) started_at
                (started_at + op_execution_lease opts)) (\<lambda>ok.
     require ErrInvalidTaskStatus ok))"

definition MarkExecutionHeartbeat :: "options \<Rightarrow> mark_heartbeat_request \<Rightarrow> unit sched" where
  "MarkExecutionHeartbeat opts req =
     andThen (time_or_now (mh_heartbeat_at req)) (\<lambda>heartbeat_at.
     andThen (TryHeartbeat (mh_task_id req) (mh_execution_id req) (trim_space (mh_worker_id req))
                heartbeat_at (heartbeat_at + op_execution_lease opts)) (\<lambda>ok.
     require ErrInvalidTaskStatus ok))"

section \<open>Finished\<close>

text \<open>\<open>queue_latest\<close> promotes into an idle task, \<open>allow\<close> into a free slot, \<open>forbid\<close> never.\<close>

definition capacityAvailable :: "timer_task \<Rightarrow> active_execution_state \<Rightarrow> bool" where
  "capacityAvailable task state =
     (let policy = normalizedOverlapPolicy (tk_overlap_policy task) in
      if policy = PolicyQueueLatest then ActiveCount state = 0
      else if policy = PolicyAllow then int (ActiveCount state) < capacity task
      else False)"

definition promoteWaitingAfterCompletion :: "options \<Rightarrow> timer_task \<Rightarrow> int \<Rightarrow> unit sched" where
  "promoteWaitingAfterCompletion opts task t =
     andThen (GetActiveState (tk_id task)) (\<lambda>state.
     andThen (if ActiveCount state > 0
              then andThen (attempt (LatestActiveExecutionID (tk_id task))) (\<lambda>r.
                case r of
                  Inl e \<Rightarrow> if e = ErrRecordNotFound then ret () else fail e
                | Inr latest \<Rightarrow> only_if (latest > 0) (SetInflightReference (tk_id task) latest))
              else ret ()) (\<lambda>_.
     case ac_waiting state of None \<Rightarrow> ret ()
     | Some wx \<Rightarrow>
         if tk_status task \<noteq> TaskPending \<or> \<not> capacityAvailable task state then ret ()
         else andThen (promoteWaitingExecution opts task wx t) (\<lambda>_. ret ())))"

definition finish_updates ::
  "mark_finished_request \<Rightarrow> int \<Rightarrow> timer_execution \<Rightarrow> timer_execution" where
  "finish_updates req finished_at e =
     (let e = e\<lparr>ex_status := mf_status req, ex_finished_at := Some finished_at,
                ex_duration_millis := mf_duration_millis req,
                ex_output_summary := trim_space (mf_output_summary req),
                ex_result_payload := cloneRaw (mf_result_payload req),
                ex_error_message := trim_space (mf_error_message req), ex_lease_until := None\<rparr> in
      if trim_space (mf_executor_run_id req) \<noteq> []
      then e\<lparr>ex_executor_run_id := trim_space (mf_executor_run_id req)\<rparr> else e)"

text \<open>The task after a finished execution: a manual run leaves its schedule and status alone.\<close>

definition task_after_finish ::
  "sched_env \<Rightarrow> mark_finished_request \<Rightarrow> gostr \<Rightarrow> int \<Rightarrow> timer_task \<Rightarrow> timer_task" where
  "task_after_finish E req trigger_type finished_at task =
     (let task = task\<lparr>tk_last_error_message := trim_space (mf_error_message req)\<rparr> in
      if trigger_type \<noteq> triggerManual
      then (let task = task\<lparr>tk_run_count := tk_run_count task + 1\<rparr> in
            case computeTaskNextState E task (mf_status req = ExecSuccess) finished_at of
              (status, next_run_at, last_err) \<Rightarrow>
                task\<lparr>tk_status := status, tk_next_run_at := next_run_at,
                     tk_last_error_message := last_err\<rparr>)
      else task)"

definition finish_task ::
  "sched_env \<Rightarrow> options \<Rightarrow> mark_finished_request \<Rightarrow> timer_execution \<Rightarrow> int \<Rightarrow> timer_task \<Rightarrow> unit sched" where
  "finish_task E opts req ex finished_at task0 =
     (let task = task_after_finish E req (ex_trigger_type ex) finished_at task0 in
      andThen (TryCompleteExecution task (mf_execution_id req)) (\<lambda>_.
      andThen (if isTerminalTaskStatus (tk_status task)
               then CancelWaitingByTask (tk_id task) finished_at
                      ''task became terminal before queued overlap could run''
               else promoteWaitingAfterCompletion opts task finished_at) (\<lambda>_.
      createExecutionFinishedOutbox req ex finished_at)))"

definition MarkExecutionFinished ::
  "sched_env \<Rightarrow> options \<Rightarrow> mark_finished_request \<Rightarrow> unit sched" where
  "MarkExecutionFinished E opts req =
     (if mf_status req = [] then fail (ErrInvalidRequest ''execution status is required'')
      else andThen (time_or_now (mf_finished_at req)) (\<lambda>finished_at. tx ErrDB
        (andThen (ExecGetByID (mf_task_id req) (mf_execution_id req)) (\<lambda>ex.
         andThen (TryFinish (mf_task_id req) (mf_execution_id req) (finish_updates req finished_at)) (\<lambda>ok.
         andThen (require ErrInvalidTaskStatus ok) (\<lambda>_.
         andThen (attempt (GetByIDForUpdate (mf_task_id req))) (\<lambda>r.
           case r of
             Inl e \<Rightarrow> if e = ErrRecordNotFound then createExecutionFinishedOutbox req ex finished_at
                      else fail e
           | Inr task \<Rightarrow> finish_task E opts req ex finished_at task)))))))"

section \<open>Recovery\<close>

text \<open>\<open>now.Sub(started).Milliseconds()\<close> of a start in the past.\<close>

definition elapsed_millis :: "timer_execution \<Rightarrow> int \<Rightarrow> int" where
  "elapsed_millis ex t =
     (case ex_started_at ex of None \<Rightarrow> 0 | Some s \<Rightarrow> if t > s then (t - s) div 1000000 else 0)"

definition timeoutOrphanExecution :: "timer_execution \<Rightarrow> int \<Rightarrow> gostr \<Rightarrow> unit sched" where
  "timeoutOrphanExecution ex t message =
     andThen (TryFinish (ex_task_id ex) (ex_id ex)
       (\<lambda>e. e\<lparr>ex_status := ExecTimeout, ex_finished_at := Some t,
              ex_duration_millis := elapsed_millis ex t,
              ex_error_message := trim_space message, ex_lease_until := None\<rparr>))
       (\<lambda>ok. require ErrInvalidTaskStatus ok)"

definition timeout_request :: "timer_execution \<Rightarrow> int \<Rightarrow> gostr \<Rightarrow> mark_finished_request" where
  "timeout_request ex t message =
     \<lparr>mf_task_id = ex_task_id ex, mf_execution_id = ex_id ex, mf_status = ExecTimeout,
      mf_executor_run_id = [], mf_finished_at = t, mf_duration_millis = elapsed_millis ex t,
      mf_output_summary = [], mf_result_payload = [], mf_error_message = message\<rparr>"

definition timeoutExecution ::
  "sched_env \<Rightarrow> options \<Rightarrow> timer_execution \<Rightarrow> int \<Rightarrow> gostr \<Rightarrow> unit sched" where
  "timeoutExecution E opts ex t message =
     andThen (attempt (MarkExecutionFinished E opts (timeout_request ex t message))) (\<lambda>r.
       case r of
         Inr _ \<Rightarrow> ret ()
       | Inl e \<Rightarrow> if e = ErrRecordNotFound \<or> e = ErrTaskBusy then timeoutOrphanExecution ex t message
                  else fail e)"

definition requeueExecution :: "options \<Rightarrow> timer_execution \<Rightarrow> int \<Rightarrow> unit sched" where
  "requeueExecution opts ex t = tx ErrDB
     (andThen (attempt (TaskGetByID (ex_task_id ex))) (\<lambda>r.
        case r of
          Inl e \<Rightarrow> if e = ErrRecordNotFound
                   then timeoutOrphanExecution ex t ''timer-scheduler task not found during recovery''
                   else fail e
        | Inr task \<Rightarrow>
            andThen (TryRequeueQueued ex t (t + op_queue_ack_timeout opts)) (\<lambda>ok.
            andThen (require ErrInvalidTaskStatus ok) (\<lambda>_.
            OutboxCreate (executionRequestedOutbox task
              (ex\<lparr>ex_attempt := ex_attempt ex + 1,
                  ex_lease_until := Some (t + op_queue_ack_timeout opts),
                  ex_last_dispatched_at := Some t\<rparr>))))))"

definition handleExpiredRunningExecution ::
  "sched_env \<Rightarrow> options \<Rightarrow> timer_execution \<Rightarrow> int \<Rightarrow> bool sched" where
  "handleExpiredRunningExecution E opts ex t =
     (let misses = ex_heartbeat_misses ex + 1 in
      if misses < op_max_heartbeat_misses opts
      then TryRecordHeartbeatMiss ex t (t + op_execution_lease opts) misses
      else andThen (timeoutExecution E opts ex t ''timer-scheduler execution heartbeat expired'')
             (\<lambda>_. ret True))"

definition stale_inflight_message :: "int \<Rightarrow> gostr" where
  "stale_inflight_message execution_id =
     ''timer-scheduler cleared stale inflight execution reference: execution_id='' @
     show_int execution_id"

text \<open>The loops count what they repaired and collect the errors they do not ignore.\<close>

definition clear_broken_one :: "timer_task \<Rightarrow> int \<times> sched_error list \<Rightarrow> (int \<times> sched_error list) sched" where
  "clear_broken_one task acc =
     (if tk_inflight_execution_id task = 0 then ret acc
      else andThen (attempt (TryClearInflight (tk_id task) (tk_inflight_execution_id task)
                     (stale_inflight_message (tk_inflight_execution_id task)))) (\<lambda>r.
        case r of Inl e \<Rightarrow> ret (fst acc, snd acc @ [e])
        | Inr ok \<Rightarrow> ret (if ok then (fst acc + 1, snd acc) else acc)))"

definition recoverBrokenInflightReferences :: "int \<Rightarrow> (int \<times> sched_error list) sched" where
  "recoverBrokenInflightReferences limit =
     andThen (attempt (ListBrokenInflightReferences limit)) (\<lambda>r.
       case r of Inl e \<Rightarrow> ret (0, [e]) | Inr rows \<Rightarrow> fold_act clear_broken_one rows (0, []))"

definition recoverBrokenInflightReferenceForTask :: "int \<Rightarrow> bool sched" where
  "recoverBrokenInflightReferenceForTask task_id =
     andThen (attempt (GetBrokenInflightReferenceByID task_id)) (\<lambda>r.
       case r of
         Inl e \<Rightarrow> if e = ErrRecordNotFound then ret False else fail e
       | Inr task \<Rightarrow>
           if tk_inflight_execution_id task = 0 then ret False
           else TryClearInflight (tk_id task) (tk_inflight_execution_id task)
                  (stale_inflight_message (tk_inflight_execution_id task)))"

definition recover_action ::
  "sched_env \<Rightarrow> options \<Rightarrow> int \<Rightarrow> timer_execution \<Rightarrow> bool sched" where
  "recover_action E opts t ex =
     (if ex_status ex = ExecQueued then
        (if ex_attempt ex < op_max_dispatch_attempts opts
         then andThen (requeueExecution opts ex t) (\<lambda>_. ret True)
         else andThen (timeoutExecution E opts ex t
                ''timer-scheduler execution was not picked up before timeout'') (\<lambda>_. ret True))
      else if ex_status ex = ExecRunning then handleExpiredRunningExecution E opts ex t
      else ret False)"

definition recover_one ::
  "sched_env \<Rightarrow> options \<Rightarrow> int \<Rightarrow> timer_execution \<Rightarrow> int \<times> sched_error list \<Rightarrow>
   (int \<times> sched_error list) sched" where
  "recover_one E opts t ex acc =
     andThen (attempt (recover_action E opts t ex)) (\<lambda>r.
       case r of
         Inl e \<Rightarrow> ret (if e = ErrInvalidTaskStatus then acc else (fst acc, snd acc @ [e]))
       | Inr handled \<Rightarrow> ret (if handled then (fst acc + 1, snd acc) else acc))"

definition RecoverStaleExecutions ::
  "sched_env \<Rightarrow> options \<Rightarrow> int \<Rightarrow> (int \<times> sched_error list) sched" where
  "RecoverStaleExecutions E opts limit =
     andThen now (\<lambda>t.
     andThen (ListStale t limit) (\<lambda>stale.
     andThen (fold_act (recover_one E opts t) stale (0, [])) (\<lambda>acc.
     andThen (recoverBrokenInflightReferences limit) (\<lambda>cleared.
     ret (fst acc + fst cleared, snd acc @ snd cleared)))))"

section \<open>Publishing the outbox\<close>

text \<open>A publisher answers \<open>None\<close> or the text of its error.\<close>

type_synonym publisher = "gostr \<Rightarrow> outbox_payload \<Rightarrow> gostr option"

text \<open>\<open>NATSOutboxPublisher.Publish\<close>; the connection is a parameter, \<open>None\<close> the nil pointer.\<close>

definition NATS_Publish :: "publisher option \<Rightarrow> publisher" where
  "NATS_Publish conn subject payload =
     (case conn of None \<Rightarrow> Some ''timer-scheduler: nats connection is nil''
      | Some send \<Rightarrow>
          if trim_space subject = [] then Some ''timer-scheduler: outbox subject is empty''
          else send subject payload)"

definition deliver :: "gostr \<Rightarrow> outbox_payload \<Rightarrow> unit sched" where
  "deliver subject payload =
     (\<lambda>w. (Inr (), w\<lparr>store := (store w)\<lparr>delivered := delivered (store w) @ [(subject, payload)]\<rparr>\<rparr>))"

definition publish_failed :: "options \<Rightarrow> int \<Rightarrow> outbox_event \<Rightarrow> gostr \<Rightarrow> unit sched" where
  "publish_failed opts t event message =
     (let attempts = ob_attempts event + 1 in
      if attempts \<ge> op_max_outbox_attempts opts
      then MarkDeadLetter (ob_id event) attempts message
      else MarkRetry (ob_id event) attempts (t + outboxBackoff attempts) message)"

text \<open>The answer is the number published, and the error that ended the loop early.\<close>

fun publish_loop ::
  "options \<Rightarrow> publisher \<Rightarrow> int \<Rightarrow> outbox_event list \<Rightarrow> int \<Rightarrow> (int \<times> sched_error option) sched" where
  "publish_loop opts publish t [] published = ret (published, None)"
| "publish_loop opts publish t (event # events) published =
     (case publish (ob_subject event) (ob_payload event) of
        Some message \<Rightarrow>
          andThen (attempt (publish_failed opts t event message)) (\<lambda>r.
            case r of Inl e \<Rightarrow> ret (published, Some e)
            | Inr _ \<Rightarrow> publish_loop opts publish t events published)
      | None \<Rightarrow>
          andThen (deliver (ob_subject event) (ob_payload event)) (\<lambda>_.
          andThen (attempt (MarkPublished (ob_id event) t)) (\<lambda>r.
            case r of Inl e \<Rightarrow> ret (published, Some e)
            | Inr _ \<Rightarrow> publish_loop opts publish t events (published + 1))))"

definition PublishPendingOutbox ::
  "options \<Rightarrow> publisher option \<Rightarrow> int \<Rightarrow> (int \<times> sched_error option) sched" where
  "PublishPendingOutbox opts publisher limit =
     (case publisher of None \<Rightarrow> fail ErrNilPublisher
      | Some publish \<Rightarrow>
          andThen now (\<lambda>t. andThen (ListReady t limit) (\<lambda>events.
            publish_loop opts publish t events 0)))"

end
