(* ===== verification/SchedSteps.thy ===== *)
theory SchedSteps
  imports SchedReports
begin

text \<open>
  The scheduler as a transition system. Several instances of the service run against one
  database, so the unit of interleaving is a single statement or transaction: a step runs one
  of them with any arguments at all (rows read earlier may be stale), lets the clock advance,
  or changes which of the coming statements fail. The label tells apart the steps that some
  theorems exclude: a manual run, and the status a worker reports at the end.
\<close>

section \<open>Steps\<close>

datatype sched_label = Ordinary | ManualRun | Report gostr

inductive sched_step ::
  "sched_env \<Rightarrow> options \<Rightarrow> sched_label \<Rightarrow> sched_db world \<Rightarrow> sched_db world \<Rightarrow> bool"
  for E opts where
  step_tick: "0 \<le> d \<Longrightarrow> sched_step E opts Ordinary w (w\<lparr>clock := clock w + d\<rparr>)"
| step_faults: "sched_step E opts Ordinary w (w\<lparr>faults := fs\<rparr>)"
| step_create: "sched_step E opts Ordinary w (snd (CreateTask_tx E key row w))"
| step_save: "sched_step E opts Ordinary w (snd (TaskUpdate task w))"
| step_cancel_waiting: "sched_step E opts Ordinary w (snd (CancelWaitingByTask i t msg w))"
| step_pause: "sched_step E opts Ordinary w (snd (PauseTask i w))"
| step_resume: "sched_step E opts Ordinary w (snd (TaskResume i n w))"
| step_cancel: "sched_step E opts Ordinary w (snd (CancelTask_tx i w))"
| step_delete: "sched_step E opts Ordinary w (snd (DeleteTask_tx E i w))"
| step_acquire: "sched_step E opts Ordinary w (snd (TryAcquireDispatch i owner t l w))"
| step_dispatch: "trigger \<noteq> triggerManual \<Longrightarrow>
    sched_step E opts Ordinary w (snd (dispatchTask E opts task owner at trigger w))"
| step_manual: "sched_step E opts ManualRun w (snd (dispatchTask E opts task owner at triggerManual w))"
| step_started: "sched_step E opts Ordinary w (snd (MarkExecutionStarted opts ms w))"
| step_heartbeat: "sched_step E opts Ordinary w (snd (MarkExecutionHeartbeat opts mh w))"
| step_finished:
    "sched_step E opts (Report (mf_status req)) w (snd (MarkExecutionFinished E opts req w))"
| step_orphan: "sched_step E opts Ordinary w (snd (timeoutOrphanExecution ex t msg w))"
| step_requeue: "sched_step E opts Ordinary w (snd (requeueExecution opts ex t w))"
| step_miss: "sched_step E opts Ordinary w (snd (TryRecordHeartbeatMiss ex t l n w))"
| step_clear: "sched_step E opts Ordinary w (snd (TryClearInflight i x msg w))"
| step_deliver: "sched_step E opts Ordinary w (snd (deliver subject payload w))"
| step_published: "sched_step E opts Ordinary w (snd (MarkPublished i t w))"
| step_retry: "sched_step E opts Ordinary w (snd (MarkRetry i n t msg w))"
| step_dead_letter: "sched_step E opts Ordinary w (snd (MarkDeadLetter i n msg w))"

text \<open>The states reached from \<open>w0\<close> by steps whose labels lie in \<open>L\<close>.\<close>

inductive sched_reach ::
  "sched_env \<Rightarrow> options \<Rightarrow> sched_label set \<Rightarrow> sched_db world \<Rightarrow> sched_db world \<Rightarrow> bool"
  for E opts L w0 where
  reach_refl: "sched_reach E opts L w0 w0"
| reach_step: "sched_reach E opts L w0 w \<Longrightarrow> l \<in> L \<Longrightarrow> sched_step E opts l w w' \<Longrightarrow>
    sched_reach E opts L w0 w'"

inductive_cases reach_lastE: "sched_reach E opts L w0 w"

lemma reach_trans:
  "sched_reach E opts L w1 w2 \<Longrightarrow> sched_reach E opts L w0 w1 \<Longrightarrow> sched_reach E opts L w0 w2"
  by (induction rule: sched_reach.induct) (auto intro: reach_step)

lemma reach_one: "sched_step E opts l w w' \<Longrightarrow> l \<in> L \<Longrightarrow> sched_reach E opts L w w'"
  by (blast intro: reach_refl reach_step)

lemma reach_invariant:
  assumes "sched_reach E opts L w0 w" and "I (store w0)"
    and "\<And>l w w'. l \<in> L \<Longrightarrow> sched_step E opts l w w' \<Longrightarrow> I (store w) \<Longrightarrow> I (store w')"
  shows "I (store w)"
  using assms(1,2) by (induction rule: sched_reach.induct) (auto intro: assms(3))

section \<open>Operations are sequences of steps\<close>

text \<open>An action is covered when each of its runs is a path of the transition system.\<close>

definition covered ::
  "sched_env \<Rightarrow> options \<Rightarrow> sched_label set \<Rightarrow> 'a sched \<Rightarrow> bool" where
  "covered E opts L m \<longleftrightarrow> (\<forall>w. sched_reach E opts L w (snd (m w)))"

named_theorems covered_intros

lemma covered_steps [covered_intros]:
  "Ordinary \<in> L \<Longrightarrow> covered E opts L (CreateTask_tx E key row)"
  "Ordinary \<in> L \<Longrightarrow> covered E opts L (TaskUpdate task)"
  "Ordinary \<in> L \<Longrightarrow> covered E opts L (CancelWaitingByTask i t msg)"
  "Ordinary \<in> L \<Longrightarrow> covered E opts L (PauseTask i)"
  "Ordinary \<in> L \<Longrightarrow> covered E opts L (TaskResume i nx)"
  "Ordinary \<in> L \<Longrightarrow> covered E opts L (CancelTask_tx i)"
  "Ordinary \<in> L \<Longrightarrow> covered E opts L (DeleteTask_tx E i)"
  "Ordinary \<in> L \<Longrightarrow> covered E opts L (TryAcquireDispatch i owner t l)"
  "Ordinary \<in> L \<Longrightarrow> trigger \<noteq> triggerManual \<Longrightarrow>
     covered E opts L (dispatchTask E opts task owner at trigger)"
  "ManualRun \<in> L \<Longrightarrow> covered E opts L (dispatchTask E opts task owner at triggerManual)"
  "Ordinary \<in> L \<Longrightarrow> covered E opts L (MarkExecutionStarted opts ms)"
  "Ordinary \<in> L \<Longrightarrow> covered E opts L (MarkExecutionHeartbeat opts mh)"
  "Report (mf_status req) \<in> L \<Longrightarrow> covered E opts L (MarkExecutionFinished E opts req)"
  "Ordinary \<in> L \<Longrightarrow> covered E opts L (timeoutOrphanExecution ex t msg)"
  "Ordinary \<in> L \<Longrightarrow> covered E opts L (requeueExecution opts ex t)"
  "Ordinary \<in> L \<Longrightarrow> covered E opts L (TryRecordHeartbeatMiss ex t u n)"
  "Ordinary \<in> L \<Longrightarrow> covered E opts L (TryClearInflight i x msg)"
  "Ordinary \<in> L \<Longrightarrow> covered E opts L (deliver subject payload)"
  "Ordinary \<in> L \<Longrightarrow> covered E opts L (MarkPublished i t)"
  "Ordinary \<in> L \<Longrightarrow> covered E opts L (MarkRetry i k t msg)"
  "Ordinary \<in> L \<Longrightarrow> covered E opts L (MarkDeadLetter i k msg)"
  unfolding covered_def by (auto intro: reach_one sched_step.intros)

lemma covered_pure [covered_intros]:
  "covered E opts L (ret a)" "covered E opts L (fail e)" "covered E opts L now"
  by (auto simp: covered_def ret_def fail_def now_def intro: reach_refl)

lemma covered_query [covered_intros]:
  assumes "Ordinary \<in> L" shows "covered E opts L (query e f)"
proof -
  have "snd (query e f w) = w\<lparr>faults := tl (faults w)\<rparr>" for w
    by (cases w) (auto simp: query_def stmt_def)
  with assms show ?thesis by (auto simp: covered_def intro: reach_one step_faults)
qed

lemma covered_andThen [covered_intros]:
  assumes "covered E opts L m" and "\<And>a. covered E opts L (f a)"
  shows "covered E opts L (andThen m f)"
proof (unfold covered_def, rule allI)
  fix w show "sched_reach E opts L w (snd (andThen m f w))"
  proof (cases "m w")
    case (Pair r w')
    with assms(1) have "sched_reach E opts L w w'" by (metis covered_def snd_conv)
    with Pair assms(2) show ?thesis
      by (cases r) (auto simp: andThen_def covered_def intro: reach_trans)
  qed
qed

lemma covered_attempt [covered_intros]: "covered E opts L m \<Longrightarrow> covered E opts L (attempt m)"
  unfolding covered_def attempt_def by (auto simp: case_prod_beta)

lemma covered_found [covered_intros]: "covered E opts L (found r)"
  by (auto simp: found_def intro: covered_intros split: option.splits)

lemma covered_require [covered_intros]: "covered E opts L (require e b)"
  by (auto simp: require_def intro: covered_intros)

lemma covered_only_if [covered_intros]:
  "(b \<Longrightarrow> covered E opts L m) \<Longrightarrow> covered E opts L (only_if b m)"
  by (auto simp: only_if_def intro: covered_intros)

lemma covered_fold_act [covered_intros]:
  "(\<And>x acc. covered E opts L (f x acc)) \<Longrightarrow> covered E opts L (fold_act f xs acc)"
  by (induction xs arbitrary: acc) (auto intro: covered_intros)

lemmas read_defs = TaskGetByID_def ExecGetByID_def ListDue_def ListStale_def ListReady_def
  ListBrokenInflightReferences_def GetBrokenInflightReferenceByID_def TaskList_def
  ListByTaskID_def

lemma covered_timeoutExecution [covered_intros]:
  assumes "Ordinary \<in> L" "Report ExecTimeout \<in> L"
  shows "covered E opts L (timeoutExecution E opts ex t msg)"
  unfolding timeoutExecution_def
  using assms by (auto intro!: covered_intros split: sum.splits simp: timeout_request_def)

lemma covered_recover_action [covered_intros]:
  assumes "Ordinary \<in> L" "Report ExecTimeout \<in> L"
  shows "covered E opts L (recover_action E opts t ex)"
  unfolding recover_action_def handleExpiredRunningExecution_def Let_def
  using assms by (auto intro!: covered_intros)

lemma covered_publish_loop [covered_intros]:
  assumes "Ordinary \<in> L"
  shows "covered E opts L (publish_loop opts publish t events n)"
  using assms
  by (induction opts publish t events n rule: publish_loop.induct)
    (auto intro!: covered_intros simp: publish_failed_def Let_def split: option.splits sum.splits)

text \<open>
  The calls a client or a background loop makes, by name. \<open>op_run\<close> runs one and forgets its
  answer, \<open>op_labels\<close> are the labels its steps may have.
\<close>

datatype sched_op =
    OpCreate req_context create_task_request
  | OpUpdate req_context int update_task_request
  | OpPause int
  | OpResume int
  | OpCancel req_context int
  | OpDelete req_context int
  | OpRunNow int
  | OpGetTask int
  | OpListTasks list_tasks_request
  | OpGetExecution int int
  | OpListExecutions int list_executions_request
  | OpStats
  | OpStarted mark_started_request
  | OpHeartbeat mark_heartbeat_request
  | OpFinished mark_finished_request
  | OpDispatchDue gostr int
  | OpRecover int
  | OpRecoverTask int
  | OpPublish "publisher option" int

fun op_run :: "sched_env \<Rightarrow> options \<Rightarrow> sched_op \<Rightarrow> sched_db world \<Rightarrow> sched_db world" where
  "op_run E opts (OpCreate cx req) w = snd (CreateTask E opts cx req w)"
| "op_run E opts (OpUpdate cx i req) w = snd (UpdateTask E opts cx i req w)"
| "op_run E opts (OpPause i) w = snd (PauseTask i w)"
| "op_run E opts (OpResume i) w = snd (ResumeTask E i w)"
| "op_run E opts (OpCancel cx i) w = snd (CancelTask cx i w)"
| "op_run E opts (OpDelete cx i) w = snd (DeleteTask E cx i w)"
| "op_run E opts (OpRunNow i) w = snd (RunNow E opts i w)"
| "op_run E opts (OpGetTask i) w = snd (GetTask i w)"
| "op_run E opts (OpListTasks req) w = snd (ListTasks req w)"
| "op_run E opts (OpGetExecution i x) w = snd (GetExecution i x w)"
| "op_run E opts (OpListExecutions i req) w = snd (ListExecutions i req w)"
| "op_run E opts OpStats w = snd (PlatformStats w)"
| "op_run E opts (OpStarted req) w = snd (MarkExecutionStarted opts req w)"
| "op_run E opts (OpHeartbeat req) w = snd (MarkExecutionHeartbeat opts req w)"
| "op_run E opts (OpFinished req) w = snd (MarkExecutionFinished E opts req w)"
| "op_run E opts (OpDispatchDue owner limit) w = snd (DispatchDue E opts owner limit w)"
| "op_run E opts (OpRecover limit) w = snd (RecoverStaleExecutions E opts limit w)"
| "op_run E opts (OpRecoverTask i) w = snd (recoverBrokenInflightReferenceForTask i w)"
| "op_run E opts (OpPublish publisher limit) w = snd (PublishPendingOutbox opts publisher limit w)"

fun op_labels :: "sched_op \<Rightarrow> sched_label set" where
  "op_labels (OpRunNow i) = {Ordinary, ManualRun}"
| "op_labels (OpFinished req) = {Ordinary, Report (mf_status req)}"
| "op_labels (OpRecover limit) = {Ordinary, Report ExecTimeout}"
| "op_labels opn = {Ordinary}"

lemma covered_operations:
  "covered E opts {Ordinary} (CreateTask E opts cx cr)"
  "covered E opts {Ordinary} (UpdateTask E opts cx i ur)"
  "covered E opts {Ordinary} (ResumeTask E i)"
  "covered E opts {Ordinary} (CancelTask cx i)"
  "covered E opts {Ordinary} (DeleteTask E cx i)"
  "covered E opts {Ordinary, ManualRun} (RunNow E opts i)"
  "covered E opts {Ordinary} (GetTask i)"
  "covered E opts {Ordinary} (ListTasks lt)"
  "covered E opts {Ordinary} (GetExecution i x)"
  "covered E opts {Ordinary} (ListExecutions i le)"
  "covered E opts {Ordinary} PlatformStats"
  unfolding CreateTask_def UpdateTask_def UpdateTask_save_def ResumeTask_def CancelTask_def
    DeleteTask_def require_manageable_def RunNow_def GetTask_def ListTasks_def GetExecution_def
    ListExecutions_def PlatformStats_def read_defs Let_def
  by (auto intro!: covered_intros split: option.splits sum.splits prod.splits)

lemma covered_loops:
  "covered E opts {Ordinary} (DispatchDue E opts owner limit)"
  "covered E opts {Ordinary, Report ExecTimeout} (RecoverStaleExecutions E opts limit)"
  "covered E opts {Ordinary} (recoverBrokenInflightReferenceForTask i)"
  "covered E opts {Ordinary} (PublishPendingOutbox opts publisher limit)"
  unfolding DispatchDue_def dispatch_due_one_def RecoverStaleExecutions_def recover_one_def
    recoverBrokenInflightReferences_def clear_broken_one_def PublishPendingOutbox_def
    recoverBrokenInflightReferenceForTask_def read_defs Let_def
  by (auto intro!: covered_intros split: option.splits sum.splits prod.splits)

text \<open>
  Every call of the scheduler's interface and every pass of its background loops is a path of
  the transition system, whatever the database answers and whichever statements fail: a fact
  that holds in all reachable states holds between and after all calls.
\<close>

theorem op_run_reachable: "sched_reach E opts (op_labels opn) w (op_run E opts opn w)"
proof (cases opn)
  case (OpPause i)
  then show ?thesis by (simp add: reach_one [OF step_pause])
next
  case (OpStarted req)
  then show ?thesis by (simp add: reach_one [OF step_started])
next
  case (OpHeartbeat req)
  then show ?thesis by (simp add: reach_one [OF step_heartbeat])
next
  case (OpFinished req)
  then show ?thesis by (simp add: reach_one [OF step_finished])
qed (use covered_operations covered_loops in \<open>simp_all add: covered_def\<close>)

end
