(* ===== verification/SchedSamples.thy ===== *)
theory SchedSamples
  imports SchedSteps
begin

text \<open>
  Concrete inputs on which the witnesses evaluate the scheduler's theorems: an environment, the
  default options, tasks and executions, and small databases.
\<close>

definition sample_env :: sched_env where
  "sample_env = \<lparr>env_cron_next = (\<lambda>expr zone t. Inr (t + minute)), env_zone_known = (\<lambda>z. z = ''UTC''),
     env_json_valid = (\<lambda>_. True), env_uuid = (\<lambda>i. show_int i), env_sha1_hex = (\<lambda>s. s),
     env_validate_token = (\<lambda>_. None)\<rparr>"

definition sample_options :: options where
  "sample_options = \<lparr>op_dispatch_lease = 30 * second, op_execution_lease = 3 * minute,
     op_queue_ack_timeout = 2 * minute, op_max_dispatch_attempts = 30, op_max_heartbeat_misses = 3,
     op_max_outbox_attempts = 8, op_payload_limit_bytes = 262144\<rparr>"

definition sample_task :: timer_task where
  "sample_task = \<lparr>tk_id = 7, tk_created_at = 1, tk_updated_at = 1, tk_deleted_at = None,
     tk_title = ''report'', tk_description = [], tk_category = [], tk_tags = None,
     tk_idempotency_key = Some ''k'', tk_executor_key = ''app.function'', tk_executor_payload = [],
     tk_metadata = None, tk_schedule_type = ScheduleEvery, tk_run_at = None, tk_cron_expr = [],
     tk_interval_seconds = 60, tk_timezone = [], tk_max_runs = 0, tk_next_run_at = Some 50,
     tk_run_count = 0, tk_overlap_policy = PolicyForbid, tk_max_parallelism = 1,
     tk_status = TaskPending, tk_inflight_execution_id = 0, tk_last_execution_id = 0,
     tk_last_error_message = [], tk_lease_owner = [], tk_lease_until = None, tk_source_type = [],
     tk_source_ref = [], tk_resource_scope = [], tk_resource_key = ''/alice/shop'',
     tk_request_user = ''alice'', tk_request_user_dept = [], tk_created_by = ''alice''\<rparr>"

definition sample_exec :: timer_execution where
  "sample_exec = \<lparr>ex_id = 3, ex_created_at = 1, ex_updated_at = 1, ex_task_id = 7,
     ex_executor_key = ''app.function'', ex_status = ExecQueued, ex_trigger_type = triggerScheduled,
     ex_executor_run_id = [], ex_scheduled_at = 50, ex_started_at = None, ex_finished_at = None,
     ex_worker_id = [], ex_lease_until = Some 90, ex_heartbeat_at = None, ex_heartbeat_misses = 0,
     ex_attempt = 1, ex_last_dispatched_at = Some 50, ex_duration_millis = 0,
     ex_output_summary = [], ex_result_payload = [], ex_error_message = [], ex_trace_id = ''t'',
     ex_source_type = [], ex_source_ref = [], ex_resource_scope = [],
     ex_resource_key = ''/alice/shop'', ex_request_user = ''alice'', ex_request_user_dept = []\<rparr>"

definition sample_event :: outbox_event where
  "sample_event = (executionRequestedOutbox sample_task sample_exec)
     \<lparr>ob_id := 1, ob_created_at := 50, ob_updated_at := 50\<rparr>"

definition sample_db :: sched_db where
  "sample_db = \<lparr>tasks = [sample_task], execs = [sample_exec], outbox = [sample_event], delivered = []\<rparr>"

definition sample_world :: "sched_db world" where
  "sample_world = \<lparr>clock = 100, seqs = (\<lambda>_. 10), faults = [], store = sample_db\<rparr>"

definition sample_finish :: mark_finished_request where
  "sample_finish = \<lparr>mf_task_id = 7, mf_execution_id = 3, mf_status = ExecSuccess,
     mf_executor_run_id = [], mf_finished_at = 120, mf_duration_millis = 5, mf_output_summary = [],
     mf_result_payload = [], mf_error_message = []\<rparr>"

definition sample_context :: req_context where
  "sample_context = \<lparr>cx_request_user = ''alice'', cx_department = [], cx_token = [],
     cx_client_source = [], cx_source_type = []\<rparr>"

end
