(* ===== verification/SchedInvariants.thy ===== *)
theory SchedInvariants
  imports SchedSamples
begin

text \<open>
  What holds in every reachable state of the scheduler, under any interleaving of its
  instances and any statement failures: finished executions never change, every execution a
  worker may run has its event in the outbox, a task has at most one waiting execution, and
  without manual runs at most sixteen active ones.
\<close>

section \<open>Statements that leave the executions alone\<close>

lemma stable_tasks_only:
  assumes "\<And>s rs. I s \<Longrightarrow> I (s\<lparr>tasks := rs\<rparr>)"
  shows "stable I (TaskCreate row)" "stable I (TaskUpdate task)" "stable I (TaskPause i)"
    "stable I (TaskResume i n)" "stable I (TaskCancel i)" "stable I (TaskDelete task)"
    "stable I (TryAcquireDispatch i owner t l)" "stable I (TryClearInflight i x msg)"
    "stable I (TrySetInflight i x owner n)" "stable I (TryAdvanceSchedule i owner st n x)"
    "stable I (SetInflightReference i x)" "stable I (TrySetManualInflight i x)"
    "stable I (RecordManualExecutionSubmitted i x)" "stable I (TryCompleteExecution task x)"
    "stable I (ReleaseIdempotencyKey sha i key)"
  unfolding TaskCreate_def TaskUpdate_def TaskPause_def TaskResume_def TaskCancel_def TaskDelete_def
    TryAcquireDispatch_def TryClearInflight_def TrySetInflight_def TryAdvanceSchedule_def
    SetInflightReference_def TrySetManualInflight_def RecordManualExecutionSubmitted_def
    TryCompleteExecution_def ReleaseIdempotencyKey_def Let_def
  by (auto intro!: stable_intros stable_stmt stable_modify stable_update_tasks_other assms
      split: if_splits)

lemma stable_reads [stable_intros]:
  "stable I (TaskGetByID i)" "stable I (GetByIDForUpdate i)" "stable I (GetByIdempotencyKey k)"
  "stable I (ExecGetByID i x)" "stable I (GetActiveState i)" "stable I (LatestActiveExecutionID i)"
  unfolding TaskGetByID_def GetByIDForUpdate_def GetByIdempotencyKey_def ExecGetByID_def
    GetActiveState_def LatestActiveExecutionID_def Let_def
  by (auto intro!: stable_intros)

lemma stable_outbox_only:
  assumes "\<And>s rs. I s \<Longrightarrow> I (s\<lparr>outbox := rs\<rparr>)"
  shows "stable I (OutboxCreate ev)" "stable I (MarkPublished i t)" "stable I (MarkRetry i k t msg)"
    "stable I (MarkDeadLetter i k msg)"
  unfolding OutboxCreate_def MarkPublished_def MarkRetry_def MarkDeadLetter_def
  by (auto intro!: stable_intros stable_modify stable_update_outbox_other assms)

lemma stable_deliver: "(\<And>s d. I s \<Longrightarrow> I (s\<lparr>delivered := d\<rparr>)) \<Longrightarrow> stable I (deliver subject payload)"
  by (simp add: stable_def deliver_def)

lemma stable_require [stable_intros]: "stable I (require e b)"
  by (auto simp: require_def intro: stable_intros)

lemma stable_time_or_now [stable_intros]: "stable I (time_or_now t)"
  by (auto simp: time_or_now_def intro: stable_intros)

lemma stable_newTimerExecution [stable_intros]: "stable I (newTimerExecution E task st trig at)"
  by (auto simp: newTimerExecution_def intro: stable_intros)

lemma stable_createExecutionFinishedOutbox:
  "(\<And>s rs. I s \<Longrightarrow> I (s\<lparr>outbox := rs\<rparr>)) \<Longrightarrow> stable I (createExecutionFinishedOutbox req ex t)"
  by (simp add: createExecutionFinishedOutbox_def stable_outbox_only(1))

section \<open>Every step keeps what the tables of executions and events keep\<close>

text \<open>
  The operations of the steps, taken apart into statements on executions and on the outbox: an
  invariant that does not look at the tasks is kept by a step if these are kept.
\<close>

lemma step_stable:
  assumes task_rows: "\<And>s rs. I s \<Longrightarrow> I (s\<lparr>tasks := rs\<rparr>)"
    and messages: "\<And>s d. I s \<Longrightarrow> I (s\<lparr>delivered := d\<rparr>)"
    and dispatch: "\<And>task owner at trigger.
      (trigger = triggerManual \<Longrightarrow> l = ManualRun) \<Longrightarrow>
      stable I (dispatchTask E opts task owner at trigger)"
    and finish: "\<And>req. l = Report (mf_status req) \<Longrightarrow> stable I (MarkExecutionFinished E opts req)"
    and requeue: "\<And>ex t. stable I (requeueExecution opts ex t)"
    and cancel: "\<And>i t msg. stable I (CancelWaitingByTask i t msg)"
    and running: "\<And>i x wk rn t u. stable I (TryMarkRunning i x wk rn t u)"
    and heartbeat: "\<And>i x wk t u. stable I (TryHeartbeat i x wk t u)"
    and orphan: "\<And>ex t msg. stable I (timeoutOrphanExecution ex t msg)"
    and miss: "\<And>ex t u n. stable I (TryRecordHeartbeatMiss ex t u n)"
    and published: "\<And>i t. stable I (MarkPublished i t)"
    and retry: "\<And>i k t msg. stable I (MarkRetry i k t msg)"
    and dead: "\<And>i k msg. stable I (MarkDeadLetter i k msg)"
    and step: "sched_step E opts l w w'" and start: "I (store w)"
  shows "I (store w')"
proof -
  note on_tasks = stable_tasks_only [of I, OF task_rows]
  have from_stable: "I (store (snd (m w)))" if "stable I m" for m :: "'x sched"
    using that start by (simp add: stable_def)
  have txs: "stable I (CreateTask_tx E key row)" "stable I (PauseTask i)" "stable I (CancelTask_tx i)"
    "stable I (DeleteTask_tx E i)" "stable I (MarkExecutionStarted opts ms)"
    "stable I (MarkExecutionHeartbeat opts mh)" for key row i ms mh
    unfolding CreateTask_tx_def PauseTask_def CancelTask_tx_def DeleteTask_tx_def
      MarkExecutionStarted_def MarkExecutionHeartbeat_def
    by (auto intro!: stable_intros on_tasks cancel running heartbeat split: sum.splits option.splits)
  from step show ?thesis
  proof cases
    case step_deliver
    then show ?thesis using stable_deliver messages start by (auto simp: stable_def)
  next
    case (step_dispatch trigger task owner at)
    with dispatch [of trigger task owner at] start show ?thesis by (auto simp: stable_def)
  next
    case (step_manual task owner at)
    with dispatch [of triggerManual task owner at] start show ?thesis by (auto simp: stable_def)
  next
    case (step_finished req)
    with finish [of req] start show ?thesis by (auto simp: stable_def)
  qed (use start in \<open>simp_all add: txs [unfolded stable_def, rule_format]
        on_tasks [unfolded stable_def, rule_format] cancel [unfolded stable_def, rule_format]
        orphan [unfolded stable_def, rule_format] requeue [unfolded stable_def, rule_format]
        miss [unfolded stable_def, rule_format] published [unfolded stable_def, rule_format]
        retry [unfolded stable_def, rule_format] dead [unfolded stable_def, rule_format]\<close>)
qed

section \<open>Finished executions never change\<close>

lemmas exec_updates = UpdateWaitingScheduledAt_def TryPromoteWaiting_def CancelWaitingByTask_def
  TryMarkRunning_def TryHeartbeat_def TryRecordHeartbeatMiss_def TryFinish_def TryRequeueQueued_def

lemmas operation_bodies = dispatchTask_def dispatch_scheduled_def dispatch_skip_def
  dispatch_refresh_def dispatch_wait_def dispatch_promote_def dispatch_new_def
  promoteWaitingExecution_def MarkExecutionFinished_def finish_task_def
  promoteWaitingAfterCompletion_def requeueExecution_def timeoutOrphanExecution_def

lemma stable_ExecCreate:
  "(\<And>s t i. I s \<Longrightarrow> I (s\<lparr>execs := execs s @ [row\<lparr>ex_id := i, ex_created_at := t, ex_updated_at := t\<rparr>]\<rparr>)) \<Longrightarrow>
     stable I (ExecCreate row)"
  unfolding ExecCreate_def Let_def by (auto intro!: stable_intros stable_modify)

lemma frozen_updates:
  assumes "terminal_execution e"
  shows "stable (\<lambda>s. e \<in> set (execs s)) (UpdateWaitingScheduledAt i x t)"
    "stable (\<lambda>s. e \<in> set (execs s)) (TryPromoteWaiting ex t l)"
    "stable (\<lambda>s. e \<in> set (execs s)) (CancelWaitingByTask i t msg)"
    "stable (\<lambda>s. e \<in> set (execs s)) (TryMarkRunning i x wk rn t l)"
    "stable (\<lambda>s. e \<in> set (execs s)) (TryHeartbeat i x wk t l)"
    "stable (\<lambda>s. e \<in> set (execs s)) (TryRecordHeartbeatMiss ex t l n)"
    "stable (\<lambda>s. e \<in> set (execs s)) (TryFinish i x upds)"
    "stable (\<lambda>s. e \<in> set (execs s)) (TryRequeueQueued ex t l)"
  unfolding exec_updates
  by (auto intro!: stable_intros execs_table.final_row_frozen [OF assms]
      simp: execs_table.spares_def terminal_execution_def active_status_def)

text \<open>
  C1. A finished execution (success, failed, timeout, cancelled, skipped, or any other status
  that is not waiting, queued or running) is final: no step of any instance, with whatever stale
  rows it works on, changes or removes its row.
\<close>

theorem finished_execution_frozen:
  assumes "sched_reach E opts UNIV w0 w" and "e \<in> set (execs (store w0))" and "terminal_execution e"
  shows "e \<in> set (execs (store w))"
proof (rule reach_invariant [OF assms(1), of "\<lambda>s. e \<in> set (execs s)"])
  fix l u u' assume st: "sched_step E opts l u u'" "e \<in> set (execs (store u))"
  note others = stable_tasks_only [of "\<lambda>s. e \<in> set (execs s)"]
    stable_outbox_only [of "\<lambda>s. e \<in> set (execs s)"]
    stable_createExecutionFinishedOutbox stable_ExecCreate frozen_updates [OF assms(3)]
  show "e \<in> set (execs (store u'))"
    by (rule step_stable [where I = "\<lambda>s. e \<in> set (execs s)", OF _ _ _ _ _ _ _ _ _ _ _ _ _ st])
      (auto simp: operation_bodies Let_def intro!: others stable_intros
        split: sum.splits option.splits)
qed (use assms in auto)

theorem finished_execution_frozen_witness:
  "sample_exec\<lparr>ex_status := ExecFailed\<rparr> \<in> set (execs (store (snd (MarkExecutionFinished sample_env
     sample_options sample_finish (sample_world\<lparr>store :=
       sample_db\<lparr>execs := [sample_exec\<lparr>ex_status := ExecFailed\<rparr>]\<rparr>\<rparr>)))))"
  by (rule finished_execution_frozen [OF reach_one [OF step_finished]])
    (simp_all add: terminal_execution_def active_status_def)

section \<open>The transactional outbox\<close>

text \<open>
  The event that tells a worker to run an execution, by its unique id; an active execution is
  announced when the outbox holds the event of its current attempt.
\<close>

definition requested_event_id :: "int \<Rightarrow> int \<Rightarrow> gostr" where
  "requested_event_id execution_id attempt_no =
     ''timer-execution-requested-'' @ show_int execution_id @ ''-attempt-'' @ show_int attempt_no"

definition announced :: "timer_execution \<Rightarrow> outbox_event list \<Rightarrow> bool" where
  "announced e events \<longleftrightarrow>
     list_ex (\<lambda>o'. ob_event_id o' = requested_event_id (ex_id e) (ex_attempt e)) events"

definition outbox_complete :: "sched_db \<Rightarrow> bool" where
  "outbox_complete s \<longleftrightarrow>
     list_all (\<lambda>e. active_status (ex_status e) \<longrightarrow> announced e (outbox s)) (execs s)"

lemma outbox_completeD:
  "outbox_complete s \<Longrightarrow> e \<in> set (execs s) \<Longrightarrow> active_status (ex_status e) \<Longrightarrow> announced e (outbox s)"
  by (auto simp: outbox_complete_def list_all_iff)

lemma outbox_completeI:
  "(\<And>e. e \<in> set (execs s) \<Longrightarrow> active_status (ex_status e) \<Longrightarrow> announced e (outbox s)) \<Longrightarrow>
     outbox_complete s"
  by (auto simp: outbox_complete_def list_all_iff)

lemma outbox_complete_tasks [simp]:
  "outbox_complete (s\<lparr>tasks := rs\<rparr>) = outbox_complete s"
  "outbox_complete (s\<lparr>delivered := d\<rparr>) = outbox_complete s"
  by (simp_all add: outbox_complete_def)

lemma requested_outbox_id [simp]:
  "ob_event_id (executionRequestedOutbox task ex) = requested_event_id (ex_id ex) (ex_attempt ex)"
  by (simp add: executionRequestedOutbox_def Let_def requested_event_id_def)

text \<open>An update that keeps the id and the attempt and does not activate keeps completeness.\<close>

lemma complete_update_execs:
  assumes "\<And>e. P e \<Longrightarrow> active_status (ex_status (f e)) \<Longrightarrow>
      active_status (ex_status e) \<and> ex_id (f e) = ex_id e \<and> ex_attempt (f e) = ex_attempt e"
  shows "stable outbox_complete (update_execs P f)"
proof -
  have "outbox_complete (s\<lparr>execs := upd P (\<lambda>r. f r\<lparr>ex_updated_at := t\<rparr>) (execs s)\<rparr>)"
    if "outbox_complete s" for s t
    using outbox_completeD [OF that] assms
    by (intro outbox_completeI) (fastforce simp: in_upd_iff announced_def)
  then show ?thesis unfolding update_execs_def by (intro stable_intros stable_modify) simp
qed

lemma complete_update_outbox:
  assumes "\<And>o'. ob_event_id (f o') = ob_event_id o'"
  shows "stable outbox_complete (update_outbox P f)"
proof -
  have "announced e (upd P (\<lambda>r. f r\<lparr>ob_updated_at := t\<rparr>) events) = announced e events" for e t events
    by (induction events) (auto simp: announced_def assms)
  then have "outbox_complete (s\<lparr>outbox := upd P (\<lambda>r. f r\<lparr>ob_updated_at := t\<rparr>) (outbox s)\<rparr>)
      = outbox_complete s" for s t
    by (simp add: outbox_complete_def)
  then show ?thesis unfolding update_outbox_def by (intro stable_intros stable_modify) simp
qed

lemma complete_OutboxCreate: "stable outbox_complete (OutboxCreate ev)"
  unfolding OutboxCreate_def
  by (auto intro!: stable_intros stable_modify simp: outbox_complete_def announced_def list_all_iff)

text \<open>The statements that do activate: they leave complete what is announced afterwards.\<close>

definition complete_but :: "int \<Rightarrow> int \<Rightarrow> sched_db \<Rightarrow> bool" where
  "complete_but i k s \<longleftrightarrow>
     (\<forall>e \<in> set (execs s). active_status (ex_status e) \<longrightarrow>
        announced e (outbox s) \<or> (ex_id e = i \<and> ex_attempt e = k))"

lemma announce_rest:
  "hoare (complete_but (ex_id ex) (ex_attempt ex))
     (OutboxCreate (executionRequestedOutbox task ex)) (\<lambda>_. outbox_complete)"
  unfolding hoare_def OutboxCreate_def Let_def run_simps
  by (auto simp: complete_but_def announced_def outbox_complete_def list_all_iff list_ex_iff
      split: if_splits) metis

lemma complete_but_tasks:
  "stable (complete_but i k) (SetInflightReference j x)"
  "stable (complete_but i k) (TrySetManualInflight j x)"
  "stable (complete_but i k) (RecordManualExecutionSubmitted j x)"
  "stable (complete_but i k) (TrySetInflight j x owner n)"
  by (rule stable_tasks_only; simp add: complete_but_def)+

lemma complete_but_activate:
  assumes "\<And>e. P e \<Longrightarrow> ex_id (f e) = i \<and> ex_attempt (f e) = k"
  shows "hoare outbox_complete (update_execs P f) (\<lambda>_. complete_but i k)"
  unfolding hoare_def update_execs_def run_simps complete_but_def
  using assms by (fastforce simp: in_upd_iff announced_def dest: outbox_completeD)

lemma complete_promote: "keeps outbox_complete (promoteWaitingExecution opts task ex t)"
proof -
  let ?ex = "ex\<lparr>ex_status := ExecQueued, ex_attempt := 1,
    ex_lease_until := Some (t + op_queue_ack_timeout opts), ex_last_dispatched_at := Some t\<rparr>"
  have activate: "hoare outbox_complete (TryPromoteWaiting ex t l) (\<lambda>_. complete_but (ex_id ex) 1)" for l
    unfolding TryPromoteWaiting_def by (rule complete_but_activate) simp
  have set_ref: "keeps (complete_but (ex_id ex) 1) (SetInflightReference i x)" for i x
    by (rule keeps_stable [OF complete_but_tasks(1)])
  have announce: "hoare (complete_but (ex_id ex) 1)
      (OutboxCreate (executionRequestedOutbox task ?ex)) (\<lambda>_. outbox_complete)"
    using announce_rest [of ?ex task] by simp
  show ?thesis
    unfolding promoteWaitingExecution_def Let_def
    by (rule hoare_andThen [OF activate], rule keeps_andThen [OF keeps_stable [OF stable_require]],
        rule keeps_andThen [OF set_ref], rule hoare_andThen [OF announce], rule keeps_ret)
qed

text \<open>Creating an execution: an inactive one keeps completeness, a queued one is the exception.\<close>

lemma complete_ExecCreate:
  "\<not> active_status (ex_status row) \<Longrightarrow> stable outbox_complete (ExecCreate row)"
  by (rule stable_ExecCreate) (auto simp: outbox_complete_def list_all_iff announced_def)

lemma complete_but_ExecCreate:
  "hoare outbox_complete (ExecCreate row)
     (\<lambda>ex. complete_but (ex_id ex) (ex_attempt ex))"
  unfolding hoare_def ExecCreate_def Let_def run_simps complete_but_def
  by (auto simp: announced_def dest: outbox_completeD)

lemma new_execution_status:
  "hoare (\<lambda>_. True) (newTimerExecution E task st trig at) (\<lambda>ex _. ex_status ex = st)"
  unfolding hoare_def newTimerExecution_def run_simps by auto

lemma complete_new_inactive:
  assumes "\<not> active_status st" and "\<And>ex. stable outbox_complete (g ex)"
    and "\<And>ex. ex_status (h ex) = ex_status ex"
  shows "keeps outbox_complete
    (andThen (newTimerExecution E task st trig at) (\<lambda>ex. andThen (ExecCreate (h ex)) g))"
proof (rule hoare_andThen)
  show "hoare outbox_complete (newTimerExecution E task st trig at)
      (\<lambda>ex s. outbox_complete s \<and> ex_status ex = st)"
    unfolding hoare_def newTimerExecution_def run_simps by auto
next
  fix ex
  have "keeps outbox_complete (andThen (ExecCreate (h ex)) g)" if "ex_status ex = st"
    using that assms
    by (intro keeps_andThen keeps_stable complete_ExecCreate) auto
  then show "hoare (\<lambda>s. outbox_complete s \<and> ex_status ex = st) (andThen (ExecCreate (h ex)) g)
      (\<lambda>_. outbox_complete)"
    by (auto simp: hoare_def)
qed

lemmas complete_tasks = stable_tasks_only [of outbox_complete, simplified]

lemma complete_exec_updates:
  "stable outbox_complete (UpdateWaitingScheduledAt i x t)"
  "stable outbox_complete (CancelWaitingByTask i t msg)"
  "stable outbox_complete (TryMarkRunning i x wk rn t l)"
  "stable outbox_complete (TryHeartbeat i x wk t l)"
  "stable outbox_complete (TryRecordHeartbeatMiss ex t l n)"
  "stable outbox_complete (timeoutOrphanExecution ex t msg)"
  unfolding exec_updates timeoutOrphanExecution_def
  by (auto intro!: stable_intros complete_update_execs simp: active_status_def Let_def
      split: if_splits)

lemma complete_dispatch_new:
  "keeps outbox_complete (dispatch_new E opts task owner at trig t)"
proof -
  have link: "keeps (complete_but i k)
      (if trig = triggerManual
       then andThen (TrySetManualInflight (tk_id task) x) (\<lambda>ok.
              if ok then ret True else RecordManualExecutionSubmitted (tk_id task) x)
       else (case nextRunAfterScheduledDispatch E task t of Inl e \<Rightarrow> fail e
             | Inr n \<Rightarrow> TrySetInflight (tk_id task) x owner n))" for i k x
    by (auto intro!: keeps_stable stable_intros complete_but_tasks split: sum.splits)
  show ?thesis
    unfolding dispatch_new_def Let_def
    by (rule keeps_andThen [OF keeps_stable [OF stable_newTimerExecution]],
        rule hoare_andThen [OF complete_but_ExecCreate], rule keeps_andThen [OF link],
        rule keeps_andThen [OF keeps_stable [OF stable_require]],
        rule hoare_andThen [OF announce_rest], rule keeps_ret)
qed

lemma complete_dispatch:
  "stable outbox_complete (dispatchTask E opts task owner at trig)"
proof -
  have skip: "keeps outbox_complete (dispatch_skip E task owner at trg t n)" for trg t n
    unfolding dispatch_skip_def
    by (rule complete_new_inactive)
      (auto intro!: stable_intros complete_tasks simp: active_status_def)
  have wait: "keeps outbox_complete (dispatch_wait E task owner at trg n)" for trg n
    unfolding dispatch_wait_def
    by (rule complete_new_inactive [where h = "\<lambda>ex. ex"])
      (auto intro!: stable_intros complete_tasks simp: active_status_def)
  have refresh: "keeps outbox_complete (dispatch_refresh task owner at n wx)" for n wx
    unfolding dispatch_refresh_def
    by (auto intro!: keeps_stable stable_intros complete_tasks complete_exec_updates)
  have promote: "keeps outbox_complete (dispatch_promote opts task owner at t n wx)" for t n wx
    unfolding dispatch_promote_def
    by (intro keeps_andThen hoare_intros complete_promote keeps_stable [OF stable_require]
        keeps_stable [OF complete_exec_updates(1)] keeps_stable [OF complete_tasks(10)])
  have "keeps outbox_complete (dispatch_scheduled E opts task owner at trg t)" for trg t
    unfolding dispatch_scheduled_def
    by (auto intro!: hoare_intros keeps_stable [OF stable_reads(5)] skip wait refresh promote
        complete_dispatch_new split: sum.splits option.splits)
  then show ?thesis
    unfolding dispatchTask_def Let_def
    by (auto intro!: stable_intros stable_tx_keeps complete_dispatch_new)
qed

lemma complete_finish: "stable outbox_complete (MarkExecutionFinished E opts req)"
proof -
  have fin: "stable outbox_complete (TryFinish i x (finish_updates req t))" for i x t
    unfolding TryFinish_def
    by (rule complete_update_execs) (simp add: finish_updates_def Let_def)
  have after: "keeps outbox_complete (promoteWaitingAfterCompletion opts task t)" for task t
    unfolding promoteWaitingAfterCompletion_def
    by (auto intro!: hoare_intros keeps_stable [OF stable_reads(5)] stable_reads complete_promote
        keeps_stable [OF complete_tasks(11)] split: sum.splits option.splits)
  have notice: "stable outbox_complete (createExecutionFinishedOutbox req ex t)" for ex t
    by (simp add: createExecutionFinishedOutbox_def complete_OutboxCreate)
  have "keeps outbox_complete (finish_task E opts req ex t task)" for ex t task
    unfolding finish_task_def Let_def
    by (auto intro!: hoare_intros after keeps_stable [OF notice]
        keeps_stable [OF complete_exec_updates(2)] keeps_stable [OF complete_tasks(14)])
  then show ?thesis
    unfolding MarkExecutionFinished_def
    by (auto intro!: stable_intros stable_tx_keeps hoare_intros keeps_stable [OF stable_reads(4)]
        keeps_stable [OF fin] keeps_stable [OF stable_require] keeps_stable [OF notice]
        split: sum.splits)
qed

lemma complete_requeue: "stable outbox_complete (requeueExecution opts ex t)"
proof -
  let ?ex = "ex\<lparr>ex_attempt := ex_attempt ex + 1,
    ex_lease_until := Some (t + op_queue_ack_timeout opts), ex_last_dispatched_at := Some t\<rparr>"
  have activate: "hoare outbox_complete (TryRequeueQueued ex t l)
      (\<lambda>_. complete_but (ex_id ex) (ex_attempt ex + 1))" for l
    unfolding TryRequeueQueued_def by (rule complete_but_activate) simp
  have announce: "hoare (complete_but (ex_id ex) (ex_attempt ex + 1))
      (OutboxCreate (executionRequestedOutbox task ?ex)) (\<lambda>_. outbox_complete)" for task
    using announce_rest [of ?ex task] by simp
  have "keeps outbox_complete (andThen (TryRequeueQueued ex t l) (\<lambda>ok.
      andThen (require e ok) (\<lambda>_. OutboxCreate (executionRequestedOutbox task ?ex))))" for l e task
    by (rule hoare_andThen [OF activate], rule keeps_andThen [OF keeps_stable [OF stable_require]],
        rule announce)
  then show ?thesis
    unfolding requeueExecution_def
    by (auto intro!: stable_tx_keeps hoare_intros stable_reads
        keeps_stable [OF complete_exec_updates(6)] split: sum.splits)
qed

text \<open>
  C2. The outbox is transactional: in every reachable state, after any statement failures and
  rolled back transactions, each queued or running execution has the outbox event that asks a
  worker to run its current attempt. No execution is committed without its message.
\<close>

theorem active_executions_announced:
  assumes "sched_reach E opts UNIV w0 w" and "outbox_complete (store w0)"
  shows "outbox_complete (store w)"
proof (rule reach_invariant [OF assms(1), of outbox_complete, OF assms(2)])
  fix l u u' assume st: "sched_step E opts l u u'" "outbox_complete (store u)"
  show "outbox_complete (store u')"
    by (rule step_stable [where I = outbox_complete, OF _ _ _ _ _ _ _ _ _ _ _ _ _ st])
      (auto intro!: complete_dispatch complete_finish complete_requeue complete_exec_updates
        complete_update_outbox stable_andThen stable_ret
        simp: MarkPublished_def MarkRetry_def MarkDeadLetter_def)
qed

theorem active_executions_announced_witness:
  "outbox_complete (store (snd (dispatchTask sample_env sample_options sample_task ''node-1'' 50
     triggerScheduled sample_world)))"
  by (rule active_executions_announced [OF reach_one [OF step_dispatch]])
    (simp_all add: sample_world_def sample_db_def sample_event_def outbox_complete_def announced_def)

section \<open>Overlap\<close>

definition waiting_of :: "int \<Rightarrow> sched_db \<Rightarrow> nat" where
  "waiting_of i s = hits (\<lambda>e. ex_task_id e = i \<and> ex_status e = ExecWaiting) (execs s)"

definition active_of :: "int \<Rightarrow> sched_db \<Rightarrow> nat" where
  "active_of i s = hits (\<lambda>e. ex_task_id e = i \<and> active_status (ex_status e)) (execs s)"

lemma counts_tasks [simp]:
  "waiting_of i (s\<lparr>tasks := rs\<rparr>) = waiting_of i s" "active_of i (s\<lparr>tasks := rs\<rparr>) = active_of i s"
  "waiting_of i (s\<lparr>outbox := evs\<rparr>) = waiting_of i s" "active_of i (s\<lparr>outbox := evs\<rparr>) = active_of i s"
  "waiting_of i (s\<lparr>delivered := d\<rparr>) = waiting_of i s" "active_of i (s\<lparr>delivered := d\<rparr>) = active_of i s"
  by (simp_all add: waiting_of_def active_of_def)

text \<open>What \<open>GetActiveState\<close> reads.\<close>

lemma hits_disjoint:
  "(\<And>r. \<not> (P r \<and> Q r)) \<Longrightarrow> hits (\<lambda>r. P r \<or> Q r) rs = hits P rs + hits Q rs"
  by (induction rs) auto

lemma active_of_split:
  "active_of i s = hits (\<lambda>e. ex_task_id e = i \<and> ex_status e = ExecQueued) (execs s)
     + hits (\<lambda>e. ex_task_id e = i \<and> ex_status e = ExecRunning) (execs s)"
proof -
  have "active_of i s = hits (\<lambda>e. (ex_task_id e = i \<and> ex_status e = ExecQueued) \<or>
      (ex_task_id e = i \<and> ex_status e = ExecRunning)) (execs s)"
    unfolding active_of_def active_status_def by (rule arg_cong [of _ _ "\<lambda>P. hits P (execs s)"]) auto
  then show ?thesis by (simp add: hits_disjoint)
qed

definition state_read :: "int \<Rightarrow> active_execution_state \<Rightarrow> sched_db \<Rightarrow> bool" where
  "state_read i state s \<longleftrightarrow> ActiveCount state = active_of i s \<and>
     (case ac_waiting state of None \<Rightarrow> waiting_of i s = 0
      | Some wx \<Rightarrow> wx \<in> set (execs s) \<and> ex_task_id wx = i \<and> ex_status wx = ExecWaiting)"

lemma GetActiveState_reads:
  "hoare I (GetActiveState i) (\<lambda>state s. I s \<and> state_read i state s)"
proof -
  have first: "case first_row (\<lambda>_. True) (sort_key (\<lambda>e. - ex_id e)
        (sel (\<lambda>e. ex_task_id e = i \<and> ex_status e = ExecWaiting) (execs s))) of
      None \<Rightarrow> waiting_of i s = 0
    | Some wx \<Rightarrow> wx \<in> set (execs s) \<and> ex_task_id wx = i \<and> ex_status wx = ExecWaiting" for s
    by (auto split: option.split dest!: first_row_Some
        simp: first_row_None waiting_of_def hits_def filter_empty_conv)
  show ?thesis
    unfolding hoare_def GetActiveState_def state_read_def run_simps
    by (auto simp: run_simps ActiveCount_def active_of_split first cong: option.case_cong)
qed

text \<open>
  The overlap invariant: one waiting execution per task and no more active ones than a limit
  per task, if one is given. \<open>room\<close> says that task \<open>i\<close> may take one more.
\<close>

definition under :: "(int \<Rightarrow> int) option \<Rightarrow> int \<Rightarrow> int \<Rightarrow> bool" where
  "under c i k \<longleftrightarrow> (case c of None \<Rightarrow> True | Some limit \<Rightarrow> k \<le> limit i)"

lemma under_mono: "under c i k \<Longrightarrow> j \<le> k \<Longrightarrow> under c i j"
  by (auto simp: under_def split: option.splits)

definition overlap_ok :: "(int \<Rightarrow> int) option \<Rightarrow> sched_db \<Rightarrow> bool" where
  "overlap_ok c s \<longleftrightarrow> (\<forall>i. waiting_of i s \<le> 1 \<and> under c i (int (active_of i s)))"

definition room :: "(int \<Rightarrow> int) option \<Rightarrow> int \<Rightarrow> sched_db \<Rightarrow> bool" where
  "room c i s \<longleftrightarrow> overlap_ok c s \<and> under c i (int (active_of i s) + 1)"

lemma overlap_ok_tasks [simp]:
  "overlap_ok c (s\<lparr>tasks := rs\<rparr>) = overlap_ok c s" "room c i (s\<lparr>tasks := rs\<rparr>) = room c i s"
  "overlap_ok c (s\<lparr>outbox := evs\<rparr>) = overlap_ok c s"
  "overlap_ok c (s\<lparr>delivered := d\<rparr>) = overlap_ok c s"
  by (simp_all add: overlap_ok_def room_def)

lemma room_overlap_ok: "room c i s \<Longrightarrow> overlap_ok c s"
  by (simp add: room_def)

lemma capacity_bounds: "1 \<le> capacity task" "capacity task \<le> maxTaskParallelism"
  by (auto simp: capacity_def normalizedMaxParallelism_def)

lemma counts_update_le:
  assumes "\<And>e. P e \<Longrightarrow> ex_task_id (f e) = ex_task_id e \<and>
      (ex_status (f e) = ExecWaiting \<longrightarrow> ex_status e = ExecWaiting) \<and>
      (active_status (ex_status (f e)) \<longrightarrow> active_status (ex_status e))"
  shows "waiting_of i (s\<lparr>execs := upd P (\<lambda>r. f r\<lparr>ex_updated_at := t\<rparr>) (execs s)\<rparr>) \<le> waiting_of i s"
    and "active_of i (s\<lparr>execs := upd P (\<lambda>r. f r\<lparr>ex_updated_at := t\<rparr>) (execs s)\<rparr>) \<le> active_of i s"
  unfolding waiting_of_def active_of_def using assms by (auto intro!: hits_upd_le)

lemma overlap_update:
  assumes "\<And>e. P e \<Longrightarrow> ex_task_id (f e) = ex_task_id e \<and>
      (ex_status (f e) = ExecWaiting \<longrightarrow> ex_status e = ExecWaiting) \<and>
      (active_status (ex_status (f e)) \<longrightarrow> active_status (ex_status e))"
  shows "stable (overlap_ok c) (update_execs P f)" and "stable (room c i) (update_execs P f)"
proof -
  note le = counts_update_le(1) [of P f, OF assms] counts_update_le(2) [of P f, OF assms]
  have ok: "overlap_ok c (s\<lparr>execs := upd P (\<lambda>r. f r\<lparr>ex_updated_at := t\<rparr>) (execs s)\<rparr>)"
    if "overlap_ok c s" for s t
    using that le(1) [where s = s and t = t] le(2) [where s = s and t = t] unfolding overlap_ok_def
    by (meson under_mono of_nat_mono order_trans)
  moreover have "room c i (s\<lparr>execs := upd P (\<lambda>r. f r\<lparr>ex_updated_at := t\<rparr>) (execs s)\<rparr>)"
    if "room c i s" for s t
    using that ok [of s t] le(2) [where i = i and s = s and t = t]
    by (auto simp: room_def elim: under_mono)
  ultimately show "stable (overlap_ok c) (update_execs P f)" "stable (room c i) (update_execs P f)"
    unfolding update_execs_def by (auto intro!: stable_intros stable_modify)
qed

lemma overlap_exec_updates:
  "stable (overlap_ok c) (UpdateWaitingScheduledAt i x t)"
  "stable (overlap_ok c) (CancelWaitingByTask i t msg)"
  "stable (overlap_ok c) (TryMarkRunning i x wk rn t l)"
  "stable (overlap_ok c) (TryHeartbeat i x wk t l)"
  "stable (overlap_ok c) (TryRecordHeartbeatMiss ex t l n)"
  "stable (overlap_ok c) (timeoutOrphanExecution ex t msg)"
  "stable (overlap_ok c) (TryRequeueQueued ex t l)"
  "stable (room c j) (UpdateWaitingScheduledAt i x t)"
  unfolding exec_updates timeoutOrphanExecution_def
  by (auto intro!: stable_intros overlap_update simp: active_status_def Let_def split: if_splits)

lemma overlap_ExecCreate:
  "hoare (\<lambda>s. overlap_ok c s \<and>
      (ex_status row = ExecWaiting \<longrightarrow> waiting_of (ex_task_id row) s = 0) \<and>
      (active_status (ex_status row) \<longrightarrow> room c (ex_task_id row) s)) (ExecCreate row)
     (\<lambda>_. overlap_ok c)"
  unfolding hoare_def ExecCreate_def Let_def run_simps
  by (auto simp: overlap_ok_def room_def waiting_of_def active_of_def hits_def le_Suc_eq add.commute)

lemma overlap_promote_row:
  "hoare (room c (ex_task_id ex)) (TryPromoteWaiting ex t l) (\<lambda>_. overlap_ok c)"
proof -
  let ?P = "\<lambda>e. ex_task_id e = ex_task_id ex \<and> ex_id e = ex_id ex \<and> ex_status e = ExecWaiting"
  let ?f = "\<lambda>t' e. e\<lparr>ex_status := ExecQueued, ex_attempt := 1, ex_lease_until := Some l,
      ex_last_dispatched_at := Some t, ex_updated_at := t'\<rparr>"
  have waiting: "waiting_of i (s\<lparr>execs := upd ?P (?f t') (execs s)\<rparr>) \<le> waiting_of i s" for i s t'
    unfolding waiting_of_def by (auto intro: hits_upd_le)
  have other: "active_of i (s\<lparr>execs := upd ?P (?f t') (execs s)\<rparr>) = active_of i s"
    if "i \<noteq> ex_task_id ex" for i s t'
    unfolding active_of_def using that by (auto intro: hits_upd_other)
  have own: "active_of (ex_task_id ex) (s\<lparr>execs := upd ?P (?f t') (execs s)\<rparr>)
      \<le> Suc (active_of (ex_task_id ex) s)" if "overlap_ok c s" for s t'
  proof -
    have "hits ?P (execs s) \<le> waiting_of (ex_task_id ex) s"
      unfolding waiting_of_def by (rule hits_mono) simp
    also have "\<dots> \<le> 1" using that by (simp add: overlap_ok_def)
    finally have "hits ?P (execs s) \<le> 1" .
    with hits_upd_grow [of "\<lambda>e. ex_task_id e = ex_task_id ex \<and> active_status (ex_status e)"
        ?P "?f t'" "execs s"]
    show ?thesis unfolding active_of_def by (simp del: hits_upd_grow)
  qed
  have "overlap_ok c (s\<lparr>execs := upd ?P (?f t') (execs s)\<rparr>)"
    if "room c (ex_task_id ex) s" for s t'
  proof -
    have ok: "overlap_ok c s" and room: "under c (ex_task_id ex) (int (active_of (ex_task_id ex) s) + 1)"
      using that by (auto simp: room_def)
    have "under c i (int (active_of i (s\<lparr>execs := upd ?P (?f t') (execs s)\<rparr>)))" for i
      using own [OF ok, of t'] other [of i t' s] ok
      by (cases "i = ex_task_id ex") (auto simp: overlap_ok_def intro: under_mono [OF room])
    moreover have "waiting_of i (s\<lparr>execs := upd ?P (?f t') (execs s)\<rparr>) \<le> 1" for i
      using order_trans [OF waiting [of i t' s]] ok unfolding overlap_ok_def by blast
    ultimately show ?thesis by (simp add: overlap_ok_def)
  qed
  then show ?thesis
    unfolding hoare_def TryPromoteWaiting_def update_execs_def run_simps by auto
qed

lemmas overlap_tasks = stable_tasks_only [of "overlap_ok c" for c, simplified]
lemmas overlap_outbox = stable_outbox_only [of "overlap_ok c" for c, simplified]

text \<open>An execution created for \<open>task\<close> with a status that what was read allows.\<close>

lemma overlap_create:
  assumes "\<And>ex. stable (overlap_ok c) (g ex)"
    and "\<And>ex. ex_status (h ex) = ex_status ex \<and> ex_task_id (h ex) = ex_task_id ex"
    and "\<And>s. P s \<Longrightarrow> overlap_ok c s \<and> (st = ExecWaiting \<longrightarrow> waiting_of (tk_id task) s = 0) \<and>
           (active_status st \<longrightarrow> room c (tk_id task) s)"
  shows "hoare P (andThen (newTimerExecution E task st trig at)
    (\<lambda>ex. andThen (ExecCreate (h ex)) g)) (\<lambda>_. overlap_ok c)"
proof (rule hoare_andThen)
  show "hoare P (newTimerExecution E task st trig at)
      (\<lambda>ex s. P s \<and> ex_status ex = st \<and> ex_task_id ex = tk_id task)"
    unfolding hoare_def newTimerExecution_def run_simps by auto
next
  fix ex
  have create: "hoare (\<lambda>s. P s \<and> ex_status ex = st \<and> ex_task_id ex = tk_id task) (ExecCreate (h ex))
      (\<lambda>_. overlap_ok c)"
    using assms(2,3) by (intro hoare_pre [OF overlap_ExecCreate]) auto
  show "hoare (\<lambda>s. P s \<and> ex_status ex = st \<and> ex_task_id ex = tk_id task)
      (andThen (ExecCreate (h ex)) g) (\<lambda>_. overlap_ok c)"
    by (rule hoare_andThen [OF create]) (rule keeps_stable [OF assms(1)])
qed

lemma overlap_promoteWaitingExecution:
  "hoare (room c (ex_task_id ex)) (promoteWaitingExecution opts task ex t) (\<lambda>_. overlap_ok c)"
  unfolding promoteWaitingExecution_def Let_def
  by (rule hoare_andThen [OF overlap_promote_row])
    (intro keeps_andThen hoare_intros keeps_stable stable_require overlap_tasks overlap_outbox)

lemma overlap_dispatch_new:
  "hoare (room c (tk_id task)) (dispatch_new E opts task owner at trig t) (\<lambda>_. overlap_ok c)"
  unfolding dispatch_new_def
  by (rule overlap_create)
    (auto intro!: stable_intros overlap_tasks overlap_outbox dest: room_overlap_ok split: sum.splits)

text \<open>Below capacity there is room, whatever the policy.\<close>

lemma below_capacity_room:
  assumes "\<not> atCapacity task state" and "ActiveCount state = active_of (tk_id task) s"
    and "overlap_ok c s" and "under c (tk_id task) (capacity task)"
  shows "room c (tk_id task) s"
  using assms capacity_bounds(1) [of task]
  by (auto simp: room_def atCapacity_def Let_def elim!: under_mono split: if_splits)

lemma overlap_dispatch_scheduled:
  assumes fits: "under c (tk_id task) (capacity task)"
  shows "keeps (overlap_ok c) (dispatch_scheduled E opts task owner at trig t)"
proof -
  let ?read = "\<lambda>state s. overlap_ok c s \<and> state_read (tk_id task) state s"
  have skip: "hoare (?read state) (dispatch_skip E task owner at trig t n) (\<lambda>_. overlap_ok c)"
    for state n
    unfolding dispatch_skip_def
    by (rule overlap_create) (auto intro!: stable_intros overlap_tasks simp: active_status_def)
  have wait: "hoare (?read state) (dispatch_wait E task owner at trig n) (\<lambda>_. overlap_ok c)"
    if "ac_waiting state = None" for state n
    unfolding dispatch_wait_def using that
    by (intro overlap_create [where h = "\<lambda>ex. ex"])
      (auto intro!: stable_intros overlap_tasks simp: active_status_def state_read_def)
  have refresh: "hoare (?read state) (dispatch_refresh task owner at n wx) (\<lambda>_. overlap_ok c)"
    for state n wx
    unfolding dispatch_refresh_def
    by (rule hoare_pre [where P' = "overlap_ok c"])
      (auto intro!: keeps_stable stable_intros overlap_tasks overlap_exec_updates)
  have promote: "hoare (?read state) (dispatch_promote opts task owner at t n wx) (\<lambda>_. overlap_ok c)"
    if "ac_waiting state = Some wx" "\<not> atCapacity task state" for state n wx
  proof (rule hoare_pre [where P' = "\<lambda>s. room c (ex_task_id wx) s"])
    show "hoare (room c (ex_task_id wx)) (dispatch_promote opts task owner at t n wx)
        (\<lambda>_. overlap_ok c)"
      unfolding dispatch_promote_def
      using overlap_promoteWaitingExecution [of c "wx\<lparr>ex_scheduled_at := at\<rparr>" opts task t]
      by (intro keeps_andThen keeps_stable [OF overlap_exec_updates(8)] keeps_stable [OF stable_require]
            hoare_andThen [of "room c (ex_task_id wx)" "promoteWaitingExecution opts task (wx\<lparr>ex_scheduled_at := at\<rparr>) t" "\<lambda>_. overlap_ok c"]
            keeps_stable [OF overlap_tasks(10)] hoare_intros) simp_all
  qed (use that fits in \<open>auto intro: below_capacity_room simp: state_read_def\<close>)
  have new: "hoare (?read state) (dispatch_new E opts task owner at trig t) (\<lambda>_. overlap_ok c)"
    if "\<not> atCapacity task state" for state
    by (rule hoare_pre [OF overlap_dispatch_new]) (use that fits in \<open>auto intro: below_capacity_room simp: state_read_def\<close>)
  show ?thesis
    unfolding dispatch_scheduled_def
    by (auto intro!: hoare_fail hoare_andThen [OF GetActiveState_reads] skip wait refresh promote new
        split: sum.split option.split)
qed

lemma overlap_dispatch:
  assumes "trig = triggerManual \<Longrightarrow> c = None" and "under c (tk_id task) (capacity task)"
  shows "stable (overlap_ok c) (dispatchTask E opts task owner at trig)"
proof -
  have manual: "keeps (overlap_ok None) (dispatch_new E opts task owner at triggerManual t)" for t
    by (rule hoare_pre [OF overlap_dispatch_new]) (simp add: room_def under_def)
  show ?thesis
    unfolding dispatchTask_def Let_def using assms
    by (auto intro!: stable_intros stable_tx_keeps overlap_dispatch_scheduled manual)
qed

lemma state_read_tasks [simp]:
  "state_read i state (s\<lparr>tasks := rs\<rparr>) = state_read i state s"
  by (simp add: state_read_def cong: option.case_cong)

lemma available_room:
  "capacityAvailable task state \<Longrightarrow> overlap_ok c s \<Longrightarrow> state_read (tk_id task) state s \<Longrightarrow>
     under c (tk_id task) (capacity task) \<Longrightarrow> room c (tk_id task) s"
  using capacity_bounds(1) [of task]
  by (auto simp: capacityAvailable_def Let_def room_def state_read_def elim!: under_mono
      split: if_splits)

lemma overlap_after_completion:
  assumes fits: "under c (tk_id task) (capacity task)"
  shows "keeps (overlap_ok c) (promoteWaitingAfterCompletion opts task t)"
proof -
  let ?read = "\<lambda>state s. overlap_ok c s \<and> state_read (tk_id task) state s"
  have ref: "keeps (?read state) (if b
      then andThen (attempt (LatestActiveExecutionID i)) (\<lambda>r. case r of
          Inl e \<Rightarrow> if e = ErrRecordNotFound then ret () else fail e
        | Inr latest \<Rightarrow> only_if (latest > 0) (SetInflightReference i latest))
      else ret ())" for b state i
    by (auto intro!: hoare_intros stable_reads keeps_stable [OF stable_tasks_only(11)]
        split: sum.splits)
  have promote: "hoare (?read state) (promoteWaitingExecution opts task wx t) (\<lambda>_. overlap_ok c)"
    if "ac_waiting state = Some wx" "capacityAvailable task state" for state wx
    by (rule hoare_pre [OF overlap_promoteWaitingExecution])
      (use that available_room fits in \<open>auto simp: state_read_def\<close>)
  show ?thesis
    unfolding promoteWaitingAfterCompletion_def
    by (rule hoare_andThen [OF GetActiveState_reads], rule keeps_andThen [OF ref])
      (auto intro!: hoare_ret hoare_andThen [OF promote] split: option.split)
qed

lemma overlap_finish:
  assumes "mf_status req \<noteq> ExecWaiting" and fits: "\<And>task. under c (tk_id task) (capacity task)"
  shows "stable (overlap_ok c) (MarkExecutionFinished E opts req)"
proof -
  have fin: "stable (overlap_ok c) (TryFinish i x (finish_updates req t))" for i x t
    unfolding TryFinish_def
    by (rule overlap_update) (use assms in \<open>simp add: finish_updates_def Let_def\<close>)
  have notice: "stable (overlap_ok c) (createExecutionFinishedOutbox req ex t)" for ex t
    by (simp add: createExecutionFinishedOutbox_def overlap_outbox)
  have "keeps (overlap_ok c) (finish_task E opts req ex t task)" for ex t task
    unfolding finish_task_def Let_def
    by (auto intro!: hoare_intros overlap_after_completion fits keeps_stable [OF notice]
        keeps_stable [OF overlap_exec_updates(2)] keeps_stable [OF overlap_tasks(14)])
  then show ?thesis
    unfolding MarkExecutionFinished_def
    by (auto intro!: stable_intros stable_tx_keeps hoare_intros keeps_stable [OF stable_reads(4)]
        keeps_stable [OF fin] keeps_stable [OF stable_require] keeps_stable [OF notice]
        split: sum.splits)
qed

lemma overlap_requeue: "stable (overlap_ok c) (requeueExecution opts ex t)"
  unfolding requeueExecution_def
  by (auto intro!: stable_intros overlap_exec_updates overlap_outbox split: sum.splits)

lemma overlap_reach:
  assumes "sched_reach E opts L w0 w" and "overlap_ok c (store w0)"
    and "Report ExecWaiting \<notin> L" and "c = None \<or> ManualRun \<notin> L"
    and fits: "\<And>task. under c (tk_id task) (capacity task)"
  shows "overlap_ok c (store w)"
proof (rule reach_invariant [OF assms(1), of "overlap_ok c", OF assms(2)])
  fix l u u' assume st: "l \<in> L" "sched_step E opts l u u'" "overlap_ok c (store u)"
  show "overlap_ok c (store u')"
  proof (rule step_stable [where I = "overlap_ok c", OF _ _ _ _ _ _ _ _ _ _ _ _ _ st(2,3)])
    fix req :: mark_finished_request assume "l = Report (mf_status req)"
    with st(1) assms(3) show "stable (overlap_ok c) (MarkExecutionFinished E opts req)"
      by (intro overlap_finish fits) auto
  next
    fix task owner at trigger assume "trigger = triggerManual \<Longrightarrow> l = ManualRun"
    with st(1) assms(4) show "stable (overlap_ok c) (dispatchTask E opts task owner at trigger)"
      by (intro overlap_dispatch fits) auto
  qed (auto intro!: overlap_requeue overlap_exec_updates overlap_outbox)
qed

text \<open>
  A task has at most one waiting execution in every reachable state, as long as workers do
  not report the status \<open>waiting\<close> as the end of an execution: a dispatch at capacity refreshes
  the waiting one instead of queueing a second.
\<close>

theorem at_most_one_waiting:
  assumes "sched_reach E opts L w0 w" and "Report ExecWaiting \<notin> L"
    and "\<And>j. waiting_of j (store w0) \<le> 1"
  shows "waiting_of i (store w) \<le> 1"
  using overlap_reach [OF assms(1), of None] assms(2,3) by (simp add: overlap_ok_def under_def)

theorem at_most_one_waiting_witness:
  "waiting_of 7 (store (snd (dispatchTask sample_env sample_options
     (sample_task\<lparr>tk_overlap_policy := PolicyQueueLatest\<rparr>) ''node-1'' 50 triggerScheduled
     sample_world))) \<le> 1"
  by (rule at_most_one_waiting [OF reach_one [OF step_dispatch], of _ "{Ordinary}"])
    (simp_all add: sample_world_def sample_db_def sample_exec_def waiting_of_def)

text \<open>
  C3. Scheduled dispatch never runs a task more than \<open>maxTaskParallelism\<close> times at once: starting from
  tables in which each task has at most sixteen queued or running executions and at most one waiting
  one, as the empty tables do, no task ever has more than sixteen queued or running executions, however
  its overlap policy and its parallelism are edited in between, provided that there are no manual runs
  and that no worker reports the status \<open>waiting\<close> as the end of an execution (\<open>MarkExecutionFinished\<close>
  would accept it and leave a second waiting row to be promoted).
\<close>

theorem active_executions_bounded:
  assumes "sched_reach E opts L w0 w" and "Report ExecWaiting \<notin> L" and "ManualRun \<notin> L"
    and "\<And>j. waiting_of j (store w0) \<le> 1"
    and "\<And>j. int (active_of j (store w0)) \<le> maxTaskParallelism"
  shows "int (active_of i (store w)) \<le> maxTaskParallelism"
  using overlap_reach [OF assms(1), of "Some (\<lambda>_. maxTaskParallelism)"] assms(2-5) capacity_bounds(2)
  by (simp add: overlap_ok_def under_def)

theorem active_executions_bounded_witness:
  "int (active_of 7 (store (snd (dispatchTask sample_env sample_options sample_task ''node-1'' 50
     triggerScheduled sample_world)))) \<le> maxTaskParallelism"
  by (rule active_executions_bounded [OF reach_one [OF step_dispatch], of _ "{Ordinary}"])
    (simp_all add: sample_world_def sample_db_def sample_exec_def waiting_of_def active_of_def)

end
