(* ===== verification/SchedTaskProps.thy ===== *)
theory SchedTaskProps
  imports SchedInvariants
begin

text \<open>
  Task management and dispatch, run by run: idempotent creation, exclusive acquisition, the
  overlap policy of a scheduled dispatch, the next state of a task, and what an update that
  worked on a stale row does to a task cancelled in between.
\<close>

section \<open>Transactions\<close>

text \<open>The operations that are one transaction, by name, and their outcome.\<close>

datatype tx_op =
    TxCreate gostr timer_task
  | TxPause int
  | TxCancel int
  | TxDelete int
  | TxDispatch timer_task gostr int gostr
  | TxFinish mark_finished_request
  | TxRequeue timer_execution int

fun tx_run :: "sched_env \<Rightarrow> options \<Rightarrow> tx_op \<Rightarrow> sched_db world \<Rightarrow> (sched_error option \<times> sched_db world)" where
  "tx_run E opts (TxCreate key row) w =
     (case CreateTask_tx E key row w of (Inl e, w') \<Rightarrow> (Some e, w') | (Inr _, w') \<Rightarrow> (None, w'))"
| "tx_run E opts (TxPause i) w =
     (case PauseTask i w of (Inl e, w') \<Rightarrow> (Some e, w') | (Inr _, w') \<Rightarrow> (None, w'))"
| "tx_run E opts (TxCancel i) w =
     (case CancelTask_tx i w of (Inl e, w') \<Rightarrow> (Some e, w') | (Inr _, w') \<Rightarrow> (None, w'))"
| "tx_run E opts (TxDelete i) w =
     (case DeleteTask_tx E i w of (Inl e, w') \<Rightarrow> (Some e, w') | (Inr _, w') \<Rightarrow> (None, w'))"
| "tx_run E opts (TxDispatch task owner at trig) w =
     (case dispatchTask E opts task owner at trig w of
        (Inl e, w') \<Rightarrow> (Some e, w') | (Inr _, w') \<Rightarrow> (None, w'))"
| "tx_run E opts (TxFinish req) w =
     (case MarkExecutionFinished E opts req w of
        (Inl e, w') \<Rightarrow> (Some e, w') | (Inr _, w') \<Rightarrow> (None, w'))"
| "tx_run E opts (TxRequeue ex t) w =
     (case requeueExecution opts ex t w of (Inl e, w') \<Rightarrow> (Some e, w') | (Inr _, w') \<Rightarrow> (None, w'))"

text \<open>An action that either fails without touching the tables or succeeds.\<close>

definition all_or_nothing :: "'a sched \<Rightarrow> bool" where
  "all_or_nothing m \<longleftrightarrow> (\<forall>w e w'. m w = (Inl e, w') \<longrightarrow> store w' = store w)"

lemma all_or_nothing_tx: "all_or_nothing (tx e m)"
  by (auto simp: all_or_nothing_def dest: tx_Inl_store)

lemma all_or_nothing_now: "(\<And>t. all_or_nothing (f t)) \<Longrightarrow> all_or_nothing (andThen now f)"
  by (auto simp: all_or_nothing_def andThen_def now_def)

lemma all_or_nothing_fail: "all_or_nothing (fail e)"
  by (auto simp: all_or_nothing_def fail_def)

lemma all_or_nothing_time: "(\<And>t. all_or_nothing (f t)) \<Longrightarrow> all_or_nothing (andThen (time_or_now r) f)"
  by (cases "r = 0") (auto simp: all_or_nothing_def andThen_def time_or_now_def now_def ret_def)

lemma all_or_nothing_ops:
  "all_or_nothing (CreateTask_tx E key row)" "all_or_nothing (PauseTask i)"
  "all_or_nothing (CancelTask_tx i)" "all_or_nothing (DeleteTask_tx E i)"
  "all_or_nothing (dispatchTask E opts task owner at trig)"
  "all_or_nothing (MarkExecutionFinished E opts req)" "all_or_nothing (requeueExecution opts ex t)"
  unfolding CreateTask_tx_def PauseTask_def CancelTask_tx_def DeleteTask_tx_def dispatchTask_def
    MarkExecutionFinished_def requeueExecution_def Let_def
  by (auto intro!: all_or_nothing_now all_or_nothing_time all_or_nothing_tx all_or_nothing_fail)

text \<open>
  The transactions of the service are atomic: when creating, pausing, cancelling, deleting,
  dispatching, finishing or requeueing reports an error, whichever statement failed and however
  much of the body had run, the tables are what they were before.
\<close>

theorem failed_transaction_changes_nothing:
  assumes "tx_run E opts opn w = (Some e, w')"
  shows "store w' = store w"
  using assms all_or_nothing_ops [unfolded all_or_nothing_def, rule_format]
  by (cases opn) (auto split: prod.splits sum.splits)

theorem failed_transaction_changes_nothing_witness:
  "store (snd (tx_run sample_env sample_options (TxDelete 7)
     (sample_world\<lparr>faults := [False, False, False, True]\<rparr>))) = sample_db"
proof -
  let ?w = "sample_world\<lparr>faults := [False, False, False, True]\<rparr>"
  have "tx_run sample_env sample_options (TxDelete 7) ?w =
      (Some ErrDB, ?w\<lparr>faults := []\<rparr>)"
    by (simp add: DeleteTask_tx_def andThen_def now_def tx_def TaskGetByID_def query_def stmt_def
        next_fails_def sample_world_def sample_db_def sample_task_def live_def found_def ret_def
        ReleaseIdempotencyKey_def Let_def CancelWaitingByTask_def update_execs_def modify_def
        TaskDelete_def key_taken_def key_in_use_def trim_space_plain)
  with failed_transaction_changes_nothing [OF this] show ?thesis by (simp add: sample_world_def)
qed

section \<open>Idempotent creation\<close>

definition holds_key :: "gostr \<Rightarrow> timer_task \<Rightarrow> bool" where
  "holds_key k r \<longleftrightarrow> live r \<and> tk_idempotency_key r = Some k"

lemma initial_status_not_terminal: "\<not> isTerminalTaskStatus (createTaskInitialStatus st)"
  by (simp add: createTaskInitialStatus_def isTerminalTaskStatus_def trim_space_plain plain_char_def)

lemma GetByIdempotencyKey_run:
  assumes "trim_space key \<noteq> []"
  shows "GetByIdempotencyKey key w = (Inr r, w') \<longleftrightarrow>
     \<not> next_fails w \<and> first_row (holds_key (trim_space key)) (tasks (store w)) = Some r \<and>
     w' = next_world w (store w)"
  using assms
  by (auto simp: GetByIdempotencyKey_def Let_def run_simps found_def holds_key_def[abs_def]
      split: option.splits)

lemma TaskCreate_run:
  "TaskCreate row w = (Inr r, w') \<Longrightarrow>
     r = row\<lparr>tk_id := seqs w ''timer_task'' + 1, tk_created_at := clock w, tk_updated_at := clock w\<rparr> \<and>
     store w' = (store w)\<lparr>tasks := tasks (store w) @ [r]\<rparr> \<and>
     \<not> key_in_use (tk_idempotency_key row) (tasks (store w))"
  by (auto simp: TaskCreate_def Let_def run_simps split: if_splits)

lemma TaskCreate_first:
  assumes "TaskCreate row w = (Inr r, w')" and "tk_idempotency_key row = Some k"
    and "tk_deleted_at row = None"
  shows "first_row (holds_key k) (tasks (store w')) = Some r"
proof -
  note run = TaskCreate_run [OF assms(1)]
  from run assms(2) have none: "first_row (holds_key k) (tasks (store w)) = None"
    by (auto simp: first_row_None key_in_use_def list_ex_iff holds_key_def)
  have "holds_key k r" using run assms(2,3) by (simp add: holds_key_def live_def)
  moreover have "first_row P (rs @ [x]) = (case first_row P rs of None \<Rightarrow> if P x then Some x else None | y \<Rightarrow> y)"
    for P and rs :: "timer_task list" and x
    by (induction rs) auto
  ultimately show ?thesis using run none by simp
qed

text \<open>Whatever \<open>CreateTask\<close> answers is the live, unfinished row that holds the key.\<close>

lemma CreateTask_tx_holds:
  assumes run: "CreateTask_tx E key row w = (Inr r, w')" and "trim_space key = k" "k \<noteq> []"
    and row: "tk_idempotency_key row = Some k" "tk_deleted_at row = None"
      "\<not> isTerminalTaskStatus (tk_status row)"
  shows "first_row (holds_key k) (tasks (store w')) = Some r \<and> \<not> isTerminalTaskStatus (tk_status r)"
proof -
  have new: "first_row (holds_key k) (tasks (store v')) = Some x \<and> \<not> isTerminalTaskStatus (tk_status x)"
    if "TaskCreate row v = (Inr x, v')" for v x v'
    using TaskCreate_first [OF that row(1,2)] TaskCreate_run [OF that] row(3) by simp
  from run obtain v where body: "andThen (attempt (GetByIdempotencyKey key)) (\<lambda>a.
        case a of
          Inr existing \<Rightarrow>
            if \<not> isTerminalTaskStatus (tk_status existing) then ret existing
            else andThen (ReleaseIdempotencyKey (env_sha1_hex E) (tk_id existing) (trim_space key))
                   (\<lambda>_. TaskCreate row)
        | Inl e \<Rightarrow> if e = ErrRecordNotFound then TaskCreate row else fail e) w = (Inr r, v)"
    and store: "store w' = store v"
    unfolding CreateTask_tx_def run_simps by auto
  from body obtain a u where a: "GetByIdempotencyKey key w = (a, u)"
    and rest: "(case a of
          Inr existing \<Rightarrow>
            if \<not> isTerminalTaskStatus (tk_status existing) then ret existing
            else andThen (ReleaseIdempotencyKey (env_sha1_hex E) (tk_id existing) (trim_space key))
                   (\<lambda>_. TaskCreate row)
        | Inl e \<Rightarrow> if e = ErrRecordNotFound then TaskCreate row else fail e) u = (Inr r, v)"
    unfolding run_simps by auto
  show ?thesis
  proof (cases a)
    case (Inl e)
    with rest store new show ?thesis by (auto simp: run_simps split: if_splits)
  next
    case (Inr existing)
    with a assms(2,3) have "first_row (holds_key k) (tasks (store u)) = Some existing"
      by (auto simp: GetByIdempotencyKey_run)
    with Inr rest store new show ?thesis by (auto simp: run_simps split: if_splits)
  qed
qed

lemma CreateTask_tx_existing:
  assumes "faults w = []" and "trim_space key = k" "k \<noteq> []"
    and "first_row (holds_key k) (tasks (store w)) = Some r" "\<not> isTerminalTaskStatus (tk_status r)"
  shows "CreateTask_tx E key row w = (Inr r, w)"
  using assms
  by (simp add: CreateTask_tx_def tx_def GetByIdempotencyKey_def holds_key_def[abs_def] found_def
      calm_simps Let_def)

lemma new_row_key:
  "trim_space (cr_idempotency_key req) \<noteq> [] \<Longrightarrow>
     tk_idempotency_key (new_task_row E cx req n) = Some (trim_space (cr_idempotency_key req))"
  "tk_deleted_at (new_task_row E cx req n) = None"
  "tk_status (new_task_row E cx req n) = createTaskInitialStatus (cr_status req)"
  by (simp_all add: new_task_row_def Let_def)

text \<open>
  C5. Creating a task is idempotent: after a successful creation under a key, any valid second
  request with the same key, whatever its other fields, answers the same task and changes
  nothing.
\<close>

theorem CreateTask_idempotent:
  assumes first: "CreateTask E opts cx req w = (Inr t1, w1)"
    and key: "trim_space (cr_idempotency_key req) \<noteq> []"
    and same: "trim_space (cr_idempotency_key req2) = trim_space (cr_idempotency_key req)"
    and valid: "validateCreateTaskRequest E req2 (op_payload_limit_bytes opts) = None"
    and sched: "nextRunForSchedule E (cr_schedule req2) (clock w2) = Inr n2"
    and later: "faults w2 = []" "store w2 = store w1"
  shows "CreateTask E opts cx2 req2 w2 = (Inr t1, w2)"
proof -
  let ?k = "trim_space (cr_idempotency_key req)"
  from first obtain n row v where
    created: "CreateTask_tx E (cr_idempotency_key req) (new_task_row E cx req n) w = (Inr row, v)"
    and t1: "t1 = taskToSDK row" and v: "v = w1"
    by (auto simp: CreateTask_def run_simps split: option.splits sum.splits)
  from CreateTask_tx_holds [OF created refl key]
  have "first_row (holds_key ?k) (tasks (store w2)) = Some row" "\<not> isTerminalTaskStatus (tk_status row)"
    using key later v by (auto simp: new_row_key initial_status_not_terminal)
  with CreateTask_tx_existing [OF later(1), of "cr_idempotency_key req2" ?k row E] same key
  show ?thesis
    by (simp add: CreateTask_def valid sched t1 andThen_def now_def ret_def)
qed

definition sample_create :: create_task_request where
  "sample_create = \<lparr>cr_title = ''daily'', cr_description = [], cr_category = [], cr_tags = None,
     cr_idempotency_key = ''k2'', cr_executor_key = ''app.function'', cr_executor_payload = [],
     cr_metadata = [], cr_status = [], cr_schedule = Every 60, cr_overlap_policy = [],
     cr_max_parallelism = 0, cr_source_type = [], cr_source_ref = [], cr_resource_scope = [],
     cr_resource_key = [], cr_request_user = ''alice'', cr_request_user_dept = [],
     cr_created_by = []\<rparr>"

lemma sample_create_valid:
  "validateCreateTaskRequest sample_env (sample_create\<lparr>cr_title := x\<rparr>)
     (op_payload_limit_bytes sample_options) = None"
  "nextRunForSchedule sample_env (Every 60) t = Inr (Some (t + 60000000000))"
  by (simp_all add: validateCreateTaskRequest_def sample_create_def trim_space_plain plain_char_def
      Validate_def Every_def validateOverlapConfig_def validatePayload_def nextRunForSchedule_def
      locationForSchedule_def wrap64_def)

lemma sample_create_runs:
  "\<exists>t1 w1. CreateTask sample_env sample_options sample_context sample_create sample_world = (Inr t1, w1) \<and>
     faults w1 = []"
proof -
  have row: "tk_idempotency_key (new_task_row sample_env sample_context sample_create n) = Some ''k2''" for n
    by (simp add: new_task_row_def Let_def sample_create_def trim_space_plain plain_char_def)
  have key: "cr_idempotency_key sample_create = ''k2''" "trim_space ''k2'' = ''k2''"
    and sch: "cr_schedule sample_create = Every 60"
    by (simp_all add: sample_create_def trim_space_plain plain_char_def)
  have valid: "validateCreateTaskRequest sample_env sample_create
      (op_payload_limit_bytes sample_options) = None"
    using sample_create_valid(1) [of "cr_title sample_create"] by simp
  have w: "faults sample_world = []" "tasks (store sample_world) = [sample_task]"
    by (simp_all add: sample_world_def sample_db_def)
  have none: "\<not> key_in_use (Some ''k2'') [sample_task]" "tk_idempotency_key sample_task \<noteq> Some ''k2''"
    by (simp_all add: key_in_use_def sample_task_def)
  show ?thesis
    unfolding CreateTask_def valid CreateTask_tx_def tx_def GetByIdempotencyKey_def TaskCreate_def
      key sch Let_def
    by (simp add: sample_create_valid(2) calm_simps w none found_def row)
qed

theorem CreateTask_idempotent_witness:
  "\<exists>t1 w1. CreateTask sample_env sample_options sample_context sample_create sample_world = (Inr t1, w1) \<and>
     CreateTask sample_env sample_options sample_context (sample_create\<lparr>cr_title := ''other''\<rparr>) w1 =
       (Inr t1, w1)"
proof -
  obtain t1 w1 where first: "CreateTask sample_env sample_options sample_context sample_create
      sample_world = (Inr t1, w1)" "faults w1 = []"
    using sample_create_runs by blast
  have key: "trim_space ''k2'' \<noteq> []" by (simp add: trim_space_plain plain_char_def)
  have "CreateTask sample_env sample_options sample_context (sample_create\<lparr>cr_title := ''other''\<rparr>) w1 =
       (Inr t1, w1)"
    by (rule CreateTask_idempotent [OF first(1) _ _ sample_create_valid(1) _ first(2) refl,
          where ?n2.0 = "Some (clock w1 + 60000000000)"])
      (use key in \<open>simp_all add: sample_create_def sample_create_valid(2)\<close>)
  with first show ?thesis by blast
qed

section \<open>A scheduled dispatch needs the lease and uses it up\<close>

definition holds_lease :: "int \<Rightarrow> gostr \<Rightarrow> timer_task \<Rightarrow> bool" where
  "holds_lease i owner r \<longleftrightarrow>
     live r \<and> tk_id r = i \<and> tk_status r = TaskPending \<and> tk_lease_owner r = owner"

definition lease_held :: "int \<Rightarrow> gostr \<Rightarrow> sched_db \<Rightarrow> bool" where
  "lease_held i owner s \<longleftrightarrow> list_ex (holds_lease i owner) (tasks s)"

abbreviation no_lease :: "int \<Rightarrow> gostr \<Rightarrow> sched_db \<Rightarrow> bool" where
  "no_lease i owner s \<equiv> \<not> lease_held i owner s"

lemma no_lease_iff: "no_lease i owner s \<longleftrightarrow> (\<forall>r \<in> set (tasks s). \<not> holds_lease i owner r)"
  by (auto simp: lease_held_def list_ex_iff)

lemma lease_held_other [simp]:
  "lease_held i owner (s\<lparr>execs := es\<rparr>) = lease_held i owner s"
  "lease_held i owner (s\<lparr>outbox := evs\<rparr>) = lease_held i owner s"
  by (simp_all add: lease_held_def)

lemma no_lease_keeps:
  "stable (no_lease i owner) (ExecCreate row)"
  "stable (no_lease i owner) (UpdateWaitingScheduledAt j x t)"
  "stable (no_lease i owner) (TryPromoteWaiting ex t l)"
  "stable (no_lease i owner) (OutboxCreate ev)"
  "stable (no_lease i owner) (SetInflightReference j x)"
proof -
  have "stable (\<lambda>s. \<forall>r \<in> set (tasks s). \<not> holds_lease i owner r) (update_tasks (\<lambda>r. tk_id r = j)
     (\<lambda>r. r\<lparr>tk_inflight_execution_id := x, tk_last_execution_id := x\<rparr>))"
    by (rule tasks_table.update_all_rows) (simp add: holds_lease_def live_def)
  then show "stable (no_lease i owner) (SetInflightReference j x)"
    unfolding SetInflightReference_def no_lease_iff by (intro stable_intros)
qed (auto intro!: stable_ExecCreate stable_outbox_only stable_update_execs_other simp: exec_updates)

text \<open>The two statements that demand the lease.\<close>

lemma advance_needs_lease:
  "hoare (no_lease i owner) (TryAdvanceSchedule i owner st n x) (\<lambda>ok _. \<not> ok)"
  "hoare (no_lease i owner) (TrySetInflight i x owner n) (\<lambda>ok _. \<not> ok)"
  unfolding TryAdvanceSchedule_def TrySetInflight_def no_lease_iff
  by (rule hoare_pre [OF update_tasks_none]; simp add: holds_lease_def)+

lemma advance_drops_lease:
  assumes "owner \<noteq> []"
  shows "hoare P (TryAdvanceSchedule i owner st n x) (\<lambda>_. no_lease i owner)"
    and "hoare P (TrySetInflight i x owner n) (\<lambda>_. no_lease i owner)"
  unfolding TryAdvanceSchedule_def TrySetInflight_def no_lease_iff
  by (rule hoare_pre [OF update_tasks_establish];
      use assms in \<open>auto simp: holds_lease_def Let_def\<close>)+

lemma require_false: "hoare (\<lambda>_. \<not> ok) (require e ok) (\<lambda>_ _. False)"
  by (simp add: hoare_def require_def run_simps)

lemma hoare_false: "hoare (\<lambda>_. False) m Q"
  by (simp add: hoare_def)

text \<open>The end of every branch of a scheduled dispatch: the statement, its check, the answer.\<close>

lemma checked_needs_lease:
  assumes "hoare (no_lease i owner) m (\<lambda>ok _. \<not> ok)"
  shows "hoare (no_lease i owner) (andThen m (\<lambda>ok. andThen (require e ok) k)) (\<lambda>_ _. False)"
  by (rule hoare_andThen [OF assms], rule hoare_andThen [OF require_false], rule hoare_false)

lemma keep_no_lease:
  assumes "stable (no_lease i owner) m" and "\<And>a. hoare (no_lease i owner) (f a) Q"
  shows "hoare (no_lease i owner) (andThen m f) Q"
  by (rule hoare_andThen [OF keeps_stable [OF assms(1)] assms(2)])

lemma promote_keeps_no_lease:
  "stable (no_lease i owner) (promoteWaitingExecution opts task ex t)"
  unfolding promoteWaitingExecution_def Let_def
  by (intro stable_intros no_lease_keeps)

lemma scheduled_needs_lease:
  assumes "trig \<noteq> triggerManual"
  shows "hoare (no_lease (tk_id task) owner)
    (dispatch_scheduled E opts task owner at trig t) (\<lambda>_ _. False)"
proof -
  have "hoare (no_lease (tk_id task) owner) (dispatch_skip E task owner at trig t n) (\<lambda>_ _. False)"
    "hoare (no_lease (tk_id task) owner) (dispatch_refresh task owner at n wx) (\<lambda>_ _. False)"
    "hoare (no_lease (tk_id task) owner) (dispatch_wait E task owner at trig n) (\<lambda>_ _. False)"
    "hoare (no_lease (tk_id task) owner) (dispatch_promote opts task owner at t n wx) (\<lambda>_ _. False)"
    for n wx
    unfolding dispatch_skip_def dispatch_refresh_def dispatch_wait_def dispatch_promote_def
    by (rule checked_needs_lease advance_needs_lease keep_no_lease stable_require
        stable_newTimerExecution no_lease_keeps promote_keeps_no_lease)+
  moreover have "hoare (no_lease (tk_id task) owner) (dispatch_new E opts task owner at trig t) (\<lambda>_ _. False)"
    unfolding dispatch_new_def
    apply (rule keep_no_lease, rule stable_newTimerExecution)
    apply (rule keep_no_lease, rule no_lease_keeps)
    apply (rule checked_needs_lease)
    using assms by (auto intro!: advance_needs_lease hoare_fail split: sum.split)
  ultimately show ?thesis
    unfolding dispatch_scheduled_def
    by (auto intro!: hoare_fail keep_no_lease stable_reads split: sum.split option.split)
qed

text \<open>Everything a branch does after the schedule has moved on keeps the lease dropped.\<close>

lemma establish:
  assumes "\<And>a. hoare (\<lambda>_. True) (f a) Q" shows "hoare P (andThen m f) Q"
  using assms by (fastforce simp: hoare_def run_simps)

lemma checked_drops_lease:
  assumes "\<And>P. hoare P m (\<lambda>_. no_lease i owner)" and "\<And>u. stable (no_lease i owner) (k u)"
  shows "hoare (\<lambda>_. True) (andThen m (\<lambda>ok. andThen (require e ok) k)) (\<lambda>_. no_lease i owner)"
  by (rule hoare_andThen [OF assms(1)], rule keeps_andThen [OF keeps_stable [OF stable_require]],
      rule keeps_stable [OF assms(2)])

lemma scheduled_drops_lease:
  assumes "owner \<noteq> []" and "trig \<noteq> triggerManual"
  shows "hoare (\<lambda>_. True) (dispatch_scheduled E opts task owner at trig t)
    (\<lambda>_. no_lease (tk_id task) owner)"
proof -
  note advance = checked_drops_lease [OF advance_drops_lease(1) [OF assms(1)]]
  have ends: "hoare (\<lambda>_. True) (dispatch_skip E task owner at trig t n) (\<lambda>_. no_lease (tk_id task) owner)"
    "hoare (\<lambda>_. True) (dispatch_refresh task owner at n wx) (\<lambda>_. no_lease (tk_id task) owner)"
    "hoare (\<lambda>_. True) (dispatch_wait E task owner at trig n) (\<lambda>_. no_lease (tk_id task) owner)"
    "hoare (\<lambda>_. True) (dispatch_promote opts task owner at t n wx) (\<lambda>_. no_lease (tk_id task) owner)"
    for n wx
    unfolding dispatch_skip_def dispatch_refresh_def dispatch_wait_def dispatch_promote_def
    by (rule advance stable_ret establish)+
  have new: "hoare (\<lambda>_. True) (dispatch_new E opts task owner at trig t) (\<lambda>_. no_lease (tk_id task) owner)"
    unfolding dispatch_new_def using assms
    by (intro establish checked_drops_lease stable_andThen stable_ret no_lease_keeps)
      (auto intro!: advance_drops_lease hoare_fail split: sum.split)
  show ?thesis
    unfolding dispatch_scheduled_def
    by (auto intro!: hoare_fail establish ends new split: sum.split option.split)
qed

lemma dispatchTask_scheduled:
  assumes "dispatchTask E opts task owner at trig w = (Inr r, w')" and "trig \<noteq> triggerManual"
  obtains trg u where "trg \<noteq> triggerManual"
    "dispatch_scheduled E opts task owner at trg (clock w) w = (Inr r, u)" "store w' = store u"
proof
  let ?trg = "if trig = [] then triggerScheduled else trig"
  show "?trg \<noteq> triggerManual" using assms(2) by simp
  then obtain u where u: "dispatch_scheduled E opts task owner at ?trg (clock w) w = (Inr r, u)"
    "store w' = store u"
    using assms(1) unfolding dispatchTask_def Let_def run_simps by auto
  from u show "dispatch_scheduled E opts task owner at ?trg (clock w) w = (Inr r, snd
      (dispatch_scheduled E opts task owner at ?trg (clock w) w))" by simp
  from u show "store w' = store (snd (dispatch_scheduled E opts task owner at ?trg (clock w) w))"
    by simp
qed

lemma dispatch_without_lease:
  assumes "no_lease (tk_id task) owner (store w)" and "trig \<noteq> triggerManual"
  shows "\<exists>e w'. dispatchTask E opts task owner at trig w = (Inl e, w') \<and> store w' = store w"
proof (cases "dispatchTask E opts task owner at trig w")
  case (Pair r w')
  show ?thesis
  proof (cases r)
    case (Inl e)
    with Pair all_or_nothing_ops(5) show ?thesis by (auto simp: all_or_nothing_def)
  next
    case (Inr x)
    with Pair have "dispatchTask E opts task owner at trig w = (Inr x, w')" by simp
    then show ?thesis
    proof (rule dispatchTask_scheduled [OF _ assms(2)])
      fix trg u assume "trg \<noteq> triggerManual"
        "dispatch_scheduled E opts task owner at trg (clock w) w = (Inr x, u)"
      then show ?thesis using hoareD [OF scheduled_needs_lease assms(1)] by blast
    qed
  qed
qed

text \<open>
  Without the dispatch lease an instance dispatches nothing: when no live pending row of the
  task names \<open>owner\<close> as its lease owner (another instance took the lease, the task was paused,
  cancelled or deleted after it was listed), the scheduled dispatch fails and the tables stay
  as they are, on every branch of the overlap policy.
\<close>

theorem dispatch_needs_lease:
  assumes "no_lease (tk_id task) owner (store w)" and "trig \<noteq> triggerManual"
  shows "\<exists>e w'. dispatchTask E opts task owner at trig w = (Inl e, w') \<and> store w' = store w"
  by (rule dispatch_without_lease [OF assms])

theorem dispatch_needs_lease_witness:
  "\<exists>e w'. dispatchTask sample_env sample_options sample_task ''node-1'' 50 triggerScheduled
     sample_world = (Inl e, w') \<and> store w' = sample_db"
  using dispatch_needs_lease [of sample_task "''node-1''" sample_world triggerScheduled]
  by (simp add: no_lease_iff sample_world_def sample_db_def holds_lease_def sample_task_def)

text \<open>
  C8. One lease dispatches once: after a scheduled (not manual) dispatch of a task by an owner with a
  name succeeded, a second scheduled one by the same owner, at any time and with whatever row it may
  have read for the task, finds no lease: as long as the tables are as the first one left them, it
  answers an error and changes no table.
\<close>

theorem dispatch_at_most_once_per_lease:
  assumes "dispatchTask E opts task owner at trig w = (Inr r, w1)" and "store w2 = store w1"
    and "tk_id task2 = tk_id task" and "owner \<noteq> []"
    and "trig \<noteq> triggerManual" "trig2 \<noteq> triggerManual"
  shows "\<exists>e w3. dispatchTask E opts task2 owner at2 trig2 w2 = (Inl e, w3) \<and> store w3 = store w2"
proof -
  obtain trg u where "trg \<noteq> triggerManual"
    "dispatch_scheduled E opts task owner at trg (clock w) w = (Inr r, u)" "store w1 = store u"
    by (rule dispatchTask_scheduled [OF assms(1,5)])
  then have "no_lease (tk_id task2) owner (store w2)"
    using hoareD [OF scheduled_drops_lease [OF assms(4)]] assms(2,3) by auto
  then show ?thesis by (rule dispatch_without_lease [OF _ assms(6)])
qed

definition leased_task :: timer_task where
  "leased_task = sample_task\<lparr>tk_lease_owner := ''node-1'', tk_lease_until := Some 900\<rparr>"

definition leased_world :: "sched_db world" where
  "leased_world = sample_world\<lparr>store := sample_db\<lparr>tasks := [leased_task], execs := []\<rparr>\<rparr>"

lemma sample_next_run:
  "nextRunAfterScheduledDispatch sample_env leased_task t = Inr (Some (t + 60 * second))"
  by (simp add: nextRunAfterScheduledDispatch_def leased_task_def sample_task_def nextRunForTask_def
      task_schedule_def nextRunForSchedule_def Validate_def locationForSchedule_def
      trim_space_plain wrap64_def)

lemma leased_dispatch_runs:
  "\<exists>r w1. dispatchTask sample_env sample_options leased_task ''node-1'' 50 triggerScheduled leased_world
     = (Inr r, w1)"
proof -
  have w: "faults leased_world = []" "execs (store leased_world) = []"
    "tasks (store leased_world) = [leased_task]"
    by (simp_all add: leased_world_def sample_world_def)
  have forbid: "normalizedOverlapPolicy (tk_overlap_policy leased_task) = PolicyForbid"
    by (simp add: leased_task_def sample_task_def normalizedOverlapPolicy_def trim_space_plain
        plain_char_def)
  have row: "live leased_task" "tk_status leased_task = TaskPending" "tk_lease_owner leased_task = ''node-1''"
    by (simp_all add: leased_task_def sample_task_def live_def)
  show ?thesis
    unfolding dispatchTask_def dispatch_scheduled_def sample_next_run GetActiveState_def tx_def
      dispatch_new_def newTimerExecution_def ExecCreate_def OutboxCreate_def TrySetInflight_def
      update_tasks_def Let_def
    by (simp add: calm_simps w atCapacity_def forbid row ActiveCount_def require_def order2_def)
qed

theorem dispatch_at_most_once_per_lease_witness:
  "\<exists>r w1 e w3. dispatchTask sample_env sample_options leased_task ''node-1'' 50 triggerScheduled
       leased_world = (Inr r, w1) \<and>
     dispatchTask sample_env sample_options leased_task ''node-1'' 60 triggerScheduled w1 = (Inl e, w3) \<and>
     store w3 = store w1"
  using leased_dispatch_runs dispatch_at_most_once_per_lease [of sample_env sample_options leased_task
      "''node-1''" 50 triggerScheduled leased_world _ _ _ leased_task triggerScheduled 60]
  by fastforce

section \<open>The overlap policy bounds a scheduled dispatch\<close>

text \<open>
  A scheduled dispatch never takes a task past the capacity of its overlap policy (one for
  \<open>forbid\<close> and \<open>queue_latest\<close>, \<open>max_parallelism\<close> for \<open>allow\<close>): a task at or above it, which
  manual runs can cause, gains no active execution, and no other task's count changes upwards.
\<close>

theorem scheduled_dispatch_within_capacity:
  assumes "dispatchTask E opts task owner at trig w = (r, w')" and "trig \<noteq> triggerManual"
    and "\<And>j. waiting_of j (store w) \<le> 1"
  shows "int (active_of (tk_id task) (store w')) \<le>
      max (int (active_of (tk_id task) (store w))) (capacity task) \<and>
    (j \<noteq> tk_id task \<longrightarrow> active_of j (store w') \<le> active_of j (store w))"
proof -
  let ?c = "Some (\<lambda>j. if j = tk_id task then max (int (active_of j (store w))) (capacity task)
      else int (active_of j (store w)))"
  have "overlap_ok ?c (store w)" using assms(3) by (simp add: overlap_ok_def under_def)
  moreover have "stable (overlap_ok ?c) (dispatchTask E opts task owner at trig)"
    by (rule overlap_dispatch) (use assms(2) in \<open>simp_all add: under_def\<close>)
  ultimately have "overlap_ok ?c (store w')" using stableD assms(1) by blast
  then have all: "int (active_of i (store w')) \<le> (if i = tk_id task
      then max (int (active_of i (store w))) (capacity task) else int (active_of i (store w)))" for i
    by (simp add: overlap_ok_def under_def)
  show ?thesis using all [of "tk_id task"] all [of j] by auto
qed

theorem scheduled_dispatch_within_capacity_witness:
  "active_of 7 (store (snd (dispatchTask sample_env sample_options sample_task ''node-1'' 50
     triggerScheduled sample_world))) \<le> 1 \<and>
   active_of 8 (store (snd (dispatchTask sample_env sample_options sample_task ''node-1'' 50
     triggerScheduled sample_world))) \<le> 0"
proof -
  let ?d = "dispatchTask sample_env sample_options sample_task ''node-1'' 50 triggerScheduled sample_world"
  have run: "?d = (fst ?d, snd ?d)" by simp
  have start: "waiting_of j (store sample_world) \<le> 1" "active_of 7 (store sample_world) = 1"
    "active_of 8 (store sample_world) = 0" for j
    by (simp_all add: sample_world_def sample_db_def sample_exec_def waiting_of_def active_of_def
        active_status_def)
  have cap: "capacity sample_task = 1" "tk_id sample_task = 7"
    by (simp_all add: capacity_def normalizedMaxParallelism_def sample_task_def
        normalizedOverlapPolicy_def trim_space_plain plain_char_def)
  show ?thesis
    using scheduled_dispatch_within_capacity [OF run _ start(1), of 8] start cap by simp
qed

section \<open>The next run and the next state\<close>

text \<open>
  The task after a finished scheduled run: it stays pending exactly when its runs are not
  used up, its schedule recurs and a next run could be computed, and then it has that next run;
  in every other case it has no next run and is done, paused or failed.
\<close>

theorem computeTaskNextState_pending:
  "computeTaskNextState E task success t = (status, next_run, err) \<Longrightarrow>
     (status = TaskPending \<longleftrightarrow>
        \<not> (tk_max_runs task > 0 \<and> tk_run_count task \<ge> tk_max_runs task) \<and>
        tk_schedule_type task \<in> {ScheduleCron, ScheduleEvery} \<and>
        nextRunForTask E task t = Inr next_run) \<and>
     (status = TaskPending \<longleftrightarrow> next_run \<noteq> None) \<and>
     status \<in> {TaskPending, TaskDone, TaskPaused, TaskFailed}"
  by (auto simp: computeTaskNextState_def nextRunForTask_def nextRunForSchedule_def task_schedule_def
      Let_def split: if_splits sum.splits option.splits)

theorem computeTaskNextState_pending_witness:
  "nextRunForTask sample_env sample_task 120 = Inr (Some (120 + 60 * second)) \<and>
   fst (computeTaskNextState sample_env sample_task True 120) = TaskPending"
proof -
  have run: "nextRunForTask sample_env sample_task 120 = Inr (Some (120 + 60 * second))"
    by (simp add: sample_task_def nextRunForTask_def task_schedule_def nextRunForSchedule_def
        Validate_def locationForSchedule_def trim_space_plain wrap64_def)
  obtain st n e where c: "computeTaskNextState sample_env sample_task True 120 = (st, n, e)"
    by (cases "computeTaskNextState sample_env sample_task True 120") auto
  moreover have "n = Some (120 + 60 * second)"
    using c run by (auto simp: computeTaskNextState_def sample_task_def Let_def)
  ultimately show ?thesis
    using computeTaskNextState_pending [OF c] run by (simp add: sample_task_def)
qed

text \<open>
  A recurring interval schedule makes progress: the next run of an \<open>every\<close> schedule of at
  most 9223372036 seconds (the largest number whose nanoseconds fit an \<open>int64\<close>, about 292 years)
  lies strictly after the instant it is computed from, and exactly one interval later. Larger
  intervals pass the validation but wrap.
\<close>

theorem every_schedule_next_run:
  assumes "Validate s = None" and "sch_type s = ScheduleEvery"
    and "locationForSchedule E (sch_timezone s) = Inr loc"
  shows "sch_interval_seconds s \<le> 9223372036 \<longleftrightarrow>
    nextRunForSchedule E s t = Inr (Some (t + sch_interval_seconds s * second))"
proof -
  have pos: "0 < sch_interval_seconds s"
    using assms(1,2) by (auto simp: Validate_def split: if_splits)
  have "wrap64 (sch_interval_seconds s * second) = sch_interval_seconds s * second \<longleftrightarrow>
      sch_interval_seconds s \<le> 9223372036"
  proof
    assume "wrap64 (sch_interval_seconds s * second) = sch_interval_seconds s * second"
    then have "sch_interval_seconds s * second < 2 ^ 63"
      using wrap64_range [of "sch_interval_seconds s * second"] by simp
    then show "sch_interval_seconds s \<le> 9223372036" by simp
  next
    assume "sch_interval_seconds s \<le> 9223372036"
    then show "wrap64 (sch_interval_seconds s * second) = sch_interval_seconds s * second"
      using pos by (intro wrap64_id) auto
  qed
  then show ?thesis using assms by (auto simp: nextRunForSchedule_def)
qed

theorem every_schedule_next_run_witness:
  "nextRunForSchedule sample_env (Every 9223372037) 0 \<noteq> Inr (Some (9223372037 * second)) \<and>
   nextRunForSchedule sample_env (Every 60) 0 = Inr (Some (60 * second))"
  using every_schedule_next_run [of "Every 9223372037" sample_env "[]" 0]
    every_schedule_next_run [of "Every 60" sample_env "[]" 0]
  by (simp add: Every_def Validate_def locationForSchedule_def trim_space_plain)

section \<open>Updating a task\<close>

text \<open>The fields no update request can reach.\<close>

definition same_run_state :: "timer_task \<Rightarrow> timer_task \<Rightarrow> bool" where
  "same_run_state r r' \<longleftrightarrow>
     tk_id r' = tk_id r \<and> tk_created_at r' = tk_created_at r \<and> tk_deleted_at r' = tk_deleted_at r \<and>
     tk_idempotency_key r' = tk_idempotency_key r \<and> tk_executor_key r' = tk_executor_key r \<and>
     tk_status r' = tk_status r \<and> tk_run_count r' = tk_run_count r \<and>
     tk_inflight_execution_id r' = tk_inflight_execution_id r \<and>
     tk_last_execution_id r' = tk_last_execution_id r \<and>
     tk_last_error_message r' = tk_last_error_message r \<and>
     tk_lease_owner r' = tk_lease_owner r \<and> tk_lease_until r' = tk_lease_until r \<and>
     tk_created_by r' = tk_created_by r"

lemma same_run_state_trans:
  "same_run_state a b \<Longrightarrow> same_run_state b c \<Longrightarrow> same_run_state a c"
  by (simp add: same_run_state_def)

lemma same_run_state_set_opt:
  "(\<And>x r. same_run_state r (f x r)) \<Longrightarrow> same_run_state r (set_opt v f r)"
  by (auto simp: set_opt_def same_run_state_def split: option.splits)

lemma same_run_state_parts:
  "update_overlap req r = Inr r1 \<Longrightarrow> same_run_state r r1"
  "update_schedule E t req r = Inr r2 \<Longrightarrow> same_run_state r r2"
  by (auto simp: update_overlap_def update_schedule_def same_run_state_def Let_def
      split: if_splits option.splits sum.splits)

lemma result_chain:
  "(case x of Inl e \<Rightarrow> Inl e | Inr y \<Rightarrow> g y) = Inr z \<longleftrightarrow> (\<exists>y. x = Inr y \<and> g y = Inr z)"
  "(case err of None \<Rightarrow> v | Some e \<Rightarrow> Inl e) = Inr z \<longleftrightarrow> err = None \<and> v = Inr z"
  by (auto split: sum.splits option.splits)

lemma same_run_state_step:
  "same_run_state a b \<Longrightarrow> (\<And>x r. same_run_state r (f x r)) \<Longrightarrow> same_run_state a (set_opt v f b)"
  by (rule same_run_state_trans [OF _ same_run_state_set_opt])

lemma apply_update_same:
  assumes "apply_update E opts cx t req r = Inr r'" shows "same_run_state r r'"
proof -
  have refl: "same_run_state a a" for a by (simp add: same_run_state_def)
  from assms obtain y where
    y: "update_overlap req (set_opt (ur_metadata req)
          (\<lambda>v r. r\<lparr>tk_metadata := mustJSON (scheduledTaskMetadataWithContext E cx v)\<rparr>)
          (set_opt (ur_executor_payload req) (\<lambda>v r. r\<lparr>tk_executor_payload := cloneRaw v\<rparr>)
          (set_opt (ur_tags req) (\<lambda>v r. r\<lparr>tk_tags := mustJSON v\<rparr>)
          (set_opt (ur_category req) (\<lambda>v r. r\<lparr>tk_category := trim_space v\<rparr>)
          (set_opt (ur_description req) (\<lambda>v r. r\<lparr>tk_description := trim_space v\<rparr>)
          (set_opt (ur_title req) (\<lambda>v r. r\<lparr>tk_title := trim_space v\<rparr>) r)))))) = Inr y"
    and r': "update_schedule E t req (set_opt (ur_request_user_dept req)
            (\<lambda>v r. r\<lparr>tk_request_user_dept := trim_space v\<rparr>)
          (set_opt (ur_request_user req) (\<lambda>v r. r\<lparr>tk_request_user := trim_space v\<rparr>)
          (set_opt (ur_resource_key req) (\<lambda>v r. r\<lparr>tk_resource_key := trim_space v\<rparr>)
          (set_opt (ur_resource_scope req) (\<lambda>v r. r\<lparr>tk_resource_scope := trim_space v\<rparr>)
          (set_opt (ur_source_ref req) (\<lambda>v r. r\<lparr>tk_source_ref := trim_space v\<rparr>)
          (set_opt (ur_source_type req) (\<lambda>v r. r\<lparr>tk_source_type := trim_space v\<rparr>) y)))))) = Inr r'"
    unfolding apply_update_def Let_def result_chain by blast
  have "same_run_state r y"
    by (rule same_run_state_trans [OF _ same_run_state_parts(1) [OF y]])
      (intro same_run_state_step refl; simp add: same_run_state_def)
  moreover have "same_run_state y r'"
    by (rule same_run_state_trans [OF _ same_run_state_parts(2) [OF r']])
      (intro same_run_state_step refl; simp add: same_run_state_def)
  ultimately show ?thesis by (rule same_run_state_trans)
qed

text \<open>
  An update never touches what the scheduler tracks: whatever the request sets, the saved
  row keeps its id, key, executor, creator, status, counters, error and lease, and only tasks
  that are neither cancelled nor done, and that the caller may manage, are updated at all.
\<close>

theorem UpdateTask_frame:
  assumes "UpdateTask_plan E opts cx t req r = Inr r'"
  shows "same_run_state r r' \<and> tk_status r \<notin> {TaskCancelled, TaskDone} \<and>
    (isBuiltinTaskDefinition r \<longrightarrow> canManageBuiltinTaskDefinition cx)"
  using assms apply_update_same by (auto simp: UpdateTask_plan_def split: if_splits)

definition sample_update :: update_task_request where
  "sample_update = \<lparr>ur_title = Some ''weekly'', ur_description = None, ur_category = None,
     ur_tags = None, ur_executor_payload = None, ur_metadata = None, ur_schedule = None,
     ur_overlap_policy = None, ur_max_parallelism = None, ur_source_type = None, ur_source_ref = None,
     ur_resource_scope = None, ur_resource_key = None, ur_request_user = None,
     ur_request_user_dept = None\<rparr>"

definition updated_task :: timer_task where
  "updated_task = sample_task\<lparr>tk_title := ''weekly''\<rparr>"

lemma sample_plan:
  "UpdateTask_plan sample_env sample_options sample_context 100 sample_update sample_task = Inr updated_task"
  by (simp add: UpdateTask_plan_def apply_update_def sample_update_def set_opt_def update_overlap_def
      update_schedule_def updated_task_def sample_task_def isBuiltinTaskDefinition_def
      decodeStringMap_def map_get_def trim_space_plain plain_char_def)

theorem UpdateTask_frame_witness:
  "same_run_state sample_task updated_task \<and> updated_task \<noteq> sample_task"
  using UpdateTask_frame [OF sample_plan] by (simp add: updated_task_def sample_task_def)

text \<open>
  The lost update: \<open>UpdateTask\<close> reads the row and saves every column later, outside a
  transaction. When another instance cancels (or pauses, or changes in any other way) the task
  between the two statements, the save puts the status that was read back: a cancelled task is
  pending again.
\<close>

theorem stale_update_revives_task:
  assumes "UpdateTask_plan E opts cx t req r = Inr r'"
    and "UpdateTask_save r' w = (Inr answer, w')"
    and "x \<in> set (tasks (store w))" "live x" "tk_id x = tk_id r"
  shows "\<exists>y \<in> set (tasks (store w')). tk_id y = tk_id r \<and> tk_status y = tk_status r \<and>
    tk_lease_owner y = tk_lease_owner r"
proof -
  have same: "same_run_state r r'"
    using assms(1) apply_update_same by (auto simp: UpdateTask_plan_def split: if_splits)
  from assms(2) obtain u v where "TaskUpdate r' w = (Inr (), u)" and "tasks (store w') = tasks (store u)"
    unfolding UpdateTask_save_def CancelWaitingByTask_def update_execs_def run_simps
    by (auto simp: run_simps split: if_splits)
  moreover from this obtain t' where "r'\<lparr>tk_updated_at := t'\<rparr> \<in> set (tasks (store u))"
    using assms(3-5) same
    by (fastforce simp: TaskUpdate_def run_simps in_upd_iff same_run_state_def split: if_splits)
  ultimately show ?thesis
    using same by (intro bexI [of _ "r'\<lparr>tk_updated_at := t'\<rparr>"]) (auto simp: same_run_state_def)
qed

theorem stale_update_revives_task_witness:
  "\<exists>w. store w = sample_db\<lparr>tasks := [sample_task\<lparr>tk_status := TaskCancelled, tk_next_run_at := None\<rparr>]\<rparr> \<and>
     (\<exists>y \<in> set (tasks (store (snd (UpdateTask_save updated_task w)))). tk_id y = 7 \<and>
        tk_status y = TaskPending)"
proof -
  let ?w = "sample_world\<lparr>store := sample_db\<lparr>tasks :=
    [sample_task\<lparr>tk_status := TaskCancelled, tk_next_run_at := None\<rparr>]\<rparr>\<rparr>"
  have "faults ?w = []" by (simp add: sample_world_def)
  then have "\<exists>a. fst (UpdateTask_save updated_task ?w) = Inr a"
    by (simp add: UpdateTask_save_def TaskUpdate_def CancelWaitingByTask_def update_execs_def calm_simps
        key_taken_def key_in_use_def updated_task_def sample_task_def split: if_splits)
  then obtain a where "UpdateTask_save updated_task ?w = (Inr a, snd (UpdateTask_save updated_task ?w))"
    by (metis prod.collapse)
  from stale_update_revives_task [OF sample_plan this,
      of "sample_task\<lparr>tk_status := TaskCancelled, tk_next_run_at := None\<rparr>"]
  show ?thesis by (intro exI [of _ ?w]) (auto simp: live_def sample_task_def)
qed

end
