(* ===== verification/SchedExecProps.thy ===== *)
theory SchedExecProps
  imports SchedInvariants
begin

text \<open>
  Reports, recovery and the outbox, run by run: an execution starts and finishes at most once,
  what a finish does to its task, how long an unattended execution lives, and what a published
  event means.
\<close>

section \<open>Starting and finishing once\<close>

definition is_execution :: "int \<Rightarrow> int \<Rightarrow> timer_execution \<Rightarrow> bool" where
  "is_execution i x e \<longleftrightarrow> ex_task_id e = i \<and> ex_id e = x"

text \<open>No row of the execution is in one of the states \<open>S\<close>.\<close>

definition not_in :: "gostr set \<Rightarrow> int \<Rightarrow> int \<Rightarrow> sched_db \<Rightarrow> bool" where
  "not_in S i x s \<longleftrightarrow> (\<forall>e \<in> set (execs s). is_execution i x e \<longrightarrow> ex_status e \<notin> S)"

lemma not_in_other [simp]:
  "not_in S i x (s\<lparr>tasks := rs\<rparr>) = not_in S i x s"
  "not_in S i x (s\<lparr>outbox := evs\<rparr>) = not_in S i x s"
  by (simp_all add: not_in_def)

lemma update_execs_none:
  "hoare (\<lambda>s. \<forall>e \<in> set (execs s). \<not> P e) (update_execs P f) (\<lambda>ok _. \<not> ok)"
  unfolding hoare_def update_execs_def run_simps by (auto simp: hits_pos)

lemma update_execs_establish:
  assumes "\<And>e t. P e \<Longrightarrow> Q ((f e)\<lparr>ex_updated_at := t\<rparr>)" and "\<And>e. R e \<Longrightarrow> \<not> P e \<Longrightarrow> Q e"
  shows "hoare (\<lambda>s. \<forall>e \<in> set (execs s). R e) (update_execs P f) (\<lambda>_ s. \<forall>e \<in> set (execs s). Q e)"
  unfolding hoare_def update_execs_def run_simps using assms by (auto simp: in_upd_iff)

lemma require_ok: "hoare (\<lambda>s. \<not> ok) (require e ok) (\<lambda>_ _. False)"
  by (simp add: hoare_def require_def run_simps)

lemma started_drops_queued:
  "hoare (\<lambda>_. True) (TryMarkRunning i x wk rn t l) (\<lambda>_. not_in {ExecQueued} i x)"
  unfolding TryMarkRunning_def not_in_def
  by (rule hoare_pre [OF update_execs_establish [where R = "\<lambda>_. True"]])
    (auto simp: is_execution_def Let_def)

text \<open>
  An execution is started at most once per attempt: after one worker's start report was
  accepted, every further start report for the execution, by the same or another worker, is
  refused with \<open>ErrInvalidTaskStatus\<close> or a database error.
\<close>

theorem MarkExecutionStarted_once:
  assumes "MarkExecutionStarted opts req w = (Inr u, w1)" and "store w2 = store w1"
    and "ms_task_id req2 = ms_task_id req" "ms_execution_id req2 = ms_execution_id req"
  shows "\<exists>e w3. MarkExecutionStarted opts req2 w2 = (Inl e, w3)"
proof -
  have "hoare (\<lambda>_. True) (MarkExecutionStarted opts req)
      (\<lambda>_. not_in {ExecQueued} (ms_task_id req) (ms_execution_id req))"
    unfolding MarkExecutionStarted_def
    by (rule hoare_andThen [OF keeps_stable [OF stable_time_or_now]],
        rule hoare_andThen [OF started_drops_queued], rule keeps_stable [OF stable_require])
  then have start: "not_in {ExecQueued} (ms_task_id req2) (ms_execution_id req2) (store w2)"
    using assms hoareD by fastforce
  have refuse: "hoare (not_in {ExecQueued} (ms_task_id req2) (ms_execution_id req2))
      (MarkExecutionStarted opts req2) (\<lambda>_ _. False)"
    unfolding MarkExecutionStarted_def
    by (rule hoare_andThen [OF keeps_stable [OF stable_time_or_now]],
        rule hoare_andThen [OF _ require_ok], unfold TryMarkRunning_def,
        rule hoare_pre [OF update_execs_none]) (auto simp: not_in_def is_execution_def)
  show ?thesis
  proof (cases "MarkExecutionStarted opts req2 w2")
    case (Pair r w3)
    with hoareD [OF refuse start] show ?thesis by (cases r) auto
  qed
qed

text \<open>Finishing: the statuses that end an execution.\<close>

lemma all_or_nothing_finish:
  "MarkExecutionFinished E opts req w = (Inl e, w') \<Longrightarrow> store w' = store w"
  by (auto simp: MarkExecutionFinished_def time_or_now_def andThen_def now_def ret_def fail_def
      dest: tx_Inl_store split: if_splits)

definition live_statuses :: "gostr set" where
  "live_statuses = {ExecWaiting, ExecQueued, ExecRunning}"

lemma terminal_iff: "terminal_execution e \<longleftrightarrow> ex_status e \<notin> live_statuses"
  by (auto simp: terminal_execution_def active_status_def live_statuses_def)

lemma ended_keeps:
  "stable (not_in live_statuses i x) (CancelWaitingByTask j t msg)"
  "stable (not_in live_statuses i x) (TryPromoteWaiting ex t l)"
  unfolding CancelWaitingByTask_def TryPromoteWaiting_def not_in_def
  by (auto intro!: stable_intros execs_table.update_all_rows simp: is_execution_def live_statuses_def)

lemmas ended_others = stable_tasks_only [of "not_in live_statuses i x" for i x, simplified]
  stable_outbox_only [of "not_in live_statuses i x" for i x, simplified]

lemma ended_after_finish:
  "keeps (not_in live_statuses i x) (finish_task E opts req ex t task)"
proof -
  have "stable (not_in live_statuses i x) (promoteWaitingAfterCompletion opts r t)" for r t
    unfolding promoteWaitingAfterCompletion_def promoteWaitingExecution_def Let_def
    by (auto intro!: stable_intros ended_keeps ended_others split: sum.splits option.splits)
  then show ?thesis
    unfolding finish_task_def createExecutionFinishedOutbox_def Let_def
    by (auto intro!: keeps_stable stable_intros ended_keeps ended_others)
qed

lemma finish_ends:
  assumes "mf_status req \<notin> live_statuses"
  shows "hoare (not_in {ExecWaiting} (mf_task_id req) (mf_execution_id req))
    (TryFinish (mf_task_id req) (mf_execution_id req) (finish_updates req t))
    (\<lambda>_. not_in live_statuses (mf_task_id req) (mf_execution_id req))"
  unfolding TryFinish_def not_in_def using assms
  by (intro update_execs_establish)
    (auto simp: is_execution_def finish_updates_def Let_def live_statuses_def active_status_def)

lemma refused_when_ended:
  "hoare (not_in live_statuses (mf_task_id req) (mf_execution_id req))
     (MarkExecutionFinished E opts req) (\<lambda>_ _. False)"
proof -
  have "hoare (not_in live_statuses (mf_task_id req) (mf_execution_id req))
      (TryFinish (mf_task_id req) (mf_execution_id req) f) (\<lambda>ok _. \<not> ok)" for f
    unfolding TryFinish_def
    by (rule hoare_pre [OF update_execs_none])
      (auto simp: not_in_def is_execution_def live_statuses_def active_status_def)
  then have refuse: "hoare (not_in live_statuses (mf_task_id req) (mf_execution_id req))
      (andThen (ExecGetByID (mf_task_id req) (mf_execution_id req)) (\<lambda>ex.
       andThen (TryFinish (mf_task_id req) (mf_execution_id req) f) (\<lambda>ok.
       andThen (require e ok) (g ex)))) (\<lambda>_ _. False)" for f e g
    by (intro keeps_andThen keeps_stable [OF stable_reads(4)] hoare_andThen [OF _ hoare_andThen [OF require_ok]])
      (auto simp: hoare_def)
  show ?thesis
  proof (cases "mf_status req = []")
    case False
    then show ?thesis
      unfolding MarkExecutionFinished_def
      by simp (rule keeps_andThen [OF keeps_stable [OF stable_time_or_now]], rule hoare_tx, rule refuse)
  qed (simp add: MarkExecutionFinished_def hoare_fail)
qed

text \<open>
  A finish is accepted once: after a worker's report with a final status was committed, every
  later report for the execution (a retry, a late worker, a timeout by the recovery loop) is
  refused and changes nothing, so neither the task's run count nor its schedule moves twice.
\<close>

theorem MarkExecutionFinished_once:
  assumes "MarkExecutionFinished E opts req w = (Inr u, w1)" and "store w2 = store w1"
    and "mf_status req \<notin> live_statuses"
    and "not_in {ExecWaiting} (mf_task_id req) (mf_execution_id req) (store w)"
    and "mf_task_id req2 = mf_task_id req" "mf_execution_id req2 = mf_execution_id req"
  shows "\<exists>e w3. MarkExecutionFinished E opts req2 w2 = (Inl e, w3) \<and> store w3 = store w2"
proof -
  let ?ended = "not_in live_statuses (mf_task_id req) (mf_execution_id req)"
  have body: "hoare (not_in {ExecWaiting} (mf_task_id req) (mf_execution_id req))
      (MarkExecutionFinished E opts req) (\<lambda>_. ?ended)"
  proof (cases "mf_status req = []")
    case False
    have after: "keeps ?ended (case r of
          Inl e \<Rightarrow> if e = ErrRecordNotFound then createExecutionFinishedOutbox req ex t else fail e
        | Inr task \<Rightarrow> finish_task E opts req ex t task)" for r ex t
      by (auto intro!: ended_after_finish hoare_fail
          keeps_stable [OF stable_createExecutionFinishedOutbox] split: sum.split)
    from False show ?thesis
      unfolding MarkExecutionFinished_def
      by simp (rule keeps_andThen [OF keeps_stable [OF stable_time_or_now]], rule hoare_tx,
          rule keeps_andThen [OF keeps_stable [OF stable_reads(4)]],
          rule hoare_andThen [OF finish_ends [OF assms(3)]],
          rule keeps_andThen [OF keeps_stable [OF stable_require]],
          rule keeps_andThen [OF keeps_attempt [OF stable_reads(2)]], rule after)
  qed (simp add: MarkExecutionFinished_def hoare_fail)
  have "not_in live_statuses (mf_task_id req2) (mf_execution_id req2) (store w2)"
    using hoareD [OF body assms(4,1)] assms(2,5,6) by simp
  note refuse = hoareD [OF refused_when_ended this]
  show ?thesis
  proof (cases "MarkExecutionFinished E opts req2 w2")
    case (Pair r w3)
    then obtain e where "r = Inl e" using refuse by (cases r) auto
    with Pair all_or_nothing_finish show ?thesis by blast
  qed
qed

section \<open>What a finish does to the task\<close>

text \<open>A live row of the task with the given status and run count.\<close>

definition task_is :: "int \<Rightarrow> gostr \<Rightarrow> int \<Rightarrow> timer_task \<Rightarrow> bool" where
  "task_is i st n r \<longleftrightarrow> live r \<and> tk_id r = i \<and> tk_status r = st \<and> tk_run_count r = n"

definition has_task :: "int \<Rightarrow> gostr \<Rightarrow> int \<Rightarrow> sched_db \<Rightarrow> bool" where
  "has_task i st n s \<longleftrightarrow> (\<exists>r \<in> set (tasks s). task_is i st n r)"

lemma has_task_other [simp]:
  "has_task i st n (s\<lparr>execs := es\<rparr>) = has_task i st n s"
  "has_task i st n (s\<lparr>outbox := evs\<rparr>) = has_task i st n s"
  by (simp_all add: has_task_def)

lemma task_is_keeps: "stable (has_task i st n) (SetInflightReference j x)"
  unfolding SetInflightReference_def has_task_def
  by (intro stable_intros update_tasks_exists) (simp add: task_is_def live_def)

lemma task_is_completion:
  "keeps (has_task i st n) (promoteWaitingAfterCompletion opts task t)"
  unfolding promoteWaitingAfterCompletion_def promoteWaitingExecution_def TryPromoteWaiting_def Let_def
  by (auto intro!: keeps_stable stable_intros task_is_keeps stable_update_execs_other
      stable_outbox_only split: sum.splits option.splits)

lemma finish_task_status:
  "hoare (\<lambda>s. \<exists>r \<in> set (tasks s). live r \<and> tk_id r = tk_id task)
     (finish_task E opts req ex t task)
     (\<lambda>_. has_task (tk_id task) (tk_status (task_after_finish E req (ex_trigger_type ex) t task))
          (tk_run_count (task_after_finish E req (ex_trigger_type ex) t task)))"
proof -
  let ?r = "task_after_finish E req (ex_trigger_type ex) t task"
  have id: "tk_id ?r = tk_id task"
    by (auto simp: task_after_finish_def Let_def split: prod.splits)
  have complete: "hoare (\<lambda>s. \<exists>r \<in> set (tasks s). live r \<and> tk_id r = tk_id task)
      (TryCompleteExecution ?r x)
      (\<lambda>_. has_task (tk_id task) (tk_status ?r) (tk_run_count ?r))" for x
    unfolding TryCompleteExecution_def has_task_def
    by (rule hoare_pre [OF update_tasks_hits]) (auto simp: task_is_def live_def id)
  have close: "stable (has_task i st n) (CancelWaitingByTask j t' msg)" for i st n j t' msg
    unfolding CancelWaitingByTask_def by (intro stable_intros stable_update_execs_other) simp
  show ?thesis
    unfolding finish_task_def Let_def
    by (rule hoare_andThen [OF complete])
      (auto intro!: hoare_intros keeps_stable [OF close] task_is_completion
        keeps_stable [OF stable_createExecutionFinishedOutbox])
qed

lemma finish_reads:
  "hoare (\<lambda>s. first_row (is_execution i x) (execs s) = Some ex \<and> R s) (ExecGetByID i x)
     (\<lambda>a s. a = ex \<and> R s)"
  "hoare (\<lambda>s. first_row (\<lambda>r. live r \<and> tk_id r = i) (tasks s) = Some task) (attempt (GetByIDForUpdate i))
     (\<lambda>r s. (r = Inr task \<or> r = Inl ErrDB) \<and> (\<exists>r \<in> set (tasks s). live r \<and> tk_id r = i) \<and> tk_id task = i)"
proof -
  show "hoare (\<lambda>s. first_row (is_execution i x) (execs s) = Some ex \<and> R s) (ExecGetByID i x)
     (\<lambda>a s. a = ex \<and> R s)"
    unfolding hoare_def ExecGetByID_def run_simps found_def
    by (auto simp: run_simps is_execution_def[abs_def])
  show "hoare (\<lambda>s. first_row (\<lambda>r. live r \<and> tk_id r = i) (tasks s) = Some task)
     (attempt (GetByIDForUpdate i))
     (\<lambda>r s. (r = Inr task \<or> r = Inl ErrDB) \<and> (\<exists>r \<in> set (tasks s). live r \<and> tk_id r = i) \<and> tk_id task = i)"
    unfolding hoare_def run_simps GetByIDForUpdate_def TaskGetByID_def andThen_def query_def stmt_def
    by (auto simp: found_def ret_def dest: first_row_Some split: if_splits)
qed

text \<open>The body of the transaction, and its effect on the row of the task.\<close>

definition finish_body where
  "finish_body E opts req t =
     andThen (ExecGetByID (mf_task_id req) (mf_execution_id req)) (\<lambda>ex.
       andThen (TryFinish (mf_task_id req) (mf_execution_id req) (finish_updates req t)) (\<lambda>ok.
       andThen (require ErrInvalidTaskStatus ok) (\<lambda>_.
       andThen (attempt (GetByIDForUpdate (mf_task_id req))) (\<lambda>r.
         case r of
           Inl e \<Rightarrow> if e = ErrRecordNotFound then createExecutionFinishedOutbox req ex t else fail e
         | Inr task \<Rightarrow> finish_task E opts req ex t task))))"

lemma MarkExecutionFinished_body:
  assumes "MarkExecutionFinished E opts req w = (Inr u, w')"
    and "t = (if mf_finished_at req = 0 then clock w else mf_finished_at req)"
  obtains v where "finish_body E opts req t w = (Inr u, v)" and "store w' = store v"
  using assms that
  by (auto simp: finish_body_def MarkExecutionFinished_def tx_Inr andThen_def now_def ret_def fail_def
      time_or_now_def split: if_splits)

abbreviation locked_task :: "mark_finished_request \<Rightarrow> timer_task \<Rightarrow> sched_db \<Rightarrow> bool" where
  "locked_task req task s \<equiv> first_row (\<lambda>r. live r \<and> tk_id r = mf_task_id req) (tasks s) = Some task"

lemma finish_rest_status:
  fixes E opts req t ex task
  defines "after \<equiv> task_after_finish E req (ex_trigger_type ex) t task"
  shows "hoare (\<lambda>s. (r = Inr task \<or> r = Inl ErrDB) \<and>
        (\<exists>r \<in> set (tasks s). live r \<and> tk_id r = mf_task_id req) \<and> tk_id task = mf_task_id req)
      (case r of
         Inl e \<Rightarrow> if e = ErrRecordNotFound then createExecutionFinishedOutbox req ex t else fail e
       | Inr task \<Rightarrow> finish_task E opts req ex t task)
      (\<lambda>_. has_task (mf_task_id req) (tk_status after) (tk_run_count after))"
proof (cases r)
  case (Inr task')
  then show ?thesis
    using hoare_pre [OF finish_task_status [of task E opts req ex t],
        of "\<lambda>s. (\<exists>r \<in> set (tasks s). live r \<and> tk_id r = mf_task_id req) \<and> tk_id task = mf_task_id req"]
    by (cases "task' = task"; cases "tk_id task = mf_task_id req") (simp_all add: hoare_def after_def)
qed (auto simp: hoare_def run_simps)

lemma finish_body_status:
  fixes E opts req t ex task
  defines "after \<equiv> task_after_finish E req (ex_trigger_type ex) t task"
  shows "hoare (\<lambda>s. first_row (is_execution (mf_task_id req) (mf_execution_id req)) (execs s) = Some ex \<and>
        locked_task req task s)
      (finish_body E opts req t) (\<lambda>_. has_task (mf_task_id req) (tk_status after) (tk_run_count after))"
  unfolding finish_body_def
proof (rule hoare_andThen [OF finish_reads(1)])
  fix a
  have finish: "keeps (locked_task req task) (TryFinish i x f)" for i x f
    unfolding TryFinish_def by (intro keeps_stable stable_update_execs_other) simp
  show "hoare (\<lambda>s. a = ex \<and> locked_task req task s)
    (andThen (TryFinish (mf_task_id req) (mf_execution_id req) (finish_updates req t)) (\<lambda>ok.
       andThen (require ErrInvalidTaskStatus ok) (\<lambda>_.
       andThen (attempt (GetByIDForUpdate (mf_task_id req))) (\<lambda>r.
         case r of
           Inl e \<Rightarrow> if e = ErrRecordNotFound then createExecutionFinishedOutbox req a t else fail e
         | Inr task \<Rightarrow> finish_task E opts req a t task))))
    (\<lambda>_. has_task (mf_task_id req) (tk_status after) (tk_run_count after))"
  proof (cases "a = ex")
    case True
    show ?thesis unfolding True simp_thms
      by (rule keeps_andThen [OF finish], rule keeps_andThen [OF keeps_stable [OF stable_require]],
          rule hoare_andThen [OF finish_reads(2)], unfold after_def, rule finish_rest_status)
  qed (simp add: hoare_def)
qed

text \<open>
  C6. A finished scheduled execution decides the state of its task alone: the live row gets one
  more run and the status \<open>computeTaskNextState\<close> computes from the schedule, whatever its status
  was. A task cancelled or paused while the execution ran is pending again when the schedule
  recurs.
\<close>

theorem finish_overwrites_task_status:
  assumes "MarkExecutionFinished E opts req w = (Inr u, w')"
    and "first_row (is_execution (mf_task_id req) (mf_execution_id req)) (execs (store w)) = Some ex"
    and "ex_trigger_type ex \<noteq> triggerManual"
    and "first_row (\<lambda>r. live r \<and> tk_id r = mf_task_id req) (tasks (store w)) = Some task"
    and "t = (if mf_finished_at req = 0 then clock w else mf_finished_at req)"
  shows "\<exists>r \<in> set (tasks (store w')). live r \<and> tk_id r = mf_task_id req \<and>
    tk_run_count r = tk_run_count task + 1 \<and>
    tk_status r = fst (computeTaskNextState E
      (task\<lparr>tk_last_error_message := trim_space (mf_error_message req),
            tk_run_count := tk_run_count task + 1\<rparr>) (mf_status req = ExecSuccess) t)"
proof -
  let ?after = "task_after_finish E req (ex_trigger_type ex) t task"
  have after: "tk_run_count ?after = tk_run_count task + 1"
    "tk_status ?after = fst (computeTaskNextState E
      (task\<lparr>tk_last_error_message := trim_space (mf_error_message req),
            tk_run_count := tk_run_count task + 1\<rparr>) (mf_status req = ExecSuccess) t)"
    using assms(3) by (auto simp: task_after_finish_def Let_def split: prod.splits)
  obtain v where "finish_body E opts req t w = (Inr u, v)" "store w' = store v"
    by (rule MarkExecutionFinished_body [OF assms(1,5)])
  with hoareD [OF finish_body_status] assms(2,4) after show ?thesis
    by (fastforce simp: task_is_def has_task_def)
qed

text \<open>A run on the sample: the task was cancelled while its execution ran.\<close>

definition cancelled_world :: "sched_db world" where
  "cancelled_world = sample_world\<lparr>store := sample_db\<lparr>tasks :=
     [sample_task\<lparr>tk_status := TaskCancelled, tk_next_run_at := None\<rparr>]\<rparr>\<rparr>"

lemma cancelled_rows:
  "faults cancelled_world = []" "execs (store cancelled_world) = [sample_exec]"
  "tasks (store cancelled_world) = [sample_task\<lparr>tk_status := TaskCancelled, tk_next_run_at := None\<rparr>]"
  by (simp_all add: cancelled_world_def sample_world_def sample_db_def)

lemma sample_next:
  "computeTaskNextState sample_env (sample_task\<lparr>tk_status := st, tk_next_run_at := n,
     tk_last_error_message := [], tk_run_count := k\<rparr>) ok 120 = (TaskPending, Some (120 + 60 * second), [])"
  by (simp add: computeTaskNextState_def sample_task_def nextRunForTask_def task_schedule_def
      nextRunForSchedule_def Validate_def locationForSchedule_def trim_space_plain wrap64_def)

lemma cancelled_finish_runs:
  "\<exists>w1. MarkExecutionFinished sample_env sample_options sample_finish cancelled_world = (Inr (), w1)"
proof -
  have row: "live (sample_task\<lparr>tk_status := st, tk_next_run_at := n\<rparr>)"
    "tk_id (sample_task\<lparr>tk_status := st, tk_next_run_at := n\<rparr>) = 7" for st n
    by (simp_all add: sample_task_def live_def)
  have ex: "ex_task_id sample_exec = 7" "ex_id sample_exec = 3" "ex_status sample_exec = ExecQueued"
    "ex_trigger_type sample_exec = triggerScheduled"
    by (simp_all add: sample_exec_def)
  have fin: "ex_status (finish_updates sample_finish t sample_exec) = ExecSuccess" for t
    by (simp add: finish_updates_def sample_finish_def trim_space_plain)
  have req: "mf_task_id sample_finish = 7" "mf_execution_id sample_finish = 3"
    "mf_status sample_finish = ExecSuccess" "mf_finished_at sample_finish = 120"
    "mf_error_message sample_finish = []"
    by (simp_all add: sample_finish_def)
  have after: "tk_status (task_after_finish sample_env sample_finish triggerScheduled 120
        (sample_task\<lparr>tk_status := st, tk_next_run_at := n\<rparr>)) = TaskPending"
    "tk_id (task_after_finish sample_env sample_finish triggerScheduled 120
        (sample_task\<lparr>tk_status := st, tk_next_run_at := n\<rparr>)) = 7" for st n
    using sample_next
    by (simp_all add: task_after_finish_def req trim_space_plain Let_def sample_next) (simp add: sample_task_def)
  show ?thesis
    unfolding MarkExecutionFinished_def ExecGetByID_def TryFinish_def update_execs_def
      GetByIDForUpdate_def TaskGetByID_def finish_task_def TryCompleteExecution_def update_tasks_def
      promoteWaitingAfterCompletion_def GetActiveState_def createExecutionFinishedOutbox_def
      OutboxCreate_def time_or_now_def tx_def Let_def
    by (simp add: calm_simps cancelled_rows row ex req after found_def require_def
        fin isTerminalTaskStatus_def trim_space_plain plain_char_def ActiveCount_def
        active_status_def)
qed

theorem finish_overwrites_task_status_witness:
  "tk_status (hd (tasks (store cancelled_world))) = TaskCancelled \<and>
   (\<exists>r \<in> set (tasks (store (snd (MarkExecutionFinished sample_env sample_options sample_finish
      cancelled_world)))). live r \<and> tk_id r = 7 \<and> tk_status r = TaskPending)"
proof -
  obtain w1 where run: "MarkExecutionFinished sample_env sample_options sample_finish cancelled_world =
    (Inr (), w1)" using cancelled_finish_runs by blast
  have "\<exists>r \<in> set (tasks (store w1)). live r \<and> tk_id r = mf_task_id sample_finish \<and>
      tk_run_count r = tk_run_count (sample_task\<lparr>tk_status := TaskCancelled, tk_next_run_at := None\<rparr>) + 1 \<and>
      tk_status r = fst (computeTaskNextState sample_env
        (sample_task\<lparr>tk_status := TaskCancelled, tk_next_run_at := None,
           tk_last_error_message := trim_space (mf_error_message sample_finish),
           tk_run_count := tk_run_count (sample_task\<lparr>tk_status := TaskCancelled, tk_next_run_at := None\<rparr>) + 1\<rparr>)
        (mf_status sample_finish = ExecSuccess) 120)"
    by (rule finish_overwrites_task_status [OF run, where ex = sample_exec])
      (simp_all add: cancelled_rows is_execution_def sample_exec_def sample_finish_def sample_task_def
        live_def)
  then show ?thesis
    using run by (auto simp: cancelled_rows sample_next sample_finish_def trim_space_plain)
qed

theorem MarkExecutionFinished_once_witness:
  "\<exists>w1 e w3. MarkExecutionFinished sample_env sample_options sample_finish cancelled_world = (Inr (), w1) \<and>
     MarkExecutionFinished sample_env sample_options (sample_finish\<lparr>mf_status := ExecTimeout\<rparr>) w1 =
       (Inl e, w3) \<and> store w3 = store w1"
proof -
  obtain w1 where run: "MarkExecutionFinished sample_env sample_options sample_finish cancelled_world =
    (Inr (), w1)" using cancelled_finish_runs by blast
  have "\<exists>e w3. MarkExecutionFinished sample_env sample_options (sample_finish\<lparr>mf_status := ExecTimeout\<rparr>) w1 =
       (Inl e, w3) \<and> store w3 = store w1"
    by (rule MarkExecutionFinished_once [OF run])
      (simp_all add: sample_finish_def live_statuses_def not_in_def cancelled_rows sample_exec_def)
  with run show ?thesis by blast
qed

theorem MarkExecutionStarted_once_witness:
  "\<exists>w1 e w3. MarkExecutionStarted sample_options
       \<lparr>ms_task_id = 7, ms_execution_id = 3, ms_worker_id = ''a'', ms_started_at = 0, ms_executor_run_id = []\<rparr>
       sample_world = (Inr (), w1) \<and>
     MarkExecutionStarted sample_options
       \<lparr>ms_task_id = 7, ms_execution_id = 3, ms_worker_id = ''b'', ms_started_at = 0, ms_executor_run_id = []\<rparr>
       w1 = (Inl e, w3)"
proof -
  let ?a = "\<lparr>ms_task_id = 7, ms_execution_id = 3, ms_worker_id = ''a'', ms_started_at = 0, ms_executor_run_id = []\<rparr>"
  let ?b = "\<lparr>ms_task_id = 7, ms_execution_id = 3, ms_worker_id = ''b'', ms_started_at = 0, ms_executor_run_id = []\<rparr>"
  have "faults sample_world = []" "execs (store sample_world) = [sample_exec]"
    by (simp_all add: sample_world_def sample_db_def)
  then obtain w1 where run: "MarkExecutionStarted sample_options ?a sample_world = (Inr (), w1)"
    by (simp add: MarkExecutionStarted_def time_or_now_def TryMarkRunning_def update_execs_def
        calm_simps require_def sample_exec_def)
  have "\<exists>e w3. MarkExecutionStarted sample_options ?b w1 = (Inl e, w3)"
    by (rule MarkExecutionStarted_once [OF run]) simp_all
  with run show ?thesis by blast
qed

end
