(* ===== verification/SchedRecovery.thy ===== *)
theory SchedRecovery
  imports SchedExecProps
begin

text \<open>
  Unattended executions come to an end: while the database answers, each pass of the recovery
  loop over a stale execution succeeds and either ends it or uses up one of its finitely many
  dispatch attempts or heartbeat misses.
\<close>

section \<open>Totality without faults\<close>

lemma achieves_require: "achieves (\<lambda>s. ok \<and> P s) (require e ok) (\<lambda>_. P)"
  by (auto simp: achieves_def require_def ret_def)

lemma achieves_checked:
  assumes "achieves P m (\<lambda>ok s. ok \<and> R s)" and "achieves R k Q"
  shows "achieves P (andThen m (\<lambda>ok. andThen (require e ok) (\<lambda>_. k))) Q"
  by (rule achieves_andThen [OF assms(1)], rule achieves_andThen [OF achieves_require assms(2)])

lemma achieves_tasks_only:
  assumes "\<And>s rs. P s \<Longrightarrow> P (s\<lparr>tasks := rs\<rparr>)"
  shows "achieves P (SetInflightReference i x) (\<lambda>_. P)" "achieves P (TryCompleteExecution task x) (\<lambda>_. P)"
  unfolding SetInflightReference_def TryCompleteExecution_def
  by (auto intro!: achieves_andThen [OF achieves_update_tasks [where Q = "\<lambda>_. P"]]
      achieves_update_tasks achieves_ret assms)

lemma achieves_GetActiveState:
  "achieves P (GetActiveState i) (\<lambda>state s. P s \<and> state_read i state s)"
proof -
  have "achieves P (GetActiveState i) (\<lambda>_ _. True)"
    unfolding GetActiveState_def
    by (rule achieves_andThen [OF achieves_query [where Q = "\<lambda>_ _. True"]], simp,
        auto intro!: achieves_andThen [OF achieves_query [where Q = "\<lambda>_ _. True"]] achieves_ret
        split: prod.split)
  then have "achieves (\<lambda>s. P s \<and> P s) (GetActiveState i) (\<lambda>state s. True \<and> (P s \<and> state_read i state s))"
    unfolding achieves_def using hoareD [OF GetActiveState_reads, of P] by blast
  then show ?thesis by simp
qed

definition has_waiting :: "timer_execution \<Rightarrow> sched_db \<Rightarrow> bool" where
  "has_waiting ex s \<longleftrightarrow> (\<exists>e \<in> set (execs s). ex_task_id e = ex_task_id ex \<and> ex_id e = ex_id ex \<and>
     ex_status e = ExecWaiting)"

lemma has_waiting_tasks [simp]: "has_waiting ex (s\<lparr>tasks := rs\<rparr>) = has_waiting ex s"
  by (simp add: has_waiting_def)

lemma achieves_promote:
  "achieves (has_waiting ex) (promoteWaitingExecution opts task ex t) (\<lambda>_ _. True)"
proof -
  have "achieves (has_waiting ex) (TryPromoteWaiting ex t l) (\<lambda>ok _. ok \<and> True)" for l
    unfolding TryPromoteWaiting_def
    by (rule achieves_update_execs) (auto simp: has_waiting_def hits_pos)
  then show ?thesis
    unfolding promoteWaitingExecution_def Let_def
    by (intro achieves_checked)
      (auto intro!: achieves_andThen [OF achieves_tasks_only(1) [of "\<lambda>_. True"]]
        achieves_andThen [OF achieves_OutboxCreate [of "\<lambda>_. True"]] achieves_ret)
qed

lemma achieves_latest:
  "achieves (\<lambda>_. True) (attempt (LatestActiveExecutionID i)) (\<lambda>r _. r \<noteq> Inl ErrDB \<and>
     (\<forall>e. r = Inl e \<longrightarrow> e = ErrRecordNotFound))"
  unfolding achieves_def attempt_def LatestActiveExecutionID_def
  by (auto simp: calm_simps found_def split: option.split)

lemma achieves_after_completion:
  "achieves (\<lambda>_. True) (promoteWaitingAfterCompletion opts task t) (\<lambda>_ _. True)"
proof -
  let ?w = "\<lambda>state s. state_read (tk_id task) state s"
  have ref: "achieves (?w state) (if b
      then andThen (attempt (LatestActiveExecutionID i)) (\<lambda>r. case r of
          Inl e \<Rightarrow> if e = ErrRecordNotFound then ret () else fail e
        | Inr latest \<Rightarrow> only_if (latest > 0) (SetInflightReference i latest))
      else ret ()) (\<lambda>_. ?w state)" for b state i
  proof (cases b)
    case True
    have "achieves (\<lambda>s. True \<and> ?w state s) (attempt (LatestActiveExecutionID i)) (\<lambda>r s. (r \<noteq> Inl ErrDB \<and>
        (\<forall>e. r = Inl e \<longrightarrow> e = ErrRecordNotFound)) \<and> ?w state s)"
      by (rule achieves_conj [OF achieves_latest]) (intro keeps_attempt stable_reads)
    then have read: "achieves (?w state) (attempt (LatestActiveExecutionID i)) (\<lambda>r s. (r \<noteq> Inl ErrDB \<and>
        (\<forall>e. r = Inl e \<longrightarrow> e = ErrRecordNotFound)) \<and> ?w state s)" by simp
    have set_ref: "achieves (?w state) (only_if d (SetInflightReference i x)) (\<lambda>_. ?w state)" for d x
      by (rule achieves_only_if) (auto intro: achieves_tasks_only(1))
    have cont: "achieves (\<lambda>s. (r \<noteq> Inl ErrDB \<and> (\<forall>e. r = Inl e \<longrightarrow> e = ErrRecordNotFound)) \<and> ?w state s)
        (case r of Inl e \<Rightarrow> if e = ErrRecordNotFound then ret () else fail e
         | Inr latest \<Rightarrow> only_if (latest > 0) (SetInflightReference i latest)) (\<lambda>_. ?w state)" for r
      using achieves_pre [OF set_ref] by (cases r) (auto simp: achieves_def ret_def fail_def)
    from True show ?thesis by simp (rule achieves_andThen [OF read cont])
  qed (simp add: achieves_ret)
  have promote: "achieves (?w state) (promoteWaitingExecution opts task wx t) (\<lambda>_ _. True)"
    if "ac_waiting state = Some wx" for state wx
    by (rule achieves_pre [OF achieves_promote]) (use that in \<open>auto simp: state_read_def has_waiting_def\<close>)
  show ?thesis
    unfolding promoteWaitingAfterCompletion_def
    by (rule achieves_andThen [OF achieves_pre [OF achieves_GetActiveState [of "\<lambda>_. True"]]], simp,
        rule achieves_andThen [OF achieves_pre [OF ref]], simp)
      (auto intro!: achieves_ret achieves_andThen [OF promote] split: option.split)
qed

lemma achieves_finish_task:
  "achieves (\<lambda>_. True) (finish_task E opts req ex t task) (\<lambda>_ _. True)"
proof -
  have close: "achieves (\<lambda>_. True) (CancelWaitingByTask i t msg) (\<lambda>_ _. True)" for i t msg
    unfolding CancelWaitingByTask_def
    by (rule achieves_andThen [OF achieves_update_execs [where Q = "\<lambda>_ _. True"]]) (auto intro: achieves_ret)
  show ?thesis
    unfolding finish_task_def createExecutionFinishedOutbox_def Let_def
    by (rule achieves_andThen [OF achieves_tasks_only(2) [of "\<lambda>_. True"]], simp,
        rule achieves_andThen [where R = "\<lambda>_ _. True"])
      (auto intro!: close achieves_after_completion achieves_OutboxCreate)
qed

section \<open>One row\<close>

definition the_row :: "int \<Rightarrow> int \<Rightarrow> sched_db \<Rightarrow> timer_execution \<Rightarrow> bool" where
  "the_row i x s e \<longleftrightarrow> e \<in> set (execs s) \<and> is_execution i x e \<and> distinct (map ex_id (execs s))"

lemma the_row_other [simp]:
  "the_row i x (s\<lparr>tasks := rs\<rparr>) e = the_row i x s e"
  "the_row i x (s\<lparr>outbox := evs\<rparr>) e = the_row i x s e"
  by (simp_all add: the_row_def)

lemma the_row_unique: "the_row i x s e \<Longrightarrow> r \<in> set (execs s) \<Longrightarrow> is_execution i x r \<Longrightarrow> r = e"
  unfolding the_row_def is_execution_def
  by (metis distinct_map inj_onD)

lemma ids_upd:
  "(\<And>r. ex_id (f r) = ex_id r) \<Longrightarrow>
     map ex_id (upd P (\<lambda>r. (f r)\<lparr>ex_updated_at := t\<rparr>) rows) = map ex_id rows"
  by (rule map_upd) simp

text \<open>An update of the one row: it is hit, and the row is the updated one.\<close>

lemma update_the_row:
  assumes "\<And>r. ex_id (f r) = ex_id r \<and> ex_task_id (f r) = ex_task_id r" and "P e"
    and "\<And>s t. the_row i x s ((f e)\<lparr>ex_updated_at := t\<rparr>) \<Longrightarrow> R s"
  shows "achieves (\<lambda>s. the_row i x s e) (update_execs P f) (\<lambda>ok s. ok \<and> R s)"
proof (rule achieves_update_execs)
  fix s t assume row: "the_row i x s e"
  then have "the_row i x (s\<lparr>execs := upd P (\<lambda>r. (f r)\<lparr>ex_updated_at := t\<rparr>) (execs s)\<rparr>)
      ((f e)\<lparr>ex_updated_at := t\<rparr>)"
    using assms(1,2) ids_upd [of f P t "execs s"]
    by (auto simp: the_row_def is_execution_def in_upd_iff intro!: bexI [of _ e])
  with assms(2,3) row
  show "0 < hits P (execs s) \<and> R (s\<lparr>execs := upd P (\<lambda>r. (f r)\<lparr>ex_updated_at := t\<rparr>) (execs s)\<rparr>)"
    by (auto simp: hits_pos the_row_def)
qed

definition ended :: "int \<Rightarrow> int \<Rightarrow> sched_db \<Rightarrow> bool" where
  "ended i x s \<longleftrightarrow> (\<exists>e. the_row i x s e \<and> terminal_execution e)"

lemma ended_other [simp]:
  "ended i x (s\<lparr>tasks := rs\<rparr>) = ended i x s" "ended i x (s\<lparr>outbox := evs\<rparr>) = ended i x s"
  by (simp_all add: ended_def)

text \<open>The end of one row survives the promotion of another.\<close>

lemma ended_stable:
  assumes "\<And>r. P r \<Longrightarrow> \<not> terminal_execution r" and "\<And>r. ex_id (f r) = ex_id r"
  shows "stable (ended i x) (update_execs P f)"
proof -
  have "ended i x (s\<lparr>execs := upd P (\<lambda>r. (f r)\<lparr>ex_updated_at := t\<rparr>) (execs s)\<rparr>)"
    if "ended i x s" for s t
  proof -
    from that obtain e where e: "the_row i x s e" "terminal_execution e" by (auto simp: ended_def)
    with assms(1) have "\<not> P e" by blast
    with e ids_upd [of f P t "execs s", OF assms(2)]
    have "the_row i x (s\<lparr>execs := upd P (\<lambda>r. (f r)\<lparr>ex_updated_at := t\<rparr>) (execs s)\<rparr>) e"
      by (auto simp: the_row_def in_upd_iff intro!: bexI [of _ e])
    with e(2) show ?thesis by (auto simp: ended_def)
  qed
  then show ?thesis unfolding update_execs_def by (intro stable_intros stable_modify) auto
qed

lemmas ended_elsewhere = stable_tasks_only [of "ended i x" for i x, simplified]
  stable_outbox_only [of "ended i x" for i x, simplified]

lemma ended_finish_task: "stable (ended i x) (finish_task E opts req ex t task)"
proof -
  have "stable (ended i x) (CancelWaitingByTask j t' msg)" "stable (ended i x) (TryPromoteWaiting e t' l)"
    for j t' msg e l
    unfolding CancelWaitingByTask_def TryPromoteWaiting_def
    by (auto intro!: stable_intros ended_stable simp: terminal_execution_def)
  then show ?thesis
    unfolding finish_task_def promoteWaitingAfterCompletion_def promoteWaitingExecution_def
      createExecutionFinishedOutbox_def Let_def
    by (auto intro!: stable_intros ended_elsewhere split: sum.split option.split)
qed

section \<open>A timeout ends its execution\<close>

lemma achieves_read_row:
  assumes "ex_task_id e = i" "ex_id e = x"
  shows "achieves (\<lambda>s. the_row i x s e) (ExecGetByID i x) (\<lambda>_ s. the_row i x s e)"
proof -
  have "\<exists>r. first_row (\<lambda>e. ex_task_id e = i \<and> ex_id e = x) (execs s) = Some r" if "the_row i x s e" for s
    using that assms first_row_None [of "\<lambda>e. ex_task_id e = i \<and> ex_id e = x" "execs s"]
    by (cases "first_row (\<lambda>e. ex_task_id e = i \<and> ex_id e = x) (execs s)") (auto simp: the_row_def)
  then show ?thesis
    unfolding ExecGetByID_def achieves_def by (fastforce simp: calm_simps found_def)
qed

lemma achieves_read_task:
  "achieves P (attempt (TaskGetByID i)) (\<lambda>r s. P s \<and> (\<forall>err. r = Inl err \<longrightarrow> err = ErrRecordNotFound))"
  unfolding achieves_def TaskGetByID_def by (auto simp: calm_simps found_def split: option.split)

lemma achieves_timeout:
  assumes "active_status (ex_status e)" and "ex_task_id e = i" "ex_id e = x"
    and "is_execution i x ex" and "t \<noteq> 0"
  shows "achieves (\<lambda>s. the_row i x s e) (timeoutExecution E opts ex t msg) (\<lambda>_. ended i x)"
proof -
  let ?req = "timeout_request ex t msg"
  have req: "mf_task_id ?req = i" "mf_execution_id ?req = x" "mf_status ?req = ExecTimeout"
    "mf_finished_at ?req = t"
    using assms(4) by (simp_all add: timeout_request_def is_execution_def)
  have fin: "achieves (\<lambda>s. the_row i x s e) (TryFinish i x (finish_updates ?req t)) (\<lambda>ok s. ok \<and> ended i x s)"
    unfolding TryFinish_def
  proof (rule update_the_row)
    fix s t' assume "the_row i x s ((finish_updates ?req t e)\<lparr>ex_updated_at := t'\<rparr>)"
    then show "ended i x s"
      unfolding ended_def
      by (intro exI conjI, assumption)
        (simp add: terminal_execution_def finish_updates_def req Let_def active_status_def)
  qed (use assms in \<open>auto simp: finish_updates_def Let_def\<close>)
  have last: "achieves (\<lambda>s. ended i x s \<and> (\<forall>err. r = Inl err \<longrightarrow> err = ErrRecordNotFound))
      (case r of Inl err \<Rightarrow> if err = ErrRecordNotFound then createExecutionFinishedOutbox ?req a t else fail err
       | Inr task \<Rightarrow> finish_task E opts ?req a t task) (\<lambda>_. ended i x)" for r a
  proof (cases r)
    case (Inl err)
    have "achieves (ended i x) (createExecutionFinishedOutbox ?req a t) (\<lambda>_. ended i x)"
      unfolding createExecutionFinishedOutbox_def by (rule achieves_OutboxCreate) simp
    with Inl show ?thesis
      by (cases "err = ErrRecordNotFound") (auto simp: achieves_def)
  next
    case (Inr task)
    have "achieves (\<lambda>s. True \<and> ended i x s) (finish_task E opts ?req a t task) (\<lambda>_ s. True \<and> ended i x s)"
      by (rule achieves_conj [OF achieves_finish_task keeps_stable [OF ended_finish_task]])
    with Inr show ?thesis by (simp add: achieves_pre)
  qed
  have body: "achieves (\<lambda>s. the_row i x s e) (andThen (ExecGetByID i x) (\<lambda>a.
      andThen (TryFinish i x (finish_updates ?req t)) (\<lambda>ok.
      andThen (require ErrInvalidTaskStatus ok) (\<lambda>_.
      andThen (attempt (TaskGetByID i)) (\<lambda>r.
        case r of Inl err \<Rightarrow> if err = ErrRecordNotFound then createExecutionFinishedOutbox ?req a t else fail err
        | Inr task \<Rightarrow> finish_task E opts ?req a t task))))) (\<lambda>_. ended i x)"
    by (rule achieves_andThen [OF achieves_read_row [OF assms(2,3)]], rule achieves_checked [OF fin],
        rule achieves_andThen [OF achieves_read_task], rule last)
  have "MarkExecutionFinished E opts ?req = tx ErrDB (andThen (ExecGetByID i x) (\<lambda>a.
      andThen (TryFinish i x (finish_updates ?req t)) (\<lambda>ok.
      andThen (require ErrInvalidTaskStatus ok) (\<lambda>_.
      andThen (attempt (TaskGetByID i)) (\<lambda>r.
        case r of Inl err \<Rightarrow> if err = ErrRecordNotFound then createExecutionFinishedOutbox ?req a t else fail err
        | Inr task \<Rightarrow> finish_task E opts ?req a t task)))))"
    using assms(5)
    by (simp add: MarkExecutionFinished_def req time_or_now_def GetByIDForUpdate_def)
      (simp add: andThen_def ret_def)
  with achieves_tx [OF body] have "achieves (\<lambda>s. the_row i x s e) (MarkExecutionFinished E opts ?req)
      (\<lambda>_. ended i x)" by simp
  then show ?thesis
    unfolding timeoutExecution_def
    by (intro achieves_andThen [OF achieves_attempt [where Q = "\<lambda>r s. r = Inr () \<and> ended i x s"]])
      (auto simp: achieves_def ret_def split: sum.split)
qed

section \<open>Progress of a recovery pass\<close>

text \<open>
  What is left of an active execution: the dispatch attempts of a queued one, the heartbeat
  misses of a running one. A pass makes progress when it ends the execution or lowers the rank.
\<close>

definition recovery_rank :: "options \<Rightarrow> timer_execution \<Rightarrow> nat" where
  "recovery_rank opts e =
     (if ex_status e = ExecQueued then nat (op_max_dispatch_attempts opts - ex_attempt e)
      else nat (op_max_heartbeat_misses opts - ex_heartbeat_misses e))"

text \<open>At most \<open>k\<close> rounds are left of the row, and its lease ends by \<open>b\<close>.\<close>

definition recovered :: "options \<Rightarrow> int \<Rightarrow> int \<Rightarrow> int \<Rightarrow> nat \<Rightarrow> sched_db \<Rightarrow> bool" where
  "recovered opts i x b k s \<longleftrightarrow> (\<exists>e. the_row i x s e \<and>
     (terminal_execution e \<or>
      active_status (ex_status e) \<and> recovery_rank opts e < k \<and> (\<exists>l \<le> b. ex_lease_until e = Some l)))"

lemma recoveredI:
  "the_row i x s e \<Longrightarrow> active_status (ex_status e) \<Longrightarrow> ex_lease_until e = Some l \<Longrightarrow> l \<le> b \<Longrightarrow>
     recovery_rank opts e < k \<Longrightarrow> recovered opts i x b k s"
  by (auto simp: recovered_def)

lemma recovered_ended: "ended i x s \<Longrightarrow> recovered opts i x b k s"
  by (auto simp: ended_def recovered_def)

lemma recovered_outbox [simp]: "recovered opts i x b k (s\<lparr>outbox := evs\<rparr>) = recovered opts i x b k s"
  by (simp add: recovered_def)

text \<open>The longest lease a recovery hands out, from the instant of the pass on.\<close>

definition recovery_gap :: "options \<Rightarrow> int" where
  "recovery_gap opts = max (op_queue_ack_timeout opts) (op_execution_lease opts)"

lemma recovery_gap_leases:
  "op_queue_ack_timeout opts \<le> recovery_gap opts" "op_execution_lease opts \<le> recovery_gap opts"
  by (simp_all add: recovery_gap_def)

lemma achieves_orphan:
  assumes "active_status (ex_status e)" and "is_execution i x ex" and "is_execution i x e"
  shows "achieves (\<lambda>s. the_row i x s e) (timeoutOrphanExecution ex t msg) (\<lambda>_. ended i x)"
proof -
  let ?f = "\<lambda>e. e\<lparr>ex_status := ExecTimeout, ex_finished_at := Some t,
      ex_duration_millis := elapsed_millis ex t, ex_error_message := trim_space msg,
      ex_lease_until := None\<rparr>"
  have fin: "achieves (\<lambda>s. the_row i x s e) (TryFinish (ex_task_id ex) (ex_id ex) ?f) (\<lambda>ok s. ok \<and> ended i x s)"
    unfolding TryFinish_def
  proof (rule update_the_row)
    fix s t' assume "the_row i x s ((?f e)\<lparr>ex_updated_at := t'\<rparr>)"
    then show "ended i x s"
      unfolding ended_def
      by (intro exI conjI, assumption) (simp add: terminal_execution_def active_status_def)
  qed (use assms in \<open>auto simp: is_execution_def\<close>)
  show ?thesis
    unfolding timeoutOrphanExecution_def
    by (rule achieves_andThen [OF fin], rule achieves_pre [OF achieves_require]) simp
qed

lemma achieves_requeue:
  assumes "ex_status e = ExecQueued" and "is_execution i x e"
    and "lease_expired (ex_lease_until e) t" and "ex_attempt e < op_max_dispatch_attempts opts"
  shows "achieves (\<lambda>s. the_row i x s e) (requeueExecution opts e t)
    (\<lambda>_. recovered opts i x (t + recovery_gap opts) (recovery_rank opts e))"
proof -
  have requeue: "achieves (\<lambda>s. the_row i x s e) (TryRequeueQueued e t l)
      (\<lambda>ok s. ok \<and> recovered opts i x (t + recovery_gap opts) (recovery_rank opts e) s)"
    if L: "l = t + op_queue_ack_timeout opts" for l
    unfolding TryRequeueQueued_def
  proof (rule update_the_row)
    fix s t' assume "the_row i x s ((e\<lparr>ex_attempt := ex_attempt e + 1, ex_lease_until := Some l,
        ex_last_dispatched_at := Some t\<rparr>)\<lparr>ex_updated_at := t'\<rparr>)"
    then show "recovered opts i x (t + recovery_gap opts) (recovery_rank opts e) s"
      by (rule recoveredI [where l = l]) (use assms L recovery_gap_leases [of opts] in \<open>simp_all add: recovery_rank_def active_status_def\<close>)
  qed (use assms in \<open>auto simp: is_execution_def\<close>)
  have orphan: "achieves (\<lambda>s. the_row i x s e) (timeoutOrphanExecution e t msg)
      (\<lambda>_. recovered opts i x (t + recovery_gap opts) (recovery_rank opts e))" for msg
    using assms by (intro achieves_post [OF achieves_orphan] recovered_ended) (auto simp: active_status_def)
  have branch: "achieves (\<lambda>s. the_row i x s e \<and> (\<forall>err. r = Inl err \<longrightarrow> err = ErrRecordNotFound))
      (case r of
         Inl err \<Rightarrow> if err = ErrRecordNotFound then timeoutOrphanExecution e t msg else fail err
       | Inr task \<Rightarrow> andThen (TryRequeueQueued e t (t + op_queue_ack_timeout opts)) (\<lambda>ok.
            andThen (require ErrInvalidTaskStatus ok) (\<lambda>_. OutboxCreate (ev task))))
      (\<lambda>_. recovered opts i x (t + recovery_gap opts) (recovery_rank opts e))" for r msg ev
  proof (cases r)
    case (Inl err)
    then show ?thesis using achieves_pre [OF orphan]
      by (cases "err = ErrRecordNotFound") (auto simp: achieves_def)
  next
    case (Inr task)
    then show ?thesis
      by simp (rule achieves_checked [OF requeue [OF refl]], rule achieves_OutboxCreate, simp)
  qed
  show ?thesis
    unfolding requeueExecution_def
    by (rule achieves_tx, rule achieves_andThen [OF achieves_read_task], rule branch)
qed

lemma achieves_miss:
  assumes "ex_status e = ExecRunning" and "is_execution i x e"
    and "lease_expired (ex_lease_until e) t" and "ex_heartbeat_misses e + 1 < op_max_heartbeat_misses opts"
  shows "achieves (\<lambda>s. the_row i x s e) (TryRecordHeartbeatMiss e t (t + op_execution_lease opts) (ex_heartbeat_misses e + 1))
    (\<lambda>ok s. ok \<and> recovered opts i x (t + recovery_gap opts) (recovery_rank opts e) s)"
  unfolding TryRecordHeartbeatMiss_def
proof (rule update_the_row)
  fix s t' assume "the_row i x s ((e\<lparr>ex_heartbeat_misses := ex_heartbeat_misses e + 1,
      ex_lease_until := Some (t + op_execution_lease opts)\<rparr>)\<lparr>ex_updated_at := t'\<rparr>)"
  then show "recovered opts i x (t + recovery_gap opts) (recovery_rank opts e) s"
    by (rule recoveredI [where l = "t + op_execution_lease opts"]) (use assms recovery_gap_leases [of opts] in \<open>simp_all add: recovery_rank_def active_status_def\<close>)
qed (use assms in \<open>auto simp: is_execution_def\<close>)

lemma recover_action_progress:
  assumes "active_status (ex_status e)" and "lease_expired (ex_lease_until e) t"
    and "is_execution i x e" and "t \<noteq> 0"
  shows "achieves (\<lambda>s. the_row i x s e) (recover_action E opts t e)
    (\<lambda>handled s. handled \<and> recovered opts i x (t + recovery_gap opts) (recovery_rank opts e) s)"
proof -
  have timeout: "achieves (\<lambda>s. the_row i x s e) (andThen (timeoutExecution E opts e t msg) (\<lambda>_. ret True))
      (\<lambda>handled s. handled \<and> recovered opts i x (t + recovery_gap opts) (recovery_rank opts e) s)" for msg
    using assms(1,3,4)
    by (intro achieves_andThen [OF achieves_timeout] achieves_ret)
      (auto simp: is_execution_def intro: recovered_ended)
  show ?thesis
  proof (cases "ex_status e = ExecQueued")
    case True
    then show ?thesis
      using timeout achieves_requeue [OF True assms(3,2)]
      by (auto simp: recover_action_def intro: achieves_andThen achieves_ret)
  next
    case False
    with assms(1) have "ex_status e = ExecRunning" by (simp add: active_status_def)
    with timeout achieves_miss [OF this assms(3,2)] show ?thesis
      by (simp add: recover_action_def handleExpiredRunningExecution_def Let_def)
  qed
qed

section \<open>The other rows of a pass\<close>

text \<open>Without a pending fault none appears.\<close>

definition calm :: "('s, 'e, 'a) act \<Rightarrow> bool" where
  "calm m \<longleftrightarrow> (\<forall>w. faults w = [] \<longrightarrow> faults (snd (m w)) = [])"

named_theorems calm_intros

lemma calm_basic [calm_intros]:
  "calm (ret a)" "calm (fail e)" "calm now" "calm (next_id n)" "calm (require e ok)" "calm (found r)"
  by (auto simp: calm_def ret_def fail_def now_def next_id_def require_def found_def split: option.split)

lemma calm_stmt [calm_intros]: "calm (stmt e f)"
  by (auto simp: calm_def stmt_def next_fails_def split: prod.split)

lemma calm_query [calm_intros]: "calm (query e g)" and calm_modify [calm_intros]: "calm (modify e h)"
  by (simp_all add: query_def modify_def calm_stmt)

lemma calm_andThen [calm_intros]: "calm m \<Longrightarrow> (\<And>a. calm (k a)) \<Longrightarrow> calm (andThen m k)"
  by (auto simp: calm_def andThen_def split: prod.split sum.split)

lemma calm_attempt [calm_intros]: "calm m \<Longrightarrow> calm (attempt m)"
  by (auto simp: calm_def attempt_def split: prod.split)

lemma calm_tx [calm_intros]: "calm m \<Longrightarrow> calm (tx e m)"
  by (auto simp: calm_def tx_def split: prod.split sum.split)

lemma calm_only_if [calm_intros]: "calm m \<Longrightarrow> calm (only_if b m)"
  by (simp add: only_if_def calm_basic)

lemma calm_fold [calm_intros]: "(\<And>x acc. calm (f x acc)) \<Longrightarrow> calm (fold_act f xs acc)"
  by (induction xs arbitrary: acc) (auto intro!: calm_intros)

lemma calm_updates [calm_intros]:
  "calm (update_tasks P f)" "calm (update_execs Q g)" "calm (OutboxCreate ev)"
  unfolding update_tasks_def update_execs_def OutboxCreate_def by (intro calm_intros)+

lemma calm_finish: "calm (MarkExecutionFinished E opts req)"
  unfolding MarkExecutionFinished_def time_or_now_def ExecGetByID_def TryFinish_def GetByIDForUpdate_def
    TaskGetByID_def finish_task_def createExecutionFinishedOutbox_def TryCompleteExecution_def
    CancelWaitingByTask_def promoteWaitingAfterCompletion_def promoteWaitingExecution_def GetActiveState_def
    SetInflightReference_def TryPromoteWaiting_def LatestActiveExecutionID_def Let_def
  by (auto intro!: calm_intros split: sum.split option.split prod.split)

lemma calm_recover_one: "calm (recover_one E opts t r acc)"
proof -
  have orphan: "calm (timeoutOrphanExecution r t msg)" for msg
    unfolding timeoutOrphanExecution_def TryFinish_def by (intro calm_intros)
  have "calm (timeoutExecution E opts r t msg)" for msg
    unfolding timeoutExecution_def by (auto intro!: calm_intros calm_finish orphan split: sum.split)
  moreover have "calm (requeueExecution opts r t)"
    unfolding requeueExecution_def TaskGetByID_def TryRequeueQueued_def
    by (auto intro!: calm_intros orphan split: sum.split)
  ultimately show ?thesis
    unfolding recover_one_def recover_action_def handleExpiredRunningExecution_def TryRecordHeartbeatMiss_def Let_def
    by (auto intro!: calm_intros split: sum.split)
qed

lemma calm_broken: "calm (recoverBrokenInflightReferences limit)"
  unfolding recoverBrokenInflightReferences_def ListBrokenInflightReferences_def clear_broken_one_def TryClearInflight_def
  by (auto intro!: calm_intros split: sum.split)

text \<open>A row no guard of an update matches stays what it is.\<close>

lemma the_row_stable:
  assumes "\<not> P e" and "\<And>r. ex_id (f r) = ex_id r"
  shows "stable (\<lambda>s. the_row i x s e) (update_execs P f)"
proof -
  have "the_row i x (s\<lparr>execs := upd P (\<lambda>r. (f r)\<lparr>ex_updated_at := t\<rparr>) (execs s)\<rparr>) e"
    if "the_row i x s e" for s t
    using that assms(1) ids_upd [of f P t "execs s", OF assms(2)]
    by (auto simp: the_row_def in_upd_iff intro!: bexI [of _ e])
  then show ?thesis unfolding update_execs_def by (intro stable_intros stable_modify) auto
qed

text \<open>How many executions are not over: recovery ends some and starts none.\<close>

definition unfinished :: "sched_db \<Rightarrow> nat" where
  "unfinished s = hits (\<lambda>e. \<not> terminal_execution e) (execs s)"

lemma unfinished_stable:
  assumes "\<And>r. P r \<Longrightarrow> \<not> terminal_execution r"
  shows "stable (\<lambda>s. unfinished s \<le> n) (update_execs P f)"
proof -
  have "unfinished (s\<lparr>execs := upd P g (execs s)\<rparr>) \<le> n" if "unfinished s \<le> n" for s g
  proof -
    have "unfinished (s\<lparr>execs := upd P g (execs s)\<rparr>) \<le> unfinished s"
      unfolding unfinished_def by (simp, rule hits_upd_le) (rule assms)
    with that show ?thesis by simp
  qed
  then show ?thesis unfolding update_execs_def by (intro stable_intros stable_modify) auto
qed

text \<open>
  An invariant of the repository's guarded updates is one of a whole recovery of the row \<open>r\<close>: the
  updates go to the active row \<open>r\<close> itself and to waiting rows.
\<close>

lemma recover_one_stable:
  fixes I :: "sched_db \<Rightarrow> bool"
  assumes upd: "\<And>P f. (\<And>e. P e \<Longrightarrow> \<not> terminal_execution e \<and>
      (ex_status e = ExecWaiting \<or> is_execution (ex_task_id r) (ex_id r) e)) \<Longrightarrow>
      (\<And>e. ex_id (f e) = ex_id e) \<Longrightarrow> stable I (update_execs P f)"
    and others [simp]: "\<And>s rs. I (s\<lparr>tasks := rs\<rparr>) = I s" "\<And>s evs. I (s\<lparr>outbox := evs\<rparr>) = I s"
  shows "stable I (recover_one E opts t r acc)"
proof -
  note elsewhere = stable_tasks_only [of I, simplified] stable_outbox_only [of I, simplified]
  have here: "stable I (CancelWaitingByTask j t' msg)" "stable I (TryPromoteWaiting e t' l)"
    "stable I (TryRequeueQueued r t' l)" "stable I (TryRecordHeartbeatMiss r t' l m)" for j t' msg e l m
    unfolding CancelWaitingByTask_def TryPromoteWaiting_def TryRequeueQueued_def TryRecordHeartbeatMiss_def
    by (auto intro!: stable_intros upd simp: terminal_execution_def active_status_def is_execution_def)
  have fin: "stable I (TryFinish (ex_task_id r) (ex_id r) f)" if "\<And>e. ex_id (f e) = ex_id e" for f
    unfolding TryFinish_def by (rule upd) (auto simp: that terminal_execution_def is_execution_def)
  have orphan: "stable I (timeoutOrphanExecution r t' msg)" for t' msg
    unfolding timeoutOrphanExecution_def by (auto intro!: stable_intros fin)
  have "stable I (MarkExecutionFinished E opts (timeout_request r t' msg))" for t' msg
    unfolding MarkExecutionFinished_def timeout_request_def time_or_now_def ExecGetByID_def GetByIDForUpdate_def
      TaskGetByID_def finish_task_def createExecutionFinishedOutbox_def promoteWaitingAfterCompletion_def
      promoteWaitingExecution_def GetActiveState_def LatestActiveExecutionID_def Let_def
    by (auto intro!: stable_intros fin here elsewhere split: sum.split option.split prod.split
        simp: finish_updates_def Let_def)
  then have "stable I (timeoutExecution E opts r t' msg)" for t' msg
    unfolding timeoutExecution_def by (auto intro!: stable_intros orphan split: sum.split)
  moreover have "stable I (requeueExecution opts r t')" for t'
    unfolding requeueExecution_def TaskGetByID_def
    by (auto intro!: stable_intros orphan here elsewhere split: sum.split)
  ultimately show ?thesis
    unfolding recover_one_def recover_action_def handleExpiredRunningExecution_def Let_def
    by (auto intro!: stable_intros here split: sum.split)
qed

lemma recover_others:
  assumes "\<not> is_execution i x r"
  shows "stable (recovered opts i x b k) (recover_one E opts t r acc)"
proof -
  have "stable (\<lambda>s. the_row i x s e) (recover_one E opts t r acc)" if "ex_status e \<noteq> ExecWaiting" "is_execution i x e" for e
  proof (rule recover_one_stable)
    fix P :: "timer_execution \<Rightarrow> bool" and f :: "timer_execution \<Rightarrow> timer_execution"
    assume P: "\<And>e. P e \<Longrightarrow> \<not> terminal_execution e \<and>
        (ex_status e = ExecWaiting \<or> is_execution (ex_task_id r) (ex_id r) e)" and f: "\<And>e. ex_id (f e) = ex_id e"
    have "\<not> P e" using P [of e] that assms by (auto simp: is_execution_def)
    then show "stable (\<lambda>s. the_row i x s e) (update_execs P f)" using f by (rule the_row_stable)
  qed simp_all
  then have row: "stable (\<lambda>s. the_row i x s e) (recover_one E opts t r acc)"
    if "terminal_execution e \<or> active_status (ex_status e)" "is_execution i x e" for e
    using that by (auto simp: terminal_execution_def active_status_def)
  show ?thesis
    unfolding stable_def
  proof (intro allI impI)
    fix w :: "sched_db world" assume "recovered opts i x b k (store w)"
    then obtain e where e: "the_row i x (store w) e" "terminal_execution e \<or> active_status (ex_status e) \<and>
        recovery_rank opts e < k \<and> (\<exists>l \<le> b. ex_lease_until e = Some l)" by (auto simp: recovered_def)
    then have "the_row i x (store (snd (recover_one E opts t r acc w))) e"
      using row [of e] by (auto simp: the_row_def stable_def)
    with e(2) show "recovered opts i x b k (store (snd (recover_one E opts t r acc w)))"
      by (auto simp: recovered_def)
  qed
qed

lemma recover_others_row:
  assumes "\<not> is_execution i x r" and "active_status (ex_status e)" and "is_execution i x e"
  shows "stable (\<lambda>s. the_row i x s e) (recover_one E opts t r acc)"
proof (rule recover_one_stable)
  fix P :: "timer_execution \<Rightarrow> bool" and f :: "timer_execution \<Rightarrow> timer_execution"
  assume P: "\<And>e. P e \<Longrightarrow> \<not> terminal_execution e \<and>
      (ex_status e = ExecWaiting \<or> is_execution (ex_task_id r) (ex_id r) e)" and f: "\<And>e. ex_id (f e) = ex_id e"
  have "\<not> P e" using P [of e] assms by (auto simp: is_execution_def active_status_def)
  then show "stable (\<lambda>s. the_row i x s e) (update_execs P f)" using f by (rule the_row_stable)
qed simp_all

lemma recover_ended: "stable (ended i x) (recover_one E opts t r acc)"
  by (rule recover_one_stable) (auto intro!: ended_stable)

lemma recover_unfinished: "stable (\<lambda>s. unfinished s \<le> n) (recover_one E opts t r acc)"
  by (rule recover_one_stable, rule unfinished_stable) (simp_all add: unfinished_def)

section \<open>One pass over all the rows\<close>

lemma recover_one_answers: "\<exists>a w'. recover_one E opts t r acc w = (Inr a, w')"
  by (auto simp: recover_one_def andThen_def attempt_def ret_def split: prod.split sum.split)

lemma recover_own_row:
  assumes "the_row i x (store w) e" and "active_status (ex_status e)" and "lease_expired (ex_lease_until e) t"
    and "0 < t" and "faults w = []"
  shows "recovered opts i x (t + recovery_gap opts) (recovery_rank opts e) (store (snd (recover_one E opts t e acc w)))"
proof -
  have "is_execution i x e" using assms(1) by (simp add: the_row_def)
  then have "achieves (\<lambda>s. the_row i x s e) (recover_action E opts t e)
      (\<lambda>handled s. handled \<and> recovered opts i x (t + recovery_gap opts) (recovery_rank opts e) s)"
    using assms(2-4) by (intro recover_action_progress) auto
  then obtain b w' where "recover_action E opts t e w = (Inr b, w')"
    "recovered opts i x (t + recovery_gap opts) (recovery_rank opts e) (store w')"
    by (rule achievesD [of _ _ _ w]) (use assms(1,5) in auto)
  then show ?thesis by (simp add: recover_one_def andThen_def attempt_def ret_def)
qed

lemma recover_rows:
  assumes "the_row i x (store w) e" and "active_status (ex_status e)" and "lease_expired (ex_lease_until e) t"
    and "0 < t" and "faults w = []" and "e \<in> set rs" and "distinct (map ex_id rs)"
  shows "recovered opts i x (t + recovery_gap opts) (recovery_rank opts e)
    (store (snd (fold_act (recover_one E opts t) rs acc w)))"
  using assms
proof (induction rs arbitrary: acc w)
  case (Cons r rs)
  let ?goal = "recovered opts i x (t + recovery_gap opts) (recovery_rank opts e)"
  obtain acc' w' where run: "recover_one E opts t r acc w = (Inr acc', w')" using recover_one_answers by blast
  have own: "is_execution i x e" using Cons.prems(1) by (simp add: the_row_def)
  show ?case
  proof (cases "r = e")
    case True
    have others: "\<not> is_execution i x r'" if "r' \<in> set rs" for r'
      using Cons.prems(7) True own that by (auto simp: is_execution_def image_iff)
    have "stable ?goal (fold_act (recover_one E opts t) rs acc')"
      using others by (induction rs arbitrary: acc') (simp_all add: stable_ret stable_andThen recover_others)
    moreover have "?goal (store w')"
      using recover_own_row [OF Cons.prems(1-5), of opts E acc] run True by simp
    ultimately show ?thesis using run by (simp add: andThen_def stable_def)
  next
    case False
    with Cons.prems(6,7) have "e \<in> set rs" "ex_id r \<noteq> ex_id e" by auto
    with own have other: "\<not> is_execution i x r" by (auto simp: is_execution_def)
    have "the_row i x (store w') e"
      using stableD [OF recover_others_row [OF other Cons.prems(2) own] Cons.prems(1) run] .
    moreover have "faults w' = []"
      using calm_recover_one [of E opts t r acc] run Cons.prems(5) by (auto simp: calm_def dest: spec [of _ w])
    ultimately have "?goal (store (snd (fold_act (recover_one E opts t) rs acc' w')))"
      using Cons.prems \<open>e \<in> set rs\<close> by (intro Cons.IH) auto
    with run show ?thesis by (simp add: andThen_def)
  qed
qed simp

lemma limit_rows_all: "limit \<le> 0 \<or> int (length xs) \<le> limit \<Longrightarrow> limit_rows limit xs = xs"
  by (auto simp: limit_rows_def)

text \<open>The rows a pass at time \<open>t\<close> works through.\<close>

definition stale_rows :: "int \<Rightarrow> int \<Rightarrow> sched_db \<Rightarrow> timer_execution list" where
  "stale_rows t limit s = limit_rows limit (order2 (\<lambda>e. the_default_int (ex_lease_until e)) ex_id
     (sel (\<lambda>e. active_status (ex_status e) \<and> lease_expired (ex_lease_until e) t) (execs s)))"

definition fits :: "int \<Rightarrow> sched_db \<Rightarrow> bool" where
  "fits limit s \<longleftrightarrow> limit \<le> 0 \<or> int (unfinished s) \<le> limit"

lemma stale_rows_has:
  assumes "the_row i x s e" and "active_status (ex_status e)" and "lease_expired (ex_lease_until e) t" and "fits limit s"
  shows "e \<in> set (stale_rows t limit s)" "distinct (map ex_id (stale_rows t limit s))"
proof -
  let ?rows = "sel (\<lambda>e. active_status (ex_status e) \<and> lease_expired (ex_lease_until e) t) (execs s)"
  have "length ?rows \<le> unfinished s"
    unfolding unfinished_def sel_def hits_def [symmetric]
    by (rule hits_mono) (simp add: terminal_execution_def)
  with assms(4) have rows: "stale_rows t limit s = order2 (\<lambda>e. the_default_int (ex_lease_until e)) ex_id ?rows"
    unfolding stale_rows_def by (intro limit_rows_all) (auto simp: fits_def order2_def)
  show "e \<in> set (stale_rows t limit s)" "distinct (map ex_id (stale_rows t limit s))"
    using assms(1-3) by (simp_all add: rows order2_def the_row_def sel_def distinct_map inj_on_def)
qed

lemma recovery_pass_run:
  assumes "faults w = []"
  shows "\<exists>acc w'. fold_act (recover_one E opts (clock w)) (stale_rows (clock w) limit (store w)) (0, []) w = (Inr acc, w') \<and>
    snd (RecoverStaleExecutions E opts limit w) = snd (recoverBrokenInflightReferences limit w')"
proof -
  have "\<exists>a v'. fold_act (recover_one E opts t) rs acc v = (Inr a, v')" for t rs acc v
  proof (induction rs arbitrary: acc v)
    case (Cons r rs)
    then show ?case using recover_one_answers [of E opts t r acc v] by (auto simp: andThen_def)
  qed (simp add: ret_def)
  then obtain acc w' where "fold_act (recover_one E opts (clock w)) (stale_rows (clock w) limit (store w)) (0, []) w = (Inr acc, w')"
    by blast
  with assms show ?thesis
    by (auto simp: RecoverStaleExecutions_def ListStale_def stale_rows_def andThen_def now_def query_calm ret_def
        split: prod.split sum.split)
qed

lemma pass_stable:
  assumes "\<And>r acc. stable I (recover_one E opts (clock w) r acc)" and "\<And>s rs. I (s\<lparr>tasks := rs\<rparr>) = I s"
    and "faults w = []" and "I (store w)"
  shows "I (store (snd (RecoverStaleExecutions E opts limit w)))"
proof -
  have "stable I (recoverBrokenInflightReferences limit)"
    unfolding recoverBrokenInflightReferences_def ListBrokenInflightReferences_def clear_broken_one_def
    by (auto intro!: stable_intros stable_tasks_only simp: assms(2) split: sum.split)
  moreover have "stable I (fold_act (recover_one E opts (clock w)) rows acc)" for rows acc
    by (intro stable_intros assms(1))
  ultimately show ?thesis
    using recovery_pass_run [OF assms(3), of E opts limit] assms(4) by (auto simp: stable_def) (metis snd_conv)
qed

lemma pass_calm: "faults w = [] \<Longrightarrow> faults (snd (RecoverStaleExecutions E opts limit w)) = []"
proof -
  have "calm (RecoverStaleExecutions E opts limit)"
    unfolding RecoverStaleExecutions_def ListStale_def by (intro calm_intros calm_recover_one calm_broken)
  then show "faults w = [] \<Longrightarrow> faults (snd (RecoverStaleExecutions E opts limit w)) = []" by (simp add: calm_def)
qed

lemma recovery_pass:
  assumes "recovered opts i x b k (store w)" and "b < clock w" and "0 < clock w" and "faults w = []"
    and "fits limit (store w)"
  shows "recovered opts i x (clock w + recovery_gap opts) (k - 1) (store (snd (RecoverStaleExecutions E opts limit w)))"
proof -
  let ?w' = "snd (RecoverStaleExecutions E opts limit w)"
  from assms(1) obtain e where e: "the_row i x (store w) e" "terminal_execution e \<or> active_status (ex_status e) \<and>
      recovery_rank opts e < k \<and> (\<exists>l \<le> b. ex_lease_until e = Some l)" by (auto simp: recovered_def)
  show ?thesis
  proof (cases "terminal_execution e")
    case True
    with e(1) have "ended i x (store w)" by (auto simp: ended_def)
    then have "ended i x (store ?w')" by (rule pass_stable [OF recover_ended _ assms(4), rotated]) simp
    then show ?thesis by (rule recovered_ended)
  next
    case False
    with e(2) assms(2) have act: "active_status (ex_status e)" "lease_expired (ex_lease_until e) (clock w)"
      and rank: "recovery_rank opts e < k" by (auto simp: lease_expired_def)
    let ?I = "recovered opts i x (clock w + recovery_gap opts) (k - 1)"
    obtain acc v where v: "fold_act (recover_one E opts (clock w)) (stale_rows (clock w) limit (store w)) (0, []) w = (Inr acc, v)"
      "?w' = snd (recoverBrokenInflightReferences limit v)"
      using recovery_pass_run [OF assms(4)] by blast
    have "recovered opts i x (clock w + recovery_gap opts) (recovery_rank opts e) (store v)"
      using recover_rows [OF e(1) act assms(3,4) stale_rows_has [OF e(1) act assms(5)], of opts E "(0, [])"] v(1) by simp
    with rank have "?I (store v)" by (force simp: recovered_def)
    moreover have "stable ?I (recoverBrokenInflightReferences limit)"
      unfolding recoverBrokenInflightReferences_def ListBrokenInflightReferences_def clear_broken_one_def
      by (auto intro!: stable_intros stable_tasks_only simp: recovered_def split: sum.split)
    ultimately show ?thesis using v(2) by (simp add: stable_def)
  qed
qed

section \<open>Passes in a row\<close>

text \<open>The recovery loop wakes up at the instants \<open>ts\<close>.\<close>

fun recovery_passes ::
  "sched_env \<Rightarrow> options \<Rightarrow> int \<Rightarrow> int list \<Rightarrow> sched_db world \<Rightarrow> sched_db world" where
  "recovery_passes E opts limit [] w = w"
| "recovery_passes E opts limit (t # ts) w =
     recovery_passes E opts limit ts (snd (RecoverStaleExecutions E opts limit (w\<lparr>clock := t\<rparr>)))"

text \<open>Instants that leave every lease time to expire: later than \<open>b\<close>, and then more than \<open>d\<close> apart.\<close>

fun spaced :: "int \<Rightarrow> int \<Rightarrow> int list \<Rightarrow> bool" where
  "spaced d b [] \<longleftrightarrow> True"
| "spaced d b (t # ts) \<longleftrightarrow> b < t \<and> 0 < t \<and> spaced d (t + d) ts"

lemma recovery_passes_end:
  "recovered opts i x b k (store w) \<Longrightarrow> k \<le> length ts \<Longrightarrow> faults w = [] \<Longrightarrow> fits limit (store w) \<Longrightarrow>
     spaced (recovery_gap opts) b ts \<Longrightarrow> ended i x (store (recovery_passes E opts limit ts w))"
proof (induction ts arbitrary: b k w)
  case Nil
  then show ?case by (auto simp: recovered_def ended_def)
next
  case (Cons t ts)
  let ?w = "w\<lparr>clock := t\<rparr>"
  let ?w' = "snd (RecoverStaleExecutions E opts limit ?w)"
  have "recovered opts i x (t + recovery_gap opts) (k - 1) (store ?w')"
    using recovery_pass [of opts i x b k ?w limit E] Cons.prems by simp
  moreover have "fits limit (store ?w')"
  proof (cases "limit \<le> 0")
    case False
    with Cons.prems(4) have "unfinished (store ?w) \<le> nat limit" by (auto simp: fits_def)
    then have "unfinished (store ?w') \<le> nat limit"
      using Cons.prems(3) by (intro pass_stable [OF recover_unfinished]) (simp_all add: unfinished_def)
    with False show ?thesis by (simp add: fits_def)
  qed (simp add: fits_def)
  moreover have "faults ?w' = []" using Cons.prems(3) by (intro pass_calm) simp
  ultimately show ?case using Cons.prems(2,5) by (simp add: Cons.IH)
qed

text \<open>
  C4. An execution nobody works on ends. When the recovery loop runs \<open>RecoverStaleExecutions\<close> over the
  whole table at the instants \<open>ts\<close>, the first after the lease of the execution, the others more than the
  longer of \<open>QueueAckTimeout\<close> and \<open>ExecutionLease\<close> apart, while the database answers, no worker
  reports in between and the limit of a pass (zero or less is none) is not below the number of
  executions that are not over, then more than \<open>recovery_rank\<close> passes end the queued or running
  execution, whatever else they find: the dispatch attempts it has left while queued, the heartbeat
  misses it has left while running, and one more.
\<close>

theorem unattended_execution_ends:
  assumes "the_row i x (store w) e" and "active_status (ex_status e)" and "ex_lease_until e = Some l"
    and "faults w = []" and "fits limit (store w)"
    and "spaced (recovery_gap opts) l ts" and "recovery_rank opts e < length ts"
  shows "ended i x (store (recovery_passes E opts limit ts w))"
  by (rule recovery_passes_end [of opts i x l "length ts"])
    (use assms in \<open>auto intro: recoveredI\<close>)

theorem unattended_execution_ends_witness:
  "ended 7 3 (store (recovery_passes sample_env sample_options 50
     (map (\<lambda>k. int (k + 1) * 10 * minute) [0..<30]) sample_world))"
  by (rule unattended_execution_ends [where e = sample_exec and l = 90])
    (simp_all add: the_row_def sample_world_def sample_db_def sample_exec_def is_execution_def upt_rec
      active_status_def recovery_rank_def recovery_gap_def sample_options_def fits_def unfinished_def hits_def
      terminal_execution_def)

end
