(* ===== verification/SchedOutboxProps.thy ===== *)
theory SchedOutboxProps
  imports SchedInvariants
begin

text \<open>
  The outbox publisher and the queries: an event marked published was handed to the broker, a
  failing event is retried a bounded number of times, a page is never longer than a hundred rows,
  and what the resource prefix of a listing matches.
\<close>

section \<open>Publishing\<close>

text \<open>Every published event was handed over.\<close>

definition published_delivered :: "sched_db \<Rightarrow> bool" where
  "published_delivered s \<longleftrightarrow>
     list_all (\<lambda>o'. ob_status o' = ''published'' \<longrightarrow> (ob_subject o', ob_payload o') \<in> set (delivered s))
       (outbox s)"

lemma published_deliveredD:
  "published_delivered s \<Longrightarrow> o' \<in> set (outbox s) \<Longrightarrow> ob_status o' = ''published'' \<Longrightarrow>
     (ob_subject o', ob_payload o') \<in> set (delivered s)"
  by (auto simp: published_delivered_def list_all_iff)

text \<open>What a refused event becomes, and what a pass at time \<open>t\<close> may make of a row when \<open>D\<close> was delivered.\<close>

definition refused :: "options \<Rightarrow> int \<Rightarrow> outbox_event \<Rightarrow> gostr \<Rightarrow> outbox_event" where
  "refused opts t o' message =
     (let attempts = ob_attempts o' + 1 in
      if attempts \<ge> op_max_outbox_attempts opts
      then o'\<lparr>ob_status := ''dead_letter'', ob_attempts := attempts, ob_last_error := message\<rparr>
      else o'\<lparr>ob_status := ''retry'', ob_attempts := attempts,
              ob_next_attempt_at := Some (t + outboxBackoff attempts), ob_last_error := message\<rparr>)"

definition accepted :: "int \<Rightarrow> outbox_event \<Rightarrow> outbox_event" where
  "accepted t o' = o'\<lparr>ob_status := ''published'', ob_published_at := Some t, ob_last_error := []\<rparr>"

definition event_outcome ::
  "options \<Rightarrow> publisher \<Rightarrow> int \<Rightarrow> (gostr \<times> outbox_payload) set \<Rightarrow> outbox_event \<Rightarrow> outbox_event \<Rightarrow> bool" where
  "event_outcome opts publish t D o' e \<longleftrightarrow> e = o' \<or> outbox_open (ob_status o') \<and>
     (\<exists>tm. case publish (ob_subject o') (ob_payload o') of
        None \<Rightarrow> (ob_subject o', ob_payload o') \<in> D \<and> e = (accepted t o')\<lparr>ob_updated_at := tm\<rparr>
      | Some message \<Rightarrow> e = (refused opts t o' message)\<lparr>ob_updated_at := tm\<rparr>)"

lemma event_outcome_mono: "event_outcome opts publish t D o' e \<Longrightarrow> D \<subseteq> D' \<Longrightarrow> event_outcome opts publish t D' o' e"
  by (auto simp: event_outcome_def split: option.splits)

text \<open>The rows after part of a pass over \<open>rows\<close>, when \<open>events\<close> are still to come.\<close>

definition pass_rows ::
  "options \<Rightarrow> publisher \<Rightarrow> int \<Rightarrow> outbox_event list \<Rightarrow> outbox_event list \<Rightarrow> sched_db \<Rightarrow> bool" where
  "pass_rows opts publish t rows events s \<longleftrightarrow>
     list_all2 (\<lambda>o' e. event_outcome opts publish t (set (delivered s)) o' e \<and>
       (ob_id o' \<in> ob_id ` set events \<longrightarrow> e = o')) rows (outbox s)"

lemma pass_rows_skip: "pass_rows opts publish t rows (e # events) s \<Longrightarrow> pass_rows opts publish t rows events s"
  unfolding pass_rows_def by (erule list_all2_mono) auto

lemma pass_rows_deliver:
  "pass_rows opts publish t rows events s \<Longrightarrow> pass_rows opts publish t rows events (s\<lparr>delivered := delivered s @ xs\<rparr>)"
  unfolding pass_rows_def by simp (erule list_all2_mono, auto elim: event_outcome_mono)

lemma list_all2_upd:
  "list_all2 R xs ys \<Longrightarrow> (\<And>x y. x \<in> set xs \<Longrightarrow> R x y \<Longrightarrow> Q x (if P y then f y else y)) \<Longrightarrow> list_all2 Q xs (upd P f ys)"
  by (induction xs ys rule: list_all2_induct) (auto simp: upd_def)

lemma pass_rows_update:
  assumes "pass_rows opts publish t rows (e # events) s"
    and "distinct (map ob_id rows)" "e \<in> set rows" "ob_id e \<notin> ob_id ` set events" "outbox_open (ob_status e)"
    and "event_outcome opts publish t (set (delivered s)) e ((f e)\<lparr>ob_updated_at := tm\<rparr>)"
  shows "pass_rows opts publish t rows events (s\<lparr>outbox :=
    upd (\<lambda>o'. ob_id o' = ob_id e \<and> outbox_open (ob_status o')) (\<lambda>r. (f r)\<lparr>ob_updated_at := tm\<rparr>) (outbox s)\<rparr>)"
proof -
  let ?D = "set (delivered s)"
  let ?P = "\<lambda>o'. ob_id o' = ob_id e \<and> outbox_open (ob_status o')"
  let ?F = "\<lambda>r. (f r)\<lparr>ob_updated_at := tm\<rparr>"
  have "list_all2 (\<lambda>o' y. event_outcome opts publish t ?D o' y \<and> (ob_id o' \<in> ob_id ` set events \<longrightarrow> y = o'))
      rows (upd ?P ?F (outbox s))"
    using assms(1) [unfolded pass_rows_def]
  proof (rule list_all2_upd)
    fix o' y assume o': "o' \<in> set rows"
      and y: "event_outcome opts publish t ?D o' y \<and> (ob_id o' \<in> ob_id ` set (e # events) \<longrightarrow> y = o')"
    have "ob_id y = ob_id o'"
      using y by (auto simp: event_outcome_def accepted_def refused_def Let_def split: option.splits if_splits)
    moreover have "o' = e" if "ob_id o' = ob_id e"
      using assms(2,3) o' that by (metis distinct_map inj_onD)
    ultimately show "event_outcome opts publish t ?D o' (if ?P y then ?F y else y) \<and>
        (ob_id o' \<in> ob_id ` set events \<longrightarrow> (if ?P y then ?F y else y) = o')"
      using assms(4-6) y by (cases "ob_id o' = ob_id e") auto
  qed
  then show ?thesis by (simp add: pass_rows_def)
qed

lemma update_outbox_store:
  "store (snd (andThen (update_outbox P f) (\<lambda>_. ret ()) w)) = store w \<or>
   (\<exists>tm. store (snd (andThen (update_outbox P f) (\<lambda>_. ret ()) w)) =
      (store w)\<lparr>outbox := upd P (\<lambda>r. (f r)\<lparr>ob_updated_at := tm\<rparr>) (outbox (store w))\<rparr>)"
  by (auto simp: update_outbox_def andThen_def now_def modify_def stmt_def ret_def next_world_def split: prod.splits)

lemma attempt_store: "store (snd (attempt m w)) = store (snd (m w))"
  by (simp add: attempt_def split: prod.split)

lemma publish_one:
  assumes "pass_rows opts publish t rows (e # events) (store w)"
    and "distinct (map ob_id rows)" "e \<in> set rows" "ob_id e \<notin> ob_id ` set events" "outbox_open (ob_status e)"
  shows "publish (ob_subject e) (ob_payload e) = Some msg \<Longrightarrow>
      pass_rows opts publish t rows events (store (snd (publish_failed opts t e msg w)))"
    and "publish (ob_subject e) (ob_payload e) = None \<Longrightarrow> (ob_subject e, ob_payload e) \<in> set (delivered (store w)) \<Longrightarrow>
      pass_rows opts publish t rows events (store (snd (MarkPublished (ob_id e) t w)))"
proof -
  let ?P = "\<lambda>o'. ob_id o' = ob_id e \<and> outbox_open (ob_status o')"
  have marked: "pass_rows opts publish t rows events (store (snd (andThen (update_outbox ?P f) (\<lambda>_. ret ()) w)))"
    if "\<And>tm. event_outcome opts publish t (set (delivered (store w))) e ((f e)\<lparr>ob_updated_at := tm\<rparr>)" for f
  proof -
    have "pass_rows opts publish t rows events (store w\<lparr>outbox :=
        upd ?P (\<lambda>r. (f r)\<lparr>ob_updated_at := tm\<rparr>) (outbox (store w))\<rparr>)" for tm
      by (rule pass_rows_update [where f = f, OF assms that])
    with update_outbox_store [of ?P f w] pass_rows_skip [OF assms(1)] show ?thesis by auto
  qed
  show "pass_rows opts publish t rows events (store (snd (publish_failed opts t e msg w)))"
    if "publish (ob_subject e) (ob_payload e) = Some msg"
    unfolding publish_failed_def MarkDeadLetter_def MarkRetry_def Let_def
    using that assms(5) by (auto intro!: marked exI simp: event_outcome_def refused_def Let_def)
  show "pass_rows opts publish t rows events (store (snd (MarkPublished (ob_id e) t w)))"
    if "publish (ob_subject e) (ob_payload e) = None" "(ob_subject e, ob_payload e) \<in> set (delivered (store w))"
    unfolding MarkPublished_def
    using that assms(5) by (auto intro!: marked exI simp: event_outcome_def accepted_def)
qed

lemma andThen_deliver: "andThen (deliver subject payload) k w =
    k () (w\<lparr>store := (store w)\<lparr>delivered := delivered (store w) @ [(subject, payload)]\<rparr>\<rparr>)"
  by (simp add: andThen_def deliver_def)

lemma list_all2_left: "list_all2 R xs ys \<Longrightarrow> x \<in> set xs \<Longrightarrow> \<exists>y \<in> set ys. R x y"
  by (induction xs ys rule: list_all2_induct) auto

lemma list_all2_right: "list_all2 R xs ys \<Longrightarrow> y \<in> set ys \<Longrightarrow> \<exists>x \<in> set xs. R x y"
  by (induction xs ys rule: list_all2_induct) auto

lemma pass_rows_end: "pass_rows opts publish t rows events s \<Longrightarrow> pass_rows opts publish t rows [] s"
  unfolding pass_rows_def by (erule list_all2_mono) auto

lemma publish_loop_rows:
  assumes "pass_rows opts publish t rows events (store w)" and "distinct (map ob_id rows)"
    and "set events \<subseteq> set rows" "distinct (map ob_id events)" "\<forall>e \<in> set events. outbox_open (ob_status e)"
  shows "pass_rows opts publish t rows [] (store (snd (publish_loop opts publish t events n w)))"
  using assms
proof (induction events arbitrary: n w)
  case (Cons e events)
  note one = publish_one [OF Cons.prems(1,2)]
  have go: "pass_rows opts publish t rows [] (store (snd (andThen (attempt m) (\<lambda>r. case r of
        Inl x \<Rightarrow> ret (k, Some x) | Inr _ \<Rightarrow> publish_loop opts publish t events k') v)))"
    if "pass_rows opts publish t rows events (store (snd (m v)))" for m :: "unit sched" and v k k'
  proof -
    obtain r v' where m: "m v = (r, v')" by (cases "m v")
    show ?thesis
    proof (cases r)
      case (Inl x)
      with m that show ?thesis by (simp add: andThen_def attempt_def ret_def pass_rows_end)
    next
      case (Inr u)
      have "pass_rows opts publish t rows [] (store (snd (publish_loop opts publish t events k' v')))"
        by (rule Cons.IH) (use that m Cons.prems in simp_all)
      with m Inr show ?thesis by (simp add: andThen_def attempt_def)
    qed
  qed
  show ?case
  proof (cases "publish (ob_subject e) (ob_payload e)")
    case (Some msg)
    have "pass_rows opts publish t rows events (store (snd (publish_failed opts t e msg w)))"
      by (rule one(1)) (use Cons.prems Some in auto)
    from go [where m = "publish_failed opts t e msg" and v = w and k = n and k' = n, OF this] Some
    show ?thesis by (simp only: publish_loop.simps option.case)
  next
    case None
    let ?v = "w\<lparr>store := (store w)\<lparr>delivered := delivered (store w) @ [(ob_subject e, ob_payload e)]\<rparr>\<rparr>"
    have "pass_rows opts publish t rows events (store (snd (MarkPublished (ob_id e) t ?v)))"
      by (rule publish_one(2)) (use Cons.prems None pass_rows_deliver [OF Cons.prems(1)] in auto)
    from go [where m = "MarkPublished (ob_id e) t" and v = ?v and k = n and k' = "n + 1", OF this] None
    show ?thesis by (simp only: publish_loop.simps option.case andThen_deliver)
  qed
qed (simp add: ret_def)

lemma distinct_limited: "distinct (map f xs) \<Longrightarrow> distinct (map f (limit_rows n xs))"
  by (auto simp: limit_rows_def take_map [symmetric])

lemma distinct_order2: "distinct (map f xs) \<Longrightarrow> distinct (map f (order2 k1 k2 xs))"
  by (simp add: order2_def distinct_map)

lemma PublishPendingOutbox_rows:
  assumes "PublishPendingOutbox opts (Some publish) limit w = (r, w')" and "distinct (map ob_id (outbox (store w)))"
  shows "pass_rows opts publish (clock w) (outbox (store w)) [] (store w')"
proof -
  let ?ready = "limit_rows limit (order2 ob_created_at ob_id
     (sel (\<lambda>o'. outbox_open (ob_status o') \<and>
        (case ob_next_attempt_at o' of None \<Rightarrow> True | Some a \<Rightarrow> a \<le> clock w)) (outbox (store w))))"
  have start: "pass_rows opts publish (clock w) (outbox (store w)) events (store w)" for events
    by (simp add: pass_rows_def event_outcome_def list_all2_refl)
  show ?thesis
  proof (cases "next_fails w")
    case True
    with assms(1) start show ?thesis
      by (auto simp: PublishPendingOutbox_def ListReady_def query_def stmt_def andThen_def now_def)
  next
    case False
    with assms(1) have "publish_loop opts publish (clock w) ?ready 0 (next_world w (store w)) = (r, w')"
      by (simp add: PublishPendingOutbox_def ListReady_def query_def stmt_def andThen_def now_def next_world_def)
    moreover have "set ?ready \<subseteq> set (outbox (store w))" "\<forall>e \<in> set ?ready. outbox_open (ob_status e)"
      by (auto dest!: set_limit_rows [THEN subsetD])
    moreover have "distinct (map ob_id ?ready)"
      using assms(2) by (intro distinct_limited distinct_order2) (simp add: sel_def distinct_map_filter)
    ultimately show ?thesis
      using publish_loop_rows [of opts publish "clock w" "outbox (store w)" ?ready "next_world w (store w)" 0]
        start assms(2) by simp
  qed
qed

lemma publish_loop_delivered: "set (delivered (store w)) \<subseteq> set (delivered (store (snd (publish_loop opts publish t events n w))))"
proof -
  have "stable (\<lambda>s. D \<subseteq> set (delivered s)) (publish_loop opts publish t events n)" for D
  proof (induction opts publish t events n rule: publish_loop.induct)
    case (2 opts publish t event events n)
    have "stable (\<lambda>s. D \<subseteq> set (delivered s)) (deliver x y)" for x y
      by (auto simp: stable_def deliver_def)
    moreover have "stable (\<lambda>s. D \<subseteq> set (delivered s)) (update_outbox P f)" for P f
      unfolding update_outbox_def by (intro stable_intros stable_modify) auto
    ultimately show ?case
      using 2 unfolding publish_failed_def MarkPublished_def MarkRetry_def MarkDeadLetter_def Let_def publish_loop.simps
      by (auto intro!: stable_intros split: option.split sum.split)
  qed (simp add: stable_ret)
  from this [of "set (delivered (store w))"] show ?thesis by (simp add: stable_def)
qed

lemma PublishPendingOutbox_delivered:
  "set (delivered (store w)) \<subseteq> set (delivered (store (snd (PublishPendingOutbox opts (Some publish) limit w))))"
proof (cases "next_fails w")
  case True
  then show ?thesis
    by (simp add: PublishPendingOutbox_def ListReady_def query_def stmt_def andThen_def now_def)
next
  case False
  then obtain events where "PublishPendingOutbox opts (Some publish) limit w =
      publish_loop opts publish (clock w) events 0 (next_world w (store w))"
    by (simp add: PublishPendingOutbox_def ListReady_def query_def stmt_def andThen_def now_def next_world_def)
  with publish_loop_delivered [of "next_world w (store w)" opts publish "clock w" events 0] show ?thesis
    by (simp add: next_world_def)
qed

text \<open>An event a pass at time \<open>t\<close> may offer (it offers the oldest of them, up to its limit).\<close>

definition is_due :: "int \<Rightarrow> outbox_event \<Rightarrow> bool" where
  "is_due t o' \<longleftrightarrow> outbox_open (ob_status o') \<and> (case ob_next_attempt_at o' of None \<Rightarrow> True | Some a \<Rightarrow> a \<le> t)"



section \<open>Retries\<close>

definition retry_ok :: "int \<Rightarrow> outbox_event \<Rightarrow> bool" where
  "retry_ok limit o' \<longleftrightarrow>
     (outbox_open (ob_status o') \<longrightarrow> ob_attempts o' < limit) \<and>
     (ob_status o' = ''dead_letter'' \<longrightarrow> limit \<le> ob_attempts o')"

lemma retry_ok_update:
  assumes "\<And>o'. retry_ok limit o' \<Longrightarrow> P o' \<Longrightarrow> retry_ok limit (f o')"
  shows "stable (\<lambda>s. \<forall>o' \<in> set (outbox s). retry_ok limit o') (update_outbox P f)"
  by (rule outbox_table.update_all_rows) (use assms in \<open>simp add: retry_ok_def\<close>)

lemma publish_loop_retries:
  "stable (\<lambda>s. \<forall>o' \<in> set (outbox s). retry_ok (op_max_outbox_attempts opts) o')
     (publish_loop opts publish t events n)"
proof (induction opts publish t events n rule: publish_loop.induct)
  case (2 opts publish t event events n)
  let ?I = "\<lambda>s. \<forall>o' \<in> set (outbox s). retry_ok (op_max_outbox_attempts opts) o'"
  have "stable ?I (MarkDeadLetter i k msg)" if "op_max_outbox_attempts opts \<le> k" for i k msg
    unfolding MarkDeadLetter_def
    by (intro stable_andThen stable_ret retry_ok_update) (use that in \<open>simp add: retry_ok_def outbox_open_def\<close>)
  moreover have "stable ?I (MarkRetry i k u msg)" if "k < op_max_outbox_attempts opts" for i k u msg
    unfolding MarkRetry_def
    by (intro stable_andThen stable_ret retry_ok_update) (use that in \<open>simp add: retry_ok_def outbox_open_def\<close>)
  ultimately have "stable ?I (publish_failed opts t event msg)" for msg
    by (auto simp: publish_failed_def Let_def)
  moreover have "stable ?I (MarkPublished i t)" for i
    unfolding MarkPublished_def
    by (intro stable_andThen stable_ret retry_ok_update) (simp add: retry_ok_def outbox_open_def)
  moreover have "stable ?I (deliver subject payload)" for subject payload
    by (rule stable_deliver) simp
  ultimately show ?case using 2
    by (auto intro!: stable_intros split: option.split sum.split)
qed (simp add: stable_ret)

text \<open>
  Failing events are retried a bounded number of times: every pass of the publisher keeps an
  open event (pending or in retry) below the configured number of attempts, and an event is in
  the dead letter only after it used them all.
\<close>

theorem outbox_retries_bounded:
  assumes "PublishPendingOutbox opts publisher limit w = (r, w')"
    and "list_all (retry_ok (op_max_outbox_attempts opts)) (outbox (store w))"
  shows "list_all (retry_ok (op_max_outbox_attempts opts)) (outbox (store w'))"
proof -
  have "stable (\<lambda>s. \<forall>o' \<in> set (outbox s). retry_ok (op_max_outbox_attempts opts) o')
      (PublishPendingOutbox opts publisher limit)"
    unfolding PublishPendingOutbox_def ListReady_def
    by (auto intro!: stable_intros publish_loop_retries split: option.split)
  from stableD [OF this _ assms(1)] assms(2) show ?thesis by (simp add: list_all_iff)
qed

theorem outbox_retries_bounded_witness:
  "list_all (retry_ok 8) (outbox (store (snd (PublishPendingOutbox sample_options
     (Some (\<lambda>_ _. Some ''down'')) 10 sample_world))))"
proof -
  have start: "list_all (retry_ok (op_max_outbox_attempts sample_options)) (outbox (store sample_world))"
    by (simp add: sample_world_def sample_db_def sample_event_def executionRequestedOutbox_def Let_def
        retry_ok_def sample_options_def)
  have run: "PublishPendingOutbox sample_options (Some (\<lambda>_ _. Some ''down'')) 10 sample_world =
    (fst (PublishPendingOutbox sample_options (Some (\<lambda>_ _. Some ''down'')) 10 sample_world),
     snd (PublishPendingOutbox sample_options (Some (\<lambda>_ _. Some ''down'')) 10 sample_world))" by simp
  from outbox_retries_bounded [OF run start] show ?thesis by (simp add: sample_options_def)
qed

section \<open>Queries\<close>

lemma length_order2 [simp]: "length (order2 k1 k2 rs) = length rs"
  by (simp add: order2_def)

lemma normalizePage_bounds:
  "normalizePage page page_size = (p, n) \<Longrightarrow> 1 \<le> p \<and> 1 \<le> n \<and> n \<le> 100"
  by (auto simp: normalizePage_def Let_def split: if_splits)

text \<open>
  A listing answers live tasks that match every filter, at most a hundred and never more than
  the total it reports, for any page numbers the client sends, negative and huge ones included.
\<close>

theorem ListTasks_sound:
  assumes "ListTasks req w = (Inr (rows, count), w')"
  shows "length rows \<le> 100 \<and> length rows \<le> count \<and>
    (\<forall>t \<in> set rows. \<exists>r \<in> set (tasks (store w)). live r \<and> t = taskToSDK r \<and>
       (lt_status req \<noteq> [] \<longrightarrow> st_status t = lt_status req) \<and>
       (lt_executor_key req \<noteq> [] \<longrightarrow> st_executor_key t = lt_executor_key req) \<and>
       (lt_created_by req \<noteq> [] \<longrightarrow> st_created_by t = lt_created_by req))"
proof -
  obtain p n where page: "normalizePage (lt_page req) (lt_page_size req) = (p, n)" by fastforce
  define f where "f = \<lparr>lf_executor_key = lt_executor_key req, lf_status = lt_status req,
         lf_category = lt_category req, lf_source_type = lt_source_type req,
         lf_source_ref = lt_source_ref req, lf_resource_scope = lt_resource_scope req,
         lf_resource_key = lt_resource_key req,
         lf_resource_key_prefix = lt_resource_key_prefix req, lf_created_by = lt_created_by req,
         lf_offset = (p - 1) * n, lf_limit = n\<rparr>"
  let ?found = "limit_rows n (offset_rows ((p - 1) * n) (order2 (\<lambda>t. - tk_created_at t) (\<lambda>t. - tk_id t)
      (sel (list_filter_matches f) (tasks (store w)))))"
  from assms page have rows: "rows = map taskToSDK ?found"
    and count: "count = hits (list_filter_matches f) (tasks (store w))"
    unfolding ListTasks_def TaskList_def run_simps by (auto simp: run_simps f_def)
  have size: "length ?found \<le> 100"
    using normalizePage_bounds [OF page] by (auto simp: limit_rows_def)
  have bound: "length ?found \<le> count"
    by (auto simp: count limit_rows_def offset_rows_def hits_def sel_def)
  have sub: "set ?found \<subseteq> set (sel (list_filter_matches f) (tasks (store w)))"
    by (auto simp: limit_rows_def offset_rows_def dest!: in_set_takeD in_set_dropD)
  have matches: "\<exists>r \<in> set (tasks (store w)). live r \<and> t = taskToSDK r \<and>
       (lt_status req \<noteq> [] \<longrightarrow> st_status t = lt_status req) \<and>
       (lt_executor_key req \<noteq> [] \<longrightarrow> st_executor_key t = lt_executor_key req) \<and>
       (lt_created_by req \<noteq> [] \<longrightarrow> st_created_by t = lt_created_by req)" if "t \<in> set rows" for t
  proof -
    from that rows obtain r where "r \<in> set ?found" and t: "t = taskToSDK r" by auto
    then have "r \<in> set (sel (list_filter_matches f) (tasks (store w)))" using sub by blast
    then have "r \<in> set (tasks (store w))" and "list_filter_matches f r" by simp_all
    then show ?thesis
      by (intro bexI [of _ r]) (auto simp: t list_filter_matches_def f_def taskToSDK_def)
  qed
  show ?thesis using size bound matches by (simp add: rows)
qed

theorem ListTasks_sound_witness:
  "\<exists>rows count w'. ListTasks \<lparr>lt_executor_key = [], lt_status = TaskPending, lt_category = [],
     lt_source_type = [], lt_source_ref = [], lt_resource_scope = [], lt_resource_key = [],
     lt_resource_key_prefix = [], lt_created_by = [], lt_page = -3, lt_page_size = 1000000\<rparr> sample_world
     = (Inr (rows, count), w') \<and> length rows \<le> count"
proof -
  let ?req = "\<lparr>lt_executor_key = [], lt_status = TaskPending, lt_category = [],
     lt_source_type = [], lt_source_ref = [], lt_resource_scope = [], lt_resource_key = [],
     lt_resource_key_prefix = [], lt_created_by = [], lt_page = -3, lt_page_size = 1000000\<rparr>"
  have "faults sample_world = []" "normalizePage (-3) 1000000 = (1, 100)"
    by (simp_all add: sample_world_def normalizePage_def)
  then obtain rows count w' where run: "ListTasks ?req sample_world = (Inr (rows, count), w')"
    by (simp add: ListTasks_def TaskList_def calm_simps split: prod.split)
  with ListTasks_sound [OF run] show ?thesis by blast
qed

text \<open>
  The resource prefix of a listing selects a resource and its descendants, as its comment in
  \<open>types.go\<close> says, when the prefix has none of \<open>%\<close>, \<open>_\<close> and the backslash: the stored key is the
  prefix itself (less trailing slashes) or continues it after a slash.
\<close>

theorem resource_prefix_exact:
  assumes "lf_resource_key_prefix f \<noteq> []"
    and "literal_pattern (trim_right_char slash (lf_resource_key_prefix f))"
    and "list_filter_matches (f\<lparr>lf_resource_key_prefix := []\<rparr>) t"
  shows "list_filter_matches f t \<longleftrightarrow>
    tk_resource_key t = trim_right_char slash (lf_resource_key_prefix f) \<or>
    has_prefix (tk_resource_key t) (trim_right_char slash (lf_resource_key_prefix f) @ ''/'')"
proof -
  let ?p = "trim_right_char slash (lf_resource_key_prefix f)"
  have "literal_pattern (?p @ ''/'')" using assms(2) by (simp add: literal_pattern_def)
  from like_literal_prefix [OF this]
  have "sql_like (?p @ ''/%'') (tk_resource_key t) \<longleftrightarrow> has_prefix (tk_resource_key t) (?p @ ''/'')" by simp
  with assms(1,3) show ?thesis by (simp add: list_filter_matches_def Let_def)
qed

definition prefix_filter :: "gostr \<Rightarrow> list_tasks_filter" where
  "prefix_filter p = \<lparr>lf_executor_key = [], lf_status = [], lf_category = [], lf_source_type = [],
     lf_source_ref = [], lf_resource_scope = [], lf_resource_key = [], lf_resource_key_prefix = p,
     lf_created_by = [], lf_offset = 0, lf_limit = 20\<rparr>"

theorem resource_prefix_exact_witness:
  "list_filter_matches (prefix_filter ''/alice/'') sample_task \<and>
   \<not> list_filter_matches (prefix_filter ''/ali'') sample_task"
  using resource_prefix_exact [of "prefix_filter ''/alice/''" sample_task]
    resource_prefix_exact [of "prefix_filter ''/ali''" sample_task]
  by (simp add: prefix_filter_def trim_right_char_def literal_pattern_def list_filter_matches_def
      sample_task_def live_def)

text \<open>
  C23. The underscore of a prefix is a wildcard: a listing for the application \<open>/alice/my_app\<close>
  also answers the tasks of \<open>/alice/my-app\<close>, which is neither that resource nor below it.
\<close>

theorem resource_prefix_underscore_leaks:
  "list_filter_matches (prefix_filter ''/alice/my_app'')
     (sample_task\<lparr>tk_resource_key := ''/alice/my-app/crm''\<rparr>) \<and>
   \<not> has_prefix ''/alice/my-app/crm'' ''/alice/my_app''"
  by (simp add: list_filter_matches_def prefix_filter_def trim_right_char_def sample_task_def live_def)

section \<open>Subjects and options\<close>

definition subject_byte :: "char \<Rightarrow> bool" where
  "subject_byte c \<longleftrightarrow> subject_sep c \<or>
     (let n = (of_char c :: nat) in (48 \<le> n \<and> n \<le> 57) \<or> (97 \<le> n \<and> n \<le> 122) \<or> 128 \<le> n)"

lemma lower_subject_byte: "subject_char c \<Longrightarrow> subject_byte (lower_char c)"
  by (auto simp: subject_char_def subject_byte_def lower_char_def Let_def)

lemma subject_sep_byte: "subject_sep c \<Longrightarrow> subject_byte c"
  by (simp add: subject_byte_def)

lemma subject_loop_bytes: "list_all subject_byte (subject_loop s b)"
  by (induction s b rule: subject_loop.induct)
    (auto simp: subject_sep_def intro: lower_subject_byte subject_sep_byte)

lemma set_trim_sep:
  "set (rev (dropWhile subject_sep (rev (dropWhile subject_sep xs)))) \<subseteq> set xs"
  by (auto dest!: set_dropWhileD)

lemma trim_sep_ends:
  assumes "rev (dropWhile subject_sep (rev (dropWhile subject_sep xs))) = ys" and "ys \<noteq> []"
  shows "\<not> subject_sep (hd ys) \<and> \<not> subject_sep (last ys)"
proof -
  let ?d = "dropWhile subject_sep xs"
  have ys: "rev ys = dropWhile subject_sep (rev ?d)" using assms(1) by auto
  then have "\<not> subject_sep (last ys)"
    using assms(2) hd_dropWhile [of subject_sep "rev ?d"] by (metis hd_rev rev_is_Nil_conv)
  moreover have "?d = ys @ rev (takeWhile subject_sep (rev ?d))"
    by (metis ys rev_append rev_rev_ident takeWhile_dropWhile_id)
  then have "hd ys = hd ?d" and "?d \<noteq> []" using assms(2) by (metis hd_append2, metis append_is_Nil_conv)
  then have "\<not> subject_sep (hd ys)" using hd_dropWhile [of subject_sep xs] by simp
  ultimately show ?thesis by simp
qed

text \<open>
  The NATS subject of an executor is safe for any executor key: its suffix is not empty, has
  no blank and no NATS wildcard (only lower-case letters, digits, dots, dashes, underscores and
  non-ASCII letters), and neither starts nor ends with a separator, so no executor key makes a
  worker subscribe to another executor's requests by pattern.
\<close>

theorem timer_subject_suffix_safe:
  "NormalizeTimerSubjectSuffix v \<noteq> [] \<and> list_all subject_byte (NormalizeTimerSubjectSuffix v) \<and>
   \<not> subject_sep (hd (NormalizeTimerSubjectSuffix v)) \<and>
   \<not> subject_sep (last (NormalizeTimerSubjectSuffix v))"
proof -
  let ?loop = "subject_loop (trim_space v) False"
  let ?out = "rev (dropWhile subject_sep (rev (dropWhile subject_sep ?loop)))"
  have "set ?out \<subseteq> set ?loop" by (rule set_trim_sep)
  then have bytes: "list_all subject_byte ?out"
    using subject_loop_bytes [of "trim_space v" False] by (auto simp: list_all_iff)
  have unknown: "list_all subject_byte ''unknown''" "\<not> subject_sep CHR ''u''" "\<not> subject_sep CHR ''n''"
    by (simp_all add: subject_byte_def subject_sep_def)
  show ?thesis
    using bytes unknown trim_sep_ends [of ?loop ?out]
    by (auto simp: NormalizeTimerSubjectSuffix_def Let_def)
qed

text \<open>
  The effective options are usable whatever the configuration: every lease, time-out, limit
  and number of attempts is positive, and the values that were positive are kept.
\<close>

theorem NewService_positive:
  "let n = NewService opts in
     0 < op_dispatch_lease n \<and> 0 < op_execution_lease n \<and> 0 < op_queue_ack_timeout n \<and>
     0 < op_max_dispatch_attempts n \<and> 0 < op_max_heartbeat_misses n \<and>
     0 < op_max_outbox_attempts n \<and> 0 < op_payload_limit_bytes n \<and>
     op_dispatch_lease n = (if 0 < op_dispatch_lease opts then op_dispatch_lease opts else 30 * second) \<and>
     op_max_dispatch_attempts n =
       (if 0 < op_max_dispatch_attempts opts then op_max_dispatch_attempts opts else 30)"
  by (simp add: NewService_def Let_def)

end
