(* ===== verification/Access.thy ===== *)
theory Access
  imports Store
begin

text \<open>
  Package \<open>pkg/access\<close>: actions, roles, principals, the path rules by which a grant on a
  directory reaches the resources below it, and \<open>Resolve\<close>, which turns the assignments
  of a user into permissions. Everything here is pure; the database side of the same
  component is in \<open>RoleStore\<close> and \<open>PermissionService\<close>. Action and role codes are
  strings in the source and stay strings; a \<open>PermissionSet\<close> (a Go map from actions to
  booleans) is its association list, a missing key reads as \<open>false\<close>.
\<close>

section \<open>Vocabulary\<close>

abbreviation ActionRead :: gostr where "ActionRead \<equiv> ''read''"
abbreviation ActionWrite :: gostr where "ActionWrite \<equiv> ''write''"
abbreviation ActionUpdate :: gostr where "ActionUpdate \<equiv> ''update''"
abbreviation ActionDelete :: gostr where "ActionDelete \<equiv> ''delete''"
abbreviation ActionAdmin :: gostr where "ActionAdmin \<equiv> ''admin''"
abbreviation ActionOwner :: gostr where "ActionOwner \<equiv> ''owner''"

abbreviation RoleOwner :: gostr where "RoleOwner \<equiv> ''owner''"
abbreviation RoleAdmin :: gostr where "RoleAdmin \<equiv> ''admin''"
abbreviation RoleMember :: gostr where "RoleMember \<equiv> ''member''"
abbreviation RoleViewer :: gostr where "RoleViewer \<equiv> ''viewer''"

abbreviation PrincipalUser :: gostr where "PrincipalUser \<equiv> ''user''"
abbreviation PrincipalDepartment :: gostr where "PrincipalDepartment \<equiv> ''department''"

type_synonym permission_set = "(gostr \<times> bool) list"

record principal =
  pr_type :: gostr
  pr_key :: gostr

record assignment =
  as_tenant_user :: gostr
  as_app :: gostr
  as_principal :: principal
  as_resource_path :: gostr
  as_role_code :: gostr
  as_expires_at :: "int option"
  as_created_by :: gostr

record access_result =
  re_resource_path :: gostr
  re_role_codes :: "gostr list"
  re_permissions :: permission_set
  re_inherited_from :: gostr
  re_expires_at :: "int option"
  re_assignments :: "assignment list"

record grant_role_request =
  gr_tenant_user :: gostr
  gr_app :: gostr
  gr_principal :: principal
  gr_resource_path :: gostr
  gr_role_code :: gostr
  gr_expires_at :: "int option"
  gr_created_by :: gostr

record batch_grant_role_request =
  bg_tenant_user :: gostr
  bg_app :: gostr
  bg_principals :: "principal list"
  bg_resource_paths :: "gostr list"
  bg_role_codes :: "gostr list"
  bg_expires_at :: "int option"
  bg_created_by :: gostr

record revoke_role_request =
  rv_tenant_user :: gostr
  rv_app :: gostr
  rv_principal :: principal
  rv_resource_path :: gostr
  rv_role_code :: gostr
  rv_actor :: gostr

record role_assignment_view =
  vw_tenant_user :: gostr
  vw_app :: gostr
  vw_principal_type :: gostr
  vw_principal_key :: gostr
  vw_resource_path :: gostr
  vw_role_code :: gostr
  vw_permissions :: permission_set
  vw_source :: gostr
  vw_direct :: bool
  vw_inherited_from :: gostr
  vw_target_resource :: gostr
  vw_expires_at :: "int option"
  vw_created_by :: gostr
  vw_created_at :: int
  vw_updated_at :: int

section \<open>Normal forms\<close>

definition NormalizeAction :: "gostr \<Rightarrow> gostr" where
  "NormalizeAction action = to_lower (trim_space action)"

definition NormalizeRoleCode :: "gostr \<Rightarrow> gostr" where
  "NormalizeRoleCode role = to_lower (trim_space role)"

definition NormalizePrincipalType :: "gostr \<Rightarrow> gostr" where
  "NormalizePrincipalType t = to_lower (trim_space t)"

definition NormalizeResourcePath :: "gostr \<Rightarrow> gostr" where
  "NormalizeResourcePath path =
     (let path = trim_space path in
      if path = [] then []
      else let path = trim_char slash path in
           if path = [] then [] else slash # path)"

definition NormalizePrincipal :: "principal \<Rightarrow> principal" where
  "NormalizePrincipal pr =
     (let pr = pr\<lparr>pr_type := NormalizePrincipalType (pr_type pr)\<rparr> in
      if pr_type pr = PrincipalUser
      then pr\<lparr>pr_key := to_lower (trim_space (pr_key pr))\<rparr>
      else if pr_type pr = PrincipalDepartment
      then pr\<lparr>pr_key := NormalizeResourcePath (pr_key pr)\<rparr>
      else pr\<lparr>pr_key := trim_space (pr_key pr)\<rparr>)"

definition IsValidPrincipal :: "principal \<Rightarrow> bool" where
  "IsValidPrincipal pr =
     (let pr = NormalizePrincipal pr in
      if pr_key pr = [] then False
      else if pr_type pr = PrincipalUser then True
      else if pr_type pr = PrincipalDepartment
      then pr_key pr = ''/org'' \<or> has_prefix (pr_key pr) ''/org/''
      else False)"

definition IsSystemBuiltinPath :: "gostr \<Rightarrow> bool" where
  "IsSystemBuiltinPath path =
     (let path = NormalizeResourcePath path in
      path = ''/system'' \<or> has_prefix path ''/system/'')"

datatype access_error = BadResourcePath gostr

definition ParseUserApp :: "gostr \<Rightarrow> access_error + gostr \<times> gostr" where
  "ParseUserApp resource_path =
     (case split_on slash (trim_char slash (NormalizeResourcePath resource_path)) of
        t # a # _ \<Rightarrow> if t = [] \<or> a = [] then Inl (BadResourcePath resource_path) else Inr (t, a)
      | _ \<Rightarrow> Inl (BadResourcePath resource_path))"

definition AppRootPath :: "gostr \<Rightarrow> gostr \<Rightarrow> gostr" where
  "AppRootPath tenant_user app =
     (let tenant_user = trim_char slash (trim_space tenant_user);
          app = trim_char slash (trim_space app) in
      if tenant_user = [] \<or> app = [] then [] else slash # tenant_user @ slash # app)"

definition ParentPaths :: "gostr \<Rightarrow> gostr list" where
  "ParentPaths resource_path =
     (let resource_path = NormalizeResourcePath resource_path in
      if resource_path = [] then []
      else let parts = split_on slash (trim_char slash resource_path) in
           map (\<lambda>i. slash # join_with [slash] (take i parts)) (rev [1..<Suc (length parts)]))"

definition PrincipalsForUser :: "gostr \<Rightarrow> gostr \<Rightarrow> principal list" where
  "PrincipalsForUser username department_path =
     (let user_principal = NormalizePrincipal \<lparr>pr_type = PrincipalUser, pr_key = username\<rparr>;
          principals = (if IsValidPrincipal user_principal then [user_principal] else []);
          department_path = NormalizeResourcePath department_path in
      if department_path \<noteq> ''/org'' \<and> \<not> has_prefix department_path ''/org/'' then principals
      else principals @ map (\<lambda>path. \<lparr>pr_type = PrincipalDepartment, pr_key = path\<rparr>)
             (ParentPaths department_path))"

text \<open>
  The identity of a grant in the database: a hash of its normal form. \<open>sha256\<close> (with the
  hexadecimal rendering) is a parameter.
\<close>

definition assignment_key_parts ::
  "gostr \<Rightarrow> gostr \<Rightarrow> principal \<Rightarrow> gostr \<Rightarrow> gostr \<Rightarrow> gostr list" where
  "assignment_key_parts tenant_user app pr resource_path role_code =
     (let pr = NormalizePrincipal pr in
      [trim_space tenant_user, trim_space app, pr_type pr, pr_key pr,
       NormalizeResourcePath resource_path, NormalizeRoleCode role_code])"

definition PermissionAssignmentKey ::
  "(gostr \<Rightarrow> gostr) \<Rightarrow> gostr \<Rightarrow> gostr \<Rightarrow> principal \<Rightarrow> gostr \<Rightarrow> gostr \<Rightarrow> gostr" where
  "PermissionAssignmentKey sha256 tenant_user app pr resource_path role_code =
     sha256 (join_with [CHR 0x00]
       (assignment_key_parts tenant_user app pr resource_path role_code))"

section \<open>Permission sets\<close>

definition IsValidAction :: "gostr \<Rightarrow> bool" where
  "IsValidAction action \<longleftrightarrow>
     NormalizeAction action \<in>
       {ActionRead, ActionWrite, ActionUpdate, ActionDelete, ActionAdmin, ActionOwner}"

definition IsValidRoleCode :: "gostr \<Rightarrow> bool" where
  "IsValidRoleCode role \<longleftrightarrow>
     NormalizeRoleCode role \<in> {RoleOwner, RoleAdmin, RoleMember, RoleViewer}"

definition EmptyPermissionSet :: permission_set where
  "EmptyPermissionSet =
     [(ActionRead, False), (ActionWrite, False), (ActionUpdate, False),
      (ActionDelete, False), (ActionAdmin, False), (ActionOwner, False)]"

definition RolePermissions :: "gostr \<Rightarrow> permission_set" where
  "RolePermissions role =
     (let role = NormalizeRoleCode role in
      if role = RoleOwner then
        [(ActionRead, True), (ActionWrite, True), (ActionUpdate, True),
         (ActionDelete, True), (ActionAdmin, True), (ActionOwner, True)]
      else if role = RoleAdmin then
        [(ActionRead, True), (ActionWrite, True), (ActionUpdate, True),
         (ActionDelete, True), (ActionAdmin, True)]
      else if role = RoleMember then
        [(ActionRead, True), (ActionWrite, True), (ActionUpdate, True)]
      else if role = RoleViewer then [(ActionRead, True)]
      else EmptyPermissionSet)"

definition perm_at :: "permission_set \<Rightarrow> gostr \<Rightarrow> bool" where
  "perm_at perms action \<longleftrightarrow> map_of perms action = Some True"

definition merge_into :: "permission_set \<Rightarrow> permission_set \<Rightarrow> permission_set" where
  "merge_into set1 merged =
     fold (\<lambda>(action, allowed) m. if allowed then AList.update (NormalizeAction action) True m else m)
       set1 merged"

definition MergePermissionSets :: "permission_set list \<Rightarrow> permission_set" where
  "MergePermissionSets sets = fold merge_into sets EmptyPermissionSet"

definition HasPermission :: "permission_set \<Rightarrow> gostr \<Rightarrow> bool" where
  "HasPermission perms action =
     (let action = NormalizeAction action in
      if action = [] then False
      else if perm_at perms ActionOwner then True
      else if action \<noteq> ActionOwner \<and> perm_at perms ActionAdmin then True
      else perm_at perms action)"

definition CoversRole :: "permission_set \<Rightarrow> gostr \<Rightarrow> bool" where
  "CoversRole perms role =
     (let role = NormalizeRoleCode role in
      if \<not> IsValidRoleCode role then False
      else list_all (\<lambda>(action, required). \<not> (required \<and> \<not> HasPermission perms action))
             (RolePermissions role))"

section \<open>Paths and resolution\<close>

definition PathApplies :: "gostr \<Rightarrow> gostr \<Rightarrow> bool" where
  "PathApplies assigned_path resource_path =
     (let assigned_path = NormalizeResourcePath assigned_path;
          resource_path = NormalizeResourcePath resource_path in
      if assigned_path = [] \<or> resource_path = [] then False
      else resource_path = assigned_path \<or> has_prefix resource_path (assigned_path @ [slash]))"

definition expired :: "int option \<Rightarrow> int \<Rightarrow> bool" where
  "expired expires_at t = (case expires_at of None \<Rightarrow> False | Some e \<Rightarrow> \<not> e > t)"

text \<open>One turn of the loop of \<open>Resolve\<close>; the roles seen so far are those of the result.\<close>

definition resolve_step :: "gostr \<Rightarrow> int \<Rightarrow> assignment \<Rightarrow> access_result \<Rightarrow> access_result" where
  "resolve_step resource_path t a result =
     (let a = a\<lparr>as_resource_path := NormalizeResourcePath (as_resource_path a),
                as_role_code := NormalizeRoleCode (as_role_code a)\<rparr> in
      if \<not> IsValidRoleCode (as_role_code a) then result
      else if expired (as_expires_at a) t then result
      else if \<not> PathApplies (as_resource_path a) resource_path then result
      else
        let result = result\<lparr>
              re_permissions := MergePermissionSets
                 [re_permissions result, RolePermissions (as_role_code a)],
              re_assignments := re_assignments result @ [a]\<rparr>;
            result = (if as_role_code a \<in> set (re_role_codes result) then result
                      else result\<lparr>re_role_codes := re_role_codes result @ [as_role_code a]\<rparr>);
            result = (if re_inherited_from result = [] \<or>
                         length (re_inherited_from result) < length (as_resource_path a)
                      then result\<lparr>re_inherited_from := as_resource_path a\<rparr> else result) in
        (case as_expires_at a of
           None \<Rightarrow> result
         | Some e \<Rightarrow> (case re_expires_at result of
                        None \<Rightarrow> result\<lparr>re_expires_at := Some e\<rparr>
                      | Some old \<Rightarrow> if e > old then result\<lparr>re_expires_at := Some e\<rparr> else result)))"

text \<open>A zero time stands for the current time.\<close>

definition Resolve :: "int \<Rightarrow> assignment list \<Rightarrow> gostr \<Rightarrow> int \<Rightarrow> access_result" where
  "Resolve current assignments resource_path t =
     (let resource_path = NormalizeResourcePath resource_path;
          t = (if t = 0 then current else t);
          result = fold (resolve_step resource_path t) assignments
            \<lparr>re_resource_path = resource_path, re_role_codes = [],
             re_permissions = EmptyPermissionSet, re_inherited_from = [],
             re_expires_at = None, re_assignments = []\<rparr> in
      if re_inherited_from result = resource_path then result\<lparr>re_inherited_from := []\<rparr>
      else result)"

section \<open>Paths\<close>

lemma NormalizeResourcePath_shape:
  "NormalizeResourcePath p = [] \<or>
   (\<exists>b. NormalizeResourcePath p = slash # b \<and> b \<noteq> [] \<and> hd b \<noteq> slash \<and> last b \<noteq> slash)"
  using trim_char_ends [of slash "trim_space p"]
  by (auto simp: NormalizeResourcePath_def Let_def)

lemma NormalizeResourcePath_body:
  assumes "NormalizeResourcePath p = slash # b"
  shows "trim_char slash (NormalizeResourcePath p) = b"
proof -
  from assms NormalizeResourcePath_shape [of p] have "b \<noteq> []" "hd b \<noteq> slash" "last b \<noteq> slash"
    by auto
  then have "dropWhile (\<lambda>x. x = slash) (slash # b) = b" by (cases b) auto
  then have "trim_char slash (slash # b) = trim_right_char slash b" by (simp add: trim_char_def)
  moreover have "trim_char slash b = b"
    using \<open>hd b \<noteq> slash\<close> \<open>last b \<noteq> slash\<close> by (simp add: trim_char_fix)
  moreover have "dropWhile (\<lambda>x. x = slash) b = b"
    using \<open>b \<noteq> []\<close> \<open>hd b \<noteq> slash\<close> by (cases b) auto
  ultimately show ?thesis using assms by (simp add: trim_char_def)
qed

lemma in_ParentPaths:
  "q \<in> set (ParentPaths r) \<longleftrightarrow>
     (\<exists>b i. NormalizeResourcePath r = slash # b \<and> 0 < i \<and> i \<le> length (split_on slash b) \<and>
        q = slash # join_with [slash] (take i (split_on slash b)))"
  (is "?L \<longleftrightarrow> ?R")
proof (cases "NormalizeResourcePath r")
  case Nil
  then show ?thesis by (simp add: ParentPaths_def)
next
  case (Cons x b)
  then have x: "x = slash" using NormalizeResourcePath_shape [of r] by auto
  have "trim_char slash (NormalizeResourcePath r) = b"
    using NormalizeResourcePath_body [of r b] Cons x by simp
  then show ?thesis
    by (auto simp: ParentPaths_def Let_def Cons x image_iff Suc_le_eq less_Suc_eq_le
        simp del: upt_Suc)
qed

lemma PathApplies_bodies:
  "PathApplies a r \<longleftrightarrow>
     (\<exists>x b. NormalizeResourcePath a = slash # x \<and> NormalizeResourcePath r = slash # b \<and>
        (b = x \<or> prefix (x @ [slash]) b))"
  using NormalizeResourcePath_shape [of a] NormalizeResourcePath_shape [of r]
  by (auto simp: PathApplies_def Let_def)

text \<open>
  C1. The two ways the code describes "the grant reaches the resource" agree: the prefix test
  of \<open>PathApplies\<close> holds exactly when the normalised assigned path is one of the parents
  \<open>ParentPaths\<close> enumerates, so a grant never leaks to a sibling such as \<open>/t/app2\<close>
  for \<open>/t/app\<close>.
\<close>

theorem PathApplies_ParentPaths:
  "PathApplies assigned_path resource_path \<longleftrightarrow>
     NormalizeResourcePath assigned_path \<in> set (ParentPaths resource_path)"
proof
  assume "PathApplies assigned_path resource_path"
  then obtain x b where *: "NormalizeResourcePath assigned_path = slash # x"
      "NormalizeResourcePath resource_path = slash # b" "b = x \<or> prefix (x @ [slash]) b"
    by (auto simp: PathApplies_bodies)
  from *(3) have "\<exists>i. 0 < i \<and> i \<le> length (split_on slash b) \<and>
      x = join_with [slash] (take i (split_on slash b))"
  proof
    assume "b = x"
    then show ?thesis
      by (intro exI [where x = "length (split_on slash b)"]) (simp add: join_split_on)
  next
    assume "prefix (x @ [slash]) b"
    then show ?thesis by (blast dest: prefix_is_join_take)
  qed
  with * show "NormalizeResourcePath assigned_path \<in> set (ParentPaths resource_path)"
    by (auto simp: in_ParentPaths)
next
  assume "NormalizeResourcePath assigned_path \<in> set (ParentPaths resource_path)"
  then obtain b i where "NormalizeResourcePath resource_path = slash # b" "0 < i"
      "i \<le> length (split_on slash b)"
      "NormalizeResourcePath assigned_path = slash # join_with [slash] (take i (split_on slash b))"
    by (auto simp: in_ParentPaths)
  then show "PathApplies assigned_path resource_path"
    using join_take_split [of i slash b] by (auto simp: PathApplies_bodies)
qed

lemma PathApplies_refl: "NormalizeResourcePath p \<noteq> [] \<Longrightarrow> PathApplies p p"
  by (simp add: PathApplies_def Let_def)

lemma PathApplies_trans: "PathApplies a b \<Longrightarrow> PathApplies b c \<Longrightarrow> PathApplies a c"
  by (auto simp: PathApplies_bodies) (metis append.assoc prefix_def)+

text \<open>The normal form is stable unless white space was hidden behind a trailing slash.\<close>

lemma NormalizeResourcePath_trimmed:
  assumes "trimmed (NormalizeResourcePath p)"
  shows "NormalizeResourcePath (NormalizeResourcePath p) = NormalizeResourcePath p"
  using NormalizeResourcePath_shape [of p]
proof (elim disjE exE conjE)
  assume "NormalizeResourcePath p = []"
  then show ?thesis by (simp add: NormalizeResourcePath_def)
next
  fix b assume *: "NormalizeResourcePath p = slash # b" "b \<noteq> []"
  then have "trim_char slash (slash # b) = b" using NormalizeResourcePath_body [of p b] by simp
  moreover have "trim_space (slash # b) = slash # b" using assms * by (simp add: trim_space_fix)
  ultimately show ?thesis using * by (subst NormalizeResourcePath_def) simp
qed

section \<open>Permission sets as sets of actions\<close>

abbreviation canonical_actions :: "gostr set" where
  "canonical_actions \<equiv>
     {ActionRead, ActionWrite, ActionUpdate, ActionDelete, ActionAdmin, ActionOwner}"

lemma plain_letters [simp]:
  "plain_char CHR ''r''" "plain_char CHR ''d''" "plain_char CHR ''w''" "plain_char CHR ''e''"
  "plain_char CHR ''u''" "plain_char CHR ''a''" "plain_char CHR ''n''" "plain_char CHR ''o''"
  "plain_char CHR ''m''" "plain_char CHR ''v''" "plain_char CHR ''s''" "plain_char CHR ''t''"
  "plain_char CHR ''c''" "plain_char CHR ''b''" "plain_char CHR ''/''" "plain_char CHR ''g''"
  "plain_char CHR ''p''"
  by (simp_all add: plain_char_def)

lemma NormalizeAction_canonical: "a \<in> canonical_actions \<Longrightarrow> NormalizeAction a = a"
  by (auto simp: NormalizeAction_def trim_space_plain to_lower_def lower_char_def)

lemma NormalizeRoleCode_known:
  "r \<in> {RoleOwner, RoleAdmin, RoleMember, RoleViewer} \<Longrightarrow> NormalizeRoleCode r = r"
  by (auto simp: NormalizeRoleCode_def trim_space_plain to_lower_def lower_char_def)

lemma IsValidRoleCode_normal:
  "IsValidRoleCode r \<Longrightarrow> NormalizeRoleCode (NormalizeRoleCode r) = NormalizeRoleCode r"
  unfolding IsValidRoleCode_def by (rule NormalizeRoleCode_known)

definition perm_wf :: "permission_set \<Rightarrow> bool" where
  "perm_wf perms \<longleftrightarrow> distinct (map fst perms) \<and> set (map fst perms) \<subseteq> canonical_actions"

lemma perm_wf_Empty [simp]: "perm_wf EmptyPermissionSet"
  by (simp add: perm_wf_def EmptyPermissionSet_def)

lemma perm_wf_Role [simp]: "perm_wf (RolePermissions r)"
  by (simp add: perm_wf_def RolePermissions_def EmptyPermissionSet_def Let_def)

lemma perm_at_Empty [simp]: "\<not> perm_at EmptyPermissionSet a"
  by (simp add: perm_at_def EmptyPermissionSet_def)

lemma perm_wf_update: "perm_wf m \<Longrightarrow> a \<in> canonical_actions \<Longrightarrow> perm_wf (AList.update a True m)"
  by (auto simp: perm_wf_def distinct_update dom_update)

lemma merge_into_spec:
  assumes "perm_wf s" and "perm_wf m"
  shows "perm_wf (merge_into s m) \<and> (\<forall>a. perm_at (merge_into s m) a \<longleftrightarrow> perm_at m a \<or> perm_at s a)"
  using assms
proof (induction s arbitrary: m)
  case Nil
  then show ?case by (simp add: merge_into_def perm_at_def)
next
  case (Cons x s)
  obtain b ok where x: "x = (b, ok)" by (cases x)
  from Cons.prems x have b: "b \<in> canonical_actions" and s: "perm_wf s" "b \<notin> fst ` set s"
    by (auto simp: perm_wf_def)
  let ?m = "if ok then AList.update b True m else m"
  have m: "perm_wf ?m" using Cons.prems b by (simp add: perm_wf_update)
  have "merge_into (x # s) m = merge_into s ?m"
    using b x by (simp add: merge_into_def NormalizeAction_canonical)
  moreover have "perm_at (x # s) a \<longleftrightarrow> (a = b \<and> ok) \<or> perm_at s a" for a
    using s(2) x by (auto simp: perm_at_def map_of_eq_None_iff dest: map_of_SomeD)
       (metis image_eqI fst_conv map_of_SomeD)
  moreover have "perm_at ?m a \<longleftrightarrow> perm_at m a \<or> (a = b \<and> ok)" for a
    by (auto simp: perm_at_def update_conv)
  ultimately show ?case using Cons.IH [OF s(1) m] by auto
qed

lemma MergePermissionSets_two:
  assumes "perm_wf s" and "perm_wf r"
  shows "perm_wf (MergePermissionSets [s, r]) \<and>
     (\<forall>a. perm_at (MergePermissionSets [s, r]) a \<longleftrightarrow> perm_at s a \<or> perm_at r a)"
  using assms merge_into_spec [of s EmptyPermissionSet]
    merge_into_spec [of r "merge_into s EmptyPermissionSet"]
  by (simp add: MergePermissionSets_def)

lemma HasPermission_cases:
  "HasPermission perms a \<longleftrightarrow> NormalizeAction a \<noteq> [] \<and>
     (perm_at perms ActionOwner \<or> (NormalizeAction a \<noteq> ActionOwner \<and> perm_at perms ActionAdmin) \<or>
      perm_at perms (NormalizeAction a))"
  by (auto simp: HasPermission_def Let_def)

lemma HasPermission_union:
  "(\<And>a. perm_at m a \<longleftrightarrow> perm_at s a \<or> perm_at r a) \<Longrightarrow>
   HasPermission m a \<longleftrightarrow> HasPermission s a \<or> HasPermission r a"
  by (auto simp: HasPermission_cases)

section \<open>What \<open>Resolve\<close> computes\<close>

text \<open>
  The assignments that count: a known role, not expired, on this path or above it. The loop
  normalises the path of an assignment before it asks \<open>PathApplies\<close>, which normalises again.
\<close>

definition counts :: "gostr \<Rightarrow> int \<Rightarrow> assignment \<Rightarrow> bool" where
  "counts resource_path t a \<longleftrightarrow>
     IsValidRoleCode (as_role_code a) \<and> \<not> expired (as_expires_at a) t \<and>
     PathApplies (NormalizeResourcePath (as_resource_path a)) resource_path"

lemma IsValidRoleCode_idem: "IsValidRoleCode (NormalizeRoleCode r) \<longleftrightarrow> IsValidRoleCode r"
  by (simp add: IsValidRoleCode_def NormalizeRoleCode_def)

definition result_wf :: "access_result \<Rightarrow> bool" where
  "result_wf r \<longleftrightarrow> perm_wf (re_permissions r)"

lemma RolePermissions_normal [simp]:
  "IsValidRoleCode r \<Longrightarrow> RolePermissions (NormalizeRoleCode r) = RolePermissions r"
  by (simp add: RolePermissions_def IsValidRoleCode_normal)

lemma resolve_step_skip:
  "\<not> counts path t a \<Longrightarrow> resolve_step path t a r = r"
  by (auto simp: resolve_step_def counts_def IsValidRoleCode_idem Let_def)

lemma resolve_step_permissions:
  assumes "counts path t a"
  shows "re_permissions (resolve_step path t a r) =
     MergePermissionSets [re_permissions r, RolePermissions (as_role_code a)]"
  using assms
  by (auto simp: resolve_step_def counts_def IsValidRoleCode_idem Let_def split: option.splits)

lemma resolve_fold:
  assumes "perm_wf (re_permissions r)"
  shows "perm_wf (re_permissions (fold (resolve_step path t) as r)) \<and>
     (\<forall>b. perm_at (re_permissions (fold (resolve_step path t) as r)) b \<longleftrightarrow>
        perm_at (re_permissions r) b \<or>
        (\<exists>a \<in> set as. counts path t a \<and> perm_at (RolePermissions (as_role_code a)) b))"
  using assms
proof (induction as arbitrary: r)
  case Nil
  then show ?case by simp
next
  case (Cons a as)
  show ?case
  proof (cases "counts path t a")
    case True
    then have "perm_wf (re_permissions (resolve_step path t a r)) \<and>
        (\<forall>b. perm_at (re_permissions (resolve_step path t a r)) b \<longleftrightarrow>
           perm_at (re_permissions r) b \<or> perm_at (RolePermissions (as_role_code a)) b)"
      using MergePermissionSets_two [OF Cons.prems perm_wf_Role [of "as_role_code a"]]
      by (simp add: resolve_step_permissions)
    with Cons.IH [of "resolve_step path t a r"] True show ?thesis by auto
  next
    case False
    then show ?thesis using Cons by (simp add: resolve_step_skip)
  qed
qed

lemma Resolve_perm_at:
  assumes "t \<noteq> 0 \<or> current = t"
  shows "perm_at (re_permissions (Resolve current as path t)) b \<longleftrightarrow>
     (\<exists>a \<in> set as. counts (NormalizeResourcePath path) t a \<and>
        perm_at (RolePermissions (as_role_code a)) b)"
  using assms resolve_fold [of "\<lparr>re_resource_path = NormalizeResourcePath path, re_role_codes = [],
             re_permissions = EmptyPermissionSet, re_inherited_from = [],
             re_expires_at = None, re_assignments = []\<rparr>" "NormalizeResourcePath path" t as]
  by (auto simp: Resolve_def Let_def)

lemma Resolve_allows:
  "t \<noteq> 0 \<or> current = t \<Longrightarrow>
     HasPermission (re_permissions (Resolve current as path t)) action \<longleftrightarrow>
     (\<exists>a \<in> set as. counts (NormalizeResourcePath path) t a \<and>
        HasPermission (RolePermissions (as_role_code a)) action)"
  using Resolve_perm_at [of t current as path] by (auto simp: HasPermission_cases)

text \<open>
  \<open>Resolve\<close> grants an action exactly when one assignment that counts, taken alone, grants
  it: the role is known, it has not expired at time \<open>t\<close>, it sits on the resource or above it,
  and the role's own permissions allow the action. Nothing else (order, duplicates, expired or
  unknown roles, assignments on other paths) has any influence.
\<close>

theorem Resolve_HasPermission:
  assumes "t \<noteq> 0"
  shows "HasPermission (re_permissions (Resolve current as path t)) action \<longleftrightarrow>
     (\<exists>a \<in> set as. counts (NormalizeResourcePath path) t a \<and>
        HasPermission (RolePermissions (as_role_code a)) action)"
  by (rule Resolve_allows) (use assms in simp)

text \<open>A concrete directory with a grant on the workspace and an expired one below it.\<close>

definition sample_assignments :: "assignment list" where
  "sample_assignments =
     [\<lparr>as_tenant_user = ''t'', as_app = ''a'', as_principal = \<lparr>pr_type = ''user'', pr_key = ''bob''\<rparr>,
       as_resource_path = ''/t/a'', as_role_code = ''member'', as_expires_at = None,
       as_created_by = ''t''\<rparr>,
      \<lparr>as_tenant_user = ''t'', as_app = ''a'', as_principal = \<lparr>pr_type = ''user'', pr_key = ''bob''\<rparr>,
       as_resource_path = ''/t/a/d'', as_role_code = ''admin'', as_expires_at = Some 5,
       as_created_by = ''t''\<rparr>]"

lemma NormalizeResourcePath_plain:
  assumes "s \<noteq> []" "plain_char (hd s)" "plain_char (last s)" "hd s \<noteq> slash" "last s \<noteq> slash"
  shows "NormalizeResourcePath (slash # s) = slash # s"
proof -
  have "trim_space (slash # s) = slash # s" using assms by (simp add: trim_space_plain)
  moreover have "dropWhile (\<lambda>x. x = slash) s = s" using assms by (cases s) auto
  then have "trim_char slash (slash # s) = trim_char slash s" by (simp add: trim_char_def)
  moreover have "trim_char slash s = s" using assms by (simp add: trim_char_fix)
  ultimately show ?thesis using assms by (simp add: NormalizeResourcePath_def)
qed

theorem Resolve_HasPermission_witness:
  "(9::int) \<noteq> 0 \<and>
   HasPermission (re_permissions (Resolve 0 sample_assignments ''/t/a/d'' 9)) ''write'' \<and>
   \<not> HasPermission (re_permissions (Resolve 0 sample_assignments ''/t/a/d'' 9)) ''delete''"
proof -
  have path: "NormalizeResourcePath ''/t/a/d'' = ''/t/a/d''" "NormalizeResourcePath ''/t/a'' = ''/t/a''"
    by (simp_all add: NormalizeResourcePath_plain)
  have roles: "IsValidRoleCode ''member''" "IsValidRoleCode ''admin''"
    by (simp_all add: IsValidRoleCode_def NormalizeRoleCode_known)
  have "HasPermission (RolePermissions ''member'') ''write''"
    "\<not> HasPermission (RolePermissions ''member'') ''delete''"
    by (simp_all add: HasPermission_def RolePermissions_def perm_at_def NormalizeRoleCode_known
        NormalizeAction_canonical)
  then show ?thesis
    using Resolve_HasPermission [of 9 0 sample_assignments "''/t/a/d''" "''write''"]
      Resolve_HasPermission [of 9 0 sample_assignments "''/t/a/d''" "''delete''"]
    by (simp add: sample_assignments_def counts_def expired_def PathApplies_def path roles)
qed

text \<open>
  Permissions are inherited downwards: whatever an assignment list allows on a resource it
  also allows on every resource below it, at the same time.
\<close>

theorem Resolve_inherited:
  assumes "t \<noteq> 0" and "PathApplies upper lower"
    and "trimmed (NormalizeResourcePath upper)" and "trimmed (NormalizeResourcePath lower)"
    and "HasPermission (re_permissions (Resolve current as upper t)) action"
  shows "HasPermission (re_permissions (Resolve current as lower t)) action"
proof -
  have "PathApplies p (NormalizeResourcePath lower)"
    if "PathApplies p (NormalizeResourcePath upper)" for p
    using that assms(2-4) PathApplies_trans [of p upper lower]
    by (simp add: PathApplies_bodies NormalizeResourcePath_trimmed)
  then show ?thesis
    using assms(5) by (auto simp: Resolve_allows [OF disjI1 [OF assms(1)]] counts_def)
qed

theorem Resolve_inherited_witness:
  "PathApplies ''/t/a'' ''/t/a/d'' \<and>
   HasPermission (re_permissions (Resolve 0 sample_assignments ''/t/a/d'' 9)) ''write''"
proof -
  have path: "NormalizeResourcePath ''/t/a/d'' = ''/t/a/d''" "NormalizeResourcePath ''/t/a'' = ''/t/a''"
    by (simp_all add: NormalizeResourcePath_plain)
  have app: "PathApplies ''/t/a'' ''/t/a/d''" by (simp add: PathApplies_def path)
  have "HasPermission (RolePermissions ''member'') ''write''" "IsValidRoleCode ''member''"
    by (simp_all add: HasPermission_def RolePermissions_def perm_at_def NormalizeRoleCode_known
        NormalizeAction_canonical IsValidRoleCode_def)
  then have up: "HasPermission (re_permissions (Resolve 0 sample_assignments ''/t/a'' 9)) ''write''"
    by (simp add: Resolve_allows sample_assignments_def counts_def expired_def
        PathApplies_def path)
  have "trimmed (NormalizeResourcePath ''/t/a'')" "trimmed (NormalizeResourcePath ''/t/a/d'')"
    by (simp_all add: path trimmed_plain)
  with app up show ?thesis
    using Resolve_inherited [of 9 "''/t/a''" "''/t/a/d''" 0 sample_assignments "''write''"] by simp
qed

section \<open>Roles\<close>

lemma CoversRole_roles:
  "(CoversRole perms RoleOwner \<longleftrightarrow> perm_at perms ActionOwner) \<and>
   (CoversRole perms RoleAdmin \<longleftrightarrow> perm_at perms ActionOwner \<or> perm_at perms ActionAdmin) \<and>
   (CoversRole perms RoleMember \<longleftrightarrow> perm_at perms ActionOwner \<or> perm_at perms ActionAdmin \<or>
      (perm_at perms ActionRead \<and> perm_at perms ActionWrite \<and> perm_at perms ActionUpdate)) \<and>
   (CoversRole perms RoleViewer \<longleftrightarrow> perm_at perms ActionOwner \<or> perm_at perms ActionAdmin \<or>
      perm_at perms ActionRead)"
  by (auto simp: CoversRole_def RolePermissions_def HasPermission_def Let_def IsValidRoleCode_def
      NormalizeRoleCode_known NormalizeAction_canonical)

text \<open>
  The four roles form a chain, and \<open>CoversRole\<close> respects it: a permission set that covers
  a role covers every role below it; what it takes to cover one is exactly one action.
\<close>

theorem CoversRole_characterised:
  "(CoversRole perms RoleOwner \<longleftrightarrow> perm_at perms ActionOwner) \<and>
   (CoversRole perms RoleAdmin \<longleftrightarrow> perm_at perms ActionOwner \<or> perm_at perms ActionAdmin) \<and>
   (CoversRole perms RoleMember \<longleftrightarrow> perm_at perms ActionOwner \<or> perm_at perms ActionAdmin \<or>
      (perm_at perms ActionRead \<and> perm_at perms ActionWrite \<and> perm_at perms ActionUpdate)) \<and>
   (CoversRole perms RoleViewer \<longleftrightarrow> perm_at perms ActionOwner \<or> perm_at perms ActionAdmin \<or>
      perm_at perms ActionRead)"
  by (rule CoversRole_roles)

definition role_rank :: "gostr \<Rightarrow> nat" where
  "role_rank r = (if r = RoleOwner then 4 else if r = RoleAdmin then 3
                  else if r = RoleMember then 2 else 1)"

text \<open>
  A role granted through \<open>Resolve\<close> gives exactly the roles up to it: the permission set of
  a role covers another known role iff that one ranks no higher.
\<close>

theorem RolePermissions_cover_lower:
  assumes "IsValidRoleCode r" and "IsValidRoleCode r'"
  shows "CoversRole (RolePermissions r) r' \<longleftrightarrow>
     role_rank (NormalizeRoleCode r') \<le> role_rank (NormalizeRoleCode r)"
proof -
  have "CoversRole (RolePermissions r) r' \<longleftrightarrow>
      CoversRole (RolePermissions (NormalizeRoleCode r)) (NormalizeRoleCode r')"
    using assms by (simp add: CoversRole_def IsValidRoleCode_normal IsValidRoleCode_idem)
  with assms show ?thesis
    unfolding IsValidRoleCode_def
    by (auto simp: CoversRole_roles RolePermissions_def NormalizeRoleCode_known perm_at_def
        role_rank_def)
qed

theorem RolePermissions_cover_lower_witness:
  "CoversRole (RolePermissions ''admin'') ''member'' \<and> \<not> CoversRole (RolePermissions ''member'') ''admin''"
proof -
  have v: "IsValidRoleCode ''admin''" "IsValidRoleCode ''member''"
    by (simp_all add: IsValidRoleCode_def NormalizeRoleCode_known)
  show ?thesis
    using RolePermissions_cover_lower [OF v] RolePermissions_cover_lower [OF v(2,1)]
    by (simp add: NormalizeRoleCode_known role_rank_def)
qed

section \<open>Which grant a user sees\<close>

lemma resolve_step_inherited:
  assumes "counts path t a"
  shows "re_inherited_from (resolve_step path t a r) =
     (if re_inherited_from r = [] \<or>
         length (re_inherited_from r) < length (NormalizeResourcePath (as_resource_path a))
      then NormalizeResourcePath (as_resource_path a) else re_inherited_from r)"
  using assms
  by (auto simp: resolve_step_def counts_def IsValidRoleCode_idem Let_def split: option.splits)

lemma counts_path_not_Nil: "counts path t a \<Longrightarrow> NormalizeResourcePath (as_resource_path a) \<noteq> []"
  by (auto simp: counts_def PathApplies_def NormalizeResourcePath_def)

definition longest_of :: "gostr \<Rightarrow> gostr set \<Rightarrow> bool" where
  "longest_of p P \<longleftrightarrow> (if P = {} then p = [] else p \<in> P \<and> (\<forall>q \<in> P. length q \<le> length p))"

lemma resolve_fold_inherited:
  assumes "longest_of (re_inherited_from r) P" and "[] \<notin> P"
  shows "longest_of (re_inherited_from (fold (resolve_step path t) as r))
     (P \<union> (\<lambda>a. NormalizeResourcePath (as_resource_path a)) ` {a \<in> set as. counts path t a})"
  using assms
proof (induction as arbitrary: r P)
  case Nil
  then show ?case by simp
next
  case (Cons a as)
  show ?case
  proof (cases "counts path t a")
    case True
    let ?p = "NormalizeResourcePath (as_resource_path a)"
    have "longest_of (re_inherited_from (resolve_step path t a r)) (insert ?p P)"
      using Cons.prems counts_path_not_Nil [OF True]
      by (auto simp: resolve_step_inherited [OF True] longest_of_def split: if_splits)
    moreover have "[] \<notin> insert ?p P" using Cons.prems counts_path_not_Nil [OF True] by simp
    moreover have "P \<union> (\<lambda>a. NormalizeResourcePath (as_resource_path a)) `
          {x \<in> set (a # as). counts path t x} =
        insert ?p P \<union> (\<lambda>a. NormalizeResourcePath (as_resource_path a)) ` {x \<in> set as. counts path t x}"
      using True by auto
    ultimately show ?thesis using Cons.IH [of "resolve_step path t a r" "insert ?p P"] by simp
  next
    case False
    then have "{x \<in> set (a # as). counts path t x} = {x \<in> set as. counts path t x}" by auto
    with False Cons show ?thesis by (simp add: resolve_step_skip)
  qed
qed

text \<open>
  \<open>InheritedFrom\<close> names the nearest grant: a longest path among the assignments that
  count, blank when that is the resource itself or when nothing counts.
\<close>

theorem Resolve_inherited_from:
  assumes "t \<noteq> 0"
  shows "\<exists>p. longest_of p ((\<lambda>a. NormalizeResourcePath (as_resource_path a)) `
             {a \<in> set as. counts (NormalizeResourcePath path) t a}) \<and>
     re_inherited_from (Resolve current as path t) =
       (if p = NormalizeResourcePath path then [] else p)"
proof -
  let ?r = "\<lparr>re_resource_path = NormalizeResourcePath path, re_role_codes = [],
             re_permissions = EmptyPermissionSet, re_inherited_from = [],
             re_expires_at = None, re_assignments = []\<rparr>"
  have "longest_of (re_inherited_from ?r) {}" by (simp add: longest_of_def)
  then have "longest_of (re_inherited_from (fold (resolve_step (NormalizeResourcePath path) t) as ?r))
      ((\<lambda>a. NormalizeResourcePath (as_resource_path a)) `
         {a \<in> set as. counts (NormalizeResourcePath path) t a})"
    using resolve_fold_inherited [of ?r "{}"] by simp
  moreover have "re_inherited_from (Resolve current as path t) =
      (let p = re_inherited_from (fold (resolve_step (NormalizeResourcePath path) t) as ?r) in
       if p = NormalizeResourcePath path then [] else p)"
    using assms by (simp add: Resolve_def Let_def)
  ultimately show ?thesis by (auto simp: Let_def)
qed

theorem Resolve_inherited_from_witness:
  "re_inherited_from (Resolve 0 sample_assignments ''/t/a/d'' 9) = ''/t/a''"
proof -
  have path: "NormalizeResourcePath ''/t/a/d'' = ''/t/a/d''" "NormalizeResourcePath ''/t/a'' = ''/t/a''"
    by (simp_all add: NormalizeResourcePath_plain)
  have role: "IsValidRoleCode ''member''"
    by (simp add: IsValidRoleCode_def NormalizeRoleCode_known)
  have "{a \<in> set sample_assignments. counts ''/t/a/d'' 9 a} = {hd sample_assignments}"
    by (auto simp: sample_assignments_def counts_def expired_def PathApplies_def path role)
  then have "(\<lambda>a. NormalizeResourcePath (as_resource_path a)) `
        {a \<in> set sample_assignments. counts (NormalizeResourcePath ''/t/a/d'') 9 a} = {''/t/a''}"
    by (simp add: path sample_assignments_def)
  then show ?thesis
    using Resolve_inherited_from [of 9 sample_assignments "''/t/a/d''" 0]
    by (simp add: longest_of_def path)
qed

section \<open>Principals and identities\<close>

lemma ParentPaths_of_org:
  assumes "q \<in> set (ParentPaths d)"
  shows "(q = ''/org'' \<or> prefix ''/org/'' q) \<longleftrightarrow>
     (NormalizeResourcePath d = ''/org'' \<or> prefix ''/org/'' (NormalizeResourcePath d))"
proof -
  from assms obtain b i where b: "NormalizeResourcePath d = slash # b" and i: "0 < i"
      and q: "q = slash # join_with [slash] (take i (split_on slash b))"
    by (auto simp: in_ParentPaths)
  obtain x xs where x: "split_on slash b = x # xs" by (cases "split_on slash b") auto
  have head: "(join_with [slash] (x # ys) = ''org'' \<or> prefix ''org/'' (join_with [slash] (x # ys)))
      \<longleftrightarrow> x = ''org''" if "slash \<notin> set x" for ys
  proof (cases ys)
    case Nil
    then show ?thesis using that by (auto simp: prefix_def)
  next
    case (Cons y zs)
    then have "join_with [slash] (x # ys) = x @ slash # join_with [slash] ys" by simp
    moreover have "(x @ slash # w = ''org'' \<or> prefix ''org/'' (x @ slash # w)) \<longleftrightarrow> x = ''org''" for w
      using that by (cases x; cases "tl x"; cases "tl (tl x)"; cases "tl (tl (tl x))") auto
    ultimately show ?thesis by simp
  qed
  have "slash \<notin> set x" using x split_on_no_sep [of x slash b] by auto
  moreover have "b = join_with [slash] (x # xs)" using join_split_on [of slash b] x by simp
  moreover have "take i (x # xs) = x # take (i - 1) xs" using i by (cases i) auto
  ultimately show ?thesis using b q x head [of xs] head [of "take (i - 1) xs"] by auto
qed

text \<open>
  The department principals of a user are exactly the organisation nodes above the
  department, up to \<open>/org\<close>: a user outside \<open>/org\<close> gets none, so a grant to a department
  reaches its members and nobody else.
\<close>

theorem PrincipalsForUser_departments:
  assumes "trimmed (NormalizeResourcePath department_path)"
  shows "\<lparr>pr_type = PrincipalDepartment, pr_key = q\<rparr> \<in> set (PrincipalsForUser username department_path)
     \<longleftrightarrow> q \<in> set (ParentPaths department_path) \<and> (q = ''/org'' \<or> has_prefix q ''/org/'')"
proof -
  let ?d = "NormalizeResourcePath department_path"
  have parents: "ParentPaths ?d = ParentPaths department_path"
    by (simp add: ParentPaths_def NormalizeResourcePath_trimmed [OF assms])
  have user: "pr_type (NormalizePrincipal \<lparr>pr_type = PrincipalUser, pr_key = username\<rparr>) = PrincipalUser"
    by (simp add: NormalizePrincipal_def NormalizePrincipalType_def trim_space_plain to_lower_def
        lower_char_def)
  have "NormalizePrincipal \<lparr>pr_type = PrincipalUser, pr_key = username\<rparr> \<noteq>
      \<lparr>pr_type = PrincipalDepartment, pr_key = q\<rparr>"
  proof
    assume "NormalizePrincipal \<lparr>pr_type = PrincipalUser, pr_key = username\<rparr> =
      \<lparr>pr_type = PrincipalDepartment, pr_key = q\<rparr>"
    then have "pr_type (NormalizePrincipal \<lparr>pr_type = PrincipalUser, pr_key = username\<rparr>) =
      PrincipalDepartment" by simp
    with user show False by simp
  qed
  then show ?thesis
    using ParentPaths_of_org [of q department_path]
    by (auto simp: PrincipalsForUser_def Let_def parents)
qed

theorem PrincipalsForUser_departments_witness:
  "\<lparr>pr_type = ''department'', pr_key = ''/org''\<rparr> \<in> set (PrincipalsForUser ''bob'' ''/org/sales'')"
proof -
  have path: "NormalizeResourcePath ''/org/sales'' = ''/org/sales''"
    by (simp add: NormalizeResourcePath_plain)
  have "''/org'' \<in> set (ParentPaths ''/org/sales'')"
    by (auto simp: in_ParentPaths path intro!: exI [where x = "1::nat"])
  then show ?thesis
    using PrincipalsForUser_departments [of "''/org/sales''" "''/org''" "''bob''"]
    by (simp add: path trimmed_plain)
qed

text \<open>The payload of the key determines its parts, and a hash without collisions the payload.\<close>

lemma assignment_key_inj:
  assumes "inj_on sha256 S"
    and "join_with [CHR 0x00] (assignment_key_parts t a p r c) \<in> S"
    and "join_with [CHR 0x00] (assignment_key_parts t' a' p' r' c') \<in> S"
    and "\<And>x. x \<in> set (assignment_key_parts t a p r c) \<Longrightarrow> CHR 0x00 \<notin> set x"
    and "\<And>x. x \<in> set (assignment_key_parts t' a' p' r' c') \<Longrightarrow> CHR 0x00 \<notin> set x"
  shows "PermissionAssignmentKey sha256 t a p r c = PermissionAssignmentKey sha256 t' a' p' r' c' \<longleftrightarrow>
     assignment_key_parts t a p r c = assignment_key_parts t' a' p' r' c'"
proof
  assume "PermissionAssignmentKey sha256 t a p r c = PermissionAssignmentKey sha256 t' a' p' r' c'"
  then have "join_with [CHR 0x00] (assignment_key_parts t a p r c) =
      join_with [CHR 0x00] (assignment_key_parts t' a' p' r' c')"
    using assms(1-3) by (auto simp: PermissionAssignmentKey_def dest: inj_onD)
  then have "split_on (CHR 0x00) (join_with [CHR 0x00] (assignment_key_parts t a p r c)) =
      split_on (CHR 0x00) (join_with [CHR 0x00] (assignment_key_parts t' a' p' r' c'))" by simp
  moreover have "assignment_key_parts t a p r c \<noteq> []" "assignment_key_parts t' a' p' r' c' \<noteq> []"
    by (simp_all add: assignment_key_parts_def Let_def)
  ultimately show "assignment_key_parts t a p r c = assignment_key_parts t' a' p' r' c'"
    using assms(4,5) by (simp add: split_on_join_with)
qed (simp add: PermissionAssignmentKey_def)

text \<open>
  The assignment key identifies a grant: for components without a NUL byte and a hash that
  does not collide on the payloads, two grants share a key exactly when their normal forms
  (tenant, application, principal, path, role) agree.
\<close>

theorem PermissionAssignmentKey_identifies:
  assumes "inj_on sha256 S"
    and "join_with [CHR 0x00] (assignment_key_parts t a p r c) \<in> S"
    and "join_with [CHR 0x00] (assignment_key_parts t' a' p' r' c') \<in> S"
    and "\<And>x. x \<in> set (assignment_key_parts t a p r c) \<Longrightarrow> CHR 0x00 \<notin> set x"
    and "\<And>x. x \<in> set (assignment_key_parts t' a' p' r' c') \<Longrightarrow> CHR 0x00 \<notin> set x"
  shows "PermissionAssignmentKey sha256 t a p r c = PermissionAssignmentKey sha256 t' a' p' r' c' \<longleftrightarrow>
     assignment_key_parts t a p r c = assignment_key_parts t' a' p' r' c'"
  using assms by (rule assignment_key_inj)

text \<open>Two spellings of one grant share the key; another role has another one.\<close>

definition sample_bob :: principal where
  "sample_bob = \<lparr>pr_type = ''user'', pr_key = ''bob''\<rparr>"

lemma sample_key_parts:
  "assignment_key_parts ''alice'' ''crm'' sample_bob ''/alice/crm/'' ''viewer'' =
     [''alice'', ''crm'', ''user'', ''bob'', ''/alice/crm'', ''viewer'']"
  "assignment_key_parts ''alice'' ''crm'' sample_bob ''/alice/crm'' ''admin'' =
     [''alice'', ''crm'', ''user'', ''bob'', ''/alice/crm'', ''admin'']"
  by (simp_all add: sample_bob_def assignment_key_parts_def Let_def NormalizePrincipal_def
      NormalizePrincipalType_def NormalizeRoleCode_def NormalizeResourcePath_def trim_space_plain
      plain_char_def to_lower_def lower_char_def trim_char_def trim_right_char_def)

theorem PermissionAssignmentKey_identifies_witness:
  "PermissionAssignmentKey id ''alice'' ''crm'' sample_bob ''/alice/crm/'' ''viewer'' \<noteq>
   PermissionAssignmentKey id ''alice'' ''crm'' sample_bob ''/alice/crm'' ''admin''"
proof (subst PermissionAssignmentKey_identifies [of id UNIV "''alice''" "''crm''" sample_bob
      "''/alice/crm/''" "''viewer''" "''alice''" "''crm''" sample_bob "''/alice/crm''" "''admin''"])
qed (auto simp: sample_key_parts)

end
