(* ===== verification/RoleStore.thy ===== *)
theory RoleStore
  imports Access "HOL-Library.List_Lexorder" "HOL-Library.Char_ord"
begin

text \<open>
  The tables of the permission subsystem of the app server and their repositories
  (\<open>core/app-server/model/permission.go\<close>, \<open>permission_request.go\<close>, \<open>app.go\<close>;
  \<open>core/app-server/repository/role_assignment_repository.go\<close>, \<open>permission_request_repository.go\<close>
  and \<open>GetAppByUserName\<close> of \<open>app_repository.go\<close> with its cache). Rows are soft-deleted; strings
  are compared byte by byte. \<open>notices\<close> are the notifications handed to the notifier.
\<close>

section \<open>Rows\<close>

record role_row =
  ra_id :: int
  ra_created_at :: int
  ra_updated_at :: int
  ra_deleted_at :: "int option"
  ra_created_by :: gostr
  ra_updated_by :: gostr
  ra_deleted_by :: gostr
  ra_tenant_user :: gostr
  ra_app :: gostr
  ra_principal_type :: gostr
  ra_principal_key :: gostr
  ra_resource_path :: gostr
  ra_role_code :: gostr
  ra_assignment_key :: "gostr option"
  ra_expires_at :: "int option"

record request_row =
  wr_id :: int
  wr_created_at :: int
  wr_updated_at :: int
  wr_deleted_at :: "int option"
  wr_created_by :: gostr
  wr_updated_by :: gostr
  wr_tenant_user :: gostr
  wr_app :: gostr
  wr_requester :: gostr
  wr_resource_path :: gostr
  wr_requested_role :: gostr
  wr_reason :: gostr
  wr_status :: gostr
  wr_pending_key :: "gostr option"
  wr_reviewed_by :: gostr
  wr_reviewed_at :: "int option"
  wr_review_comment :: gostr
  wr_requested_expires :: "int option"

record app_row =
  ap_id :: int
  ap_deleted_at :: "int option"
  ap_created_by :: gostr
  ap_user :: gostr
  ap_code :: gostr
  ap_admins :: gostr

text \<open>An operate log, less the metadata copied from the request's headers.\<close>

record operate_log =
  ol_tenant_user :: gostr
  ol_app :: gostr
  ol_actor_user :: gostr
  ol_action :: gostr
  ol_resource_type :: gostr
  ol_resource_path :: gostr
  ol_target_user :: gostr
  ol_target_id :: gostr
  ol_summary :: gostr
  ol_status :: gostr

record notice =
  nt_to_user :: gostr
  nt_actor :: gostr
  nt_tenant_user :: gostr
  nt_app :: gostr
  nt_resource_path :: gostr

record perm_db =
  roles :: "role_row list"
  requests :: "request_row list"
  apps :: "app_row list"
  tree_paths :: "gostr list"
  app_cache :: "(gostr \<times> app_row \<times> int) list"
  op_logs :: "operate_log list"
  notices :: "notice list"

abbreviation RequestPending :: gostr where "RequestPending \<equiv> ''pending''"
abbreviation RequestApproved :: gostr where "RequestApproved \<equiv> ''approved''"
abbreviation RequestRejected :: gostr where "RequestRejected \<equiv> ''rejected''"
abbreviation RequestCancelled :: gostr where "RequestCancelled \<equiv> ''cancelled''"

text \<open>The errors, by what their messages say.\<close>

datatype perm_error =
    PErrDB
  | PErrNotFound
  | PErrDuplicateKey
  | PErrStateChanged
  | PErrBadPath gostr
  | PErrForbidden gostr gostr
  | PErrMissingField
  | PErrInvalidRole gostr
  | PErrExpiryPassed
  | PErrWrongWorkspace gostr
  | PErrNoActor
  | PErrOnlyOwnerGrants
  | PErrOnlyOwnerRevokes
  | PErrInvalidPrincipal gostr gostr
  | PErrUserUnknown
  | PErrUserLookup
  | PErrDepartmentUnknown gostr
  | PErrDepartmentLookup
  | PErrMixedWorkspaces
  | PErrRoleNotRequestable
  | PErrNoReason
  | PErrReasonTooLong
  | PErrNoWorkspace
  | PErrNoResource gostr
  | PErrAlreadyGranted gostr
  | PErrAlreadyPending
  | PErrNotOwnRequest
  | PErrAlreadyHandled
  | PErrOwnRequest
  | PErrNotApprover perm_error
  | PErrNoComment
  | PErrNotInitialised

type_synonym 'a perm = "(perm_db, perm_error, 'a) act"

definition row_live :: "role_row \<Rightarrow> bool" where
  "row_live r \<longleftrightarrow> ra_deleted_at r = None"

section \<open>Role assignments\<close>

definition row_key :: "(gostr \<Rightarrow> gostr) \<Rightarrow> role_row \<Rightarrow> gostr" where
  "row_key sha256 r =
     PermissionAssignmentKey sha256 (ra_tenant_user r) (ra_app r)
       \<lparr>pr_type = ra_principal_type r, pr_key = ra_principal_key r\<rparr> (ra_resource_path r) (ra_role_code r)"

text \<open>
  \<open>INSERT ... ON CONFLICT (assignment_key) DO UPDATE\<close>: a row with the key, deleted or not, is
  revived with the new expiry; its other columns stay.
\<close>

definition UpsertAssignment :: "(gostr \<Rightarrow> gostr) \<Rightarrow> role_row \<Rightarrow> unit perm" where
  "UpsertAssignment sha256 a =
     (let key = row_key sha256 a in
      andThen (next_id ''workspace_role_assignments'') (\<lambda>i. andThen now (\<lambda>t.
      modify PErrDB (\<lambda>s. ((),
        if list_ex (\<lambda>r. ra_assignment_key r = Some key) (roles s)
        then s\<lparr>roles := upd (\<lambda>r. ra_assignment_key r = Some key)
               (\<lambda>r. r\<lparr>ra_expires_at := ra_expires_at a, ra_updated_by := ra_updated_by a,
                      ra_updated_at := t, ra_deleted_at := None, ra_deleted_by := []\<rparr>) (roles s)\<rparr>
        else s\<lparr>roles := roles s @ [a\<lparr>ra_id := i, ra_created_at := t, ra_updated_at := t,
                                      ra_assignment_key := Some key\<rparr>]\<rparr>)))))"

definition RemoveAssignment ::
  "gostr \<Rightarrow> gostr \<Rightarrow> principal \<Rightarrow> gostr \<Rightarrow> gostr \<Rightarrow> nat perm" where
  "RemoveAssignment tenant_user app pr resource_path role_code =
     (let pr = NormalizePrincipal pr;
          P = (\<lambda>r. row_live r \<and> ra_tenant_user r = tenant_user \<and> ra_app r = app \<and>
                   ra_principal_type r = pr_type pr \<and> ra_principal_key r = pr_key pr \<and>
                   ra_resource_path r = resource_path \<and>
                   (role_code \<noteq> [] \<longrightarrow> ra_role_code r = role_code)) in
      andThen now (\<lambda>t. modify PErrDB (\<lambda>s.
        (hits P (roles s), s\<lparr>roles := upd P (\<lambda>r. r\<lparr>ra_deleted_at := Some t\<rparr>) (roles s)\<rparr>))))"

text \<open>The loop of \<open>filterAssignmentPrincipals\<close>: valid, distinct keys by type.\<close>

fun collect_principals ::
  "principal list \<Rightarrow> gostr list \<Rightarrow> gostr list \<Rightarrow> gostr list \<Rightarrow> gostr list \<times> gostr list" where
  "collect_principals [] seen user_keys department_keys = (user_keys, department_keys)"
| "collect_principals (p # ps) seen user_keys department_keys =
     (let pr = NormalizePrincipal p;
          ident = pr_type pr @ CHR 0x00 # pr_key pr in
      if \<not> IsValidPrincipal pr then collect_principals ps seen user_keys department_keys
      else if ident \<in> set seen then collect_principals ps seen user_keys department_keys
      else if pr_type pr = PrincipalUser
      then collect_principals ps (ident # seen) (user_keys @ [pr_key pr]) department_keys
      else if pr_type pr = PrincipalDepartment
      then collect_principals ps (ident # seen) user_keys (department_keys @ [pr_key pr])
      else collect_principals ps (ident # seen) user_keys department_keys)"

definition principal_matches :: "principal list \<Rightarrow> role_row \<Rightarrow> bool" where
  "principal_matches ps r =
     (case collect_principals ps [] [] [] of (user_keys, department_keys) \<Rightarrow>
        (ra_principal_type r = PrincipalUser \<and> ra_principal_key r \<in> set user_keys) \<or>
        (ra_principal_type r = PrincipalDepartment \<and> ra_principal_key r \<in> set department_keys))"

definition assignments_for :: "gostr \<Rightarrow> gostr \<Rightarrow> principal list \<Rightarrow> perm_db \<Rightarrow> role_row list" where
  "assignments_for tenant_user app ps s =
     order2 ra_resource_path ra_role_code
       (sel (\<lambda>r. row_live r \<and> ra_tenant_user r = tenant_user \<and> ra_app r = app \<and>
                 principal_matches ps r) (roles s))"

definition ListAssignmentsForPrincipals ::
  "gostr \<Rightarrow> gostr \<Rightarrow> principal list \<Rightarrow> role_row list perm" where
  "ListAssignmentsForPrincipals tenant_user app ps =
     query PErrDB (assignments_for tenant_user app ps)"

definition ListAssignmentsForWorkspace :: "gostr \<Rightarrow> gostr \<Rightarrow> role_row list perm" where
  "ListAssignmentsForWorkspace tenant_user app =
     query PErrDB (\<lambda>s. order2 ra_resource_path ra_principal_type (order2 ra_principal_key ra_role_code
       (sel (\<lambda>r. row_live r \<and> ra_tenant_user r = tenant_user \<and> ra_app r = app) (roles s))))"

definition ListActiveAssignmentsForPrincipals :: "principal list \<Rightarrow> int \<Rightarrow> role_row list perm" where
  "ListActiveAssignmentsForPrincipals ps t =
     query PErrDB (\<lambda>s. order2 ra_tenant_user ra_app (order2 ra_resource_path ra_resource_path
       (sel (\<lambda>r. row_live r \<and> principal_matches ps r \<and>
                 (case ra_expires_at r of None \<Rightarrow> True | Some e \<Rightarrow> e > t)) (roles s))))"

section \<open>Permission requests\<close>

definition request_live :: "request_row \<Rightarrow> bool" where
  "request_live r \<longleftrightarrow> wr_deleted_at r = None"

definition require_row :: "'r option \<Rightarrow> 'r perm" where
  "require_row r = (case r of None \<Rightarrow> fail PErrNotFound | Some x \<Rightarrow> ret x)"

text \<open>The unique index on \<open>pending_key\<close> covers every row with a key.\<close>

definition RequestCreate :: "request_row \<Rightarrow> request_row perm" where
  "RequestCreate request =
     andThen (next_id ''workspace_permission_requests'') (\<lambda>i. andThen now (\<lambda>t.
       let row = request\<lparr>wr_id := i, wr_created_at := t, wr_updated_at := t\<rparr> in
       stmt PErrDB (\<lambda>s.
         if wr_pending_key row \<noteq> None \<and>
            list_ex (\<lambda>r. wr_pending_key r = wr_pending_key row) (requests s)
         then (Inl PErrDuplicateKey, s)
         else (Inr row, s\<lparr>requests := requests s @ [row]\<rparr>))))"

definition FindPending :: "gostr \<Rightarrow> gostr \<Rightarrow> gostr \<Rightarrow> gostr \<Rightarrow> request_row perm" where
  "FindPending tenant_user app requester resource_path =
     andThen (query PErrDB (\<lambda>s. first_row (\<lambda>_. True) (sort_key (\<lambda>r. - wr_id r)
       (sel (\<lambda>r. request_live r \<and> wr_tenant_user r = tenant_user \<and> wr_app r = app \<and>
                 wr_requester r = requester \<and> wr_resource_path r = resource_path \<and>
                 wr_status r = RequestPending) (requests s))))) require_row"

definition RequestListMine :: "gostr \<Rightarrow> gostr \<Rightarrow> gostr \<Rightarrow> gostr \<Rightarrow> request_row list perm" where
  "RequestListMine tenant_user app requester status =
     query PErrDB (\<lambda>s. order2 (\<lambda>r. - wr_created_at r) (\<lambda>r. - wr_id r)
       (sel (\<lambda>r. request_live r \<and> wr_tenant_user r = tenant_user \<and> wr_app r = app \<and>
                 wr_requester r = requester \<and> (status \<noteq> [] \<longrightarrow> wr_status r = status)) (requests s)))"

definition RequestGetByID :: "int \<Rightarrow> request_row perm" where
  "RequestGetByID i =
     andThen (query PErrDB (\<lambda>s. first_row (\<lambda>r. request_live r \<and> wr_id r = i) (requests s))) require_row"

definition RequestListWorkspace :: "gostr \<Rightarrow> gostr \<Rightarrow> gostr list \<Rightarrow> request_row list perm" where
  "RequestListWorkspace tenant_user app statuses =
     query PErrDB (\<lambda>s. order2 (\<lambda>r. - wr_created_at r) (\<lambda>r. - wr_id r)
       (sel (\<lambda>r. request_live r \<and> wr_tenant_user r = tenant_user \<and> wr_app r = app \<and>
                 (statuses \<noteq> [] \<longrightarrow> wr_status r \<in> set statuses)) (requests s)))"

text \<open>\<open>Updates\<close> under \<open>WHERE id = ? AND status = ?\<close>; the answer says whether one row changed.\<close>

definition update_requests ::
  "(request_row \<Rightarrow> bool) \<Rightarrow> (request_row \<Rightarrow> request_row) \<Rightarrow> bool perm" where
  "update_requests P f = andThen now (\<lambda>t. modify PErrDB (\<lambda>s.
     let Q = (\<lambda>r. request_live r \<and> P r) in
     (hits Q (requests s) = 1, s\<lparr>requests := upd Q (\<lambda>r. (f r)\<lparr>wr_updated_at := t\<rparr>) (requests s)\<rparr>)))"

definition UpdateDecisionWithDB ::
  "int \<Rightarrow> gostr \<Rightarrow> (request_row \<Rightarrow> request_row) \<Rightarrow> unit perm" where
  "UpdateDecisionWithDB i from_status updates =
     andThen (update_requests (\<lambda>r. wr_id r = i \<and> wr_status r = from_status) updates) (\<lambda>one.
       if one then ret () else fail PErrStateChanged)"

section \<open>Applications, with their cache\<close>

abbreviation appCacheTTL :: int where "appCacheTTL \<equiv> 300000000000"

text \<open>
  \<open>GetAppByUserName\<close>: an entry younger than the time to live answers; otherwise the row is read
  and cached. The in-process cache does not need the database.
\<close>

definition cache_get :: "gostr \<Rightarrow> int \<Rightarrow> perm_db \<Rightarrow> app_row option" where
  "cache_get key t s =
     (case map_of (app_cache s) key of None \<Rightarrow> None
      | Some (row, cached_at) \<Rightarrow> if t - cached_at < appCacheTTL then Some row else None)"

definition cache_lookup :: "gostr \<Rightarrow> app_row option perm" where
  "cache_lookup key = (\<lambda>w. (Inr (cache_get key (clock w) (store w)), w))"

definition cache_put :: "gostr \<Rightarrow> app_row \<Rightarrow> unit perm" where
  "cache_put key row = (\<lambda>w. (Inr (), w\<lparr>store := (store w)\<lparr>app_cache :=
     AList.update key (row, clock w) (app_cache (store w))\<rparr>\<rparr>))"

definition GetAppByUserName :: "gostr \<Rightarrow> gostr \<Rightarrow> app_row perm" where
  "GetAppByUserName user app =
     (let key = user @ CHR '':'' # app in
      andThen (cache_lookup key) (\<lambda>cached.
        case cached of Some row \<Rightarrow> ret row
        | None \<Rightarrow>
            andThen (query PErrDB (\<lambda>s. first_row
              (\<lambda>a. ap_deleted_at a = None \<and> ap_user a = user \<and> ap_code a = app) (apps s))) (\<lambda>found.
            andThen (require_row found) (\<lambda>row.
            andThen (cache_put key row) (\<lambda>_. ret row)))))"

definition GetAppsByUserAppPairs :: "(gostr \<times> gostr) list \<Rightarrow> app_row list perm" where
  "GetAppsByUserAppPairs pairs =
     (if pairs = [] then ret []
      else query PErrDB (\<lambda>s. sel (\<lambda>a. ap_deleted_at a = None \<and> (ap_user a, ap_code a) \<in> set pairs)
             (apps s)))"

text \<open>\<open>GetServiceTreeByFullPath\<close> as far as its caller looks at it: is there such a node.\<close>

definition tree_has :: "gostr \<Rightarrow> bool perm" where
  "tree_has path = query PErrDB (\<lambda>s. path \<in> set (tree_paths s))"

section \<open>Audit and notification\<close>

text \<open>
  The operate log is written by a goroutine of its own: when its statement fails the failure is
  only logged. \<open>write_log\<close> is that statement.
\<close>

definition write_log :: "operate_log \<Rightarrow> unit perm" where
  "write_log log =
     andThen (attempt (modify PErrDB (\<lambda>s. ((), s\<lparr>op_logs := op_logs s @ [log]\<rparr>)) :: unit perm))
       (\<lambda>_. ret ())"

definition send_notice :: "notice \<Rightarrow> unit perm" where
  "send_notice n = (\<lambda>w. (Inr (), w\<lparr>store := (store w)\<lparr>notices := notices (store w) @ [n]\<rparr>\<rparr>))"

definition IsOwnerOrAdmin :: "app_row \<Rightarrow> gostr \<Rightarrow> bool" where
  "IsOwnerOrAdmin a username =
     (let username = trim_space username in
      if username = [] then False
      else if trim_space (ap_user a) = username \<or> trim_space (ap_created_by a) = username then True
      else list_ex (\<lambda>admin. trim_space admin = username) (split_on (CHR '','') (ap_admins a)))"

end
