(* ===== verification/GrantStore.thy ===== *)
theory GrantStore
  imports RoleStore
begin

text \<open>
  What the assignment repository promises to the permission service: seen as a finite map from
  the identity of a grant (tenant, application, principal, path, role) to its expiry, an upsert
  is an update of the map and a removal a restriction. The interfaces are the locales \<open>grant_map\<close> and
  \<open>grant_store\<close>. The repository of \<open>RoleStore\<close> provides the first for the identities its key hashes, which
  are the columns in normal form, and the second, with removals, on tables whose columns are in normal
  form themselves.
\<close>

section \<open>The interface\<close>

locale grant_map =
  fixes view :: "'s \<Rightarrow> 'g \<rightharpoonup> int option"
    and inv :: "'s \<Rightarrow> bool"
    and admissible :: "'r \<Rightarrow> bool"
    and ident :: "'r \<Rightarrow> 'g"
    and expiry :: "'r \<Rightarrow> int option"
    and upsert :: "'r \<Rightarrow> ('s, 'e, unit) act"
  assumes upsert_refines:
      "admissible a \<Longrightarrow> hoare (\<lambda>s. inv s \<and> view s = m) (upsert a)
         (\<lambda>_ s. inv s \<and> view s = m(ident a \<mapsto> expiry a))"
begin

text \<open>The abstract effect of a list of upserts.\<close>

definition put_all :: "'r list \<Rightarrow> ('g \<rightharpoonup> int option) \<Rightarrow> ('g \<rightharpoonup> int option)" where
  "put_all rs m = fold (\<lambda>a m. m(ident a \<mapsto> expiry a)) rs m"

lemma upsert_all_refines:
  "(\<And>a. a \<in> set rs \<Longrightarrow> admissible a) \<Longrightarrow>
     hoare (\<lambda>s. inv s \<and> view s = m) (for_each upsert rs)
       (\<lambda>_ s. inv s \<and> view s = put_all rs m)"
proof (induction rs arbitrary: m)
  case Nil
  then show ?case by (auto simp: put_all_def intro: hoare_ret)
next
  case (Cons a rs)
  then show ?case
    by (auto simp: put_all_def intro!: hoare_andThen upsert_refines)
qed

text \<open>A list of upserts in one transaction.\<close>

lemma upsert_tx_refines:
  "(\<And>a. a \<in> set rs \<Longrightarrow> admissible a) \<Longrightarrow>
     hoare (\<lambda>s. inv s \<and> view s = m) (tx e (for_each upsert rs))
       (\<lambda>_ s. inv s \<and> view s = put_all rs m)"
  by (rule hoare_tx) (rule upsert_all_refines)

lemma put_all_other: "g \<notin> ident ` set rs \<Longrightarrow> put_all rs m g = m g"
  by (induction rs arbitrary: m) (auto simp: put_all_def)

lemma put_all_same:
  "g \<in> ident ` set rs \<Longrightarrow> (\<And>a. a \<in> set rs \<Longrightarrow> expiry a = e) \<Longrightarrow> put_all rs m g = Some e"
proof (induction rs arbitrary: m)
  case (Cons a rs)
  then show ?case
  proof (cases "g \<in> ident ` set rs")
    case True
    with Cons show ?thesis by (simp add: put_all_def)
  next
    case False
    then have "g = ident a" using Cons.prems(1) by auto
    with False Cons.prems show ?thesis
      using put_all_other [of g rs "m(ident a \<mapsto> expiry a)"] by (simp add: put_all_def)
  qed
qed simp

text \<open>Granting what is there already with the same expiry changes nothing.\<close>

lemma put_idle: "m (ident a) = Some (expiry a) \<Longrightarrow> put_all [a] m = m"
  by (auto simp: put_all_def)

end

text \<open>The same with removals.\<close>

locale grant_store = grant_map view inv admissible ident expiry upsert
  for view :: "'s \<Rightarrow> 'g \<rightharpoonup> int option"
    and inv :: "'s \<Rightarrow> bool"
    and admissible :: "'r \<Rightarrow> bool"
    and ident :: "'r \<Rightarrow> 'g"
    and expiry :: "'r \<Rightarrow> int option"
    and upsert :: "'r \<Rightarrow> ('s, 'e, unit) act" +
  fixes names :: "'q \<Rightarrow> 'g \<Rightarrow> bool"
    and remove :: "'q \<Rightarrow> ('s, 'e, nat) act"
  assumes remove_refines:
      "hoare (\<lambda>s. inv s \<and> view s = m) (remove q)
         (\<lambda>_ s. inv s \<and> view s = m |` {g. \<not> names q g})"
begin

text \<open>A grant that was removed is gone, and the others stay.\<close>

lemma removed_absent: "names q g \<Longrightarrow> (m |` {g. \<not> names q g}) g = None"
  and removed_other: "\<not> names q g \<Longrightarrow> (m |` {g. \<not> names q g}) g = m g"
  by simp_all

end

section \<open>The table of assignments as such a map\<close>

definition grant_id :: "role_row \<Rightarrow> gostr list" where
  "grant_id r = assignment_key_parts (ra_tenant_user r) (ra_app r)
     \<lparr>pr_type = ra_principal_type r, pr_key = ra_principal_key r\<rparr> (ra_resource_path r) (ra_role_code r)"

definition row_columns :: "role_row \<Rightarrow> gostr list" where
  "row_columns r = [ra_tenant_user r, ra_app r, ra_principal_type r, ra_principal_key r,
     ra_resource_path r, ra_role_code r]"

text \<open>
  The identity of a row is what its key hashes. It has no NUL byte, which separates the parts in the
  payload, and the hash is free of collisions on the set \<open>S\<close> the payload lies in.
\<close>

definition payload_ok :: "gostr set \<Rightarrow> role_row \<Rightarrow> bool" where
  "payload_ok S r \<longleftrightarrow> join_with [CHR 0x00] (grant_id r) \<in> S \<and> list_all (\<lambda>x. CHR 0x00 \<notin> set x) (grant_id r)"

definition keys_ok :: "(gostr \<Rightarrow> gostr) \<Rightarrow> gostr set \<Rightarrow> perm_db \<Rightarrow> bool" where
  "keys_ok sha256 S s \<longleftrightarrow> inj_on sha256 S \<and> distinct (map ra_assignment_key (roles s)) \<and>
     (\<forall>r \<in> set (roles s). payload_ok S r \<and> ra_assignment_key r = Some (row_key sha256 r))"

definition keyed_grants :: "perm_db \<Rightarrow> gostr list \<rightharpoonup> int option" where
  "keyed_grants s = map_of (map (\<lambda>r. (grant_id r, ra_expires_at r)) (sel row_live (roles s)))"

text \<open>A row in normal form: its columns are what the key hashes.\<close>

definition row_normal :: "gostr set \<Rightarrow> role_row \<Rightarrow> bool" where
  "row_normal S r \<longleftrightarrow> grant_id r = row_columns r \<and> join_with [CHR 0x00] (grant_id r) \<in> S \<and>
     list_all (\<lambda>x. CHR 0x00 \<notin> set x) (row_columns r)"

definition roles_ok :: "(gostr \<Rightarrow> gostr) \<Rightarrow> gostr set \<Rightarrow> perm_db \<Rightarrow> bool" where
  "roles_ok sha256 S s \<longleftrightarrow> inj_on sha256 S \<and> distinct (map ra_assignment_key (roles s)) \<and>
     (\<forall>r \<in> set (roles s). row_normal S r \<and> ra_assignment_key r = Some (row_key sha256 r))"

definition live_grants :: "perm_db \<Rightarrow> gostr list \<rightharpoonup> int option" where
  "live_grants s = map_of (map (\<lambda>r. (row_columns r, ra_expires_at r)) (sel row_live (roles s)))"

text \<open>On a table in normal form the two views are the same.\<close>

lemma row_normal_payload: "row_normal S r \<longleftrightarrow> payload_ok S r \<and> grant_id r = row_columns r"
  by (auto simp: row_normal_def payload_ok_def)

lemma roles_ok_keys:
  "roles_ok sha256 S s \<longleftrightarrow> keys_ok sha256 S s \<and> (\<forall>r \<in> set (roles s). grant_id r = row_columns r)"
  by (auto simp: roles_ok_def keys_ok_def row_normal_payload)

lemma live_grants_keyed: "roles_ok sha256 S s \<Longrightarrow> live_grants s = keyed_grants s"
  unfolding live_grants_def keyed_grants_def
  by (intro arg_cong [where f = map_of] map_cong) (auto simp: roles_ok_keys)

text \<open>What a removal names: a role, or every role when the code is blank.\<close>

type_synonym grant_query = "gostr \<times> gostr \<times> principal \<times> gostr \<times> gostr"

fun names_grant :: "grant_query \<Rightarrow> gostr list \<Rightarrow> bool" where
  "names_grant (tenant_user, app, pr, path, role_code) g \<longleftrightarrow>
     (let pr = NormalizePrincipal pr in
      \<exists>role. g = [tenant_user, app, pr_type pr, pr_key pr, path, role] \<and>
             (role_code \<noteq> [] \<longrightarrow> role = role_code))"

fun remove_query :: "grant_query \<Rightarrow> nat perm" where
  "remove_query (tenant_user, app, pr, path, role_code) =
     RemoveAssignment tenant_user app pr path role_code"

lemma row_key_inj:
  assumes inj: "inj_on sha256 S" and "payload_ok S r" and "payload_ok S r'"
  shows "row_key sha256 r = row_key sha256 r' \<longleftrightarrow> grant_id r = grant_id r'"
proof -
  have parts: "join_with [CHR 0x00] (grant_id x) \<in> S" "\<And>y. y \<in> set (grant_id x) \<Longrightarrow> CHR 0x00 \<notin> set y"
    if "payload_ok S x" for x
    using that unfolding payload_ok_def list_all_iff by auto
  show ?thesis
    unfolding row_key_def grant_id_def
    by (rule assignment_key_inj [OF inj])
      (use parts assms(2,3) in \<open>simp_all add: grant_id_def\<close>)
qed

lemma keys_ok_ids:
  assumes "keys_ok sha256 S s"
  shows "distinct (map grant_id (roles s))"
proof -
  have "distinct (roles s)" and inj: "inj_on ra_assignment_key (set (roles s))"
    using assms by (simp_all add: keys_ok_def distinct_map)
  moreover have "inj_on grant_id (set (roles s))"
  proof (rule inj_onI)
    fix r r'
    assume r: "r \<in> set (roles s)" "r' \<in> set (roles s)" and "grant_id r = grant_id r'"
    then have "row_key sha256 r = row_key sha256 r'"
      using assms row_key_inj [of sha256 S r r'] by (simp add: keys_ok_def)
    then have "ra_assignment_key r = ra_assignment_key r'" using r assms by (simp add: keys_ok_def)
    then show "r = r'" using r inj by (simp add: inj_on_eq_iff)
  qed
  ultimately show ?thesis by (simp add: distinct_map)
qed

lemma keyed_grants_Some:
  assumes "keys_ok sha256 S s"
  shows "keyed_grants s g = Some e \<longleftrightarrow>
     (\<exists>r \<in> set (roles s). row_live r \<and> grant_id r = g \<and> ra_expires_at r = e)"
proof -
  have "distinct (map grant_id (sel row_live (roles s)))"
    using keys_ok_ids [OF assms] by (simp add: sel_def distinct_map_filter)
  then have "distinct (map fst (map (\<lambda>r. (grant_id r, ra_expires_at r)) (sel row_live (roles s))))"
    by (simp add: comp_def)
  then show ?thesis unfolding keyed_grants_def by (auto simp: map_of_eq_Some_iff)
qed

lemma live_grants_Some:
  assumes "roles_ok sha256 S s"
  shows "live_grants s g = Some e \<longleftrightarrow>
     (\<exists>r \<in> set (roles s). row_live r \<and> row_columns r = g \<and> ra_expires_at r = e)"
  using assms keyed_grants_Some [of sha256 S s g e] live_grants_keyed [OF assms]
  by (auto simp: roles_ok_keys)

text \<open>Two tables with the same live rows, up to identity and expiry, have the same grants.\<close>

lemma map_eq_Some_iff:
  assumes "\<And>g e. f g = Some e \<longleftrightarrow> m g = Some e"
  shows "f = m"
proof
  fix g show "f g = m g" using assms [of g "the (f g)"] assms [of g "the (m g)"]
    by (cases "f g"; cases "m g") simp_all
qed

lemma keyed_grants_eqI:
  assumes "keys_ok sha256 S s"
    and "\<And>g e. m g = Some e \<longleftrightarrow>
      (\<exists>r \<in> set (roles s). row_live r \<and> grant_id r = g \<and> ra_expires_at r = e)"
  shows "keyed_grants s = m"
  by (rule map_eq_Some_iff) (unfold keyed_grants_Some [OF assms(1)] assms(2), rule refl)

lemma live_grants_eqI:
  assumes "roles_ok sha256 S s"
    and "\<And>g e. m g = Some e \<longleftrightarrow>
      (\<exists>r \<in> set (roles s). row_live r \<and> row_columns r = g \<and> ra_expires_at r = e)"
  shows "live_grants s = m"
  by (rule map_eq_Some_iff) (unfold live_grants_Some [OF assms(1)] assms(2), rule refl)

section \<open>The repository provides the interface\<close>

definition revived :: "role_row \<Rightarrow> int \<Rightarrow> role_row \<Rightarrow> role_row" where
  "revived a t r = r\<lparr>ra_expires_at := ra_expires_at a, ra_updated_by := ra_updated_by a,
                    ra_updated_at := t, ra_deleted_at := None, ra_deleted_by := []\<rparr>"

definition stored :: "(gostr \<Rightarrow> gostr) \<Rightarrow> int \<Rightarrow> int \<Rightarrow> role_row \<Rightarrow> role_row" where
  "stored sha256 i t a = a\<lparr>ra_id := i, ra_created_at := t, ra_updated_at := t,
                          ra_assignment_key := Some (row_key sha256 a)\<rparr>"

definition upsert_rows ::
  "(gostr \<Rightarrow> gostr) \<Rightarrow> role_row \<Rightarrow> int \<Rightarrow> int \<Rightarrow> role_row list \<Rightarrow> role_row list" where
  "upsert_rows sha256 a i t rows =
     (if list_ex (\<lambda>r. ra_assignment_key r = Some (row_key sha256 a)) rows
      then upd (\<lambda>r. ra_assignment_key r = Some (row_key sha256 a)) (revived a t) rows
      else rows @ [stored sha256 i t a])"

lemma UpsertAssignment_alt:
  "UpsertAssignment sha256 a = andThen (next_id ''workspace_role_assignments'') (\<lambda>i. andThen now (\<lambda>t.
     modify PErrDB (\<lambda>s. ((), s\<lparr>roles := upsert_rows sha256 a i t (roles s)\<rparr>))))"
  unfolding UpsertAssignment_def upsert_rows_def revived_def [abs_def] stored_def Let_def
  by (simp cong: if_cong add: if_distrib [where f = "\<lambda>rs. _\<lparr>roles := rs\<rparr>"])

lemma revived_fields [simp]:
  "row_columns (revived a t r) = row_columns r" "grant_id (revived a t r) = grant_id r"
  "payload_ok S (revived a t r) = payload_ok S r" "row_live (revived a t r)"
  "ra_expires_at (revived a t r) = ra_expires_at a"
  "row_normal S (revived a t r) = row_normal S r" "row_key sha256 (revived a t r) = row_key sha256 r"
  "ra_assignment_key (revived a t r) = ra_assignment_key r"
  by (simp_all add: revived_def row_columns_def row_live_def row_normal_def payload_ok_def grant_id_def row_key_def)

lemma stored_fields [simp]:
  "row_columns (stored sha256 i t a) = row_columns a" "grant_id (stored sha256 i t a) = grant_id a"
  "payload_ok S (stored sha256 i t a) = payload_ok S a"
  "row_live (stored sha256 i t a) = row_live a"
  "ra_expires_at (stored sha256 i t a) = ra_expires_at a"
  "row_normal S (stored sha256 i t a) = row_normal S a"
  "row_key sha256 (stored sha256 i t a) = row_key sha256 a"
  "ra_assignment_key (stored sha256 i t a) = Some (row_key sha256 a)"
  by (simp_all add: stored_def row_columns_def row_live_def row_normal_def payload_ok_def grant_id_def row_key_def)

lemma upsert_rows_ok:
  assumes ok: "keys_ok sha256 S s" and a: "payload_ok S a"
  shows "keys_ok sha256 S (s\<lparr>roles := upsert_rows sha256 a i t (roles s)\<rparr>)"
proof (cases "list_ex (\<lambda>r. ra_assignment_key r = Some (row_key sha256 a)) (roles s)")
  case True
  then show ?thesis using ok
    by (auto simp: keys_ok_def upsert_rows_def map_upd in_upd_iff)
next
  case False
  then show ?thesis using ok a
    by (auto simp: keys_ok_def upsert_rows_def list_ex_iff)
qed

lemma upsert_rows_grants:
  assumes ok: "keys_ok sha256 S s" and a: "payload_ok S a" and live: "row_live a"
  shows "keyed_grants (s\<lparr>roles := upsert_rows sha256 a i t (roles s)\<rparr>) =
     (keyed_grants s)(grant_id a \<mapsto> ra_expires_at a)"
proof (rule keyed_grants_eqI [OF upsert_rows_ok [OF ok a]])
  fix g e
  have key: "ra_assignment_key r = Some (row_key sha256 a) \<longleftrightarrow> grant_id r = grant_id a"
    if "r \<in> set (roles s)" for r
    using that ok row_key_inj [of sha256 S r a] a by (auto simp: keys_ok_def)
  show "((keyed_grants s)(grant_id a \<mapsto> ra_expires_at a)) g = Some e \<longleftrightarrow>
      (\<exists>r \<in> set (roles (s\<lparr>roles := upsert_rows sha256 a i t (roles s)\<rparr>)).
         row_live r \<and> grant_id r = g \<and> ra_expires_at r = e)"
  proof (cases "list_ex (\<lambda>r. ra_assignment_key r = Some (row_key sha256 a)) (roles s)")
    case True
    then obtain r0 where r0: "r0 \<in> set (roles s)" "grant_id r0 = grant_id a"
      using key by (auto simp: list_ex_iff)
    have upd_eq: "upsert_rows sha256 a i t (roles s) =
        map (\<lambda>r. if grant_id r = grant_id a then revived a t r else r) (roles s)"
      using True key by (simp add: upsert_rows_def upd_def)
    show ?thesis
    proof (cases "g = grant_id a")
      case True
      have "\<exists>r \<in> set (upsert_rows sha256 a i t (roles s)). row_live r \<and> grant_id r = g"
        using r0 True by (auto simp: upd_eq intro!: bexI [of _ "revived a t r0"])
      with True show ?thesis by (auto simp: upd_eq)
    next
      case False
      then show ?thesis using keyed_grants_Some [OF ok, of g e] by (auto simp: upd_eq)
    qed
  next
    case False
    then have "\<forall>r \<in> set (roles s). grant_id r \<noteq> grant_id a"
      using key by (auto simp: list_ex_iff)
    moreover have "upsert_rows sha256 a i t (roles s) = roles s @ [stored sha256 i t a]"
      using False by (simp add: upsert_rows_def)
    ultimately show ?thesis using live keyed_grants_Some [OF ok, of g e] by auto
  qed
qed

lemma UpsertAssignment_keyed:
  assumes "payload_ok S a \<and> row_live a"
  shows "hoare (\<lambda>s. keys_ok sha256 S s \<and> keyed_grants s = m) (UpsertAssignment sha256 a)
     (\<lambda>_ s. keys_ok sha256 S s \<and> keyed_grants s = m(grant_id a \<mapsto> ra_expires_at a))"
  unfolding UpsertAssignment_alt hoare_def run_simps
  using assms by (auto simp: upsert_rows_ok upsert_rows_grants)

interpretation keyed: grant_map keyed_grants "keys_ok sha256 S"
    "\<lambda>a. payload_ok S a \<and> row_live a" grant_id ra_expires_at "UpsertAssignment sha256"
  for sha256 S
  by unfold_locales (rule UpsertAssignment_keyed; assumption)

lemma upsert_rows_normal:
  assumes "roles_ok sha256 S s" and "row_normal S a"
  shows "roles_ok sha256 S (s\<lparr>roles := upsert_rows sha256 a i t (roles s)\<rparr>)"
proof -
  have "grant_id r = row_columns r" if "r \<in> set (upsert_rows sha256 a i t (roles s))" for r
    using that assms by (auto simp: upsert_rows_def in_upd_iff roles_ok_keys row_normal_payload split: if_splits)
  then show ?thesis
    using assms upsert_rows_ok [of sha256 S s a i t] by (simp add: roles_ok_keys row_normal_payload)
qed

lemma UpsertAssignment_refines:
  assumes "row_normal S a \<and> row_live a"
  shows "hoare (\<lambda>s. roles_ok sha256 S s \<and> live_grants s = m) (UpsertAssignment sha256 a)
     (\<lambda>_ s. roles_ok sha256 S s \<and> live_grants s = m(row_columns a \<mapsto> ra_expires_at a))"
proof -
  have "live_grants (s\<lparr>roles := upsert_rows sha256 a i t (roles s)\<rparr>) = (live_grants s)(row_columns a \<mapsto> ra_expires_at a)"
    if "roles_ok sha256 S s" for s i t
    using that assms upsert_rows_grants [of sha256 S s a i t] live_grants_keyed [OF that]
      live_grants_keyed [OF upsert_rows_normal [OF that, of a i t]]
    by (simp add: roles_ok_keys row_normal_payload)
  then show ?thesis
    unfolding UpsertAssignment_alt hoare_def run_simps using assms by (auto simp: upsert_rows_normal)
qed

text \<open>A removal.\<close>

lemma deleted_fields [simp]:
  "row_columns (r\<lparr>ra_deleted_at := d\<rparr>) = row_columns r"
  "row_normal S (r\<lparr>ra_deleted_at := d\<rparr>) = row_normal S r"
  "row_key sha256 (r\<lparr>ra_deleted_at := d\<rparr>) = row_key sha256 r"
  "row_live (r\<lparr>ra_deleted_at := d\<rparr>) = (d = None)"
  by (simp_all add: row_columns_def row_live_def row_normal_def grant_id_def row_key_def)

lemma RemoveAssignment_alt:
  "remove_query q = andThen now (\<lambda>t. modify PErrDB (\<lambda>s.
     (hits (\<lambda>r. row_live r \<and> names_grant q (row_columns r)) (roles s),
      s\<lparr>roles := upd (\<lambda>r. row_live r \<and> names_grant q (row_columns r))
                 (\<lambda>r. r\<lparr>ra_deleted_at := Some t\<rparr>) (roles s)\<rparr>)))"
proof (cases q)
  case (fields tenant_user app pr path role_code)
  have "(\<lambda>r. row_live r \<and> names_grant q (row_columns r)) =
      (\<lambda>r. row_live r \<and> ra_tenant_user r = tenant_user \<and> ra_app r = app \<and>
        ra_principal_type r = pr_type (NormalizePrincipal pr) \<and>
        ra_principal_key r = pr_key (NormalizePrincipal pr) \<and>
        ra_resource_path r = path \<and> (role_code \<noteq> [] \<longrightarrow> ra_role_code r = role_code))"
    by (auto simp: fun_eq_iff fields Let_def row_columns_def)
  then show ?thesis by (simp add: fields RemoveAssignment_def Let_def)
qed

lemma remove_rows_ok:
  "roles_ok sha256 S s \<Longrightarrow> roles_ok sha256 S (s\<lparr>roles := upd P (\<lambda>r. r\<lparr>ra_deleted_at := d\<rparr>) (roles s)\<rparr>)"
  by (auto simp: roles_ok_def map_upd in_upd_iff)

lemma removed_live_rows:
  "r \<in> set (upd (\<lambda>r. row_live r \<and> P r) (\<lambda>r. r\<lparr>ra_deleted_at := Some t\<rparr>) rows) \<and> row_live r \<longleftrightarrow>
   r \<in> set rows \<and> row_live r \<and> \<not> P r"
  by (induction rows) auto

lemma remove_rows_grants:
  assumes ok: "roles_ok sha256 S s"
  shows "live_grants (s\<lparr>roles := upd (\<lambda>r. row_live r \<and> names_grant q (row_columns r))
       (\<lambda>r. r\<lparr>ra_deleted_at := Some t\<rparr>) (roles s)\<rparr>) = live_grants s |` {g. \<not> names_grant q g}"
proof (rule live_grants_eqI [OF remove_rows_ok [OF ok]])
  fix g e
  have "(live_grants s |` {g. \<not> names_grant q g}) g = Some e \<longleftrightarrow>
      \<not> names_grant q g \<and> live_grants s g = Some e"
    by (simp add: restrict_map_def)
  also have "\<dots> \<longleftrightarrow> (\<exists>r. (r \<in> set (roles s) \<and> row_live r \<and> \<not> names_grant q (row_columns r)) \<and>
      row_columns r = g \<and> ra_expires_at r = e)"
    unfolding live_grants_Some [OF ok] by blast
  also have "\<dots> \<longleftrightarrow> (\<exists>r \<in> set (upd (\<lambda>r. row_live r \<and> names_grant q (row_columns r))
       (\<lambda>r. r\<lparr>ra_deleted_at := Some t\<rparr>) (roles s)). row_live r \<and> row_columns r = g \<and> ra_expires_at r = e)"
    using removed_live_rows [of _ "\<lambda>r. names_grant q (row_columns r)" t "roles s"] by blast
  finally show "(live_grants s |` {g. \<not> names_grant q g}) g = Some e \<longleftrightarrow>
     (\<exists>r \<in> set (roles (s\<lparr>roles := upd (\<lambda>r. row_live r \<and> names_grant q (row_columns r))
       (\<lambda>r. r\<lparr>ra_deleted_at := Some t\<rparr>) (roles s)\<rparr>)).
       row_live r \<and> row_columns r = g \<and> ra_expires_at r = e)"
    by simp
qed

lemma remove_query_refines:
  "hoare (\<lambda>s. roles_ok sha256 S s \<and> live_grants s = m) (remove_query q)
     (\<lambda>_ s. roles_ok sha256 S s \<and> live_grants s = m |` {g. \<not> names_grant q g})"
  unfolding RemoveAssignment_alt hoare_def run_simps
  by (auto simp: remove_rows_ok remove_rows_grants simp del: names_grant.simps)

interpretation grants: grant_store live_grants "roles_ok sha256 S"
    "\<lambda>a. row_normal S a \<and> row_live a" row_columns ra_expires_at "UpsertAssignment sha256"
    names_grant remove_query
  for sha256 S
  by unfold_locales (rule UpsertAssignment_refines remove_query_refines; assumption?)+

end
