(* ===== verification/PermissionService.thy ===== *)
theory PermissionService
  imports RoleStore
begin

text \<open>
  The permission service of the app server
  (\<open>core/app-server/service/permission_service.go\<close> and the notifications it sends,
  \<open>permission_notification.go\<close>): resolving what a user may do, granting roles one by one and in
  batches, revoking them, and the listings. The user directory and the organisation tree live in
  another server: they are functions of the environment. The operate logs and the notifications
  are effects on the world; their failures never reach the caller.
\<close>

section \<open>Environment\<close>

record user_info =
  ui_username :: gostr
  ui_department :: gostr

record perm_env =
  pe_sha256 :: "gostr \<Rightarrow> gostr"
  pe_app_repo :: bool
  pe_log_repo :: bool
  pe_notifier :: bool
  pe_user_lookup :: "(gostr \<Rightarrow> perm_error + user_info option) option"
  pe_department_lookup :: "(gostr \<Rightarrow> perm_error + bool) option"

text \<open>What the operations read from the request: its user and the department of that user.\<close>

record perm_ctx =
  pc_user :: gostr
  pc_department :: gostr

text \<open>\<open>fetch\<close> stands for the call of the organisation server.\<close>

definition lookupDepartmentForPermission ::
  "(gostr list \<Rightarrow> perm_error + gostr option list option) \<Rightarrow> gostr \<Rightarrow> perm_error + bool" where
  "lookupDepartmentForPermission fetch department_path =
     (case fetch [department_path] of Inl e \<Rightarrow> Inl e
      | Inr None \<Rightarrow> Inr False
      | Inr (Some departments) \<Rightarrow>
          Inr (list_ex (\<lambda>d. case d of None \<Rightarrow> False
               | Some path \<Rightarrow> NormalizeResourcePath path = NormalizeResourcePath department_path)
             departments))"

section \<open>Helpers\<close>

definition parse_user_app :: "gostr \<Rightarrow> (gostr \<times> gostr) perm" where
  "parse_user_app path =
     (case ParseUserApp path of Inl (BadResourcePath p) \<Rightarrow> fail (PErrBadPath p)
      | Inr ws \<Rightarrow> ret ws)"

definition isWorkspaceOwner :: "gostr \<Rightarrow> gostr \<Rightarrow> bool" where
  "isWorkspaceOwner tenant_user username =
     (let tenant_user = trim_space tenant_user; username = trim_space username in
      tenant_user \<noteq> [] \<and> tenant_user = username)"

definition isSystemRootUser :: "gostr \<Rightarrow> bool" where
  "isSystemRootUser username \<longleftrightarrow> trim_space username = ''system''"

definition ownerAccessResult :: "gostr \<Rightarrow> access_result" where
  "ownerAccessResult resource_path =
     \<lparr>re_resource_path = NormalizeResourcePath resource_path, re_role_codes = [RoleOwner],
      re_permissions = RolePermissions RoleOwner, re_inherited_from = [],
      re_expires_at = None, re_assignments = []\<rparr>"

text \<open>The result for nobody, which two of the operations write out.\<close>

definition nobody_result :: "gostr \<Rightarrow> access_result" where
  "nobody_result resource_path =
     \<lparr>re_resource_path = resource_path, re_role_codes = [],
      re_permissions = EmptyPermissionSet, re_inherited_from = [],
      re_expires_at = None, re_assignments = []\<rparr>"

definition isWorkspaceOwnerOrLegacyAdmin :: "perm_env \<Rightarrow> gostr \<Rightarrow> gostr \<Rightarrow> gostr \<Rightarrow> bool perm" where
  "isWorkspaceOwnerOrLegacyAdmin E tenant_user app username =
     (if isWorkspaceOwner tenant_user username then ret True
      else if \<not> pe_app_repo E \<or> tenant_user = [] \<or> app = [] \<or> username = [] then ret False
      else andThen (attempt (GetAppByUserName tenant_user app)) (\<lambda>r.
        case r of Inl _ \<Rightarrow> ret False | Inr row \<Rightarrow> ret (IsOwnerOrAdmin row username)))"

definition principalsForUser :: "perm_env \<Rightarrow> perm_ctx \<Rightarrow> gostr \<Rightarrow> principal list" where
  "principalsForUser E ctx username =
     (let username = to_lower (trim_space username);
          path = (if username \<noteq> [] \<and> username = to_lower (trim_space (pc_user ctx))
                  then pc_department ctx else []);
          path = (if path = [] \<and> username \<noteq> [] \<and> username \<noteq> ''system''
                  then (case pe_user_lookup E of None \<Rightarrow> path
                        | Some lookup \<Rightarrow> (case lookup username of
                              Inr (Some user) \<Rightarrow> ui_department user | _ \<Rightarrow> path))
                  else path);
          path = (if path = [] \<and> username \<noteq> [] \<and> username \<noteq> ''system''
                  then ''/org/unassigned'' else path) in
      PrincipalsForUser username path)"

definition to_assignment :: "role_row \<Rightarrow> assignment" where
  "to_assignment r =
     \<lparr>as_tenant_user = ra_tenant_user r, as_app = ra_app r,
      as_principal = \<lparr>pr_type = ra_principal_type r, pr_key = ra_principal_key r\<rparr>,
      as_resource_path = ra_resource_path r, as_role_code = ra_role_code r,
      as_expires_at = ra_expires_at r, as_created_by = ra_created_by r\<rparr>"

definition toAccessAssignments :: "role_row list \<Rightarrow> assignment list" where
  "toAccessAssignments rows = map to_assignment rows"

definition principalTargetUser :: "principal \<Rightarrow> gostr" where
  "principalTargetUser pr =
     (let pr = NormalizePrincipal pr in if pr_type pr = PrincipalUser then pr_key pr else [])"

definition principalAuditID :: "principal \<Rightarrow> gostr" where
  "principalAuditID pr = (let pr = NormalizePrincipal pr in pr_type pr @ CHR '':'' # pr_key pr)"

text \<open>The loops that keep the first of the elements with the same identity.\<close>

fun keep_first :: "('x \<Rightarrow> gostr) \<Rightarrow> 'x list \<Rightarrow> gostr list \<Rightarrow> 'x list" where
  "keep_first ident [] seen = []"
| "keep_first ident (x # xs) seen =
     (if ident x \<in> set seen then keep_first ident xs seen
      else x # keep_first ident xs (ident x # seen))"

definition uniqueResourcePaths :: "gostr list \<Rightarrow> gostr list" where
  "uniqueResourcePaths paths = keep_first (\<lambda>p. p) (map NormalizeResourcePath paths) []"

definition uniquePrincipals :: "principal list \<Rightarrow> principal list" where
  "uniquePrincipals ps =
     keep_first (\<lambda>p. pr_type p @ CHR 0x00 # pr_key p) (map NormalizePrincipal ps) []"

definition uniqueRoleCodes :: "gostr list \<Rightarrow> gostr list" where
  "uniqueRoleCodes codes = keep_first (\<lambda>c. c) (map NormalizeRoleCode codes) []"

section \<open>Audit and notifications\<close>

definition writeOperateLog :: "perm_env \<Rightarrow> perm_ctx \<Rightarrow> operate_log \<Rightarrow> unit perm" where
  "writeOperateLog E ctx input =
     (if \<not> pe_log_repo E then ret ()
      else let input = (if ol_actor_user input = [] then input\<lparr>ol_actor_user := pc_user ctx\<rparr> else input);
               input = (if ol_status input = [] then input\<lparr>ol_status := ''success''\<rparr> else input) in
           write_log (input\<lparr>ol_resource_path := NormalizeResourcePath (ol_resource_path input)\<rparr>))"

definition writeRoleGrantedOperateLog :: "perm_env \<Rightarrow> perm_ctx \<Rightarrow> grant_role_request \<Rightarrow> unit perm" where
  "writeRoleGrantedOperateLog E ctx req =
     writeOperateLog E ctx
       \<lparr>ol_tenant_user = gr_tenant_user req, ol_app = gr_app req,
        ol_actor_user = gr_created_by req, ol_action = ''permission.role.granted'',
        ol_resource_type = ''permission'', ol_resource_path = gr_resource_path req,
        ol_target_user = principalTargetUser (gr_principal req),
        ol_target_id = principalAuditID (gr_principal req),
        ol_summary = gr_created_by req @ '' granted '' @ gr_role_code req @ '' to '' @
           principalAuditID (gr_principal req) @ '' on '' @ gr_resource_path req,
        ol_status = ''success''\<rparr>"

definition sendPermissionNotification :: "perm_env \<Rightarrow> notice \<Rightarrow> unit perm" where
  "sendPermissionNotification E n = (if \<not> pe_notifier E then ret () else send_notice n)"

definition notifyRoleGranted :: "perm_env \<Rightarrow> grant_role_request \<Rightarrow> unit perm" where
  "notifyRoleGranted E req =
     (let pr = NormalizePrincipal (gr_principal req) in
      if pr_type pr \<noteq> PrincipalUser then ret ()
      else sendPermissionNotification E
        \<lparr>nt_to_user = pr_key pr, nt_actor = gr_created_by req,
         nt_tenant_user = gr_tenant_user req, nt_app = gr_app req,
         nt_resource_path = gr_resource_path req\<rparr>)"

text \<open>One notification for every user among the principals, in the order of their names.\<close>

definition grants_of_user :: "gostr \<Rightarrow> grant_role_request list \<Rightarrow> grant_role_request list" where
  "grants_of_user username grants =
     filter (\<lambda>g. let pr = NormalizePrincipal (gr_principal g) in
               pr_type pr = PrincipalUser \<and> pr_key pr \<noteq> [] \<and> pr_key pr = username) grants"

definition granted_users :: "grant_role_request list \<Rightarrow> gostr list" where
  "granted_users grants =
     sort (remdups (map (\<lambda>g. pr_key (NormalizePrincipal (gr_principal g)))
       (filter (\<lambda>g. let pr = NormalizePrincipal (gr_principal g) in
                  pr_type pr = PrincipalUser \<and> pr_key pr \<noteq> []) grants)))"

definition notifyBatchRolesGranted :: "perm_env \<Rightarrow> grant_role_request list \<Rightarrow> unit perm" where
  "notifyBatchRolesGranted E grants =
     for_each (\<lambda>username. case grants_of_user username grants of [] \<Rightarrow> ret ()
       | g # _ \<Rightarrow> sendPermissionNotification E
           \<lparr>nt_to_user = username, nt_actor = gr_created_by g,
            nt_tenant_user = gr_tenant_user g, nt_app = gr_app g,
            nt_resource_path = gr_resource_path g\<rparr>) (granted_users grants)"

section \<open>Resolving permissions\<close>

definition ResolvePermissions :: "perm_env \<Rightarrow> perm_ctx \<Rightarrow> gostr \<Rightarrow> gostr \<Rightarrow> access_result perm" where
  "ResolvePermissions E ctx username resource_path =
     (let username = trim_space username; resource_path = NormalizeResourcePath resource_path in
      andThen (parse_user_app resource_path) (\<lambda>(tenant_user, app).
      if isSystemRootUser username then ret (ownerAccessResult resource_path)
      else if username = [] then ret (nobody_result resource_path)
      else andThen (isWorkspaceOwnerOrLegacyAdmin E tenant_user app username) (\<lambda>owner.
        if owner then ret ((nobody_result resource_path)
          \<lparr>re_role_codes := [RoleOwner], re_permissions := RolePermissions RoleOwner\<rparr>)
        else andThen (ListAssignmentsForPrincipals tenant_user app (principalsForUser E ctx username))
          (\<lambda>rows. andThen now (\<lambda>t.
             ret (Resolve t (toAccessAssignments rows) resource_path t))))))"

text \<open>\<open>HasPermission\<close> of the service.\<close>

definition ServiceHasPermission ::
  "perm_env \<Rightarrow> perm_ctx \<Rightarrow> gostr \<Rightarrow> gostr \<Rightarrow> gostr \<Rightarrow> bool perm" where
  "ServiceHasPermission E ctx username resource_path action =
     andThen (ResolvePermissions E ctx username resource_path) (\<lambda>result.
       ret (HasPermission (re_permissions result) action))"

definition RequirePermission ::
  "perm_env \<Rightarrow> perm_ctx \<Rightarrow> gostr \<Rightarrow> gostr \<Rightarrow> gostr \<Rightarrow> unit perm" where
  "RequirePermission E ctx username resource_path action =
     andThen (ServiceHasPermission E ctx username resource_path action) (\<lambda>ok.
       if \<not> ok then fail (PErrForbidden action (NormalizeResourcePath resource_path)) else ret ())"

definition HasAnyWorkspacePermission ::
  "perm_env \<Rightarrow> perm_ctx \<Rightarrow> gostr \<Rightarrow> gostr \<Rightarrow> gostr \<Rightarrow> bool perm" where
  "HasAnyWorkspacePermission E ctx tenant_user app username =
     (if username = [] then ret False
      else andThen (isWorkspaceOwnerOrLegacyAdmin E tenant_user app username) (\<lambda>owner.
        if owner then ret True
        else andThen (ListAssignmentsForPrincipals tenant_user app (principalsForUser E ctx username))
          (\<lambda>rows. andThen now (\<lambda>t.
             ret (list_ex (\<lambda>r. \<not> expired (ra_expires_at r) t) rows)))))"

definition workspace_pairs :: "role_row list \<Rightarrow> (gostr \<times> gostr) list" where
  "workspace_pairs rows =
     keep_first (\<lambda>(t, a). t @ slash # a)
       (filter (\<lambda>(t, a). t \<noteq> [] \<and> a \<noteq> []) (map (\<lambda>r. (ra_tenant_user r, ra_app r)) rows)) []"

definition ListAccessibleApps :: "perm_env \<Rightarrow> perm_ctx \<Rightarrow> gostr \<Rightarrow> app_row list perm" where
  "ListAccessibleApps E ctx username =
     (if trim_space username = [] \<or> \<not> pe_app_repo E then ret []
      else andThen now (\<lambda>t.
        andThen (ListActiveAssignmentsForPrincipals (principalsForUser E ctx username) t) (\<lambda>rows.
          GetAppsByUserAppPairs (workspace_pairs rows))))"

text \<open>The loop that checks that the paths of a tree lie in one workspace.\<close>

fun same_workspace :: "gostr \<times> gostr \<Rightarrow> gostr list \<Rightarrow> unit perm" where
  "same_workspace ws [] = ret ()"
| "same_workspace ws (path # paths) =
     andThen (parse_user_app path) (\<lambda>ws'.
       if ws' \<noteq> ws then fail PErrMixedWorkspaces else same_workspace ws paths)"

definition tree_results ::
  "(gostr \<Rightarrow> access_result) \<Rightarrow> gostr list \<Rightarrow> (gostr \<times> access_result) list" where
  "tree_results f paths =
     fold (\<lambda>path. AList.update (NormalizeResourcePath path) (f (NormalizeResourcePath path))) paths []"

definition PermissionsForTree ::
  "perm_env \<Rightarrow> perm_ctx \<Rightarrow> gostr \<Rightarrow> gostr list \<Rightarrow> (gostr \<times> access_result) list perm" where
  "PermissionsForTree E ctx username paths =
     (if paths = [] then ret []
      else andThen (parse_user_app (NormalizeResourcePath (hd paths))) (\<lambda>(tenant_user, app).
      andThen (same_workspace (tenant_user, app) paths) (\<lambda>_.
      if username = [] then ret (tree_results nobody_result paths)
      else if isSystemRootUser username then ret (tree_results ownerAccessResult paths)
      else andThen (isWorkspaceOwnerOrLegacyAdmin E tenant_user app username) (\<lambda>owner.
        if owner then ret (tree_results ownerAccessResult paths)
        else andThen (ListAssignmentsForPrincipals tenant_user app (principalsForUser E ctx username))
          (\<lambda>rows. andThen now (\<lambda>t.
             ret (tree_results (\<lambda>p. Resolve t (toAccessAssignments rows) p t) paths)))))))"

definition assignment_view :: "gostr \<Rightarrow> role_row \<Rightarrow> role_assignment_view" where
  "assignment_view resource_path r =
     (let path = NormalizeResourcePath (ra_resource_path r);
          role = NormalizeRoleCode (ra_role_code r);
          direct = (path = resource_path) in
      \<lparr>vw_tenant_user = ra_tenant_user r, vw_app = ra_app r,
       vw_principal_type = NormalizePrincipalType (ra_principal_type r),
       vw_principal_key = ra_principal_key r, vw_resource_path = path, vw_role_code = role,
       vw_permissions = RolePermissions role,
       vw_source = (if direct then ''current'' else ''inherited''), vw_direct = direct,
       vw_inherited_from = (if direct then [] else path), vw_target_resource = resource_path,
       vw_expires_at = ra_expires_at r, vw_created_by = ra_created_by r,
       vw_created_at = ra_created_at r, vw_updated_at = ra_updated_at r\<rparr>)"

definition ListAssignments :: "gostr \<Rightarrow> role_assignment_view list perm" where
  "ListAssignments resource_path =
     (let resource_path = NormalizeResourcePath resource_path in
      andThen (parse_user_app resource_path) (\<lambda>(tenant_user, app).
      andThen (ListAssignmentsForWorkspace tenant_user app) (\<lambda>rows. andThen now (\<lambda>t.
        ret (map (assignment_view resource_path)
          (filter (\<lambda>r. PathApplies (NormalizeResourcePath (ra_resource_path r)) resource_path \<and>
                       \<not> expired (ra_expires_at r) t) rows))))))"

section \<open>Granting and revoking\<close>

definition requireAdminForGrant ::
  "perm_env \<Rightarrow> perm_ctx \<Rightarrow> gostr \<Rightarrow> gostr \<Rightarrow> gostr \<Rightarrow> gostr \<Rightarrow> unit perm" where
  "requireAdminForGrant E ctx tenant_user actor resource_path role_code =
     (if actor = [] then fail PErrNoActor
      else if role_code = RoleOwner \<and> \<not> isWorkspaceOwner tenant_user actor
      then fail PErrOnlyOwnerGrants
      else RequirePermission E ctx actor resource_path ActionAdmin)"

definition ensureAssignablePrincipal :: "perm_env \<Rightarrow> principal \<Rightarrow> unit perm" where
  "ensureAssignablePrincipal E pr =
     (let pr = NormalizePrincipal pr in
      if \<not> IsValidPrincipal pr then fail (PErrInvalidPrincipal (pr_type pr) (pr_key pr))
      else if pr_type pr = PrincipalUser then
        (case pe_user_lookup E of None \<Rightarrow> ret ()
         | Some lookup \<Rightarrow> (case lookup (pr_key pr) of
               Inl _ \<Rightarrow> fail PErrUserLookup
             | Inr None \<Rightarrow> fail PErrUserUnknown
             | Inr (Some user) \<Rightarrow>
                 if trim_space (ui_username user) = [] then fail PErrUserUnknown else ret ()))
      else if pr_type pr = PrincipalDepartment then
        (case pe_department_lookup E of None \<Rightarrow> ret ()
         | Some lookup \<Rightarrow> (case lookup (pr_key pr) of
               Inl _ \<Rightarrow> fail PErrDepartmentLookup
             | Inr exists \<Rightarrow>
                 if \<not> exists then fail (PErrDepartmentUnknown (pr_key pr)) else ret ()))
      else ret ())"

definition validateGrantRoleRequest :: "grant_role_request \<Rightarrow> unit perm" where
  "validateGrantRoleRequest req =
     (if gr_tenant_user req = [] \<or> gr_app req = [] \<or> \<not> IsValidPrincipal (gr_principal req) \<or>
         gr_resource_path req = [] then fail PErrMissingField
      else if \<not> IsValidRoleCode (gr_role_code req) then fail (PErrInvalidRole (gr_role_code req))
      else andThen now (\<lambda>t.
        if expired (gr_expires_at req) t then fail PErrExpiryPassed
        else andThen (parse_user_app (gr_resource_path req)) (\<lambda>(resource_tenant, resource_app).
          if resource_tenant \<noteq> gr_tenant_user req \<or> resource_app \<noteq> gr_app req
          then fail (PErrWrongWorkspace (gr_resource_path req)) else ret ())))"

definition grant_row :: "grant_role_request \<Rightarrow> role_row" where
  "grant_row g =
     \<lparr>ra_id = 0, ra_created_at = 0, ra_updated_at = 0, ra_deleted_at = None,
      ra_created_by = gr_created_by g, ra_updated_by = gr_created_by g, ra_deleted_by = [],
      ra_tenant_user = gr_tenant_user g, ra_app = gr_app g,
      ra_principal_type = pr_type (gr_principal g), ra_principal_key = pr_key (gr_principal g),
      ra_resource_path = gr_resource_path g, ra_role_code = gr_role_code g,
      ra_assignment_key = None, ra_expires_at = gr_expires_at g\<rparr>"

definition normal_grant :: "grant_role_request \<Rightarrow> grant_role_request" where
  "normal_grant req =
     req\<lparr>gr_resource_path := NormalizeResourcePath (gr_resource_path req),
         gr_role_code := NormalizeRoleCode (gr_role_code req),
         gr_principal := NormalizePrincipal (gr_principal req),
         gr_tenant_user := trim_space (gr_tenant_user req), gr_app := trim_space (gr_app req)\<rparr>"

definition GrantRole :: "perm_env \<Rightarrow> perm_ctx \<Rightarrow> grant_role_request \<Rightarrow> unit perm" where
  "GrantRole E ctx req =
     (let req = normal_grant req in
      andThen (validateGrantRoleRequest req) (\<lambda>_.
      let req = (if gr_created_by req = [] then req\<lparr>gr_created_by := pc_user ctx\<rparr> else req) in
      andThen (requireAdminForGrant E ctx (gr_tenant_user req) (gr_created_by req)
                 (gr_resource_path req) (gr_role_code req)) (\<lambda>_.
      andThen (ensureAssignablePrincipal E (gr_principal req)) (\<lambda>_.
      andThen (UpsertAssignment (pe_sha256 E) (grant_row req)) (\<lambda>_.
      andThen (writeRoleGrantedOperateLog E ctx req) (\<lambda>_.
      notifyRoleGranted E req))))))"

text \<open>The requests of a batch in the order of its loops; the first principal is validated.\<close>

definition batch_grant ::
  "batch_grant_role_request \<Rightarrow> principal \<Rightarrow> gostr \<times> gostr \<Rightarrow> grant_role_request" where
  "batch_grant req pr = (\<lambda>(path, role).
     \<lparr>gr_tenant_user = bg_tenant_user req, gr_app = bg_app req, gr_principal = pr,
      gr_resource_path = path, gr_role_code = role, gr_expires_at = bg_expires_at req,
      gr_created_by = bg_created_by req\<rparr>)"

definition batch_targets :: "gostr list \<Rightarrow> gostr list \<Rightarrow> (gostr \<times> gostr) list" where
  "batch_targets paths role_codes =
     concat (map (\<lambda>path. map (\<lambda>role. (path, role)) role_codes) paths)"

definition batch_check ::
  "perm_env \<Rightarrow> perm_ctx \<Rightarrow> batch_grant_role_request \<Rightarrow> principal \<Rightarrow> gostr \<times> gostr \<Rightarrow> unit perm" where
  "batch_check E ctx req pr target =
     andThen (validateGrantRoleRequest (batch_grant req pr target)) (\<lambda>_.
       requireAdminForGrant E ctx (bg_tenant_user req) (bg_created_by req) (fst target) (snd target))"

definition normal_batch :: "perm_ctx \<Rightarrow> batch_grant_role_request \<Rightarrow> batch_grant_role_request" where
  "normal_batch ctx req =
     (let actor = trim_space (bg_created_by req) in
      req\<lparr>bg_tenant_user := trim_space (bg_tenant_user req), bg_app := trim_space (bg_app req),
          bg_created_by := (if actor = [] then pc_user ctx else actor),
          bg_resource_paths := uniqueResourcePaths (bg_resource_paths req),
          bg_principals := uniquePrincipals (bg_principals req),
          bg_role_codes := uniqueRoleCodes (bg_role_codes req)\<rparr>)"

definition batch_grants :: "batch_grant_role_request \<Rightarrow> grant_role_request list" where
  "batch_grants req =
     concat (map (\<lambda>target. map (\<lambda>pr. batch_grant req pr target) (bg_principals req))
       (batch_targets (bg_resource_paths req) (bg_role_codes req)))"

definition BatchGrantRoles :: "perm_env \<Rightarrow> perm_ctx \<Rightarrow> batch_grant_role_request \<Rightarrow> unit perm" where
  "BatchGrantRoles E ctx req =
     (if bg_resource_paths req = [] \<or> bg_principals req = [] \<or> bg_role_codes req = []
      then fail PErrMissingField
      else
        let req = normal_batch ctx req in
        if bg_resource_paths req = [] \<or> bg_principals req = [] \<or> bg_role_codes req = []
        then fail PErrMissingField
        else
          andThen (for_each (ensureAssignablePrincipal E) (bg_principals req)) (\<lambda>_.
          andThen (for_each (batch_check E ctx req (hd (bg_principals req)))
            (batch_targets (bg_resource_paths req) (bg_role_codes req))) (\<lambda>_.
          andThen (tx PErrDB (for_each (\<lambda>g. UpsertAssignment (pe_sha256 E) (grant_row g))
            (batch_grants req))) (\<lambda>_.
          andThen (for_each (writeRoleGrantedOperateLog E ctx) (batch_grants req)) (\<lambda>_.
          notifyBatchRolesGranted E (batch_grants req))))))"

definition normal_revoke :: "revoke_role_request \<Rightarrow> revoke_role_request" where
  "normal_revoke req =
     req\<lparr>rv_resource_path := NormalizeResourcePath (rv_resource_path req),
         rv_role_code := NormalizeRoleCode (rv_role_code req),
         rv_principal := NormalizePrincipal (rv_principal req),
         rv_tenant_user := trim_space (rv_tenant_user req), rv_app := trim_space (rv_app req)\<rparr>"

definition RevokeRole :: "perm_env \<Rightarrow> perm_ctx \<Rightarrow> revoke_role_request \<Rightarrow> unit perm" where
  "RevokeRole E ctx req =
     (let req = normal_revoke req in
      if rv_tenant_user req = [] \<or> rv_app req = [] \<or> \<not> IsValidPrincipal (rv_principal req) \<or>
         rv_resource_path req = [] then fail PErrMissingField
      else
        let req = (if rv_actor req = [] then req\<lparr>rv_actor := pc_user ctx\<rparr> else req) in
        andThen (requireAdminForGrant E ctx (rv_tenant_user req) (rv_actor req)
                   (rv_resource_path req) (rv_role_code req)) (\<lambda>_.
        if rv_role_code req = RoleOwner \<and> \<not> isWorkspaceOwner (rv_tenant_user req) (rv_actor req)
        then fail PErrOnlyOwnerRevokes
        else
          andThen (RemoveAssignment (rv_tenant_user req) (rv_app req) (rv_principal req)
                     (rv_resource_path req) (rv_role_code req)) (\<lambda>_.
          writeOperateLog E ctx
            \<lparr>ol_tenant_user = rv_tenant_user req, ol_app = rv_app req,
             ol_actor_user = rv_actor req, ol_action = ''permission.role.revoked'',
             ol_resource_type = ''permission'', ol_resource_path = rv_resource_path req,
             ol_target_user = principalTargetUser (rv_principal req),
             ol_target_id = principalAuditID (rv_principal req),
             ol_summary = rv_actor req @ '' revoked role '' @ rv_role_code req @ '' from '' @
               principalAuditID (rv_principal req) @ '' on '' @ rv_resource_path req,
             ol_status = ''success''\<rparr>)))"

end
