(* ===== verification/PermissionRequest.thy ===== *)
theory PermissionRequest
  imports PermissionService
begin

text \<open>
  Self-service permission requests
  (\<open>core/app-server/service/permission_request_service.go\<close>): a user asks for a role on a
  resource, an administrator of the resource approves or rejects, the user may cancel. An approval
  writes the role assignment and the decision in one transaction.
\<close>

section \<open>Environment and views\<close>

text \<open>The repositories that may be nil; the others are always there.\<close>

record request_env =
  qe_permission :: perm_env
  qe_app_repo :: bool
  qe_tree_repo :: bool

record approver_view =
  av_type :: gostr
  av_key :: gostr
  av_role :: gostr
  av_path :: gostr
  av_inherited :: bool

record request_view =
  rw_id :: int
  rw_tenant_user :: gostr
  rw_app :: gostr
  rw_requester :: gostr
  rw_resource_path :: gostr
  rw_requested_role :: gostr
  rw_reason :: gostr
  rw_status :: gostr
  rw_reviewed_by :: gostr
  rw_reviewed_at :: "int option"
  rw_review_comment :: gostr
  rw_requested_expires :: "int option"
  rw_created_at :: int
  rw_updated_at :: int
  rw_approvers :: "approver_view list"

record path_summary =
  ps_own :: nat
  ps_review :: nat

record workspace_summary =
  ws_paths :: "(gostr \<times> path_summary) list"
  ws_own :: nat
  ws_review :: nat

text \<open>A successful creation, or the pair of the pending request and the error that says so.\<close>

datatype create_answer = Created request_view | AlreadyPending request_view

section \<open>Pure helpers\<close>

definition permissionRequestPendingKey ::
  "(gostr \<Rightarrow> gostr) \<Rightarrow> gostr \<Rightarrow> gostr \<Rightarrow> gostr \<Rightarrow> gostr \<Rightarrow> gostr" where
  "permissionRequestPendingKey sha256 tenant_user app requester resource_path =
     sha256 (join_with [CHR 0x00]
       [trim_space tenant_user, trim_space app, to_lower (trim_space requester),
        NormalizeResourcePath resource_path])"

definition permissionSetCoversRole :: "permission_set \<Rightarrow> gostr \<Rightarrow> bool" where
  "permissionSetCoversRole current role_code =
     list_all (\<lambda>(action, required). \<not> (required \<and> \<not> HasPermission current action))
       (RolePermissions role_code)"

definition normalizePermissionRequestStatus :: "gostr \<Rightarrow> gostr" where
  "normalizePermissionRequestStatus status =
     (let status = to_lower (trim_space status) in
      if status \<in> {RequestPending, RequestApproved, RequestRejected, RequestCancelled}
      then status else [])"

definition permissionRequestViewFromModel :: "request_row \<Rightarrow> request_view" where
  "permissionRequestViewFromModel r =
     \<lparr>rw_id = wr_id r, rw_tenant_user = wr_tenant_user r, rw_app = wr_app r,
      rw_requester = wr_requester r,
      rw_resource_path = NormalizeResourcePath (wr_resource_path r),
      rw_requested_role = NormalizeRoleCode (wr_requested_role r), rw_reason = wr_reason r,
      rw_status = wr_status r, rw_reviewed_by = wr_reviewed_by r,
      rw_reviewed_at = wr_reviewed_at r, rw_review_comment = wr_review_comment r,
      rw_requested_expires = wr_requested_expires r, rw_created_at = wr_created_at r,
      rw_updated_at = wr_updated_at r, rw_approvers = []\<rparr>"

abbreviation requestable_role :: "gostr \<Rightarrow> bool" where
  "requestable_role role \<equiv> role = RoleViewer \<or> role = RoleMember \<or> role = RoleAdmin"

section \<open>Approvers and views\<close>

definition append_approver ::
  "gostr \<Rightarrow> gostr \<Rightarrow> gostr \<Rightarrow> gostr \<Rightarrow> gostr \<Rightarrow> approver_view list \<Rightarrow> approver_view list" where
  "append_approver resource_path principal_type principal_key role_code source_path approvers =
     (let pr = NormalizePrincipal \<lparr>pr_type = principal_type, pr_key = principal_key\<rparr> in
      if \<not> IsValidPrincipal pr then approvers
      else if list_ex (\<lambda>a. av_type a @ CHR 0x00 # av_key a = pr_type pr @ CHR 0x00 # pr_key pr) approvers
      then approvers
      else approvers @
        [\<lparr>av_type = pr_type pr, av_key = pr_key pr, av_role = role_code,
          av_path = NormalizeResourcePath source_path,
          av_inherited = (NormalizeResourcePath source_path \<noteq> resource_path)\<rparr>])"

definition append_assignment ::
  "gostr \<Rightarrow> int \<Rightarrow> role_row \<Rightarrow> approver_view list \<Rightarrow> approver_view list" where
  "append_assignment resource_path t r approvers =
     (let role_code = NormalizeRoleCode (ra_role_code r);
          source_path = NormalizeResourcePath (ra_resource_path r) in
      if expired (ra_expires_at r) t then approvers
      else if role_code \<noteq> RoleAdmin \<and> role_code \<noteq> RoleOwner then approvers
      else if \<not> PathApplies source_path resource_path then approvers
      else append_approver resource_path (ra_principal_type r) (ra_principal_key r)
             role_code source_path approvers)"

definition approver_list ::
  "gostr \<Rightarrow> gostr \<Rightarrow> gostr \<Rightarrow> app_row \<Rightarrow> role_row list \<Rightarrow> int \<Rightarrow> approver_view list" where
  "approver_list tenant_user app resource_path row rows t =
     (let root = AppRootPath tenant_user app;
          approvers = append_approver resource_path PrincipalUser tenant_user RoleOwner root [];
          approvers = fold (\<lambda>username. append_approver resource_path PrincipalUser username RoleAdmin root)
                        (split_on (CHR '','') (ap_admins row)) approvers;
          approvers = fold (append_assignment resource_path t) rows approvers in
      order2 (\<lambda>a. if av_type a = PrincipalUser then 0 else 1 :: nat) av_key approvers)"

definition Approvers :: "gostr \<Rightarrow> gostr \<Rightarrow> gostr \<Rightarrow> approver_view list perm" where
  "Approvers tenant_user app resource_path =
     andThen (GetAppByUserName tenant_user app) (\<lambda>row.
     andThen (ListAssignmentsForWorkspace tenant_user app) (\<lambda>rows. andThen now (\<lambda>t.
       ret (approver_list tenant_user app (NormalizeResourcePath resource_path) row rows t))))"

definition buildRequestView :: "request_row \<Rightarrow> request_view perm" where
  "buildRequestView r =
     andThen (Approvers (wr_tenant_user r) (wr_app r) (wr_resource_path r)) (\<lambda>approvers.
       ret ((permissionRequestViewFromModel r)\<lparr>rw_approvers := approvers\<rparr>))"

text \<open>The views of a list; the approvers of a path are looked up once.\<close>

fun build_views ::
  "request_row list \<Rightarrow> (gostr \<times> approver_view list) list \<Rightarrow> request_view list \<Rightarrow>
     request_view list perm" where
  "build_views [] by_path views = ret views"
| "build_views (r # rs) by_path views =
     (let path = NormalizeResourcePath (wr_resource_path r);
          step = (\<lambda>approvers by_path. build_views rs by_path
             (views @ [(permissionRequestViewFromModel r)\<lparr>rw_approvers := approvers\<rparr>])) in
      case map_of by_path path of
        Some approvers \<Rightarrow> step approvers by_path
      | None \<Rightarrow> andThen (Approvers (wr_tenant_user r) (wr_app r) path) (\<lambda>approvers.
          step approvers ((path, approvers) # by_path)))"

definition buildRequestViews :: "request_row list \<Rightarrow> request_view list perm" where
  "buildRequestViews rs = build_views rs [] []"

section \<open>Creating a request\<close>

definition writeReviewOperateLog ::
  "request_env \<Rightarrow> perm_ctx \<Rightarrow> request_row \<Rightarrow> gostr \<Rightarrow> unit perm" where
  "writeReviewOperateLog E ctx r actor =
     writeOperateLog (qe_permission E) ctx
       \<lparr>ol_tenant_user = wr_tenant_user r, ol_app = wr_app r, ol_actor_user = actor,
        ol_action = ''permission.request.'' @ wr_status r,
        ol_resource_type = ''permission_request'', ol_resource_path = wr_resource_path r,
        ol_target_user = wr_requester r, ol_target_id = show_int (wr_id r),
        ol_summary = actor @ '' marked permission request '' @ show_int (wr_id r) @ '' as '' @
          wr_status r,
        ol_status = ''success''\<rparr>"

definition new_request_row ::
  "request_env \<Rightarrow> gostr \<Rightarrow> gostr \<Rightarrow> gostr \<Rightarrow> gostr \<Rightarrow> gostr \<Rightarrow> gostr \<Rightarrow> int option \<Rightarrow> request_row" where
  "new_request_row E tenant_user app requester resource_path role_code reason expires_at =
     \<lparr>wr_id = 0, wr_created_at = 0, wr_updated_at = 0, wr_deleted_at = None,
      wr_created_by = requester, wr_updated_by = requester, wr_tenant_user = tenant_user,
      wr_app = app, wr_requester = requester, wr_resource_path = resource_path,
      wr_requested_role = role_code, wr_reason = reason, wr_status = RequestPending,
      wr_pending_key = Some (permissionRequestPendingKey (pe_sha256 (qe_permission E))
        tenant_user app requester resource_path),
      wr_reviewed_by = [], wr_reviewed_at = None, wr_review_comment = [],
      wr_requested_expires = expires_at\<rparr>"

text \<open>The checks on the arguments alone.\<close>

definition check_request ::
  "gostr \<Rightarrow> gostr \<Rightarrow> gostr \<Rightarrow> gostr \<Rightarrow> gostr \<Rightarrow> gostr \<Rightarrow> int option \<Rightarrow> unit perm" where
  "check_request tenant_user app requester resource_path role_code reason expires_at =
     (if tenant_user = [] \<or> app = [] \<or> requester = [] \<or> resource_path = [] then fail PErrMissingField
      else if \<not> requestable_role role_code then fail PErrRoleNotRequestable
      else if reason = [] then fail PErrNoReason
      else if rune_count reason > 1000 then fail PErrReasonTooLong
      else andThen now (\<lambda>t.
        if expired expires_at t then fail PErrExpiryPassed
        else andThen (parse_user_app resource_path) (\<lambda>(path_tenant, path_app).
          if path_tenant \<noteq> tenant_user \<or> path_app \<noteq> app then fail (PErrWrongWorkspace resource_path)
          else ret ())))"

text \<open>The checks against the workspace: it exists, the resource exists, the role is not held.\<close>

definition check_request_target ::
  "request_env \<Rightarrow> perm_ctx \<Rightarrow> gostr \<Rightarrow> gostr \<Rightarrow> gostr \<Rightarrow> gostr \<Rightarrow> gostr \<Rightarrow> unit perm" where
  "check_request_target E ctx tenant_user app requester resource_path role_code =
     (if \<not> qe_app_repo E then fail PErrNotInitialised
      else andThen (attempt (GetAppByUserName tenant_user app)) (\<lambda>r.
        case r of Inl _ \<Rightarrow> fail PErrNoWorkspace
        | Inr _ \<Rightarrow>
          andThen (if qe_tree_repo E \<and> resource_path \<noteq> AppRootPath tenant_user app
                   then andThen (attempt (tree_has resource_path)) (\<lambda>r.
                     case r of Inr True \<Rightarrow> ret () | _ \<Rightarrow> fail (PErrNoResource resource_path))
                   else ret ()) (\<lambda>_.
          andThen (ResolvePermissions (qe_permission E) ctx requester resource_path) (\<lambda>resolved.
            if permissionSetCoversRole (re_permissions resolved) role_code
            then fail (PErrAlreadyGranted role_code) else ret ()))))"

definition CreateRequest ::
  "request_env \<Rightarrow> perm_ctx \<Rightarrow> gostr \<Rightarrow> gostr \<Rightarrow> gostr \<Rightarrow> gostr \<Rightarrow> gostr \<Rightarrow> gostr \<Rightarrow> int option \<Rightarrow>
     create_answer perm" where
  "CreateRequest E ctx tenant_user app requester resource_path role_code reason expires_at =
     (let tenant_user = trim_space tenant_user; app = trim_space app;
          requester = to_lower (trim_space requester);
          resource_path = NormalizeResourcePath resource_path;
          role_code = NormalizeRoleCode role_code; reason = trim_space reason in
      andThen (check_request tenant_user app requester resource_path role_code reason expires_at) (\<lambda>_.
      andThen (check_request_target E ctx tenant_user app requester resource_path role_code) (\<lambda>_.
      andThen (attempt (FindPending tenant_user app requester resource_path)) (\<lambda>existing.
      case existing of
        Inr r \<Rightarrow> andThen (buildRequestView r) (\<lambda>view. ret (AlreadyPending view))
      | Inl e \<Rightarrow>
        if e \<noteq> PErrNotFound then fail e
        else
          andThen (attempt (RequestCreate (new_request_row E tenant_user app requester resource_path
              role_code reason expires_at))) (\<lambda>created.
          case created of
            Inl e \<Rightarrow>
              andThen (attempt (FindPending tenant_user app requester resource_path)) (\<lambda>again.
              case again of
                Inr r \<Rightarrow> andThen (buildRequestView r) (\<lambda>view. ret (AlreadyPending view))
              | Inl _ \<Rightarrow> fail e)
          | Inr r \<Rightarrow>
              andThen (writeOperateLog (qe_permission E) ctx
                \<lparr>ol_tenant_user = tenant_user, ol_app = app, ol_actor_user = requester,
                 ol_action = ''permission.request.created'',
                 ol_resource_type = ''permission_request'', ol_resource_path = resource_path,
                 ol_target_user = requester, ol_target_id = show_int (wr_id r),
                 ol_summary = requester @ '' requested '' @ role_code @ '' on '' @ resource_path,
                 ol_status = ''success''\<rparr>) (\<lambda>_.
              andThen (buildRequestView r) (\<lambda>view. ret (Created view))))))))"

section \<open>Listings\<close>

definition ListMine :: "gostr \<Rightarrow> gostr \<Rightarrow> gostr \<Rightarrow> gostr \<Rightarrow> request_view list perm" where
  "ListMine tenant_user app requester status =
     andThen (RequestListMine tenant_user app (to_lower (trim_space requester))
       (normalizePermissionRequestStatus status)) buildRequestViews"

text \<open>The reviewer sees what he decided himself and what he may decide.\<close>

fun reviewable_loop ::
  "perm_env \<Rightarrow> perm_ctx \<Rightarrow> gostr \<Rightarrow> request_row list \<Rightarrow> request_row list \<Rightarrow> request_row list perm" where
  "reviewable_loop E ctx reviewer [] reviewable = ret reviewable"
| "reviewable_loop E ctx reviewer (r # rs) reviewable =
     (if wr_reviewed_by r = reviewer
      then reviewable_loop E ctx reviewer rs (reviewable @ [r])
      else andThen (ServiceHasPermission E ctx reviewer (wr_resource_path r) ActionAdmin) (\<lambda>can_review.
        reviewable_loop E ctx reviewer rs (if can_review then reviewable @ [r] else reviewable)))"

definition filterReviewableRequests ::
  "request_env \<Rightarrow> perm_ctx \<Rightarrow> request_row list \<Rightarrow> gostr \<Rightarrow> request_view list perm" where
  "filterReviewableRequests E ctx rs reviewer =
     andThen (reviewable_loop (qe_permission E) ctx (to_lower (trim_space reviewer)) rs [])
       buildRequestViews"

definition ListPendingForReviewer ::
  "request_env \<Rightarrow> perm_ctx \<Rightarrow> gostr \<Rightarrow> gostr \<Rightarrow> gostr \<Rightarrow> request_view list perm" where
  "ListPendingForReviewer E ctx tenant_user app reviewer =
     andThen (RequestListWorkspace tenant_user app [RequestPending]) (\<lambda>rs.
       filterReviewableRequests E ctx rs reviewer)"

definition ListHistoryForReviewer ::
  "request_env \<Rightarrow> perm_ctx \<Rightarrow> gostr \<Rightarrow> gostr \<Rightarrow> gostr \<Rightarrow> request_view list perm" where
  "ListHistoryForReviewer E ctx tenant_user app reviewer =
     andThen (RequestListWorkspace tenant_user app
       [RequestApproved, RequestRejected, RequestCancelled]) (\<lambda>rs.
       filterReviewableRequests E ctx rs reviewer)"

definition CountPendingForReviewer ::
  "request_env \<Rightarrow> perm_ctx \<Rightarrow> gostr \<Rightarrow> gostr \<Rightarrow> gostr \<Rightarrow> nat perm" where
  "CountPendingForReviewer E ctx tenant_user app reviewer =
     andThen (ListPendingForReviewer E ctx tenant_user app reviewer) (\<lambda>rs. ret (length rs))"

definition summary_at :: "gostr \<Rightarrow> workspace_summary \<Rightarrow> path_summary" where
  "summary_at path summary =
     (case map_of (ws_paths summary) path of None \<Rightarrow> \<lparr>ps_own = 0, ps_review = 0\<rparr> | Some p \<Rightarrow> p)"

definition count_own :: "request_row \<Rightarrow> workspace_summary \<Rightarrow> workspace_summary" where
  "count_own r summary =
     (let path = NormalizeResourcePath (wr_resource_path r); p = summary_at path summary in
      summary\<lparr>ws_paths := AList.update path (p\<lparr>ps_own := ps_own p + 1\<rparr>) (ws_paths summary),
              ws_own := ws_own summary + 1\<rparr>)"

definition count_review ::
  "(gostr \<times> access_result) list \<Rightarrow> request_row \<Rightarrow> workspace_summary \<Rightarrow> workspace_summary" where
  "count_review by_path r summary =
     (let path = NormalizeResourcePath (wr_resource_path r) in
      case map_of by_path path of None \<Rightarrow> summary
      | Some resolved \<Rightarrow>
          if \<not> HasPermission (re_permissions resolved) ActionAdmin then summary
          else let p = summary_at path summary in
            summary\<lparr>ws_paths := AList.update path (p\<lparr>ps_review := ps_review p + 1\<rparr>) (ws_paths summary),
                    ws_review := ws_review summary + 1\<rparr>)"

definition WorkspaceSummary ::
  "request_env \<Rightarrow> perm_ctx \<Rightarrow> gostr \<Rightarrow> gostr \<Rightarrow> gostr \<Rightarrow> workspace_summary perm" where
  "WorkspaceSummary E ctx tenant_user app username =
     (let username = to_lower (trim_space username) in
      andThen (RequestListMine tenant_user app username RequestPending) (\<lambda>mine.
      let summary = fold count_own mine \<lparr>ws_paths = [], ws_own = 0, ws_review = 0\<rparr> in
      andThen (RequestListWorkspace tenant_user app [RequestPending]) (\<lambda>pending.
      andThen (PermissionsForTree (qe_permission E) ctx username
        (keep_first (\<lambda>p. p) (map (\<lambda>r. NormalizeResourcePath (wr_resource_path r)) pending) [])) (\<lambda>by_path.
        ret (fold (count_review by_path) pending summary)))))"

section \<open>Deciding a request\<close>

text \<open>The text a cancellation leaves, in UTF-8.\<close>

definition cancel_comment :: gostr where
  "cancel_comment =
     [CHR 0xE7, CHR 0x94, CHR 0xB3, CHR 0xE8, CHR 0xAF, CHR 0xB7, CHR 0xE4, CHR 0xBA, CHR 0xBA,
      CHR 0xE6, CHR 0x92, CHR 0xA4, CHR 0xE9, CHR 0x94, CHR 0x80]"

text \<open>The columns a decision writes.\<close>

definition decided :: "gostr \<Rightarrow> gostr \<Rightarrow> int \<Rightarrow> gostr \<Rightarrow> request_row \<Rightarrow> request_row" where
  "decided status reviewer t comment r =
     r\<lparr>wr_status := status, wr_pending_key := None, wr_reviewed_by := reviewer,
       wr_reviewed_at := Some t, wr_review_comment := comment, wr_updated_by := reviewer\<rparr>"

definition state_changed :: "'a perm \<Rightarrow> 'a perm" where
  "state_changed m = andThen (attempt m) (\<lambda>r. case r of
     Inl e \<Rightarrow> if e = PErrStateChanged then fail PErrAlreadyHandled else fail e
   | Inr a \<Rightarrow> ret a)"

definition approval_row :: "request_row \<Rightarrow> gostr \<Rightarrow> role_row" where
  "approval_row r reviewer =
     \<lparr>ra_id = 0, ra_created_at = 0, ra_updated_at = 0, ra_deleted_at = None,
      ra_created_by = reviewer, ra_updated_by = reviewer, ra_deleted_by = [],
      ra_tenant_user = wr_tenant_user r, ra_app = wr_app r,
      ra_principal_type = PrincipalUser, ra_principal_key = wr_requester r,
      ra_resource_path = NormalizeResourcePath (wr_resource_path r),
      ra_role_code = NormalizeRoleCode (wr_requested_role r),
      ra_assignment_key = None, ra_expires_at = wr_requested_expires r\<rparr>"

definition approve_grant :: "request_env \<Rightarrow> gostr \<Rightarrow> int \<Rightarrow> request_row \<Rightarrow> unit perm" where
  "approve_grant E reviewer t r =
     (if \<not> requestable_role (NormalizeRoleCode (wr_requested_role r))
      then fail (PErrInvalidRole (wr_requested_role r))
      else if expired (wr_requested_expires r) t then fail PErrExpiryPassed
      else UpsertAssignment (pe_sha256 (qe_permission E)) (approval_row r reviewer))"

definition review_tx ::
  "request_env \<Rightarrow> int \<Rightarrow> gostr \<Rightarrow> gostr \<Rightarrow> gostr \<Rightarrow> int \<Rightarrow> unit perm" where
  "review_tx E i reviewer status comment t =
     tx PErrDB
       (andThen (RequestGetByID i) (\<lambda>r.
        if wr_status r \<noteq> RequestPending then fail PErrStateChanged
        else andThen (only_if (status = RequestApproved) (approve_grant E reviewer t r)) (\<lambda>_.
          UpdateDecisionWithDB i RequestPending (decided status reviewer t comment))))"

definition notifyPermissionRequestDecision :: "request_env \<Rightarrow> request_row \<Rightarrow> unit perm" where
  "notifyPermissionRequestDecision E r =
     sendPermissionNotification (qe_permission E)
       \<lparr>nt_to_user = wr_requester r, nt_actor = wr_reviewed_by r,
        nt_tenant_user = wr_tenant_user r, nt_app = wr_app r,
        nt_resource_path = wr_resource_path r\<rparr>"

definition not_approver :: "unit perm \<Rightarrow> unit perm" where
  "not_approver m = andThen (attempt m) (\<lambda>r. case r of
     Inl e \<Rightarrow> fail (PErrNotApprover e) | Inr _ \<Rightarrow> ret ())"

definition review ::
  "request_env \<Rightarrow> perm_ctx \<Rightarrow> int \<Rightarrow> gostr \<Rightarrow> gostr \<Rightarrow> gostr \<Rightarrow> request_view perm" where
  "review E ctx i reviewer status comment =
     (let reviewer = to_lower (trim_space reviewer); comment = trim_space comment in
      andThen (RequestGetByID i) (\<lambda>r.
      if wr_status r \<noteq> RequestPending then fail PErrAlreadyHandled
      else if wr_requester r = reviewer then fail PErrOwnRequest
      else
        andThen (not_approver (RequirePermission (qe_permission E) ctx reviewer
          (wr_resource_path r) ActionAdmin)) (\<lambda>_.
        andThen now (\<lambda>t.
        andThen (state_changed (review_tx E i reviewer status comment t)) (\<lambda>_.
        let r = decided status reviewer t comment r in
        andThen (writeReviewOperateLog E ctx r reviewer) (\<lambda>_.
        andThen (notifyPermissionRequestDecision E r) (\<lambda>_. buildRequestView r)))))))"

definition Approve :: "request_env \<Rightarrow> perm_ctx \<Rightarrow> int \<Rightarrow> gostr \<Rightarrow> gostr \<Rightarrow> request_view perm" where
  "Approve E ctx i reviewer comment = review E ctx i reviewer RequestApproved comment"

definition Reject :: "request_env \<Rightarrow> perm_ctx \<Rightarrow> int \<Rightarrow> gostr \<Rightarrow> gostr \<Rightarrow> request_view perm" where
  "Reject E ctx i reviewer comment =
     (if trim_space comment = [] then fail PErrNoComment
      else review E ctx i reviewer RequestRejected comment)"

definition cancel_tx :: "int \<Rightarrow> gostr \<Rightarrow> int \<Rightarrow> unit perm" where
  "cancel_tx i requester t =
     tx PErrDB (UpdateDecisionWithDB i RequestPending
       (decided RequestCancelled requester t cancel_comment))"

definition CancelRequest :: "request_env \<Rightarrow> perm_ctx \<Rightarrow> int \<Rightarrow> gostr \<Rightarrow> request_view perm" where
  "CancelRequest E ctx i requester =
     (let requester = to_lower (trim_space requester) in
      andThen (RequestGetByID i) (\<lambda>r.
      if wr_requester r \<noteq> requester then fail PErrNotOwnRequest
      else if wr_status r \<noteq> RequestPending then fail PErrAlreadyHandled
      else
        andThen now (\<lambda>t.
        andThen (state_changed (cancel_tx i requester t)) (\<lambda>_.
        let r = decided RequestCancelled requester t cancel_comment r in
        andThen (writeReviewOperateLog E ctx r requester) (\<lambda>_. buildRequestView r)))))"

end
