(* ===== verification/PermCore.thy ===== *)
theory PermCore
  imports GrantStore PermissionRequest
begin

text \<open>
  What the operations of the permission subsystem leave alone, and the decision they compute.
  Reading, caching, auditing and notifying never touch the core of the database: the
  assignments, the requests, the applications and the resource tree. The decision
  \<open>may\<close> is what \<open>ServiceHasPermission\<close> answers, as a predicate of the tables.
\<close>

section \<open>The core of the database\<close>

definition perm_core where
  "perm_core s = (roles s, requests s, apps s, tree_paths s)"

lemma perm_core_simps [simp]:
  "perm_core (s\<lparr>app_cache := c\<rparr>) = perm_core s"
  "perm_core (s\<lparr>op_logs := l\<rparr>) = perm_core s"
  "perm_core (s\<lparr>notices := n\<rparr>) = perm_core s"
  by (simp_all add: perm_core_def)

lemma perm_core_parts:
  "perm_core s = perm_core s' \<Longrightarrow> roles s = roles s' \<and> requests s = requests s' \<and>
     apps s = apps s' \<and> tree_paths s = tree_paths s'"
  by (simp add: perm_core_def)

text \<open>An action that leaves the core alone keeps every predicate of the core.\<close>

abbreviation core_kept :: "'a perm \<Rightarrow> bool" where
  "core_kept m \<equiv> (\<forall>x. stable (\<lambda>s. perm_core s = x) m)"

lemma core_kept_pred:
  "core_kept m \<Longrightarrow> (\<And>s s'. perm_core s = perm_core s' \<Longrightarrow> I s \<Longrightarrow> I s') \<Longrightarrow> stable I m"
  unfolding stable_def by metis

named_theorems core_intros

lemma core_kept_query [core_intros]: "core_kept (query e f)"
  and core_kept_ret [core_intros]: "core_kept (ret a)"
  and core_kept_fail [core_intros]: "core_kept (fail e')"
  and core_kept_now [core_intros]: "core_kept now"
  by (simp_all add: stable_query stable_ret stable_fail stable_now)

lemma core_kept_andThen [core_intros]:
  "core_kept m \<Longrightarrow> (\<And>a. core_kept (f a)) \<Longrightarrow> core_kept (andThen m f)"
  by (simp add: stable_andThen)

lemma core_kept_attempt [core_intros]: "core_kept m \<Longrightarrow> core_kept (attempt m)"
  by (simp add: stable_attempt)

lemma core_kept_for_each [core_intros]: "(\<And>x. core_kept (f x)) \<Longrightarrow> core_kept (for_each f xs)"
  by (simp add: stable_for_each)

lemma core_kept_if [core_intros]: "(b \<Longrightarrow> core_kept m) \<Longrightarrow> (\<not> b \<Longrightarrow> core_kept m') \<Longrightarrow> core_kept (if b then m else m')"
  and core_kept_case_prod [core_intros]: "(\<And>a b. core_kept (g a b)) \<Longrightarrow> core_kept (case p of (a, b) \<Rightarrow> g a b)"
  and core_kept_case_option [core_intros]:
    "core_kept n \<Longrightarrow> (\<And>x. core_kept (h x)) \<Longrightarrow> core_kept (case o' of None \<Rightarrow> n | Some x \<Rightarrow> h x)"
  and core_kept_case_sum [core_intros]:
    "(\<And>x. core_kept (l x)) \<Longrightarrow> (\<And>y. core_kept (r y)) \<Longrightarrow> core_kept (case z of Inl x \<Rightarrow> l x | Inr y \<Rightarrow> r y)"
  and core_kept_case_list [core_intros]:
    "core_kept n' \<Longrightarrow> (\<And>x xs. core_kept (c x xs)) \<Longrightarrow> core_kept (case ys of [] \<Rightarrow> n' | x # xs \<Rightarrow> c x xs)"
  and core_kept_case_access_error [core_intros]:
    "(\<And>x. core_kept (q x)) \<Longrightarrow> core_kept (case err of BadResourcePath x \<Rightarrow> q x)"
  and core_kept_case_bool [core_intros]:
    "core_kept m1 \<Longrightarrow> core_kept m2 \<Longrightarrow> core_kept (case d of True \<Rightarrow> m1 | False \<Rightarrow> m2)"
  by (simp_all split: prod.split option.split sum.split list.split access_error.split bool.split)

lemma core_kept_write_log [core_intros]: "core_kept (write_log l)"
  unfolding write_log_def
  by (intro allI stable_andThen stable_attempt stable_modify stable_ret) simp

lemma core_kept_send_notice [core_intros]: "core_kept (send_notice n)"
  and core_kept_cache_lookup [core_intros]: "core_kept (cache_lookup k)"
  and core_kept_cache_put [core_intros]: "core_kept (cache_put k row)"
  by (simp_all add: stable_def send_notice_def cache_lookup_def cache_put_def)

lemma core_kept_repositories [core_intros]:
  "core_kept (require_row r)" "core_kept (GetAppByUserName t a)" "core_kept (GetAppsByUserAppPairs ps)"
  "core_kept (tree_has p)" "core_kept (ListAssignmentsForPrincipals t a prs)"
  "core_kept (ListAssignmentsForWorkspace t a)" "core_kept (ListActiveAssignmentsForPrincipals prs tm)"
  "core_kept (FindPending t a u p)" "core_kept (RequestGetByID i)"
  "core_kept (RequestListMine t a u st)" "core_kept (RequestListWorkspace t a sts)"
  unfolding require_row_def GetAppByUserName_def GetAppsByUserAppPairs_def tree_has_def
    ListAssignmentsForPrincipals_def ListAssignmentsForWorkspace_def
    ListActiveAssignmentsForPrincipals_def FindPending_def RequestGetByID_def RequestListMine_def
    RequestListWorkspace_def Let_def
  by (intro core_intros)+

lemma core_kept_service [core_intros]:
  "core_kept (parse_user_app p)" "core_kept (isWorkspaceOwnerOrLegacyAdmin E t a u)"
  "core_kept (writeOperateLog E ctx l)" "core_kept (sendPermissionNotification E n)"
  unfolding parse_user_app_def isWorkspaceOwnerOrLegacyAdmin_def writeOperateLog_def
    sendPermissionNotification_def Let_def
  by (intro core_intros)+

lemma core_kept_reports [core_intros]:
  "core_kept (writeRoleGrantedOperateLog E ctx g)" "core_kept (notifyRoleGranted E g)"
  "core_kept (notifyBatchRolesGranted E gs)" "core_kept (writeReviewOperateLog F ctx r u)"
  "core_kept (notifyPermissionRequestDecision F r)"
  unfolding writeRoleGrantedOperateLog_def notifyRoleGranted_def notifyBatchRolesGranted_def
    writeReviewOperateLog_def notifyPermissionRequestDecision_def Let_def
  by (intro core_intros)+

lemma core_kept_resolve [core_intros]: "core_kept (ResolvePermissions E ctx u p)"
  unfolding ResolvePermissions_def Let_def by (intro core_intros)+

lemma core_kept_permission [core_intros]:
  "core_kept (ServiceHasPermission E ctx u p act)" "core_kept (RequirePermission E ctx u p act)"
  "core_kept (HasAnyWorkspacePermission E ctx t a u)" "core_kept (ListAccessibleApps E ctx u)"
  "core_kept (ListAssignments p)"
  unfolding ServiceHasPermission_def RequirePermission_def HasAnyWorkspacePermission_def
    ListAccessibleApps_def ListAssignments_def Let_def
  by (intro core_intros)+

lemma core_kept_same_workspace [core_intros]: "core_kept (same_workspace ws ps)"
  by (induction ws ps rule: same_workspace.induct) (simp_all add: stable_ret core_intros)

lemma core_kept_tree [core_intros]: "core_kept (PermissionsForTree E ctx u ps)"
  unfolding PermissionsForTree_def Let_def by (intro core_intros)+

lemma core_kept_checks [core_intros]:
  "core_kept (validateGrantRoleRequest g)" "core_kept (requireAdminForGrant E ctx t u p r)"
  "core_kept (ensureAssignablePrincipal E pr)"
  unfolding validateGrantRoleRequest_def requireAdminForGrant_def ensureAssignablePrincipal_def Let_def
  by (intro core_intros)+

lemma core_kept_batch_check [core_intros]: "core_kept (batch_check E ctx g pr tg)"
  unfolding batch_check_def by (intro core_intros)+

lemma core_kept_views [core_intros]:
  "core_kept (Approvers t a p)" "core_kept (buildRequestView r)"
  unfolding Approvers_def buildRequestView_def by (intro core_intros)+

lemma core_kept_build_views [core_intros]: "core_kept (build_views rs by_path views)"
  by (induction rs by_path views rule: build_views.induct)
    (simp_all add: Let_def core_intros stable_ret split: option.split)

lemma core_kept_request_checks [core_intros]:
  "core_kept (check_request t a u p r reason e)"
  "core_kept (check_request_target F ctx t a u p r)"
  "core_kept (not_approver (RequirePermission E ctx u p act))"
  unfolding check_request_def check_request_target_def not_approver_def
  by (intro core_intros)+

lemma core_kept_reviewable [core_intros]: "core_kept (reviewable_loop E ctx u rs out)"
  by (induction E ctx u rs out rule: reviewable_loop.induct)
    (simp_all add: core_intros stable_ret)

lemma core_kept_listings [core_intros]:
  "core_kept (ListMine t a u st)" "core_kept (ListPendingForReviewer F ctx t a u)"
  "core_kept (ListHistoryForReviewer F ctx t a u)" "core_kept (CountPendingForReviewer F ctx t a u)"
  "core_kept (WorkspaceSummary F ctx t a u)"
  unfolding ListMine_def ListPendingForReviewer_def ListHistoryForReviewer_def
    CountPendingForReviewer_def WorkspaceSummary_def filterReviewableRequests_def
    buildRequestViews_def Let_def
  by (intro core_intros)+

section \<open>The decision\<close>

text \<open>The row \<open>GetAppByUserName\<close> answers with when the database does.\<close>

definition app_row_for :: "gostr \<Rightarrow> gostr \<Rightarrow> int \<Rightarrow> perm_db \<Rightarrow> app_row option" where
  "app_row_for tenant_user app t s =
     (case cache_get (tenant_user @ CHR '':'' # app) t s of
        Some row \<Rightarrow> Some row
      | None \<Rightarrow> first_row (\<lambda>a. ap_deleted_at a = None \<and> ap_user a = tenant_user \<and> ap_code a = app) (apps s))"

definition owner_or_admin :: "perm_env \<Rightarrow> gostr \<Rightarrow> gostr \<Rightarrow> gostr \<Rightarrow> int \<Rightarrow> perm_db \<Rightarrow> bool" where
  "owner_or_admin E tenant_user app username t s \<longleftrightarrow>
     isWorkspaceOwner tenant_user username \<or>
     (pe_app_repo E \<and> tenant_user \<noteq> [] \<and> app \<noteq> [] \<and> username \<noteq> [] \<and>
      (case app_row_for tenant_user app t s of None \<Rightarrow> False | Some row \<Rightarrow> IsOwnerOrAdmin row username))"

text \<open>A live, unexpired assignment of one of the principals, on the path or above it.\<close>

definition holds_principal :: "principal list \<Rightarrow> role_row \<Rightarrow> bool" where
  "holds_principal ps r \<longleftrightarrow>
     list_ex (\<lambda>p. let pr = NormalizePrincipal p in IsValidPrincipal pr \<and>
       pr_type pr = ra_principal_type r \<and> pr_key pr = ra_principal_key r) ps"

definition row_allows ::
  "principal list \<Rightarrow> gostr \<Rightarrow> gostr \<Rightarrow> gostr \<Rightarrow> gostr \<Rightarrow> int \<Rightarrow> role_row \<Rightarrow> bool" where
  "row_allows ps tenant_user app path action t r \<longleftrightarrow>
     row_live r \<and> ra_tenant_user r = tenant_user \<and> ra_app r = app \<and> holds_principal ps r \<and>
     counts path t (to_assignment r) \<and> HasPermission (RolePermissions (ra_role_code r)) action"

definition may ::
  "perm_env \<Rightarrow> perm_ctx \<Rightarrow> gostr \<Rightarrow> gostr \<Rightarrow> gostr \<Rightarrow> int \<Rightarrow> perm_db \<Rightarrow> bool" where
  "may E ctx username path action t s =
     (let username = trim_space username; path = NormalizeResourcePath path in
      case ParseUserApp path of Inl _ \<Rightarrow> False
      | Inr (tenant_user, app) \<Rightarrow>
          NormalizeAction action \<noteq> [] \<and>
          (isSystemRootUser username \<or>
           username \<noteq> [] \<and>
           (owner_or_admin E tenant_user app username t s \<or>
            list_ex (row_allows (principalsForUser E ctx username) tenant_user app
              (NormalizeResourcePath path) action t) (roles s))))"

lemma normal_principal_idem [simp]:
  "NormalizePrincipalType (NormalizePrincipalType t) = NormalizePrincipalType t"
  "pr_type (NormalizePrincipal p) = NormalizePrincipalType (pr_type p)"
  by (simp_all add: NormalizePrincipalType_def NormalizePrincipal_def Let_def)

lemma valid_principal_type:
  "IsValidPrincipal p \<Longrightarrow> NormalizePrincipalType (pr_type p) = PrincipalUser \<or>
     NormalizePrincipalType (pr_type p) = PrincipalDepartment"
  by (auto simp: IsValidPrincipal_def Let_def split: if_splits)

lemma collect_principals_sets:
  assumes "collect_principals ps seen us ds = (us', ds')"
    and "\<And>i. i \<in> set seen \<Longrightarrow> (\<exists>k \<in> set us. i = PrincipalUser @ CHR 0x00 # k) \<or>
           (\<exists>k \<in> set ds. i = PrincipalDepartment @ CHR 0x00 # k)"
  shows "set us' = set us \<union> {k. \<exists>p \<in> set ps. IsValidPrincipal (NormalizePrincipal p) \<and>
             NormalizePrincipalType (pr_type p) = PrincipalUser \<and> pr_key (NormalizePrincipal p) = k} \<and>
         set ds' = set ds \<union> {k. \<exists>p \<in> set ps. IsValidPrincipal (NormalizePrincipal p) \<and>
             NormalizePrincipalType (pr_type p) = PrincipalDepartment \<and> pr_key (NormalizePrincipal p) = k}"
  using assms
proof (induction ps arbitrary: seen us ds)
  case Nil
  then show ?case by simp
next
  case (Cons p ps)
  let ?pr = "NormalizePrincipal p"
  let ?i = "pr_type ?pr @ CHR 0x00 # pr_key ?pr"
  have t: "IsValidPrincipal ?pr \<Longrightarrow> pr_type ?pr = PrincipalUser \<or> pr_type ?pr = PrincipalDepartment"
    using valid_principal_type [of ?pr] by simp
  consider (invalid) "\<not> IsValidPrincipal ?pr"
    | (old) "IsValidPrincipal ?pr" "?i \<in> set seen"
    | (user) "IsValidPrincipal ?pr" "?i \<notin> set seen" "pr_type ?pr = PrincipalUser"
    | (department) "IsValidPrincipal ?pr" "?i \<notin> set seen" "pr_type ?pr = PrincipalDepartment"
    using t by blast
  then show ?case
  proof cases
    case invalid
    then show ?thesis using Cons.prems Cons.IH [of seen us ds] by (auto simp: Let_def)
  next
    case old
    then have "(pr_type ?pr = PrincipalUser \<and> pr_key ?pr \<in> set us) \<or>
        (pr_type ?pr = PrincipalDepartment \<and> pr_key ?pr \<in> set ds)"
      using Cons.prems(2) [OF old(2)] t [OF old(1)] by auto
    then show ?thesis using old Cons.prems Cons.IH [of seen us ds] by (auto simp: Let_def)
  next
    case user
    have "collect_principals ps (?i # seen) (us @ [pr_key ?pr]) ds = (us', ds')"
      using user Cons.prems(1) by (simp add: Let_def)
    moreover have "(\<exists>k \<in> set (us @ [pr_key ?pr]). i = PrincipalUser @ CHR 0x00 # k) \<or>
        (\<exists>k \<in> set ds. i = PrincipalDepartment @ CHR 0x00 # k)" if "i \<in> set (?i # seen)" for i
      using that Cons.prems(2) [of i] user(3) by auto
    ultimately show ?thesis using Cons.IH [of "?i # seen" "us @ [pr_key ?pr]" ds] user by auto
  next
    case department
    have "collect_principals ps (?i # seen) us (ds @ [pr_key ?pr]) = (us', ds')"
      using department Cons.prems(1) by (simp add: Let_def)
    moreover have "(\<exists>k \<in> set us. i = PrincipalUser @ CHR 0x00 # k) \<or>
        (\<exists>k \<in> set (ds @ [pr_key ?pr]). i = PrincipalDepartment @ CHR 0x00 # k)"
      if "i \<in> set (?i # seen)" for i
      using that Cons.prems(2) [of i] department(3) by auto
    ultimately show ?thesis using Cons.IH [of "?i # seen" us "ds @ [pr_key ?pr]"] department by auto
  qed
qed

lemma principal_matches_iff: "principal_matches ps r \<longleftrightarrow> holds_principal ps r"
proof -
  obtain us ds where c: "collect_principals ps [] [] [] = (us, ds)"
    by (cases "collect_principals ps [] [] []")
  have us: "set us = {k. \<exists>p \<in> set ps. IsValidPrincipal (NormalizePrincipal p) \<and>
             NormalizePrincipalType (pr_type p) = PrincipalUser \<and> pr_key (NormalizePrincipal p) = k}"
    and ds: "set ds = {k. \<exists>p \<in> set ps. IsValidPrincipal (NormalizePrincipal p) \<and>
             NormalizePrincipalType (pr_type p) = PrincipalDepartment \<and> pr_key (NormalizePrincipal p) = k}"
    using collect_principals_sets [OF c] by auto
  have t: "IsValidPrincipal (NormalizePrincipal p) \<Longrightarrow>
      NormalizePrincipalType (pr_type p) = PrincipalUser \<or>
      NormalizePrincipalType (pr_type p) = PrincipalDepartment" for p
    using valid_principal_type [of "NormalizePrincipal p"] by simp
  show ?thesis
    unfolding principal_matches_def c prod.case us ds holds_principal_def list_ex_iff Let_def
      normal_principal_idem mem_Collect_eq
  proof (rule iffI)
    assume "\<exists>p \<in> set ps. IsValidPrincipal (NormalizePrincipal p) \<and>
      NormalizePrincipalType (pr_type p) = ra_principal_type r \<and> pr_key (NormalizePrincipal p) = ra_principal_key r"
    then obtain p where "p \<in> set ps" "IsValidPrincipal (NormalizePrincipal p)"
      "NormalizePrincipalType (pr_type p) = ra_principal_type r"
      "pr_key (NormalizePrincipal p) = ra_principal_key r" by blast
    with t [of p] show "(ra_principal_type r = PrincipalUser \<and> (\<exists>p \<in> set ps. IsValidPrincipal (NormalizePrincipal p) \<and>
        NormalizePrincipalType (pr_type p) = PrincipalUser \<and> pr_key (NormalizePrincipal p) = ra_principal_key r)) \<or>
      (ra_principal_type r = PrincipalDepartment \<and> (\<exists>p \<in> set ps. IsValidPrincipal (NormalizePrincipal p) \<and>
        NormalizePrincipalType (pr_type p) = PrincipalDepartment \<and> pr_key (NormalizePrincipal p) = ra_principal_key r))"
      by auto
  qed auto
qed

lemma permissions_of_owner: "HasPermission (RolePermissions RoleOwner) a \<longleftrightarrow> NormalizeAction a \<noteq> []"
  by (auto simp: HasPermission_cases RolePermissions_def NormalizeRoleCode_known perm_at_def)

lemma permissions_of_nobody [simp]: "\<not> HasPermission EmptyPermissionSet a"
  by (simp add: HasPermission_cases)

lemma assignments_allow:
  "(\<exists>a \<in> set (toAccessAssignments (assignments_for tenant app ps s)). counts path t a \<and>
      HasPermission (RolePermissions (as_role_code a)) action) \<longleftrightarrow>
   list_ex (row_allows ps tenant app path action t) (roles s)"
  by (auto simp: toAccessAssignments_def assignments_for_def row_allows_def list_ex_iff
      principal_matches_iff to_assignment_def)

section \<open>Runs of the decision\<close>

lemma GetAppByUserName_run:
  assumes "GetAppByUserName tenant app w = (r, w')"
  shows "clock w' = clock w" and "roles (store w') = roles (store w)"
    and "r = Inr row \<Longrightarrow> app_row_for tenant app (clock w) (store w) = Some row"
    and "faults w = [] \<Longrightarrow> faults w' = []"
    and "faults w = [] \<Longrightarrow> r = (case app_row_for tenant app (clock w) (store w) of
           None \<Rightarrow> Inl PErrNotFound | Some row \<Rightarrow> Inr row)"
  using assms
  by (auto simp: GetAppByUserName_def Let_def app_row_for_def andThen_def cache_lookup_def cache_put_def
      query_def stmt_def require_row_def ret_def fail_def next_fails_def
      split: option.splits if_splits prod.splits)

lemma owner_or_admin_run:
  assumes "isWorkspaceOwnerOrLegacyAdmin E tenant app u w = (r, w')"
  shows "clock w' = clock w" and "roles (store w') = roles (store w)"
    and "r = Inr True \<Longrightarrow> owner_or_admin E tenant app u (clock w) (store w)"
    and "faults w = [] \<Longrightarrow> faults w' = []"
    and "faults w = [] \<Longrightarrow> r = Inr (owner_or_admin E tenant app u (clock w) (store w))"
proof -
  obtain q w1 where run: "GetAppByUserName tenant app w = (q, w1)"
    by (cases "GetAppByUserName tenant app w")
  note facts = GetAppByUserName_run [OF run]
  show "clock w' = clock w" "roles (store w') = roles (store w)"
    "faults w = [] \<Longrightarrow> faults w' = []"
    using assms facts
    by (auto simp: isWorkspaceOwnerOrLegacyAdmin_def andThen_def attempt_def run ret_def
        split: if_splits sum.splits)
  show "r = Inr True \<Longrightarrow> owner_or_admin E tenant app u (clock w) (store w)"
    using assms facts(3)
    by (auto simp: isWorkspaceOwnerOrLegacyAdmin_def owner_or_admin_def andThen_def attempt_def run
        ret_def split: if_splits sum.splits)
  show "faults w = [] \<Longrightarrow> r = Inr (owner_or_admin E tenant app u (clock w) (store w))"
    using assms facts(5)
    by (auto simp: isWorkspaceOwnerOrLegacyAdmin_def owner_or_admin_def andThen_def attempt_def run
        ret_def split: if_splits sum.splits option.splits)
qed

lemma isSystemRootUser_Nil [simp]: "\<not> isSystemRootUser []"
  by (simp add: isSystemRootUser_def)

lemma row_allows_action:
  "list_ex (row_allows ps tenant app path action t) rows \<Longrightarrow> NormalizeAction action \<noteq> []"
  by (auto simp: list_ex_iff row_allows_def HasPermission_cases)

text \<open>A positive answer is justified in every run, also when statements fail.\<close>

lemma ServiceHasPermission_sound:
  assumes "ServiceHasPermission E ctx username path action w = (Inr True, w')"
  shows "may E ctx username path action (clock w) (store w)"
proof (cases "ParseUserApp (NormalizeResourcePath path)")
  case (Inl e)
  with assms show ?thesis
    by (cases e) (auto simp: ServiceHasPermission_def ResolvePermissions_def parse_user_app_def
        Let_def run_simps)
next
  case (Inr ws)
  obtain tenant app where ws: "ws = (tenant, app)" by (cases ws)
  show ?thesis
  proof (cases "isSystemRootUser (trim_space username) \<or> trim_space username = []")
    case True
    with assms Inr ws show ?thesis
      by (auto simp: ServiceHasPermission_def ResolvePermissions_def parse_user_app_def may_def
          Let_def run_simps ownerAccessResult_def nobody_result_def permissions_of_owner)
  next
    case False
    obtain q w1 where own: "isWorkspaceOwnerOrLegacyAdmin E tenant app (trim_space username) w = (q, w1)"
      by (cases "isWorkspaceOwnerOrLegacyAdmin E tenant app (trim_space username) w")
    note facts = owner_or_admin_run [OF own]
    have core: "assignments_for tenant app ps (store w1) = assignments_for tenant app ps (store w)" for ps
      using facts(2) by (simp add: assignments_for_def)
    from assms False Inr ws show ?thesis
      by (cases q) (auto simp: ServiceHasPermission_def ResolvePermissions_def parse_user_app_def may_def
          Let_def run_simps own core facts(1) permissions_of_owner ListAssignmentsForPrincipals_def
          Resolve_allows assignments_allow dest: facts(3) row_allows_action split: if_splits)
  qed
qed

text \<open>When the database answers, the decision is exactly \<open>may\<close>.\<close>

lemma ServiceHasPermission_calm:
  assumes "faults w = []" and "ParseUserApp (NormalizeResourcePath path) = Inr ws"
  shows "\<exists>w'. ServiceHasPermission E ctx username path action w =
     (Inr (may E ctx username path action (clock w) (store w)), w') \<and> faults w' = []"
proof -
  obtain tenant app where ws: "ws = (tenant, app)" by (cases ws)
  show ?thesis
  proof (cases "isSystemRootUser (trim_space username) \<or> trim_space username = []")
    case True
    with assms ws show ?thesis
      by (auto simp: ServiceHasPermission_def ResolvePermissions_def parse_user_app_def may_def
          Let_def calm_simps ownerAccessResult_def nobody_result_def permissions_of_owner)
  next
    case False
    obtain q w1 where own: "isWorkspaceOwnerOrLegacyAdmin E tenant app (trim_space username) w = (q, w1)"
      by (cases "isWorkspaceOwnerOrLegacyAdmin E tenant app (trim_space username) w")
    note facts = owner_or_admin_run [OF own]
    have core: "assignments_for tenant app ps (store w1) = assignments_for tenant app ps (store w)" for ps
      using facts(2) by (simp add: assignments_for_def)
    from assms False ws facts(4) show ?thesis
      by (auto simp: ServiceHasPermission_def ResolvePermissions_def parse_user_app_def may_def
          Let_def calm_simps own core facts(1) facts(5) [OF assms(1)] permissions_of_owner
          ListAssignmentsForPrincipals_def Resolve_allows assignments_allow nobody_result_def
          dest: row_allows_action)
  qed
qed

end
