(* ===== verification/PermSamples.thy ===== *)
theory PermSamples
  imports PermissionRequest
begin

text \<open>
  A small concrete state of the permission subsystem for the witnesses: the workspace
  \<open>alice/crm\<close> with its owner alice, the administrator carol and a member bob, one pending request
  of bob, and the assignment that makes carol an administrator. The hash is the identity.
\<close>

definition sample_perm_env :: perm_env where
  "sample_perm_env = \<lparr>pe_sha256 = (\<lambda>s. s), pe_app_repo = True, pe_log_repo = True, pe_notifier = True,
     pe_user_lookup = Some (\<lambda>u. Inr (Some \<lparr>ui_username = u, ui_department = ''/org/sales''\<rparr>)),
     pe_department_lookup = Some (\<lambda>d. Inr True)\<rparr>"

definition sample_request_env :: request_env where
  "sample_request_env = \<lparr>qe_permission = sample_perm_env, qe_app_repo = True, qe_tree_repo = True\<rparr>"

definition sample_ctx :: perm_ctx where
  "sample_ctx = \<lparr>pc_user = ''alice'', pc_department = []\<rparr>"

definition bob :: principal where
  "bob = \<lparr>pr_type = ''user'', pr_key = ''bob''\<rparr>"

definition carol :: principal where
  "carol = \<lparr>pr_type = ''user'', pr_key = ''carol''\<rparr>"

definition sample_grant :: grant_role_request where
  "sample_grant = \<lparr>gr_tenant_user = ''alice'', gr_app = ''crm'', gr_principal = bob,
     gr_resource_path = ''/alice/crm/sales'', gr_role_code = ''member'', gr_expires_at = None,
     gr_created_by = ''alice''\<rparr>"

definition sample_batch :: batch_grant_role_request where
  "sample_batch = \<lparr>bg_tenant_user = ''alice'', bg_app = ''crm'', bg_principals = [bob],
     bg_resource_paths = [''/alice/crm/sales'', ''/alice/crm/docs''], bg_role_codes = [''member''],
     bg_expires_at = None, bg_created_by = ''alice''\<rparr>"

definition sample_revoke :: revoke_role_request where
  "sample_revoke = \<lparr>rv_tenant_user = ''alice'', rv_app = ''crm'', rv_principal = carol,
     rv_resource_path = ''/alice/crm'', rv_role_code = ''admin'', rv_actor = ''alice''\<rparr>"

definition sample_role :: role_row where
  "sample_role = \<lparr>ra_id = 1, ra_created_at = 1, ra_updated_at = 1, ra_deleted_at = None,
     ra_created_by = ''alice'', ra_updated_by = ''alice'', ra_deleted_by = [],
     ra_tenant_user = ''alice'', ra_app = ''crm'', ra_principal_type = ''user'',
     ra_principal_key = ''carol'', ra_resource_path = ''/alice/crm'', ra_role_code = ''admin'',
     ra_assignment_key = Some (join_with [CHR 0x00]
       [''alice'', ''crm'', ''user'', ''carol'', ''/alice/crm'', ''admin'']),
     ra_expires_at = None\<rparr>"

definition sample_app :: app_row where
  "sample_app = \<lparr>ap_id = 1, ap_deleted_at = None, ap_created_by = ''alice'', ap_user = ''alice'',
     ap_code = ''crm'', ap_admins = ''dora''\<rparr>"

definition sample_request :: request_row where
  "sample_request = \<lparr>wr_id = 5, wr_created_at = 2, wr_updated_at = 2, wr_deleted_at = None,
     wr_created_by = ''bob'', wr_updated_by = ''bob'', wr_tenant_user = ''alice'', wr_app = ''crm'',
     wr_requester = ''bob'', wr_resource_path = ''/alice/crm/sales'', wr_requested_role = ''viewer'',
     wr_reason = ''work'', wr_status = ''pending'',
     wr_pending_key = Some (join_with [CHR 0x00] [''alice'', ''crm'', ''bob'', ''/alice/crm/sales'']),
     wr_reviewed_by = [], wr_reviewed_at = None, wr_review_comment = [],
     wr_requested_expires = None\<rparr>"

definition sample_perm_db :: perm_db where
  "sample_perm_db = \<lparr>roles = [sample_role], requests = [sample_request], apps = [sample_app],
     tree_paths = [''/alice/crm/sales''], app_cache = [], op_logs = [], notices = []\<rparr>"

definition sample_perm_world :: "perm_db world" where
  "sample_perm_world = \<lparr>clock = 100, seqs = (\<lambda>_. 10), faults = [], store = sample_perm_db\<rparr>"

end
