(* ===== verification/PermProps.thy ===== *)
theory PermProps
  imports PermCore PermSamples
begin

text \<open>
  What the permission service guarantees: its decisions, and the effect of granting and revoking
  on the abstract map of grants. The effects rest on the interfaces \<open>grant_map\<close> and
  \<open>grant_store\<close>.
\<close>

section \<open>The sample state\<close>

lemma run_splitI: "fst x = r \<Longrightarrow> x = (r, snd x)"
  by (cases x) simp

lemma sample_world_fields [simp]:
  "clock sample_perm_world = 100" "faults sample_perm_world = []"
  "store sample_perm_world = sample_perm_db" "pe_sha256 sample_perm_env = (\<lambda>s. s)"
  by (simp_all add: sample_perm_world_def sample_perm_env_def)

lemma sample_row_facts:
  "grant_id sample_role = row_columns sample_role"
  "list_all (\<lambda>x. CHR 0x00 \<notin> set x) (row_columns sample_role)"
  "ra_assignment_key sample_role = Some (row_key (\<lambda>s. s) sample_role)"
  by code_simp+

lemma sample_roles_ok: "roles_ok (\<lambda>s. s) UNIV sample_perm_db"
  by (simp add: roles_ok_def sample_perm_db_def row_normal_def sample_row_facts)

lemma sample_keys_ok: "keys_ok (\<lambda>s. s) UNIV sample_perm_db"
  using sample_roles_ok by (simp add: roles_ok_keys)

lemma payload_UNIV: "list_all (\<lambda>x. CHR 0x00 \<notin> set x) (grant_id r) \<Longrightarrow> payload_ok UNIV r"
  by (simp add: payload_ok_def)

lemma row_normal_UNIV:
  "grant_id r = row_columns r \<and> list_all (\<lambda>x. CHR 0x00 \<notin> set x) (row_columns r) \<Longrightarrow> row_normal UNIV r"
  by (simp add: row_normal_def)

section \<open>Decisions\<close>

text \<open>
  Access needs a reason, whatever fails: when the service answers that a user may do something,
  the user is the system user, the owner of the workspace or one of its administrators, or a live
  and unexpired assignment of the user or of one of the user's departments, on the resource or
  above it, has a role that allows the action.
\<close>

theorem permission_needs_reason:
  assumes "ServiceHasPermission E ctx username path action w = (Inr True, w')"
  shows "may E ctx username path action (clock w) (store w)"
  using assms by (rule ServiceHasPermission_sound)

theorem permission_needs_reason_witness:
  "may sample_perm_env sample_ctx ''carol'' ''/alice/crm/sales'' ''admin'' 100 sample_perm_db"
proof -
  have "fst (ServiceHasPermission sample_perm_env sample_ctx ''carol'' ''/alice/crm/sales'' ''admin''
      sample_perm_world) = Inr True"
    by code_simp
  from permission_needs_reason [OF run_splitI [OF this]] show ?thesis by simp
qed

text \<open>
  C11. The decision is complete: when the database answers and the path names a workspace, the
  service answers exactly \<open>may\<close>, in every state of the tables and of the application cache.
\<close>

theorem permission_decision:
  assumes "faults w = []" and "ParseUserApp (NormalizeResourcePath path) = Inr ws"
  shows "fst (ServiceHasPermission E ctx username path action w) =
     Inr (may E ctx username path action (clock w) (store w))"
  using ServiceHasPermission_calm [OF assms, of E ctx username action] by auto

theorem permission_decision_witness:
  "fst (ServiceHasPermission sample_perm_env sample_ctx ''bob'' ''/alice/crm/sales'' ''read'' sample_perm_world) =
     Inr (may sample_perm_env sample_ctx ''bob'' ''/alice/crm/sales'' ''read'' 100 sample_perm_db)"
proof -
  have "ParseUserApp (NormalizeResourcePath ''/alice/crm/sales'') = Inr (''alice'', ''crm'')"
    by code_simp
  from permission_decision [OF _ this, of sample_perm_world sample_perm_env sample_ctx "''bob''" "''read''"]
  show ?thesis by simp
qed

section \<open>Granting\<close>

definition actor_of :: "perm_ctx \<Rightarrow> gostr \<Rightarrow> gostr" where
  "actor_of ctx actor = (if actor = [] then pc_user ctx else actor)"

lemma GrantRole_alt:
  "GrantRole E ctx req =
     (let g = normal_grant req; g' = g\<lparr>gr_created_by := actor_of ctx (gr_created_by g)\<rparr> in
      andThen (validateGrantRoleRequest g) (\<lambda>_.
      andThen (requireAdminForGrant E ctx (gr_tenant_user g') (gr_created_by g')
                 (gr_resource_path g') (gr_role_code g')) (\<lambda>_.
      andThen (ensureAssignablePrincipal E (gr_principal g')) (\<lambda>_.
      andThen (UpsertAssignment (pe_sha256 E) (grant_row g')) (\<lambda>_.
      andThen (writeRoleGrantedOperateLog E ctx g') (\<lambda>_. notifyRoleGranted E g'))))))"
  by (auto simp: GrantRole_def actor_of_def Let_def)

lemma grant_row_fields [simp]:
  "row_columns (grant_row g) = [gr_tenant_user g, gr_app g, pr_type (gr_principal g),
     pr_key (gr_principal g), gr_resource_path g, gr_role_code g]"
  "ra_expires_at (grant_row g) = gr_expires_at g" "row_live (grant_row g)"
  by (simp_all add: grant_row_def row_columns_def row_live_def)

lemma row_normal_actor [simp]:
  "row_normal S (grant_row (g\<lparr>gr_created_by := u\<rparr>)) = row_normal S (grant_row g)"
  by (simp add: row_normal_def grant_id_def grant_row_def row_columns_def)

lemma grant_id_actor [simp]:
  "grant_id (grant_row (g\<lparr>gr_created_by := u\<rparr>)) = grant_id (grant_row g)"
  "payload_ok S (grant_row (g\<lparr>gr_created_by := u\<rparr>)) = payload_ok S (grant_row g)"
  by (simp_all add: payload_ok_def grant_id_def grant_row_def)

text \<open>The predicates of the grants are predicates of the core.\<close>

definition core_pred :: "(perm_db \<Rightarrow> bool) \<Rightarrow> bool" where
  "core_pred P \<longleftrightarrow> (\<forall>s s'. perm_core s = perm_core s' \<longrightarrow> P s \<longrightarrow> P s')"

lemma core_pred_grants [simp]:
  "core_pred (\<lambda>s. roles_ok sha256 S s \<and> live_grants s = m)"
  "core_pred (\<lambda>s. keys_ok sha256 S s \<and> keyed_grants s = m)"
  by (auto simp: core_pred_def perm_core_def roles_ok_def live_grants_def keys_ok_def keyed_grants_def)

lemma core_predD: "core_pred P \<Longrightarrow> perm_core s = perm_core s' \<Longrightarrow> P s \<Longrightarrow> P s'"
  unfolding core_pred_def by blast

lemma keeps_core: "core_pred P \<Longrightarrow> core_kept m' \<Longrightarrow> keeps P m'"
  by (rule keeps_stable, erule core_kept_pred, erule core_predD)

lemma core_before:
  "core_pred P \<Longrightarrow> core_kept n \<Longrightarrow> (\<And>a. hoare P (f a) Q) \<Longrightarrow> hoare P (andThen n f) Q"
  by (rule hoare_andThen [OF keeps_core])

lemma core_after:
  "core_pred Q \<Longrightarrow> hoare P n (\<lambda>_. Q) \<Longrightarrow> (\<And>a. core_kept (f a)) \<Longrightarrow> hoare P (andThen n f) (\<lambda>_. Q)"
  by (rule hoare_andThen [OF _ keeps_core])

lemma GrantRole_hoare:
  assumes "core_pred P" and "core_pred Q"
    and "\<And>u. hoare P (UpsertAssignment (pe_sha256 E) (grant_row ((normal_grant req)\<lparr>gr_created_by := u\<rparr>))) (\<lambda>_. Q)"
  shows "hoare P (GrantRole E ctx req) (\<lambda>_. Q)"
  unfolding GrantRole_alt Let_def
  by (intro core_before [OF assms(1)] core_after [OF assms(2) assms(3)] core_intros)

lemma GrantRole_live:
  assumes "row_normal S (grant_row (normal_grant req))"
  shows "hoare (\<lambda>s. roles_ok (pe_sha256 E) S s \<and> live_grants s = m) (GrantRole E ctx req)
     (\<lambda>_ s. roles_ok (pe_sha256 E) S s \<and>
        live_grants s = m(row_columns (grant_row (normal_grant req)) \<mapsto> gr_expires_at req))"
proof (rule GrantRole_hoare)
  fix u
  show "hoare (\<lambda>s. roles_ok (pe_sha256 E) S s \<and> live_grants s = m)
     (UpsertAssignment (pe_sha256 E) (grant_row ((normal_grant req)\<lparr>gr_created_by := u\<rparr>)))
     (\<lambda>_ s. roles_ok (pe_sha256 E) S s \<and>
        live_grants s = m(row_columns (grant_row (normal_grant req)) \<mapsto> gr_expires_at req))"
    using grants.upsert_refines [of S "grant_row ((normal_grant req)\<lparr>gr_created_by := u\<rparr>)" "pe_sha256 E" m] assms
    by (simp add: normal_grant_def)
qed simp_all

lemma GrantRole_keyed:
  assumes "payload_ok S (grant_row (normal_grant req))"
  shows "hoare (\<lambda>s. keys_ok (pe_sha256 E) S s \<and> keyed_grants s = m) (GrantRole E ctx req)
     (\<lambda>_ s. keys_ok (pe_sha256 E) S s \<and>
        keyed_grants s = m(grant_id (grant_row (normal_grant req)) \<mapsto> gr_expires_at req))"
proof (rule GrantRole_hoare)
  fix u
  have "ra_expires_at (grant_row (normal_grant req)) = gr_expires_at req" by (simp add: normal_grant_def)
  then show "hoare (\<lambda>s. keys_ok (pe_sha256 E) S s \<and> keyed_grants s = m)
     (UpsertAssignment (pe_sha256 E) (grant_row ((normal_grant req)\<lparr>gr_created_by := u\<rparr>)))
     (\<lambda>_ s. keys_ok (pe_sha256 E) S s \<and>
        keyed_grants s = m(grant_id (grant_row (normal_grant req)) \<mapsto> gr_expires_at req))"
    using keyed.upsert_refines [of S "grant_row ((normal_grant req)\<lparr>gr_created_by := u\<rparr>)" "pe_sha256 E" m] assms
    by simp
qed simp_all

text \<open>
  C12. Granting a role is an update of the abstract map of grants. A grant is identified by what the key
  of the table hashes: workspace, principal, path and role in normal form. After every successful
  \<open>GrantRole\<close> the grant the request names has the requested expiry, whether it is new, was revoked or
  was there with another expiry, every other grant is as before, and the keys still identify the rows.
  Assumed is that the keys identify the rows before, and of the request that no part of its identity
  contains the NUL byte that separates them and that SHA-256 does not collide on it and those of the
  table (\<open>payload_ok\<close>).
\<close>

theorem GrantRole_refines:
  assumes "keys_ok (pe_sha256 E) S (store w)" and "payload_ok S (grant_row (normal_grant req))"
    and "GrantRole E ctx req w = (Inr (), w')"
  shows "keys_ok (pe_sha256 E) S (store w') \<and>
     keyed_grants (store w') =
       (keyed_grants (store w))(grant_id (grant_row (normal_grant req)) \<mapsto> gr_expires_at req)"
  using hoareD [OF GrantRole_keyed [OF assms(2)] _ assms(3)] assms(1) by blast

theorem GrantRole_refines_witness:
  "keyed_grants (store (snd (GrantRole sample_perm_env sample_ctx
       (sample_grant\<lparr>gr_resource_path := ''/alice/crm/sales /''\<rparr>) sample_perm_world)))
     [''alice'', ''crm'', ''user'', ''bob'', ''/alice/crm/sales'', ''member''] = Some None"
proof -
  let ?req = "sample_grant\<lparr>gr_resource_path := ''/alice/crm/sales /''\<rparr>"
  have run: "fst (GrantRole sample_perm_env sample_ctx ?req sample_perm_world) = Inr ()"
    by code_simp
  have ident: "grant_id (grant_row (normal_grant ?req)) =
      [''alice'', ''crm'', ''user'', ''bob'', ''/alice/crm/sales'', ''member'']"
    by code_simp
  have payload: "payload_ok UNIV (grant_row (normal_grant ?req))"
    by (rule payload_UNIV) (simp add: ident)
  have "gr_expires_at ?req = None" by (simp add: sample_grant_def)
  with GrantRole_refines [OF _ payload run_splitI [OF run]] show ?thesis
    by (simp add: sample_keys_ok ident)
qed

text \<open>A batch: checks first, then one transaction, then reports that cannot fail.\<close>

lemma write_log_answers: "fst (write_log l w) = Inr ()"
  by (simp add: write_log_def andThen_def attempt_def ret_def split: prod.split sum.split)

lemma for_each_answers:
  "(\<And>x w. fst (f x w) = Inr ()) \<Longrightarrow> fst (for_each f xs w) = Inr ()"
proof (induction xs arbitrary: w)
  case (Cons x xs)
  obtain r w1 where run: "f x w = (r, w1)" by (cases "f x w")
  have "r = Inr ()" using Cons.prems [of x w] run by simp
  with Cons run show ?case by (simp add: andThen_def)
qed (simp add: ret_def)

lemma reports_answer:
  "fst (writeOperateLog E ctx l w) = Inr ()" "fst (sendPermissionNotification E n w) = Inr ()"
  by (simp_all add: writeOperateLog_def write_log_answers sendPermissionNotification_def
      send_notice_def ret_def Let_def)

lemma grant_reports_answer:
  "fst (writeRoleGrantedOperateLog E ctx g w) = Inr ()" "fst (notifyBatchRolesGranted E gs w) = Inr ()"
  "fst (notifyRoleGranted E g w) = Inr ()"
  by (auto simp: writeRoleGrantedOperateLog_def notifyBatchRolesGranted_def notifyRoleGranted_def
      reports_answer ret_def Let_def intro!: for_each_answers split: list.split)

definition batch_ready :: "batch_grant_role_request \<Rightarrow> bool" where
  "batch_ready req \<longleftrightarrow> bg_resource_paths req \<noteq> [] \<and> bg_principals req \<noteq> [] \<and> bg_role_codes req \<noteq> []"

definition batch_writes :: "perm_env \<Rightarrow> perm_ctx \<Rightarrow> batch_grant_role_request \<Rightarrow> unit perm" where
  "batch_writes E ctx b =
     andThen (for_each (ensureAssignablePrincipal E) (bg_principals b)) (\<lambda>_.
     andThen (for_each (batch_check E ctx b (hd (bg_principals b)))
       (batch_targets (bg_resource_paths b) (bg_role_codes b))) (\<lambda>_.
     tx PErrDB (for_each (UpsertAssignment (pe_sha256 E)) (map grant_row (batch_grants b)))))"

definition batch_body :: "perm_env \<Rightarrow> perm_ctx \<Rightarrow> batch_grant_role_request \<Rightarrow> unit perm" where
  "batch_body E ctx b =
     andThen (batch_writes E ctx b) (\<lambda>_.
     andThen (for_each (writeRoleGrantedOperateLog E ctx) (batch_grants b)) (\<lambda>_.
     notifyBatchRolesGranted E (batch_grants b)))"

lemma for_each_map: "for_each f (map g xs) = for_each (\<lambda>x. f (g x)) xs"
  by (induction xs) simp_all

lemma BatchGrantRoles_alt:
  "BatchGrantRoles E ctx req =
     (if batch_ready req \<and> batch_ready (normal_batch ctx req)
      then batch_body E ctx (normal_batch ctx req) else fail PErrMissingField)"
  by (auto simp: BatchGrantRoles_def batch_ready_def batch_body_def batch_writes_def andThen_assoc
      for_each_map Let_def)

lemma batch_body_hoare:
  assumes "\<And>g. g \<in> set (batch_grants b) \<Longrightarrow> payload_ok S (grant_row g)"
  shows "hoare (\<lambda>s. keys_ok (pe_sha256 E) S s \<and> keyed_grants s = m) (batch_body E ctx b)
     (\<lambda>_ s. keys_ok (pe_sha256 E) S s \<and> keyed_grants s =
        grant_map.put_all grant_id ra_expires_at (map grant_row (batch_grants b)) m)"
proof -
  have upserts: "hoare (\<lambda>s. keys_ok (pe_sha256 E) S s \<and> keyed_grants s = m)
     (tx PErrDB (for_each (UpsertAssignment (pe_sha256 E)) (map grant_row (batch_grants b))))
     (\<lambda>_ s. keys_ok (pe_sha256 E) S s \<and> keyed_grants s =
        grant_map.put_all grant_id ra_expires_at (map grant_row (batch_grants b)) m)"
    by (rule keyed.upsert_tx_refines) (use assms in auto)
  show ?thesis
    unfolding batch_body_def batch_writes_def
    by (rule core_after [OF core_pred_grants(2)])
      (intro core_before [OF core_pred_grants(2)] upserts core_intros)+
qed

text \<open>Operations whose failures leave the core as it was.\<close>

definition fails_clean :: "'a perm \<Rightarrow> bool" where
  "fails_clean m \<longleftrightarrow> (\<forall>w e w'. m w = (Inl e, w') \<longrightarrow> perm_core (store w') = perm_core (store w))"

lemma core_keptD: "core_kept m \<Longrightarrow> m w = (r, w') \<Longrightarrow> perm_core (store w') = perm_core (store w)"
  by (rule stableD [where I = "\<lambda>s. perm_core s = perm_core (store w)" and m = m]) (erule spec, rule refl)

lemma fails_clean_kept: "core_kept m \<Longrightarrow> fails_clean m"
  using core_keptD [of m] unfolding fails_clean_def by blast

lemma fails_clean_tx: "fails_clean (tx e m)"
  by (auto simp: fails_clean_def dest: tx_Inl_store)

lemma fails_clean_andThen:
  assumes "core_kept m" and "\<And>a. fails_clean (f a)"
  shows "fails_clean (andThen m f)"
  unfolding fails_clean_def
proof (intro allI impI)
  fix w e w'
  assume run: "andThen m f w = (Inl e, w')"
  obtain r w1 where m: "m w = (r, w1)" by (cases "m w")
  note kept = core_keptD [OF assms(1) m]
  show "perm_core (store w') = perm_core (store w)"
  proof (cases r)
    case (Inl x)
    with run m kept show ?thesis by (simp add: andThen_def)
  next
    case (Inr a)
    with run m have "f a w1 = (Inl e, w')" by (simp add: andThen_def)
    with assms(2) kept show ?thesis by (simp add: fails_clean_def)
  qed
qed

lemma fails_clean_reports:
  assumes "fails_clean m" and "\<And>a w. fst (f a w) = Inr ()"
  shows "fails_clean (andThen m f)"
  unfolding fails_clean_def
proof (intro allI impI)
  fix w e w'
  assume run: "andThen m f w = (Inl e, w')"
  obtain r w1 where m: "m w = (r, w1)" by (cases "m w")
  have "r = Inl e \<and> w1 = w'"
  proof (cases r)
    case (Inr a)
    then have "f a w1 = (Inl e, w')" using run m by (simp add: andThen_def)
    then have "fst (f a w1) = Inl e" by simp
    then show ?thesis by (simp add: assms(2))
  next
    case (Inl x)
    with run m show ?thesis by (simp add: andThen_def)
  qed
  with assms(1) m show "perm_core (store w') = perm_core (store w)" by (simp add: fails_clean_def)
qed

lemma reports_chain: "fst (m w) = Inr () \<Longrightarrow> (\<And>w. fst (n w) = Inr ()) \<Longrightarrow> fst (andThen m (\<lambda>_. n) w) = Inr ()"
  by (auto simp: andThen_def split: prod.splits sum.splits)

lemma batch_body_clean: "fails_clean (batch_body E ctx b)"
  unfolding batch_body_def batch_writes_def
  by (rule fails_clean_reports)
    (intro fails_clean_andThen fails_clean_tx core_intros reports_chain for_each_answers
      grant_reports_answer)+

lemma BatchGrantRoles_clean: "fails_clean (BatchGrantRoles E ctx req)"
  unfolding BatchGrantRoles_alt
  by (simp add: batch_body_clean fails_clean_kept core_kept_fail)

text \<open>
  C14. A batch grants everything or nothing: a successful \<open>BatchGrantRoles\<close> puts every combination of
  a path, a role and a principal of the request into the map of grants, each under the identity the
  key of the table hashes, with the requested expiry, and leaves the other grants alone; a failing one,
  at whatever check or statement, leaves every assignment, request and application as it was. Assumed
  is for the identities what \<open>GrantRole_refines\<close> assumes: no NUL byte and no collision of SHA-256.
\<close>

theorem BatchGrantRoles_all_or_nothing:
  assumes "keys_ok (pe_sha256 E) S (store w)"
    and "\<And>g. g \<in> set (batch_grants (normal_batch ctx req)) \<Longrightarrow> payload_ok S (grant_row g)"
    and "BatchGrantRoles E ctx req w = (r, w')"
  shows "case r of
      Inl _ \<Rightarrow> perm_core (store w') = perm_core (store w)
    | Inr _ \<Rightarrow> keys_ok (pe_sha256 E) S (store w') \<and>
        (\<forall>g. keyed_grants (store w') g =
          (if g \<in> (grant_id \<circ> grant_row) ` set (batch_grants (normal_batch ctx req))
           then Some (bg_expires_at req) else keyed_grants (store w) g))"
proof (cases r)
  case (Inl e)
  with BatchGrantRoles_clean assms(3) show ?thesis by (auto simp: fails_clean_def)
next
  case (Inr u)
  let ?b = "normal_batch ctx req"
  let ?rows = "map grant_row (batch_grants ?b)"
  have body: "batch_body E ctx ?b w = (Inr (), w')"
    using assms(3) Inr by (auto simp: BatchGrantRoles_alt run_simps split: if_splits)
  have expiry: "a \<in> set ?rows \<Longrightarrow> ra_expires_at a = bg_expires_at req" for a
    by (auto simp: batch_grants_def batch_grant_def normal_batch_def Let_def split: prod.splits)
  have "keys_ok (pe_sha256 E) S (store w') \<and> keyed_grants (store w') =
      grant_map.put_all grant_id ra_expires_at ?rows (keyed_grants (store w))"
    using hoareD [OF batch_body_hoare [OF assms(2)] _ body] assms(1) by blast
  moreover have "grant_map.put_all grant_id ra_expires_at ?rows (keyed_grants (store w)) g =
      (if g \<in> (grant_id \<circ> grant_row) ` set (batch_grants ?b) then Some (bg_expires_at req)
       else keyed_grants (store w) g)" for g
  proof (cases "g \<in> grant_id ` set ?rows")
    case True
    then show ?thesis using keyed.put_all_same [of g ?rows "bg_expires_at req", OF True expiry]
      by (simp add: image_comp)
  next
    case False
    then show ?thesis using keyed.put_all_other [OF False] by (simp add: image_comp)
  qed
  ultimately show ?thesis using Inr by simp
qed

theorem BatchGrantRoles_all_or_nothing_witness:
  "keyed_grants (store (snd (BatchGrantRoles sample_perm_env sample_ctx sample_batch sample_perm_world)))
     [''alice'', ''crm'', ''user'', ''bob'', ''/alice/crm/docs'', ''member''] = Some None"
proof -
  let ?gs = "batch_grants (normal_batch sample_ctx sample_batch)"
  have "fst (batch_writes sample_perm_env sample_ctx sample_batch sample_perm_world) = Inr ()"
    "normal_batch sample_ctx sample_batch = sample_batch" "batch_ready sample_batch"
    by code_simp+
  then have run: "fst (BatchGrantRoles sample_perm_env sample_ctx sample_batch sample_perm_world) = Inr ()"
    by (simp add: BatchGrantRoles_alt batch_body_def reports_chain grant_reports_answer for_each_answers)
  have "list_all (\<lambda>g. list_all (\<lambda>x. CHR 0x00 \<notin> set x) (grant_id (grant_row g))) ?gs"
    by code_simp
  then have payload: "g \<in> set ?gs \<Longrightarrow> payload_ok UNIV (grant_row g)" for g
    by (simp add: list_all_iff payload_UNIV)
  have "List.member (map (grant_id \<circ> grant_row) ?gs)
      [''alice'', ''crm'', ''user'', ''bob'', ''/alice/crm/docs'', ''member'']"
    by code_simp
  then have "[''alice'', ''crm'', ''user'', ''bob'', ''/alice/crm/docs'', ''member''] \<in>
      (grant_id \<circ> grant_row) ` set ?gs"
    by (simp only: List.member_iff set_map)
  moreover have "bg_expires_at sample_batch = None" by (simp add: sample_batch_def)
  ultimately show ?thesis
    using BatchGrantRoles_all_or_nothing [OF _ payload run_splitI [OF run]]
    by (simp add: sample_keys_ok)
qed

section \<open>Revoking\<close>

lemma RevokeRole_alt:
  "RevokeRole E ctx req =
     (let q = normal_revoke req; actor = actor_of ctx (rv_actor q);
          what = (rv_tenant_user q, rv_app q, rv_principal q, rv_resource_path q, rv_role_code q) in
      if rv_tenant_user q = [] \<or> rv_app q = [] \<or> \<not> IsValidPrincipal (rv_principal q) \<or>
         rv_resource_path q = [] then fail PErrMissingField
      else
        andThen (requireAdminForGrant E ctx (rv_tenant_user q) actor (rv_resource_path q) (rv_role_code q)) (\<lambda>_.
        if rv_role_code q = RoleOwner \<and> \<not> isWorkspaceOwner (rv_tenant_user q) actor
        then fail PErrOnlyOwnerRevokes
        else andThen (remove_query what) (\<lambda>_.
          writeOperateLog E ctx
            \<lparr>ol_tenant_user = rv_tenant_user q, ol_app = rv_app q,
             ol_actor_user = actor, ol_action = ''permission.role.revoked'',
             ol_resource_type = ''permission'', ol_resource_path = rv_resource_path q,
             ol_target_user = principalTargetUser (rv_principal q),
             ol_target_id = principalAuditID (rv_principal q),
             ol_summary = actor @ '' revoked role '' @ rv_role_code q @ '' from '' @
               principalAuditID (rv_principal q) @ '' on '' @ rv_resource_path q,
             ol_status = ''success''\<rparr>)))"
  by (auto simp: RevokeRole_def actor_of_def Let_def)

definition revoke_names :: "revoke_role_request \<Rightarrow> gostr list \<Rightarrow> bool" where
  "revoke_names req = (let q = normal_revoke req in
     names_grant (rv_tenant_user q, rv_app q, rv_principal q, rv_resource_path q, rv_role_code q))"

lemma RevokeRole_hoare:
  "hoare (\<lambda>s. roles_ok (pe_sha256 E) S s \<and> live_grants s = m) (RevokeRole E ctx req)
     (\<lambda>_ s. roles_ok (pe_sha256 E) S s \<and> live_grants s = m |` {g. \<not> revoke_names req g})"
  unfolding RevokeRole_alt Let_def revoke_names_def
  by (auto intro!: core_before core_after [OF _ grants.remove_refines] core_intros
      hoare_fail simp del: remove_query.simps names_grant.simps)



section \<open>A grant is effective\<close>

lemma user_type [simp]: "NormalizePrincipalType PrincipalUser = PrincipalUser"
  by code_simp

lemma user_principal:
  assumes "u = to_lower (trim_space name)" and "u \<noteq> []"
  shows "NormalizePrincipal \<lparr>pr_type = PrincipalUser, pr_key = u\<rparr> = \<lparr>pr_type = PrincipalUser, pr_key = u\<rparr>"
    and "IsValidPrincipal \<lparr>pr_type = PrincipalUser, pr_key = u\<rparr>"
    and "\<lparr>pr_type = PrincipalUser, pr_key = u\<rparr> \<in> set (PrincipalsForUser u path)"
proof -
  show n: "NormalizePrincipal \<lparr>pr_type = PrincipalUser, pr_key = u\<rparr> = \<lparr>pr_type = PrincipalUser, pr_key = u\<rparr>"
    using assms by (simp add: NormalizePrincipal_def Let_def)
  show v: "IsValidPrincipal \<lparr>pr_type = PrincipalUser, pr_key = u\<rparr>"
    using assms(2) unfolding IsValidPrincipal_def Let_def n by simp
  show "\<lparr>pr_type = PrincipalUser, pr_key = u\<rparr> \<in> set (PrincipalsForUser u path)"
    by (simp add: PrincipalsForUser_def Let_def n v)
qed

lemma user_holds:
  assumes "to_lower (trim_space name) \<noteq> []"
    and "ra_principal_type r = PrincipalUser" and "ra_principal_key r = to_lower (trim_space name)"
  shows "holds_principal (principalsForUser E ctx name) r"
proof -
  let ?u = "to_lower (trim_space name)"
  obtain path where "principalsForUser E ctx name = PrincipalsForUser ?u path"
    by (auto simp: principalsForUser_def Let_def)
  then have "\<lparr>pr_type = PrincipalUser, pr_key = ?u\<rparr> \<in> set (principalsForUser E ctx name)"
    using user_principal(3) [OF refl assms(1)] by simp
  then show ?thesis
    using user_principal(1,2) [OF refl assms(1)] assms(2,3)
    unfolding holds_principal_def list_ex_iff Let_def by (intro bexI) simp_all
qed

text \<open>A successful \<open>GrantRole\<close> has validated its request.\<close>

lemma GrantRole_validated:
  assumes "GrantRole E ctx req w = (Inr u, w')"
  shows "IsValidPrincipal (gr_principal (normal_grant req))" and "IsValidRoleCode (gr_role_code req)"
    and "ParseUserApp (gr_resource_path (normal_grant req)) =
      Inr (gr_tenant_user (normal_grant req), gr_app (normal_grant req))"
proof -
  obtain w1 where v: "validateGrantRoleRequest (normal_grant req) w = (Inr (), w1)"
    using assms by (auto simp: GrantRole_alt Let_def run_simps)
  then show "IsValidPrincipal (gr_principal (normal_grant req))"
    by (auto simp: validateGrantRoleRequest_def run_simps split: if_splits)
  from v have "IsValidRoleCode (gr_role_code (normal_grant req))"
    by (auto simp: validateGrantRoleRequest_def run_simps split: if_splits)
  then show "IsValidRoleCode (gr_role_code req)"
    by (simp add: normal_grant_def IsValidRoleCode_idem)
  from v show "ParseUserApp (gr_resource_path (normal_grant req)) =
      Inr (gr_tenant_user (normal_grant req), gr_app (normal_grant req))"
    by (auto simp: validateGrantRoleRequest_def parse_user_app_def run_simps
        split: if_splits sum.splits access_error.splits)
qed

text \<open>
  A grant is effective at once, everywhere below its path and until it expires: after a
  successful \<open>GrantRole\<close> to a user, and at any moment before the expiry, the service answers yes to
  every action of the role, for every spelling of the user's name and every normal path of the
  workspace at or below the granted one.
\<close>

theorem GrantRole_effective:
  assumes "roles_ok (pe_sha256 E) S (store w)" and "row_normal S (grant_row (normal_grant req))"
    and "GrantRole E ctx req w = (Inr (), w')"
    and "store w2 = store w'" and "faults w2 = []" and "\<not> expired (gr_expires_at req) (clock w2)"
    and "gr_principal (normal_grant req) = \<lparr>pr_type = PrincipalUser, pr_key = to_lower (trim_space name)\<rparr>"
    and "NormalizeResourcePath path = path" and "PathApplies (gr_resource_path (normal_grant req)) path"
    and "ParseUserApp path = ParseUserApp (gr_resource_path (normal_grant req))"
    and "HasPermission (RolePermissions (gr_role_code req)) action"
  shows "fst (ServiceHasPermission E ctx' name path action w2) = Inr True"
proof -
  let ?g = "normal_grant req"
  note valid = GrantRole_validated [OF assms(3)]
  have ok: "roles_ok (pe_sha256 E) S (store w2)"
    and grants: "live_grants (store w2) =
      (live_grants (store w))(row_columns (grant_row ?g) \<mapsto> gr_expires_at req)"
    using hoareD [OF GrantRole_live [OF assms(2)] _ assms(3)] assms(1,4) by auto
  then obtain r where r: "r \<in> set (roles (store w2))" "row_live r"
      "row_columns r = row_columns (grant_row ?g)" "ra_expires_at r = gr_expires_at req"
    using live_grants_Some [OF ok, of "row_columns (grant_row ?g)" "gr_expires_at req"] by auto
  have ptype: "NormalizePrincipalType (pr_type (gr_principal req)) = PrincipalUser"
    using arg_cong [OF assms(7), of pr_type] by (simp add: normal_grant_def)
  from r have cols: "ra_tenant_user r = gr_tenant_user ?g" "ra_app r = gr_app ?g"
      "ra_principal_type r = PrincipalUser" "ra_principal_key r = to_lower (trim_space name)"
      "ra_resource_path r = gr_resource_path ?g" "ra_role_code r = NormalizeRoleCode (gr_role_code req)"
    using assms(7) ptype by (simp_all add: row_columns_def normal_grant_def grant_row_def)
  have "row_normal S r" using ok r(1) by (simp add: roles_ok_def)
  then have norm: "NormalizeResourcePath (ra_resource_path r) = ra_resource_path r"
    by (simp add: row_normal_def grant_id_def row_columns_def assignment_key_parts_def Let_def)
  have key: "to_lower (trim_space name) \<noteq> []"
    using valid(1) assms(7) by (auto simp: IsValidPrincipal_def NormalizePrincipal_def Let_def split: if_splits)
  have ws: "ParseUserApp (NormalizeResourcePath path) = Inr (gr_tenant_user ?g, gr_app ?g)"
    using assms(8,10) valid(3) by simp
  have "counts path (clock w2) (to_assignment r)"
    using valid(2) assms(6,9) r(4) norm
    by (simp add: counts_def to_assignment_def cols IsValidRoleCode_idem)
  moreover have "holds_principal (principalsForUser E ctx' (trim_space name)) r"
    by (rule user_holds) (use key cols in auto)
  ultimately have "row_allows (principalsForUser E ctx' (trim_space name)) (gr_tenant_user ?g) (gr_app ?g)
      path action (clock w2) r"
    using r(2) cols valid(2) assms(11) by (simp add: row_allows_def)
  then have "list_ex (row_allows (principalsForUser E ctx' (trim_space name)) (gr_tenant_user ?g) (gr_app ?g)
      path action (clock w2)) (roles (store w2))"
    using r(1) by (auto simp: list_ex_iff)
  moreover have "trim_space name \<noteq> []" using key by auto
  moreover have "NormalizeAction action \<noteq> []" using assms(11) by (simp add: HasPermission_cases)
  ultimately have "may E ctx' name path action (clock w2) (store w2)"
    using ws assms(8) by (simp add: may_def Let_def)
  then show ?thesis using ServiceHasPermission_calm [OF assms(5) ws, of E ctx' name action] by auto
qed

theorem GrantRole_effective_witness:
  "fst (ServiceHasPermission sample_perm_env sample_ctx ''Bob'' ''/alice/crm/sales/leads'' ''write''
     (sample_perm_world\<lparr>store :=
        store (snd (GrantRole sample_perm_env sample_ctx sample_grant sample_perm_world))\<rparr>)) = Inr True"
proof -
  have run: "fst (GrantRole sample_perm_env sample_ctx sample_grant sample_perm_world) = Inr ()"
    and "grant_id (grant_row (normal_grant sample_grant)) = row_columns (grant_row (normal_grant sample_grant)) \<and>
      list_all (\<lambda>x. CHR 0x00 \<notin> set x) (row_columns (grant_row (normal_grant sample_grant)))"
    by code_simp+
  note normal = row_normal_UNIV [OF this(2)]
  have "gr_principal (normal_grant sample_grant) =
      \<lparr>pr_type = PrincipalUser, pr_key = to_lower (trim_space ''Bob'')\<rparr>"
    "NormalizeResourcePath ''/alice/crm/sales/leads'' = ''/alice/crm/sales/leads''"
    "PathApplies (gr_resource_path (normal_grant sample_grant)) ''/alice/crm/sales/leads''"
    "ParseUserApp ''/alice/crm/sales/leads'' = ParseUserApp (gr_resource_path (normal_grant sample_grant))"
    "HasPermission (RolePermissions (gr_role_code sample_grant)) ''write''"
    "\<not> expired (gr_expires_at sample_grant) 100"
    by code_simp+
  with GrantRole_effective [OF _ normal run_splitI [OF run]] show ?thesis
    by (simp add: sample_roles_ok del: grant_row_fields)
qed

end
