(* ===== verification/AuthorityProps.thy ===== *)
theory AuthorityProps
  imports PermProps
begin

text \<open>
  Who may change grants, and the agreement of the two ways to ask for permissions.
\<close>

section \<open>Authority\<close>

text \<open>What a run of \<open>requireAdminForGrant\<close> that passed has checked.\<close>

lemma requireAdminForGrant_run:
  assumes "requireAdminForGrant E ctx tenant actor path role w = (Inr (), w')"
  shows "actor \<noteq> [] \<and> (role = RoleOwner \<longrightarrow> isWorkspaceOwner tenant actor) \<and>
     may E ctx actor path ActionAdmin (clock w) (store w)"
  using assms
  by (auto simp: requireAdminForGrant_def RequirePermission_def run_simps split: if_splits
      intro: ServiceHasPermission_sound)

lemma validateGrantRoleRequest_world:
  "validateGrantRoleRequest g w = (Inr (), w') \<Longrightarrow> w' = w"
  by (auto simp: validateGrantRoleRequest_def parse_user_app_def run_simps
      split: if_splits sum.splits access_error.splits)

text \<open>
  C13. Granting needs authority: a \<open>GrantRole\<close> that succeeds was made by an actor, the caller when
  the request names none, who was allowed to administer the resource at that moment; and only the
  owner of the workspace grants the owner role.
\<close>

theorem GrantRole_authority:
  assumes "GrantRole E ctx req w = (Inr (), w')" and "actor = actor_of ctx (gr_created_by req)"
  shows "actor \<noteq> [] \<and>
     may E ctx actor (NormalizeResourcePath (gr_resource_path req)) ActionAdmin (clock w) (store w) \<and>
     (NormalizeRoleCode (gr_role_code req) = RoleOwner \<longrightarrow>
        isWorkspaceOwner (trim_space (gr_tenant_user req)) actor)"
proof -
  from assms obtain w1 where "requireAdminForGrant E ctx (trim_space (gr_tenant_user req)) actor
      (NormalizeResourcePath (gr_resource_path req)) (NormalizeRoleCode (gr_role_code req)) w = (Inr (), w1)"
    by (auto simp: GrantRole_alt Let_def run_simps normal_grant_def dest!: validateGrantRoleRequest_world)
  from requireAdminForGrant_run [OF this] show ?thesis by simp
qed

theorem GrantRole_authority_witness:
  "may sample_perm_env sample_ctx ''alice'' ''/alice/crm/sales'' ActionAdmin 100 sample_perm_db"
proof -
  have run: "fst (GrantRole sample_perm_env sample_ctx sample_grant sample_perm_world) = Inr ()"
    and "NormalizeResourcePath (gr_resource_path sample_grant) = ''/alice/crm/sales''"
    and "actor_of sample_ctx (gr_created_by sample_grant) = ''alice''"
    by code_simp+
  with GrantRole_authority [OF run_splitI [OF run] refl] show ?thesis by simp
qed

text \<open>A workspace with a second owner, and the request to revoke it.\<close>

definition owner_grant :: role_row where
  "owner_grant = sample_role\<lparr>ra_id := 2, ra_principal_key := ''bob'', ra_role_code := RoleOwner,
     ra_assignment_key := Some (join_with [CHR 0x00]
       [''alice'', ''crm'', ''user'', ''bob'', ''/alice/crm'', ''owner''])\<rparr>"

definition owner_world :: "perm_db world" where
  "owner_world = sample_perm_world\<lparr>store := sample_perm_db\<lparr>roles := [sample_role, owner_grant]\<rparr>\<rparr>"

definition revoke_owner :: "gostr \<Rightarrow> revoke_role_request" where
  "revoke_owner role = sample_revoke\<lparr>rv_principal := bob, rv_role_code := role, rv_actor := ''carol''\<rparr>"

lemma RequirePermission_calm:
  assumes "faults w = []" and "ParseUserApp (NormalizeResourcePath path) = Inr ws"
    and "may E ctx u path action (clock w) (store w)"
  shows "\<exists>w'. RequirePermission E ctx u path action w = (Inr (), w') \<and> faults w' = []"
  using ServiceHasPermission_calm [OF assms(1,2), of E ctx u action] assms(3)
  by (auto simp: RequirePermission_def andThen_def ret_def)

lemma remove_query_calm:
  assumes "faults w = []"
  shows "\<exists>n w'. remove_query q w = (Inr n, w') \<and>
    (\<forall>r \<in> set (roles (store w')). row_live r \<longrightarrow> \<not> names_grant q (row_columns r))"
  using assms removed_live_rows [of _ "\<lambda>r. names_grant q (row_columns r)" "clock w" "roles (store w)"]
  unfolding RemoveAssignment_alt by (simp add: calm_simps del: names_grant.simps) blast

lemma revoke_role_simps:
  "normal_revoke (req\<lparr>rv_role_code := role\<rparr>) = (normal_revoke req)\<lparr>rv_role_code := NormalizeRoleCode role\<rparr>"
  "rv_actor (normal_revoke req) = rv_actor req"
  by (simp_all add: normal_revoke_def)

lemma owner_role_code: "NormalizeRoleCode RoleOwner = RoleOwner" "NormalizeRoleCode [] = []"
  by code_simp+

text \<open>
  C10. The owner role is not protected against a revocation without a role. Whoever may administer a
  resource and is not the owner of its workspace may not revoke the owner role there by name; but the
  same request, made with a blank role code while the database answers, succeeds, and afterwards no role
  of the principal on the resource is left, an owner role included.
\<close>

theorem revoke_blank_role_removes_owner:
  assumes "q = normal_revoke req"
    and "rv_tenant_user q \<noteq> []" "rv_app q \<noteq> []" "IsValidPrincipal (rv_principal q)" "rv_resource_path q \<noteq> []"
    and "ParseUserApp (NormalizeResourcePath (rv_resource_path q)) = Inr ws"
    and "actor = actor_of ctx (rv_actor q)" "actor \<noteq> []" "\<not> isWorkspaceOwner (rv_tenant_user q) actor"
    and "may E ctx actor (rv_resource_path q) ActionAdmin (clock w) (store w)"
    and "faults w = []"
  shows "fst (RevokeRole E ctx (req\<lparr>rv_role_code := RoleOwner\<rparr>) w) = Inl PErrOnlyOwnerGrants \<and>
    (\<exists>w'. RevokeRole E ctx (req\<lparr>rv_role_code := []\<rparr>) w = (Inr (), w') \<and>
      (\<forall>r \<in> set (roles (store w')). row_live r \<longrightarrow>
        \<not> (ra_tenant_user r = rv_tenant_user q \<and> ra_app r = rv_app q \<and>
           ra_principal_type r = pr_type (NormalizePrincipal (rv_principal q)) \<and>
           ra_principal_key r = pr_key (NormalizePrincipal (rv_principal q)) \<and>
           ra_resource_path r = rv_resource_path q)))"
proof
  show "fst (RevokeRole E ctx (req\<lparr>rv_role_code := RoleOwner\<rparr>) w) = Inl PErrOnlyOwnerGrants"
    using assms(2-5,7-9) by (simp add: RevokeRole_alt Let_def revoke_role_simps owner_role_code
        assms(1) [symmetric] requireAdminForGrant_def andThen_def fail_def)
next
  let ?what = "(rv_tenant_user q, rv_app q, rv_principal q, rv_resource_path q, [])"
  obtain w1 where admin: "RequirePermission E ctx actor (rv_resource_path q) ActionAdmin w = (Inr (), w1)"
    and calm: "faults w1 = []"
    using RequirePermission_calm [OF assms(11,6,10)] by blast
  obtain n w2 where removed: "remove_query ?what w1 = (Inr n, w2)"
    and gone: "\<forall>r \<in> set (roles (store w2)). row_live r \<longrightarrow> \<not> names_grant ?what (row_columns r)"
    using remove_query_calm [OF calm] by blast
  have "\<exists>l. RevokeRole E ctx (req\<lparr>rv_role_code := []\<rparr>) w = writeOperateLog E ctx l w2"
    using assms(2-5,7,8) admin removed
    by (simp add: RevokeRole_alt Let_def revoke_role_simps owner_role_code assms(1) [symmetric]
        requireAdminForGrant_def andThen_def del: remove_query.simps) (rule exI, rule refl)
  then obtain l where run: "RevokeRole E ctx (req\<lparr>rv_role_code := []\<rparr>) w = writeOperateLog E ctx l w2" by blast
  obtain w3 where log: "writeOperateLog E ctx l w2 = (Inr (), w3)"
    using reports_answer(1) [of E ctx l w2] by (cases "writeOperateLog E ctx l w2") simp
  have "perm_core (store w3) = perm_core (store w2)"
    by (rule core_keptD [where m = "writeOperateLog E ctx l", OF _ log]) (rule core_intros)
  then have "roles (store w3) = roles (store w2)" by (simp add: perm_core_def)
  then have "\<not> (ra_tenant_user r = rv_tenant_user q \<and> ra_app r = rv_app q \<and>
      ra_principal_type r = pr_type (NormalizePrincipal (rv_principal q)) \<and>
           ra_principal_key r = pr_key (NormalizePrincipal (rv_principal q)) \<and>
      ra_resource_path r = rv_resource_path q)" if "r \<in> set (roles (store w3))" "row_live r" for r
    using gone that by (auto simp: row_columns_def Let_def)
  with run log show "\<exists>w'. RevokeRole E ctx (req\<lparr>rv_role_code := []\<rparr>) w = (Inr (), w') \<and>
      (\<forall>r \<in> set (roles (store w')). row_live r \<longrightarrow>
        \<not> (ra_tenant_user r = rv_tenant_user q \<and> ra_app r = rv_app q \<and>
           ra_principal_type r = pr_type (NormalizePrincipal (rv_principal q)) \<and>
           ra_principal_key r = pr_key (NormalizePrincipal (rv_principal q)) \<and>
           ra_resource_path r = rv_resource_path q))"
    by auto
qed

theorem revoke_blank_role_removes_owner_witness:
  "fst (RevokeRole sample_perm_env sample_ctx (revoke_owner RoleOwner) owner_world) = Inl PErrOnlyOwnerGrants \<and>
   owner_grant \<in> set (roles (store owner_world)) \<and> row_live owner_grant \<and>
   (\<exists>w'. RevokeRole sample_perm_env sample_ctx (revoke_owner []) owner_world = (Inr (), w') \<and>
     \<not> list_ex (\<lambda>r. row_live r \<and> ra_tenant_user r = ''alice'' \<and> ra_app r = ''crm'' \<and> ra_principal_type r = PrincipalUser \<and>
        ra_principal_key r = ''bob'' \<and> ra_resource_path r = ''/alice/crm'') (roles (store w')))"
proof -
  let ?q = "normal_revoke (revoke_owner [])"
  have q: "rv_tenant_user ?q = ''alice''" "rv_app ?q = ''crm''" "rv_resource_path ?q = ''/alice/crm''"
    "NormalizePrincipal (rv_principal ?q) = \<lparr>pr_type = PrincipalUser, pr_key = ''bob''\<rparr>"
    and ok: "IsValidPrincipal (rv_principal ?q)"
    "ParseUserApp (NormalizeResourcePath ''/alice/crm'') = Inr (''alice'', ''crm'')"
    "actor_of sample_ctx (rv_actor ?q) = ''carol''" "\<not> isWorkspaceOwner ''alice'' ''carol''"
    and admin: "fst (ServiceHasPermission sample_perm_env sample_ctx ''carol'' ''/alice/crm'' ActionAdmin owner_world) = Inr True"
    and rows: "row_live owner_grant"
    by code_simp+
  have w: "clock owner_world = 100" "faults owner_world = []" by (simp_all add: owner_world_def)
  have may: "may sample_perm_env sample_ctx ''carol'' ''/alice/crm'' ActionAdmin (clock owner_world) (store owner_world)"
    using ServiceHasPermission_calm [OF w(2) ok(2), of sample_perm_env sample_ctx "''carol''" ActionAdmin] admin by auto
  have "(revoke_owner [])\<lparr>rv_role_code := role\<rparr> = revoke_owner role" for role by (simp add: revoke_owner_def)
  with revoke_blank_role_removes_owner [OF refl, of "revoke_owner []" "(''alice'', ''crm'')" "''carol''" sample_ctx
      sample_perm_env owner_world] q ok may w rows
  show ?thesis by (auto simp: owner_world_def list_ex_iff)
qed

section \<open>One path or a tree of paths\<close>

lemma AList_fold_update:
  "p \<in> set ps \<Longrightarrow> map_of (fold (\<lambda>q. AList.update (k q) (f (k q))) ps acc) (k p) = Some (f (k p))"
proof (induction ps arbitrary: acc rule: rev_induct)
  case (snoc q ps)
  then show ?case by (cases "k q = k p") (auto simp: update_conv')
qed simp

lemma tree_results_at:
  "p \<in> set paths \<Longrightarrow>
     map_of (tree_results f paths) (NormalizeResourcePath p) = Some (f (NormalizeResourcePath p))"
  unfolding tree_results_def
  by (rule AList_fold_update [where k = NormalizeResourcePath])

lemma ParseUserApp_cong:
  "NormalizeResourcePath p = NormalizeResourcePath q \<Longrightarrow> ParseUserApp p = Inr ws \<longleftrightarrow> ParseUserApp q = Inr ws"
  by (auto simp: ParseUserApp_def split: list.splits if_splits)

lemma parse_user_app_run: "parse_user_app p w = (Inr ws, w') \<longleftrightarrow> ParseUserApp p = Inr ws \<and> w' = w"
  by (auto simp: parse_user_app_def run_simps split: sum.splits access_error.splits)

lemma same_workspace_run:
  "same_workspace ws ps w = (Inr u, w') \<longleftrightarrow> (\<forall>p \<in> set ps. ParseUserApp p = Inr ws) \<and> w' = w"
  by (induction ws ps arbitrary: w rule: same_workspace.induct)
    (auto simp: run_simps parse_user_app_run split: if_splits)

text \<open>Both operations after the workspace is known, for a user who is neither nobody nor root.\<close>

definition answer_for ::
  "perm_error + bool \<Rightarrow> perm_env \<Rightarrow> perm_ctx \<Rightarrow> gostr \<Rightarrow> gostr \<times> gostr \<Rightarrow> perm_db world \<Rightarrow> gostr \<Rightarrow> access_result" where
  "answer_for owner E ctx u ws w1 path =
     (if owner = Inr True then ownerAccessResult path
      else Resolve (clock w1) (toAccessAssignments (assignments_for (fst ws) (snd ws)
        (principalsForUser E ctx u) (store w1))) path (clock w1))"

lemma rows_calm:
  "faults w = [] \<Longrightarrow> ListAssignmentsForPrincipals tenant app prs w =
     (Inr (assignments_for tenant app prs (store w)), w)"
  by (simp add: ListAssignmentsForPrincipals_def query_calm)

lemma PermissionsForTree_user:
  assumes "paths \<noteq> []" and "u \<noteq> []" and "\<not> isSystemRootUser u"
    and "parse_user_app (NormalizeResourcePath (hd paths)) w = (Inr ws, w)"
    and "same_workspace ws paths w = (Inr (), w)"
    and "isWorkspaceOwnerOrLegacyAdmin E (fst ws) (snd ws) u w = (Inr owner, w1)" and "faults w1 = []"
  shows "PermissionsForTree E ctx u paths w =
     (Inr (tree_results (answer_for (Inr owner) E ctx u ws w1) paths), w1)"
  using assms
  by (cases ws) (simp add: PermissionsForTree_def andThen_calm ret_calm now_calm rows_calm
      answer_for_def [abs_def])

lemma ResolvePermissions_user:
  assumes "u \<noteq> []" and "\<not> isSystemRootUser u" and "trim_space u = u"
    and "parse_user_app (NormalizeResourcePath p) w = (Inr ws, w)"
    and "NormalizeResourcePath (NormalizeResourcePath p) = NormalizeResourcePath p"
    and "isWorkspaceOwnerOrLegacyAdmin E (fst ws) (snd ws) u w = (Inr owner, w1)" and "faults w1 = []"
  shows "fst (ResolvePermissions E ctx u p w) =
     Inr (answer_for (Inr owner) E ctx u ws w1 (NormalizeResourcePath p))"
  unfolding ResolvePermissions_def Let_def assms(3) andThen_calm [of "parse_user_app _"] assms(4)
  using assms(1,2,5-)
  by (cases ws) (simp add: andThen_calm ret_calm now_calm rows_calm answer_for_def
      ownerAccessResult_def nobody_result_def)

text \<open>
  Asking for a tree of paths gives, for each path, what asking for the path alone gives: for a
  user name without surrounding white space, when the database answers, the entry of every path of
  the tree under its normal form is the result of \<open>ResolvePermissions\<close> on it.
\<close>

theorem PermissionsForTree_agrees:
  assumes "PermissionsForTree E ctx u paths w = (Inr answers, w')" and "faults w = []"
    and "p \<in> set paths" and "trim_space u = u"
    and "\<And>q. q \<in> set paths \<Longrightarrow> NormalizeResourcePath (NormalizeResourcePath q) = NormalizeResourcePath q"
  shows "\<exists>res. fst (ResolvePermissions E ctx u p w) = Inr res \<and>
     map_of answers (NormalizeResourcePath p) = Some res"
proof -
  from assms(1,3) obtain ws where ws: "\<And>q. q \<in> set paths \<Longrightarrow> ParseUserApp q = Inr ws"
    by (auto simp: PermissionsForTree_def run_simps parse_user_app_run same_workspace_run split: if_splits)
  have some: "paths \<noteq> []" and hd: "hd paths \<in> set paths" using assms(3) by (cases paths; auto)+
  have parse: "parse_user_app (NormalizeResourcePath q) w = (Inr ws, w)" if "q \<in> set paths" for q
    unfolding parse_user_app_run
    using ws [OF that] assms(5) [OF that] ParseUserApp_cong [of "NormalizeResourcePath q" q ws] by simp
  have same: "same_workspace ws paths w = (Inr (), w)" using ws by (simp add: same_workspace_run)
  note trees = tree_results_at [OF assms(3)] and norm = assms(5) [OF assms(3)]
  consider (nobody) "u = []" | (root) "u \<noteq> []" "isSystemRootUser u" | (user) "u \<noteq> []" "\<not> isSystemRootUser u"
    by blast
  then show ?thesis
  proof cases
    case nobody
    with assms(1) same parse [OF hd] parse [OF assms(3)] some trees show ?thesis
      by (cases ws) (auto simp: PermissionsForTree_def ResolvePermissions_def Let_def andThen_calm ret_calm norm)
  next
    case root
    with assms(1,4) same parse [OF hd] parse [OF assms(3)] some trees show ?thesis
      by (cases ws) (auto simp: PermissionsForTree_def ResolvePermissions_def Let_def andThen_calm ret_calm norm)
  next
    case user
    obtain o' w1 where own: "isWorkspaceOwnerOrLegacyAdmin E (fst ws) (snd ws) u w = (o', w1)"
      by (cases "isWorkspaceOwnerOrLegacyAdmin E (fst ws) (snd ws) u w")
    obtain owner where o': "o' = Inr owner" using owner_or_admin_run(5) [OF own assms(2)] by simp
    note calm = owner_or_admin_run(4) [OF own assms(2)]
    note one = ResolvePermissions_user [OF user assms(4) parse [OF assms(3)] norm own [unfolded o'] calm]
    from trans [OF sym [OF PermissionsForTree_user [OF some user parse [OF hd] same own [unfolded o'] calm]] assms(1)]
    have "tree_results (answer_for (Inr owner) E ctx u ws w1) paths = answers" by blast
    with one trees show ?thesis by auto
  qed
qed

theorem PermissionsForTree_agrees_witness:
  "fst (ResolvePermissions sample_perm_env sample_ctx ''dora'' ''/alice/crm/sales/'' sample_perm_world) =
     Inr (ownerAccessResult ''/alice/crm/sales'')"
proof -
  let ?paths = "[''/alice/crm'', ''/alice/crm/sales/'']"
  have "fst (isWorkspaceOwnerOrLegacyAdmin sample_perm_env ''alice'' ''crm'' ''dora'' sample_perm_world) = Inr True"
    by code_simp
  then obtain w1 where own: "isWorkspaceOwnerOrLegacyAdmin sample_perm_env ''alice'' ''crm'' ''dora''
      sample_perm_world = (Inr True, w1)"
    by (metis prod.collapse)
  have facts: "\<not> isSystemRootUser ''dora''" "trim_space ''dora'' = ''dora''"
    "NormalizeResourcePath ''/alice/crm/sales'' = ''/alice/crm/sales''"
    "list_all (\<lambda>q. ParseUserApp q = Inr (''alice'', ''crm'')) ?paths"
    "NormalizeResourcePath ''/alice/crm/sales/'' = ''/alice/crm/sales''"
    "NormalizeResourcePath ''/alice/crm'' = ''/alice/crm''"
    by code_simp+
  then have "same_workspace (''alice'', ''crm'') ?paths sample_perm_world = (Inr (), sample_perm_world)"
    "parse_user_app ''/alice/crm'' sample_perm_world = (Inr (''alice'', ''crm''), sample_perm_world)"
    unfolding same_workspace_run parse_user_app_run by simp_all
  then have "PermissionsForTree sample_perm_env sample_ctx ''dora'' ?paths sample_perm_world =
      (Inr (tree_results ownerAccessResult ?paths), w1)"
    using own facts by (simp add: PermissionsForTree_def andThen_calm ret_calm del: same_workspace.simps)
  note run = this
  have norm: "NormalizeResourcePath (NormalizeResourcePath q) = NormalizeResourcePath q" if "q \<in> set ?paths" for q
    using that facts by auto
  have "faults sample_perm_world = []" "''/alice/crm/sales/'' \<in> set ?paths" by simp_all
  from PermissionsForTree_agrees [OF run this facts(2) norm]
  obtain res where res: "fst (ResolvePermissions sample_perm_env sample_ctx ''dora'' ''/alice/crm/sales/''
      sample_perm_world) = Inr res"
    and at: "map_of (tree_results ownerAccessResult ?paths) (NormalizeResourcePath ''/alice/crm/sales/'') = Some res"
    by blast
  have "map_of (tree_results ownerAccessResult ?paths) (NormalizeResourcePath ''/alice/crm/sales/'') =
      Some (ownerAccessResult (NormalizeResourcePath ''/alice/crm/sales/''))"
    by (rule tree_results_at) simp
  with at have "res = ownerAccessResult ''/alice/crm/sales''" 
    unfolding \<open>NormalizeResourcePath ''/alice/crm/sales/'' = ''/alice/crm/sales''\<close> by simp
  with res show ?thesis by simp
qed

end
