(* ===== verification/PermSteps.thy ===== *)
theory PermSteps
  imports PermCore
begin

text \<open>
  The permission subsystem as a transition system. Requests of many users interleave between
  statements, so a step is one writing statement or transaction with arbitrary arguments, or
  anything that leaves the core of the database alone: reading, caching, auditing, notifying, the
  clock, a change of the faults. Every operation of the two services is a path of steps.
\<close>

section \<open>Steps\<close>

abbreviation request_sha :: "request_env \<Rightarrow> gostr \<Rightarrow> gostr" where
  "request_sha F \<equiv> pe_sha256 (qe_permission F)"

inductive perm_step :: "request_env \<Rightarrow> perm_db world \<Rightarrow> perm_db world \<Rightarrow> bool" for F where
  perm_other: "perm_core (store w') = perm_core (store w) \<Longrightarrow> perm_step F w w'"
| perm_upsert: "perm_step F w (snd (UpsertAssignment (request_sha F) (grant_row g) w))"
| perm_batch: "perm_step F w
    (snd (tx PErrDB (for_each (\<lambda>g. UpsertAssignment (request_sha F) (grant_row g)) gs) w))"
| perm_remove: "perm_step F w (snd (RemoveAssignment t a pr path role w))"
| perm_create: "perm_step F w
    (snd (RequestCreate (new_request_row F t a u path role reason expires) w))"
| perm_review: "status = RequestApproved \<or> status = RequestRejected \<Longrightarrow>
    perm_step F w (snd (review_tx F i reviewer status comment tm w))"
| perm_cancel: "perm_step F w (snd (cancel_tx i u tm w))"

inductive perm_reach :: "request_env \<Rightarrow> perm_db world \<Rightarrow> perm_db world \<Rightarrow> bool" for F w0 where
  perm_refl: "perm_reach F w0 w0"
| perm_more: "perm_reach F w0 w \<Longrightarrow> perm_step F w w' \<Longrightarrow> perm_reach F w0 w'"

lemma perm_trans: "perm_reach F w1 w2 \<Longrightarrow> perm_reach F w0 w1 \<Longrightarrow> perm_reach F w0 w2"
  by (induction rule: perm_reach.induct) (auto intro: perm_more)

lemma perm_single: "perm_step F w w' \<Longrightarrow> perm_reach F w w'"
  by (rule perm_more [OF perm_refl])

text \<open>An invariant of the tables: kept by every step, so by every path.\<close>

lemma perm_invariant:
  assumes "perm_reach F w0 w" and "I (store w0)"
    and "\<And>w w'. perm_step F w w' \<Longrightarrow> I (store w) \<Longrightarrow> I (store w')"
  shows "I (store w)"
  using assms(1,2) by (induction rule: perm_reach.induct) (auto intro: assms(3))

section \<open>Operations are paths\<close>

definition path_of :: "request_env \<Rightarrow> 'a perm \<Rightarrow> bool" where
  "path_of F m \<longleftrightarrow> (\<forall>w. perm_reach F w (snd (m w)))"

named_theorems path_intros

lemma path_kept: "core_kept m \<Longrightarrow> path_of F m"
  unfolding path_of_def
proof (intro allI perm_single perm_other)
  fix w :: "perm_db world"
  assume "core_kept m"
  then have "stable (\<lambda>s. perm_core s = perm_core (store w)) m" by (rule spec)
  then show "perm_core (store (snd (m w))) = perm_core (store w)" by (simp add: stable_def)
qed

lemmas kept_paths =
  core_kept_ret [THEN path_kept] core_kept_fail [THEN path_kept] core_kept_now [THEN path_kept]
  core_kept_repositories [THEN path_kept] core_kept_service [THEN path_kept]
  core_kept_reports [THEN path_kept] core_kept_permission [THEN path_kept]
  core_kept_tree [THEN path_kept] core_kept_checks [THEN path_kept]
  core_kept_views [THEN path_kept] core_kept_request_checks [THEN path_kept]
  core_kept_listings [THEN path_kept]

lemma path_andThen [path_intros]:
  assumes "path_of F m" and "\<And>a. path_of F (f a)"
  shows "path_of F (andThen m f)"
  unfolding path_of_def
proof
  fix w
  obtain r w1 where m: "m w = (r, w1)" by (cases "m w")
  have first: "perm_reach F w w1" using assms(1) m by (metis path_of_def snd_conv)
  show "perm_reach F w (snd (andThen m f w))"
  proof (cases r)
    case (Inl e)
    with m first show ?thesis by (simp add: andThen_def)
  next
    case (Inr a)
    have "perm_reach F w1 (snd (f a w1))" using assms(2) by (simp add: path_of_def)
    with m Inr first show ?thesis by (simp add: andThen_def perm_trans)
  qed
qed

lemma path_attempt [path_intros]: "path_of F m \<Longrightarrow> path_of F (attempt m)"
  by (simp add: path_of_def attempt_def split: prod.split) (metis snd_conv)

lemma path_if [path_intros]: "path_of F m \<Longrightarrow> path_of F n \<Longrightarrow> path_of F (if b then m else n)"
  and path_case_sum [path_intros]:
    "(\<And>x. path_of F (l x)) \<Longrightarrow> (\<And>y. path_of F (r y)) \<Longrightarrow> path_of F (case z of Inl x \<Rightarrow> l x | Inr y \<Rightarrow> r y)"
  by (simp_all split: sum.split)

lemma path_writes [path_intros]:
  "path_of F (UpsertAssignment (request_sha F) (grant_row g))"
  "path_of F (tx PErrDB (for_each (\<lambda>g. UpsertAssignment (request_sha F) (grant_row g)) gs))"
  "path_of F (RemoveAssignment t a pr p c)"
  "path_of F (RequestCreate (new_request_row F t a u p c reason expires))"
  "path_of F (cancel_tx i u tm)"
  by (auto simp: path_of_def intro: perm_single perm_step.intros)

lemma path_review:
  "status = RequestApproved \<or> status = RequestRejected \<Longrightarrow> path_of F (review_tx F i u status comment tm)"
  by (auto simp: path_of_def intro: perm_single perm_review)

lemma path_state_changed: "path_of F m \<Longrightarrow> path_of F (state_changed m)"
  unfolding state_changed_def by (intro path_intros kept_paths)

datatype perm_op =
    GrantOp grant_role_request
  | BatchOp batch_grant_role_request
  | RevokeOp revoke_role_request
  | CreateOp gostr gostr gostr gostr gostr gostr "int option"
  | ApproveOp int gostr gostr
  | RejectOp int gostr gostr
  | CancelOp int gostr
  | CheckOp gostr gostr gostr
  | TreeOp gostr "gostr list"
  | AnyOp gostr gostr gostr
  | AppsOp gostr
  | AssignmentsOp gostr
  | MineOp gostr gostr gostr gostr
  | PendingOp gostr gostr gostr
  | HistoryOp gostr gostr gostr
  | CountOp gostr gostr gostr
  | SummaryOp gostr gostr gostr

fun perm_run :: "request_env \<Rightarrow> perm_ctx \<Rightarrow> perm_op \<Rightarrow> perm_db world \<Rightarrow> perm_db world" where
  "perm_run F ctx (GrantOp req) w = snd (GrantRole (qe_permission F) ctx req w)"
| "perm_run F ctx (BatchOp req) w = snd (BatchGrantRoles (qe_permission F) ctx req w)"
| "perm_run F ctx (RevokeOp req) w = snd (RevokeRole (qe_permission F) ctx req w)"
| "perm_run F ctx (CreateOp t a u p c reason e) w = snd (CreateRequest F ctx t a u p c reason e w)"
| "perm_run F ctx (ApproveOp i u c) w = snd (Approve F ctx i u c w)"
| "perm_run F ctx (RejectOp i u c) w = snd (Reject F ctx i u c w)"
| "perm_run F ctx (CancelOp i u) w = snd (CancelRequest F ctx i u w)"
| "perm_run F ctx (CheckOp u p act) w = snd (RequirePermission (qe_permission F) ctx u p act w)"
| "perm_run F ctx (TreeOp u ps) w = snd (PermissionsForTree (qe_permission F) ctx u ps w)"
| "perm_run F ctx (AnyOp t a u) w = snd (HasAnyWorkspacePermission (qe_permission F) ctx t a u w)"
| "perm_run F ctx (AppsOp u) w = snd (ListAccessibleApps (qe_permission F) ctx u w)"
| "perm_run F ctx (AssignmentsOp p) w = snd (ListAssignments p w)"
| "perm_run F ctx (MineOp t a u st) w = snd (ListMine t a u st w)"
| "perm_run F ctx (PendingOp t a u) w = snd (ListPendingForReviewer F ctx t a u w)"
| "perm_run F ctx (HistoryOp t a u) w = snd (ListHistoryForReviewer F ctx t a u w)"
| "perm_run F ctx (CountOp t a u) w = snd (CountPendingForReviewer F ctx t a u w)"
| "perm_run F ctx (SummaryOp t a u) w = snd (WorkspaceSummary F ctx t a u w)"

lemma path_grants:
  "path_of F (GrantRole (qe_permission F) ctx req)" "path_of F (BatchGrantRoles (qe_permission F) ctx b)"
  "path_of F (RevokeRole (qe_permission F) ctx q)"
  unfolding GrantRole_def BatchGrantRoles_def RevokeRole_def Let_def
  by (intro path_intros kept_paths path_kept [OF core_kept_for_each] core_kept_checks
      core_kept_batch_check core_kept_reports)+

lemma path_requests:
  "path_of F (CreateRequest F ctx t a u p c reason e)" "path_of F (Approve F ctx i u c)"
  "path_of F (Reject F ctx i u c)" "path_of F (CancelRequest F ctx i u)"
  unfolding CreateRequest_def Approve_def Reject_def CancelRequest_def review_def Let_def
  by (intro path_intros kept_paths path_state_changed path_review disjI1 refl disjI2)+

text \<open>
  Every call of the permission service and of the request service is a path of the transition
  system: what holds of all reachable states holds before, between and after all calls, however
  the calls of different users and instances interleave and whichever statements fail.
\<close>

theorem perm_run_reachable: "perm_reach F w (perm_run F ctx op' w)"
  by (cases op') (auto intro: path_grants [unfolded path_of_def, rule_format]
    path_requests [unfolded path_of_def, rule_format] kept_paths [unfolded path_of_def, rule_format])

end
