(* ===== verification/RequestProps.thy ===== *)
theory RequestProps
  imports PermSteps PermProps
begin

text \<open>
  The life of a permission request: decided once and for ever, one pending request per user and
  resource, and what an approval does.
\<close>

section \<open>The table of requests has a lifecycle\<close>

lemma update_requests_excluded:
  "\<not> P r \<Longrightarrow> stable (\<lambda>s. r \<in> set (requests s)) (update_requests P f)"
  unfolding update_requests_def Let_def
  by (intro stable_intros stable_modify) (force simp: in_upd_iff)

lemma update_requests_included:
  "(\<And>x t. x \<in> R \<Longrightarrow> P x \<Longrightarrow> (f x)\<lparr>wr_updated_at := t\<rparr> \<in> R) \<Longrightarrow>
     stable (\<lambda>s. set (requests s) \<subseteq> R) (update_requests P f)"
  unfolding update_requests_def Let_def
  by (intro stable_intros stable_modify) (auto simp: in_upd_iff subset_eq)

interpretation requests_table: lifecycle_table requests update_requests
    "\<lambda>t r. r\<lparr>wr_updated_at := t\<rparr>" "\<lambda>r. wr_status r \<noteq> RequestPending"
  by unfold_locales (rule update_requests_excluded update_requests_included; assumption)+

lemma decision_frozen:
  "wr_status r \<noteq> RequestPending \<Longrightarrow>
     stable (\<lambda>s. r \<in> set (requests s)) (UpdateDecisionWithDB i RequestPending f)"
  unfolding UpdateDecisionWithDB_def
  by (intro stable_andThen requests_table.final_row_frozen)
    (auto simp: requests_table.spares_def intro: stable_ret stable_fail)

text \<open>Writing assignments leaves the requests alone, and the other way round.\<close>

lemma roles_only: "stable (\<lambda>s. Q (requests s)) (UpsertAssignment sha256 a)"
  "stable (\<lambda>s. Q (requests s)) (RemoveAssignment t ap pr p c)"
  unfolding UpsertAssignment_alt RemoveAssignment_def Let_def
  by (intro stable_intros stable_modify; simp)+

lemma approve_grant_requests: "stable (\<lambda>s. Q (requests s)) (approve_grant F u t r)"
  unfolding approve_grant_def by (auto intro: roles_only stable_fail)

lemma review_requests:
  assumes "stable (\<lambda>s. Q (requests s)) (UpdateDecisionWithDB i RequestPending (decided status u t c))"
  shows "stable (\<lambda>s. Q (requests s)) (review_tx F i u status c t)"
proof -
  have "stable (\<lambda>s. Q (requests s)) (RequestGetByID i)" 
    unfolding RequestGetByID_def require_row_def
    by (auto intro!: stable_intros split: option.split)
  then show ?thesis
    unfolding review_tx_def
    by (auto intro!: stable_tx_body stable_andThen stable_fail stable_only_if approve_grant_requests assms)
qed

text \<open>Every step that touches the requests appends a new row or decides one.\<close>

lemma stable_snd: "stable I m \<Longrightarrow> I (store w) \<Longrightarrow> I (store (snd (m w)))"
  by (simp add: stable_def)

lemma perm_step_requests:
  assumes step: "perm_step F w w'" and q: "Q (requests (store w))"
    and create: "\<And>t a u p c reason e. stable (\<lambda>s. Q (requests s)) (RequestCreate (new_request_row F t a u p c reason e))"
    and decide: "\<And>i status u t c. status \<noteq> RequestPending \<Longrightarrow>
       stable (\<lambda>s. Q (requests s)) (UpdateDecisionWithDB i RequestPending (decided status u t c))"
  shows "Q (requests (store w'))"
  using step
proof cases
  case perm_other
  then have "requests (store w') = requests (store w)" by (rule perm_core_parts [THEN conjunct2, THEN conjunct1])
  with q show ?thesis by simp
next
  case perm_upsert
  then show ?thesis using stable_snd [where I = "\<lambda>s. Q (requests s)", OF roles_only(1) q] by simp
next
  case (perm_batch gs)
  have "stable (\<lambda>s. Q (requests s))
      (tx PErrDB (for_each (\<lambda>g. UpsertAssignment (request_sha F) (grant_row g)) gs))"
    by (intro stable_tx_body stable_for_each roles_only)
  from stable_snd [OF this q] show ?thesis using perm_batch by simp
next
  case perm_remove
  then show ?thesis using stable_snd [where I = "\<lambda>s. Q (requests s)", OF roles_only(2) q] by simp
next
  case perm_create
  then show ?thesis using stable_snd [OF create q] by simp
next
  case (perm_review status i u c t)
  then have "status \<noteq> RequestPending" by auto
  from stable_snd [OF review_requests [OF decide [OF this]] q] show ?thesis using perm_review by simp
next
  case (perm_cancel i u t)
  have "stable (\<lambda>s. Q (requests s)) (cancel_tx i u t)"
    unfolding cancel_tx_def by (intro stable_tx_body decide) simp
  from stable_snd [OF this q] show ?thesis using perm_cancel by simp
qed

lemma RequestCreate_keeps:
  "stable (\<lambda>s. r \<in> set (requests s)) (RequestCreate x)"
  unfolding RequestCreate_def Let_def
  by (intro stable_intros stable_stmt) auto

text \<open>
  C16. A decided request is final: once a request is approved, rejected or cancelled, its row, with
  the reviewer, the comment and the time of the decision, is the same in every state reached
  later, whatever calls, failures and interleavings follow.
\<close>

theorem decided_request_frozen:
  assumes "perm_reach F w0 w" and "r \<in> set (requests (store w0))" and "wr_status r \<noteq> RequestPending"
  shows "r \<in> set (requests (store w))"
proof (rule perm_invariant [OF assms(1), where I = "\<lambda>s. r \<in> set (requests s)", OF assms(2)])
  fix w w'
  assume "perm_step F w w'" and "r \<in> set (requests (store w))"
  then show "r \<in> set (requests (store w'))"
    by (rule perm_step_requests [where Q = "\<lambda>rs. r \<in> set rs"])
      (rule RequestCreate_keeps decision_frozen [OF assms(3)])+
qed

definition approved_request :: request_row where
  "approved_request = sample_request\<lparr>wr_status := RequestApproved, wr_pending_key := None,
     wr_reviewed_by := ''carol'', wr_reviewed_at := Some 50\<rparr>"

theorem decided_request_frozen_witness:
  "approved_request \<in> set (requests (store (snd (cancel_tx 5 ''bob'' 100
     (sample_perm_world\<lparr>store := sample_perm_db\<lparr>requests := [approved_request]\<rparr>\<rparr>)))))"
  by (rule decided_request_frozen [OF perm_single [OF perm_cancel]])
    (simp_all add: approved_request_def)

section \<open>One pending request per user and resource\<close>

definition key_of :: "(gostr \<Rightarrow> gostr) \<Rightarrow> request_row \<Rightarrow> gostr" where
  "key_of sha256 r = permissionRequestPendingKey sha256 (wr_tenant_user r) (wr_app r) (wr_requester r)
     (wr_resource_path r)"

text \<open>
  The table as the service keeps it: a pending row carries its key, and no two rows the same key.
\<close>

definition pending_keys_ok :: "(gostr \<Rightarrow> gostr) \<Rightarrow> request_row list \<Rightarrow> bool" where
  "pending_keys_ok sha256 rs \<longleftrightarrow>
     (\<forall>r \<in> set rs. wr_status r = RequestPending \<longrightarrow> wr_pending_key r = Some (key_of sha256 r)) \<and>
     distinct (List.map_filter wr_pending_key rs)"

lemma in_map_filter: "y \<in> set (List.map_filter f xs) \<longleftrightarrow> (\<exists>x \<in> set xs. f x = Some y)"
  by (induction xs) (auto simp: map_filter_simps split: option.split)

lemma distinct_keys_upd:
  assumes "distinct (List.map_filter wr_pending_key rs)" and "\<And>r. wr_pending_key (f r) = None"
  shows "distinct (List.map_filter wr_pending_key (upd Q f rs))"
  using assms(1)
proof (induction rs)
  case (Cons r rs)
  then have "distinct (List.map_filter wr_pending_key (upd Q f rs))"
    by (simp add: map_filter_simps split: option.splits)
  with Cons.prems show ?case
    by (auto simp: map_filter_simps in_map_filter in_upd_iff assms(2) split: option.splits if_splits)
qed (simp add: map_filter_simps)

lemma pending_keys_decide:
  assumes "status \<noteq> RequestPending"
  shows "stable (\<lambda>s. pending_keys_ok sha256 (requests s))
    (UpdateDecisionWithDB i RequestPending (decided status u t c))"
proof -
  have "pending_keys_ok sha256 (upd Q (\<lambda>r. (decided status u t c r)\<lparr>wr_updated_at := tm\<rparr>) rs)"
    if "pending_keys_ok sha256 rs" for Q tm rs
    using that assms distinct_keys_upd [of rs "\<lambda>r. (decided status u t c r)\<lparr>wr_updated_at := tm\<rparr>" Q]
    by (auto simp: pending_keys_ok_def in_upd_iff decided_def key_of_def)
  then show ?thesis
    unfolding UpdateDecisionWithDB_def update_requests_def Let_def
    by (intro stable_andThen stable_now stable_modify) (auto intro: stable_ret stable_fail)
qed

lemma pending_keys_create:
  "stable (\<lambda>s. pending_keys_ok (request_sha F) (requests s))
     (RequestCreate (new_request_row F t a u p c reason e))"
  unfolding RequestCreate_def Let_def
  by (intro stable_intros stable_stmt)
    (auto simp: pending_keys_ok_def new_request_row_def key_of_def list_ex_iff map_filter_simps in_map_filter
      List.map_filter_def)

text \<open>
  C17. A user has at most one pending request for a resource: from a table in which pending rows
  carry their keys and keys do not repeat, every reachable state has at most one pending row for
  each tenant, application, requester and path, also when requests are created concurrently.
\<close>

theorem one_pending_request:
  assumes "perm_reach F w0 w" and "pending_keys_ok (request_sha F) (requests (store w0))"
  shows "hits (\<lambda>r. wr_status r = RequestPending \<and> wr_tenant_user r = t \<and> wr_app r = a \<and>
    wr_requester r = u \<and> wr_resource_path r = p) (requests (store w)) \<le> 1"
proof -
  let ?P = "\<lambda>r. wr_status r = RequestPending \<and> wr_tenant_user r = t \<and> wr_app r = a \<and>
    wr_requester r = u \<and> wr_resource_path r = p"
  have "pending_keys_ok (request_sha F) (requests (store w))"
  proof (rule perm_invariant [OF assms(1), where I = "\<lambda>s. pending_keys_ok (request_sha F) (requests s)", OF assms(2)])
    fix w w'
    assume "perm_step F w w'" and "pending_keys_ok (request_sha F) (requests (store w))"
    then show "pending_keys_ok (request_sha F) (requests (store w'))"
      by (rule perm_step_requests [where Q = "pending_keys_ok (request_sha F)"])
        (rule pending_keys_create, erule pending_keys_decide)
  qed
  moreover have "hits ?P rs \<le> 1" if "pending_keys_ok sha256 rs" for sha256 rs
    using that
  proof (induction rs)
    case (Cons r rs)
    then have ok: "pending_keys_ok sha256 rs"
      by (auto simp: pending_keys_ok_def map_filter_simps split: option.splits)
    show ?case
    proof (cases "?P r")
      case True
      have "\<not> ?P x" if "x \<in> set rs" for x
      proof
        assume "?P x"
        with True Cons.prems that have "wr_pending_key x = wr_pending_key r" "wr_pending_key r \<noteq> None"
          by (auto simp: pending_keys_ok_def key_of_def)
        with Cons.prems that show False
          by (force simp: pending_keys_ok_def map_filter_simps in_map_filter split: option.splits)
      qed
      then have "hits ?P rs = 0" by (simp add: hits_def filter_empty_conv)
      with True show ?thesis by simp
    next
      case False
      then have "hits ?P (r # rs) = hits ?P rs" by (simp only: hits_Cons if_False)
      with Cons.IH [OF ok] show ?thesis by simp
    qed
  qed simp
  ultimately show ?thesis by blast
qed

theorem one_pending_request_witness:
  "hits (\<lambda>r. wr_status r = RequestPending \<and> wr_tenant_user r = ''alice'' \<and> wr_app r = ''crm'' \<and>
      wr_requester r = ''bob'' \<and> wr_resource_path r = ''/alice/crm/sales'')
     (requests (store (snd (RequestCreate (new_request_row sample_request_env ''alice'' ''crm'' ''bob''
        ''/alice/crm/sales'' ''admin'' ''again'' None) sample_perm_world)))) \<le> 1"
proof (rule one_pending_request [OF perm_single [OF perm_create]])
  have "wr_pending_key sample_request = Some (key_of (\<lambda>s. s) sample_request)"
    by code_simp
  then show "pending_keys_ok (request_sha sample_request_env) (requests (store sample_perm_world))"
    by (simp add: pending_keys_ok_def sample_perm_db_def sample_request_env_def map_filter_simps)
qed

section \<open>What an approval does\<close>

lemma RequestGetByID_run:
  "RequestGetByID i w = (Inr r, w') \<longleftrightarrow>
     \<not> next_fails w \<and> first_row (\<lambda>r. request_live r \<and> wr_id r = i) (requests (store w)) = Some r \<and>
     w' = next_world w (store w)"
  by (auto simp: RequestGetByID_def require_row_def run_simps split: option.split)

lemma not_approver_run:
  assumes "not_approver (RequirePermission E ctx u path action) w = (Inr a, w')"
  shows "may E ctx u path action (clock w) (store w)"
proof -
  obtain r w1 where run: "RequirePermission E ctx u path action w = (r, w1)"
    by (cases "RequirePermission E ctx u path action w")
  with assms have "r = Inr ()"
    by (cases r) (auto simp: not_approver_def run_simps)
  with run show ?thesis
    by (auto simp: RequirePermission_def run_simps split: if_splits intro: ServiceHasPermission_sound)
qed

lemma state_changed_run: "state_changed m w = (Inr a, w') \<longleftrightarrow> m w = (Inr a, w')"
  by (cases "m w"; cases "fst (m w)") (auto simp: state_changed_def run_simps)

lemma UpdateDecision_run:
  assumes "UpdateDecisionWithDB i RequestPending f w = (Inr (), w')"
  shows "roles (store w') = roles (store w)"
    and "\<exists>tm. requests (store w') = upd (\<lambda>r. request_live r \<and> wr_id r = i \<and> wr_status r = RequestPending)
           (\<lambda>r. (f r)\<lparr>wr_updated_at := tm\<rparr>) (requests (store w))"
  using assms by (auto simp: UpdateDecisionWithDB_def update_requests_def Let_def run_simps split: if_splits)

definition approval_effect where
  "approval_effect F S m r u t comment s \<longleftrightarrow> keys_ok (request_sha F) S s \<and>
     keyed_grants s = m(grant_id (approval_row r u) \<mapsto> wr_requested_expires r) \<and>
     (\<exists>tm. (decided RequestApproved u t comment r)\<lparr>wr_updated_at := tm\<rparr> \<in> set (requests s))"

lemma approval_effect_core:
  "perm_core s = perm_core s' \<Longrightarrow> approval_effect F S m r u t c s \<Longrightarrow> approval_effect F S m r u t c s'"
  by (simp add: approval_effect_def perm_core_def keys_ok_def keyed_grants_def)

lemma approve_tx_effect:
  assumes ok: "keys_ok (request_sha F) S (store w)" and payload: "payload_ok S (approval_row r u)"
    and row: "first_row (\<lambda>r. request_live r \<and> wr_id r = i) (requests (store w)) = Some r"
    and run: "review_tx F i u RequestApproved comment t w = (Inr (), w')"
  shows "wr_status r = RequestPending \<and> requestable_role (NormalizeRoleCode (wr_requested_role r)) \<and>
     \<not> expired (wr_requested_expires r) t \<and>
     approval_effect F S (keyed_grants (store w)) r u t comment (store w')"
proof -
  let ?w1 = "next_world w (store w)"
  from run row obtain w2 w3 where grant: "approve_grant F u t r ?w1 = (Inr (), w2)"
    and decide: "UpdateDecisionWithDB i RequestPending (decided RequestApproved u t comment) w2 = (Inr (), w3)"
    and w': "store w' = store w3" and pending: "wr_status r = RequestPending"
    by (auto simp: review_tx_def RequestGetByID_run run_simps split: if_splits)
  from grant have role: "requestable_role (NormalizeRoleCode (wr_requested_role r))"
    and live: "\<not> expired (wr_requested_expires r) t"
    and put: "UpsertAssignment (request_sha F) (approval_row r u) ?w1 = (Inr (), w2)"
    by (auto simp: approve_grant_def run_simps split: if_splits)
  have "row_live (approval_row r u)" by (simp add: approval_row_def row_live_def)
  then have up: "keys_ok (request_sha F) S (store w2) \<and> keyed_grants (store w2) =
      (keyed_grants (store w))(grant_id (approval_row r u) \<mapsto> ra_expires_at (approval_row r u))"
    using hoareD [OF keyed.upsert_refines _ put] ok payload by simp
  have "requests (store w2) = requests (store w)"
    using stableD [OF roles_only(1) [where Q = "\<lambda>rs. rs = requests (store w)"] _ put] by simp
  moreover obtain tm where rows: "requests (store w3) =
      upd (\<lambda>r. request_live r \<and> wr_id r = i \<and> wr_status r = RequestPending)
        (\<lambda>r. (decided RequestApproved u t comment r)\<lparr>wr_updated_at := tm\<rparr>) (requests (store w2))"
    using UpdateDecision_run(2) [OF decide] by blast
  ultimately have "(decided RequestApproved u t comment r)\<lparr>wr_updated_at := tm\<rparr> \<in> set (requests (store w3))"
    using first_row_Some [OF row] pending by (force simp: rows in_upd_iff)
  moreover have "roles (store w3) = roles (store w2)" by (rule UpdateDecision_run(1) [OF decide])
  ultimately have "approval_effect F S (keyed_grants (store w)) r u t comment (store w3)"
    using up by (auto simp: approval_effect_def keys_ok_def keyed_grants_def approval_row_def)
  then show ?thesis using role live pending w' by simp
qed

text \<open>
  C18. What an approval does: a successful \<open>Approve\<close> found a pending request of somebody else, the
  reviewer was allowed to administer its resource at that moment, the requested role is one that
  may be requested and its expiry had not passed; afterwards the map of grants is updated at the
  requested grant, under the identity the key of the table hashes, and nowhere else, and the row of the
  request carries the reviewer, the time and the comment. Assumed is for the rows of the request what
  \<open>GrantRole_refines\<close> assumes: no NUL byte in its identity and no collision of SHA-256.
\<close>

theorem Approve_effect:
  assumes "keys_ok (request_sha F) S (store w)"
    and "\<And>r. r \<in> set (requests (store w)) \<Longrightarrow> wr_id r = i \<Longrightarrow> payload_ok S (approval_row r u)"
    and "Approve F ctx i name comment w = (Inr view, w')"
    and "u = to_lower (trim_space name)"
  shows "\<exists>r \<in> set (requests (store w)). wr_id r = i \<and> wr_status r = RequestPending \<and>
     wr_requester r \<noteq> u \<and> may (qe_permission F) ctx u (wr_resource_path r) ActionAdmin (clock w) (store w) \<and>
     requestable_role (NormalizeRoleCode (wr_requested_role r)) \<and>
     keys_ok (request_sha F) S (store w') \<and>
     keyed_grants (store w') =
       (keyed_grants (store w))(grant_id (approval_row r u) \<mapsto> wr_requested_expires r) \<and>
     (\<exists>t tm. \<not> expired (wr_requested_expires r) t \<and>
       (decided RequestApproved u t (trim_space comment) r)\<lparr>wr_updated_at := tm\<rparr> \<in>
       set (requests (store w')))"
proof -
  let ?d = "\<lambda>t r. decided RequestApproved u t (trim_space comment) r"
  let ?rest = "\<lambda>t r. andThen (writeReviewOperateLog F ctx (?d t r) u) (\<lambda>_.
    andThen (notifyPermissionRequestDecision F (?d t r)) (\<lambda>_. buildRequestView (?d t r)))"
  from assms(3) obtain r w1 w2 w3 where
    row: "first_row (\<lambda>r. request_live r \<and> wr_id r = i) (requests (store w)) = Some r"
    and other: "wr_requester r \<noteq> u"
    and allowed: "not_approver (RequirePermission (qe_permission F) ctx u (wr_resource_path r) ActionAdmin)
      (next_world w (store w)) = (Inr (), w1)"
    and run: "review_tx F i u RequestApproved (trim_space comment) (clock w1) w1 = (Inr (), w2)"
    and rest: "?rest (clock w1) r w2 = (Inr view, w')"
    unfolding Approve_def review_def Let_def assms(4) [symmetric]
    by (auto simp: andThen_Inr RequestGetByID_run state_changed_run now_Inr fail_Inr split: if_split_asm)
  have r: "r \<in> set (requests (store w))" "wr_id r = i" using first_row_Some [OF row] by auto
  have core1: "perm_core (store w1) = perm_core (store w)"
    using core_keptD [OF core_kept_request_checks(3) allowed] by simp
  have ok1: "keys_ok (request_sha F) S (store w1)" and same: "keyed_grants (store w1) = keyed_grants (store w)"
    using core_predD [OF core_pred_grants(2) [of "request_sha F" S "keyed_grants (store w)"] sym [OF core1]] assms(1)
    by auto
  have "requests (store w1) = requests (store w)" using perm_core_parts [OF core1] by simp
  then have effect: "wr_status r = RequestPending"
      "requestable_role (NormalizeRoleCode (wr_requested_role r))"
      "\<not> expired (wr_requested_expires r) (clock w1)"
      "approval_effect F S (keyed_grants (store w)) r u (clock w1) (trim_space comment) (store w2)"
    using approve_tx_effect [OF ok1 assms(2) [OF r] _ run] row same by auto
  have "perm_core (store w') = perm_core (store w2)"
    by (rule core_keptD [where m = "?rest (clock w1) r", OF _ rest]) (intro core_intros)
  then have "approval_effect F S (keyed_grants (store w)) r u (clock w1) (trim_space comment) (store w')"
    by (rule approval_effect_core [OF sym effect(4)])
  then show ?thesis
    using r other effect(1-3) not_approver_run [OF allowed]
    by (auto simp: approval_effect_def)
qed

text \<open>Concrete runs.\<close>

lemma approval_id: "grant_id (approval_row r u) = grant_id (approval_row r v)"
  by (simp add: approval_row_def grant_id_def)

lemma sample_approval:
  "grant_id (approval_row sample_request u) = [''alice'', ''crm'', ''user'', ''bob'', ''/alice/crm/sales'', ''viewer'']"
proof -
  have "grant_id (approval_row sample_request []) = [''alice'', ''crm'', ''user'', ''bob'', ''/alice/crm/sales'', ''viewer'']"
    by code_simp
  then show ?thesis using approval_id [of sample_request u "[]"] by simp
qed

theorem Approve_effect_witness:
  "keyed_grants (store (snd (Approve sample_request_env sample_ctx 5 ''Carol'' ''ok'' sample_perm_world)))
     [''alice'', ''crm'', ''user'', ''bob'', ''/alice/crm/sales'', ''viewer''] = Some None"
proof -
  have "isl (fst (Approve sample_request_env sample_ctx 5 ''Carol'' ''ok'' sample_perm_world)) = False"
    by code_simp
  then obtain view where run: "fst (Approve sample_request_env sample_ctx 5 ''Carol'' ''ok'' sample_perm_world) = Inr view"
    by (cases "fst (Approve sample_request_env sample_ctx 5 ''Carol'' ''ok'' sample_perm_world)") auto
  have sha: "request_sha sample_request_env = (\<lambda>s. s)"
    by (simp add: sample_request_env_def)
  have rows: "requests sample_perm_db = [sample_request]" "wr_requested_expires sample_request = None"
    by (simp_all add: sample_perm_db_def sample_request_def)
  have "payload_ok UNIV (approval_row sample_request u)" for u
    by (rule payload_UNIV) (simp add: sample_approval)
  with Approve_effect [OF _ _ run_splitI [OF run] refl, of UNIV] rows
  show ?thesis by (auto simp: sample_keys_ok sha sample_approval)
qed

end
