(* ===== verification/JwtTokens.thy ===== *)
theory JwtTokens
  imports Store
begin

text \<open>
  Signed tokens (\<open>pkg/auth/jwt.go\<close>): what the four kinds of token claim and which validator
  accepts which. Signing and parsing are the JWT library's: \<open>je_sign\<close> signs the claims with the
  secret of the deployment, \<open>je_parse\<close> checks signature and validity at a time and returns the
  claims. The \<open>Generate\<close> functions take the time as an argument; expiry and issue times are cut to
  seconds, as \<open>NewNumericDate\<close> does.
\<close>

section \<open>Claims\<close>

abbreviation TokenUseAccess :: gostr where "TokenUseAccess \<equiv> ''access''"
abbreviation TokenUseRefresh :: gostr where "TokenUseRefresh \<equiv> ''refresh''"
abbreviation TokenUseOpenAPI :: gostr where "TokenUseOpenAPI \<equiv> ''openapi''"
abbreviation TokenUseScheduled :: gostr where "TokenUseScheduled \<equiv> ''scheduled''"

abbreviation second :: int where "second \<equiv> 1000000000"
abbreviation DefaultScheduledTokenTTL :: int where "DefaultScheduledTokenTTL \<equiv> 86400 * second"

record registered_claims =
  rc_issuer :: gostr
  rc_subject :: gostr
  rc_issued_at :: "int option"
  rc_not_before :: "int option"
  rc_expires_at :: "int option"

record jwt_claims = registered_claims +
  jw_token_use :: gostr
  jw_user_id :: int
  jw_username :: gostr
  jw_email :: gostr
  jw_task_id :: int
  jw_execution_id :: int
  jw_department :: "gostr option"
  jw_leader :: "gostr option"

record user_token_context =
  tc_user_id :: int
  tc_username :: gostr
  tc_email :: gostr
  tc_department :: gostr
  tc_leader :: gostr

record access_token_principal =
  tp_user_id :: int
  tp_username :: gostr
  tp_email :: gostr
  tp_department :: gostr

record jwt_env =
  je_issuer :: gostr
  je_access_expire :: int
  je_refresh_expire :: int
  je_sign :: "jwt_claims \<Rightarrow> gostr option"
  je_parse :: "int \<Rightarrow> gostr \<Rightarrow> jwt_claims option"

datatype jwt_error =
    JErrSign
  | JErrParse
  | JErrNotAccess
  | JErrNoIdentity
  | JErrNotRefresh
  | JErrNotOpenAPI
  | JErrNoUsername
  | JErrNotScheduled
  | JErrNoTask
  | JErrSubject
  | JErrIssuer
  | JErrNoValidity
  | JErrBadValidity
  | JErrBadTTL
  | JErrBadAccess
  | JErrNotGateway
  | JErrRefreshCheck jwt_error
  | JErrNewAccess jwt_error
  | JErrNewRefresh jwt_error

section \<open>Generating\<close>

definition NewNumericDate :: "int \<Rightarrow> int" where
  "NewNumericDate t = t - t mod second"

definition expire_after :: "int \<Rightarrow> int \<Rightarrow> int" where
  "expire_after seconds t = t + wrap64 (seconds * second)"

definition non_empty :: "gostr \<Rightarrow> gostr option" where
  "non_empty s = (if s = [] then None else Some s)"

definition jwt_claims_of ::
  "user_token_context \<Rightarrow> gostr \<Rightarrow> int \<Rightarrow> int \<Rightarrow> registered_claims \<Rightarrow> jwt_claims" where
  "jwt_claims_of cx token_use task_id execution_id rc =
     \<lparr>rc_issuer = rc_issuer rc, rc_subject = rc_subject rc, rc_issued_at = rc_issued_at rc,
      rc_not_before = rc_not_before rc, rc_expires_at = rc_expires_at rc,
      jw_token_use = token_use, jw_user_id = tc_user_id cx, jw_username = tc_username cx,
      jw_email = tc_email cx, jw_task_id = task_id, jw_execution_id = execution_id,
      jw_department = non_empty (tc_department cx), jw_leader = non_empty (tc_leader cx)\<rparr>"

definition generateTokenWithClaims ::
  "jwt_env \<Rightarrow> user_token_context \<Rightarrow> gostr \<Rightarrow> int \<Rightarrow> int \<Rightarrow> registered_claims \<Rightarrow> jwt_error + gostr" where
  "generateTokenWithClaims J cx token_use task_id execution_id rc =
     (case je_sign J (jwt_claims_of cx token_use task_id execution_id rc) of
        None \<Rightarrow> Inl JErrSign | Some s \<Rightarrow> Inr s)"

definition subject_claims :: "jwt_env \<Rightarrow> gostr \<Rightarrow> int \<Rightarrow> int \<Rightarrow> registered_claims" where
  "subject_claims J subject expires_at t =
     \<lparr>rc_issuer = je_issuer J, rc_subject = subject, rc_issued_at = Some (NewNumericDate t),
      rc_not_before = Some (NewNumericDate t),
      rc_expires_at = (if expires_at = 0 then None else Some (NewNumericDate expires_at))\<rparr>"

definition generateTokenWithSubject ::
  "jwt_env \<Rightarrow> user_token_context \<Rightarrow> gostr \<Rightarrow> gostr \<Rightarrow> int \<Rightarrow> int \<Rightarrow> jwt_error + gostr" where
  "generateTokenWithSubject J cx token_use subject expires_at t =
     generateTokenWithClaims J cx token_use 0 0 (subject_claims J subject expires_at t)"

definition generateTokenWithContext ::
  "jwt_env \<Rightarrow> user_token_context \<Rightarrow> gostr \<Rightarrow> gostr \<Rightarrow> int \<Rightarrow> int \<Rightarrow> jwt_error + gostr" where
  "generateTokenWithContext J cx token_use subject_prefix expires_at t =
     generateTokenWithSubject J cx token_use (subject_prefix @ ''_'' @ show_int (tc_user_id cx)) expires_at t"

definition GenerateAccessTokenWithContext ::
  "jwt_env \<Rightarrow> user_token_context \<Rightarrow> int \<Rightarrow> jwt_error + gostr" where
  "GenerateAccessTokenWithContext J cx t =
     generateTokenWithContext J cx TokenUseAccess ''access'' (expire_after (je_access_expire J) t) t"

definition GenerateAccessToken :: "jwt_env \<Rightarrow> int \<Rightarrow> gostr \<Rightarrow> gostr \<Rightarrow> int \<Rightarrow> jwt_error + gostr" where
  "GenerateAccessToken J user_id username email t =
     GenerateAccessTokenWithContext J
       \<lparr>tc_user_id = user_id, tc_username = username, tc_email = email, tc_department = [], tc_leader = []\<rparr> t"

definition GenerateAccessTokenWithHR ::
  "jwt_env \<Rightarrow> int \<Rightarrow> gostr \<Rightarrow> gostr \<Rightarrow> gostr \<Rightarrow> gostr \<Rightarrow> int \<Rightarrow> jwt_error + gostr" where
  "GenerateAccessTokenWithHR J user_id username email department leader t =
     GenerateAccessTokenWithContext J
       \<lparr>tc_user_id = user_id, tc_username = username, tc_email = email, tc_department = department,
        tc_leader = leader\<rparr> t"

text \<open>No expiry is the zero time, and leaves the claim out.\<close>

definition GenerateOpenAPITokenWithContext ::
  "jwt_env \<Rightarrow> user_token_context \<Rightarrow> int option \<Rightarrow> int \<Rightarrow> jwt_error + gostr" where
  "GenerateOpenAPITokenWithContext J cx expires_at t =
     (let username = trim_space (tc_username cx) in
      if username = [] then Inl JErrNoUsername
      else generateTokenWithSubject J cx TokenUseOpenAPI (''openapi:'' @ username)
             (case expires_at of None \<Rightarrow> 0 | Some e \<Rightarrow> e) t)"

definition scheduled_subject :: "int \<Rightarrow> int \<Rightarrow> gostr" where
  "scheduled_subject task_id execution_id =
     ''scheduled:'' @ show_int task_id @ '':'' @ show_int execution_id"

definition GenerateScheduledTokenWithContextTTL ::
  "jwt_env \<Rightarrow> user_token_context \<Rightarrow> int \<Rightarrow> int \<Rightarrow> int \<Rightarrow> int \<Rightarrow> jwt_error + gostr" where
  "GenerateScheduledTokenWithContextTTL J cx task_id execution_id ttl t =
     (let cx = cx\<lparr>tc_username := trim_space (tc_username cx)\<rparr> in
      if tc_username cx = [] then Inl JErrNoUsername
      else if task_id \<le> 0 \<or> execution_id \<le> 0 then Inl JErrNoTask
      else if ttl \<le> 0 then Inl JErrBadTTL
      else generateTokenWithClaims J (cx\<lparr>tc_user_id := 0\<rparr>) TokenUseScheduled task_id execution_id
        \<lparr>rc_issuer = je_issuer J, rc_subject = scheduled_subject task_id execution_id,
         rc_issued_at = Some (NewNumericDate t), rc_not_before = Some (NewNumericDate t),
         rc_expires_at = Some (NewNumericDate (t + ttl))\<rparr>)"

definition GenerateScheduledTokenWithContext ::
  "jwt_env \<Rightarrow> user_token_context \<Rightarrow> int \<Rightarrow> int \<Rightarrow> int \<Rightarrow> jwt_error + gostr" where
  "GenerateScheduledTokenWithContext J cx task_id execution_id t =
     GenerateScheduledTokenWithContextTTL J cx task_id execution_id DefaultScheduledTokenTTL t"

definition GenerateRefreshTokenWithContextExpiresAt ::
  "jwt_env \<Rightarrow> user_token_context \<Rightarrow> int \<Rightarrow> int \<Rightarrow> jwt_error + gostr" where
  "GenerateRefreshTokenWithContextExpiresAt J cx expires_at t =
     (let expires_at = (if expires_at = 0 then expire_after (je_refresh_expire J) t else expires_at) in
      case je_sign J (jwt_claims_of cx TokenUseRefresh 0 0
        \<lparr>rc_issuer = je_issuer J, rc_subject = ''refresh_'' @ show_int (tc_user_id cx),
         rc_issued_at = Some (NewNumericDate t), rc_not_before = Some (NewNumericDate t),
         rc_expires_at = Some (NewNumericDate expires_at)\<rparr>) of
        None \<Rightarrow> Inl JErrSign | Some s \<Rightarrow> Inr s)"

definition GenerateRefreshTokenWithContext ::
  "jwt_env \<Rightarrow> user_token_context \<Rightarrow> int \<Rightarrow> jwt_error + gostr" where
  "GenerateRefreshTokenWithContext J cx t =
     GenerateRefreshTokenWithContextExpiresAt J cx (expire_after (je_refresh_expire J) t) t"

definition GenerateRefreshToken :: "jwt_env \<Rightarrow> int \<Rightarrow> gostr \<Rightarrow> gostr \<Rightarrow> int \<Rightarrow> jwt_error + gostr" where
  "GenerateRefreshToken J user_id username email t =
     GenerateRefreshTokenWithContext J
       \<lparr>tc_user_id = user_id, tc_username = username, tc_email = email, tc_department = [], tc_leader = []\<rparr> t"

section \<open>Validating\<close>

definition ValidateToken :: "jwt_env \<Rightarrow> int \<Rightarrow> gostr \<Rightarrow> jwt_error + jwt_claims" where
  "ValidateToken J t token = (case je_parse J t token of None \<Rightarrow> Inl JErrParse | Some c \<Rightarrow> Inr c)"

definition no_identity :: "jwt_claims \<Rightarrow> bool" where
  "no_identity c \<longleftrightarrow> jw_user_id c \<le> 0 \<or> trim_space (jw_username c) = []"

definition check_access :: "jwt_claims \<Rightarrow> jwt_error option" where
  "check_access c =
     (if jw_token_use c \<noteq> TokenUseAccess then Some JErrNotAccess
      else if no_identity c then Some JErrNoIdentity
      else if rc_subject c \<noteq> ''access_'' @ show_int (jw_user_id c) then Some JErrNotAccess
      else None)"

definition check_refresh :: "jwt_claims \<Rightarrow> jwt_error option" where
  "check_refresh c =
     (if jw_token_use c \<noteq> TokenUseRefresh then Some JErrNotRefresh
      else if no_identity c then Some JErrNoIdentity
      else if rc_subject c \<noteq> ''refresh_'' @ show_int (jw_user_id c) then Some JErrNotRefresh
      else None)"

definition check_openapi :: "jwt_claims \<Rightarrow> jwt_error option" where
  "check_openapi c =
     (if jw_token_use c \<noteq> TokenUseOpenAPI then Some JErrNotOpenAPI
      else if trim_space (jw_username c) = [] then Some JErrNoUsername
      else if rc_subject c \<noteq> ''openapi:'' @ trim_space (jw_username c) then Some JErrNotOpenAPI
      else None)"

definition validateScheduledClaims :: "jwt_env \<Rightarrow> jwt_claims \<Rightarrow> jwt_error option" where
  "validateScheduledClaims J c =
     (if jw_token_use c \<noteq> TokenUseScheduled then Some JErrNotScheduled
      else if trim_space (jw_username c) = [] then Some JErrNoUsername
      else if jw_task_id c \<le> 0 \<or> jw_execution_id c \<le> 0 then Some JErrNoTask
      else if rc_subject c \<noteq> scheduled_subject (jw_task_id c) (jw_execution_id c) then Some JErrSubject
      else if rc_issuer c \<noteq> je_issuer J then Some JErrIssuer
      else (case (rc_issued_at c, rc_not_before c, rc_expires_at c) of
              (Some issued, Some _, Some e) \<Rightarrow> if e > issued then None else Some JErrBadValidity
            | _ \<Rightarrow> Some JErrNoValidity))"

definition check_gateway :: "jwt_env \<Rightarrow> jwt_claims \<Rightarrow> jwt_error option" where
  "check_gateway J c =
     (if jw_token_use c = TokenUseAccess
      then (if no_identity c \<or> rc_subject c \<noteq> ''access_'' @ show_int (jw_user_id c)
            then Some JErrBadAccess else None)
      else if jw_token_use c = TokenUseScheduled then validateScheduledClaims J c
      else Some JErrNotGateway)"

definition checked_token ::
  "jwt_env \<Rightarrow> (jwt_claims \<Rightarrow> jwt_error option) \<Rightarrow> int \<Rightarrow> gostr \<Rightarrow> jwt_error + jwt_claims" where
  "checked_token J check t token =
     (case ValidateToken J t token of Inl e \<Rightarrow> Inl e
      | Inr c \<Rightarrow> (case check c of Some e \<Rightarrow> Inl e | None \<Rightarrow> Inr c))"

definition JwtValidateAccessToken :: "jwt_env \<Rightarrow> int \<Rightarrow> gostr \<Rightarrow> jwt_error + jwt_claims" where
  "JwtValidateAccessToken J = checked_token J check_access"

definition ValidateRefreshToken :: "jwt_env \<Rightarrow> int \<Rightarrow> gostr \<Rightarrow> jwt_error + jwt_claims" where
  "ValidateRefreshToken J = checked_token J check_refresh"

definition ValidateOpenAPIToken :: "jwt_env \<Rightarrow> int \<Rightarrow> gostr \<Rightarrow> jwt_error + jwt_claims" where
  "ValidateOpenAPIToken J = checked_token J check_openapi"

definition ValidateScheduledToken :: "jwt_env \<Rightarrow> int \<Rightarrow> gostr \<Rightarrow> jwt_error + jwt_claims" where
  "ValidateScheduledToken J = checked_token J (validateScheduledClaims J)"

definition ValidateGatewayToken :: "jwt_env \<Rightarrow> int \<Rightarrow> gostr \<Rightarrow> jwt_error + jwt_claims" where
  "ValidateGatewayToken J = checked_token J (check_gateway J)"

definition token_context_of :: "jwt_claims \<Rightarrow> user_token_context" where
  "token_context_of c =
     \<lparr>tc_user_id = jw_user_id c, tc_username = jw_username c, tc_email = jw_email c,
      tc_department = (case jw_department c of None \<Rightarrow> [] | Some d \<Rightarrow> d),
      tc_leader = (case jw_leader c of None \<Rightarrow> [] | Some l \<Rightarrow> l)\<rparr>"

definition RefreshAccessToken :: "jwt_env \<Rightarrow> int \<Rightarrow> gostr \<Rightarrow> jwt_error + gostr \<times> gostr" where
  "RefreshAccessToken J t token =
     (case ValidateRefreshToken J t token of Inl e \<Rightarrow> Inl (JErrRefreshCheck e)
      | Inr c \<Rightarrow>
        (case GenerateAccessTokenWithContext J (token_context_of c) t of Inl e \<Rightarrow> Inl (JErrNewAccess e)
         | Inr access \<Rightarrow>
           (case GenerateRefreshTokenWithContext J (token_context_of c) t of Inl e \<Rightarrow> Inl (JErrNewRefresh e)
            | Inr refresh \<Rightarrow> Inr (access, refresh))))"

definition ExtractUserID :: "jwt_env \<Rightarrow> int \<Rightarrow> gostr \<Rightarrow> jwt_error + int" where
  "ExtractUserID J t token = (case ValidateToken J t token of Inl e \<Rightarrow> Inl e | Inr c \<Rightarrow> Inr (jw_user_id c))"

definition ExtractUsername :: "jwt_env \<Rightarrow> int \<Rightarrow> gostr \<Rightarrow> jwt_error + gostr" where
  "ExtractUsername J t token = (case ValidateToken J t token of Inl e \<Rightarrow> Inl e | Inr c \<Rightarrow> Inr (jw_username c))"

end
