(* ===== verification/JwtProps.thy ===== *)
theory JwtProps
  imports JwtTokens
begin

text \<open>
  The kinds of token are separate, and what is issued validates. Of the JWT library is used, where
  named, that parsing inverts signing while a token is valid.
\<close>

definition accepts :: "jwt_error + jwt_claims \<Rightarrow> bool" where
  "accepts r \<longleftrightarrow> (case r of Inl _ \<Rightarrow> False | Inr _ \<Rightarrow> True)"

lemma checked_token_Inr [simp]:
  "checked_token J check t token = Inr c \<longleftrightarrow> je_parse J t token = Some c \<and> check c = None"
  by (auto simp: checked_token_def ValidateToken_def split: option.splits)

lemma accepts_checked:
  "accepts (checked_token J check t token) \<longleftrightarrow> (\<exists>c. je_parse J t token = Some c \<and> check c = None)"
  by (auto simp: accepts_def checked_token_def ValidateToken_def split: option.splits)

lemma check_use:
  "check_access c = None \<Longrightarrow> jw_token_use c = TokenUseAccess"
  "check_refresh c = None \<Longrightarrow> jw_token_use c = TokenUseRefresh"
  "check_openapi c = None \<Longrightarrow> jw_token_use c = TokenUseOpenAPI"
  "validateScheduledClaims J c = None \<Longrightarrow> jw_token_use c = TokenUseScheduled"
  by (auto simp: check_access_def check_refresh_def check_openapi_def validateScheduledClaims_def
      split: if_splits)

lemma check_gateway_iff:
  "check_gateway J c = None \<longleftrightarrow> check_access c = None \<or> validateScheduledClaims J c = None"
proof (cases "jw_token_use c = TokenUseAccess")
  case True
  then have "validateScheduledClaims J c \<noteq> None" by (simp add: validateScheduledClaims_def)
  with True show ?thesis by (simp add: check_gateway_def check_access_def)
next
  case False
  then have no: "check_access c = Some JErrNotAccess" by (simp add: check_access_def)
  show ?thesis
  proof (cases "jw_token_use c = TokenUseScheduled")
    case True
    with no show ?thesis by (simp add: check_gateway_def)
  next
    case False
    with \<open>jw_token_use c \<noteq> TokenUseAccess\<close> no show ?thesis
      by (simp add: check_gateway_def validateScheduledClaims_def)
  qed
qed

lemma accepted_use:
  "accepts (JwtValidateAccessToken J t token) \<Longrightarrow> \<exists>c. je_parse J t token = Some c \<and> jw_token_use c = TokenUseAccess"
  "accepts (ValidateRefreshToken J t token) \<Longrightarrow> \<exists>c. je_parse J t token = Some c \<and> jw_token_use c = TokenUseRefresh"
  "accepts (ValidateOpenAPIToken J t token) \<Longrightarrow> \<exists>c. je_parse J t token = Some c \<and> jw_token_use c = TokenUseOpenAPI"
  "accepts (ValidateScheduledToken J t token) \<Longrightarrow> \<exists>c. je_parse J t token = Some c \<and> jw_token_use c = TokenUseScheduled"
  unfolding JwtValidateAccessToken_def ValidateRefreshToken_def ValidateOpenAPIToken_def
    ValidateScheduledToken_def accepts_checked
  using check_use by blast+

lemma gateway_iff:
  "ValidateGatewayToken J t token = Inr c \<longleftrightarrow>
     JwtValidateAccessToken J t token = Inr c \<or> ValidateScheduledToken J t token = Inr c"
  unfolding JwtValidateAccessToken_def ValidateScheduledToken_def ValidateGatewayToken_def
  by (auto simp: check_gateway_iff)

lemma accepts_iff: "accepts r \<longleftrightarrow> (\<exists>c. r = Inr c)"
  by (cases r) (simp_all add: accepts_def)

text \<open>
  C22. The kinds of token are separate: no token is accepted as two of access, refresh, OpenAPI and
  scheduled token, even when it is presented to the four checks at different times; and the gateway lets
  in exactly the access tokens and the scheduled tokens, never what is a refresh or an OpenAPI token at
  any time. Of the JWT library is used that the claims parsed from a token are those signed in it, so the
  time of parsing decides only whether they are accepted.
\<close>

theorem token_kinds_separate:
  assumes "\<And>t t' c c'. je_parse J t token = Some c \<Longrightarrow> je_parse J t' token = Some c' \<Longrightarrow> c = c'"
  shows "(ValidateGatewayToken J t token = Inr c \<longleftrightarrow>
      JwtValidateAccessToken J t token = Inr c \<or> ValidateScheduledToken J t token = Inr c) \<and>
   length (filter accepts [JwtValidateAccessToken J t1 token, ValidateRefreshToken J t2 token,
     ValidateOpenAPIToken J t3 token, ValidateScheduledToken J t4 token]) \<le> 1 \<and>
   \<not> (accepts (ValidateGatewayToken J t token) \<and>
      (accepts (ValidateRefreshToken J t2 token) \<or> accepts (ValidateOpenAPIToken J t3 token)))"
proof -
  define u where "u = jw_token_use (SOME c. \<exists>t. je_parse J t token = Some c)"
  have u: "jw_token_use c = u" if "je_parse J t token = Some c" for t c
    using someI [of "\<lambda>c. \<exists>t. je_parse J t token = Some c" c] that assms unfolding u_def by metis
  have kinds: "accepts (JwtValidateAccessToken J t token) \<Longrightarrow> u = TokenUseAccess"
    "accepts (ValidateRefreshToken J t token) \<Longrightarrow> u = TokenUseRefresh"
    "accepts (ValidateOpenAPIToken J t token) \<Longrightarrow> u = TokenUseOpenAPI"
    "accepts (ValidateScheduledToken J t token) \<Longrightarrow> u = TokenUseScheduled" for t
    using accepted_use [of J t token] u [of t] by blast+
  have "accepts (ValidateGatewayToken J t token) \<Longrightarrow> u = TokenUseAccess \<or> u = TokenUseScheduled"
    using kinds(1,4) [of t] unfolding accepts_iff gateway_iff by blast
  then show ?thesis
    using kinds(1) [of t1] kinds(2) [of t2] kinds(3) [of t3] kinds(4) [of t4]
    by (auto simp: gateway_iff)
qed

section \<open>What is issued validates\<close>

text \<open>The JWT library, as its documentation has it.\<close>

definition valid_at :: "int \<Rightarrow> jwt_claims \<Rightarrow> bool" where
  "valid_at t c \<longleftrightarrow> (\<forall>n. rc_not_before c = Some n \<longrightarrow> n \<le> t) \<and> (\<forall>e. rc_expires_at c = Some e \<longrightarrow> t < e)"

definition jwt_library :: "jwt_env \<Rightarrow> bool" where
  "jwt_library J \<longleftrightarrow> (\<forall>c s t. je_sign J c = Some s \<longrightarrow> valid_at t c \<longrightarrow> je_parse J t s = Some c)"

lemma jwt_libraryD: "jwt_library J \<Longrightarrow> je_sign J c = Some s \<Longrightarrow> valid_at t c \<Longrightarrow> je_parse J t s = Some c"
  by (simp add: jwt_library_def)

lemma NewNumericDate_le: "NewNumericDate t \<le> t"
  by (simp add: NewNumericDate_def)

lemma token_context_of_claims [simp]: "token_context_of (jwt_claims_of cx use i x rc) = cx"
  by (cases cx) (simp add: token_context_of_def jwt_claims_of_def non_empty_def)

lemma issued_Inr:
  "generateTokenWithClaims J cx use i x rc = Inr s \<longleftrightarrow> je_sign J (jwt_claims_of cx use i x rc) = Some s"
  by (simp add: generateTokenWithClaims_def split: option.split)

text \<open>
  C23. What is issued validates, as what it is: the access token of a user validates, also for the
  gateway, from its issue until its expiry; the refresh token issued beside it validates as a refresh
  token until its own expiry, also after the access token has expired; and both give back the user they
  were issued for. Of the JWT library is used that parsing inverts signing while a token is valid.
\<close>

theorem issued_tokens_validate:
  assumes "jwt_library J" and "tc_user_id cx > 0" and "trim_space (tc_username cx) \<noteq> []"
    and "GenerateAccessTokenWithContext J cx t = Inr access"
    and "GenerateRefreshTokenWithContextExpiresAt J cx e t = Inr refresh" and "e \<noteq> 0"
  shows "(\<forall>t'. t \<le> t' \<and> t' < NewNumericDate (expire_after (je_access_expire J) t) \<longrightarrow>
       (\<exists>c. ValidateGatewayToken J t' access = Inr c \<and> JwtValidateAccessToken J t' access = Inr c \<and>
         token_context_of c = cx)) \<and>
    (\<forall>t'. t \<le> t' \<and> t' < NewNumericDate e \<longrightarrow>
       (\<exists>r. ValidateRefreshToken J t' refresh = Inr r \<and> token_context_of r = cx))"
proof (intro conjI allI impI)
  fix t' assume t': "t \<le> t' \<and> t' < NewNumericDate (expire_after (je_access_expire J) t)"
  let ?a = "jwt_claims_of cx TokenUseAccess 0 0
    (subject_claims J (''access_'' @ show_int (tc_user_id cx)) (expire_after (je_access_expire J) t) t)"
  have "valid_at t' ?a"
    using t' NewNumericDate_le [of t] by (simp add: valid_at_def jwt_claims_of_def subject_claims_def)
  moreover have "je_sign J ?a = Some access"
    using assms(4) by (simp add: GenerateAccessTokenWithContext_def generateTokenWithContext_def
        generateTokenWithSubject_def issued_Inr)
  ultimately have "je_parse J t' access = Some ?a" using jwt_libraryD [OF assms(1)] by blast
  moreover have "check_access ?a = None"
    using assms(2,3) by (simp add: check_access_def no_identity_def jwt_claims_of_def subject_claims_def)
  ultimately have "JwtValidateAccessToken J t' access = Inr ?a" by (simp add: JwtValidateAccessToken_def)
  then show "\<exists>c. ValidateGatewayToken J t' access = Inr c \<and> JwtValidateAccessToken J t' access = Inr c \<and>
      token_context_of c = cx"
    by (intro exI [of _ ?a]) (simp add: gateway_iff)
next
  fix t' assume t': "t \<le> t' \<and> t' < NewNumericDate e"
  let ?r = "jwt_claims_of cx TokenUseRefresh 0 0
        \<lparr>rc_issuer = je_issuer J, rc_subject = ''refresh_'' @ show_int (tc_user_id cx),
         rc_issued_at = Some (NewNumericDate t), rc_not_before = Some (NewNumericDate t),
         rc_expires_at = Some (NewNumericDate e)\<rparr>"
  have "valid_at t' ?r"
    using t' NewNumericDate_le [of t] by (simp add: valid_at_def jwt_claims_of_def)
  moreover have "je_sign J ?r = Some refresh"
    using assms(5,6) by (simp add: GenerateRefreshTokenWithContextExpiresAt_def Let_def split: option.splits)
  ultimately have "je_parse J t' refresh = Some ?r" using jwt_libraryD [OF assms(1)] by blast
  moreover have "check_refresh ?r = None"
    using assms(2,3) by (simp add: check_refresh_def no_identity_def jwt_claims_of_def)
  ultimately have "ValidateRefreshToken J t' refresh = Inr ?r" by (simp add: ValidateRefreshToken_def)
  then show "\<exists>r. ValidateRefreshToken J t' refresh = Inr r \<and> token_context_of r = cx"
    by (intro exI [of _ ?r]) simp
qed

text \<open>A concrete library: it signs the two tokens of one user, issued at second 100.\<close>

definition sample_user :: user_token_context where
  "sample_user = \<lparr>tc_user_id = 7, tc_username = ''bob'', tc_email = ''bob@x'', tc_department = ''/org/sales'',
     tc_leader = []\<rparr>"

definition sample_sign :: "jwt_claims \<Rightarrow> gostr option" where
  "sample_sign c = (if c = jwt_claims_of sample_user TokenUseAccess 0 0
        \<lparr>rc_issuer = ''kageos'', rc_subject = ''access_7'', rc_issued_at = Some (100 * second),
         rc_not_before = Some (100 * second), rc_expires_at = Some (3700 * second)\<rparr>
      then Some ''a''
      else if c = jwt_claims_of sample_user TokenUseRefresh 0 0
        \<lparr>rc_issuer = ''kageos'', rc_subject = ''refresh_7'', rc_issued_at = Some (100 * second),
         rc_not_before = Some (100 * second), rc_expires_at = Some (9000 * second)\<rparr>
      then Some ''r'' else None)"

definition sample_parse :: "int \<Rightarrow> gostr \<Rightarrow> jwt_claims option" where
  "sample_parse t s = (if s = ''a'' then Some (jwt_claims_of sample_user TokenUseAccess 0 0
        \<lparr>rc_issuer = ''kageos'', rc_subject = ''access_7'', rc_issued_at = Some (100 * second),
         rc_not_before = Some (100 * second), rc_expires_at = Some (3700 * second)\<rparr>)
      else if s = ''r'' then Some (jwt_claims_of sample_user TokenUseRefresh 0 0
        \<lparr>rc_issuer = ''kageos'', rc_subject = ''refresh_7'', rc_issued_at = Some (100 * second),
         rc_not_before = Some (100 * second), rc_expires_at = Some (9000 * second)\<rparr>)
      else None)"

definition sample_jwt :: jwt_env where
  "sample_jwt = \<lparr>je_issuer = ''kageos'', je_access_expire = 3600, je_refresh_expire = 8900,
     je_sign = sample_sign, je_parse = sample_parse\<rparr>"

lemma sample_jwt_library: "jwt_library sample_jwt"
  by (auto simp: jwt_library_def sample_jwt_def sample_sign_def sample_parse_def split: if_splits)

theorem token_kinds_separate_witness:
  "accepts (JwtValidateAccessToken sample_jwt (200 * second) ''a'') \<and>
   \<not> accepts (ValidateRefreshToken sample_jwt (8000 * second) ''a'')"
proof -
  have fixed: "c = c'" if "je_parse sample_jwt t ''a'' = Some c" "je_parse sample_jwt t' ''a'' = Some c'" for t t' c c'
    using that by (simp add: sample_jwt_def sample_parse_def)
  have "accepts (JwtValidateAccessToken sample_jwt (200 * second) ''a'')" by code_simp
  with token_kinds_separate [of sample_jwt "''a''" _ _ "200 * second" "8000 * second", OF fixed] show ?thesis
    by (auto split: if_splits)
qed

theorem issued_tokens_validate_witness:
  "(\<exists>c. ValidateGatewayToken sample_jwt (200 * second) ''a'' = Inr c \<and> token_context_of c = sample_user) \<and>
   (\<exists>r. ValidateRefreshToken sample_jwt (5000 * second) ''r'' = Inr r \<and> token_context_of r = sample_user)"
proof -
  have "GenerateAccessTokenWithContext sample_jwt sample_user (100 * second + 5) = Inr ''a''"
    "GenerateRefreshTokenWithContextExpiresAt sample_jwt sample_user (9000 * second) (100 * second + 5) = Inr ''r''"
    "tc_user_id sample_user > 0" "trim_space (tc_username sample_user) \<noteq> []"
    "200 * second < NewNumericDate (expire_after (je_access_expire sample_jwt) (100 * second + 5))"
    "5000 * second < NewNumericDate (9000 * second)"
    by code_simp+
  note facts = this
  have "(9000 * second :: int) \<noteq> 0" by simp
  note both = issued_tokens_validate [OF sample_jwt_library facts(3,4,1,2) this]
  from both [THEN conjunct1, rule_format, of "200 * second"] both [THEN conjunct2, rule_format, of "5000 * second"]
    facts(5,6) show ?thesis by auto
qed

end
