(* ===== verification/HrStore.thy ===== *)
theory HrStore
  imports Store "HOL-Library.AList" "HOL-Library.List_Lexorder" "HOL-Library.Char_ord"
begin

text \<open>
  The tables of the HR server and their repositories (\<open>core/hr-server/model\<close>,
  \<open>core/hr-server/repository/department_repository.go\<close>, \<open>user_repository.go\<close>,
  \<open>user_session_repository.go\<close>, \<open>user_governance.go\<close>) and the records of
  \<open>pkg/openapitoken\<close>. Rows are soft-deleted, unique indexes also cover deleted rows, and
  \<open>First\<close> takes the smallest id. The department cache belongs to the service of one process.
\<close>

section \<open>Rows\<close>

record dept_row =
  dp_id :: int
  dp_deleted_at :: "int option"
  dp_name :: gostr
  dp_code :: gostr
  dp_parent :: "int option"
  dp_code_path :: gostr
  dp_name_path :: gostr
  dp_managers :: gostr
  dp_description :: gostr
  dp_status :: gostr
  dp_sort :: int
  dp_default :: bool

text \<open>A user, less the columns no modelled operation reads or writes.\<close>

record user_row =
  us_id :: int
  us_created_at :: int
  us_deleted_at :: "int option"
  us_created_by :: gostr
  us_username :: gostr
  us_email :: gostr
  us_password_hash :: gostr
  us_status :: gostr
  us_email_verified :: bool
  us_register_type :: gostr
  us_third_party_id :: gostr
  us_avatar :: gostr
  us_nickname :: gostr
  us_signature :: gostr
  us_gender :: gostr
  us_terms_version :: gostr
  us_privacy_version :: gostr
  us_legal_accepted_at :: "int option"
  us_department :: gostr
  us_leader :: gostr

record session_row =
  ss_id :: int
  ss_deleted_at :: "int option"
  ss_user_id :: int
  ss_token :: gostr
  ss_refresh_token :: gostr
  ss_expires_at :: int
  ss_user_agent :: gostr
  ss_ip :: gostr
  ss_active :: bool

record api_token_row =
  ot_id :: int
  ot_created_at :: int
  ot_deleted_at :: "int option"
  ot_owner_id :: int
  ot_owner :: gostr
  ot_name :: gostr
  ot_prefix :: gostr
  ot_hash :: gostr
  ot_expires_at :: "int option"
  ot_revoked_at :: "int option"
  ot_last_used_at :: "int option"
  ot_last_used_ip :: gostr
  ot_last_used_agent :: gostr

record status_event =
  sv_username :: gostr
  sv_actor :: gostr
  sv_previous :: gostr
  sv_status :: gostr
  sv_reason :: gostr

text \<open>What the gateway is told: the hashes of session tokens and the reason, or an OpenAPI token.\<close>

datatype gateway_notice =
    TokensInvalid int gostr "gostr list" gostr
  | ApiTokenInvalid int gostr gostr "int option"

record hr_db =
  depts :: "dept_row list"
  users :: "user_row list"
  sessions :: "session_row list"
  api_tokens :: "api_token_row list"
  status_events :: "status_event list"
  gateway_notices :: "gateway_notice list"
  dept_cache :: "(gostr \<times> dept_row) list option"

text \<open>The errors, by what their messages say, with the value they name or the error they wrap.\<close>

datatype hr_error =
    HErrDB
  | HErrNotFound
  | HErrDuplicate
  | HOutOfFuel
  | HErr gostr
  | HErrOf gostr gostr
  | HErrIn gostr hr_error

abbreviation HErrLoadCache :: "hr_error \<Rightarrow> hr_error" where "HErrLoadCache \<equiv> HErrIn ''load cache''"
abbreviation HErrDeptUnknown :: "gostr \<Rightarrow> hr_error" where "HErrDeptUnknown \<equiv> HErrOf ''no department at''"
abbreviation HErrRoot :: "hr_error \<Rightarrow> hr_error" where "HErrRoot \<equiv> HErrIn ''get root''"
abbreviation HErrCreateRoot :: "hr_error \<Rightarrow> hr_error" where "HErrCreateRoot \<equiv> HErrIn ''create root''"
abbreviation HErrCreateDefault :: "hr_error \<Rightarrow> hr_error" where "HErrCreateDefault \<equiv> HErrIn ''create default department''"
abbreviation HErrBuildPath :: "hr_error \<Rightarrow> hr_error" where "HErrBuildPath \<equiv> HErrIn ''build path''"
abbreviation HErrNoParent :: "hr_error \<Rightarrow> hr_error" where "HErrNoParent \<equiv> HErrIn ''no parent''"
abbreviation HErrCodeTaken :: "gostr \<Rightarrow> hr_error" where "HErrCodeTaken \<equiv> HErrOf ''code taken''"
abbreviation HErrBuildName :: "hr_error \<Rightarrow> hr_error" where "HErrBuildName \<equiv> HErrIn ''build name path''"
abbreviation HErrCreateDept :: "hr_error \<Rightarrow> hr_error" where "HErrCreateDept \<equiv> HErrIn ''create department''"
abbreviation HErrUpdateDept :: "hr_error \<Rightarrow> hr_error" where "HErrUpdateDept \<equiv> HErrIn ''update department''"
abbreviation HErrNoDept :: "hr_error \<Rightarrow> hr_error" where "HErrNoDept \<equiv> HErrIn ''no department''"
abbreviation HErrSystemDefault :: hr_error where "HErrSystemDefault \<equiv> HErr ''default department''"
abbreviation HErrQueryChildren :: "hr_error \<Rightarrow> hr_error" where "HErrQueryChildren \<equiv> HErrIn ''query children''"
abbreviation HErrHasChildren :: hr_error where "HErrHasChildren \<equiv> HErr ''has children''"
abbreviation HErrQueryUsers :: "hr_error \<Rightarrow> hr_error" where "HErrQueryUsers \<equiv> HErrIn ''query users''"
abbreviation HErrHasUsers :: hr_error where "HErrHasUsers \<equiv> HErr ''has users''"
abbreviation HErrBadUserCode :: hr_error where "HErrBadUserCode \<equiv> HErr ''bad user code''"
abbreviation HErrReservedCode :: "gostr \<Rightarrow> hr_error" where "HErrReservedCode \<equiv> HErrOf ''reserved code''"
abbreviation HErrPasswordEmpty :: hr_error where "HErrPasswordEmpty \<equiv> HErr ''password empty''"
abbreviation HErrPasswordShort :: hr_error where "HErrPasswordShort \<equiv> HErr ''password short''"
abbreviation HErrUserExists :: hr_error where "HErrUserExists \<equiv> HErr ''user exists''"
abbreviation HErrCheckUser :: "hr_error \<Rightarrow> hr_error" where "HErrCheckUser \<equiv> HErrIn ''check user''"
abbreviation HErrEmailTaken :: hr_error where "HErrEmailTaken \<equiv> HErr ''email taken''"
abbreviation HErrCheckEmail :: "hr_error \<Rightarrow> hr_error" where "HErrCheckEmail \<equiv> HErrIn ''check email''"
abbreviation HErrBadStatus :: hr_error where "HErrBadStatus \<equiv> HErr ''bad status''"
abbreviation HErrOutsideOrg :: hr_error where "HErrOutsideOrg \<equiv> HErr ''outside org''"
abbreviation HErrOrgMissing :: "gostr \<Rightarrow> hr_error" where "HErrOrgMissing \<equiv> HErrOf ''org missing''"
abbreviation HErrQueryOrg :: "hr_error \<Rightarrow> hr_error" where "HErrQueryOrg \<equiv> HErrIn ''query org''"
abbreviation HErrOrgInactive :: "gostr \<Rightarrow> hr_error" where "HErrOrgInactive \<equiv> HErrOf ''org inactive''"
abbreviation HErrLeader :: "hr_error \<Rightarrow> hr_error" where "HErrLeader \<equiv> HErrIn ''leader''"
abbreviation HErrHash :: hr_error where "HErrHash \<equiv> HErr ''hash''"
abbreviation HErrCreateUser :: hr_error where "HErrCreateUser \<equiv> HErr ''create user''"
abbreviation HErrNoUser :: "hr_error \<Rightarrow> hr_error" where "HErrNoUser \<equiv> HErrIn ''no user''"
abbreviation HErrSystemUser :: hr_error where "HErrSystemUser \<equiv> HErr ''system user''"
abbreviation HErrUpdateUser :: "hr_error \<Rightarrow> hr_error" where "HErrUpdateUser \<equiv> HErrIn ''update user''"
abbreviation HErrNoPassword :: hr_error where "HErrNoPassword \<equiv> HErr ''no password''"
abbreviation HErrWrongPassword :: hr_error where "HErrWrongPassword \<equiv> HErr ''wrong password''"
abbreviation HErrSamePassword :: hr_error where "HErrSamePassword \<equiv> HErr ''same password''"
abbreviation HErrReasonTooLong :: hr_error where "HErrReasonTooLong \<equiv> HErr ''reason too long''"
abbreviation HErrStatusChange :: "hr_error \<Rightarrow> hr_error" where "HErrStatusChange \<equiv> HErrIn ''status change''"
abbreviation HErrNotify :: hr_error where "HErrNotify \<equiv> HErr ''notify''"
abbreviation HErrQuerySessions :: "hr_error \<Rightarrow> hr_error" where "HErrQuerySessions \<equiv> HErrIn ''query sessions''"
abbreviation HErrDeactivate :: "hr_error \<Rightarrow> hr_error" where "HErrDeactivate \<equiv> HErrIn ''deactivate''"
abbreviation HErrLogin :: hr_error where "HErrLogin \<equiv> HErr ''login''"
abbreviation HErrInactive :: hr_error where "HErrInactive \<equiv> HErr ''inactive''"
abbreviation HErrNoPasswordLogin :: hr_error where "HErrNoPasswordLogin \<equiv> HErr ''no password login''"
abbreviation HErrAccessToken :: hr_error where "HErrAccessToken \<equiv> HErr ''access token''"
abbreviation HErrRefreshToken :: hr_error where "HErrRefreshToken \<equiv> HErr ''refresh token''"
abbreviation HErrSaveSession :: hr_error where "HErrSaveSession \<equiv> HErr ''save session''"
abbreviation HErrRefreshInvalid :: hr_error where "HErrRefreshInvalid \<equiv> HErr ''refresh invalid''"
abbreviation HErrRefreshMismatch :: hr_error where "HErrRefreshMismatch \<equiv> HErr ''refresh mismatch''"
abbreviation HErrUserGone :: hr_error where "HErrUserGone \<equiv> HErr ''user gone''"
abbreviation HErrRefreshFailed :: hr_error where "HErrRefreshFailed \<equiv> HErr ''refresh failed''"
abbreviation HErrNoToken :: hr_error where "HErrNoToken \<equiv> HErr ''no token''"
abbreviation HErrTokenInvalid :: hr_error where "HErrTokenInvalid \<equiv> HErr ''token invalid''"
abbreviation HErrLogout :: hr_error where "HErrLogout \<equiv> HErr ''logout''"
abbreviation HErrSessionGone :: hr_error where "HErrSessionGone \<equiv> HErr ''session gone''"
abbreviation HErrSessionMismatch :: hr_error where "HErrSessionMismatch \<equiv> HErr ''session mismatch''"
abbreviation HErrUsernameChanged :: hr_error where "HErrUsernameChanged \<equiv> HErr ''username changed''"
abbreviation HErrActivate :: hr_error where "HErrActivate \<equiv> HErr ''activate''"
abbreviation HErrDisabled :: hr_error where "HErrDisabled \<equiv> HErr ''disabled''"
abbreviation HErrNoOwner :: hr_error where "HErrNoOwner \<equiv> HErr ''no owner''"
abbreviation HErrNoTokenName :: hr_error where "HErrNoTokenName \<equiv> HErr ''no token name''"
abbreviation HErrSignToken :: hr_error where "HErrSignToken \<equiv> HErr ''sign token''"
abbreviation HErrTokenNotFound :: hr_error where "HErrTokenNotFound \<equiv> HErr ''token not found''"
abbreviation HErrTokenRevoked :: hr_error where "HErrTokenRevoked \<equiv> HErr ''token revoked''"
abbreviation HErrTokenExpired :: hr_error where "HErrTokenExpired \<equiv> HErr ''token expired''"
abbreviation HErrOwnerMismatch :: hr_error where "HErrOwnerMismatch \<equiv> HErr ''owner mismatch''"

type_synonym 'a hr = "(hr_db, hr_error, 'a) act"

abbreviation StatusActive :: gostr where "StatusActive \<equiv> ''active''"

definition dept_live :: "dept_row \<Rightarrow> bool" where "dept_live r \<longleftrightarrow> dp_deleted_at r = None"
definition user_live :: "user_row \<Rightarrow> bool" where "user_live r \<longleftrightarrow> us_deleted_at r = None"
definition session_live :: "session_row \<Rightarrow> bool" where "session_live r \<longleftrightarrow> ss_deleted_at r = None"
definition token_live :: "api_token_row \<Rightarrow> bool" where "token_live r \<longleftrightarrow> ot_deleted_at r = None"

definition found_row :: "'r option \<Rightarrow> 'r hr" where
  "found_row r = (case r of None \<Rightarrow> fail HErrNotFound | Some x \<Rightarrow> ret x)"

text \<open>\<open>%w\<close>: an error of the action is wrapped; the end of the fuel is no error of the code.\<close>

definition wrapping :: "(hr_error \<Rightarrow> hr_error) \<Rightarrow> 'a hr \<Rightarrow> 'a hr" where
  "wrapping f m = (\<lambda>w. case m w of (Inl e, w') \<Rightarrow> (Inl (if e = HOutOfFuel then e else f e), w') | (Inr a, w') \<Rightarrow> (Inr a, w'))"

section \<open>Departments\<close>

definition dept_clash :: "dept_row \<Rightarrow> dept_row \<Rightarrow> bool" where
  "dept_clash r x \<longleftrightarrow> dp_code x = dp_code r \<or> dp_code_path x = dp_code_path r"

definition DeptCreate :: "dept_row \<Rightarrow> dept_row hr" where
  "DeptCreate r =
     andThen (next_id ''department'') (\<lambda>i.
       let row = r\<lparr>dp_id := i\<rparr> in
       stmt HErrDB (\<lambda>s.
         if list_ex (dept_clash row) (depts s) then (Inl HErrDuplicate, s)
         else (Inr row, s\<lparr>depts := depts s @ [row]\<rparr>)))"

definition DeptGetByID :: "int \<Rightarrow> dept_row hr" where
  "DeptGetByID i = andThen (query HErrDB (\<lambda>s. first_row (\<lambda>r. dept_live r \<and> dp_id r = i) (depts s))) found_row"

definition DeptGetByCode :: "gostr \<Rightarrow> dept_row hr" where
  "DeptGetByCode code =
     andThen (query HErrDB (\<lambda>s. first_row (\<lambda>r. dept_live r \<and> dp_code r = code) (depts s))) found_row"

definition DeptGetByPath :: "gostr \<Rightarrow> dept_row hr" where
  "DeptGetByPath path =
     andThen (query HErrDB (\<lambda>s. first_row (\<lambda>r. dept_live r \<and> dp_code_path r = path) (depts s))) found_row"

definition GetAllDepartments :: "dept_row list hr" where
  "GetAllDepartments = query HErrDB (\<lambda>s. order2 dp_sort dp_id (sel dept_live (depts s)))"

definition children_of :: "int option \<Rightarrow> dept_row list \<Rightarrow> dept_row list" where
  "children_of p rows = order2 dp_sort dp_id (sel (\<lambda>r. dept_live r \<and> dp_parent r = p) rows)"

definition GetDepartmentsByParentID :: "int option \<Rightarrow> dept_row list hr" where
  "GetDepartmentsByParentID p = query HErrDB (\<lambda>s. children_of p (depts s))"

text \<open>\<open>Save\<close> of a row read earlier; the code and the path never change.\<close>

definition DeptSave :: "dept_row \<Rightarrow> unit hr" where
  "DeptSave r = modify HErrDB (\<lambda>s. ((), s\<lparr>depts := upd (\<lambda>x. dept_live x \<and> dp_id x = dp_id r) (\<lambda>_. r) (depts s)\<rparr>))"

definition DeptDelete :: "int \<Rightarrow> unit hr" where
  "DeptDelete i = andThen now (\<lambda>t. modify HErrDB (\<lambda>s. ((),
     s\<lparr>depts := upd (\<lambda>x. dept_live x \<and> dp_id x = i) (\<lambda>x. x\<lparr>dp_deleted_at := Some t\<rparr>) (depts s)\<rparr>)))"

text \<open>The tree of departments. The recursion follows the parent links; the fuel bounds its depth.\<close>

datatype dept_tree = DeptNode dept_row "dept_tree list"

primrec map_act :: "('x \<Rightarrow> ('s, 'e, 'y) act) \<Rightarrow> 'x list \<Rightarrow> ('s, 'e, 'y list) act" where
  "map_act f [] = ret []"
| "map_act f (x # xs) = andThen (f x) (\<lambda>y. andThen (map_act f xs) (\<lambda>ys. ret (y # ys)))"

primrec loadChildren :: "nat \<Rightarrow> dept_row \<Rightarrow> dept_tree hr" where
  "loadChildren 0 = (\<lambda>d. fail HOutOfFuel)"
| "loadChildren (Suc n) = (\<lambda>d.
     andThen (GetDepartmentsByParentID (Some (dp_id d))) (\<lambda>ds.
     andThen (map_act (loadChildren n) ds) (\<lambda>ts. ret (DeptNode d ts))))"

definition RepoDepartmentTree :: "nat \<Rightarrow> dept_tree list hr" where
  "RepoDepartmentTree fuel =
     andThen (GetDepartmentsByParentID None) (map_act (loadChildren fuel))"

section \<open>Users\<close>

definition UserGetByID :: "int \<Rightarrow> user_row hr" where
  "UserGetByID i = andThen (query HErrDB (\<lambda>s. first_row (\<lambda>r. user_live r \<and> us_id r = i) (users s))) found_row"

definition UserGetByUsername :: "gostr \<Rightarrow> user_row hr" where
  "UserGetByUsername name =
     andThen (query HErrDB (\<lambda>s. first_row (\<lambda>r. user_live r \<and> us_username r = name) (users s))) found_row"

definition UserGetByEmail :: "gostr \<Rightarrow> user_row hr" where
  "UserGetByEmail email =
     andThen (query HErrDB (\<lambda>s. first_row (\<lambda>r. user_live r \<and> us_email r = email) (users s))) found_row"

definition CountUsers :: "nat hr" where
  "CountUsers = query HErrDB (\<lambda>s. hits user_live (users s))"

definition UserGetByThirdPartyID :: "gostr \<Rightarrow> gostr \<Rightarrow> user_row hr" where
  "UserGetByThirdPartyID third_party register_type =
     andThen (query HErrDB (\<lambda>s. first_row (\<lambda>r. user_live r \<and> us_third_party_id r = third_party \<and>
       us_register_type r = register_type) (users s))) found_row"

definition UserGetByEmailAndRegisterType :: "gostr \<Rightarrow> gostr \<Rightarrow> user_row hr" where
  "UserGetByEmailAndRegisterType email register_type =
     andThen (query HErrDB (\<lambda>s. first_row (\<lambda>r. user_live r \<and> us_email r = email \<and>
       us_register_type r = register_type) (users s))) found_row"

definition UserCreate :: "user_row \<Rightarrow> user_row hr" where
  "UserCreate r =
     andThen (next_id ''user'') (\<lambda>i. andThen now (\<lambda>t.
       let row = r\<lparr>us_id := i, us_created_at := t\<rparr> in
       stmt HErrDB (\<lambda>s.
         if list_ex (\<lambda>x. us_username x = us_username row) (users s) then (Inl HErrDuplicate, s)
         else (Inr row, s\<lparr>users := users s @ [row]\<rparr>))))"

text \<open>\<open>Save\<close>: every column of the live row becomes the one read earlier and changed since.\<close>

definition UserSave :: "user_row \<Rightarrow> unit hr" where
  "UserSave r = modify HErrDB (\<lambda>s. ((), s\<lparr>users := upd (\<lambda>x. user_live x \<and> us_id x = us_id r) (\<lambda>_. r) (users s)\<rparr>))"

definition DeleteUser :: "int \<Rightarrow> unit hr" where
  "DeleteUser i = andThen now (\<lambda>t. modify HErrDB (\<lambda>s. ((),
     s\<lparr>users := upd (\<lambda>x. user_live x \<and> us_id x = i) (\<lambda>x. x\<lparr>us_deleted_at := Some t\<rparr>) (users s)\<rparr>)))"

definition RepoSearchUsersFuzzy :: "gostr \<Rightarrow> int \<Rightarrow> user_row list hr" where
  "RepoSearchUsersFuzzy keyword limit =
     (let like = CHR ''%'' # keyword @ ''%'' in
      query HErrDB (\<lambda>s. limit_rows limit (sel (\<lambda>r. user_live r \<and>
        (sql_like like (us_username r) \<or> sql_like like (us_email r) \<or> sql_like like (us_nickname r))) (users s))))"

definition system_user_matches :: "gostr \<Rightarrow> gostr \<Rightarrow> gostr \<Rightarrow> user_row \<Rightarrow> bool" where
  "system_user_matches keyword status register_type r \<longleftrightarrow>
     user_live r \<and>
     (keyword \<noteq> [] \<longrightarrow> (let like = CHR ''%'' # keyword @ ''%'' in
        sql_like like (to_lower (us_username r)) \<or> sql_like like (to_lower (us_email r)) \<or>
        sql_like like (to_lower (us_nickname r)))) \<and>
     (status \<noteq> [] \<longrightarrow> us_status r = status) \<and>
     (register_type \<noteq> [] \<longrightarrow> us_register_type r = register_type)"

definition RepoListUsersForSystem ::
  "gostr \<Rightarrow> gostr \<Rightarrow> gostr \<Rightarrow> int \<Rightarrow> int \<Rightarrow> (user_row list \<times> nat) hr" where
  "RepoListUsersForSystem keyword status register_type page page_size =
     (let P = system_user_matches (to_lower (trim_space keyword)) (trim_space status)
                (trim_space register_type) in
      andThen (query HErrDB (\<lambda>s. hits P (users s))) (\<lambda>total.
      if total = 0 then ret ([], 0)
      else
        let page = (if page \<le> 0 then 1 else page);
            page_size = (if page_size \<le> 0 then 20 else page_size) in
        andThen (query HErrDB (\<lambda>s. limit_rows page_size (offset_rows ((page - 1) * page_size)
          (order2 (\<lambda>r. - us_created_at r) (\<lambda>r. - us_id r) (sel P (users s)))))) (\<lambda>rows.
        ret (rows, total))))"

definition RepoGetUsersByUsernames :: "gostr list \<Rightarrow> user_row list hr" where
  "RepoGetUsersByUsernames names =
     (if names = [] then ret []
      else query HErrDB (\<lambda>s. sel (\<lambda>r. user_live r \<and> us_username r \<in> set names) (users s)))"

definition CountUsersByDepartmentFullPath :: "gostr \<Rightarrow> nat hr" where
  "CountUsersByDepartmentFullPath path =
     query HErrDB (\<lambda>s. hits (\<lambda>r. user_live r \<and> us_department r = path) (users s))"

definition RepoUsersByDepartmentFullPath :: "gostr \<Rightarrow> user_row list hr" where
  "RepoUsersByDepartmentFullPath path =
     query HErrDB (\<lambda>s. sel (\<lambda>r. user_live r \<and> us_department r = path) (users s))"

section \<open>Sessions\<close>

definition session_clash :: "session_row \<Rightarrow> session_row \<Rightarrow> bool" where
  "session_clash r x \<longleftrightarrow> ss_token x = ss_token r \<or> ss_refresh_token x = ss_refresh_token r"

text \<open>The column \<open>is_active\<close> has the default true, which a zero value leaves in place.\<close>

definition CreateUserSession :: "int \<Rightarrow> gostr \<Rightarrow> gostr \<Rightarrow> int \<Rightarrow> gostr \<Rightarrow> gostr \<Rightarrow> unit hr" where
  "CreateUserSession user_id token refresh expires_at agent ip =
     andThen (next_id ''user_session'') (\<lambda>i.
       let row = \<lparr>ss_id = i, ss_deleted_at = None, ss_user_id = user_id, ss_token = token,
                  ss_refresh_token = refresh, ss_expires_at = expires_at, ss_user_agent = agent,
                  ss_ip = ip, ss_active = True\<rparr> in
       stmt HErrDB (\<lambda>s.
         if list_ex (session_clash row) (sessions s) then (Inl HErrDuplicate, s)
         else (Inr (), s\<lparr>sessions := sessions s @ [row]\<rparr>)))"

definition session_open :: "int \<Rightarrow> session_row \<Rightarrow> bool" where
  "session_open t r \<longleftrightarrow> session_live r \<and> ss_active r \<and> ss_expires_at r > t"

definition GetUserSessionByToken :: "gostr \<Rightarrow> session_row hr" where
  "GetUserSessionByToken token = andThen now (\<lambda>t.
     andThen (query HErrDB (\<lambda>s. first_row (\<lambda>r. session_open t r \<and> ss_token r = token) (sessions s))) found_row)"

definition GetUserSessionByRefreshToken :: "gostr \<Rightarrow> session_row hr" where
  "GetUserSessionByRefreshToken refresh = andThen now (\<lambda>t.
     andThen (query HErrDB (\<lambda>s. first_row (\<lambda>r. session_open t r \<and> ss_refresh_token r = refresh) (sessions s)))
       found_row)"

definition deactivate :: "(session_row \<Rightarrow> bool) \<Rightarrow> nat hr" where
  "deactivate P = modify HErrDB (\<lambda>s.
     let Q = (\<lambda>r. session_live r \<and> P r) in
     (hits Q (sessions s), s\<lparr>sessions := upd Q (\<lambda>r. r\<lparr>ss_active := False\<rparr>) (sessions s)\<rparr>))"

definition DeactivateUserSession :: "gostr \<Rightarrow> unit hr" where
  "DeactivateUserSession token =
     andThen (deactivate (\<lambda>r. ss_token r = token \<and> ss_active r)) (\<lambda>n.
       if n = 0 then fail HErrNotFound else ret ())"

definition DeactivateAllUserSessions :: "int \<Rightarrow> unit hr" where
  "DeactivateAllUserSessions user_id =
     andThen (deactivate (\<lambda>r. ss_user_id r = user_id)) (\<lambda>_. ret ())"

definition DeleteExpiredSessions :: "unit hr" where
  "DeleteExpiredSessions = andThen now (\<lambda>t. modify HErrDB (\<lambda>s. ((),
     s\<lparr>sessions := upd (\<lambda>r. session_live r \<and> ss_expires_at r < t) (\<lambda>r. r\<lparr>ss_deleted_at := Some t\<rparr>)
                   (sessions s)\<rparr>)))"

definition UpdateUserSessionTokens :: "int \<Rightarrow> gostr \<Rightarrow> gostr \<Rightarrow> unit hr" where
  "UpdateUserSessionTokens i token refresh =
     stmt HErrDB (\<lambda>s.
       if list_ex (\<lambda>r. session_live r \<and> ss_id r = i) (sessions s) \<and>
          list_ex (\<lambda>x. \<not> (session_live x \<and> ss_id x = i) \<and> (ss_token x = token \<or> ss_refresh_token x = refresh))
            (sessions s)
       then (Inl HErrDuplicate, s)
       else (Inr (), s\<lparr>sessions := upd (\<lambda>r. session_live r \<and> ss_id r = i)
               (\<lambda>r. r\<lparr>ss_token := token, ss_refresh_token := refresh\<rparr>) (sessions s)\<rparr>))"

definition GetUserSessionByID :: "int \<Rightarrow> session_row hr" where
  "GetUserSessionByID i =
     andThen (query HErrDB (\<lambda>s. first_row (\<lambda>r. session_live r \<and> ss_id r = i) (sessions s))) found_row"

definition GetUserSessionsByUserID :: "int \<Rightarrow> session_row list hr" where
  "GetUserSessionsByUserID user_id =
     query HErrDB (\<lambda>s. sel (\<lambda>r. session_live r \<and> ss_user_id r = user_id) (sessions s))"

definition GetActiveSessionsByUserID :: "int \<Rightarrow> session_row list hr" where
  "GetActiveSessionsByUserID user_id = andThen now (\<lambda>t.
     query HErrDB (\<lambda>s. sel (\<lambda>r. session_open t r \<and> ss_user_id r = user_id) (sessions s)))"

text \<open>Issuing a session locks and checks the account in the same transaction.\<close>

definition CreateActiveUserSession :: "int \<Rightarrow> gostr \<Rightarrow> gostr \<Rightarrow> int \<Rightarrow> unit hr" where
  "CreateActiveUserSession user_id token refresh expires_at =
     tx HErrDB (andThen (UserGetByID user_id) (\<lambda>u.
       if us_status u \<noteq> StatusActive then fail HErrDisabled
       else CreateUserSession user_id token refresh expires_at [] []))"

section \<open>Account state\<close>

text \<open>
  \<open>ChangeUserStatus\<close>: the state of the account and the revocation of its credentials in one
  transaction. The answer has the sessions and tokens to tell the gateway about, also those
  revoked before.
\<close>

definition revoke_tokens :: "(api_token_row \<Rightarrow> bool) \<Rightarrow> int \<Rightarrow> nat hr" where
  "revoke_tokens P t = modify HErrDB (\<lambda>s.
     let Q = (\<lambda>r. token_live r \<and> P r \<and> ot_revoked_at r = None) in
     (hits Q (api_tokens s), s\<lparr>api_tokens := upd Q (\<lambda>r. r\<lparr>ot_revoked_at := Some t\<rparr>) (api_tokens s)\<rparr>))"

definition freeze_account ::
  "user_row \<Rightarrow> gostr \<Rightarrow> (session_row list \<times> api_token_row list) hr" where
  "freeze_account u username = andThen now (\<lambda>t.
     andThen (query HErrDB (\<lambda>s. sel (\<lambda>r. session_live r \<and> ss_user_id r = us_id u \<and> ss_expires_at r > t)
       (sessions s))) (\<lambda>open_sessions.
     andThen (deactivate (\<lambda>r. ss_user_id r = us_id u)) (\<lambda>_.
     andThen (query HErrDB (\<lambda>s. sel (\<lambda>r. token_live r \<and> ot_owner r = username) (api_tokens s))) (\<lambda>owned.
     andThen (revoke_tokens (\<lambda>r. ot_owner r = username) t) (\<lambda>_. ret (open_sessions, owned))))))"

definition set_user_status :: "user_row \<Rightarrow> gostr \<Rightarrow> unit hr" where
  "set_user_status u status = modify HErrDB (\<lambda>s. ((),
     s\<lparr>users := upd (\<lambda>x. user_live x \<and> us_id x = us_id u)
       (\<lambda>x. let x = x\<lparr>us_status := status\<rparr> in
             if status = StatusActive then x\<lparr>us_email_verified := True\<rparr> else x) (users s)\<rparr>))"

definition add_status_event :: "status_event \<Rightarrow> unit hr" where
  "add_status_event e = modify HErrDB (\<lambda>s. ((), s\<lparr>status_events := status_events s @ [e]\<rparr>))"

definition ChangeUserStatus ::
  "gostr \<Rightarrow> gostr \<Rightarrow> gostr \<Rightarrow> gostr \<Rightarrow> (user_row \<times> session_row list \<times> api_token_row list) hr" where
  "ChangeUserStatus username status actor reason =
     tx HErrDB (andThen (UserGetByUsername username) (\<lambda>u.
       andThen (if status \<noteq> StatusActive then freeze_account u username else ret ([], [])) (\<lambda>(ss, ts).
       andThen (set_user_status u status) (\<lambda>_.
       andThen (add_status_event \<lparr>sv_username = username, sv_actor = actor, sv_previous = us_status u,
         sv_status = status, sv_reason = reason\<rparr>) (\<lambda>_.
       ret ((let u = u\<lparr>us_status := status\<rparr> in
             if status = StatusActive then u\<lparr>us_email_verified := True\<rparr> else u), ss, ts))))))"

end
