(* ===== verification/HrDepartments.thy ===== *)
theory HrDepartments
  imports HrStore
begin

text \<open>
  The organisation tree (\<open>core/hr-server/service/department_service.go\<close>,
  \<open>core/hr-server/model/department.go\<close>): the department cache, the default departments, creating,
  renaming and deleting departments and keeping the paths of names. The loops that follow parent
  links carry fuel, whose end is the error \<open>HOutOfFuel\<close>; it is not swallowed where the code only
  logs an error.
\<close>

section \<open>The model's methods\<close>

definition DeptIsActive :: "dept_row \<Rightarrow> bool" where
  "DeptIsActive d \<longleftrightarrow> dp_status d = StatusActive"

definition DeptIsRoot :: "dept_row \<Rightarrow> bool" where
  "DeptIsRoot d \<longleftrightarrow> dp_parent d = None"

definition GetManagersList :: "dept_row \<Rightarrow> gostr list" where
  "GetManagersList d =
     (if dp_managers d = [] then []
      else filter (\<lambda>m. m \<noteq> []) (map trim_space (split_on (CHR '','') (dp_managers d))))"

definition SetManagersList :: "gostr list \<Rightarrow> dept_row \<Rightarrow> dept_row" where
  "SetManagersList managers d =
     d\<lparr>dp_managers := (if managers = [] then [] else join_with '','' managers)\<rparr>"

section \<open>The cache\<close>

definition InvalidateDepartmentCache :: "unit hr" where
  "InvalidateDepartmentCache = (\<lambda>w. (Inr (), w\<lparr>store := (store w)\<lparr>dept_cache := None\<rparr>\<rparr>))"

definition cache_departments :: "dept_row list \<Rightarrow> (gostr \<times> dept_row) list" where
  "cache_departments rows = fold (\<lambda>d. AList.update (dp_code_path d) d) rows []"

text \<open>The cache after \<open>loadDepartmentCache\<close>.\<close>

definition loadDepartmentCache :: "(gostr \<times> dept_row) list hr" where
  "loadDepartmentCache = (\<lambda>w. case dept_cache (store w) of
       Some c \<Rightarrow> (Inr c, w)
     | None \<Rightarrow> andThen (wrapping HErrLoadCache GetAllDepartments) (\<lambda>rows.
         (\<lambda>w. (Inr (cache_departments rows),
                w\<lparr>store := (store w)\<lparr>dept_cache := Some (cache_departments rows)\<rparr>\<rparr>))) w)"

definition GetDepartmentByFullCodePath :: "gostr \<Rightarrow> dept_row hr" where
  "GetDepartmentByFullCodePath path =
     andThen loadDepartmentCache (\<lambda>c.
       case map_of c path of None \<Rightarrow> fail (HErrDeptUnknown path) | Some d \<Rightarrow> ret d)"

definition GetDepartmentsByFullCodePaths :: "gostr list \<Rightarrow> (gostr \<times> dept_row) list hr" where
  "GetDepartmentsByFullCodePaths paths =
     andThen loadDepartmentCache (\<lambda>c.
       ret (fold (\<lambda>p acc. if p = [] then acc
                          else case map_of c p of None \<Rightarrow> acc | Some d \<Rightarrow> AList.update p d acc) paths []))"

section \<open>Paths\<close>

definition buildFullCodePath :: "gostr \<Rightarrow> int \<Rightarrow> gostr hr" where
  "buildFullCodePath code parent_id =
     (if parent_id = 0 then ret (slash # code)
      else andThen (wrapping HErrNoParent (DeptGetByID parent_id)) (\<lambda>p.
        ret (dp_code_path p @ slash # code)))"

text \<open>A parent without a path of names, of old data, has it computed from its own parent.\<close>

primrec buildFullNamePath :: "nat \<Rightarrow> gostr \<Rightarrow> int \<Rightarrow> gostr hr" where
  "buildFullNamePath 0 = (\<lambda>name parent_id. fail HOutOfFuel)"
| "buildFullNamePath (Suc n) = (\<lambda>name parent_id.
     if parent_id = 0 then ret name
     else andThen (wrapping HErrNoParent (DeptGetByID parent_id)) (\<lambda>p.
       if dp_name_path p \<noteq> [] then ret (dp_name_path p @ slash # name)
       else andThen (buildFullNamePath n (dp_name p) (case dp_parent p of None \<Rightarrow> 0 | Some i \<Rightarrow> i)) (\<lambda>pp.
         ret (pp @ slash # name))))"

text \<open>An error that is logged only.\<close>

definition logged :: "unit hr \<Rightarrow> unit hr" where
  "logged m = andThen (attempt m) (\<lambda>r. case r of
     Inl e \<Rightarrow> if e = HOutOfFuel then fail HOutOfFuel else ret ()
   | Inr _ \<Rightarrow> ret ())"

primrec updateChildrenFullNamePath :: "nat \<Rightarrow> nat \<Rightarrow> dept_row \<Rightarrow> unit hr" where
  "updateChildrenFullNamePath 0 = (\<lambda>fuel parent. fail HOutOfFuel)"
| "updateChildrenFullNamePath (Suc n) = (\<lambda>fuel parent.
     andThen (wrapping HErrQueryChildren (GetDepartmentsByParentID (Some (dp_id parent))))
       (for_each (\<lambda>child. logged
         (andThen (buildFullNamePath fuel (dp_name child) (dp_id parent)) (\<lambda>path.
          let child = child\<lparr>dp_name_path := path\<rparr> in
          andThen (DeptSave child) (\<lambda>_. logged (updateChildrenFullNamePath n fuel child)))))))"

section \<open>The default departments\<close>

text \<open>Their names, in UTF-8.\<close>

definition root_name :: gostr where
  "root_name =
     [CHR 0xE9, CHR 0xBB, CHR 0x98, CHR 0xE8, CHR 0xAE, CHR 0xA4, CHR 0xE7, CHR 0xBB, CHR 0x84, CHR
      0xE7, CHR 0xBB, CHR 0x87]"

definition root_text :: gostr where
  "root_text =
     [CHR 0xE7, CHR 0xB3, CHR 0xBB, CHR 0xE7, CHR 0xBB, CHR 0x9F, CHR 0xE9, CHR 0xBB, CHR 0x98, CHR
      0xE8, CHR 0xAE, CHR 0xA4, CHR 0xE6, CHR 0xA0, CHR 0xB9, CHR 0xE7, CHR 0xBB, CHR 0x84, CHR
      0xE7, CHR 0xBB, CHR 0x87]"

definition unassigned_name :: gostr where
  "unassigned_name =
     [CHR 0xE6, CHR 0x9C, CHR 0xAA, CHR 0xE5, CHR 0x88, CHR 0x86, CHR 0xE9, CHR 0x85, CHR 0x8D]"

definition unassigned_text :: gostr where
  "unassigned_text =
     [CHR 0xE6, CHR 0x9C, CHR 0xAA, CHR 0xE5, CHR 0x88, CHR 0x86, CHR 0xE9, CHR 0x85, CHR 0x8D, CHR
      0xE7, CHR 0x94, CHR 0xA8, CHR 0xE6, CHR 0x88, CHR 0xB7, CHR 0xE7, CHR 0x9A, CHR 0x84, CHR
      0xE9, CHR 0xBB, CHR 0x98, CHR 0xE8, CHR 0xAE, CHR 0xA4, CHR 0xE7, CHR 0xBB, CHR 0x84, CHR
      0xE7, CHR 0xBB, CHR 0x87]"

definition virtual_name :: gostr where
  "virtual_name =
     [CHR 0xE8, CHR 0x99, CHR 0x9A, CHR 0xE6, CHR 0x8B, CHR 0x9F, CHR 0xE7, CHR 0xBB, CHR 0x84, CHR
      0xE7, CHR 0xBB, CHR 0x87]"

definition virtual_text :: gostr where
  "virtual_text =
     [CHR 0xE8, CHR 0x99, CHR 0x9A, CHR 0xE6, CHR 0x8B, CHR 0x9F, CHR 0x2F, CHR 0xE6, CHR 0xB5, CHR
      0x8B, CHR 0xE8, CHR 0xAF, CHR 0x95, CHR 0xE7, CHR 0x94, CHR 0xA8, CHR 0xE7, CHR 0xBB, CHR
      0x84, CHR 0xE7, CHR 0xBB, CHR 0x87]"

definition testers_name :: gostr where
  "testers_name =
     [CHR 0xE6, CHR 0xB5, CHR 0x8B, CHR 0xE8, CHR 0xAF, CHR 0x95, CHR 0xE7, CHR 0xBB, CHR 0x84]"

definition testers_text :: gostr where
  "testers_text =
     [CHR 0xE6, CHR 0xB5, CHR 0x8B, CHR 0xE8, CHR 0xAF, CHR 0x95, CHR 0xE7, CHR 0x94, CHR 0xA8, CHR
      0xE6, CHR 0x88, CHR 0xB7, CHR 0xE9, CHR 0xBB, CHR 0x98, CHR 0xE8, CHR 0xAE, CHR 0xA4, CHR
      0xE5, CHR 0xBD, CHR 0x92, CHR 0xE5, CHR 0xB1, CHR 0x9E]"

definition default_dept ::
  "gostr \<Rightarrow> gostr \<Rightarrow> int option \<Rightarrow> gostr \<Rightarrow> gostr \<Rightarrow> gostr \<Rightarrow> int \<Rightarrow> dept_row" where
  "default_dept name code parent path name_path description sort_no =
     \<lparr>dp_id = 0, dp_deleted_at = None, dp_name = name, dp_code = code, dp_parent = parent,
      dp_code_path = path, dp_name_path = name_path, dp_managers = [], dp_description = description,
      dp_status = StatusActive, dp_sort = sort_no, dp_default = True\<rparr>"

definition GetUnassignedDepartmentPath :: gostr where
  "GetUnassignedDepartmentPath = ''/org/unassigned''"

definition VirtualTestDepartmentPath :: gostr where
  "VirtualTestDepartmentPath = ''/org/virtual/test''"

definition createUnassignedDepartment :: "int \<Rightarrow> unit hr" where
  "createUnassignedDepartment root_id =
     andThen (attempt (DeptGetByCode ''unassigned'')) (\<lambda>r. case r of
       Inr d \<Rightarrow> if dp_default d then ret ()
                else andThen (attempt (DeptSave (d\<lparr>dp_default := True\<rparr>))) (\<lambda>_. ret ())
     | Inl _ \<Rightarrow>
         andThen (wrapping HErrRoot (DeptGetByID root_id)) (\<lambda>root.
         andThen (wrapping HErrCreateDefault (DeptCreate (default_dept unassigned_name ''unassigned''
           (Some root_id) ''/org/unassigned'' (dp_name_path root @ slash # unassigned_name)
           unassigned_text 0))) (\<lambda>_. ret ())))"

definition createVirtualTestDepartment :: "int \<Rightarrow> unit hr" where
  "createVirtualTestDepartment root_id =
     andThen (wrapping HErrRoot (DeptGetByID root_id)) (\<lambda>root.
     andThen (attempt (DeptGetByPath ''/org/virtual'')) (\<lambda>r.
     andThen (case r of Inr d \<Rightarrow> ret d
       | Inl _ \<Rightarrow> wrapping HErrCreateDefault (DeptCreate (default_dept virtual_name ''virtual''
           (Some root_id) ''/org/virtual'' (dp_name_path root @ slash # virtual_name) virtual_text 10))) (\<lambda>virtual.
     andThen (attempt (DeptGetByPath ''/org/virtual/test'')) (\<lambda>r. case r of
       Inr _ \<Rightarrow> ret ()
     | Inl _ \<Rightarrow> andThen (wrapping HErrCreateDefault (DeptCreate (default_dept testers_name ''test''
           (Some (dp_id virtual)) ''/org/virtual/test'' (dp_name_path virtual @ slash # testers_name)
           testers_text 0))) (\<lambda>_. ret ())))))"

definition InitDefaultDepartments :: "unit hr" where
  "InitDefaultDepartments =
     andThen (attempt (DeptGetByCode ''org'')) (\<lambda>r. case r of
       Inr root \<Rightarrow>
         andThen (attempt (DeptGetByCode ''unassigned'')) (\<lambda>r.
         andThen (case r of Inr _ \<Rightarrow> ret () | Inl _ \<Rightarrow> createUnassignedDepartment (dp_id root)) (\<lambda>_.
         andThen (createVirtualTestDepartment (dp_id root)) (\<lambda>_. InvalidateDepartmentCache)))
     | Inl _ \<Rightarrow>
         andThen (wrapping HErrCreateRoot (DeptCreate
           (default_dept root_name ''org'' None ''/org'' root_name root_text 0))) (\<lambda>root.
         andThen (createUnassignedDepartment (dp_id root)) (\<lambda>_.
         andThen (createVirtualTestDepartment (dp_id root)) (\<lambda>_. InvalidateDepartmentCache))))"

section \<open>Creating, updating and deleting\<close>

definition new_dept ::
  "gostr \<Rightarrow> gostr \<Rightarrow> int \<Rightarrow> gostr \<Rightarrow> gostr \<Rightarrow> gostr \<Rightarrow> gostr \<Rightarrow> dept_row" where
  "new_dept name code parent_id path name_path description managers =
     \<lparr>dp_id = 0, dp_deleted_at = None, dp_name = name, dp_code = code,
      dp_parent = (if parent_id \<noteq> 0 then Some parent_id else None), dp_code_path = path,
      dp_name_path = name_path, dp_managers = managers, dp_description = description,
      dp_status = StatusActive, dp_sort = 0, dp_default = False\<rparr>"

definition CreateDepartment ::
  "nat \<Rightarrow> gostr \<Rightarrow> gostr \<Rightarrow> int \<Rightarrow> gostr \<Rightarrow> gostr \<Rightarrow> dept_row hr" where
  "CreateDepartment fuel name code parent_id description managers =
     andThen (wrapping HErrBuildPath (buildFullCodePath code parent_id)) (\<lambda>path.
     andThen (attempt (DeptGetByCode code)) (\<lambda>existing. case existing of
       Inr _ \<Rightarrow> fail (HErrCodeTaken code)
     | Inl _ \<Rightarrow>
         andThen (wrapping HErrBuildName (buildFullNamePath fuel name parent_id)) (\<lambda>name_path.
         andThen (wrapping HErrCreateDept (DeptCreate
           (new_dept name code parent_id path name_path description managers))) (\<lambda>d.
         andThen (logged (updateChildrenFullNamePath fuel fuel d)) (\<lambda>_.
         andThen InvalidateDepartmentCache (\<lambda>_. ret d))))))"

text \<open>The columns of the request that are given.\<close>

definition updated_dept :: "gostr \<Rightarrow> gostr \<Rightarrow> gostr \<Rightarrow> gostr \<Rightarrow> int \<Rightarrow> dept_row \<Rightarrow> dept_row" where
  "updated_dept name description managers status sort_no d =
     (let d = (if name \<noteq> [] \<and> name \<noteq> dp_name d then d\<lparr>dp_name := name\<rparr> else d);
          d = (if description \<noteq> [] then d\<lparr>dp_description := description\<rparr> else d);
          d = (if managers \<noteq> [] then d\<lparr>dp_managers := managers\<rparr> else d);
          d = (if status \<noteq> [] then d\<lparr>dp_status := status\<rparr> else d) in
      if sort_no \<ge> 0 then d\<lparr>dp_sort := sort_no\<rparr> else d)"

definition UpdateDepartment ::
  "nat \<Rightarrow> int \<Rightarrow> gostr \<Rightarrow> gostr \<Rightarrow> gostr \<Rightarrow> gostr \<Rightarrow> int \<Rightarrow> dept_row hr" where
  "UpdateDepartment fuel i name description managers status sort_no =
     andThen (wrapping HErrNoDept (DeptGetByID i)) (\<lambda>d.
     let renamed = (name \<noteq> [] \<and> name \<noteq> dp_name d);
         d = updated_dept name description managers status sort_no d in
     andThen (if renamed
              then andThen (wrapping HErrBuildName (buildFullNamePath fuel (dp_name d)
                     (case dp_parent d of None \<Rightarrow> 0 | Some p \<Rightarrow> p))) (\<lambda>path. ret (d\<lparr>dp_name_path := path\<rparr>))
              else ret d) (\<lambda>d.
     andThen (wrapping HErrUpdateDept (DeptSave d)) (\<lambda>_.
     andThen InvalidateDepartmentCache (\<lambda>_.
     andThen (if renamed then logged (updateChildrenFullNamePath fuel fuel d) else ret ()) (\<lambda>_. ret d)))))"

definition GetDepartmentByID :: "int \<Rightarrow> dept_row hr" where
  "GetDepartmentByID i = DeptGetByID i"

definition GetDepartmentTree :: "nat \<Rightarrow> dept_tree list hr" where
  "GetDepartmentTree fuel = RepoDepartmentTree fuel"

definition DeleteDepartment :: "int \<Rightarrow> unit hr" where
  "DeleteDepartment i =
     andThen (wrapping HErrNoDept (DeptGetByID i)) (\<lambda>d.
     if dp_default d then fail HErrSystemDefault
     else
       andThen (wrapping HErrQueryChildren (GetDepartmentsByParentID (Some i))) (\<lambda>children.
       if children \<noteq> [] then fail HErrHasChildren
       else
         andThen (wrapping HErrQueryUsers (CountUsersByDepartmentFullPath (dp_code_path d))) (\<lambda>n.
         if n > 0 then fail HErrHasUsers
         else andThen (DeptDelete i) (\<lambda>_. InvalidateDepartmentCache))))"

end
