(* ===== verification/HrUsers.thy ===== *)
theory HrUsers
  imports HrDepartments JwtTokens
begin

text \<open>
  Users (\<open>core/hr-server/service/user_code.go\<close>, \<open>user_service.go\<close>): user codes, creating and
  changing accounts, passwords, states and places in the organisation, and the withdrawal of the
  sessions a change invalidates (\<open>nats_service.go\<close> tells the gateway). Password hashing and the
  delivery of a message are parameters.
\<close>

section \<open>Environment\<close>

record hr_env =
  he_jwt :: jwt_env
  he_refresh_expire :: int
  he_bcrypt_hash :: "gostr \<Rightarrow> gostr option"
  he_bcrypt_ok :: "gostr \<Rightarrow> gostr \<Rightarrow> bool"
  he_token_hash :: "gostr \<Rightarrow> gostr"
  he_openapi_hash :: "gostr \<Rightarrow> gostr"
  he_publish :: "(gateway_notice \<Rightarrow> bool) option"
  he_dept_repo :: bool

abbreviation SystemUsername :: gostr where "SystemUsername \<equiv> ''system''"

text \<open>A message to the gateway: delivered and confirmed, or an error.\<close>

definition publish_notice :: "(gateway_notice \<Rightarrow> bool) \<Rightarrow> gateway_notice \<Rightarrow> unit hr" where
  "publish_notice delivered n = (\<lambda>w.
     if delivered n
     then (Inr (), w\<lparr>store := (store w)\<lparr>gateway_notices := gateway_notices (store w) @ [n]\<rparr>\<rparr>)
     else (Inl HErrNotify, w))"

definition InvalidateToken ::
  "hr_env \<Rightarrow> (gateway_notice \<Rightarrow> bool) \<Rightarrow> int \<Rightarrow> gostr \<Rightarrow> gostr \<Rightarrow> gostr \<Rightarrow> unit hr" where
  "InvalidateToken E p user_id username token reason =
     publish_notice p (TokensInvalid user_id username [he_token_hash E token] reason)"

definition InvalidateUserTokens ::
  "hr_env \<Rightarrow> (gateway_notice \<Rightarrow> bool) \<Rightarrow> int \<Rightarrow> gostr \<Rightarrow> session_row list \<Rightarrow> gostr \<Rightarrow> unit hr" where
  "InvalidateUserTokens E p user_id username ss reason =
     publish_notice p (TokensInvalid user_id username
       (map (\<lambda>r. he_token_hash E (ss_token r)) (filter (\<lambda>r. ss_token r \<noteq> []) ss)) reason)"

definition InvalidateOpenAPIToken ::
  "(gateway_notice \<Rightarrow> bool) \<Rightarrow> int \<Rightarrow> gostr \<Rightarrow> gostr \<Rightarrow> int option \<Rightarrow> unit hr" where
  "InvalidateOpenAPIToken p user_id username token_hash expires_at =
     publish_notice p (ApiTokenInvalid user_id username token_hash expires_at)"

section \<open>User codes\<close>

definition code_char :: "char \<Rightarrow> bool" where
  "code_char c \<longleftrightarrow> (let n = (of_char c :: nat) in (97 \<le> n \<and> n \<le> 122) \<or> (48 \<le> n \<and> n \<le> 57) \<or> n = 95)"

definition code_letter :: "char \<Rightarrow> bool" where
  "code_letter c \<longleftrightarrow> (let n = (of_char c :: nat) in 97 \<le> n \<and> n \<le> 122)"

abbreviation underscore :: char where "underscore \<equiv> CHR ''_''"

text \<open>The pattern \<open>^[a-z][a-z0-9_]{2,31}$\<close>.\<close>

definition userCodePattern :: "gostr \<Rightarrow> bool" where
  "userCodePattern code \<longleftrightarrow>
     3 \<le> length code \<and> length code \<le> 32 \<and> code_letter (hd code) \<and> list_all code_char code"

definition reservedUserCodes :: "gostr list" where
  "reservedUserCodes =
     [''admin'', ''api'', ''auth'', ''break'', ''case'', ''chan'', ''const'', ''continue'',
      ''default'', ''defer'', ''else'', ''fallthrough'', ''for'', ''func'', ''go'', ''goto'',
      ''if'', ''import'', ''interface'', ''login'', ''logout'', ''main'', ''me'', ''map'',
      ''package'', ''range'', ''register'', ''return'', ''root'', ''select'', ''storage'',
      ''struct'', ''switch'', ''system'', ''type'', ''user'', ''var'', ''workspace'']"

definition isReservedUserCode :: "gostr \<Rightarrow> bool" where
  "isReservedUserCode code \<longleftrightarrow> to_lower (trim_space code) \<in> set reservedUserCodes"

definition trimUserCodeForSuffix :: "gostr \<Rightarrow> gostr \<Rightarrow> gostr" where
  "trimUserCodeForSuffix base sfx =
     (let max_base = (if 32 - int (length sfx) < 3 then 3 else 32 - length sfx) in
      trim_char underscore (if length base > max_base then take max_base base else base))"

text \<open>\<open>ReplaceAllString\<close> of the runs of other characters by one underscore.\<close>

fun userCodeCleaner :: "bool \<Rightarrow> gostr \<Rightarrow> gostr" where
  "userCodeCleaner in_run [] = []"
| "userCodeCleaner in_run (c # cs) =
     (if code_char c then c # userCodeCleaner False cs
      else if in_run then userCodeCleaner True cs else underscore # userCodeCleaner True cs)"

text \<open>\<open>ReplaceAll(code, "__", "_")\<close>, and the loop that repeats it while it changes something.\<close>

fun replace_double :: "gostr \<Rightarrow> gostr" where
  "replace_double (a # b # cs) =
     (if a = underscore \<and> b = underscore then underscore # replace_double cs
      else a # replace_double (b # cs))"
| "replace_double cs = cs"

fun has_double :: "gostr \<Rightarrow> bool" where
  "has_double (a # b # cs) = ((a = underscore \<and> b = underscore) \<or> has_double (b # cs))"
| "has_double cs = False"

lemma length_replace_double: "length (replace_double cs) \<le> length cs"
  by (induction cs rule: replace_double.induct) auto

lemma replace_double_shorter: "has_double cs \<Longrightarrow> length (replace_double cs) < length cs"
proof (induction cs rule: replace_double.induct)
  case (1 a b cs)
  then show ?case using length_replace_double [of cs] by auto
qed auto

function single_underscores :: "gostr \<Rightarrow> gostr" where
  "single_underscores cs = (if has_double cs then single_underscores (replace_double cs) else cs)"
  by pat_completeness auto
termination
  by (relation "measure length") (auto simp: replace_double_shorter)

declare single_underscores.simps [simp del]

definition before_at :: "gostr \<Rightarrow> gostr" where
  "before_at code =
     (let name = takeWhile (\<lambda>c. c \<noteq> CHR ''@'') code in
      if name \<noteq> [] \<and> name \<noteq> code then name else code)"

definition NormalizeUserCodeCandidate :: "gostr \<Rightarrow> gostr" where
  "NormalizeUserCodeCandidate raw =
     (let code = before_at (to_lower (trim_space raw));
          code = map (\<lambda>c. if c = CHR ''-'' then underscore else c) code;
          code = map (\<lambda>c. if c = CHR ''.'' then underscore else c) code;
          code = userCodeCleaner False code;
          code = trim_char underscore code;
          code = single_underscores code;
          code = (if code = [] \<or> \<not> code_letter (hd code) then ''u_'' @ code else code);
          code = (if length code > 32 then trim_char underscore (take 32 code) else code);
          code = (if length code < 3 then code @ replicate (3 - length code) (CHR ''0'') else code) in
      if isReservedUserCode code then trimUserCodeForSuffix code ''_user'' @ ''_user'' else code)"

definition ValidateUserCode :: "gostr \<Rightarrow> hr_error option" where
  "ValidateUserCode code =
     (let code = trim_space code in
      if \<not> userCodePattern code then Some HErrBadUserCode
      else if isReservedUserCode code then Some (HErrReservedCode code) else None)"

section \<open>Helpers of the service\<close>

definition normalizeSystemUserStatus :: "gostr \<Rightarrow> gostr \<Rightarrow> hr_error + gostr" where
  "normalizeSystemUserStatus status default_status =
     (let status = trim_space status;
          status = (if status = [] then default_status else status) in
      if status \<in> {''active'', ''pending'', ''disabled''} then Inr status else Inl HErrBadStatus)"

definition placeholderSystemUserEmail :: "gostr \<Rightarrow> gostr" where
  "placeholderSystemUserEmail username = username @ ''@users.local''"

fun firstNonEmptyString :: "gostr list \<Rightarrow> gostr" where
  "firstNonEmptyString [] = []"
| "firstNonEmptyString (v # vs) = (if trim_space v \<noteq> [] then trim_space v else firstNonEmptyString vs)"

definition check_opt :: "hr_error option \<Rightarrow> unit hr" where
  "check_opt e = (case e of None \<Rightarrow> ret () | Some x \<Rightarrow> fail x)"

definition lift_sum :: "hr_error + 'a \<Rightarrow> 'a hr" where
  "lift_sum r = (case r of Inl e \<Rightarrow> fail e | Inr a \<Rightarrow> ret a)"

text \<open>The row must not exist; an error other than not-found is reported as such.\<close>

definition must_be_free ::
  "hr_error \<Rightarrow> (hr_error \<Rightarrow> hr_error) \<Rightarrow> (user_row \<Rightarrow> bool) \<Rightarrow> user_row hr \<Rightarrow> unit hr" where
  "must_be_free taken wrap counts_as_taken m =
     andThen (attempt m) (\<lambda>r. case r of
       Inr u \<Rightarrow> if counts_as_taken u then fail taken else ret ()
     | Inl e \<Rightarrow> if e = HErrNotFound then ret () else fail (wrap e))"

definition hash_password :: "hr_env \<Rightarrow> gostr \<Rightarrow> gostr hr" where
  "hash_password E password =
     (case he_bcrypt_hash E password of None \<Rightarrow> fail HErrHash | Some h \<Rightarrow> ret h)"

definition normalizeAndValidateDepartmentPath :: "hr_env \<Rightarrow> gostr \<Rightarrow> gostr hr" where
  "normalizeAndValidateDepartmentPath E path =
     (let path = trim_space path;
          path = (if path = [] then ''/org/unassigned'' else path);
          path = slash # trim_char slash path in
      if path \<noteq> ''/org'' \<and> \<not> has_prefix path ''/org/'' then fail HErrOutsideOrg
      else if \<not> he_dept_repo E then ret path
      else andThen (attempt (DeptGetByPath path)) (\<lambda>r. case r of
        Inl e \<Rightarrow> fail (if e = HErrNotFound then HErrOrgMissing path else HErrQueryOrg e)
      | Inr d \<Rightarrow> if DeptIsActive d then ret path else fail (HErrOrgInactive path)))"

definition validateLeader :: "gostr \<Rightarrow> unit hr" where
  "validateLeader leader =
     (if leader = [] then ret ()
      else andThen (wrapping HErrLeader (UserGetByUsername leader)) (\<lambda>_. ret ()))"

definition invalidateUserTokens :: "hr_env \<Rightarrow> user_row \<Rightarrow> gostr \<Rightarrow> unit hr" where
  "invalidateUserTokens E u reason =
     andThen (wrapping HErrQuerySessions (GetActiveSessionsByUserID (us_id u))) (\<lambda>ss.
     andThen (wrapping HErrDeactivate (DeactivateAllUserSessions (us_id u))) (\<lambda>_.
     case he_publish E of
       Some p \<Rightarrow> if ss \<noteq> []
                 then andThen (attempt (InvalidateUserTokens E p (us_id u) (us_username u) ss reason)) (\<lambda>_. ret ())
                 else ret ()
     | None \<Rightarrow> ret ()))"

section \<open>Reading\<close>

definition GetUserByUsername :: "gostr \<Rightarrow> user_row hr" where
  "GetUserByUsername username = UserGetByUsername username"

definition SearchUsersFuzzy :: "gostr \<Rightarrow> int \<Rightarrow> user_row list hr" where
  "SearchUsersFuzzy keyword limit =
     (let limit = (if limit \<le> 0 then 10 else limit); limit = (if limit > 100 then 100 else limit) in
      RepoSearchUsersFuzzy keyword limit)"

definition ListUsersForSystem ::
  "gostr \<Rightarrow> gostr \<Rightarrow> gostr \<Rightarrow> int \<Rightarrow> int \<Rightarrow> (user_row list \<times> nat) hr" where
  "ListUsersForSystem keyword status register_type page page_size =
     (let page = (if page \<le> 0 then 1 else page);
          page_size = (if page_size \<le> 0 then 20 else page_size);
          page_size = (if page_size > 100 then 100 else page_size) in
      RepoListUsersForSystem keyword (trim_space status) (trim_space register_type) page page_size)"

definition GetUsersByUsernames :: "gostr list \<Rightarrow> user_row list hr" where
  "GetUsersByUsernames names =
     RepoGetUsersByUsernames (if length names > 100 then take 100 names else names)"

definition GetUsersByDepartmentFullPath :: "gostr \<Rightarrow> user_row list hr" where
  "GetUsersByDepartmentFullPath path = RepoUsersByDepartmentFullPath path"

section \<open>Creating and changing users\<close>

record create_user_req =
  cu_username :: gostr
  cu_password :: gostr
  cu_email :: gostr
  cu_nickname :: gostr
  cu_department :: gostr
  cu_leader :: gostr
  cu_status :: gostr

record update_user_req =
  uu_email :: "gostr option"
  uu_nickname :: "gostr option"
  uu_signature :: "gostr option"
  uu_avatar :: "gostr option"
  uu_gender :: "gostr option"
  uu_department :: "gostr option"
  uu_leader :: "gostr option"

definition CreateUserFromSystem :: "hr_env \<Rightarrow> create_user_req \<Rightarrow> gostr \<Rightarrow> user_row hr" where
  "CreateUserFromSystem E req created_by =
     (let username = to_lower (trim_space (cu_username req));
          given = to_lower (trim_space (cu_email req));
          leader = to_lower (trim_space (cu_leader req)) in
      andThen (check_opt (ValidateUserCode username)) (\<lambda>_.
      if trim_space (cu_password req) = [] then fail HErrPasswordEmpty
      else if length (cu_password req) < 6 then fail HErrPasswordShort
      else
        andThen (must_be_free HErrUserExists HErrCheckUser (\<lambda>_. True) (UserGetByUsername username)) (\<lambda>_.
        andThen (if given = [] then ret (placeholderSystemUserEmail username)
                 else andThen (must_be_free HErrEmailTaken HErrCheckEmail (\<lambda>_. True) (UserGetByEmail given))
                        (\<lambda>_. ret given)) (\<lambda>email.
        andThen (lift_sum (normalizeSystemUserStatus (cu_status req) StatusActive)) (\<lambda>status.
        andThen (normalizeAndValidateDepartmentPath E (cu_department req)) (\<lambda>department.
        andThen (validateLeader leader) (\<lambda>_.
        andThen (hash_password E (cu_password req)) (\<lambda>h.
        wrapping (\<lambda>_. HErrCreateUser) (UserCreate
          \<lparr>us_id = 0, us_created_at = 0, us_deleted_at = None,
           us_created_by = firstNonEmptyString [created_by, SystemUsername], us_username = username,
           us_email = email, us_password_hash = h, us_status = status,
           us_email_verified = (status \<noteq> ''pending''), us_register_type = ''system'',
           us_third_party_id = [], us_avatar = [], us_nickname = trim_space (cu_nickname req),
           us_signature = [], us_gender = [], us_terms_version = [], us_privacy_version = [],
           us_legal_accepted_at = None, us_department = department, us_leader = leader\<rparr>)))))))))"

definition update_email :: "gostr option \<Rightarrow> user_row \<Rightarrow> user_row hr" where
  "update_email given u =
     (case given of None \<Rightarrow> ret u
      | Some e \<Rightarrow>
          let email = to_lower (trim_space e) in
          andThen (if email \<noteq> [] \<and> email \<noteq> us_email u
                   then must_be_free HErrEmailTaken HErrCheckEmail (\<lambda>x. us_username x \<noteq> us_username u)
                          (UserGetByEmail email)
                   else ret ()) (\<lambda>_. ret (u\<lparr>us_email := email\<rparr>)))"

definition set_trimmed :: "gostr option \<Rightarrow> (gostr \<Rightarrow> user_row \<Rightarrow> user_row) \<Rightarrow> user_row \<Rightarrow> user_row" where
  "set_trimmed given f u = (case given of None \<Rightarrow> u | Some v \<Rightarrow> f (trim_space v) u)"

definition update_profile :: "update_user_req \<Rightarrow> user_row \<Rightarrow> user_row" where
  "update_profile req u =
     set_trimmed (uu_gender req) (\<lambda>v u. u\<lparr>us_gender := v\<rparr>)
    (set_trimmed (uu_avatar req) (\<lambda>v u. u\<lparr>us_avatar := v\<rparr>)
    (set_trimmed (uu_signature req) (\<lambda>v u. u\<lparr>us_signature := v\<rparr>)
    (set_trimmed (uu_nickname req) (\<lambda>v u. u\<lparr>us_nickname := v\<rparr>) u)))"

definition update_place :: "hr_env \<Rightarrow> update_user_req \<Rightarrow> user_row \<Rightarrow> user_row hr" where
  "update_place E req u =
     andThen (case uu_department req of None \<Rightarrow> ret u
       | Some d \<Rightarrow>
           if us_username u = SystemUsername then fail HErrSystemUser
           else andThen (normalizeAndValidateDepartmentPath E d) (\<lambda>p. ret (u\<lparr>us_department := p\<rparr>))) (\<lambda>u.
     case uu_leader req of None \<Rightarrow> ret u
       | Some l \<Rightarrow>
           if us_username u = SystemUsername then fail HErrSystemUser
           else let leader = to_lower (trim_space l) in
             andThen (validateLeader leader) (\<lambda>_. ret (u\<lparr>us_leader := leader\<rparr>)))"

definition UpdateUserFromSystem :: "hr_env \<Rightarrow> gostr \<Rightarrow> update_user_req \<Rightarrow> user_row hr" where
  "UpdateUserFromSystem E username req =
     andThen (wrapping HErrNoUser (UserGetByUsername (to_lower (trim_space username)))) (\<lambda>u.
     andThen (update_email (uu_email req) u) (\<lambda>u.
     andThen (update_place E req (update_profile req u)) (\<lambda>u.
     if uu_email req = None \<and> uu_nickname req = None \<and> uu_signature req = None \<and> uu_avatar req = None \<and>
        uu_gender req = None \<and> uu_department req = None \<and> uu_leader req = None
     then ret u
     else andThen (wrapping HErrUpdateUser (UserSave u)) (\<lambda>_.
       andThen (if uu_department req \<noteq> None \<or> uu_leader req \<noteq> None
                then invalidateUserTokens E u ''system_user_profile_changed'' else ret ()) (\<lambda>_. ret u)))))"

definition ResetUserPasswordFromSystem :: "hr_env \<Rightarrow> gostr \<Rightarrow> gostr \<Rightarrow> user_row hr" where
  "ResetUserPasswordFromSystem E username password =
     andThen (wrapping HErrNoUser (UserGetByUsername (to_lower (trim_space username)))) (\<lambda>u.
     if length password < 6 then fail HErrPasswordShort
     else
       andThen (hash_password E password) (\<lambda>h.
       let u = u\<lparr>us_password_hash := h\<rparr>;
           u = (if us_register_type u \<noteq> ''email'' \<and> us_register_type u \<noteq> ''system''
                then u\<lparr>us_register_type := ''system''\<rparr> else u) in
       andThen (wrapping HErrUpdateUser (UserSave u)) (\<lambda>_.
       andThen (invalidateUserTokens E u ''system_user_password_reset'') (\<lambda>_. ret u))))"

definition ChangeOwnPassword :: "hr_env \<Rightarrow> gostr \<Rightarrow> gostr \<Rightarrow> gostr \<Rightarrow> unit hr" where
  "ChangeOwnPassword E username current new_password =
     andThen (wrapping HErrNoUser (UserGetByUsername (to_lower (trim_space username)))) (\<lambda>u.
     if us_password_hash u = [] then fail HErrNoPassword
     else if \<not> he_bcrypt_ok E (us_password_hash u) current then fail HErrWrongPassword
     else if length new_password < 6 then fail HErrPasswordShort
     else if he_bcrypt_ok E (us_password_hash u) new_password then fail HErrSamePassword
     else
       andThen (hash_password E new_password) (\<lambda>h.
       let u = u\<lparr>us_password_hash := h\<rparr> in
       andThen (wrapping HErrUpdateUser (UserSave u)) (\<lambda>_.
       invalidateUserTokens E u ''user_password_changed'')))"

text \<open>The messages after a suspension; all are tried, and any failure is an error at the end.\<close>

definition notify_suspension ::
  "hr_env \<Rightarrow> (gateway_notice \<Rightarrow> bool) \<Rightarrow> user_row \<Rightarrow> session_row list \<Rightarrow> api_token_row list \<Rightarrow> unit hr" where
  "notify_suspension E p u ss ts =
     andThen (attempt (InvalidateUserTokens E p (us_id u) (us_username u) ss ''system_user_status_changed'')) (\<lambda>r.
     andThen (fold_act (\<lambda>tk failed. andThen (attempt (InvalidateOpenAPIToken p (us_id u) (us_username u)
          (ot_hash tk) (ot_expires_at tk))) (\<lambda>r. ret (failed \<or> isl r))) ts (isl r)) (\<lambda>failed.
     if failed then fail HErrNotify else ret ()))"

text \<open>The default reason, in UTF-8.\<close>

definition default_reason :: gostr where
  "default_reason =
     [CHR 0xE7, CHR 0xAE, CHR 0xA1, CHR 0xE7, CHR 0x90, CHR 0x86, CHR 0xE5, CHR 0x91, CHR 0x98,
      CHR 0xE8, CHR 0xB0, CHR 0x83, CHR 0xE6, CHR 0x95, CHR 0xB4, CHR 0xE8, CHR 0xB4, CHR 0xA6,
      CHR 0xE6, CHR 0x88, CHR 0xB7, CHR 0xE7, CHR 0x8A, CHR 0xB6, CHR 0xE6, CHR 0x80, CHR 0x81]"

definition UpdateUserStatusFromSystem ::
  "hr_env \<Rightarrow> gostr \<Rightarrow> gostr \<Rightarrow> gostr list \<Rightarrow> user_row hr" where
  "UpdateUserStatusFromSystem E username status audit =
     andThen (wrapping HErrNoUser (UserGetByUsername (to_lower (trim_space username)))) (\<lambda>u.
     andThen (lift_sum (normalizeSystemUserStatus status [])) (\<lambda>status.
     if us_username u = SystemUsername \<and> status \<noteq> StatusActive then fail HErrSystemUser
     else
       let actor = (case audit of [] \<Rightarrow> SystemUsername | a # _ \<Rightarrow> a);
           reason = (case audit of _ # r # _ \<Rightarrow> if trim_space r \<noteq> [] then trim_space r else default_reason
                     | _ \<Rightarrow> default_reason) in
       if rune_count reason > 500 then fail HErrReasonTooLong
       else
         andThen (wrapping HErrStatusChange (ChangeUserStatus (us_username u) status actor reason)) (\<lambda>(u, ss, ts).
         andThen (case he_publish E of
             Some p \<Rightarrow> if status \<noteq> StatusActive then notify_suspension E p u ss ts else ret ()
           | None \<Rightarrow> ret ()) (\<lambda>_. ret u))))"

definition set_given :: "gostr option \<Rightarrow> (gostr \<Rightarrow> user_row \<Rightarrow> user_row) \<Rightarrow> user_row \<Rightarrow> user_row" where
  "set_given given f u = (case given of None \<Rightarrow> u | Some v \<Rightarrow> f v u)"

definition UpdateUser ::
  "gostr \<Rightarrow> gostr option \<Rightarrow> gostr option \<Rightarrow> gostr option \<Rightarrow> gostr option \<Rightarrow> user_row hr" where
  "UpdateUser username nickname signature avatar gender =
     andThen (UserGetByUsername username) (\<lambda>u.
     let u = set_given gender (\<lambda>v u. u\<lparr>us_gender := v\<rparr>)
            (set_given avatar (\<lambda>v u. u\<lparr>us_avatar := v\<rparr>)
            (set_given signature (\<lambda>v u. u\<lparr>us_signature := v\<rparr>)
            (set_given nickname (\<lambda>v u. u\<lparr>us_nickname := v\<rparr>) u))) in
     andThen (UserSave u) (\<lambda>_. ret u))"

definition AssignUserOrganization ::
  "hr_env \<Rightarrow> gostr \<Rightarrow> gostr option \<Rightarrow> gostr option \<Rightarrow> user_row hr" where
  "AssignUserOrganization E username department leader =
     andThen (wrapping HErrNoUser (UserGetByUsername username)) (\<lambda>u.
     andThen (normalizeAndValidateDepartmentPath E (case department of None \<Rightarrow> [] | Some d \<Rightarrow> d)) (\<lambda>path.
     andThen (case leader of None \<Rightarrow> ret []
       | Some l \<Rightarrow> andThen (wrapping HErrLeader (UserGetByUsername l)) (\<lambda>x. ret (us_username x))) (\<lambda>leader.
     let u = u\<lparr>us_department := path, us_leader := leader\<rparr> in
     andThen (wrapping HErrUpdateUser (UserSave u)) (\<lambda>_.
     andThen (invalidateUserTokens E u ''organization_changed'') (\<lambda>_. ret u)))))"

end
