(* ===== verification/HrAuth.thy ===== *)
theory HrAuth
  imports HrUsers
begin

text \<open>
  Logins and tokens (\<open>core/hr-server/service/auth_service.go\<close>, \<open>pkg/openapitoken\<close>): registration and
  activation, login, refresh, logout, the check the gateway relies on, password resets, and the
  long-lived OpenAPI tokens with their revocation.
\<close>

section \<open>Accounts\<close>

abbreviation defaultRefreshTokenExpireSeconds :: int where
  "defaultRefreshTokenExpireSeconds \<equiv> 86400"
abbreviation rememberRefreshTokenExpireSeconds :: int where
  "rememberRefreshTokenExpireSeconds \<equiv> 2592000"

definition IsPasswordLoginSupported :: "user_row \<Rightarrow> bool" where
  "IsPasswordLoginSupported u \<longleftrightarrow>
     us_password_hash u \<noteq> [] \<and> (us_register_type u = ''email'' \<or> us_register_type u = ''system'')"

definition free_or_error :: "hr_error \<Rightarrow> user_row hr \<Rightarrow> unit hr" where
  "free_or_error taken m = andThen (attempt m) (\<lambda>r. case r of Inr _ \<Rightarrow> fail taken | Inl _ \<Rightarrow> ret ())"

definition RegisterUser ::
  "hr_env \<Rightarrow> gostr \<Rightarrow> gostr \<Rightarrow> gostr \<Rightarrow> gostr \<Rightarrow> gostr \<Rightarrow> int hr" where
  "RegisterUser E username email password terms privacy =
     (let username = to_lower (trim_space username) in
      andThen (check_opt (ValidateUserCode username)) (\<lambda>_.
      andThen (free_or_error HErrUserExists (UserGetByUsername username)) (\<lambda>_.
      andThen (free_or_error HErrEmailTaken (UserGetByEmail email)) (\<lambda>_.
      andThen (hash_password E password) (\<lambda>h. andThen now (\<lambda>t.
      andThen (wrapping (\<lambda>_. HErrCreateUser) (UserCreate
        \<lparr>us_id = 0, us_created_at = 0, us_deleted_at = None, us_created_by = ''system'',
         us_username = username, us_email = email, us_password_hash = h, us_status = ''pending'',
         us_email_verified = False, us_register_type = ''email'', us_third_party_id = [],
         us_avatar = [], us_nickname = [], us_signature = [], us_gender = [],
         us_terms_version = terms, us_privacy_version = privacy, us_legal_accepted_at = Some t,
         us_department = ''/org/unassigned'', us_leader = []\<rparr>)) (\<lambda>u. ret (us_id u))))))))"

definition ActivateUser :: "int \<Rightarrow> unit hr" where
  "ActivateUser i =
     andThen (wrapping (\<lambda>_. HErrUserGone) (UserGetByID i)) (\<lambda>u.
       wrapping (\<lambda>_. HErrActivate) (UserSave (u\<lparr>us_status := StatusActive, us_email_verified := True\<rparr>)))"

section \<open>Login sessions\<close>

definition resolveRefreshTokenExpireSeconds :: "int \<Rightarrow> bool \<Rightarrow> int" where
  "resolveRefreshTokenExpireSeconds configured remember =
     (let configured = (if configured \<le> 0 then defaultRefreshTokenExpireSeconds else configured) in
      if remember \<and> configured < rememberRefreshTokenExpireSeconds
      then rememberRefreshTokenExpireSeconds else configured)"

definition buildUserTokenContext :: "user_row \<Rightarrow> user_token_context" where
  "buildUserTokenContext u =
     \<lparr>tc_user_id = us_id u, tc_username = us_username u, tc_email = us_email u,
      tc_department = us_department u, tc_leader = us_leader u\<rparr>"

definition saveUserSessionWithExpiresAt :: "int \<Rightarrow> gostr \<Rightarrow> gostr \<Rightarrow> int \<Rightarrow> unit hr" where
  "saveUserSessionWithExpiresAt user_id token refresh expires_at =
     wrapping (HErrIn ''save session'') (CreateActiveUserSession user_id token refresh expires_at)"

definition saveUserSessionWithExpire :: "int \<Rightarrow> gostr \<Rightarrow> gostr \<Rightarrow> int \<Rightarrow> unit hr" where
  "saveUserSessionWithExpire user_id token refresh seconds = andThen now (\<lambda>t.
     saveUserSessionWithExpiresAt user_id token refresh (expire_after seconds t))"

definition saveUserSession :: "int \<Rightarrow> gostr \<Rightarrow> gostr \<Rightarrow> unit hr" where
  "saveUserSession user_id token refresh = andThen now (\<lambda>t.
     saveUserSessionWithExpiresAt user_id token refresh (t + 86400 * second))"

definition signed :: "hr_error \<Rightarrow> jwt_error + gostr \<Rightarrow> gostr hr" where
  "signed e r = (case r of Inl _ \<Rightarrow> fail e | Inr s \<Rightarrow> ret s)"

definition IssueTokensForUser :: "hr_env \<Rightarrow> user_row \<Rightarrow> bool \<Rightarrow> (gostr \<times> gostr) hr" where
  "IssueTokensForUser E u remember =
     (if us_status u \<noteq> StatusActive then fail HErrInactive
      else andThen now (\<lambda>t.
        let seconds = resolveRefreshTokenExpireSeconds (he_refresh_expire E) remember;
            cx = buildUserTokenContext u; expires_at = expire_after seconds t in
        andThen (signed HErrAccessToken (GenerateAccessTokenWithContext (he_jwt E) cx t)) (\<lambda>token.
        andThen (signed HErrRefreshToken
          (GenerateRefreshTokenWithContextExpiresAt (he_jwt E) cx expires_at t)) (\<lambda>refresh.
        andThen (wrapping (\<lambda>_. HErrSaveSession)
          (saveUserSessionWithExpiresAt (us_id u) token refresh expires_at)) (\<lambda>_.
        ret (token, refresh))))))"

definition LoginUser ::
  "hr_env \<Rightarrow> gostr \<Rightarrow> gostr \<Rightarrow> bool \<Rightarrow> (user_row \<times> gostr \<times> gostr) hr" where
  "LoginUser E username password remember =
     andThen (wrapping (\<lambda>_. HErrLogin) (UserGetByUsername username)) (\<lambda>u.
     if us_status u \<noteq> StatusActive then fail HErrInactive
     else if \<not> IsPasswordLoginSupported u then fail HErrNoPasswordLogin
     else if \<not> he_bcrypt_ok E (us_password_hash u) password then fail HErrLogin
     else andThen (IssueTokensForUser E u remember) (\<lambda>(token, refresh). ret (u, token, refresh)))"

definition checked_claims :: "hr_error \<Rightarrow> jwt_error + jwt_claims \<Rightarrow> jwt_claims hr" where
  "checked_claims e r = (case r of Inl _ \<Rightarrow> fail e | Inr c \<Rightarrow> ret c)"

definition RefreshToken :: "hr_env \<Rightarrow> gostr \<Rightarrow> (gostr \<times> gostr) hr" where
  "RefreshToken E refresh =
     andThen (wrapping (\<lambda>_. HErrRefreshInvalid) (GetUserSessionByRefreshToken refresh)) (\<lambda>ss.
     andThen now (\<lambda>t.
     andThen (checked_claims HErrRefreshInvalid (ValidateRefreshToken (he_jwt E) t refresh)) (\<lambda>c.
     if jw_user_id c \<noteq> ss_user_id ss then fail HErrRefreshMismatch
     else
       andThen (wrapping (\<lambda>_. HErrUserGone) (UserGetByID (ss_user_id ss))) (\<lambda>u.
       if us_status u \<noteq> StatusActive then fail HErrInactive
       else
         let cx = buildUserTokenContext u in
         andThen (signed HErrRefreshFailed (GenerateAccessTokenWithContext (he_jwt E) cx t)) (\<lambda>token'.
         andThen (signed HErrRefreshFailed
           (GenerateRefreshTokenWithContextExpiresAt (he_jwt E) cx (ss_expires_at ss) t)) (\<lambda>refresh'.
         andThen (wrapping (\<lambda>_. HErrRefreshFailed) (UpdateUserSessionTokens (ss_id ss) token' refresh')) (\<lambda>_.
         ret (token', refresh'))))))))"

definition LogoutUser :: "hr_env \<Rightarrow> gostr \<Rightarrow> unit hr" where
  "LogoutUser E token =
     (let token = trim_space token in
      if token = [] then fail HErrNoToken
      else andThen now (\<lambda>t.
        andThen (checked_claims HErrTokenInvalid (JwtValidateAccessToken (he_jwt E) t token)) (\<lambda>c.
        andThen (wrapping (\<lambda>_. HErrLogout) (DeactivateUserSession token)) (\<lambda>_.
        case he_publish E of
          None \<Rightarrow> ret ()
        | Some p \<Rightarrow> andThen (attempt (InvalidateToken E p (jw_user_id c) (jw_username c) token ''logout''))
                     (\<lambda>_. ret ())))))"

definition ValidateAccessToken :: "hr_env \<Rightarrow> gostr \<Rightarrow> access_token_principal hr" where
  "ValidateAccessToken E raw_token =
     (let token = trim_space raw_token in andThen now (\<lambda>t.
      andThen (checked_claims HErrTokenInvalid (JwtValidateAccessToken (he_jwt E) t token)) (\<lambda>c.
      andThen (wrapping (\<lambda>_. HErrSessionGone) (GetUserSessionByToken token)) (\<lambda>ss.
      if ss_user_id ss \<noteq> jw_user_id c then fail HErrSessionMismatch
      else
        andThen (wrapping (\<lambda>_. HErrUserGone) (UserGetByID (ss_user_id ss))) (\<lambda>u.
        if us_status u \<noteq> StatusActive then fail HErrUserGone
        else if us_username u \<noteq> trim_space (jw_username c) then fail HErrUsernameChanged
        else ret \<lparr>tp_user_id = us_id u, tp_username = us_username u, tp_email = us_email u,
                  tp_department = us_department u\<rparr>)))))"

definition AuthGetUserByEmail :: "gostr \<Rightarrow> user_row hr" where
  "AuthGetUserByEmail email = UserGetByEmail email"

definition invalidateAllUserSessions :: "hr_env \<Rightarrow> user_row \<Rightarrow> gostr \<Rightarrow> unit hr" where
  "invalidateAllUserSessions E u reason =
     andThen (wrapping HErrQuerySessions (GetActiveSessionsByUserID (us_id u))) (\<lambda>ss.
     andThen (wrapping HErrDeactivate (DeactivateAllUserSessions (us_id u))) (\<lambda>_.
     case he_publish E of
       None \<Rightarrow> ret ()
     | Some p \<Rightarrow> if ss \<noteq> []
                 then andThen (attempt (InvalidateUserTokens E p (us_id u) (us_username u) ss reason)) (\<lambda>_. ret ())
                 else ret ()))"

definition ResetPasswordByEmail :: "hr_env \<Rightarrow> gostr \<Rightarrow> gostr \<Rightarrow> unit hr" where
  "ResetPasswordByEmail E email new_password =
     andThen (wrapping (\<lambda>_. HErrUserGone) (UserGetByEmail email)) (\<lambda>u.
     andThen (hash_password E new_password) (\<lambda>h.
     let u = u\<lparr>us_password_hash := h\<rparr> in
     andThen (wrapping (\<lambda>_. HErrUpdateUser HErrDB) (UserSave u)) (\<lambda>_.
     invalidateAllUserSessions E u ''password_reset'')))"

section \<open>OpenAPI tokens\<close>

abbreviation TokenPrefix :: gostr where "TokenPrefix \<equiv> ''kgos_''"

record create_token_input =
  ci_owner :: gostr
  ci_owner_id :: int
  ci_email :: gostr
  ci_department :: gostr
  ci_leader :: gostr
  ci_name :: gostr
  ci_expires_at :: "int option"

record openapi_principal =
  op_token_id :: int
  op_user_id :: int
  op_username :: gostr
  op_email :: gostr
  op_department :: gostr

definition displayPrefix :: "hr_env \<Rightarrow> gostr \<Rightarrow> gostr" where
  "displayPrefix E token = TokenPrefix @ take 10 (he_openapi_hash E token)"

definition truncate_bytes :: "gostr \<Rightarrow> nat \<Rightarrow> gostr" where
  "truncate_bytes value max_len = (if length value \<le> max_len then value else take max_len value)"

definition BearerToken :: "gostr \<Rightarrow> gostr" where
  "BearerToken header =
     (let header = trim_space header in
      if length header < 7 \<or> to_lower (take 7 header) \<noteq> ''bearer '' then []
      else trim_space (drop 7 header))"

text \<open>The unique index on the hash covers every row.\<close>

definition insert_api_token :: "api_token_row \<Rightarrow> api_token_row hr" where
  "insert_api_token r =
     andThen (next_id ''openapi_tokens'') (\<lambda>i. andThen now (\<lambda>t.
       let row = r\<lparr>ot_id := i, ot_created_at := t\<rparr> in
       stmt HErrDB (\<lambda>s.
         if list_ex (\<lambda>x. ot_hash x = ot_hash row) (api_tokens s) then (Inl HErrDuplicate, s)
         else (Inr row, s\<lparr>api_tokens := api_tokens s @ [row]\<rparr>))))"

definition TokenCreate :: "hr_env \<Rightarrow> create_token_input \<Rightarrow> (api_token_row \<times> gostr) hr" where
  "TokenCreate E req =
     (let owner = trim_space (ci_owner req); name = trim_space (ci_name req) in
      if owner = [] then fail HErrNoOwner
      else if name = [] then fail HErrNoTokenName
      else andThen now (\<lambda>t.
        andThen (signed HErrSignToken (GenerateOpenAPITokenWithContext (he_jwt E)
          \<lparr>tc_user_id = ci_owner_id req, tc_username = owner, tc_email = trim_space (ci_email req),
           tc_department = trim_space (ci_department req), tc_leader = trim_space (ci_leader req)\<rparr>
          (ci_expires_at req) t)) (\<lambda>secret.
        andThen (insert_api_token
          \<lparr>ot_id = 0, ot_created_at = 0, ot_deleted_at = None, ot_owner_id = ci_owner_id req,
           ot_owner = owner, ot_name = name, ot_prefix = displayPrefix E secret,
           ot_hash = he_openapi_hash E secret, ot_expires_at = ci_expires_at req,
           ot_revoked_at = None, ot_last_used_at = None, ot_last_used_ip = [],
           ot_last_used_agent = []\<rparr>) (\<lambda>row. ret (row, secret)))))"

definition TokenList :: "gostr \<Rightarrow> api_token_row list hr" where
  "TokenList owner =
     query HErrDB (\<lambda>s. sort_key (\<lambda>r. - ot_created_at r)
       (sel (\<lambda>r. token_live r \<and> ot_owner r = trim_space owner) (api_tokens s)))"

definition RevokeWithResult :: "gostr \<Rightarrow> int \<Rightarrow> api_token_row hr" where
  "RevokeWithResult owner i =
     tx HErrDB (andThen (query HErrDB (\<lambda>s. first_row (\<lambda>r. token_live r \<and> ot_id r = i \<and>
         ot_owner r = trim_space owner \<and> ot_revoked_at r = None) (api_tokens s))) (\<lambda>r.
       andThen (found_row r) (\<lambda>revoked. andThen now (\<lambda>t.
       andThen (revoke_tokens (\<lambda>r. ot_id r = ot_id revoked) t) (\<lambda>n.
       if n = 0 then fail HErrNotFound else ret revoked)))))"

definition touch_api_token :: "int \<Rightarrow> int \<Rightarrow> gostr \<Rightarrow> gostr \<Rightarrow> unit hr" where
  "touch_api_token i t ip agent = modify HErrDB (\<lambda>s. ((),
     s\<lparr>api_tokens := upd (\<lambda>r. token_live r \<and> ot_id r = i)
       (\<lambda>r. r\<lparr>ot_last_used_at := Some t, ot_last_used_ip := trim_space ip,
              ot_last_used_agent := truncate_bytes (trim_space agent) 500\<rparr>) (api_tokens s)\<rparr>))"

text \<open>The row the lookup finds has the hash, so the comparison in constant time that follows holds.\<close>

definition TokenValidate :: "hr_env \<Rightarrow> gostr \<Rightarrow> gostr \<Rightarrow> gostr \<Rightarrow> openapi_principal hr" where
  "TokenValidate E raw_token ip agent =
     (let token = trim_space raw_token in andThen now (\<lambda>t.
      andThen (checked_claims HErrTokenInvalid (ValidateOpenAPIToken (he_jwt E) t token)) (\<lambda>c.
      andThen (query HErrDB (\<lambda>s. first_row (\<lambda>r. token_live r \<and> ot_hash r = he_openapi_hash E token)
        (api_tokens s))) (\<lambda>r.
      case r of None \<Rightarrow> fail HErrTokenNotFound
      | Some tk \<Rightarrow>
          if ot_hash tk \<noteq> he_openapi_hash E token then fail HErrTokenNotFound
          else if ot_revoked_at tk \<noteq> None then fail HErrTokenRevoked
          else if (case ot_expires_at tk of None \<Rightarrow> False | Some e \<Rightarrow> t > e) then fail HErrTokenExpired
          else if trim_space (ot_owner tk) \<noteq> trim_space (jw_username c) \<or>
                  ot_owner_id tk \<noteq> 0 \<and> ot_owner_id tk \<noteq> jw_user_id c then fail HErrOwnerMismatch
          else andThen (attempt (touch_api_token (ot_id tk) t ip agent)) (\<lambda>_.
            ret \<lparr>op_token_id = ot_id tk, op_user_id = ot_owner_id tk, op_username = ot_owner tk,
                 op_email = jw_email c,
                 op_department = (case jw_department c of None \<Rightarrow> [] | Some d \<Rightarrow> d)\<rparr>)))))"

text \<open>Issuing under a guard in the same transaction: the account is locked and checked.\<close>

definition CreateGuarded ::
  "hr_env \<Rightarrow> create_token_input \<Rightarrow> unit hr \<Rightarrow> (api_token_row \<times> gostr) hr" where
  "CreateGuarded E req guard = tx HErrDB (andThen guard (\<lambda>_. TokenCreate E req))"

definition CreateActiveUserOpenAPIToken ::
  "hr_env \<Rightarrow> create_token_input \<Rightarrow> (api_token_row \<times> gostr) hr" where
  "CreateActiveUserOpenAPIToken E req =
     CreateGuarded E req (andThen (UserGetByUsername (ci_owner req)) (\<lambda>u.
       if us_status u \<noteq> StatusActive \<or> us_id u \<noteq> ci_owner_id req then fail HErrDisabled else ret ()))"

end
