(* ===== verification/HrSteps.thy ===== *)
theory HrSteps
  imports HrAuth
begin

text \<open>
  Accounts as a labelled transition system. Requests interleave between statements, so a step is
  one writing statement or transaction with arbitrary arguments, that is also with a row of a user
  read earlier, or anything that leaves users, sessions and OpenAPI tokens alone. The label says
  whether a step may make an account active and which session tokens it issues. These are the
  writes to the three tables the repositories and the token store offer.
\<close>

section \<open>Steps\<close>

datatype acct_label = Silent | Activates int | Issues gostr gostr

definition accounts :: "hr_db \<Rightarrow> user_row list \<times> session_row list \<times> api_token_row list" where
  "accounts s = (users s, sessions s, api_tokens s)"

text \<open>The label of a write of a whole row: it activates the account when the row says active.\<close>

definition writes :: "user_row \<Rightarrow> acct_label" where
  "writes r = (if us_status r = StatusActive then Activates (us_id r) else Silent)"

inductive acct_step :: "hr_env \<Rightarrow> acct_label \<Rightarrow> hr_db world \<Rightarrow> hr_db world \<Rightarrow> bool" for E where
  acct_other: "accounts (store w') = accounts (store w) \<Longrightarrow> seqs w ''user'' \<le> seqs w' ''user'' \<Longrightarrow>
     acct_step E Silent w w'"
| acct_create_user: "trim_space (us_username r) = us_username r \<Longrightarrow> acct_step E Silent w (snd (UserCreate r w))"
| acct_save_user: "x \<in> set (users (store w)) \<Longrightarrow> us_id x = us_id r \<Longrightarrow> us_username x = us_username r \<Longrightarrow>
     acct_step E (writes r) w (snd (UserSave r w))"
| acct_status: "(status = StatusActive \<longrightarrow> l = Activates (us_id u)) \<Longrightarrow>
     first_row (\<lambda>r. user_live r \<and> us_username r = name) (users (store w)) = Some u \<Longrightarrow>
     acct_step E l w (snd (ChangeUserStatus name status actor reason w))"
| acct_delete_user: "acct_step E Silent w (snd (DeleteUser i w))"
| acct_session: "acct_step E (Issues token refresh) w (snd (CreateActiveUserSession i token refresh e w))"
| acct_rotate: "acct_step E (Issues token refresh) w (snd (UpdateUserSessionTokens i token refresh w))"
| acct_logout: "acct_step E Silent w (snd (DeactivateUserSession token w))"
| acct_deactivate: "acct_step E Silent w (snd (DeactivateAllUserSessions i w))"
| acct_expired: "acct_step E Silent w (snd (DeleteExpiredSessions w))"
| acct_token: "acct_step E Silent w (snd (CreateActiveUserOpenAPIToken E req w))"
| acct_revoke: "acct_step E Silent w (snd (RevokeWithResult owner i w))"
| acct_touch: "acct_step E Silent w (snd (touch_api_token i t ip agent w))"

inductive acct_reach :: "hr_env \<Rightarrow> (acct_label \<Rightarrow> bool) \<Rightarrow> hr_db world \<Rightarrow> hr_db world \<Rightarrow> bool"
  for E allowed w0 where
  acct_refl: "acct_reach E allowed w0 w0"
| acct_more: "acct_reach E allowed w0 w \<Longrightarrow> acct_step E l w w' \<Longrightarrow> allowed l \<Longrightarrow> acct_reach E allowed w0 w'"

lemma acct_invariant:
  assumes "acct_reach E allowed w0 w" and "I w0"
    and "\<And>l w w'. acct_step E l w w' \<Longrightarrow> allowed l \<Longrightarrow> I w \<Longrightarrow> I w'"
  shows "I w"
  using assms(1,2) by (induction rule: acct_reach.induct) (auto intro: assms(3))

section \<open>What the writes do\<close>

text \<open>Each write, as a relation between the accounts before and after.\<close>

lemma UserCreate_cases:
  assumes "UserCreate r w = (res, w')"
  shows "seqs w ''user'' \<le> seqs w' ''user'' \<and>
     (accounts (store w') = accounts (store w) \<or>
      (\<exists>t. \<not> list_ex (\<lambda>x. us_username x = us_username r) (users (store w)) \<and>
         seqs w' ''user'' = seqs w ''user'' + 1 \<and>
         users (store w') = users (store w) @ [r\<lparr>us_id := seqs w ''user'' + 1, us_created_at := t\<rparr>] \<and>
         sessions (store w') = sessions (store w) \<and> api_tokens (store w') = api_tokens (store w)))"
  using assms
  by (auto simp: UserCreate_def andThen_def next_id_def now_def stmt_def Let_def accounts_def
      split: if_splits prod.splits)

lemma counts_writes [counts_intros]:
  "counts_up (found_row r)" "counts_up (UserGetByID i)" "counts_up (UserGetByUsername n)"
  "counts_up (deactivate P)" "counts_up (revoke_tokens Q t)" "counts_up (freeze_account u n)"
  "counts_up (set_user_status u st)" "counts_up (add_status_event ev)"
  "counts_up (CreateUserSession i a b e ag ip)" "counts_up (UserSave x)" "counts_up (UserCreate x)"
  "counts_up (DeleteUser i)"
  unfolding found_row_def UserGetByID_def UserGetByUsername_def deactivate_def revoke_tokens_def
    freeze_account_def set_user_status_def add_status_event_def CreateUserSession_def UserSave_def
    UserCreate_def DeleteUser_def Let_def
  by (intro counts_intros)+

lemma counts_operations [counts_intros]:
  "counts_up (ChangeUserStatus n st a rs)" "counts_up (CreateActiveUserSession i tk rf e)"
  "counts_up (UpdateUserSessionTokens i tk rf)" "counts_up (DeactivateUserSession tk)"
  "counts_up (DeactivateAllUserSessions i)" "counts_up DeleteExpiredSessions"
  "counts_up (RevokeWithResult ow i)" "counts_up (touch_api_token i t ip ag)"
  unfolding ChangeUserStatus_def CreateActiveUserSession_def UpdateUserSessionTokens_def
    DeactivateUserSession_def DeactivateAllUserSessions_def DeleteExpiredSessions_def
    RevokeWithResult_def touch_api_token_def freeze_account_def Let_def
  by (intro counts_intros)+

lemma counts_token [counts_intros]: "counts_up (CreateActiveUserOpenAPIToken E req)"
  unfolding CreateActiveUserOpenAPIToken_def CreateGuarded_def TokenCreate_def insert_api_token_def
    signed_def Let_def
  by (intro counts_intros)

section \<open>What the other writes do\<close>

lemma modify_run:
  "modify e f w = (res, w') \<Longrightarrow> store w' = store w \<or> store w' = snd (f (store w))"
  by (auto simp: modify_def stmt_def split: if_splits prod.splits)

lemma stmt_run:
  "stmt e f w = (res, w') \<Longrightarrow> store w' = store w \<or> store w' = snd (f (store w))"
  by (auto simp: stmt_def split: if_splits prod.splits)

lemma UserSave_run:
  "store (snd (UserSave r w)) = store w \<or>
   store (snd (UserSave r w)) =
     (store w)\<lparr>users := upd (\<lambda>x. user_live x \<and> us_id x = us_id r) (\<lambda>_. r) (users (store w))\<rparr>"
  by (auto simp: UserSave_def modify_def stmt_def)

lemma DeleteUser_run:
  "store (snd (DeleteUser i w)) = store w \<or>
   (\<exists>t. store (snd (DeleteUser i w)) = (store w)\<lparr>users :=
     upd (\<lambda>x. user_live x \<and> us_id x = i) (\<lambda>x. x\<lparr>us_deleted_at := Some t\<rparr>) (users (store w))\<rparr>)"
  by (auto simp: DeleteUser_def andThen_def now_def modify_def stmt_def)

lemma ChangeUserStatus_run:
  assumes "ChangeUserStatus name status actor reason w = (res, w')"
  shows "accounts (store w') = accounts (store w) \<or>
    (\<exists>u t. first_row (\<lambda>r. user_live r \<and> us_username r = name) (users (store w)) = Some u \<and>
       users (store w') = upd (\<lambda>x. user_live x \<and> us_id x = us_id u)
         (\<lambda>x. let x = x\<lparr>us_status := status\<rparr> in
               if status = StatusActive then x\<lparr>us_email_verified := True\<rparr> else x) (users (store w)) \<and>
       (status = StatusActive \<longrightarrow> sessions (store w') = sessions (store w) \<and>
          api_tokens (store w') = api_tokens (store w)) \<and>
       (status \<noteq> StatusActive \<longrightarrow>
          sessions (store w') = upd (\<lambda>r. session_live r \<and> ss_user_id r = us_id u)
            (\<lambda>r. r\<lparr>ss_active := False\<rparr>) (sessions (store w)) \<and>
          api_tokens (store w') = upd (\<lambda>r. token_live r \<and> ot_owner r = name \<and> ot_revoked_at r = None)
            (\<lambda>r. r\<lparr>ot_revoked_at := Some t\<rparr>) (api_tokens (store w))))"
proof (cases res)
  case (Inl e)
  with assms show ?thesis by (auto simp: ChangeUserStatus_def accounts_def dest: tx_Inl_store)
next
  case (Inr a)
  with assms show ?thesis
    by (cases "status = StatusActive")
      (auto simp: ChangeUserStatus_def run_simps UserGetByUsername_def found_row_def freeze_account_def
        deactivate_def revoke_tokens_def set_user_status_def add_status_event_def Let_def
        split: option.splits)
qed

end
