(* ===== verification/HrSamples.thy ===== *)
theory HrSamples
  imports HrSteps
begin

text \<open>
  A concrete deployment for the applications of the theorems: one active user with a session and an
  OpenAPI token, and a JWT library whose tokens spell the use and the second of issue.
\<close>

definition demo_sign :: "jwt_claims \<Rightarrow> gostr option" where
  "demo_sign c = (case rc_issued_at c of None \<Rightarrow> None
     | Some t \<Rightarrow> Some (jw_token_use c @ CHR ''-'' # show_int (t div second)))"

definition demo_claims :: "gostr \<Rightarrow> jwt_claims" where
  "demo_claims token_use =
     \<lparr>rc_issuer = ''kageos'', rc_subject = token_use @ ''_7'', rc_issued_at = Some (100 * second),
      rc_not_before = Some (100 * second), rc_expires_at = Some (3700 * second),
      jw_token_use = token_use, jw_user_id = 7, jw_username = ''bob'', jw_email = ''bob@x'',
      jw_task_id = 0, jw_execution_id = 0, jw_department = Some ''/org/sales'', jw_leader = None\<rparr>"

definition demo_parse :: "int \<Rightarrow> gostr \<Rightarrow> jwt_claims option" where
  "demo_parse t s =
     (if s = ''access-100'' then Some (demo_claims TokenUseAccess)
      else if s = ''refresh-100'' then Some (demo_claims TokenUseRefresh) else None)"

definition demo_env :: hr_env where
  "demo_env =
     \<lparr>he_jwt = \<lparr>je_issuer = ''kageos'', je_access_expire = 3600, je_refresh_expire = 3600,
        je_sign = demo_sign, je_parse = demo_parse\<rparr>,
      he_refresh_expire = 3600, he_bcrypt_hash = Some, he_bcrypt_ok = (\<lambda>h p. h = p),
      he_token_hash = id, he_openapi_hash = id, he_publish = Some (\<lambda>_. True), he_dept_repo = True\<rparr>"

definition demo_user :: user_row where
  "demo_user =
     \<lparr>us_id = 7, us_created_at = 1, us_deleted_at = None, us_created_by = ''system'',
      us_username = ''bob'', us_email = ''bob@x'', us_password_hash = ''secret'', us_status = ''active'',
      us_email_verified = True, us_register_type = ''system'', us_third_party_id = [],
      us_avatar = [], us_nickname = [], us_signature = [], us_gender = [], us_terms_version = [],
      us_privacy_version = [], us_legal_accepted_at = None, us_department = ''/org/sales'',
      us_leader = []\<rparr>"

definition demo_session :: session_row where
  "demo_session =
     \<lparr>ss_id = 1, ss_deleted_at = None, ss_user_id = 7, ss_token = ''access-100'',
      ss_refresh_token = ''refresh-100'', ss_expires_at = 3700 * second, ss_user_agent = [],
      ss_ip = [], ss_active = True\<rparr>"

definition demo_api_token :: api_token_row where
  "demo_api_token =
     \<lparr>ot_id = 1, ot_created_at = 1, ot_deleted_at = None, ot_owner_id = 7, ot_owner = ''bob'',
      ot_name = ''ci'', ot_prefix = ''kgos_1'', ot_hash = ''openapi-100'', ot_expires_at = None,
      ot_revoked_at = None, ot_last_used_at = None, ot_last_used_ip = [], ot_last_used_agent = []\<rparr>"

definition demo_hr :: "session_row list \<Rightarrow> int \<Rightarrow> hr_db world" where
  "demo_hr ss t =
     \<lparr>clock = t, seqs = (\<lambda>_. 7), faults = [],
      store = \<lparr>depts = [], users = [demo_user], sessions = ss, api_tokens = [demo_api_token],
        status_events = [], gateway_notices = [], dept_cache = None\<rparr>\<rparr>"

lemma demo_hr_fields [simp]:
  "users (store (demo_hr ss t)) = [demo_user]" "sessions (store (demo_hr ss t)) = ss"
  "clock (demo_hr ss t) = t"
  by (simp_all add: demo_hr_def)

end
