(* ===== verification/HrProps.thy ===== *)
theory HrProps
  imports HrSamples
begin

text \<open>
  A suspended account is locked out: the invariant of the locked-out account over every step, what
  the checks of a request let in, and that a stale write of the profile undoes a suspension.
\<close>

section \<open>A suspended account is locked out\<close>

text \<open>Successful runs of the small actions.\<close>

lemma wrapping_Inr [run_simps]: "wrapping f m w = (Inr a, w') \<longleftrightarrow> m w = (Inr a, w')"
  and checked_claims_Inr [run_simps]: "checked_claims e r w = (Inr c, w') \<longleftrightarrow> r = Inr c \<and> w' = w"
  and found_row_Inr [run_simps]: "found_row v w = (Inr x, w') \<longleftrightarrow> v = Some x \<and> w' = w"
  and signed_Inr [run_simps]: "signed e k w = (Inr s, w') \<longleftrightarrow> k = Inr s \<and> w' = w"
  by (auto simp: wrapping_def checked_claims_def found_row_def signed_def ret_def fail_def
      split: prod.splits sum.splits option.splits)

text \<open>The table of users as the service keeps it: ids and names identify, ids are counted.\<close>

definition users_ok :: "hr_db world \<Rightarrow> bool" where
  "users_ok w \<longleftrightarrow> distinct (map us_id (users (store w))) \<and> distinct (map us_username (users (store w))) \<and>
     (\<forall>x \<in> set (users (store w)). us_id x \<le> seqs w ''user'' \<and> trim_space (us_username x) = us_username x)"

text \<open>No open session of the user and no OpenAPI token of the name that is not revoked.\<close>

definition shut :: "int \<Rightarrow> gostr \<Rightarrow> hr_db \<Rightarrow> bool" where
  "shut i name s \<longleftrightarrow>
     (\<forall>x \<in> set (sessions s). ss_user_id x = i \<and> session_live x \<longrightarrow> \<not> ss_active x) \<and>
     (\<forall>x \<in> set (api_tokens s). ot_owner x = name \<and> token_live x \<longrightarrow> ot_revoked_at x \<noteq> None)"

definition locked_out :: "int \<Rightarrow> gostr \<Rightarrow> hr_db world \<Rightarrow> bool" where
  "locked_out i name w \<longleftrightarrow> users_ok w \<and>
     (\<exists>x \<in> set (users (store w)). us_id x = i \<and> us_username x = name) \<and>
     (\<forall>x \<in> set (users (store w)). us_id x = i \<longrightarrow> us_status x \<noteq> StatusActive) \<and>
     shut i name (store w)"

lemma users_ok_same:
  "accounts (store w') = accounts (store w) \<Longrightarrow> seqs w ''user'' \<le> seqs w' ''user'' \<Longrightarrow> users_ok w \<Longrightarrow> users_ok w'"
  by (fastforce simp: users_ok_def accounts_def)

lemma locked_out_same:
  "accounts (store w') = accounts (store w) \<Longrightarrow> seqs w ''user'' \<le> seqs w' ''user'' \<Longrightarrow>
     locked_out i name w \<Longrightarrow> locked_out i name w'"
  using users_ok_same [of w' w] by (auto simp: locked_out_def accounts_def shut_def)

lemma ids_inj:
  assumes "locked_out i name w"
  shows "inj_on us_id (set (users (store w)))" and "inj_on us_username (set (users (store w)))"
  using assms by (simp_all add: locked_out_def users_ok_def distinct_map)

text \<open>Changes of sessions and tokens that open none.\<close>

lemma shut_sessions:
  assumes "shut i name s" and "api_tokens s' = api_tokens s" and "sessions s' = upd P f (sessions s)"
    and "\<And>x. P x \<Longrightarrow> ss_active (f x) \<Longrightarrow> session_live (f x) \<Longrightarrow>
           ss_active x \<and> session_live x \<and> ss_user_id (f x) = ss_user_id x"
  shows "shut i name s'"
proof -
  have "\<not> ss_active y" if y: "y \<in> set (sessions s')" "ss_user_id y = i" "session_live y" for y
  proof -
    obtain x where x: "x \<in> set (sessions s)" "y = (if P x then f x else x)"
      using y(1) unfolding assms(3) in_upd_iff by blast
    then show ?thesis using y assms(1) assms(4) [of x] by (cases "P x") (auto simp: shut_def)
  qed
  then show ?thesis using assms(1,2) by (simp add: shut_def)
qed

lemma shut_tokens:
  assumes "shut i name s" and "sessions s' = sessions s" and "api_tokens s' = upd P f (api_tokens s)"
    and "\<And>x. P x \<Longrightarrow> ot_revoked_at (f x) = None \<Longrightarrow> token_live (f x) \<Longrightarrow>
           ot_revoked_at x = None \<and> token_live x \<and> ot_owner (f x) = ot_owner x"
  shows "shut i name s'"
proof -
  have "ot_revoked_at y \<noteq> None" if y: "y \<in> set (api_tokens s')" "ot_owner y = name" "token_live y" for y
  proof -
    obtain x where x: "x \<in> set (api_tokens s)" "y = (if P x then f x else x)"
      using y(1) unfolding assms(3) in_upd_iff by blast
    then show ?thesis using y assms(1) assms(4) [of x]
      by (cases "P x"; cases "ot_revoked_at (f x)") (force simp: shut_def)+
  qed
  then show ?thesis using assms(1,2) by (simp add: shut_def)
qed

text \<open>An operation that leaves the users alone and opens no session or token of the account.\<close>

lemma locked_out_stable:
  assumes "stable (\<lambda>s. users s = users (store w) \<and> shut i name s) m" and "counts_up m"
    and "locked_out i name w"
  shows "locked_out i name (snd (m w))"
proof -
  have "users (store (snd (m w))) = users (store w) \<and> shut i name (store (snd (m w)))"
    using assms(1,3) by (simp add: stable_def locked_out_def)
  moreover have "seqs w ''user'' \<le> seqs (snd (m w)) ''user''"
    using assms(2) by (simp add: counts_up_def)
  ultimately show ?thesis using assms(3) by (fastforce simp: locked_out_def users_ok_def)
qed

lemma users_ok_upd:
  assumes ok: "users_ok w" and seqs: "seqs w ''user'' \<le> seqs w' ''user''"
    and rows: "users (store w') = upd P f (users (store w))"
    and keep: "\<And>x. x \<in> set (users (store w)) \<Longrightarrow> P x \<Longrightarrow> us_id (f x) = us_id x \<and> us_username (f x) = us_username x"
  shows "users_ok w'"
proof -
  have cols: "map us_id (users (store w')) = map us_id (users (store w))"
    "map us_username (users (store w')) = map us_username (users (store w))"
    unfolding rows upd_def using keep by auto
  have rows_ok: "us_id y \<le> seqs w' ''user'' \<and> trim_space (us_username y) = us_username y"
    if y: "y \<in> set (users (store w'))" for y
  proof -
    obtain x where x: "x \<in> set (users (store w))" "y = (if P x then f x else x)"
      using y unfolding rows in_upd_iff by blast
    then have "us_id y = us_id x" "us_username y = us_username x" using keep by auto
    then show ?thesis using ok seqs x(1) by (fastforce simp: users_ok_def)
  qed
  show ?thesis using ok rows_ok by (simp add: users_ok_def cols)
qed

lemma locked_out_users:
  assumes ok: "locked_out i name w" and seqs: "seqs w ''user'' \<le> seqs w' ''user''"
    and rows: "users (store w') = upd P f (users (store w))"
    and keep: "\<And>x. x \<in> set (users (store w)) \<Longrightarrow> P x \<Longrightarrow> us_id (f x) = us_id x \<and> us_username (f x) = us_username x"
    and "\<And>x. x \<in> set (users (store w)) \<Longrightarrow> P x \<Longrightarrow> us_id x = i \<Longrightarrow> us_status (f x) \<noteq> StatusActive"
    and "shut i name (store w')"
  shows "locked_out i name w'"
proof -
  let ?g = "\<lambda>x. if P x then f x else x"
  have new: "set (users (store w')) = ?g ` set (users (store w))" by (simp add: rows set_upd)
  have same: "us_id (?g x) = us_id x \<and> us_username (?g x) = us_username x" if "x \<in> set (users (store w))" for x
    using keep that by simp
  have "users_ok w'"
    using ok by (intro users_ok_upd [OF _ seqs rows keep]) (simp_all add: locked_out_def)
  moreover have "\<exists>y \<in> set (users (store w')). us_id y = i \<and> us_username y = name"
  proof -
    obtain x where "x \<in> set (users (store w))" "us_id x = i" "us_username x = name"
      using ok by (auto simp: locked_out_def)
    then show ?thesis unfolding new using same [of x] by (intro bexI [of _ "?g x"]) auto
  qed
  moreover have "us_status y \<noteq> StatusActive" if "y \<in> set (users (store w'))" "us_id y = i" for y
  proof -
    from that(1) obtain x where x: "x \<in> set (users (store w))" "y = ?g x" unfolding new by auto
    then have "us_id x = i" using same that(2) by simp
    then show ?thesis using x assms(5) [OF x(1)] ok by (auto simp: locked_out_def)
  qed
  ultimately show ?thesis using ok assms(6) by (simp add: locked_out_def)
qed

text \<open>Every step that does not activate the account keeps it locked out.\<close>

lemma locked_out_create:
  assumes ok: "locked_out i name w" and trim: "trim_space (us_username r) = us_username r"
  shows "locked_out i name (snd (UserCreate r w))"
proof -
  have run: "UserCreate r w = (fst (UserCreate r w), snd (UserCreate r w))" by simp
  from UserCreate_cases [OF run] show ?thesis
  proof (elim conjE disjE exE)
    fix t
    let ?w = "snd (UserCreate r w)" and ?row = "r\<lparr>us_id := seqs w ''user'' + 1, us_created_at := t\<rparr>"
    assume fresh: "\<not> list_ex (\<lambda>x. us_username x = us_username r) (users (store w))"
      and new: "seqs ?w ''user'' = seqs w ''user'' + 1" "users (store ?w) = users (store w) @ [?row]"
        "sessions (store ?w) = sessions (store w)" "api_tokens (store ?w) = api_tokens (store w)"
    have old: "users_ok w" using ok by (simp add: locked_out_def)
    then have ids: "us_id x \<le> seqs w ''user''" if "x \<in> set (users (store w))" for x
      using that by (simp add: users_ok_def)
    then have unused: "seqs w ''user'' + 1 \<notin> us_id ` set (users (store w))" by fastforce
    obtain x where "x \<in> set (users (store w))" "us_id x = i" using ok by (auto simp: locked_out_def)
    with unused have i: "i \<noteq> seqs w ''user'' + 1" by (metis image_eqI)
    have name: "us_username r \<notin> us_username ` set (users (store w))"
      using fresh by (auto simp: list_ex_iff)
    have "users_ok ?w"
      using old trim unused name ids by (fastforce simp: users_ok_def new)
    then show ?thesis using ok i unfolding locked_out_def new shut_def by auto
  qed (rule locked_out_same [OF _ _ ok])
qed

lemma locked_out_save:
  assumes ok: "locked_out i name w" and x: "x \<in> set (users (store w))" "us_id x = us_id r" "us_username x = us_username r"
    and label: "writes r \<noteq> Activates i"
  shows "locked_out i name (snd (UserSave r w))"
proof -
  let ?w = "snd (UserSave r w)"
  have seqs: "seqs w ''user'' \<le> seqs ?w ''user''"
    using counts_writes(10) [of r] by (simp add: counts_up_def)
  have same: "y = x" if "y \<in> set (users (store w))" "us_id y = us_id r" for y
    using that x ids_inj(1) [OF ok] by (metis inj_onD)
  from UserSave_run show ?thesis
  proof
    assume "store ?w = store w"
    then show ?thesis using locked_out_same [OF _ seqs ok] by simp
  next
    assume new: "store ?w = (store w)\<lparr>users := upd (\<lambda>x. user_live x \<and> us_id x = us_id r) (\<lambda>_. r) (users (store w))\<rparr>"
    have "users (store ?w) = upd (\<lambda>x. user_live x \<and> us_id x = us_id r) (\<lambda>_. r) (users (store w))"
      using new by simp
    then show ?thesis
    proof (rule locked_out_users [OF ok seqs])
      show "us_status r \<noteq> StatusActive" if "y \<in> set (users (store w))" "user_live y \<and> us_id y = us_id r" "us_id y = i" for y
        using label that by (auto simp: writes_def split: if_splits)
      show "shut i name (store ?w)" using new ok by (simp add: shut_def locked_out_def)
    qed (use same x in auto)
  qed
qed

lemma locked_out_status:
  assumes ok: "locked_out i name w" and "status = StatusActive \<longrightarrow> us_id u \<noteq> i"
    and u: "first_row (\<lambda>r. user_live r \<and> us_username r = n) (users (store w)) = Some u"
  shows "locked_out i name (snd (ChangeUserStatus n status actor reason w))"
proof -
  let ?w = "snd (ChangeUserStatus n status actor reason w)"
  have seqs: "seqs w ''user'' \<le> seqs ?w ''user''"
    using counts_operations(1) [of n status actor reason] by (simp add: counts_up_def)
  have "ChangeUserStatus n status actor reason w = (fst (ChangeUserStatus n status actor reason w), ?w)"
    by simp
  from ChangeUserStatus_run [OF this] show ?thesis
  proof
    assume "accounts (store ?w) = accounts (store w)"
    then show ?thesis using locked_out_same [OF _ seqs ok] by simp
  next
    let ?f = "\<lambda>x. let x = x\<lparr>us_status := status\<rparr> in if status = StatusActive then x\<lparr>us_email_verified := True\<rparr> else x"
    assume run: "\<exists>u t. first_row (\<lambda>r. user_live r \<and> us_username r = n) (users (store w)) = Some u \<and>
       users (store ?w) = upd (\<lambda>x. user_live x \<and> us_id x = us_id u) ?f (users (store w)) \<and>
       (status = StatusActive \<longrightarrow> sessions (store ?w) = sessions (store w) \<and>
          api_tokens (store ?w) = api_tokens (store w)) \<and>
       (status \<noteq> StatusActive \<longrightarrow>
          sessions (store ?w) = upd (\<lambda>r. session_live r \<and> ss_user_id r = us_id u)
            (\<lambda>r. r\<lparr>ss_active := False\<rparr>) (sessions (store w)) \<and>
          api_tokens (store ?w) = upd (\<lambda>r. token_live r \<and> ot_owner r = n \<and> ot_revoked_at r = None)
            (\<lambda>r. r\<lparr>ot_revoked_at := Some t\<rparr>) (api_tokens (store w)))"
    have old: "shut i name (store w)" using ok by (simp add: locked_out_def)
    have shut: "shut i name (store ?w)"
    proof (cases "status = StatusActive")
      case True
      then show ?thesis using run old by (auto simp: shut_def)
    next
      case False
      then obtain u :: user_row and t where new: "sessions (store ?w) = upd (\<lambda>r. session_live r \<and> ss_user_id r = us_id u)
            (\<lambda>r. r\<lparr>ss_active := False\<rparr>) (sessions (store w))"
          "api_tokens (store ?w) = upd (\<lambda>r. token_live r \<and> ot_owner r = n \<and> ot_revoked_at r = None)
            (\<lambda>r. r\<lparr>ot_revoked_at := Some t\<rparr>) (api_tokens (store w))"
        using run by blast
      let ?mid = "(store w)\<lparr>sessions := sessions (store ?w)\<rparr>"
      have mid: "shut i name ?mid"
        by (rule shut_sessions [OF old _ trans [OF _ new(1)]]) simp_all
      have "api_tokens (store ?w) = upd (\<lambda>r. token_live r \<and> ot_owner r = n \<and> ot_revoked_at r = None)
            (\<lambda>r. r\<lparr>ot_revoked_at := Some t\<rparr>) (api_tokens ?mid)"
        by (simp add: new(2))
      from shut_tokens [OF mid _ this] show ?thesis by simp
    qed
    have "users (store ?w) = upd (\<lambda>x. user_live x \<and> us_id x = us_id u) ?f (users (store w))"
      using run u by auto
    then show ?thesis
      by (rule locked_out_users [OF ok seqs])
        (use assms(2) shut in \<open>auto simp: Let_def split: if_splits\<close>)
  qed
qed

lemma locked_out_delete:
  assumes ok: "locked_out i name w"
  shows "locked_out i name (snd (DeleteUser j w))"
proof -
  let ?w = "snd (DeleteUser j w)"
  have seqs: "seqs w ''user'' \<le> seqs ?w ''user''"
    using counts_writes(12) [of j] by (simp add: counts_up_def)
  have old: "shut i name (store w)" using ok by (simp add: locked_out_def)
  from DeleteUser_run [of j w] show ?thesis
  proof (elim disjE exE)
    assume "store ?w = store w"
    then show ?thesis using locked_out_same [OF _ seqs ok] by simp
  next
    fix t assume new: "store ?w = (store w)\<lparr>users :=
      upd (\<lambda>x. user_live x \<and> us_id x = j) (\<lambda>x. x\<lparr>us_deleted_at := Some t\<rparr>) (users (store w))\<rparr>"
    then have "users (store ?w) =
        upd (\<lambda>x. user_live x \<and> us_id x = j) (\<lambda>x. x\<lparr>us_deleted_at := Some t\<rparr>) (users (store w))" by simp
    then show ?thesis
      by (rule locked_out_users [OF ok seqs]) (use ok old new in \<open>auto simp: locked_out_def shut_def\<close>)
  qed
qed

lemma shut_intro [stable_intros]:
  "stable (\<lambda>s. users s = us \<and> shut i name s) (deactivate P)"
  "stable (\<lambda>s. users s = us \<and> shut i name s) (revoke_tokens Q t)"
  unfolding deactivate_def revoke_tokens_def
  by (rule stable_modify, auto simp: Let_def intro: shut_sessions shut_tokens)+

lemma stable_branches [stable_intros]:
  "(b \<Longrightarrow> stable I m) \<Longrightarrow> (\<not> b \<Longrightarrow> stable I m') \<Longrightarrow> stable I (if b then m else m')"
  "stable I (found_row r)"
  by (auto simp: found_row_def intro: stable_intros split: option.split)

lemma shut_session:
  assumes "\<And>x. x \<in> set us \<Longrightarrow> us_id x = i \<Longrightarrow> us_status x \<noteq> StatusActive"
  shows "stable (\<lambda>s. users s = us \<and> shut i name s) (CreateActiveUserSession j token refresh e)"
  unfolding CreateActiveUserSession_def
  by (rule stable_tx_keeps)
    (use assms in \<open>auto simp: hoare_def shut_def run_simps UserGetByID_def found_row_def CreateUserSession_def
      Let_def split: option.splits if_splits dest!: first_row_Some\<close>)

lemma shut_token:
  assumes "\<And>x. x \<in> set us \<Longrightarrow> us_username x = name \<Longrightarrow> us_status x \<noteq> StatusActive"
    and "\<And>x. x \<in> set us \<Longrightarrow> trim_space (us_username x) = us_username x"
  shows "stable (\<lambda>s. users s = us \<and> shut i name s) (CreateActiveUserOpenAPIToken E req)"
  unfolding CreateActiveUserOpenAPIToken_def CreateGuarded_def
proof (rule stable_tx_keeps, rule hoare_andThen)
  show "hoare (\<lambda>s. users s = us \<and> shut i name s)
      (andThen (UserGetByUsername (ci_owner req))
        (\<lambda>u. if us_status u \<noteq> StatusActive \<or> us_id u \<noteq> ci_owner_id req then fail HErrDisabled else ret ()))
      (\<lambda>_ s. (users s = us \<and> shut i name s) \<and> trim_space (ci_owner req) \<noteq> name)"
    using assms by (fastforce simp: hoare_def run_simps UserGetByUsername_def found_row_def
      split: option.splits if_splits dest!: first_row_Some)
  show "hoare (\<lambda>s. (users s = us \<and> shut i name s) \<and> trim_space (ci_owner req) \<noteq> name)
      (TokenCreate E req) (\<lambda>_ s. users s = us \<and> shut i name s)"
    by (auto simp: hoare_def run_simps TokenCreate_def insert_api_token_def shut_def Let_def split: if_splits)
qed

lemma shut_operations:
  "stable (\<lambda>s. users s = us \<and> shut i name s) (UpdateUserSessionTokens j token refresh)"
  "stable (\<lambda>s. users s = us \<and> shut i name s) (DeactivateUserSession token)"
  "stable (\<lambda>s. users s = us \<and> shut i name s) (DeactivateAllUserSessions j)"
  "stable (\<lambda>s. users s = us \<and> shut i name s) DeleteExpiredSessions"
  "stable (\<lambda>s. users s = us \<and> shut i name s) (RevokeWithResult owner j)"
  "stable (\<lambda>s. users s = us \<and> shut i name s) (touch_api_token j t ip agent)"
  unfolding UpdateUserSessionTokens_def DeactivateUserSession_def DeactivateAllUserSessions_def
    DeleteExpiredSessions_def RevokeWithResult_def touch_api_token_def
       apply (rule stable_stmt, auto intro: shut_sessions simp: session_live_def)[1]
      apply (intro stable_intros)
     apply (intro stable_intros)
    apply (intro stable_intros stable_modify, auto intro: shut_sessions simp: session_live_def)[1]
   apply (intro stable_intros)
  apply (intro stable_modify, auto intro: shut_tokens simp: token_live_def)[1]
  done

text \<open>Every step that does not activate the account keeps it locked out.\<close>

lemma locked_out_step:
  assumes step: "acct_step E l w w'" and label: "l \<noteq> Activates i" and ok: "locked_out i name w"
  shows "locked_out i name w'"
proof -
  have inactive: "us_status x \<noteq> StatusActive" if "x \<in> set (users (store w))" "us_id x = i" for x
    using ok that by (simp add: locked_out_def)
  obtain a where a: "a \<in> set (users (store w))" "us_id a = i" "us_username a = name"
    using ok by (auto simp: locked_out_def)
  have named: "us_status x \<noteq> StatusActive" if "x \<in> set (users (store w))" "us_username x = name" for x
  proof -
    have "x = a" using that a ids_inj(2) [OF ok] by (metis inj_onD)
    then show ?thesis using inactive a by simp
  qed
  have trimmed: "trim_space (us_username x) = us_username x" if "x \<in> set (users (store w))" for x
    using ok that by (simp add: locked_out_def users_ok_def)
  note keep = locked_out_stable [OF _ _ ok]
  from step show ?thesis
  proof cases
    case acct_other
    then show ?thesis using locked_out_same [OF _ _ ok] by simp
  next
    case (acct_create_user r)
    then show ?thesis using ok locked_out_create by simp
  next
    case (acct_save_user x r)
    then show ?thesis using ok label locked_out_save by simp
  next
    case (acct_status status u n actor reason)
    then show ?thesis using ok label locked_out_status by blast
  next
    case (acct_delete_user j)
    then show ?thesis using ok locked_out_delete by simp
  next
    case (acct_session token refresh j e)
    then show ?thesis using keep [OF shut_session [of "users (store w)" i name]] inactive counts_operations by simp
  next
    case (acct_token req)
    then show ?thesis using keep [OF shut_token [of "users (store w)" name i]] named trimmed counts_token by simp
  qed (simp_all add: keep shut_operations counts_operations)
qed


lemma locked_out_reach:
  "acct_reach E (\<lambda>l. l \<noteq> Activates i) w w' \<Longrightarrow> locked_out i name w \<Longrightarrow> locked_out i name w'"
  by (erule acct_invariant [where I = "locked_out i name"]) (auto intro: locked_out_step)

text \<open>A status other than active locks out.\<close>

lemma ChangeUserStatus_locks_out:
  assumes ok: "users_ok w" and run: "ChangeUserStatus name status actor reason w = (Inr (u, ss, ts), w')"
    and status: "status \<noteq> StatusActive"
  shows "locked_out (us_id u) name w'"
proof -
  have seqs: "seqs w ''user'' \<le> seqs w' ''user''"
    by (rule counts_upD [OF counts_operations(1) run])
  obtain r t where r: "first_row (\<lambda>x. user_live x \<and> us_username x = name) (users (store w)) = Some r"
      "us_id u = us_id r"
      "users (store w') = upd (\<lambda>x. user_live x \<and> us_id x = us_id r) (\<lambda>x. x\<lparr>us_status := status\<rparr>) (users (store w))"
      "sessions (store w') = upd (\<lambda>x. session_live x \<and> ss_user_id x = us_id r) (\<lambda>x. x\<lparr>ss_active := False\<rparr>)
         (sessions (store w))"
      "api_tokens (store w') = upd (\<lambda>x. token_live x \<and> ot_owner x = name \<and> ot_revoked_at x = None)
         (\<lambda>x. x\<lparr>ot_revoked_at := Some t\<rparr>) (api_tokens (store w))"
    using run status
    by (auto simp: ChangeUserStatus_def run_simps UserGetByUsername_def found_row_def freeze_account_def
        deactivate_def revoke_tokens_def set_user_status_def add_status_event_def Let_def split: option.splits)
  have mem: "r \<in> set (users (store w))" "user_live r" "us_username r = name"
    using first_row_Some [OF r(1)] by auto
  have inj: "inj_on us_id (set (users (store w)))" using ok by (simp add: users_ok_def distinct_map)
  have same: "x = r" if "x \<in> set (users (store w))" "us_id x = us_id r" for x
    using that mem(1) inj by (metis inj_onD)
  have "users_ok w'"
    by (rule users_ok_upd [OF ok seqs r(3)]) simp_all
  moreover have "\<exists>x \<in> set (users (store w')). us_id x = us_id u \<and> us_username x = name"
    by (rule bexI [of _ "r\<lparr>us_status := status\<rparr>"]) (use mem r(2) in \<open>auto simp: r(3) in_upd_iff intro: bexI [of _ r]\<close>)
  moreover have "us_status y \<noteq> StatusActive" if y: "y \<in> set (users (store w'))" "us_id y = us_id u" for y
  proof -
    obtain x where x: "x \<in> set (users (store w))"
        "y = (if user_live x \<and> us_id x = us_id r then x\<lparr>us_status := status\<rparr> else x)"
      using y(1) unfolding r(3) in_upd_iff by blast
    then have "x = r" using y(2) r(2) same [OF x(1)] by (auto split: if_splits)
    then show ?thesis using x mem status by simp
  qed
  moreover have "\<not> ss_active y" if y: "y \<in> set (sessions (store w'))" "ss_user_id y = us_id r" "session_live y" for y
  proof -
    obtain x where "y = (if session_live x \<and> ss_user_id x = us_id r then x\<lparr>ss_active := False\<rparr> else x)"
      using y(1) unfolding r(4) in_upd_iff by blast
    then show ?thesis using y by (auto split: if_splits)
  qed
  moreover have "ot_revoked_at y \<noteq> None" if y: "y \<in> set (api_tokens (store w'))" "ot_owner y = name" "token_live y" for y
  proof -
    obtain x where "y = (if token_live x \<and> ot_owner x = name \<and> ot_revoked_at x = None
        then x\<lparr>ot_revoked_at := Some t\<rparr> else x)"
      using y(1) unfolding r(5) in_upd_iff by blast
    then show ?thesis using y by (auto split: if_splits)
  qed
  ultimately show ?thesis using r(2) by (simp add: locked_out_def shut_def)
qed


text \<open>What a locked-out account cannot do.\<close>

lemma ValidateAccessToken_row:
  assumes "ValidateAccessToken E token w = (Inr p, w')"
  obtains c ss u where "JwtValidateAccessToken (he_jwt E) (clock w) (trim_space token) = Inr c"
    and "ss \<in> set (sessions (store w))" "session_open (clock w) ss" "ss_token ss = trim_space token"
    and "u \<in> set (users (store w))" "user_live u" "us_id u = ss_user_id ss" "us_status u = StatusActive"
      "us_id u = jw_user_id c" "us_username u = trim_space (jw_username c)"
    and "p = \<lparr>tp_user_id = us_id u, tp_username = us_username u, tp_email = us_email u,
              tp_department = us_department u\<rparr>" "store w' = store w"
  using assms
  by (auto simp: ValidateAccessToken_def run_simps GetUserSessionByToken_def
      UserGetByID_def Let_def split: if_splits dest!: first_row_Some)

lemma TokenValidate_row:
  assumes "TokenValidate E token ip agent w = (Inr p, w')"
  shows "\<exists>r \<in> set (api_tokens (store w)). token_live r \<and> ot_revoked_at r = None \<and>
     ot_hash r = he_openapi_hash E (trim_space token) \<and> op_username p = ot_owner r \<and> op_user_id p = ot_owner_id r \<and>
     (\<forall>e. ot_expires_at r = Some e \<longrightarrow> clock w \<le> e)"
proof -
  let ?row = "first_row (\<lambda>r. token_live r \<and> ot_hash r = he_openapi_hash E (trim_space token)) (api_tokens (store w))"
  obtain tk where tk: "?row = Some tk"
    using assms by (cases ?row) (auto simp: TokenValidate_def run_simps Let_def next_world_def)
  then have "ot_revoked_at tk = None \<and> op_username p = ot_owner tk \<and> op_user_id p = ot_owner_id tk \<and>
      (\<forall>e. ot_expires_at tk = Some e \<longrightarrow> clock w \<le> e)"
    using assms by (auto simp: TokenValidate_def run_simps Let_def next_world_def split: if_splits)
  then show ?thesis using first_row_Some [OF tk] by blast
qed

text \<open>
  C19. After a change of an account's status to anything but active has succeeded, no interleaving of
  writes by other requests that does not make the account active again lets the user in: no access
  token passes as this user, no OpenAPI token of the name is accepted and no session is issued.
\<close>

theorem disabled_account_locked_out:
  assumes "users_ok w0" and "ChangeUserStatus name status actor reason w0 = (Inr (u, ss, ts), w1)"
    and "status \<noteq> StatusActive" and "acct_reach E (\<lambda>l. l \<noteq> Activates (us_id u)) w1 w"
  shows "(\<forall>token p w'. ValidateAccessToken E token w = (Inr p, w') \<longrightarrow> tp_user_id p \<noteq> us_id u) \<and>
     (\<forall>token ip agent p w'. TokenValidate E token ip agent w = (Inr p, w') \<longrightarrow> op_username p \<noteq> name) \<and>
     (\<forall>token refresh e w'. CreateActiveUserSession (us_id u) token refresh e w \<noteq> (Inr (), w'))"
proof -
  have "locked_out (us_id u) name w"
    by (rule locked_out_reach [OF assms(4) ChangeUserStatus_locks_out [OF assms(1-3)]])
  then have shut: "shut (us_id u) name (store w)" and
    inactive: "x \<in> set (users (store w)) \<Longrightarrow> us_id x = us_id u \<Longrightarrow> us_status x \<noteq> StatusActive" for x
    by (simp_all add: locked_out_def)
  have "tp_user_id p \<noteq> us_id u" if "ValidateAccessToken E token w = (Inr p, w')" for token p w'
    using that inactive by (elim ValidateAccessToken_row) force
  moreover have "op_username p \<noteq> name" if "TokenValidate E token ip agent w = (Inr p, w')" for token ip agent p w'
    using TokenValidate_row [OF that] shut by (auto simp: shut_def)
  moreover have "CreateActiveUserSession (us_id u) token refresh e w \<noteq> (Inr (), w')" for token refresh e w'
    using inactive by (auto simp: CreateActiveUserSession_def run_simps UserGetByID_def split: if_splits
        dest!: first_row_Some)
  ultimately show ?thesis by blast
qed

text \<open>Applied to the suspension of one user, with a later attempt to open a session.\<close>

theorem disabled_account_locked_out_witness:
  "\<exists>w. acct_reach demo_env (\<lambda>l. l \<noteq> Activates 7)
       (snd (ChangeUserStatus ''bob'' ''disabled'' ''root'' ''left'' (demo_hr [demo_session] (101 * second)))) w \<and>
     (\<forall>p w'. ValidateAccessToken demo_env ''access-100'' w = (Inr p, w') \<longrightarrow> tp_user_id p \<noteq> 7)"
proof -
  let ?w0 = "demo_hr [demo_session] (101 * second)"
  let ?op = "ChangeUserStatus ''bob'' ''disabled'' ''root'' ''left'' ?w0"
  have ok: "users_ok ?w0" by code_simp
  have "map_sum id (us_id \<circ> fst) (fst ?op) = Inr 7" by code_simp
  then obtain u ss ts where run: "?op = (Inr (u, ss, ts), snd ?op)" and u: "us_id u = 7"
    by (cases ?op; cases "fst ?op") auto
  have path: "acct_reach demo_env (\<lambda>l. l \<noteq> Activates 7) (snd ?op)
      (snd (CreateActiveUserSession 7 ''t'' ''r'' (3700 * second) (snd ?op)))"
    by (rule acct_more [OF acct_refl acct_session]) simp
  have "\<forall>token p w'. ValidateAccessToken demo_env token
      (snd (CreateActiveUserSession 7 ''t'' ''r'' (3700 * second) (snd ?op))) = (Inr p, w') \<longrightarrow> tp_user_id p \<noteq> 7"
    using disabled_account_locked_out [OF ok run _ path [folded u]] u by simp
  with path show ?thesis by blast
qed

text \<open>
  Who passes with an access token has an open session with this token, and the account of the
  session is live and active, the one the token was signed for and still has the name in the token.
\<close>

theorem ValidateAccessToken_sound:
  assumes "ValidateAccessToken E token w = (Inr p, w')"
  shows "\<exists>c ss u. JwtValidateAccessToken (he_jwt E) (clock w) (trim_space token) = Inr c \<and>
     ss \<in> set (sessions (store w)) \<and> session_open (clock w) ss \<and> ss_token ss = trim_space token \<and>
     u \<in> set (users (store w)) \<and> user_live u \<and> us_status u = StatusActive \<and> us_id u = ss_user_id ss \<and>
     us_id u = jw_user_id c \<and> us_username u = trim_space (jw_username c) \<and>
     tp_user_id p = us_id u \<and> tp_username p = us_username u \<and> store w' = store w"
  using assms by (elim ValidateAccessToken_row) fastforce

theorem ValidateAccessToken_sound_witness:
  "\<exists>p. fst (ValidateAccessToken demo_env '' access-100'' (demo_hr [demo_session] (101 * second))) = Inr p \<and>
     tp_user_id p = 7 \<and> session_open (101 * second) demo_session"
proof -
  let ?w = "demo_hr [demo_session] (101 * second)"
  let ?op = "ValidateAccessToken demo_env '' access-100'' ?w"
  have "map_sum id tp_user_id (fst ?op) = Inr 7" by code_simp
  then obtain p where p: "?op = (Inr p, snd ?op)" "tp_user_id p = 7"
    by (cases ?op; cases "fst ?op") auto
  from ValidateAccessToken_sound [OF p(1)] have "session_open (101 * second) demo_session" by auto
  with p show ?thesis by (metis fst_conv)
qed

section \<open>A stale profile undoes a suspension\<close>

text \<open>
  \<open>UpdateUser\<close> saves the whole row it read: when the account is suspended between its read and
  its write, the write makes it active again, with no event of the state and no administrator.
\<close>

theorem stale_profile_update_reactivates:
  assumes "users_ok w0" and "UserGetByUsername name w0 = (Inr u, w1)" and "us_status u = StatusActive"
    and "ChangeUserStatus name status actor reason w1 = (Inr (v, ss, ts), w2)" and "status \<noteq> StatusActive"
    and "UserSave (u\<lparr>us_nickname := nick\<rparr>) w2 = (Inr (), w3)"
  shows "(\<forall>x \<in> set (users (store w2)). us_id x = us_id u \<longrightarrow> us_status x = status) \<and>
     u\<lparr>us_nickname := nick\<rparr> \<in> set (users (store w3)) \<and> us_id v = us_id u \<and>
     status_events (store w3) = status_events (store w2)"
proof -
  have u: "first_row (\<lambda>r. user_live r \<and> us_username r = name) (users (store w0)) = Some u"
    and same: "store w1 = store w0"
    using assms(2) by (auto simp: UserGetByUsername_def run_simps)
  have row: "u \<in> set (users (store w0))" "user_live u" "us_username u = name" using first_row_Some [OF u] by auto
  have inj: "inj_on us_id (set (users (store w0)))" using assms(1) by (simp add: users_ok_def distinct_map)
  have v: "us_id v = us_id u"
    and w2: "users (store w2) = upd (\<lambda>x. user_live x \<and> us_id x = us_id u) (\<lambda>x. x\<lparr>us_status := status\<rparr>) (users (store w0))"
    using assms(4,5) u unfolding same [symmetric]
    by (auto simp: ChangeUserStatus_def run_simps UserGetByUsername_def freeze_account_def
        deactivate_def revoke_tokens_def set_user_status_def add_status_event_def Let_def)
  have w3: "users (store w3) = upd (\<lambda>x. user_live x \<and> us_id x = us_id u) (\<lambda>_. u\<lparr>us_nickname := nick\<rparr>) (users (store w2))"
    "status_events (store w3) = status_events (store w2)"
    using assms(6) by (auto simp: UserSave_def run_simps)
  have "us_status y = status" if y: "y \<in> set (users (store w2))" "us_id y = us_id u" for y
  proof -
    obtain x where x: "x \<in> set (users (store w0))"
        "y = (if user_live x \<and> us_id x = us_id u then x\<lparr>us_status := status\<rparr> else x)"
      using y(1) unfolding w2 in_upd_iff by blast
    then have "x = u" using y(2) row(1) inj by (metis inj_onD user_row.select_convs(1) user_row.simps)
    then show ?thesis using x row by simp
  qed
  moreover have "u\<lparr>us_status := status\<rparr> \<in> set (users (store w2))"
    unfolding w2 in_upd_iff by (rule bexI [OF _ row(1)]) (simp add: row)
  then have "u\<lparr>us_nickname := nick\<rparr> \<in> set (users (store w3))"
    unfolding w3 in_upd_iff by (rule bexI [rotated]) (use row(2) in \<open>simp add: user_live_def\<close>)
  ultimately show ?thesis using v w3(2) by simp
qed

theorem stale_profile_update_reactivates_witness:
  "demo_user\<lparr>us_nickname := ''b''\<rparr> \<in> set (users (store (snd (UserSave (demo_user\<lparr>us_nickname := ''b''\<rparr>)
       (snd (ChangeUserStatus ''bob'' ''disabled'' ''root'' ''left'' (demo_hr [demo_session] (101 * second)))))))) \<and>
   us_status (demo_user\<lparr>us_nickname := ''b''\<rparr>) = StatusActive"
proof -
  let ?w0 = "demo_hr [demo_session] (101 * second)"
  have ok: "users_ok ?w0" by code_simp
  have read: "UserGetByUsername ''bob'' ?w0 = (Inr demo_user, ?w0)"
    by (simp add: UserGetByUsername_def calm_simps demo_hr_def found_row_def demo_user_def user_live_def)
  let ?op = "ChangeUserStatus ''bob'' ''disabled'' ''root'' ''left'' ?w0"
  have "isl (fst ?op) = False" by code_simp
  then obtain v ss ts where run: "?op = (Inr (v, ss, ts), snd ?op)"
    by (cases ?op; cases "fst ?op") auto
  let ?save = "UserSave (demo_user\<lparr>us_nickname := ''b''\<rparr>) (snd ?op)"
  have "fst ?save = Inr ()" by code_simp
  then have save: "?save = (Inr (), snd ?save)" by (metis prod.collapse)
  have active: "us_status demo_user = StatusActive" by (simp add: demo_user_def)
  have "demo_user\<lparr>us_nickname := ''b''\<rparr> \<in> set (users (store (snd ?save)))"
    using stale_profile_update_reactivates [OF ok read active run _ save] by simp
  with active show ?thesis by simp
qed

end
