(* ===== verification/HrSessionProps.thy ===== *)
theory HrSessionProps
  imports HrProps
begin

text \<open>
  The life of session tokens: a logout is final, a refresh token is used once, and two logins of a
  user in the same second collide.
\<close>

section \<open>Tokens that are spent\<close>

text \<open>
  No open session has the value in a column. Every write but the issue of a session with this very
  value keeps that, in the column of access tokens and in that of refresh tokens.
\<close>

definition spent :: "(session_row \<Rightarrow> gostr) \<Rightarrow> gostr \<Rightarrow> hr_db \<Rightarrow> bool" where
  "spent col v s \<longleftrightarrow> (\<forall>x \<in> set (sessions s). session_live x \<and> ss_active x \<longrightarrow> col x \<noteq> v)"

definition token_column :: "(session_row \<Rightarrow> gostr) \<Rightarrow> (gostr \<times> gostr \<Rightarrow> gostr) \<Rightarrow> bool" where
  "token_column col pick \<longleftrightarrow> col = ss_token \<and> pick = fst \<or> col = ss_refresh_token \<and> pick = snd"

lemma spent_upd:
  assumes "spent col v s" and "sessions s' = upd P f (sessions s)"
    and "\<And>x. P x \<Longrightarrow> session_live (f x) \<Longrightarrow> ss_active (f x) \<Longrightarrow> col (f x) = v \<Longrightarrow>
           session_live x \<and> ss_active x \<and> col x = v"
  shows "spent col v s'"
proof -
  have "col y \<noteq> v" if y: "y \<in> set (sessions s')" "session_live y" "ss_active y" for y
  proof -
    obtain x where x: "x \<in> set (sessions s)" "y = (if P x then f x else x)"
      using y(1) unfolding assms(2) in_upd_iff by blast
    then show ?thesis using y assms(1) assms(3) [of x] unfolding spent_def by (cases "P x") auto
  qed
  then show ?thesis by (simp add: spent_def)
qed

lemma spent_same: "sessions s' = sessions s \<Longrightarrow> spent col v s \<Longrightarrow> spent col v s'"
  by (simp add: spent_def)

lemma spent_fields [simp]:
  "spent col v (s\<lparr>users := x1\<rparr>) = spent col v s" "spent col v (s\<lparr>api_tokens := x2\<rparr>) = spent col v s"
  "spent col v (s\<lparr>status_events := x3\<rparr>) = spent col v s"
  by (simp_all add: spent_def)

text \<open>The writes that leave the sessions alone.\<close>

lemma spent_others [stable_intros]:
  "stable (spent col v) (revoke_tokens Q t)" "stable (spent col v) (set_user_status u st)"
  "stable (spent col v) (add_status_event ev)" "stable (spent col v) (UserSave r)"
  "stable (spent col v) (UserCreate r)" "stable (spent col v) (DeleteUser i)"
  "stable (spent col v) (touch_api_token i t ip ag)" "stable (spent col v) (insert_api_token tk)"
  "stable (spent col v) (signed e k)" "stable (spent col v) (UserGetByID i)"
  "stable (spent col v) (UserGetByUsername n)"
  unfolding revoke_tokens_def set_user_status_def add_status_event_def UserSave_def UserCreate_def
    DeleteUser_def touch_api_token_def insert_api_token_def Let_def signed_def UserGetByID_def UserGetByUsername_def
  by (auto intro!: stable_intros stable_stmt stable_modify split: sum.split)

lemma spent_writes [stable_intros]:
  assumes "token_column col pick"
  shows "stable (spent col v) (deactivate P)" "stable (spent col v) DeleteExpiredSessions"
    "pick (token, refresh) \<noteq> v \<Longrightarrow> stable (spent col v) (CreateUserSession i token refresh e ag ip)"
    "pick (token, refresh) \<noteq> v \<Longrightarrow> stable (spent col v) (UpdateUserSessionTokens i token refresh)"
proof -
  have col: "col (x\<lparr>ss_active := b\<rparr>) = col x" "col (x\<lparr>ss_deleted_at := d\<rparr>) = col x"
    "col (x\<lparr>ss_token := token, ss_refresh_token := refresh\<rparr>) = pick (token, refresh)" for x b d
    using assms by (auto simp: token_column_def)
  show "stable (spent col v) (deactivate P)"
    unfolding deactivate_def Let_def by (rule stable_modify) (auto elim!: spent_upd)
  show "stable (spent col v) DeleteExpiredSessions"
    unfolding DeleteExpiredSessions_def
    by (intro stable_intros stable_modify) (auto elim!: spent_upd simp: session_live_def)
  show "stable (spent col v) (CreateUserSession i token refresh e ag ip)" if "pick (token, refresh) \<noteq> v"
    unfolding CreateUserSession_def Let_def using assms that
    by (intro stable_intros stable_stmt) (auto simp: spent_def token_column_def)
  show "stable (spent col v) (UpdateUserSessionTokens i token refresh)" if "pick (token, refresh) \<noteq> v"
    unfolding UpdateUserSessionTokens_def using that
    by (intro stable_stmt) (auto elim!: spent_upd simp: col)
qed

lemma spent_operations:
  assumes "token_column col pick"
  shows "stable (spent col v) (ChangeUserStatus n st actor reason)" "stable (spent col v) (DeactivateUserSession token)"
    "stable (spent col v) (DeactivateAllUserSessions i)" "stable (spent col v) (CreateActiveUserOpenAPIToken E req)"
    "stable (spent col v) (RevokeWithResult owner i)"
    "pick (token, refresh) \<noteq> v \<Longrightarrow> stable (spent col v) (CreateActiveUserSession i token refresh e)"
  unfolding ChangeUserStatus_def freeze_account_def DeactivateUserSession_def DeactivateAllUserSessions_def
    CreateActiveUserOpenAPIToken_def CreateGuarded_def TokenCreate_def RevokeWithResult_def
    CreateActiveUserSession_def Let_def
  by (auto intro!: stable_intros spent_writes [OF assms] split: prod.split)

lemma spent_step:
  assumes "acct_step E l w w'" and col: "token_column col pick"
    and "\<And>t r. l = Issues t r \<Longrightarrow> pick (t, r) \<noteq> v" and "spent col v (store w)"
  shows "spent col v (store w')"
  using assms(1)
proof cases
  case acct_other
  then show ?thesis using assms(4) by (auto simp: accounts_def intro: spent_same)
qed (use assms(3,4) in \<open>simp_all add: stable_def [THEN iffD1, rule_format] spent_others spent_writes [OF col]
      spent_operations [OF col]\<close>)

lemma spent_reach:
  assumes "acct_reach E allowed w w'" and "token_column col pick"
    and "\<And>t r. allowed (Issues t r) \<Longrightarrow> pick (t, r) \<noteq> v" and "spent col v (store w)"
  shows "spent col v (store w')"
  by (rule acct_invariant [OF assms(1), where I = "\<lambda>w. spent col v (store w)"])
    (use assms spent_step in blast)+


section \<open>Logout and refresh\<close>

lemma InvalidateToken_run:
  "InvalidateToken E p i n tk reason w = (r, w') \<Longrightarrow> accounts (store w') = accounts (store w)"
  by (auto simp: InvalidateToken_def publish_notice_def accounts_def split: if_splits)

lemma LogoutUser_run:
  assumes "LogoutUser E token w = (Inr (), w')"
  shows "sessions (store w') = upd (\<lambda>r. session_live r \<and> ss_token r = trim_space token \<and> ss_active r)
      (\<lambda>r. r\<lparr>ss_active := False\<rparr>) (sessions (store w))"
proof -
  obtain c :: jwt_claims and w1 where c: "DeactivateUserSession (trim_space token) w = (Inr (), w1)"
    and rest: "(case he_publish E of None \<Rightarrow> ret () | Some p \<Rightarrow>
      andThen (attempt (InvalidateToken E p (jw_user_id c) (jw_username c) (trim_space token) ''logout''))
        (\<lambda>_. ret ())) w1 = (Inr () :: hr_error + unit, w')"
    using assms unfolding LogoutUser_def Let_def
    by (simp add: run_simps del: attempt_Inr split: if_splits) blast
  have "sessions (store w') = sessions (store w1)"
    using rest by (auto simp: run_simps accounts_def split: option.splits dest: InvalidateToken_run)
  with c show ?thesis
    by (auto simp: DeactivateUserSession_def deactivate_def run_simps Let_def split: if_splits)
qed

text \<open>
  C20. A logout is final: once it has succeeded, the token is refused by every later check, whatever
  requests ran in between, unless this very token is issued again.
\<close>

theorem logout_final:
  assumes "LogoutUser E token w0 = (Inr (), w1)"
    and "acct_reach E (\<lambda>l. \<forall>r. l \<noteq> Issues (trim_space token) r) w1 w"
  shows "ValidateAccessToken E token w \<noteq> (Inr p, w')"
proof
  assume valid: "ValidateAccessToken E token w = (Inr p, w')"
  note new = LogoutUser_run [OF assms(1)]
  have "spent ss_token (trim_space token) (store w1)"
    unfolding spent_def
  proof (intro ballI impI)
    fix y assume y: "y \<in> set (sessions (store w1))" "session_live y \<and> ss_active y"
    obtain x where "y = (if session_live x \<and> ss_token x = trim_space token \<and> ss_active x
        then x\<lparr>ss_active := False\<rparr> else x)"
      using y(1) unfolding new in_upd_iff by blast
    then show "ss_token y \<noteq> trim_space token" using y(2) by (auto split: if_splits)
  qed
  then have "spent ss_token (trim_space token) (store w)"
    using spent_reach [OF assms(2), of ss_token fst] by (auto simp: token_column_def)
  with valid show False
    by (elim ValidateAccessToken_row) (auto simp: spent_def session_open_def)
qed

text \<open>
  C21. A refresh token is used once: after a refresh has succeeded with it and returned another one,
  it is refused by every later refresh, unless this very token is issued again. The table has the
  unique index on refresh tokens.
\<close>

theorem refresh_token_used_once:
  assumes "distinct (map ss_refresh_token (sessions (store w0)))"
    and "RefreshToken E refresh w0 = (Inr (token', refresh'), w1)" and "refresh' \<noteq> refresh"
    and "acct_reach E (\<lambda>l. \<forall>t. l \<noteq> Issues t refresh) w1 w"
  shows "RefreshToken E refresh w \<noteq> (Inr r, w')"
proof
  assume again: "RefreshToken E refresh w = (Inr r, w')"
  obtain ss where ss: "ss \<in> set (sessions (store w0))" "session_open (clock w0) ss" "ss_refresh_token ss = refresh"
    and new: "sessions (store w1) = upd (\<lambda>x. session_live x \<and> ss_id x = ss_id ss)
               (\<lambda>x. x\<lparr>ss_token := token', ss_refresh_token := refresh'\<rparr>) (sessions (store w0))"
    using assms(2)
    by (auto simp: RefreshToken_def Let_def run_simps GetUserSessionByRefreshToken_def UserGetByID_def
        UpdateUserSessionTokens_def split: if_splits dest!: first_row_Some)
  have only: "x = ss" if "x \<in> set (sessions (store w0))" "ss_refresh_token x = refresh" for x
    using that ss assms(1) by (metis distinct_map inj_onD)
  have "spent ss_refresh_token refresh (store w1)"
    unfolding spent_def
  proof (intro ballI impI)
    fix y assume y: "y \<in> set (sessions (store w1))" "session_live y \<and> ss_active y"
    obtain x where x: "x \<in> set (sessions (store w0))" "y = (if session_live x \<and> ss_id x = ss_id ss
        then x\<lparr>ss_token := token', ss_refresh_token := refresh'\<rparr> else x)"
      using y(1) unfolding new in_upd_iff by blast
    show "ss_refresh_token y \<noteq> refresh"
      using x y only [OF x(1)] ss(2) assms(3) by (auto simp: session_open_def split: if_splits)
  qed
  then have "spent ss_refresh_token refresh (store w)"
    using spent_reach [OF assms(4), of ss_refresh_token snd] by (auto simp: token_column_def)
  with again show False
    by (auto simp: RefreshToken_def run_simps GetUserSessionByRefreshToken_def spent_def session_open_def
        dest!: first_row_Some)
qed

section \<open>Two logins in one second\<close>

text \<open>Claims are cut to seconds and carry nothing else that tells two tokens of a user apart.\<close>

lemma NewNumericDate_add: "NewNumericDate (t + k * second) = NewNumericDate t + k * second"
  by (simp add: NewNumericDate_def)

lemma access_token_same_second:
  assumes "NewNumericDate t' = NewNumericDate t" and "0 < t" and "0 < t'"
    and "0 < je_access_expire J" and "je_access_expire J * second < 2 ^ 63"
  shows "GenerateAccessTokenWithContext J cx t' = GenerateAccessTokenWithContext J cx t"
proof -
  have "wrap64 (je_access_expire J * second) = je_access_expire J * second"
    by (rule wrap64_id) (use assms(4,5) in simp_all)
  then have ends: "NewNumericDate (expire_after (je_access_expire J) t') = NewNumericDate (expire_after (je_access_expire J) t)"
    "expire_after (je_access_expire J) t \<noteq> 0" "expire_after (je_access_expire J) t' \<noteq> 0"
    using assms NewNumericDate_add by (simp_all add: expire_after_def)
  show ?thesis
    using assms(1) ends by (simp add: GenerateAccessTokenWithContext_def generateTokenWithContext_def
        generateTokenWithSubject_def subject_claims_def)
qed

text \<open>
  Two logins of one user in the same second collide: the second computes the access token of the
  first, which the unique index of the session table refuses, so that the login fails although the
  account and the password are right.
\<close>

theorem same_second_login_fails:
  assumes "IssueTokensForUser E u remember w0 = (Inr (token, refresh), w1)"
    and "sessions (store w) = sessions (store w1)"
    and "NewNumericDate (clock w) = NewNumericDate (clock w0)" and "0 < clock w0" and "0 < clock w"
    and "0 < je_access_expire (he_jwt E)" and "je_access_expire (he_jwt E) * second < 2 ^ 63"
  shows "\<exists>e w'. IssueTokensForUser E u remember' w = (Inl e, w')"
proof (rule ccontr)
  let ?gen = "GenerateAccessTokenWithContext (he_jwt E) (buildUserTokenContext u)"
  assume "\<not> ?thesis"
  then obtain token' refresh' w' where again: "IssueTokensForUser E u remember' w = (Inr (token', refresh'), w')"
    by (metis surj_pair sum.exhaust)
  have first: "?gen (clock w0) = Inr token" "\<exists>x \<in> set (sessions (store w1)). ss_token x = token"
    using assms(1) by (auto simp: IssueTokensForUser_def saveUserSessionWithExpiresAt_def CreateActiveUserSession_def
        CreateUserSession_def UserGetByID_def run_simps Let_def split: if_splits)
  have second: "?gen (clock w) = Inr token'" "\<not> (\<exists>x \<in> set (sessions (store w)). ss_token x = token')"
    using again by (auto simp: IssueTokensForUser_def saveUserSessionWithExpiresAt_def CreateActiveUserSession_def
        CreateUserSession_def UserGetByID_def run_simps Let_def session_clash_def list_ex_iff split: if_splits)
  have "token' = token"
    using first(1) second(1) access_token_same_second [OF assms(3-7), of "buildUserTokenContext u"] by simp
  with first(2) second(2) assms(2) show False by simp
qed

section \<open>Applications\<close>

theorem logout_final_witness:
  "fst (LogoutUser demo_env ''access-100'' (demo_hr [demo_session] (101 * second))) = Inr () \<and>
   (\<forall>p w'. ValidateAccessToken demo_env ''access-100''
      (snd (DeactivateAllUserSessions 8 (snd (LogoutUser demo_env ''access-100'' (demo_hr [demo_session] (101 * second))))))
      \<noteq> (Inr p, w'))"
proof -
  let ?op = "LogoutUser demo_env ''access-100'' (demo_hr [demo_session] (101 * second))"
  have "fst ?op = Inr ()" by code_simp
  then have run: "?op = (Inr (), snd ?op)" by (metis prod.collapse)
  have "acct_reach demo_env (\<lambda>l. \<forall>r. l \<noteq> Issues (trim_space ''access-100'') r) (snd ?op)
      (snd (DeactivateAllUserSessions 8 (snd ?op)))"
    by (rule acct_more [OF acct_refl acct_deactivate]) simp
  from logout_final [OF run this] run show ?thesis by (metis fst_conv)
qed

theorem refresh_token_used_once_witness:
  "fst (RefreshToken demo_env ''refresh-100'' (demo_hr [demo_session] (101 * second))) = Inr (''access-101'', ''refresh-101'') \<and>
   (\<forall>r w'. RefreshToken demo_env ''refresh-100''
      (snd (RefreshToken demo_env ''refresh-100'' (demo_hr [demo_session] (101 * second)))) \<noteq> (Inr r, w'))"
proof -
  let ?w = "demo_hr [demo_session] (101 * second)"
  let ?op = "RefreshToken demo_env ''refresh-100'' ?w"
  have fst: "fst ?op = Inr (''access-101'', ''refresh-101'')" by code_simp
  then have run: "?op = (Inr (''access-101'', ''refresh-101''), snd ?op)" by (metis prod.collapse)
  have "distinct (map ss_refresh_token (sessions (store ?w)))" by simp
  from refresh_token_used_once [OF this run _ acct_refl] fst show ?thesis by simp
qed

theorem same_second_login_fails_witness:
  "fst (IssueTokensForUser demo_env demo_user False (demo_hr [] (101 * second + 1))) = Inr (''access-101'', ''refresh-101'') \<and>
   (\<exists>e w'. IssueTokensForUser demo_env demo_user False
      ((snd (IssueTokensForUser demo_env demo_user False (demo_hr [] (101 * second + 1))))\<lparr>clock := 101 * second + 7\<rparr>)
      = (Inl e, w'))"
proof -
  let ?op = "IssueTokensForUser demo_env demo_user False (demo_hr [] (101 * second + 1))"
  have fst: "fst ?op = Inr (''access-101'', ''refresh-101'')" by code_simp
  then have run: "?op = (Inr (''access-101'', ''refresh-101''), snd ?op)" by (metis prod.collapse)
  have "\<exists>e w'. IssueTokensForUser demo_env demo_user False ((snd ?op)\<lparr>clock := 101 * second + 7\<rparr>) = (Inl e, w')"
    by (rule same_second_login_fails [OF run]) (simp_all add: NewNumericDate_def demo_env_def)
  with fst show ?thesis by blast
qed

end
