(* ===== verification/HrUserProps.thy ===== *)
theory HrUserProps
  imports HrUsers
begin

text \<open>
  What the user codes guarantee: whatever a third party calls a user, the candidate computed from it
  is a code the service accepts.
\<close>

section \<open>Characters of a code\<close>

lemma code_char_plain: "code_char c \<Longrightarrow> plain_char c"
  by (auto simp: code_char_def plain_char_def Let_def)

lemma code_char_lower: "code_char c \<Longrightarrow> lower_char c = c"
  by (auto simp: code_char_def lower_char_def Let_def)

lemma code_letter_char: "code_letter c \<Longrightarrow> code_char c \<and> c \<noteq> underscore"
  by (auto simp: code_char_def code_letter_def Let_def)

lemma code_trim_space: "list_all code_char cs \<Longrightarrow> trim_space cs = cs"
  by (intro trim_space_plain) (cases cs, auto simp: list_all_iff intro: code_char_plain)

lemma code_to_lower: "list_all code_char cs \<Longrightarrow> to_lower cs = cs"
  unfolding to_lower_def by (induction cs) (auto simp: code_char_lower)

lemma set_trim_char: "set (trim_char c s) \<subseteq> set s"
  by (auto simp: trim_char_def trim_right_char_def dest!: set_dropWhileD)

lemma code_trim_char: "list_all code_char cs \<Longrightarrow> list_all code_char (trim_char c cs)"
  using set_trim_char [of c cs] by (auto simp: list_all_iff)

lemma code_cleaner: "list_all code_char (userCodeCleaner b cs)"
  by (induction b cs rule: userCodeCleaner.induct) (auto simp: code_char_def)

lemma code_replace_double: "list_all code_char cs \<Longrightarrow> list_all code_char (replace_double cs)"
  by (induction cs rule: replace_double.induct) auto

lemma code_single_underscores: "list_all code_char cs \<Longrightarrow> list_all code_char (single_underscores cs)"
proof (induction cs rule: single_underscores.induct)
  case (1 cs)
  then show ?case by (subst single_underscores.simps) (auto simp: code_replace_double)
qed

text \<open>A trim of underscores leaves a word that starts with a letter its first letter.\<close>

lemma trim_char_letter:
  assumes "cs \<noteq> []" and "code_letter (hd cs)"
  shows "trim_char underscore cs \<noteq> [] \<and> hd (trim_char underscore cs) = hd cs \<and>
     length (trim_char underscore cs) \<le> length cs"
proof -
  have "dropWhile (\<lambda>x. x = underscore) cs = cs"
    using assms code_letter_char [of "hd cs"] by (cases cs) auto
  then have t: "trim_char underscore cs = trim_right_char underscore cs" by (simp add: trim_char_def)
  have "dropWhile (\<lambda>x. x = underscore) (rev cs) \<noteq> []"
    using assms code_letter_char [of "hd cs"] by (auto simp: dropWhile_eq_Nil_conv intro!: bexI [of _ "hd cs"])
  then have "trim_char underscore cs \<noteq> []" by (simp add: t trim_right_char_def)
  moreover obtain zs where "cs = trim_char underscore cs @ zs"
    using prefix_trim_right_char [of underscore cs] by (auto simp: t prefix_def)
  ultimately show ?thesis by (metis hd_append2 length_append le_add1)
qed

section \<open>The candidate\<close>

definition started :: "gostr \<Rightarrow> bool" where
  "started code \<longleftrightarrow> code \<noteq> [] \<and> code_letter (hd code) \<and> list_all code_char code"

lemma started_cut:
  assumes "started code"
  defines "short \<equiv> if length code > 32 then trim_char underscore (take 32 code) else code"
  shows "started short" and "length short \<le> 32"
proof -
  have take: "take 32 code \<noteq> []" "hd (take 32 code) = hd code" "list_all code_char (take 32 code)"
    using assms(1) by (auto simp: started_def list_all_iff dest: in_set_takeD)
  show "started short" "length short \<le> 32"
    using assms(1) take trim_char_letter [of "take 32 code"] code_trim_char [OF take(3)]
    by (auto simp: short_def started_def)
qed

lemma started_pattern:
  assumes "started code" and "length code \<le> 32"
  shows "userCodePattern (if length code < 3 then code @ replicate (3 - length code) (CHR ''0'') else code)"
  using assms by (auto simp: userCodePattern_def started_def list_all_iff code_char_def hd_append)

text \<open>A reserved code fits the suffix, keeps its letters, and no reserved code ends in the suffix.\<close>

lemma reserved_plain:
  "list_all (\<lambda>c. c \<noteq> [] \<and> code_letter (hd c) \<and> list_all code_char c \<and> length c \<le> 27 \<and> last c \<noteq> underscore \<and>
     take 5 (rev c) \<noteq> rev ''_user'') reservedUserCodes"
  by code_simp

lemma reserved_candidate:
  assumes "code \<in> set reservedUserCodes"
  shows "ValidateUserCode (trimUserCodeForSuffix code ''_user'' @ ''_user'') = None"
proof -
  have code: "code \<noteq> []" "code_letter (hd code)" "list_all code_char code" "length code \<le> 27" "last code \<noteq> underscore"
    using assms reserved_plain by (auto simp: list_all_iff)
  let ?new = "code @ ''_user''"
  have "trimUserCodeForSuffix code ''_user'' = code"
    using code code_letter_char [of "hd code"] by (simp add: trimUserCodeForSuffix_def Let_def trim_char_fix)
  moreover have chars: "list_all code_char ?new" using code(3) by (simp add: code_char_def)
  moreover have "userCodePattern ?new" using code chars by (simp add: userCodePattern_def)
  moreover have "?new \<notin> set reservedUserCodes"
    using reserved_plain by (auto simp: list_all_iff)
  ultimately show ?thesis
    by (simp add: ValidateUserCode_def isReservedUserCode_def code_trim_space code_to_lower)
qed

text \<open>
  C26. Whatever name a third party gives a user, the candidate computed from it is a valid user code:
  it has the pattern of a code, between 3 and 32 characters, and is not reserved.
\<close>

theorem NormalizeUserCodeCandidate_valid:
  "ValidateUserCode (NormalizeUserCodeCandidate raw) = None"
proof -
  define base where "base = single_underscores (trim_char underscore (userCodeCleaner False
    (map (\<lambda>c. if c = CHR ''.'' then underscore else c)
      (map (\<lambda>c. if c = CHR ''-'' then underscore else c) (before_at (to_lower (trim_space raw)))))))"
  define named where "named = (if base = [] \<or> \<not> code_letter (hd base) then ''u_'' @ base else base)"
  define short where "short = (if length named > 32 then trim_char underscore (take 32 named) else named)"
  define code where "code = (if length short < 3 then short @ replicate (3 - length short) (CHR ''0'') else short)"
  have "list_all code_char base"
    unfolding base_def by (intro code_single_underscores code_trim_char code_cleaner)
  then have "started named" by (auto simp: named_def started_def code_letter_def code_char_def)
  then have pattern: "userCodePattern code"
    unfolding code_def short_def by (intro started_pattern started_cut)
  then have chars: "list_all code_char code" by (simp add: userCodePattern_def)
  have result: "NormalizeUserCodeCandidate raw =
      (if isReservedUserCode code then trimUserCodeForSuffix code ''_user'' @ ''_user'' else code)"
    unfolding NormalizeUserCodeCandidate_def Let_def code_def short_def named_def base_def by (rule refl)
  show ?thesis
  proof (cases "isReservedUserCode code")
    case True
    then have "code \<in> set reservedUserCodes"
      using chars by (simp add: isReservedUserCode_def code_trim_space code_to_lower)
    then show ?thesis using True by (simp add: result reserved_candidate)
  next
    case False
    then show ?thesis using pattern chars by (simp add: result ValidateUserCode_def code_trim_space)
  qed
qed

end
