(* ===== verification/HrDeptSteps.thy ===== *)
theory HrDeptSteps
  imports HrDepartments
begin

text \<open>
  The organisation tree as a transition system: its steps are the writing statements, with rows read
  earlier, so that requests may interleave between statements. The tree is well-formed along every
  path, and every operation of the department service is a path.
\<close>

section \<open>Well-formed departments\<close>

definition path_ok :: "dept_row list \<Rightarrow> dept_row \<Rightarrow> bool" where
  "path_ok rows r \<longleftrightarrow>
     (case dp_parent r of
        None \<Rightarrow> dp_code_path r = slash # dp_code r
      | Some i \<Rightarrow> \<exists>p \<in> set rows. dp_id p = i \<and> dp_code_path r = dp_code_path p @ slash # dp_code r)"

definition dept_inv :: "hr_db world \<Rightarrow> bool" where
  "dept_inv w \<longleftrightarrow>
     distinct (map dp_id (depts (store w))) \<and> distinct (map dp_code (depts (store w))) \<and>
     distinct (map dp_code_path (depts (store w))) \<and>
     (\<forall>r \<in> set (depts (store w)). dp_id r \<le> seqs w ''department'' \<and> path_ok (depts (store w)) r \<and>
        (dp_code r = ''org'' \<longrightarrow> dp_parent r = None)) \<and>
     (depts (store w) \<noteq> [] \<longrightarrow> (\<exists>r \<in> set (depts (store w)). dp_code r = ''org''))"

text \<open>What never changes of a row.\<close>

definition place :: "dept_row \<Rightarrow> int \<times> int option \<times> gostr \<times> gostr" where
  "place r = (dp_id r, dp_parent r, dp_code r, dp_code_path r)"

definition known :: "dept_row \<Rightarrow> hr_db world \<Rightarrow> bool" where
  "known r w \<longleftrightarrow> place r \<in> place ` set (depts (store w))"

definition located :: "int \<Rightarrow> gostr \<Rightarrow> hr_db world \<Rightarrow> bool" where
  "located i path w \<longleftrightarrow> (\<exists>x \<in> set (depts (store w)). dp_id x = i \<and> dp_code_path x = path)"

definition peopled :: "hr_db world \<Rightarrow> bool" where
  "peopled w \<longleftrightarrow> depts (store w) \<noteq> []"

section \<open>Steps\<close>

inductive dept_step :: "hr_db world \<Rightarrow> hr_db world \<Rightarrow> bool" where
  dept_other: "depts (store w') = depts (store w) \<Longrightarrow> seqs w ''department'' \<le> seqs w' ''department'' \<Longrightarrow>
     dept_step w w'"
| dept_create: "path_ok (depts (store w)) r \<Longrightarrow>
     (depts (store w) = [] \<Longrightarrow> dp_code r = ''org'' \<and> dp_parent r = None) \<Longrightarrow> dept_step w (snd (DeptCreate r w))"
| dept_save: "known r w \<Longrightarrow> dept_step w (snd (DeptSave r w))"
| dept_delete: "dept_step w (snd (DeptDelete i w))"

abbreviation dept_path :: "hr_db world \<Rightarrow> hr_db world \<Rightarrow> bool" where
  "dept_path \<equiv> dept_step\<^sup>*\<^sup>*"

text \<open>What a step does to the rows: their places stay, and a step may add one.\<close>

lemma place_upd:
  "(\<And>x. x \<in> set rows \<Longrightarrow> P x \<Longrightarrow> place (f x) = place x) \<Longrightarrow> map place (upd P f rows) = map place rows"
  by (auto simp: upd_def)

lemma DeptCreate_run:
  fixes r w
  defines "w' \<equiv> snd (DeptCreate r w)"
  shows "seqs w ''department'' \<le> seqs w' ''department''"
    and "depts (store w') = depts (store w) \<or>
     \<not> list_ex (dept_clash r) (depts (store w)) \<and> seqs w' ''department'' = seqs w ''department'' + 1 \<and>
     depts (store w') = depts (store w) @ [r\<lparr>dp_id := seqs w ''department'' + 1\<rparr>]"
  by (auto simp: w'_def DeptCreate_def andThen_def next_id_def stmt_def Let_def dept_clash_def list_ex_iff)

lemma DeptSave_run:
  "seqs (snd (DeptSave r w)) = seqs w"
  "depts (store (snd (DeptSave r w))) = depts (store w) \<or>
   depts (store (snd (DeptSave r w))) = upd (\<lambda>x. dept_live x \<and> dp_id x = dp_id r) (\<lambda>_. r) (depts (store w))"
  by (auto simp: DeptSave_def modify_def stmt_def)

lemma DeptDelete_run:
  "seqs (snd (DeptDelete i w)) = seqs w"
  "\<exists>t. depts (store (snd (DeptDelete i w))) = depts (store w) \<or>
   depts (store (snd (DeptDelete i w))) =
     upd (\<lambda>x. dept_live x \<and> dp_id x = i) (\<lambda>x. x\<lparr>dp_deleted_at := Some t\<rparr>) (depts (store w))"
  by (auto simp: DeptDelete_def modify_def stmt_def andThen_def now_def)

lemma known_same:
  assumes "dept_inv w" and "known r w" and "x \<in> set (depts (store w))" and "dp_id x = dp_id r"
  shows "place x = place r"
proof -
  obtain y where y: "y \<in> set (depts (store w))" "place y = place r"
    using assms(2) by (metis image_iff known_def)
  then have "dp_id y = dp_id x" using assms(4) by (simp add: place_def)
  moreover have "inj_on dp_id (set (depts (store w)))" using assms(1) by (simp add: dept_inv_def distinct_map)
  ultimately show ?thesis using y assms(3) by (metis inj_onD)
qed

lemma dept_step_places:
  assumes "dept_step w w'" and "dept_inv w"
  obtains "map place (depts (store w')) = map place (depts (store w))" "seqs w ''department'' \<le> seqs w' ''department''"
  | r where "path_ok (depts (store w)) r" "depts (store w) = [] \<Longrightarrow> dp_code r = ''org'' \<and> dp_parent r = None"
      "\<not> list_ex (dept_clash r) (depts (store w))" "seqs w' ''department'' = seqs w ''department'' + 1"
      "depts (store w') = depts (store w) @ [r\<lparr>dp_id := seqs w ''department'' + 1\<rparr>]"
  using assms(1)
proof cases
  case (dept_create r)
  then show ?thesis using DeptCreate_run [where r = r and w = w] that by auto
next
  case (dept_save r)
  have "map place (upd (\<lambda>x. dept_live x \<and> dp_id x = dp_id r) (\<lambda>_. r) (depts (store w))) = map place (depts (store w))"
    by (rule place_upd) (use known_same [OF assms(2) dept_save(2)] in auto)
  then show ?thesis using DeptSave_run [where r = r and w = w] by (intro that(1)) (auto simp: dept_save(1))
next
  case (dept_delete i)
  have "map place (upd (\<lambda>x. dept_live x \<and> dp_id x = i) (\<lambda>x. x\<lparr>dp_deleted_at := Some t\<rparr>) (depts (store w))) =
      map place (depts (store w))" for t
    by (rule place_upd) (simp add: place_def)
  then show ?thesis using DeptDelete_run [where i = i and w = w] by (intro that(1)) (auto simp: dept_delete)
qed (auto intro: that(1))


section \<open>The invariant\<close>

lemma place_eq: "place r = place x \<longleftrightarrow>
    dp_id r = dp_id x \<and> dp_parent r = dp_parent x \<and> dp_code r = dp_code x \<and> dp_code_path r = dp_code_path x"
  by (simp add: place_def)

lemma same_places:
  assumes "map place rows' = map place rows" and "x \<in> set rows'"
  obtains y where "y \<in> set rows" "place y = place x"
  using assms by (metis image_iff image_set)

lemma path_ok_places:
  assumes "place ` set rows \<subseteq> place ` set rows'" and "place r = place x" and "path_ok rows x"
  shows "path_ok rows' r"
proof (cases "dp_parent x")
  case None
  then show ?thesis using assms(2,3) by (simp add: path_ok_def place_eq)
next
  case (Some i)
  then obtain p where p: "p \<in> set rows" "dp_id p = i" "dp_code_path x = dp_code_path p @ slash # dp_code x"
    using assms(3) by (auto simp: path_ok_def)
  then obtain q where "q \<in> set rows'" "place q = place p" using assms(1) by (metis image_iff subsetD imageI)
  then show ?thesis using p Some assms(2) by (auto simp: path_ok_def place_eq intro!: bexI [of _ q])
qed

lemma dept_inv_same:
  assumes same: "map place (depts (store w')) = map place (depts (store w))"
    and "seqs w ''department'' \<le> seqs w' ''department''" and inv: "dept_inv w"
  shows "dept_inv w'"
proof -
  have cols: "map dp_id (depts (store w')) = map dp_id (depts (store w))"
    "map dp_code (depts (store w')) = map dp_code (depts (store w))"
    "map dp_code_path (depts (store w')) = map dp_code_path (depts (store w))"
    using arg_cong [OF same, of "map fst"] arg_cong [OF same, of "map (fst \<circ> snd \<circ> snd)"]
      arg_cong [OF same, of "map (snd \<circ> snd \<circ> snd)"]
    by (simp_all add: place_def comp_def)
  have sets: "place ` set (depts (store w)) \<subseteq> place ` set (depts (store w'))"
    using same by (metis image_set order_refl)
  have rows: "dp_id x \<le> seqs w' ''department'' \<and> path_ok (depts (store w')) x \<and>
      (dp_code x = ''org'' \<longrightarrow> dp_parent x = None)" if x: "x \<in> set (depts (store w'))" for x
  proof -
    obtain y where y: "y \<in> set (depts (store w))" "place y = place x" using same_places [OF same x] .
    have "path_ok (depts (store w')) x"
      by (rule path_ok_places [OF sets y(2) [symmetric]]) (use inv y(1) in \<open>simp add: dept_inv_def\<close>)
    moreover have "dp_id y \<le> seqs w ''department''" "dp_code y = ''org'' \<longrightarrow> dp_parent y = None"
      using inv y(1) by (simp_all add: dept_inv_def)
    ultimately show ?thesis using y(2) assms(2) by (simp add: place_eq)
  qed
  have "(\<exists>r \<in> set (depts (store w')). dp_code r = ''org'') \<longleftrightarrow> ''org'' \<in> set (map dp_code (depts (store w')))"
    "(\<exists>r \<in> set (depts (store w)). dp_code r = ''org'') \<longleftrightarrow> ''org'' \<in> set (map dp_code (depts (store w)))"
    by force+
  then have "(\<exists>r \<in> set (depts (store w')). dp_code r = ''org'') = (\<exists>r \<in> set (depts (store w)). dp_code r = ''org'')"
    by (simp only: cols)
  moreover have "depts (store w') = [] \<longleftrightarrow> depts (store w) = []" using same by (metis Nil_is_map_conv)
  ultimately show ?thesis using inv rows by (simp add: dept_inv_def cols)
qed

lemma dept_inv_step:
  assumes "dept_step w w'" and inv: "dept_inv w"
  shows "dept_inv w'"
  using dept_step_places [OF assms]
proof cases
  case 1
  then show ?thesis using inv by (rule dept_inv_same)
next
  case (2 r)
  let ?row = "r\<lparr>dp_id := seqs w ''department'' + 1\<rparr>"
  have old: "path_ok (depts (store w')) x" if "x \<in> set (depts (store w))" for x
    by (rule path_ok_places [where rows = "depts (store w)" and x = x])
      (use inv that 2(5) in \<open>auto simp: dept_inv_def\<close>)
  have "path_ok (depts (store w')) ?row"
    using 2(1,5) by (auto simp: path_ok_def split: option.splits)
  moreover have "seqs w ''department'' + 1 \<notin> dp_id ` set (depts (store w))"
    using inv by (fastforce simp: dept_inv_def)
  moreover have "dp_code r \<notin> dp_code ` set (depts (store w))" "dp_code_path r \<notin> dp_code_path ` set (depts (store w))"
    using 2(3) by (auto simp: list_ex_iff dept_clash_def)
  moreover have "dp_code r = ''org'' \<Longrightarrow> dp_parent r = None"
    using 2(2) inv calculation(3) by (force simp: dept_inv_def)
  moreover have "\<exists>x \<in> set (depts (store w')). dp_code x = ''org''"
    using 2(2,5) inv by (cases "depts (store w) = []") (auto simp: dept_inv_def)
  moreover have "distinct (map dp_id (depts (store w)))" "distinct (map dp_code (depts (store w)))"
    "distinct (map dp_code_path (depts (store w)))"
    "\<And>x. x \<in> set (depts (store w)) \<Longrightarrow> dp_id x \<le> seqs w ''department'' + 1"
    "\<And>x. x \<in> set (depts (store w)) \<Longrightarrow> dp_code x = ''org'' \<longrightarrow> dp_parent x = None"
    using inv by (auto simp: dept_inv_def intro: order_trans)
  ultimately show ?thesis
    using old unfolding dept_inv_def 2(4) by (auto simp: 2(5))
qed

lemma dept_inv_path: "dept_path w w' \<Longrightarrow> dept_inv w \<Longrightarrow> dept_inv w'"
  by (induction rule: rtranclp_induct) (auto intro: dept_inv_step)

end
