(* ===== verification/HrDeptRuns.thy ===== *)
theory HrDeptRuns
  imports HrDeptSteps
begin

text \<open>
  Every operation of the department service is a path of steps. A rule per construct says which
  facts about rows hold after it; the facts concern the places of rows, which no step takes back, so
  that they also hold when other requests run in between.
\<close>

section \<open>Facts that stay\<close>

definition lasting :: "(hr_db world \<Rightarrow> bool) \<Rightarrow> bool" where
  "lasting P \<longleftrightarrow> (\<forall>w w'. dept_step w w' \<longrightarrow> dept_inv w \<longrightarrow> P w \<longrightarrow> P w')"

named_theorems lasting_intros

lemma lasting_path:
  assumes "lasting P" and "dept_path w w'" and "dept_inv w" and "P w"
  shows "P w'"
  using assms(2)
proof (induction rule: rtranclp_induct)
  case (step y z)
  then show ?case using assms dept_inv_path by (auto simp: lasting_def)
qed (rule assms(4))

lemma step_places: "dept_step w w' \<Longrightarrow> dept_inv w \<Longrightarrow> place ` set (depts (store w)) \<subseteq> place ` set (depts (store w'))"
  by (erule (1) dept_step_places) (metis image_set order_refl, auto)

lemma lasting_known [lasting_intros]: "lasting (known r)"
  unfolding lasting_def known_def using step_places by blast

lemma lasting_True [lasting_intros]: "lasting (\<lambda>_. True)"
  and lasting_inv [lasting_intros]: "lasting dept_inv"
  by (auto simp: lasting_def dept_inv_step)

lemma lasting_conj [lasting_intros]: "lasting P \<Longrightarrow> lasting Q \<Longrightarrow> lasting (\<lambda>w. P w \<and> Q w)"
  and lasting_ball [lasting_intros]: "(\<And>x. lasting (R x)) \<Longrightarrow> lasting (\<lambda>w. \<forall>x \<in> A. R x w)"
  and lasting_imp [lasting_intros]: "lasting P \<Longrightarrow> lasting (\<lambda>w. b \<longrightarrow> P w)"
  unfolding lasting_def by blast+

lemma located_iff: "located i path w \<longleftrightarrow> (i, path) \<in> (\<lambda>(j, p, c, q). (j, q)) ` place ` set (depts (store w))"
  by (force simp: located_def place_def)

lemma lasting_located [lasting_intros]: "lasting (located i path)"
  unfolding lasting_def located_iff using step_places by blast

lemma lasting_peopled [lasting_intros]: "lasting peopled"
  unfolding lasting_def peopled_def using step_places by fastforce

section \<open>Runs that are paths\<close>

definition runs :: "(hr_db world \<Rightarrow> bool) \<Rightarrow> 'a hr \<Rightarrow> ('a \<Rightarrow> hr_db world \<Rightarrow> bool) \<Rightarrow> bool" where
  "runs P m Q \<longleftrightarrow> (\<forall>w r w'. dept_inv w \<longrightarrow> P w \<longrightarrow> m w = (r, w') \<longrightarrow>
     dept_path w w' \<and> (\<forall>a. r = Inr a \<longrightarrow> Q a w'))"

lemma runsI:
  "(\<And>w r w'. dept_inv w \<Longrightarrow> P w \<Longrightarrow> m w = (r, w') \<Longrightarrow> dept_path w w' \<and> (\<forall>a. r = Inr a \<longrightarrow> Q a w')) \<Longrightarrow> runs P m Q"
  by (auto simp: runs_def)

lemma runs_path: "runs P m Q \<Longrightarrow> dept_inv w \<Longrightarrow> P w \<Longrightarrow> dept_path w (snd (m w))"
  by (metis prod.collapse runs_def)

lemma runs_weaken: "runs P' m Q' \<Longrightarrow> (\<And>w. dept_inv w \<Longrightarrow> P w \<Longrightarrow> P' w) \<Longrightarrow>
    (\<And>a w. dept_inv w \<Longrightarrow> Q' a w \<Longrightarrow> Q a w) \<Longrightarrow> runs P m Q"
  unfolding runs_def by (metis dept_inv_path)

lemma runs_frame: "runs P m Q \<Longrightarrow> lasting R \<Longrightarrow> runs (\<lambda>w. P w \<and> R w) m (\<lambda>a w. Q a w \<and> R w)"
  unfolding runs_def using lasting_path by blast

lemma runs_keep: "runs (\<lambda>_. True) m (\<lambda>_ _. True) \<Longrightarrow> lasting R \<Longrightarrow> runs R m (\<lambda>_. R)"
  using runs_frame [of "\<lambda>_. True" m "\<lambda>_ _. True" R] by simp

lemma runs_ret: "(\<And>w. P w \<Longrightarrow> Q a w) \<Longrightarrow> runs P (ret a) Q"
  and runs_fail: "runs P (fail e) Q"
  by (auto simp: runs_def ret_def fail_def)

lemma runs_andThen: "runs P m R \<Longrightarrow> (\<And>a. runs (R a) (f a) Q) \<Longrightarrow> runs P (andThen m f) Q"
  unfolding runs_def andThen_def
  by (auto split: prod.splits sum.splits) (metis dept_inv_path rtranclp_trans)+

lemma runs_attempt:
  assumes "runs P m Q" and "lasting P"
  shows "runs P (attempt m) (\<lambda>r w. P w \<and> (\<forall>a. r = Inr a \<longrightarrow> Q a w))"
  using assms lasting_path unfolding runs_def attempt_def by (auto split: prod.splits) blast+

lemma runs_attempt_keep: "runs P m Q \<Longrightarrow> lasting P \<Longrightarrow> runs P (attempt m) (\<lambda>_. P)"
  by (rule runs_weaken [OF runs_attempt [of P m Q]]) simp_all

lemma runs_wrapping: "runs P m Q \<Longrightarrow> runs P (wrapping f m) Q"
  unfolding runs_def wrapping_def by (auto split: prod.splits sum.splits)

lemma runs_logged:
  assumes "runs P m (\<lambda>_ _. True)" and "lasting P"
  shows "runs P (logged m) (\<lambda>_. P)"
  unfolding logged_def
  by (rule runs_andThen [OF runs_attempt [OF assms]]) (auto intro: runs_ret runs_fail split: sum.split)

lemma runs_if: "(b \<Longrightarrow> runs P m Q) \<Longrightarrow> (\<not> b \<Longrightarrow> runs P m' Q) \<Longrightarrow> runs P (if b then m else m') Q"
  by simp

lemma runs_for_each:
  "(\<And>x. x \<in> set xs \<Longrightarrow> runs P (f x) (\<lambda>_. P)) \<Longrightarrow> runs P (for_each f xs) (\<lambda>_. P)"
  by (induction xs) (auto intro: runs_ret runs_andThen)

text \<open>Reading, and the writes of the repository.\<close>

lemma runs_query:
  assumes "\<And>w. dept_inv w \<Longrightarrow> P w \<Longrightarrow> Q (f (store w)) w"
    and "\<And>a. lasting (Q a)"
  shows "runs P (query e f) Q"
proof (rule runsI)
  fix w r w' assume w: "dept_inv w" "P w" and run: "query e f w = (r, w')"
  have same: "store w' = store w" "seqs w' = seqs w" using run by (auto simp: query_def stmt_def split: if_splits)
  then have step: "dept_step w w'" by (intro dept_other) simp_all
  have "Q a w'" if "r = Inr a" for a
  proof -
    have "a = f (store w)" using run that by (auto simp: query_def stmt_def split: if_splits)
    then show ?thesis using assms(1) [OF w] assms(2) step w(1) by (auto simp: lasting_def)
  qed
  with step show "dept_path w w' \<and> (\<forall>a. r = Inr a \<longrightarrow> Q a w')" by blast
qed

lemma runs_found:
  assumes "\<And>x. r = Some x \<Longrightarrow> runs P (ret x) Q"
  shows "runs P (found_row r) Q"
  using assms by (auto simp: found_row_def intro: runs_fail split: option.split)

lemma known_row: "x \<in> set (depts (store w)) \<Longrightarrow> known x w"
  by (simp add: known_def)

lemma runs_lookup:
  assumes "lasting P"
  shows "runs P (andThen (query e (\<lambda>s. first_row (\<lambda>r. dept_live r \<and> B r) (depts s))) found_row)
     (\<lambda>d w. P w \<and> known d w \<and> B d)"
proof (rule runs_andThen [where R = "\<lambda>v w. P w \<and> (\<forall>d. v = Some d \<longrightarrow> known d w \<and> B d)"])
  show "runs P (query e (\<lambda>s. first_row (\<lambda>r. dept_live r \<and> B r) (depts s)))
      (\<lambda>v w. P w \<and> (\<forall>d. v = Some d \<longrightarrow> known d w \<and> B d))"
  proof (rule runs_query)
    show "lasting (\<lambda>w. P w \<and> (\<forall>d. v = Some d \<longrightarrow> known d w \<and> B d))" for v
      using assms lasting_known unfolding lasting_def by blast
  qed (auto dest!: first_row_Some intro: known_row)
qed (auto intro!: runs_found runs_ret)

lemma runs_DeptSave: "runs (known r) (DeptSave r) (\<lambda>_ _. True)"
  by (rule runsI) (metis dept_save r_into_rtranclp snd_conv)

lemma runs_DeptDelete: "runs (\<lambda>_. True) (DeptDelete i) (\<lambda>_ _. True)"
  by (rule runsI) (metis dept_delete r_into_rtranclp snd_conv)

lemma runs_DeptCreate:
  assumes "\<And>w. dept_inv w \<Longrightarrow> P w \<Longrightarrow> path_ok (depts (store w)) r \<and>
      (depts (store w) = [] \<longrightarrow> dp_code r = ''org'' \<and> dp_parent r = None)"
  shows "runs P (DeptCreate r) (\<lambda>d w. located (dp_id d) (dp_code_path r) w \<and> dp_code_path d = dp_code_path r)"
proof (rule runsI)
  fix w v w' assume w: "dept_inv w" "P w" and run: "DeptCreate r w = (v, w')"
  have "dept_step w (snd (DeptCreate r w))" using assms [OF w] by (intro dept_create) auto
  moreover have "located (dp_id d) (dp_code_path r) w' \<and> dp_code_path d = dp_code_path r" if "v = Inr d" for d
    using run that by (auto simp: DeptCreate_def run_simps Let_def located_def split: if_splits)
  ultimately show "dept_path w w' \<and>
      (\<forall>d. v = Inr d \<longrightarrow> located (dp_id d) (dp_code_path r) w' \<and> dp_code_path d = dp_code_path r)"
    using run by auto
qed

section \<open>The operations\<close>

lemma known_located: "known d w \<Longrightarrow> located (dp_id d) (dp_code_path d) w"
  by (auto simp: known_def located_def place_def)

lemma runs_DeptGet:
  assumes "lasting P"
  shows "runs P (DeptGetByID i) (\<lambda>d w. P w \<and> known d w \<and> dp_id d = i)"
    and "runs P (DeptGetByCode code) (\<lambda>d w. P w \<and> known d w \<and> dp_code d = code)"
    and "runs P (DeptGetByPath path) (\<lambda>d w. P w \<and> known d w \<and> dp_code_path d = path)"
  unfolding DeptGetByID_def DeptGetByCode_def DeptGetByPath_def by (rule runs_lookup [OF assms])+

lemma runs_children:
  assumes "lasting P"
  shows "runs P (GetDepartmentsByParentID p) (\<lambda>ds w. P w \<and> (\<forall>d \<in> set ds. known d w))"
  unfolding GetDepartmentsByParentID_def
  by (rule runs_query, auto simp: children_of_def order2_def sel_def intro: known_row,
      intro lasting_intros assms)

lemma runs_cache: "lasting P \<Longrightarrow> runs P InvalidateDepartmentCache (\<lambda>_. P)"
  by (rule runsI) (auto simp: InvalidateDepartmentCache_def intro!: r_into_rtranclp [of dept_step] dept_other
      elim: lasting_path [rotated -1])

lemma runs_reading:
  assumes "\<And>w. store (snd (m w)) = store w \<and> seqs (snd (m w)) = seqs w"
  shows "runs (\<lambda>_. True) m (\<lambda>_ _. True)"
proof (rule runsI)
  fix w r w' assume "m w = (r, w')"
  then have "store w' = store w" "seqs w' = seqs w" using assms [of w] by simp_all
  then show "dept_path w w' \<and> (\<forall>a. r = Inr a \<longrightarrow> True)" by (auto intro!: r_into_rtranclp [of dept_step] dept_other)
qed

lemma runs_pure: "(b \<Longrightarrow> runs P m Q) \<Longrightarrow> runs (\<lambda>w. P w \<and> b) m Q"
  by (auto simp: runs_def)

lemma runs_any: "runs P m (\<lambda>_ _. True) \<Longrightarrow> lasting P \<Longrightarrow> runs P m (\<lambda>_. P)"
  using runs_frame [of P m "\<lambda>_ _. True" P] by simp

lemma runs_buildFullCodePath:
  assumes "lasting P"
  shows "runs P (buildFullCodePath code i) (\<lambda>path w. P w \<and>
     (if i = 0 then path = slash # code else \<exists>q. located i q w \<and> path = q @ slash # code))"
  unfolding buildFullCodePath_def
proof (rule runs_if)
  assume "i \<noteq> 0"
  then show "runs P (andThen (wrapping HErrNoParent (DeptGetByID i)) (\<lambda>p. ret (dp_code_path p @ slash # code)))
      (\<lambda>path w. P w \<and> (if i = 0 then path = slash # code else \<exists>q. located i q w \<and> path = q @ slash # code))"
    by (intro runs_andThen [OF runs_wrapping [OF runs_DeptGet(1) [OF assms]]] runs_ret) (auto dest: known_located)
qed (auto intro: runs_ret)

lemma runs_buildFullNamePath: "lasting P \<Longrightarrow> runs P (buildFullNamePath n name i) (\<lambda>_. P)"
proof (induction n arbitrary: name i)
  case 0
  then show ?case by (simp add: runs_fail)
next
  case (Suc n)
  have get: "runs P (wrapping HErrNoParent (DeptGetByID i)) (\<lambda>_. P)"
    by (rule runs_weaken [OF runs_wrapping [OF runs_DeptGet(1) [OF Suc.prems]]]) auto
  show ?case
    unfolding buildFullNamePath.simps
    by (intro runs_if runs_ret runs_andThen [OF get] runs_andThen [OF Suc.IH [OF Suc.prems]])
qed

lemma runs_DeptSave_known: "runs (known r) (DeptSave r) (\<lambda>_. known r)"
  by (rule runs_any [OF runs_DeptSave lasting_known])

lemma known_cong: "place r = place d \<Longrightarrow> known r = known d"
  by (simp add: known_def fun_eq_iff)

lemma runs_updateChildren: "lasting P \<Longrightarrow> runs P (updateChildrenFullNamePath n fuel parent) (\<lambda>_. P)"
proof (induction n arbitrary: parent P)
  case 0
  then show ?case by (simp add: runs_fail)
next
  case (Suc n)
  let ?body = "\<lambda>child. andThen (buildFullNamePath fuel (dp_name child) (dp_id parent)) (\<lambda>path.
      let child = child\<lparr>dp_name_path := path\<rparr> in
      andThen (DeptSave child) (\<lambda>_. logged (updateChildrenFullNamePath n fuel child)))"
  have body: "runs (known child) (?body child) (\<lambda>_ _. True)" for child
    unfolding Let_def
  proof (rule runs_andThen [OF runs_buildFullNamePath [OF lasting_known]], rule runs_andThen)
    fix path
    let ?child = "child\<lparr>dp_name_path := path\<rparr>"
    have "known ?child = known child" by (rule known_cong) (simp add: place_def)
    then show "runs (known child) (DeptSave ?child) (\<lambda>_. known child)"
      using runs_DeptSave_known [of ?child] by simp
    show "runs (known child) (logged (updateChildrenFullNamePath n fuel ?child)) (\<lambda>_ _. True)"
      by (rule runs_weaken [OF runs_logged [where P = "\<lambda>_. True"]])
        (auto intro: Suc.IH lasting_intros)
  qed
  have keep: "runs (\<lambda>w. P w \<and> (\<forall>d \<in> set ds. known d w)) (logged (?body child))
      (\<lambda>_ w. P w \<and> (\<forall>d \<in> set ds. known d w))" if "child \<in> set ds" for child ds
    by (rule runs_logged, rule runs_weaken [OF body]) (use that in auto, intro lasting_intros Suc.prems)
  have "runs (\<lambda>w. P w \<and> (\<forall>d \<in> set ds. known d w)) (for_each (\<lambda>child. logged (?body child)) ds) (\<lambda>_. P)" for ds
    by (rule runs_weaken [OF runs_for_each [OF keep]]) auto
  then show ?case
    unfolding updateChildrenFullNamePath.simps
    by (intro runs_andThen [OF runs_wrapping [OF runs_children [OF Suc.prems]]])
qed

lemma runs_CreateDepartment:
  "runs peopled (CreateDepartment fuel name code i description managers) (\<lambda>_ _. True)"
proof -
  let ?path = "\<lambda>path w. if i = 0 then path = slash # code else \<exists>q. located i q w \<and> path = q @ slash # code"
  have keep: "lasting (\<lambda>w. peopled w \<and> ?path path w)" for path
    using lasting_peopled lasting_located [of i] unfolding lasting_def by (cases "i = 0") auto
  have create: "runs (\<lambda>w. peopled w \<and> ?path path w)
      (DeptCreate (new_dept name code i path name_path description managers)) (\<lambda>_ _. True)" for path name_path
    by (rule runs_weaken [OF runs_DeptCreate [where P = "\<lambda>w. peopled w \<and> ?path path w"]])
      (auto simp: path_ok_def new_dept_def located_def peopled_def split: if_splits)
  have code: "runs (\<lambda>w. peopled w \<and> ?path path w) (attempt (DeptGetByCode code)) (\<lambda>_ w. peopled w \<and> ?path path w)" for path
    by (rule runs_weaken [OF runs_attempt [OF runs_DeptGet(2) [OF keep [of path]] keep [of path]]]) auto
  show ?thesis
    unfolding CreateDepartment_def
  proof (rule runs_andThen [OF runs_wrapping [OF runs_buildFullCodePath [OF lasting_peopled]]],
      rule runs_andThen [OF code])
    fix path and existing :: "hr_error + dept_row"
    let ?rest = "andThen (wrapping HErrBuildName (buildFullNamePath fuel name i)) (\<lambda>name_path.
         andThen (wrapping HErrCreateDept (DeptCreate
           (new_dept name code i path name_path description managers))) (\<lambda>d.
         andThen (logged (updateChildrenFullNamePath fuel fuel d)) (\<lambda>_.
         andThen InvalidateDepartmentCache (\<lambda>_. ret d))))"
    have rest: "runs (\<lambda>w. peopled w \<and> ?path path w) ?rest (\<lambda>_ _. True)"
      by (intro runs_andThen [OF runs_wrapping [OF runs_buildFullNamePath [OF keep]]]
          runs_andThen [OF runs_wrapping [OF create]]
          runs_andThen [OF runs_logged [OF runs_updateChildren [OF lasting_True] lasting_True]]
          runs_andThen [OF runs_cache [OF lasting_True]] runs_ret TrueI)
    show "runs (\<lambda>w. peopled w \<and> ?path path w)
      (case existing of Inr _ \<Rightarrow> fail (HErrCodeTaken code) | Inl _ \<Rightarrow> ?rest) (\<lambda>_ _. True)"
      by (cases existing) (simp_all only: sum.case runs_fail rest)
  qed
qed

lemma place_updated: "place (updated_dept name description managers status sort_no d) = place d"
  by (simp add: updated_dept_def place_def Let_def)

lemma runs_UpdateDepartment:
  "runs (\<lambda>_. True) (UpdateDepartment fuel i name description managers status sort_no) (\<lambda>_ _. True)"
proof -
  have save: "runs (known d) (wrapping HErrUpdateDept (DeptSave d')) (\<lambda>_ _. True)" if "place d' = place d" for d d'
    using runs_wrapping [OF runs_DeptSave [of d']] known_cong [OF that] by simp
  have get: "runs (\<lambda>_. True) (wrapping HErrNoDept (DeptGetByID i)) known"
    by (rule runs_weaken [OF runs_wrapping [OF runs_DeptGet(1) [OF lasting_True]]]) auto
  have children: "runs (\<lambda>_. True) (logged (updateChildrenFullNamePath fuel fuel e)) (\<lambda>_ _. True)" for e
    by (rule runs_logged [OF runs_updateChildren [OF lasting_True] lasting_True])
  have named: "runs (known d)
      (if b then andThen (wrapping HErrBuildName (buildFullNamePath fuel (dp_name d')
           (case dp_parent d' of None \<Rightarrow> 0 | Some p \<Rightarrow> p))) (\<lambda>path. ret (d'\<lparr>dp_name_path := path\<rparr>)) else ret d')
      (\<lambda>e w. known d w \<and> place e = place d)" if "place d' = place d" for d d' b
    using that by (auto intro!: runs_ret runs_andThen [OF runs_wrapping [OF runs_buildFullNamePath [OF lasting_known]]]
        simp: place_def)
  show ?thesis
    unfolding UpdateDepartment_def Let_def
  proof (rule runs_andThen [OF get], rule runs_andThen [OF named [OF place_updated]], rule runs_andThen)
    fix d e
    show "runs (\<lambda>w. known d w \<and> place e = place d) (wrapping HErrUpdateDept (DeptSave e)) (\<lambda>_ _. True)"
      by (rule runs_pure [OF save])
    show "runs (\<lambda>_. True) (andThen InvalidateDepartmentCache (\<lambda>_.
        andThen (if name \<noteq> [] \<and> name \<noteq> dp_name d then logged (updateChildrenFullNamePath fuel fuel e) else ret ())
          (\<lambda>_. ret e))) (\<lambda>_ _. True)"
      by (intro runs_andThen [OF runs_cache [OF lasting_True]] runs_andThen [OF runs_if [OF children]] runs_ret) simp_all
  qed
qed

lemma runs_DeleteDepartment: "runs (\<lambda>_. True) (DeleteDepartment i) (\<lambda>_ _. True)"
proof -
  have count: "runs (\<lambda>_. True) (wrapping HErrQueryUsers (CountUsersByDepartmentFullPath p)) (\<lambda>_ _. True)" for p
    unfolding CountUsersByDepartmentFullPath_def by (intro runs_wrapping runs_query) (auto intro: lasting_True)
  have get: "runs (\<lambda>_. True) (wrapping HErrNoDept (DeptGetByID i)) (\<lambda>_ _. True)"
    by (rule runs_weaken [OF runs_wrapping [OF runs_DeptGet(1) [OF lasting_True]]]) auto
  have children: "runs (\<lambda>_. True) (wrapping HErrQueryChildren (GetDepartmentsByParentID p)) (\<lambda>_ _. True)" for p
    by (rule runs_weaken [OF runs_wrapping [OF runs_children [OF lasting_True]]]) auto
  show ?thesis
    unfolding DeleteDepartment_def
    by (intro runs_andThen [OF get] runs_andThen [OF children] runs_andThen [OF count]
        runs_andThen [OF runs_DeptDelete] runs_if runs_fail runs_cache lasting_True)
qed

text \<open>The default departments hang below the root, whose path is its code.\<close>

lemma root_located: "dept_inv w \<Longrightarrow> known d w \<Longrightarrow> dp_code d = ''org'' \<Longrightarrow> located (dp_id d) ''/org'' w"
  by (force simp: known_def place_def dept_inv_def path_ok_def located_def split: option.splits)

lemma runs_default_dept:
  assumes "path = q @ slash # code"
  shows "runs (located i q) (wrapping HErrCreateDefault (DeptCreate (default_dept name code (Some i) path np txt so)))
     (\<lambda>d. located (dp_id d) path)"
  by (rule runs_weaken [OF runs_wrapping [OF runs_DeptCreate [where P = "located i q"]]])
    (use assms in \<open>auto simp: path_ok_def default_dept_def located_def\<close>)

lemma runs_default_below:
  assumes "path = q @ slash # code"
  shows "runs (\<lambda>w. located i q w \<and> located j q' w)
     (wrapping HErrCreateDefault (DeptCreate (default_dept name code (Some i) path np txt so)))
     (\<lambda>d w. located (dp_id d) path w \<and> located j q' w)"
  by (rule runs_frame [OF runs_default_dept [OF assms] lasting_located])

lemma runs_createUnassigned: "runs (located i ''/org'') (createUnassignedDepartment i) (\<lambda>_. located i ''/org'')"
  (is "runs ?P _ _")
proof -
  have P: "lasting ?P" by (rule lasting_located)
  have mark: "runs (\<lambda>w. ?P w \<and> known d w) (andThen (attempt (DeptSave (d\<lparr>dp_default := True\<rparr>))) (\<lambda>_. ret ())) (\<lambda>_. ?P)" for d
  proof (rule runs_andThen [where R = "\<lambda>_. ?P"])
    have "known (d\<lparr>dp_default := True\<rparr>) = known d" by (rule known_cong) (simp add: place_def)
    then have "runs (\<lambda>w. ?P w \<and> known d w) (DeptSave (d\<lparr>dp_default := True\<rparr>)) (\<lambda>_ _. True)"
      by (intro runs_weaken [OF runs_DeptSave]) simp_all
    then show "runs (\<lambda>w. ?P w \<and> known d w) (attempt (DeptSave (d\<lparr>dp_default := True\<rparr>))) (\<lambda>_. ?P)"
      by (rule runs_weaken [OF runs_attempt]) (auto intro: lasting_intros P)
  qed (rule runs_ret)
  have create: "runs ?P (andThen (wrapping HErrRoot (DeptGetByID i)) (\<lambda>root.
         andThen (wrapping HErrCreateDefault (DeptCreate (default_dept unassigned_name ''unassigned''
           (Some i) ''/org/unassigned'' (dp_name_path root @ slash # unassigned_name)
           unassigned_text 0))) (\<lambda>_. ret ()))) (\<lambda>_. ?P)"
  proof (rule runs_andThen [where R = "\<lambda>_. ?P"])
    show "runs ?P (wrapping HErrRoot (DeptGetByID i)) (\<lambda>_. ?P)"
      by (rule runs_weaken [OF runs_wrapping [OF runs_DeptGet(1) [OF P]]]) auto
    fix root
    have "runs ?P (wrapping HErrCreateDefault (DeptCreate (default_dept unassigned_name ''unassigned''
           (Some i) ''/org/unassigned'' (dp_name_path root @ slash # unassigned_name) unassigned_text 0))) (\<lambda>_. ?P)"
      by (rule runs_weaken [OF runs_default_below [where i = i and q = "''/org''" and j = i and q' = "''/org''"]]) auto
    then show "runs ?P (andThen (wrapping HErrCreateDefault (DeptCreate (default_dept unassigned_name ''unassigned''
           (Some i) ''/org/unassigned'' (dp_name_path root @ slash # unassigned_name) unassigned_text 0))) (\<lambda>_. ret ()))
        (\<lambda>_. ?P)"
      by (rule runs_andThen) (rule runs_ret)
  qed
  show ?thesis
    unfolding createUnassignedDepartment_def
  proof (rule runs_andThen [OF runs_attempt [OF runs_DeptGet(2) [OF P] P]])
    fix r :: "hr_error + dept_row"
    show "runs (\<lambda>w. ?P w \<and> (\<forall>d. r = Inr d \<longrightarrow> ?P w \<and> known d w \<and> dp_code d = ''unassigned''))
      (case r of
       Inr d \<Rightarrow> if dp_default d then ret ()
                else andThen (attempt (DeptSave (d\<lparr>dp_default := True\<rparr>))) (\<lambda>_. ret ())
     | Inl _ \<Rightarrow>
         andThen (wrapping HErrRoot (DeptGetByID i)) (\<lambda>root.
         andThen (wrapping HErrCreateDefault (DeptCreate (default_dept unassigned_name ''unassigned''
           (Some i) ''/org/unassigned'' (dp_name_path root @ slash # unassigned_name)
           unassigned_text 0))) (\<lambda>_. ret ()))) (\<lambda>_. ?P)"
    proof (cases r)
      case Inl
      then show ?thesis using runs_weaken [OF create] by simp
    next
      case (Inr d)
      then show ?thesis
        by (auto intro: runs_ret runs_weaken [OF mark [of d]])
    qed
  qed
qed

lemma runs_createVirtualTest:
  "runs (located i ''/org'') (createVirtualTestDepartment i) (\<lambda>_ _. True)"
  (is "runs ?P _ _")
proof -
  have P: "lasting ?P" by (rule lasting_located)
  have root: "runs ?P (wrapping HErrRoot (DeptGetByID i)) (\<lambda>_. ?P)"
    by (rule runs_weaken [OF runs_wrapping [OF runs_DeptGet(1) [OF P]]]) auto
  have virtual: "runs (\<lambda>w. ?P w \<and> (\<forall>d. r = Inr d \<longrightarrow> ?P w \<and> known d w \<and> dp_code_path d = ''/org/virtual''))
      (case r of Inr d \<Rightarrow> ret d
       | Inl _ \<Rightarrow> wrapping HErrCreateDefault (DeptCreate (default_dept virtual_name ''virtual''
           (Some i) ''/org/virtual'' np virtual_text 10))) (\<lambda>d. located (dp_id d) ''/org/virtual'')" for r :: "hr_error + dept_row" and np
  proof (cases r)
    case Inl
    have "runs ?P (wrapping HErrCreateDefault (DeptCreate (default_dept virtual_name ''virtual''
           (Some i) ''/org/virtual'' np virtual_text 10))) (\<lambda>d. located (dp_id d) ''/org/virtual'')"
      by (rule runs_default_dept) simp
    with Inl show ?thesis using runs_weaken by simp
  next
    case (Inr d)
    then show ?thesis by (auto intro!: runs_ret dest: known_located)
  qed
  have test: "runs (located j ''/org/virtual'') (andThen (attempt (DeptGetByPath ''/org/virtual/test'')) (\<lambda>r. case r of
       Inr _ \<Rightarrow> ret ()
     | Inl _ \<Rightarrow> andThen (wrapping HErrCreateDefault (DeptCreate (default_dept testers_name ''test''
           (Some j) ''/org/virtual/test'' np testers_text 0))) (\<lambda>_. ret ()))) (\<lambda>_ _. True)" for j np
  proof (rule runs_andThen [OF runs_attempt_keep [OF runs_DeptGet(3) [OF lasting_located] lasting_located]])
    fix r :: "hr_error + dept_row"
    have "runs (located j ''/org/virtual'') (andThen (wrapping HErrCreateDefault (DeptCreate (default_dept testers_name ''test''
           (Some j) ''/org/virtual/test'' np testers_text 0))) (\<lambda>_. ret ())) (\<lambda>_ _. True)"
      by (rule runs_andThen [OF runs_default_dept]) (auto intro: runs_ret)
    then show "runs (located j ''/org/virtual'') (case r of Inr _ \<Rightarrow> ret ()
     | Inl _ \<Rightarrow> andThen (wrapping HErrCreateDefault (DeptCreate (default_dept testers_name ''test''
           (Some j) ''/org/virtual/test'' np testers_text 0))) (\<lambda>_. ret ())) (\<lambda>_ _. True)"
      by (cases r) (auto intro: runs_ret)
  qed
  show ?thesis
    unfolding createVirtualTestDepartment_def
    by (rule runs_andThen [OF root], rule runs_andThen [OF runs_attempt [OF runs_DeptGet(3) [OF P] P]],
        rule runs_andThen [OF virtual], rule test)
qed

lemma runs_InitDefaultDepartments: "runs (\<lambda>_. True) InitDefaultDepartments (\<lambda>_ _. True)"
proof -
  have below: "runs (located i ''/org'') (andThen (createVirtualTestDepartment i) (\<lambda>_. InvalidateDepartmentCache)) (\<lambda>_ _. True)" for i
    by (rule runs_andThen [OF runs_createVirtualTest runs_cache [OF lasting_True]])
  have unassigned: "runs (located i ''/org'') (andThen (attempt (DeptGetByCode ''unassigned'')) (\<lambda>r.
        andThen (case r of Inr _ \<Rightarrow> ret () | Inl _ \<Rightarrow> createUnassignedDepartment i) (\<lambda>_.
        andThen (createVirtualTestDepartment i) (\<lambda>_. InvalidateDepartmentCache)))) (\<lambda>_ _. True)" for i
  proof (rule runs_andThen [OF runs_attempt_keep [OF runs_DeptGet(2) [OF lasting_located] lasting_located]])
    fix r :: "hr_error + dept_row"
    have "runs (located i ''/org'') (case r of Inr _ \<Rightarrow> ret () | Inl _ \<Rightarrow> createUnassignedDepartment i)
        (\<lambda>_. located i ''/org'')"
      by (cases r) (auto intro: runs_ret runs_createUnassigned)
    then show "runs (located i ''/org'') (andThen (case r of Inr _ \<Rightarrow> ret () | Inl _ \<Rightarrow> createUnassignedDepartment i) (\<lambda>_.
        andThen (createVirtualTestDepartment i) (\<lambda>_. InvalidateDepartmentCache))) (\<lambda>_ _. True)"
      by (rule runs_andThen [OF _ below])
  qed
  have fresh: "runs (\<lambda>_. True) (wrapping HErrCreateRoot (DeptCreate (default_dept root_name ''org'' None ''/org'' root_name root_text 0)))
      (\<lambda>d. located (dp_id d) ''/org'')"
    by (rule runs_weaken [OF runs_wrapping [OF runs_DeptCreate [where P = "\<lambda>_. True"]]])
      (auto simp: path_ok_def default_dept_def)
  show ?thesis
    unfolding InitDefaultDepartments_def
  proof (rule runs_andThen [OF runs_attempt [OF runs_DeptGet(2) [OF lasting_True] lasting_True]])
    fix r :: "hr_error + dept_row"
    show "runs (\<lambda>w. True \<and> (\<forall>a. r = Inr a \<longrightarrow> True \<and> known a w \<and> dp_code a = ''org''))
      (case r of
       Inr root \<Rightarrow>
         andThen (attempt (DeptGetByCode ''unassigned'')) (\<lambda>r.
         andThen (case r of Inr _ \<Rightarrow> ret () | Inl _ \<Rightarrow> createUnassignedDepartment (dp_id root)) (\<lambda>_.
         andThen (createVirtualTestDepartment (dp_id root)) (\<lambda>_. InvalidateDepartmentCache)))
     | Inl _ \<Rightarrow>
         andThen (wrapping HErrCreateRoot (DeptCreate
           (default_dept root_name ''org'' None ''/org'' root_name root_text 0))) (\<lambda>root.
         andThen (createUnassignedDepartment (dp_id root)) (\<lambda>_.
         andThen (createVirtualTestDepartment (dp_id root)) (\<lambda>_. InvalidateDepartmentCache)))) (\<lambda>_ _. True)"
    proof (cases r)
      case (Inr root)
      show ?thesis
        unfolding Inr sum.case by (rule runs_weaken [OF unassigned [of "dp_id root"]]) (auto dest: root_located)
    next
      case (Inl e)
      have "runs (\<lambda>_. True) (andThen (wrapping HErrCreateRoot (DeptCreate
           (default_dept root_name ''org'' None ''/org'' root_name root_text 0))) (\<lambda>root.
         andThen (createUnassignedDepartment (dp_id root)) (\<lambda>_.
         andThen (createVirtualTestDepartment (dp_id root)) (\<lambda>_. InvalidateDepartmentCache)))) (\<lambda>_ _. True)"
        by (intro runs_andThen [OF fresh] runs_andThen [OF runs_createUnassigned] below)
      with Inl show ?thesis by simp
    qed
  qed
qed

end
