(* ===== verification/HrDeptProps.thy ===== *)
theory HrDeptProps
  imports HrDeptRuns Access
begin

text \<open>
  What the organisation tree guarantees: it stays well-formed under every interleaving of requests,
  its tree is computed in finitely many steps, and the departments a member's permissions come from
  are the department and its ancestors.
\<close>

section \<open>Well-formed in every run\<close>

text \<open>
  C24. The organisation tree stays well-formed: ids, codes and paths identify a department, also a
  deleted one, and the path of a department is the path of its parent followed by its code. Every
  operation of the department service is a path of writing statements, and along every path, so
  also when requests interleave and statements fail, the invariant stays.
\<close>

theorem departments_well_formed:
  assumes "dept_inv w0" and "dept_path w0 w"
  shows "dept_inv w \<and> dept_path w (snd (InitDefaultDepartments w)) \<and>
     (peopled w \<longrightarrow> dept_path w (snd (CreateDepartment fuel name code parent description managers w))) \<and>
     dept_path w (snd (UpdateDepartment fuel i name description managers status sort_no w)) \<and>
     dept_path w (snd (DeleteDepartment i w))"
proof -
  have inv: "dept_inv w" by (rule dept_inv_path [OF assms(2,1)])
  show ?thesis
    using inv runs_path [OF runs_InitDefaultDepartments inv] runs_path [OF runs_CreateDepartment inv]
      runs_path [OF runs_UpdateDepartment inv] runs_path [OF runs_DeleteDepartment inv]
    by simp
qed

text \<open>Applied to a new deployment.\<close>

definition new_hr :: "hr_db world" where
  "new_hr = \<lparr>clock = 1, seqs = (\<lambda>_. 0), faults = [],
     store = \<lparr>depts = [], users = [], sessions = [], api_tokens = [], status_events = [],
       gateway_notices = [], dept_cache = None\<rparr>\<rparr>"

lemma new_hr_inv: "dept_inv new_hr"
  by (simp add: dept_inv_def new_hr_def)

definition demo_org :: "hr_db world" where
  "demo_org = snd (InitDefaultDepartments new_hr)"

lemma demo_org_inv: "dept_inv demo_org"
  unfolding demo_org_def
  by (rule dept_inv_path [OF runs_path [OF runs_InitDefaultDepartments new_hr_inv] new_hr_inv]) simp

theorem departments_well_formed_witness:
  "dept_inv demo_org \<and> map dp_code_path (depts (store demo_org)) =
     [''/org'', ''/org/unassigned'', ''/org/virtual'', ''/org/virtual/test'']"
proof -
  have "dept_inv (snd (InitDefaultDepartments new_hr))"
    using departments_well_formed [OF new_hr_inv rtranclp.rtrancl_refl]
      departments_well_formed [OF new_hr_inv, of "snd (InitDefaultDepartments new_hr)"] by blast
  moreover have "map dp_code_path (depts (store demo_org)) =
     [''/org'', ''/org/unassigned'', ''/org/virtual'', ''/org/virtual/test'']" by code_simp
  ultimately show ?thesis by (simp add: demo_org_def)
qed

section \<open>The tree ends\<close>

text \<open>Along parent links paths get longer, so the depth of the tree is bounded by the longest path.\<close>

lemma child_path_longer:
  assumes inv: "dept_inv w" and "known p w" and "c \<in> set (depts (store w))" and "dp_parent c = Some (dp_id p)"
  shows "length (dp_code_path p) < length (dp_code_path c)"
proof -
  obtain q where q: "q \<in> set (depts (store w))" "dp_id q = dp_id p" "dp_code_path c = dp_code_path q @ slash # dp_code c"
  proof -
    have "path_ok (depts (store w)) c" using inv assms(3) by (simp add: dept_inv_def)
    then show ?thesis using assms(4) that by (auto simp: path_ok_def)
  qed
  have "dp_code_path q = dp_code_path p" using known_same [OF inv assms(2) q(1,2)] by (simp add: place_def)
  then show ?thesis using q(3) by simp
qed

definition no_fuel_error :: "('s, hr_error, 'a) act \<Rightarrow> 's world \<Rightarrow> bool" where
  "no_fuel_error m w \<longleftrightarrow> fst (m w) \<noteq> Inl HOutOfFuel \<and> store (snd (m w)) = store w \<and> seqs (snd (m w)) = seqs w"

lemma query_children:
  "GetDepartmentsByParentID p w = (r, w') \<Longrightarrow> store w' = store w \<and> seqs w' = seqs w \<and> r \<noteq> Inl HOutOfFuel \<and>
     (\<forall>ds. r = Inr ds \<longrightarrow> ds = children_of p (depts (store w)))"
  by (auto simp: GetDepartmentsByParentID_def query_def stmt_def split: if_splits)

lemma map_act_no_fuel_error:
  assumes "\<And>x w. x \<in> set xs \<Longrightarrow> I w \<Longrightarrow> no_fuel_error (f x) w"
    and "\<And>w w'. I w \<Longrightarrow> store w' = store w \<Longrightarrow> seqs w' = seqs w \<Longrightarrow> I w'" and "I w"
  shows "no_fuel_error (map_act f xs) w"
  using assms(1,3)
proof (induction xs arbitrary: w)
  case (Cons x xs)
  obtain r w1 where r: "f x w = (r, w1)" by (cases "f x w")
  have x: "r \<noteq> Inl HOutOfFuel" "store w1 = store w" "seqs w1 = seqs w"
    using Cons.prems(1) [of x w] Cons.prems(2) r by (simp_all add: no_fuel_error_def)
  obtain r2 w2 where r2: "map_act f xs w1 = (r2, w2)" by (cases "map_act f xs w1")
  have "no_fuel_error (map_act f xs) w1"
    by (rule Cons.IH) (use Cons.prems assms(2) x in auto)
  with r r2 x show ?case
    by (cases r; cases r2) (auto simp: no_fuel_error_def andThen_def ret_def)
qed (simp add: no_fuel_error_def ret_def)

lemma children_of_iff: "c \<in> set (children_of p rows) \<longleftrightarrow> c \<in> set rows \<and> dept_live c \<and> dp_parent c = p"
  by (auto simp: children_of_def order2_def sel_def)

lemma loadChildren_no_fuel_error:
  assumes "dept_inv w" and "known d w" and "\<And>x. x \<in> set (depts (store w)) \<Longrightarrow> length (dp_code_path x) < bound"
    and "bound < fuel + length (dp_code_path d) + 1"
  shows "no_fuel_error (loadChildren fuel d) w"
  using assms
proof (induction fuel arbitrary: d w)
  case 0
  then obtain x where "x \<in> set (depts (store w))" "dp_code_path x = dp_code_path d"
    by (auto simp: known_def place_def)
  then show ?case using "0.prems"(3,4) by fastforce
next
  case (Suc n)
  obtain r w1 where r: "GetDepartmentsByParentID (Some (dp_id d)) w = (r, w1)" by (cases "GetDepartmentsByParentID (Some (dp_id d)) w")
  note q = query_children [OF r]
  show ?case
  proof (cases r)
    case (Inl e)
    with r q show ?thesis by (simp add: no_fuel_error_def andThen_def)
  next
    case (Inr ds)
    let ?I = "\<lambda>v :: hr_db world. store v = store w \<and> seqs v = seqs w"
    have ds: "ds = children_of (Some (dp_id d)) (depts (store w))" using Inr q by simp
    have "no_fuel_error (map_act (loadChildren n) ds) w1"
    proof (rule map_act_no_fuel_error [where I = ?I])
      fix c v assume c: "c \<in> set ds" and v: "?I v"
      have mem: "c \<in> set (depts (store w))" "dp_parent c = Some (dp_id d)" using c by (simp_all add: ds children_of_iff)
      show "no_fuel_error (loadChildren n c) v"
      proof (rule Suc.IH)
        show "dept_inv v" using Suc.prems(1) v by (simp add: dept_inv_def)
        show "known c v" using mem v by (simp add: known_def)
        show "bound < n + length (dp_code_path c) + 1"
          using child_path_longer [OF Suc.prems(1,2) mem] Suc.prems(4) by simp
      qed (use Suc.prems(3) v in simp)
    qed (use q in auto)
    then show ?thesis
      using r Inr q by (cases "map_act (loadChildren n) ds w1"; cases "fst (map_act (loadChildren n) ds w1)")
        (auto simp: no_fuel_error_def andThen_def ret_def)
  qed
qed

text \<open>
  C25. The tree of departments is finite: with more fuel than the longest path of a department has
  bytes, the recursion over parent links never runs out of it, whatever statements fail.
\<close>

theorem GetDepartmentTree_terminates:
  assumes "dept_inv w" and "\<And>d. d \<in> set (depts (store w)) \<Longrightarrow> length (dp_code_path d) < fuel"
  shows "fst (GetDepartmentTree fuel w) \<noteq> Inl HOutOfFuel"
proof -
  obtain r w1 where r: "GetDepartmentsByParentID None w = (r, w1)" by (cases "GetDepartmentsByParentID None w")
  note q = query_children [OF r]
  show ?thesis
  proof (cases r)
    case (Inl e)
    with r q show ?thesis by (simp add: GetDepartmentTree_def RepoDepartmentTree_def andThen_def)
  next
    case (Inr ds)
    let ?I = "\<lambda>v :: hr_db world. store v = store w \<and> seqs v = seqs w"
    have "no_fuel_error (map_act (loadChildren fuel) ds) w1"
    proof (rule map_act_no_fuel_error [where I = ?I])
      fix c v assume c: "c \<in> set ds" and v: "?I v"
      have mem: "c \<in> set (depts (store w))" using c q Inr by (simp add: children_of_iff)
      show "no_fuel_error (loadChildren fuel c) v"
        by (rule loadChildren_no_fuel_error [where bound = fuel])
          (use assms mem v in \<open>auto simp: dept_inv_def known_def\<close>)
    qed (use q in auto)
    then show ?thesis
      using r Inr by (simp add: no_fuel_error_def GetDepartmentTree_def RepoDepartmentTree_def andThen_def)
  qed
qed

theorem GetDepartmentTree_terminates_witness:
  "fst (GetDepartmentTree 19 demo_org) \<noteq> Inl HOutOfFuel"
proof (rule GetDepartmentTree_terminates [OF demo_org_inv])
  have "list_all (\<lambda>d. length (dp_code_path d) < 19) (depts (store demo_org))" by code_simp
  then show "length (dp_code_path d) < 19" if "d \<in> set (depts (store demo_org))" for d
    using that by (simp add: list_all_iff)
qed

section \<open>What the tree lists\<close>

primrec tree_rows :: "dept_tree \<Rightarrow> dept_row list" where
  "tree_rows (DeptNode d ts) = d # concat (map tree_rows ts)"

definition live_child :: "dept_row list \<Rightarrow> dept_row \<Rightarrow> dept_row \<Rightarrow> bool" where
  "live_child rows p c \<longleftrightarrow> c \<in> set rows \<and> dept_live c \<and> dp_parent c = Some (dp_id p)"

abbreviation below :: "dept_row list \<Rightarrow> dept_row \<Rightarrow> dept_row set" where
  "below rows d \<equiv> {x. (live_child rows)\<^sup>*\<^sup>* d x}"

lemma below_unfold: "below rows d = insert d (\<Union>c \<in> {c. live_child rows d c}. below rows c)"
  by (auto intro: converse_rtranclp_into_rtranclp elim: converse_rtranclpE)

lemma map_act_rows:
  assumes "\<And>d w t w'. loadChildren n d w = (Inr t, w') \<Longrightarrow>
      store w' = store w \<and> set (tree_rows t) = below (depts (store w)) d"
    and "map_act (loadChildren n) ds w = (Inr ts, w')"
  shows "store w' = store w \<and> set (concat (map tree_rows ts)) = (\<Union>d \<in> set ds. below (depts (store w)) d)"
  using assms(2)
proof (induction ds arbitrary: w ts)
  case (Cons d ds)
  then obtain t w1 ts' where run: "loadChildren n d w = (Inr t, w1)" "map_act (loadChildren n) ds w1 = (Inr ts', w')"
      and ts: "ts = t # ts'"
    by (auto simp: run_simps)
  from Cons.IH [OF run(2)] assms(1) [OF run(1)] show ?case by (simp add: ts)
qed (simp add: run_simps)

lemma loadChildren_rows:
  "loadChildren n d w = (Inr t, w') \<Longrightarrow> store w' = store w \<and> set (tree_rows t) = below (depts (store w)) d"
proof (induction n arbitrary: d w t w')
  case 0
  then show ?case by (simp add: run_simps)
next
  case (Suc n)
  then obtain ds w1 ts where run: "GetDepartmentsByParentID (Some (dp_id d)) w = (Inr ds, w1)"
      "map_act (loadChildren n) ds w1 = (Inr ts, w')" and t: "t = DeptNode d ts"
    by (auto simp: run_simps)
  have ds: "ds = children_of (Some (dp_id d)) (depts (store w))" "store w1 = store w"
    using query_children [OF run(1)] by simp_all
  have "set ds = {c. live_child (depts (store w)) d c}"
    by (auto simp: ds(1) children_of_iff live_child_def)
  with map_act_rows [OF Suc.IH run(2)] show ?case
    unfolding t tree_rows.simps by (subst below_unfold) (simp add: ds(2))
qed

text \<open>
  The tree lists the live departments without a parent and exactly the live departments that
  hang below them through live departments, and reading it changes nothing.
\<close>

theorem GetDepartmentTree_rows:
  assumes "GetDepartmentTree fuel w = (Inr ts, w')"
  shows "store w' = store w \<and> set (concat (map tree_rows ts)) =
     (\<Union>d \<in> {d \<in> set (depts (store w)). dept_live d \<and> dp_parent d = None}. below (depts (store w)) d)"
proof -
  obtain ds w1 where run: "GetDepartmentsByParentID None w = (Inr ds, w1)"
      "map_act (loadChildren fuel) ds w1 = (Inr ts, w')"
    using assms by (auto simp: GetDepartmentTree_def RepoDepartmentTree_def run_simps)
  have ds: "ds = children_of None (depts (store w))" "store w1 = store w"
    using query_children [OF run(1)] by simp_all
  have "set ds = {d \<in> set (depts (store w)). dept_live d \<and> dp_parent d = None}"
    by (auto simp: ds(1) children_of_iff)
  with map_act_rows [OF loadChildren_rows run(2)] show ?thesis by (simp add: ds(2))
qed

theorem GetDepartmentTree_rows_witness:
  "\<exists>ts. fst (GetDepartmentTree 19 demo_org) = Inr ts \<and>
     hd (depts (store demo_org)) \<in> set (concat (map tree_rows ts))"
proof -
  have "\<not> isl (fst (GetDepartmentTree 19 demo_org))" by code_simp
  then obtain ts where ts: "GetDepartmentTree 19 demo_org = (Inr ts, snd (GetDepartmentTree 19 demo_org))"
    by (cases "GetDepartmentTree 19 demo_org"; cases "fst (GetDepartmentTree 19 demo_org)") auto
  have "hd (depts (store demo_org)) \<in> {d \<in> set (depts (store demo_org)). dept_live d \<and> dp_parent d = None}"
    by code_simp
  then have "hd (depts (store demo_org)) \<in> set (concat (map tree_rows ts))"
    using GetDepartmentTree_rows [OF ts] by blast
  then show ?thesis using ts by (metis fst_conv)
qed

section \<open>Paths and permissions\<close>

text \<open>The departments above a department, from the top, the department last.\<close>

inductive lineage :: "dept_row list \<Rightarrow> dept_row \<Rightarrow> dept_row list \<Rightarrow> bool" for rows where
  lineage_top: "dp_parent d = None \<Longrightarrow> lineage rows d [d]"
| lineage_below: "dp_parent d = Some (dp_id p) \<Longrightarrow> p \<in> set rows \<Longrightarrow> lineage rows p ps \<Longrightarrow> lineage rows d (ps @ [d])"

lemma lineage_last: "lineage rows d ps \<Longrightarrow> ps \<noteq> [] \<and> last ps = d"
  by (induction rule: lineage.induct) auto

lemma lineage_paths:
  assumes "lineage (depts (store w)) d ps" and "dept_inv w" and "d \<in> set (depts (store w))"
  shows "\<forall>i < length ps. dp_code_path (ps ! i) = concat (map (\<lambda>x. slash # dp_code x) (take (Suc i) ps))"
  using assms
proof (induction rule: lineage.induct)
  case (lineage_top d)
  then have "path_ok (depts (store w)) d" by (simp add: dept_inv_def)
  with lineage_top show ?case by (simp add: path_ok_def)
next
  case (lineage_below d p ps)
  then have "path_ok (depts (store w)) d" by (simp add: dept_inv_def)
  then obtain q where q: "q \<in> set (depts (store w))" "dp_id q = dp_id p" "dp_code_path d = dp_code_path q @ slash # dp_code d"
    using lineage_below.hyps(1) by (auto simp: path_ok_def)
  have "inj_on dp_id (set (depts (store w)))" using lineage_below.prems by (simp add: dept_inv_def distinct_map)
  then have "q = p" using q lineage_below.hyps(2) by (metis inj_onD)
  have last: "ps \<noteq> []" "last ps = p" using lineage_last [OF lineage_below.hyps(3)] by auto
  have IH: "dp_code_path (ps ! i) = concat (map (\<lambda>x. slash # dp_code x) (take (Suc i) ps))" if "i < length ps" for i
    using lineage_below.IH lineage_below.prems lineage_below.hyps(2) that by blast
  have "dp_code_path p = concat (map (\<lambda>x. slash # dp_code x) ps)"
    using IH [of "length ps - 1"] last by (simp add: last_conv_nth)
  with q(3) \<open>q = p\<close> have "dp_code_path d = concat (map (\<lambda>x. slash # dp_code x) (ps @ [d]))" by simp
  with IH show ?case by (auto simp: nth_append less_Suc_eq)
qed

definition plain_code :: "gostr \<Rightarrow> bool" where
  "plain_code c \<longleftrightarrow> c \<noteq> [] \<and> slash \<notin> set c \<and> plain_char (hd c) \<and> plain_char (last c)"

lemma concat_join: "cs \<noteq> [] \<Longrightarrow> concat (map (\<lambda>c. slash # c) cs) = slash # join_with [slash] cs"
proof (induction cs)
  case (Cons c cs)
  then show ?case by (cases cs) auto
qed simp

lemma join_ends:
  "cs \<noteq> [] \<Longrightarrow> (\<And>c. c \<in> set cs \<Longrightarrow> c \<noteq> []) \<Longrightarrow>
     join_with [slash] cs \<noteq> [] \<and> hd (join_with [slash] cs) = hd (hd cs) \<and> last (join_with [slash] cs) = last (last cs)"
proof (induction cs)
  case (Cons c cs)
  then show ?case by (cases cs) auto
qed simp

lemma plain_path:
  assumes "cs \<noteq> []" and "\<And>c. c \<in> set cs \<Longrightarrow> plain_code c"
  defines "b \<equiv> join_with [slash] cs"
  shows "NormalizeResourcePath (slash # b) = slash # b" and "split_on slash b = cs"
    and "trimmed (NormalizeResourcePath (slash # b))"
proof -
  have "hd cs \<in> set cs" "last cs \<in> set cs" using assms(1) by auto
  then have ends: "b \<noteq> []" "plain_char (hd b)" "plain_char (last b)" "hd b \<noteq> slash" "last b \<noteq> slash"
    using join_ends [OF assms(1)] assms(2) [of "hd cs"] assms(2) [of "last cs"] assms(2)
    by (auto simp: b_def plain_code_def) (metis hd_in_set last_in_set)+
  then show norm: "NormalizeResourcePath (slash # b) = slash # b" by (intro NormalizeResourcePath_plain)
  show "split_on slash b = cs"
    unfolding b_def by (rule split_on_join_with [OF assms(1)]) (use assms(2) in \<open>simp add: plain_code_def\<close>)
  show "trimmed (NormalizeResourcePath (slash # b))"
    unfolding norm by (rule trimmed_plain) (use ends in \<open>simp add: plain_char_def\<close>)
qed

text \<open>
  Where the codes are plain, the department principals of a member, from whose grants the
  member's permissions come, are exactly the department and the departments above it in the tree.
\<close>

theorem department_principals_are_ancestors:
  assumes "dept_inv w" and "d \<in> set (depts (store w))" and line: "lineage (depts (store w)) d ps"
    and plain: "\<And>x. x \<in> set ps \<Longrightarrow> plain_code (dp_code x)" and top: "dp_code (hd ps) = ''org''"
  shows "\<lparr>pr_type = PrincipalDepartment, pr_key = q\<rparr> \<in> set (PrincipalsForUser username (dp_code_path d)) \<longleftrightarrow>
     q \<in> dp_code_path ` set ps"
proof -
  let ?cs = "map dp_code ps" and ?b = "join_with [slash] (map dp_code ps)"
  have ps: "ps \<noteq> []" "last ps = d" using lineage_last [OF line] by auto
  have path: "dp_code_path (ps ! i) = slash # join_with [slash] (take (Suc i) ?cs)" if "i < length ps" for i
    using lineage_paths [OF line assms(1,2)] that ps(1) concat_join [of "take (Suc i) ?cs"]
    by (simp add: take_map comp_def)
  have d: "dp_code_path d = slash # ?b"
    using path [of "length ps - 1"] ps by (simp add: last_conv_nth)
  have cs: "?cs \<noteq> []" "\<And>c. c \<in> set ?cs \<Longrightarrow> plain_code c" using ps plain by auto
  note norm = plain_path [OF cs]
  have np: "NormalizeResourcePath (dp_code_path d) = slash # ?b" by (simp only: d norm(1))
  have org: "NormalizeResourcePath (dp_code_path d) = ''/org'' \<or> prefix ''/org/'' (NormalizeResourcePath (dp_code_path d))"
  proof -
    have "slash # ?b = ''/org'' \<or> prefix ''/org/'' (slash # ?b)"
      using top ps(1) by (cases ps; cases "tl ps") (auto simp: prefix_def)
    then show ?thesis by (simp only: np)
  qed
  have "q \<in> set (ParentPaths (dp_code_path d)) \<longleftrightarrow>
      (\<exists>i. 0 < i \<and> i \<le> length ps \<and> q = slash # join_with [slash] (take i ?cs))"
    unfolding in_ParentPaths np using norm(2) by auto
  also have "\<dots> \<longleftrightarrow> (\<exists>i < length ps. q = dp_code_path (ps ! i))"
    using path by (auto simp: Suc_le_eq gr0_conv_Suc)
  also have "\<dots> \<longleftrightarrow> q \<in> dp_code_path ` set ps" by (metis image_iff in_set_conv_nth)
  finally have parents: "q \<in> set (ParentPaths (dp_code_path d)) \<longleftrightarrow> q \<in> dp_code_path ` set ps" .
  have "trimmed (NormalizeResourcePath (dp_code_path d))" unfolding d by (rule norm(3))
  from PrincipalsForUser_departments [OF this] show ?thesis
    using parents ParentPaths_of_org [of q "dp_code_path d"] org by auto
qed

text \<open>Applied to the group of test users below \<open>/org/virtual\<close>.\<close>

theorem department_principals_are_ancestors_witness:
  "\<lparr>pr_type = PrincipalDepartment, pr_key = ''/org/virtual''\<rparr> \<in> set (PrincipalsForUser ''tester'' ''/org/virtual/test'')"
proof -
  let ?rows = "depts (store demo_org)"
  have len: "length ?rows = 4" by code_simp
  have facts: "map (\<lambda>d. (dp_id d, dp_parent d, dp_code d, dp_code_path d)) ?rows =
     [(1, None, ''org'', ''/org''), (2, Some 1, ''unassigned'', ''/org/unassigned''),
      (3, Some 1, ''virtual'', ''/org/virtual''), (4, Some 3, ''test'', ''/org/virtual/test'')]"
    by code_simp
  then obtain r u v t where rows: "?rows = [r, u, v, t]"
      and r: "dp_id r = 1" "dp_parent r = None" "dp_code r = ''org''" "dp_code_path r = ''/org''"
      and v: "dp_id v = 3" "dp_parent v = Some 1" "dp_code v = ''virtual''" "dp_code_path v = ''/org/virtual''"
      and t: "dp_id t = 4" "dp_parent t = Some 3" "dp_code t = ''test''" "dp_code_path t = ''/org/virtual/test''"
    by (auto simp: map_eq_Cons_conv)
  have "lineage ?rows r [r]" by (rule lineage_top) (rule r)
  then have "lineage ?rows v ([r] @ [v])" by (rule lineage_below [rotated -1]) (simp_all add: rows r v)
  then have line: "lineage ?rows t (([r] @ [v]) @ [t])" by (rule lineage_below [rotated -1]) (simp_all add: rows v t)
  have "plain_code (dp_code x)" if "x \<in> set (([r] @ [v]) @ [t])" for x
    using that r v t by (auto simp: plain_code_def plain_char_def)
  then show ?thesis
    using department_principals_are_ancestors [OF demo_org_inv _ line, of "''/org/virtual''" "''tester''"] r v t
    by (simp add: rows)
qed

text \<open>
  A code is not checked. One with slashes puts a department that has no parent below a foreign one:
  its members get the permissions of the test users' organisation.
\<close>

theorem slash_code_adopts_ancestors:
  "map_sum id (\<lambda>d. (dp_parent d, dp_code_path d))
     (fst (CreateDepartment 9 ''x'' ''org/virtual/x'' 0 [] [] demo_org)) = Inr (None, ''/org/virtual/x'') \<and>
   \<lparr>pr_type = PrincipalDepartment, pr_key = ''/org/virtual''\<rparr> \<in> set (PrincipalsForUser ''eve'' ''/org/virtual/x'')"
  by (intro conjI; code_simp)

text \<open>A code of a deleted department cannot be used again, although the service reports no clash.\<close>

theorem deleted_code_not_reusable:
  "(let w1 = snd (CreateDepartment 9 ''x'' ''lab'' 1 [] [] demo_org); w2 = snd (DeleteDepartment 5 w1) in
      fst (DeleteDepartment 5 w1) = Inr () \<and> fst (DeptGetByCode ''lab'' w2) = Inl HErrNotFound \<and>
      fst (CreateDepartment 9 ''x'' ''lab'' 1 [] [] w2) = Inl (HErrCreateDept HErrDuplicate))"
  by code_simp

end
