(* ===== verification/MsgStore.thy ===== *)
theory MsgStore
  imports Store
begin

text \<open>
  The tables of the message server and the repository over them, less the action tokens
  (\<open>core/message-server/model/message.go\<close>, \<open>repository/message_repository.go\<close>,
  \<open>repository/message_workspace_path.go\<close>): messages, one row per recipient with the time it was
  read, and the queries of the inbox with its groupings by thread, source and workspace. Rows of a
  query with equal keys keep the order of the table of recipients; the metadata column holds the
  pairs encoded in it.
\<close>

section \<open>Rows\<close>

text \<open>What a message says of its origin (\<open>dto.MessageSendMeta\<close>) and its content.\<close>

record send_meta =
  mm_from :: gostr
  mm_request_user :: gostr
  mm_department :: gostr
  mm_full_code_path :: gostr
  mm_trace_id :: gostr
  mm_client_source :: gostr
  mm_source_type :: gostr
  mm_source_ref :: gostr
  mm_source_path :: gostr
  mm_source_title :: gostr
  mm_parent_path :: gostr
  mm_parent_title :: gostr
  mm_template_type :: gostr
  mm_session_id :: gostr
  mm_session_title :: gostr
  mm_role :: gostr
  mm_thread_key :: gostr

record send_payload =
  mp_to_users :: gostr
  mp_title :: gostr
  mp_content :: gostr
  mp_content_type :: gostr
  mp_files :: gostr

record message_entry =
  me_id :: int
  me_created_at :: int
  me_deleted_at :: "int option"
  me_meta :: send_meta
  me_title :: gostr
  me_content :: gostr
  me_content_type :: gostr
  me_files :: gostr

record message_recipient =
  mr_id :: int
  mr_deleted_at :: "int option"
  mr_message_id :: int
  mr_username :: gostr
  mr_read_at :: "int option"

text \<open>How a channel or a route delivers, with the outcome of its last deliveries.\<close>

record delivery_setting =
  ns_id :: int
  ns_updated_at :: int
  ns_channel :: gostr
  ns_enabled :: bool
  ns_delivery_type :: gostr
  ns_display_name :: gostr
  ns_webhook_cipher :: gostr
  ns_secret_cipher :: gostr
  ns_metadata :: "(gostr \<times> gostr) list"
  ns_last_success_at :: "int option"
  ns_last_failed_at :: "int option"
  ns_last_test_at :: "int option"
  ns_last_error :: gostr
  ns_fail_count :: int

record channel_setting = delivery_setting +
  nc_owner :: gostr

record route_setting = delivery_setting +
  nr_scope_path :: gostr
  nr_scope_type :: gostr
  nr_remark :: gostr

record action_token =
  tn_id :: int
  tn_updated_at :: int
  tn_hash :: gostr
  tn_message_id :: int
  tn_recipient :: gostr
  tn_authorized :: gostr
  tn_channel :: gostr
  tn_actions :: gostr
  tn_status :: gostr
  tn_expires_at :: int
  tn_used_at :: "int option"
  tn_reply_id :: int
  tn_session_id :: gostr
  tn_thread_key :: gostr
  tn_source_path :: gostr
  tn_trace_id :: gostr

record msg_db =
  entries :: "message_entry list"
  recipients :: "message_recipient list"
  channels :: "channel_setting list"
  routes :: "route_setting list"
  action_tokens :: "action_token list"

text \<open>The errors, by what their messages say.\<close>

datatype msg_error =
    MErrDB
  | MErrNotFound
  | MErrDuplicate
  | MErrLogin
  | MErr gostr
  | MErrOf gostr gostr

type_synonym 'a msg = "(msg_db, msg_error, 'a) act"

definition found_msg :: "'r option \<Rightarrow> 'r msg" where
  "found_msg r = (case r of None \<Rightarrow> fail MErrNotFound | Some x \<Rightarrow> ret x)"

section \<open>Helpers\<close>

text \<open>The first value that is not blank, trimmed.\<close>

fun firstNonEmpty :: "gostr list \<Rightarrow> gostr" where
  "firstNonEmpty [] = []"
| "firstNonEmpty (v # vs) = (if trim_space v \<noteq> [] then trim_space v else firstNonEmpty vs)"

text \<open>The loop over a list that skips blanks and duplicates: what it has seen is what it has kept.\<close>

definition keep_new :: "(gostr \<Rightarrow> gostr) \<Rightarrow> gostr list \<Rightarrow> gostr list" where
  "keep_new f xs = fold (\<lambda>x out. let y = f x in if y = [] \<or> y \<in> set out then out else out @ [y]) xs []"

definition normalizeUsernames :: "gostr list \<Rightarrow> gostr list" where
  "normalizeUsernames = keep_new trim_space"

definition buildMessageThreadKey :: "gostr \<Rightarrow> gostr \<Rightarrow> gostr \<Rightarrow> gostr \<Rightarrow> gostr" where
  "buildMessageThreadKey parent_path source_path full_code_path session_id =
     (if trim_space parent_path \<noteq> [] then ''directory:'' @ trim_space parent_path
      else if trim_space source_path \<noteq> [] then ''source:'' @ trim_space source_path
      else if trim_space full_code_path \<noteq> [] then ''source:'' @ trim_space full_code_path
      else if trim_space session_id \<noteq> [] then ''session:'' @ trim_space session_id
      else [])"

definition normalizeMessageSourcePath :: "gostr \<Rightarrow> gostr" where
  "normalizeMessageSourcePath path =
     (let path = trim_space path in
      if path = [] then []
      else trim_right_char slash (if has_prefix path [slash] then path else slash # path))"

definition messageSourcePathVariants :: "gostr \<Rightarrow> gostr list" where
  "messageSourcePathVariants path =
     (let path = normalizeMessageSourcePath path in
      if path = [] then []
      else let bare = (if has_prefix path [slash] then tl path else path) in
        if bare = path \<or> bare = [] then [path] else [path, bare])"

definition normalizeMessageWorkspacePath :: "gostr \<Rightarrow> gostr" where
  "normalizeMessageWorkspacePath v =
     trim_right_char slash (trim_space (takeWhile (\<lambda>c. c \<notin> {CHR ''?'', CHR 0x23}) (trim_space v)))"

definition ResolveMessageWorkspacePath :: "gostr \<Rightarrow> gostr \<Rightarrow> gostr \<Rightarrow> gostr" where
  "ResolveMessageWorkspacePath source_path full_code_path parent_path =
     (if normalizeMessageWorkspacePath source_path \<noteq> [] then normalizeMessageWorkspacePath source_path
      else if normalizeMessageWorkspacePath full_code_path \<noteq> [] then normalizeMessageWorkspacePath full_code_path
      else normalizeMessageWorkspacePath parent_path)"

section \<open>Creating a message\<close>

definition trim_meta :: "send_meta \<Rightarrow> send_meta" where
  "trim_meta m =
     \<lparr>mm_from = trim_space (mm_from m), mm_request_user = trim_space (mm_request_user m),
      mm_department = trim_space (mm_department m), mm_full_code_path = trim_space (mm_full_code_path m),
      mm_trace_id = trim_space (mm_trace_id m), mm_client_source = trim_space (mm_client_source m),
      mm_source_type = trim_space (mm_source_type m), mm_source_ref = trim_space (mm_source_ref m),
      mm_source_path = trim_space (mm_source_path m), mm_source_title = trim_space (mm_source_title m),
      mm_parent_path = trim_space (mm_parent_path m), mm_parent_title = trim_space (mm_parent_title m),
      mm_template_type = trim_space (mm_template_type m), mm_session_id = trim_space (mm_session_id m),
      mm_session_title = trim_space (mm_session_title m), mm_role = trim_space (mm_role m),
      mm_thread_key = trim_space (mm_thread_key m)\<rparr>"

definition entry_meta :: "send_meta \<Rightarrow> send_meta" where
  "entry_meta m0 =
     (let m = trim_meta m0;
          m = (if mm_source_path m = [] then m\<lparr>mm_source_path := mm_full_code_path m\<rparr> else m) in
      if mm_thread_key m = []
      then m\<lparr>mm_thread_key := buildMessageThreadKey (mm_parent_path m) (mm_source_path m)
               (mm_full_code_path m) (mm_session_id m)\<rparr>
      else m)"

definition new_entry :: "send_meta \<Rightarrow> send_payload \<Rightarrow> int \<Rightarrow> int \<Rightarrow> message_entry" where
  "new_entry meta p i t =
     \<lparr>me_id = i, me_created_at = t, me_deleted_at = None, me_meta = entry_meta meta,
      me_title = trim_space (mp_title p), me_content = trim_space (mp_content p),
      me_content_type = (if trim_space (mp_content_type p) = [] then ''markdown''
                         else trim_space (mp_content_type p)),
      me_files = trim_space (mp_files p)\<rparr>"

text \<open>The batch insert: one statement, the rows numbered one after the other, unique per message and user.\<close>

definition number_rows :: "(gostr \<Rightarrow> int \<Rightarrow> 'r) \<Rightarrow> gostr list \<Rightarrow> int \<Rightarrow> 'r list" where
  "number_rows f names i = map (\<lambda>(k, name). f name (i + int k)) (enumerate 0 names)"

definition insert_recipients :: "int \<Rightarrow> gostr list \<Rightarrow> unit msg" where
  "insert_recipients message_id names =
     andThen (next_id ''message_recipient'') (\<lambda>i.
       let rows = number_rows (\<lambda>name k. \<lparr>mr_id = k, mr_deleted_at = None, mr_message_id = message_id,
                    mr_username = name, mr_read_at = None\<rparr>) names i in
       andThen (\<lambda>w. (Inr (), w\<lparr>seqs := (seqs w)(''message_recipient'' := i + int (length names) - 1)\<rparr>)) (\<lambda>_.
       stmt MErrDB (\<lambda>s.
         if list_ex (\<lambda>r. list_ex (\<lambda>x. mr_message_id x = mr_message_id r \<and> mr_username x = mr_username r)
              (recipients s)) rows
         then (Inl MErrDuplicate, s)
         else (Inr (), s\<lparr>recipients := recipients s @ rows\<rparr>))))"

definition MsgCreate :: "send_meta \<Rightarrow> send_payload \<Rightarrow> gostr list \<Rightarrow> message_entry msg" where
  "MsgCreate meta payload usernames =
     (let names = normalizeUsernames usernames in
      if names = [] then fail (MErr ''recipients empty'')
      else tx MErrDB (
        andThen now (\<lambda>t. andThen (next_id ''message_entry'') (\<lambda>i.
        let entry = new_entry meta payload i t in
        andThen (modify MErrDB (\<lambda>s. ((), s\<lparr>entries := entries s @ [entry]\<rparr>))) (\<lambda>_.
        andThen (insert_recipients i names) (\<lambda>_. ret entry))))))"

end
