(* ===== verification/MsgInbox.thy ===== *)
theory MsgInbox
  imports MsgStore
begin

text \<open>
  The inbox of a user (\<open>core/message-server/repository/message_repository.go\<close>): the join of the
  recipient rows with the messages, its filters, the groupings, and marking messages as read.
  \<open>GROUP BY\<close> yields the groups in the order of their first row.
\<close>

section \<open>The query\<close>

record inbox_filter =
  if_status :: gostr
  if_thread_key :: gostr
  if_source_path :: gostr
  if_children :: bool

abbreviation any_filter :: "gostr \<Rightarrow> inbox_filter" where
  "any_filter status \<equiv> \<lparr>if_status = status, if_thread_key = [], if_source_path = [], if_children = False\<rparr>"

type_synonym inbox_row = "message_recipient \<times> message_entry"

text \<open>\<open>COALESCE(NULLIF(a, ''), NULLIF(b, ''), ...)\<close>; \<open>NULL\<close> is the empty string here.\<close>

fun coalesce :: "gostr list \<Rightarrow> gostr" where
  "coalesce [] = []"
| "coalesce (v # vs) = (if v \<noteq> [] then v else coalesce vs)"

definition inboxThreadKeySQL :: "message_entry \<Rightarrow> gostr" where
  "inboxThreadKeySQL e = (let m = me_meta e in
     coalesce [mm_parent_path m, mm_thread_key m, mm_source_path m, mm_full_code_path m, mm_session_id m,
       mm_from m, ''system''])"

definition inboxSourcePathSQL :: "message_entry \<Rightarrow> gostr" where
  "inboxSourcePathSQL e = (let m = me_meta e in
     coalesce [mm_source_path m, mm_full_code_path m, mm_parent_path m])"

definition inbox_join :: "msg_db \<Rightarrow> inbox_row list" where
  "inbox_join s = [(r, m). r \<leftarrow> recipients s, m \<leftarrow> entries s, me_id m = mr_message_id r]"

definition inboxBaseQuery :: "gostr \<Rightarrow> msg_db \<Rightarrow> inbox_row list" where
  "inboxBaseQuery username s =
     filter (\<lambda>(r, m). mr_username r = username \<and> mr_deleted_at r = None \<and> me_deleted_at m = None) (inbox_join s)"

definition source_matches :: "gostr \<Rightarrow> bool \<Rightarrow> message_entry \<Rightarrow> bool" where
  "source_matches source_path children m \<longleftrightarrow>
     (let source = inboxSourcePathSQL m in
      list_ex (\<lambda>v. (source \<noteq> [] \<and> source = v) \<or> (children \<and> source \<noteq> [] \<and> sql_like (v @ ''/%'') source))
        (messageSourcePathVariants source_path))"

definition inbox_matches :: "inbox_filter \<Rightarrow> inbox_row \<Rightarrow> bool" where
  "inbox_matches f = (\<lambda>(r, m).
     (to_lower (trim_space (if_status f)) = ''unread'' \<longrightarrow> mr_read_at r = None) \<and>
     (let key = trim_space (if_thread_key f) in
        key \<noteq> [] \<longrightarrow> inboxThreadKeySQL m = key \<or> mm_thread_key (me_meta m) = key) \<and>
     (normalizeMessageSourcePath (if_source_path f) \<noteq> [] \<longrightarrow>
        source_matches (normalizeMessageSourcePath (if_source_path f)) (if_children f) m))"

definition inboxQuery :: "gostr \<Rightarrow> inbox_filter \<Rightarrow> msg_db \<Rightarrow> inbox_row list" where
  "inboxQuery username f s = filter (inbox_matches f) (inboxBaseQuery username s)"

section \<open>What the inbox shows\<close>

text \<open>\<open>strconv.ParseInt\<close> of a decimal, 0 on a syntax error; out of range it yields the bound.\<close>

definition all_digits :: "gostr \<Rightarrow> bool" where
  "all_digits s \<longleftrightarrow> s \<noteq> [] \<and> list_all (\<lambda>c. 48 \<le> (of_char c :: nat) \<and> (of_char c :: nat) \<le> 57) s"

definition digits_value :: "gostr \<Rightarrow> int" where
  "digits_value s = foldl (\<lambda>n c. 10 * n + int (of_char c) - 48) 0 s"

definition ParseInt :: "gostr \<Rightarrow> int" where
  "ParseInt s =
     (let (neg, ds) = (case s of c # cs \<Rightarrow> if c = CHR ''-'' then (True, cs)
            else if c = CHR ''+'' then (False, cs) else (False, s) | [] \<Rightarrow> (False, [])) in
      if \<not> all_digits ds then 0
      else if neg then max (- (2 ^ 63)) (- digits_value ds) else min (2 ^ 63 - 1) (digits_value ds))"

definition parseScheduledSourceRef :: "gostr \<Rightarrow> int \<times> int" where
  "parseScheduledSourceRef source_ref =
     (let parts = split_on (CHR 0x3A) (trim_space source_ref) in
      fold (\<lambda>(k, v) (task, execution).
        if k = ''timer_task'' then (ParseInt v, execution)
        else if k = ''execution'' \<or> k = ''timer_execution'' then (task, ParseInt v)
        else (task, execution)) (zip parts (tl parts)) (0, 0))"

definition pathBaseName :: "gostr \<Rightarrow> gostr" where
  "pathBaseName path =
     (let path = trim_char slash (trim_space path) in
      if path = [] then [] else last (split_on slash path))"

record source_display =
  sd_name :: gostr
  sd_type :: gostr
  sd_template :: gostr
  sd_path :: gostr
  sd_parent_name :: gostr
  sd_parent_path :: gostr
  sd_thread_key :: gostr

record inbox_item =
  ii_entry :: message_entry
  ii_recipient_id :: int
  ii_read_at :: "int option"
  ii_task_id :: int
  ii_execution_id :: int
  ii_display :: "source_display option"

definition hydrateMessageSourceDisplay :: "inbox_row \<Rightarrow> inbox_item" where
  "hydrateMessageSourceDisplay = (\<lambda>(r, e).
     let m = me_meta e;
         (task, execution) = parseScheduledSourceRef (mm_source_ref m);
         path = (if trim_space (mm_source_path m) = [] then trim_space (mm_full_code_path m)
                 else trim_space (mm_source_path m));
         name = (if trim_space (mm_source_title m) = [] then pathBaseName path else trim_space (mm_source_title m)) in
     \<lparr>ii_entry = e, ii_recipient_id = mr_id r, ii_read_at = mr_read_at r, ii_task_id = task,
      ii_execution_id = execution,
      ii_display = (if path = [] \<and> name = [] then None
        else Some \<lparr>sd_name = name, sd_type = trim_space (mm_source_type m),
               sd_template = trim_space (mm_template_type m), sd_path = path,
               sd_parent_name = trim_space (mm_parent_title m), sd_parent_path = trim_space (mm_parent_path m),
               sd_thread_key = trim_space (mm_thread_key m)\<rparr>)\<rparr>)"

definition ListInbox :: "gostr \<Rightarrow> inbox_filter \<Rightarrow> int \<Rightarrow> int \<Rightarrow> (inbox_item list \<times> nat) msg" where
  "ListInbox username f offset lim =
     andThen (query MErrDB (\<lambda>s. length (inboxQuery username f s))) (\<lambda>total.
     let lim = (if lim \<le> 0 then 20 else lim) in
     andThen (query MErrDB (\<lambda>s. limit_rows lim (offset_rows offset
       (sort_key (\<lambda>(r, m). - me_created_at m) (inboxQuery username f s))))) (\<lambda>rows.
     ret (map hydrateMessageSourceDisplay rows, total)))"

definition GetInboxMessage :: "gostr \<Rightarrow> int \<Rightarrow> inbox_item msg" where
  "GetInboxMessage username message_id =
     andThen (query MErrDB (\<lambda>s. find (\<lambda>(r, m). me_id m = message_id) (inboxBaseQuery username s))) (\<lambda>row.
     case row of None \<Rightarrow> fail MErrNotFound | Some x \<Rightarrow> ret (hydrateMessageSourceDisplay x))"

definition listInboxByMessageIDs :: "gostr \<Rightarrow> int list \<Rightarrow> inbox_item list msg" where
  "listInboxByMessageIDs username ids =
     (if ids = [] then ret []
      else andThen (query MErrDB (\<lambda>s. filter (\<lambda>(r, m). me_id m \<in> set ids) (inboxBaseQuery username s))) (\<lambda>rows.
        ret (map hydrateMessageSourceDisplay rows)))"

definition CountUnread :: "gostr \<Rightarrow> nat msg" where
  "CountUnread username =
     query MErrDB (\<lambda>s. length (filter (\<lambda>(r, m). mr_read_at r = None) (inboxBaseQuery username s)))"

section \<open>Groups\<close>

text \<open>The keys of the groups, each once, in the order of its first row.\<close>

definition group_keys :: "('r \<Rightarrow> 'k) \<Rightarrow> 'r list \<Rightarrow> 'k list" where
  "group_keys k rows = rev (remdups (rev (map k rows)))"

definition group_rows :: "('r \<Rightarrow> 'k) \<Rightarrow> 'r list \<Rightarrow> 'r list list" where
  "group_rows k rows = map (\<lambda>key. filter (\<lambda>r. k r = key) rows) (group_keys k rows)"

abbreviation unread_of :: "inbox_row list \<Rightarrow> nat" where
  "unread_of g \<equiv> length (filter (\<lambda>(r, m). mr_read_at r = None) g)"

abbreviation latest_of :: "inbox_row list \<Rightarrow> int" where
  "latest_of g \<equiv> Max (set (map (\<lambda>(r, m). me_created_at m) g))"

record thread_row =
  tr_key :: gostr
  tr_last_id :: int
  tr_latest_at :: int
  tr_count :: nat
  tr_unread :: nat

definition thread_row_of :: "inbox_row list \<Rightarrow> thread_row" where
  "thread_row_of g =
     \<lparr>tr_key = inboxThreadKeySQL (snd (hd g)), tr_last_id = Max (set (map (\<lambda>(r, m). me_id m) g)),
      tr_latest_at = latest_of g, tr_count = length g, tr_unread = unread_of g\<rparr>"

definition inbox_threads :: "gostr \<Rightarrow> gostr \<Rightarrow> msg_db \<Rightarrow> thread_row list" where
  "inbox_threads username status s =
     map thread_row_of (group_rows (\<lambda>(r, m). inboxThreadKeySQL m) (inboxQuery username (any_filter status) s))"

text \<open>The subtitle names a source, with the number of messages when there are several.\<close>

record inbox_thread =
  it_key :: gostr
  it_kind :: gostr
  it_title :: gostr
  it_subtitle :: "gostr \<times> nat option"
  it_path :: gostr
  it_unread :: nat
  it_count :: nat
  it_latest_at :: int
  it_last :: inbox_item

definition display_text :: "(source_display \<Rightarrow> gostr) \<Rightarrow> inbox_item \<Rightarrow> gostr" where
  "display_text f item = (case ii_display item of None \<Rightarrow> [] | Some d \<Rightarrow> f d)"

definition threadTitle :: "inbox_item \<Rightarrow> gostr" where
  "threadTitle item = (let m = me_meta (ii_entry item) in
     firstNonEmpty [display_text sd_parent_name item, mm_parent_title m, display_text sd_name item,
       mm_source_title m, mm_from m, ''system''])"

definition sourceSecondaryText :: "inbox_item \<Rightarrow> gostr" where
  "sourceSecondaryText item =
     (let m = me_meta (ii_entry item);
          function_name = firstNonEmpty [display_text sd_name item, mm_source_title m];
          parent_name = firstNonEmpty [display_text sd_parent_name item, mm_parent_title m] in
      if function_name \<noteq> [] \<and> function_name \<noteq> parent_name then function_name
      else firstNonEmpty [mm_session_title m, mm_source_path m, mm_full_code_path m, mm_from m, ''-''])"

definition threadSubtitle :: "inbox_item \<Rightarrow> nat \<Rightarrow> gostr \<times> nat option" where
  "threadSubtitle item n = (sourceSecondaryText item, if n > 1 then Some n else None)"

definition threadPath :: "inbox_item \<Rightarrow> gostr" where
  "threadPath item = (let m = me_meta (ii_entry item) in
     firstNonEmpty [display_text sd_parent_path item, display_text sd_path item, mm_parent_path m,
       mm_source_path m, mm_full_code_path m])"

definition threadKind :: "inbox_item \<Rightarrow> gostr" where
  "threadKind item =
     (let m = me_meta (ii_entry item) in
      if trim_space (mm_parent_path m) \<noteq> [] \<or> trim_space (display_text sd_parent_path item) \<noteq> [] then ''directory''
      else if trim_space (mm_session_id m) \<noteq> [] then ''session''
      else if trim_space (mm_source_path m) \<noteq> [] \<or> trim_space (mm_full_code_path m) \<noteq> [] then ''function''
      else ''sender'')"

definition buildInboxThread :: "thread_row \<Rightarrow> inbox_item \<Rightarrow> inbox_thread" where
  "buildInboxThread row item =
     (let m = me_meta (ii_entry item) in
      \<lparr>it_key = firstNonEmpty [tr_key row, mm_thread_key m,
         buildMessageThreadKey (mm_parent_path m) (mm_source_path m) (mm_full_code_path m) (mm_session_id m)],
       it_kind = threadKind item, it_title = threadTitle item,
       it_subtitle = threadSubtitle item (tr_count row), it_path = threadPath item,
       it_unread = tr_unread row, it_count = tr_count row, it_latest_at = me_created_at (ii_entry item),
       it_last = item\<rparr>)"

definition ListInboxThreads :: "gostr \<Rightarrow> gostr \<Rightarrow> int \<Rightarrow> int \<Rightarrow> (inbox_thread list \<times> nat) msg" where
  "ListInboxThreads username status offset lim =
     (let lim = (if lim \<le> 0 then 20 else lim) in
      andThen (query MErrDB (\<lambda>s. length (inbox_threads username status s))) (\<lambda>total.
      andThen (query MErrDB (\<lambda>s. limit_rows lim (offset_rows offset
        (sort_key (\<lambda>t. - tr_latest_at t) (inbox_threads username status s))))) (\<lambda>rows.
      if rows = [] then ret ([], total)
      else
        andThen (listInboxByMessageIDs username (map tr_last_id (filter (\<lambda>t. tr_last_id t > 0) rows))) (\<lambda>items.
        ret (concat (map (\<lambda>t. case find (\<lambda>item. me_id (ii_entry item) = tr_last_id t) (rev items) of
                              None \<Rightarrow> [] | Some item \<Rightarrow> [buildInboxThread t item]) rows), total)))))"

record source_count =
  sc_path :: gostr
  sc_latest_at :: int
  sc_count :: nat
  sc_unread :: nat

definition ListSourceCounts :: "gostr \<Rightarrow> gostr \<Rightarrow> source_count list msg" where
  "ListSourceCounts username status =
     andThen (query MErrDB (\<lambda>s. sort_key (\<lambda>c. - sc_latest_at c)
       (map (\<lambda>g. \<lparr>sc_path = inboxSourcePathSQL (snd (hd g)), sc_latest_at = latest_of g, sc_count = length g,
                   sc_unread = unread_of g\<rparr>)
         (group_rows (\<lambda>(r, m). inboxSourcePathSQL m) (inboxQuery username (any_filter status) s))))) (\<lambda>rows.
     ret (filter (\<lambda>c. sc_path c \<noteq> []) (map (\<lambda>c. c\<lparr>sc_path := normalizeMessageSourcePath (sc_path c)\<rparr>) rows)))"

record workspace_count =
  wc_key :: gostr
  wc_user :: gostr
  wc_code :: gostr
  wc_path :: gostr
  wc_title :: gostr
  wc_unread :: nat
  wc_count :: nat
  wc_latest_at :: int
  wc_latest_path :: gostr
  wc_latest_title :: gostr

definition messageWorkspacePath :: "gostr \<Rightarrow> gostr \<times> gostr \<times> gostr" where
  "messageWorkspacePath path =
     (let path = normalizeMessageSourcePath path in
      if path = [] then ([], [], [])
      else case split_on slash (trim_char slash path) of
          p # q # _ \<Rightarrow>
            (let user = trim_space p; code = trim_space q in
             if user = [] \<or> code = [] then ([], [], [])
             else ([slash] @ user @ [slash] @ code, user, code))
        | _ \<Rightarrow> ([], [], []))"

fun messageWorkspaceFromPaths :: "gostr list \<Rightarrow> workspace_count" where
  "messageWorkspaceFromPaths [] =
     \<lparr>wc_key = ''global'', wc_user = [], wc_code = [], wc_path = [], wc_title = ''global messages'', wc_unread = 0,
      wc_count = 0, wc_latest_at = 0, wc_latest_path = [], wc_latest_title = []\<rparr>"
| "messageWorkspaceFromPaths (p # ps) =
     (case messageWorkspacePath p of (path, user, code) \<Rightarrow>
        if path = [] then messageWorkspaceFromPaths ps
        else \<lparr>wc_key = path, wc_user = user, wc_code = code, wc_path = path, wc_title = user @ [slash] @ code,
              wc_unread = 0, wc_count = 0, wc_latest_at = 0, wc_latest_path = [], wc_latest_title = []\<rparr>)"

definition entry_workspace :: "message_entry \<Rightarrow> workspace_count" where
  "entry_workspace e = (let m = me_meta e in
     messageWorkspaceFromPaths [mm_source_path m, mm_full_code_path m, mm_parent_path m])"

definition count_message :: "inbox_row \<Rightarrow> workspace_count \<Rightarrow> workspace_count" where
  "count_message = (\<lambda>(r, e) g.
     let m = me_meta e;
         g = g\<lparr>wc_count := wc_count g + 1\<rparr>;
         g = (if mr_read_at r = None then g\<lparr>wc_unread := wc_unread g + 1\<rparr> else g) in
     if wc_latest_at g = 0 \<or> me_created_at e > wc_latest_at g
     then g\<lparr>wc_latest_at := me_created_at e,
            wc_latest_path := firstNonEmpty [mm_source_path m, mm_full_code_path m, mm_parent_path m],
            wc_latest_title := firstNonEmpty [mm_source_title m, mm_parent_title m, wc_title g]\<rparr>
     else g)"

definition workspace_groups :: "inbox_row list \<Rightarrow> workspace_count list" where
  "workspace_groups rows =
     map (\<lambda>g. fold count_message g (entry_workspace (snd (hd g))))
       (group_rows (\<lambda>(r, e). wc_key (entry_workspace e)) rows)"

definition ListWorkspaceCounts :: "gostr \<Rightarrow> gostr \<Rightarrow> workspace_count list msg" where
  "ListWorkspaceCounts username status =
     andThen (query MErrDB (\<lambda>s.
       sort_key (\<lambda>(r, m). - me_created_at m) (inboxQuery username (any_filter status) s))) (\<lambda>rows.
     ret (sort_key (\<lambda>g. - wc_latest_at g) (workspace_groups rows)))"

section \<open>Reading\<close>

definition set_read :: "(message_recipient \<Rightarrow> bool) \<Rightarrow> int \<Rightarrow> nat msg" where
  "set_read P t = modify MErrDB (\<lambda>s.
     let Q = (\<lambda>r. mr_deleted_at r = None \<and> P r) in
     (hits Q (recipients s), s\<lparr>recipients := upd Q (\<lambda>r. r\<lparr>mr_read_at := Some t\<rparr>) (recipients s)\<rparr>))"

definition MarkRead :: "gostr \<Rightarrow> int \<Rightarrow> unit msg" where
  "MarkRead username message_id =
     andThen now (\<lambda>t.
     andThen (set_read (\<lambda>r. mr_username r = username \<and> mr_message_id r = message_id) t) (\<lambda>n.
     if n = 0 then fail (MErr ''no message'') else ret ()))"

text \<open>The ids are updated in batches of a thousand, each a statement of its own.\<close>

function batches :: "'a list \<Rightarrow> 'a list list" where
  "batches xs = (if xs = [] then [] else take 1000 xs # batches (drop 1000 xs))"
  by pat_completeness auto
termination
  by (relation "measure length") auto

declare batches.simps [simp del]

definition source_filter :: "gostr \<Rightarrow> bool \<Rightarrow> inbox_filter" where
  "source_filter source_path children =
     \<lparr>if_status = [], if_thread_key = [], if_source_path = source_path, if_children = children\<rparr>"

definition MarkSourceRead :: "gostr \<Rightarrow> gostr \<Rightarrow> bool \<Rightarrow> unit msg" where
  "MarkSourceRead username source_path children =
     (let source_path = normalizeMessageSourcePath source_path in
      if source_path = [] then fail (MErr ''no source path'')
      else andThen now (\<lambda>t.
        andThen (query MErrDB (\<lambda>s. map (\<lambda>(r, m). mr_id r) (filter (\<lambda>(r, m). mr_read_at r = None)
          (inboxQuery username (source_filter source_path children) s)))) (\<lambda>ids.
        for_each (\<lambda>b. andThen (set_read (\<lambda>r. mr_id r \<in> set b) t) (\<lambda>_. ret ())) (batches ids))))"

definition MarkAllRead :: "gostr \<Rightarrow> unit msg" where
  "MarkAllRead username =
     andThen now (\<lambda>t.
     andThen (set_read (\<lambda>r. mr_username r = username \<and> mr_read_at r = None) t) (\<lambda>_. ret ()))"

end
