(* ===== verification/MsgActions.thy ===== *)
theory MsgActions
  imports MsgInbox
begin

text \<open>
  Links in notifications that let a recipient answer a message
  (\<open>core/message-server/repository/action_token_repository.go\<close>), the call that starts the agent
  session (\<open>service/workspace_action_runner.go\<close>) and the handlers (\<open>server/action_api.go\<close>).
  An answer takes the token (\<open>BeginActionReply\<close>), starts a session of the workspace and then confirms
  or gives the token back; a token taken more than two minutes ago counts as open again.
  Random tokens, their hash, the texts of the draft and the HTTP call are parameters.
\<close>

section \<open>Parameters\<close>

abbreviation TokenOpen :: gostr where "TokenOpen \<equiv> ''open''"
abbreviation TokenProcessing :: gostr where "TokenProcessing \<equiv> ''processing''"
abbreviation TokenSubmitted :: gostr where "TokenSubmitted \<equiv> ''submitted''"
abbreviation TokenExpired :: gostr where "TokenExpired \<equiv> ''expired''"

definition DefaultMessageActionTokenTTL :: int where
  "DefaultMessageActionTokenTTL = 72 * 3600 * 1000000000"

definition messageActionProcessingTTL :: int where
  "messageActionProcessingTTL = 2 * 60 * 1000000000"

text \<open>What is sent to the workspace, and what comes back: the lines of the event stream and how it ended.\<close>

record workspace_request =
  wq_user :: gostr
  wq_department :: gostr
  wq_channel :: gostr
  wq_full_code_path :: gostr
  wq_session_id :: gostr
  wq_content :: gostr
  wq_display :: gostr
  wq_files :: gostr
  wq_title :: gostr
  wq_source_ref :: gostr
  wq_meta :: send_meta

datatype stream_answer =
    NotSent gostr
  | HttpStatus int
  | StartTimeout
  | Stream "gostr list" "gostr option"

record action_env =
  ae_random :: "gostr option"
  ae_hash :: "gostr \<Rightarrow> gostr"
  ae_draft :: "message_entry \<Rightarrow> gostr \<Rightarrow> gostr \<Rightarrow> gostr \<Rightarrow> gostr \<Rightarrow> gostr"
  ae_json_field :: "gostr \<Rightarrow> gostr \<Rightarrow> gostr option"
  ae_chat :: "workspace_request \<Rightarrow> stream_answer"
  ae_base_url :: gostr

section \<open>Creating and reading a token\<close>

definition hashMessageActionToken :: "action_env \<Rightarrow> gostr \<Rightarrow> gostr" where
  "hashMessageActionToken E raw = ae_hash E (trim_space raw)"

definition newMessageActionToken :: "action_env \<Rightarrow> gostr msg" where
  "newMessageActionToken E =
     (case ae_random E of None \<Rightarrow> fail (MErr ''random'') | Some r \<Rightarrow> ret (''kat_'' @ r))"

definition normalizeAllowedActions :: "gostr list \<Rightarrow> gostr list" where
  "normalizeAllowedActions actions =
     (let out = keep_new (\<lambda>a. to_lower (trim_space a)) actions in if out = [] then [''reply''] else out)"

definition splitAllowedActions :: "gostr \<Rightarrow> gostr list" where
  "splitAllowedActions raw = normalizeAllowedActions (split_on (CHR '','') raw)"

definition containsAllowedAction :: "gostr list \<Rightarrow> gostr \<Rightarrow> bool" where
  "containsAllowedAction actions action \<longleftrightarrow> to_lower (trim_space action) \<in> set actions"

definition normalizeActionAuthorizedUsers :: "gostr list \<Rightarrow> gostr list" where
  "normalizeActionAuthorizedUsers = keep_new trim_space"

definition actionAuthorizedUsers :: "action_token \<Rightarrow> gostr list" where
  "actionAuthorizedUsers row =
     normalizeActionAuthorizedUsers (split_on (CHR '','') (tn_authorized row) @ [tn_recipient row])"

definition authorizeMessageActionUser :: "action_token \<Rightarrow> gostr \<Rightarrow> gostr msg" where
  "authorizeMessageActionUser row viewer =
     (let viewer = trim_space viewer in
      if viewer = [] then fail MErrLogin
      else if viewer \<in> set (actionAuthorizedUsers row) then ret viewer
      else fail (MErr ''not authorized''))"

definition effectiveActionTokenStatus :: "action_token \<Rightarrow> int \<Rightarrow> gostr" where
  "effectiveActionTokenStatus row t =
     (let status = trim_space (tn_status row);
          status = (if status = [] then TokenOpen else status);
          status = (if status = TokenProcessing \<and> tn_updated_at row \<noteq> 0 \<and>
                       t - tn_updated_at row \<ge> messageActionProcessingTTL
                    then TokenOpen else status) in
      if status = TokenOpen \<and> tn_expires_at row \<noteq> 0 \<and> t > tn_expires_at row then TokenExpired else status)"

record create_token_in =
  ci_message_id :: int
  ci_recipient :: gostr
  ci_authorized :: "gostr list"
  ci_channel :: gostr
  ci_actions :: "gostr list"
  ci_expires_at :: int
  ci_session_id :: gostr
  ci_thread_key :: gostr
  ci_source_path :: gostr
  ci_trace_id :: gostr

definition CreateActionToken :: "action_env \<Rightarrow> create_token_in \<Rightarrow> (gostr \<times> action_token) msg" where
  "CreateActionToken E inp =
     (if ci_message_id inp \<le> 0 then fail (MErr ''message_id required'')
      else let recipient = trim_space (ci_recipient inp) in
      if recipient = [] then fail (MErr ''recipient required'')
      else
        andThen (newMessageActionToken E) (\<lambda>raw.
        andThen now (\<lambda>t.
        andThen (next_id ''message_action_token'') (\<lambda>i.
        let row = \<lparr>tn_id = i, tn_updated_at = t, tn_hash = hashMessageActionToken E raw,
              tn_message_id = ci_message_id inp, tn_recipient = recipient,
              tn_authorized = join_with '','' (normalizeActionAuthorizedUsers (ci_authorized inp @ [recipient])),
              tn_channel = trim_space (ci_channel inp),
              tn_actions = join_with '','' (normalizeAllowedActions (ci_actions inp)),
              tn_status = TokenOpen,
              tn_expires_at = (if ci_expires_at inp = 0 then t + DefaultMessageActionTokenTTL else ci_expires_at inp),
              tn_used_at = None, tn_reply_id = 0, tn_session_id = trim_space (ci_session_id inp),
              tn_thread_key = trim_space (ci_thread_key inp), tn_source_path = trim_space (ci_source_path inp),
              tn_trace_id = trim_space (ci_trace_id inp)\<rparr> in
        stmt MErrDB (\<lambda>s.
          if list_ex (\<lambda>x. tn_hash x = tn_hash row) (action_tokens s) then (Inl MErrDuplicate, s)
          else (Inr (raw, row), s\<lparr>action_tokens := action_tokens s @ [row]\<rparr>))))))"

text \<open>\<open>UPDATE message_action_token\<close> with the timestamp GORM adds; the number of rows.\<close>

definition update_tokens :: "(action_token \<Rightarrow> bool) \<Rightarrow> (action_token \<Rightarrow> action_token) \<Rightarrow> nat msg" where
  "update_tokens P f = andThen now (\<lambda>t. modify MErrDB (\<lambda>s.
     (hits P (action_tokens s), s\<lparr>action_tokens := upd P (\<lambda>r. (f r)\<lparr>tn_updated_at := t\<rparr>) (action_tokens s)\<rparr>)))"

definition token_by_hash :: "gostr \<Rightarrow> action_token msg" where
  "token_by_hash h =
     andThen (query MErrDB (\<lambda>s. first_row (\<lambda>r. tn_hash r = h) (action_tokens s))) (\<lambda>row.
     case row of None \<Rightarrow> fail (MErr ''link invalid'') | Some r \<Rightarrow> ret r)"

definition getActionToken :: "action_env \<Rightarrow> gostr \<Rightarrow> action_token msg" where
  "getActionToken E raw =
     (let raw = trim_space raw in
      if raw = [] then fail (MErr ''no token'') else token_by_hash (hashMessageActionToken E raw))"

record action_view =
  av_status :: gostr
  av_recipient :: gostr
  av_channel :: gostr
  av_authenticated :: gostr
  av_actions :: "gostr list"
  av_can_reply :: bool
  av_expires_at :: int
  av_message :: inbox_item
  av_thread :: "inbox_item list"
  av_ask_url :: gostr
  av_session :: gostr
  av_submitted_at :: "int option"
  av_reply_id :: int

definition GetActionView :: "action_env \<Rightarrow> gostr \<Rightarrow> gostr \<Rightarrow> gostr \<Rightarrow> action_view msg" where
  "GetActionView E raw ask_url viewer =
     andThen (getActionToken E raw) (\<lambda>row.
     andThen (authorizeMessageActionUser row viewer) (\<lambda>acting.
     andThen (GetInboxMessage acting (tn_message_id row)) (\<lambda>item.
     let key = mm_thread_key (me_meta (ii_entry item)) in
     andThen (if trim_space key = [] then ret [item]
              else andThen (attempt (ListInbox acting \<lparr>if_status = [], if_thread_key = key, if_source_path = [],
                      if_children = False\<rparr> 0 30)) (\<lambda>res.
                   ret (case res of Inr (list, _) \<Rightarrow> if list \<noteq> [] then list else [item] | Inl _ \<Rightarrow> [item]))) (\<lambda>thread.
     andThen now (\<lambda>t.
     let actions = splitAllowedActions (tn_actions row); status = effectiveActionTokenStatus row t in
     ret \<lparr>av_status = status, av_recipient = trim_space (tn_recipient row), av_channel = trim_space (tn_channel row),
          av_authenticated = trim_space viewer, av_actions = actions,
          av_can_reply = (status = TokenOpen \<and> containsAllowedAction actions ''reply''),
          av_expires_at = tn_expires_at row, av_message = item, av_thread = thread, av_ask_url = trim_space ask_url,
          av_session = tn_session_id row, av_submitted_at = tn_used_at row, av_reply_id = tn_reply_id row\<rparr>)))))"

section \<open>Taking, confirming and giving back\<close>

record reply_resp =
  rp_status :: gostr
  rp_channel :: gostr
  rp_source_path :: gostr
  rp_full_code_path :: gostr
  rp_session_id :: gostr
  rp_draft :: gostr
  rp_submitted_at :: int
  rp_ask_url :: gostr
  rp_agent_submitted :: bool

definition check_reply :: "gostr \<Rightarrow> gostr \<Rightarrow> unit msg" where
  "check_reply content files =
     (if content = [] then fail (MErr ''empty'')
      else if rune_count content > 8000 then fail (MErr ''too long'')
      else if length files > 16000 then fail (MErr ''files too long'')
      else ret ())"

text \<open>The update that ends a processing period too long, and the row as the code then sees it.\<close>

definition reopen_stale :: "action_token \<Rightarrow> gostr \<Rightarrow> action_token msg" where
  "reopen_stale row status =
     (if tn_status row = TokenProcessing \<and> status = TokenOpen
      then andThen (update_tokens (\<lambda>r. tn_id r = tn_id row \<and> tn_status r = TokenProcessing)
             (\<lambda>r. r\<lparr>tn_status := TokenOpen\<rparr>)) (\<lambda>_. ret (row\<lparr>tn_status := TokenOpen\<rparr>))
      else ret row)"

definition entry_by_id :: "int \<Rightarrow> message_entry msg" where
  "entry_by_id i =
     andThen (query (MErr ''no original'') (\<lambda>s. first_row (\<lambda>e. me_id e = i \<and> me_deleted_at e = None) (entries s))) (\<lambda>e.
     case e of None \<Rightarrow> fail (MErr ''no original'') | Some e \<Rightarrow> ret e)"

definition reply_context ::
  "action_env \<Rightarrow> action_token \<Rightarrow> message_entry \<Rightarrow> gostr \<Rightarrow> gostr \<Rightarrow> gostr \<Rightarrow> reply_resp" where
  "reply_context E row original content files acting =
     (let m = me_meta original in
      \<lparr>rp_status = TokenProcessing, rp_channel = trim_space (tn_channel row),
       rp_source_path = firstNonEmpty [mm_source_path m, mm_full_code_path m, mm_parent_path m],
       rp_full_code_path = ResolveMessageWorkspacePath (mm_source_path m) (mm_full_code_path m) (mm_parent_path m),
       rp_session_id = firstNonEmpty [mm_session_id m, tn_session_id row],
       rp_draft = ae_draft E original content files acting (tn_channel row),
       rp_submitted_at = 0, rp_ask_url = [], rp_agent_submitted = False\<rparr>)"

definition begin_reply_tx ::
  "action_env \<Rightarrow> gostr \<Rightarrow> gostr \<Rightarrow> gostr \<Rightarrow> gostr \<Rightarrow> gostr \<Rightarrow> reply_resp msg" where
  "begin_reply_tx E raw content files action viewer =
     andThen (token_by_hash (hashMessageActionToken E raw)) (\<lambda>row0.
     andThen (authorizeMessageActionUser row0 viewer) (\<lambda>acting.
     andThen now (\<lambda>t.
     let status = effectiveActionTokenStatus row0 t in
     if status = TokenExpired
     then andThen (update_tokens (\<lambda>r. tn_id r = tn_id row0) (\<lambda>r. r\<lparr>tn_status := TokenExpired\<rparr>)) (\<lambda>_.
          fail (MErr ''link expired''))
     else andThen (reopen_stale row0 status) (\<lambda>row.
     if tn_status row \<noteq> TokenOpen then fail (MErr ''already handled'')
     else if \<not> containsAllowedAction (splitAllowedActions (tn_actions row)) action then fail (MErr ''action not allowed'')
     else
       andThen (entry_by_id (tn_message_id row)) (\<lambda>original.
       andThen (set_read (\<lambda>r. mr_username r = acting \<and> mr_message_id r = tn_message_id row) t) (\<lambda>_.
       andThen (update_tokens (\<lambda>r. tn_id r = tn_id row)
          (\<lambda>r. r\<lparr>tn_status := TokenProcessing, tn_used_at := None, tn_reply_id := 0\<rparr>)) (\<lambda>_.
       ret (reply_context E row original content files acting))))))))"

definition BeginActionReply ::
  "action_env \<Rightarrow> gostr \<Rightarrow> gostr \<Rightarrow> gostr \<Rightarrow> gostr \<Rightarrow> gostr \<Rightarrow> reply_resp msg" where
  "BeginActionReply E raw content files action viewer =
     (let content = trim_space content; files = trim_space files;
          action = (if trim_space action = [] then ''reply'' else trim_space action) in
      andThen (check_reply content files) (\<lambda>_.
      tx MErrDB (begin_reply_tx E raw content files action viewer)))"

definition FinalizeActionReply :: "action_env \<Rightarrow> gostr \<Rightarrow> gostr \<Rightarrow> int msg" where
  "FinalizeActionReply E raw session_id =
     (let session_id = trim_space session_id in
      if session_id = [] then fail (MErr ''session_id required'')
      else andThen now (\<lambda>t.
        andThen (update_tokens (\<lambda>r. tn_hash r = hashMessageActionToken E raw \<and> tn_status r = TokenProcessing)
          (\<lambda>r. r\<lparr>tn_status := TokenSubmitted, tn_used_at := Some t, tn_session_id := session_id\<rparr>)) (\<lambda>n.
        if n \<noteq> 1 then fail (MErr ''not processing'') else ret t)))"

definition ReleaseActionReply :: "action_env \<Rightarrow> gostr \<Rightarrow> unit msg" where
  "ReleaseActionReply E raw =
     andThen (update_tokens (\<lambda>r. tn_hash r = hashMessageActionToken E raw \<and> tn_status r = TokenProcessing)
       (\<lambda>r. r\<lparr>tn_status := TokenOpen, tn_used_at := None\<rparr>)) (\<lambda>_. ret ())"

definition SubmitActionReply :: "action_env \<Rightarrow> gostr \<Rightarrow> gostr \<Rightarrow> gostr \<Rightarrow> gostr \<Rightarrow> reply_resp msg" where
  "SubmitActionReply E raw content action viewer =
     andThen (BeginActionReply E raw content [] action viewer) (\<lambda>resp.
     andThen (attempt (FinalizeActionReply E raw (rp_session_id resp))) (\<lambda>res.
     case res of
       Inl e \<Rightarrow> andThen (attempt (ReleaseActionReply E raw)) (\<lambda>_. fail e)
     | Inr t \<Rightarrow> ret (resp\<lparr>rp_status := TokenSubmitted, rp_submitted_at := t\<rparr>)))"

definition UpdateActionWorkspaceSession :: "action_env \<Rightarrow> gostr \<Rightarrow> gostr \<Rightarrow> unit msg" where
  "UpdateActionWorkspaceSession E raw session_id =
     (let session_id = trim_space session_id in
      if session_id = [] then ret ()
      else andThen (update_tokens (\<lambda>r. tn_hash r = hashMessageActionToken E raw)
        (\<lambda>r. r\<lparr>tn_session_id := session_id\<rparr>)) (\<lambda>_. ret ()))"

end
