(* ===== verification/MsgReplies.thy ===== *)
theory MsgReplies
  imports MsgActions
begin

text \<open>
  Answering a message from a notification: reading the event stream of the workspace
  (\<open>core/message-server/service/workspace_action_runner.go\<close>) and the two HTTP handlers
  (\<open>core/message-server/server/action_api.go\<close>). The stream is the list of lines the scanner yields
  with the error it ends with.
\<close>

section \<open>Starting a session\<close>

record stream_state =
  st_event :: gostr
  st_data :: "gostr list"
  st_started :: "(msg_error + gostr) option"

text \<open>\<open>flushEvent\<close>; only the first signal is sent, a signal without a session carries the empty id.\<close>

definition workspaceActionSessionID :: "action_env \<Rightarrow> gostr \<Rightarrow> gostr" where
  "workspaceActionSessionID E text =
     (case ae_json_field E ''session_id'' text of None \<Rightarrow> [] | Some v \<Rightarrow> trim_space v)"

definition workspaceActionErrorMessage :: "action_env \<Rightarrow> gostr \<Rightarrow> gostr" where
  "workspaceActionErrorMessage E text =
     (case ae_json_field E ''message'' text of None \<Rightarrow> trim_space text | Some v \<Rightarrow> trim_space v)"

definition signal :: "msg_error + gostr \<Rightarrow> stream_state \<Rightarrow> stream_state" where
  "signal r st = (case st_started st of None \<Rightarrow> st\<lparr>st_started := Some r\<rparr> | Some _ \<Rightarrow> st)"

definition flushEvent :: "action_env \<Rightarrow> stream_state \<Rightarrow> stream_state" where
  "flushEvent E st =
     (if st_event st = [] \<and> st_data st = [] then st
      else
        let text = trim_space (join_with [CHR 0x0A] (st_data st));
            st = (if st_event st = ''session''
                  then (let sid = workspaceActionSessionID E text in
                        if sid \<noteq> [] then signal (Inr sid) st else st)
                  else if st_event st = ''error''
                  then (let m = workspaceActionErrorMessage E text in
                        signal (Inl (MErrOf ''workspace'' (if m = [] then ''failed'' else m))) st)
                  else if st_event st = ''done'' then signal (Inr []) st else st) in
        st\<lparr>st_event := [], st_data := []\<rparr>)"

definition trim_suffix :: "char \<Rightarrow> gostr \<Rightarrow> gostr" where
  "trim_suffix c s = (if s \<noteq> [] \<and> last s = c then butlast s else s)"

definition stream_line :: "action_env \<Rightarrow> gostr \<Rightarrow> stream_state \<Rightarrow> stream_state" where
  "stream_line E line0 st =
     (let line = trim_suffix (CHR 0x0D) line0 in
      if line = [] then flushEvent E st
      else if has_prefix line ''event:'' then st\<lparr>st_event := trim_space (drop 6 line)\<rparr>
      else if has_prefix line ''data:'' then st\<lparr>st_data := st_data st @ [trim_space (drop 5 line)]\<rparr>
      else st)"

definition readWorkspaceActionStream :: "action_env \<Rightarrow> gostr list \<Rightarrow> gostr option \<Rightarrow> msg_error + gostr" where
  "readWorkspaceActionStream E ls broken =
     (case st_started (flushEvent E (fold (stream_line E) ls \<lparr>st_event = [], st_data = [], st_started = None\<rparr>)) of
        Some r \<Rightarrow> r
      | None \<Rightarrow> Inl (case broken of Some e \<Rightarrow> MErrOf ''stream'' e | None \<Rightarrow> MErr ''no session event''))"

text \<open>\<open>run\<close> sends the request and reads the stream; \<open>Submit\<close> waits for its first signal or the timeout.\<close>

definition workspace_run :: "action_env \<Rightarrow> workspace_request \<Rightarrow> msg_error + gostr" where
  "workspace_run E req =
     (case ae_chat E req of
        NotSent e \<Rightarrow> Inl (MErrOf ''not sent'' e)
      | StartTimeout \<Rightarrow> Inl (MErr ''timeout'')
      | HttpStatus code \<Rightarrow> if code < 200 \<or> code \<ge> 300 then Inl (MErr ''http status'')
                           else readWorkspaceActionStream E [] None
      | Stream ls broken \<Rightarrow> readWorkspaceActionStream E ls broken)"

definition WorkspaceSubmit :: "action_env \<Rightarrow> workspace_request \<Rightarrow> msg_error + gostr" where
  "WorkspaceSubmit E req0 =
     (let req = req0\<lparr>wq_user := trim_space (wq_user req0), wq_full_code_path := trim_space (wq_full_code_path req0),
                   wq_content := trim_space (wq_content req0)\<rparr> in
      if wq_user req = [] then Inl (MErr ''no user'')
      else if wq_full_code_path req = [] then Inl (MErr ''no path'')
      else if wq_content req = [] then Inl (MErr ''no content'')
      else case workspace_run E req of
         Inl e \<Rightarrow> Inl e
       | Inr sid \<Rightarrow> if trim_space sid = [] then Inl (MErr ''no valid session'') else Inr sid)"

section \<open>Links\<close>

text \<open>\<open>url.QueryEscape\<close>; \<open>url.Values.Encode\<close> sorts by key.\<close>

definition unreserved :: "char \<Rightarrow> bool" where
  "unreserved c \<longleftrightarrow> (let b = (of_char c :: nat) in
     (97 \<le> b \<and> b \<le> 122) \<or> (65 \<le> b \<and> b \<le> 90) \<or> (48 \<le> b \<and> b \<le> 57) \<or> c \<in> set ''-_.~'')"

definition hex_digit :: "nat \<Rightarrow> char" where
  "hex_digit n = char_of (if n < 10 then 48 + n else 55 + n)"

definition query_escape :: "gostr \<Rightarrow> gostr" where
  "query_escape s = concat (map (\<lambda>c.
     if unreserved c then [c]
     else if c = CHR '' '' then ''+''
     else let b = (of_char c :: nat) in [CHR ''%'', hex_digit (b div 16), hex_digit (b mod 16)]) s)"

definition encode_query :: "(gostr \<times> gostr) list \<Rightarrow> gostr" where
  "encode_query kvs = join_with ''&'' (map (\<lambda>(k, v). query_escape k @ ''='' @ query_escape v) kvs)"

definition ask_query :: "gostr \<Rightarrow> gostr \<Rightarrow> (gostr \<times> gostr) list" where
  "ask_query source_path session_id =
     (if trim_space session_id \<noteq> [] then [(''session_id'', trim_space session_id)] else []) @
     (if trim_space source_path \<noteq> [] then [(''source_path'', trim_space source_path)] else [])"

definition buildMobileAskURL :: "gostr \<Rightarrow> gostr \<Rightarrow> gostr \<Rightarrow> gostr" where
  "buildMobileAskURL base_url source_path session_id =
     (let q = ask_query source_path session_id;
          route = (if q = [] then ''/m'' else ''/m?'' @ encode_query q);
          base_url = trim_right_char slash (trim_space base_url) in
      if base_url = [] then route else base_url @ route)"

section \<open>The handlers\<close>

datatype http_reply =
    NoAuth
  | Failed msg_error
  | Status int gostr
  | ViewOk action_view
  | ReplyOk reply_resp

text \<open>An error that asks for a login is answered with the status for it.\<close>

definition error_reply :: "msg_error \<Rightarrow> http_reply" where
  "error_reply e = (if e = MErrLogin then NoAuth else Failed e)"

definition replied :: "'a msg \<Rightarrow> ('a \<Rightarrow> http_reply msg) \<Rightarrow> http_reply msg" where
  "replied m f = andThen (attempt m) (\<lambda>r. case r of Inl e \<Rightarrow> ret (error_reply e) | Inr a \<Rightarrow> f a)"

definition getPublicMessageAction :: "action_env \<Rightarrow> gostr \<Rightarrow> gostr \<Rightarrow> http_reply msg" where
  "getPublicMessageAction E token user =
     replied (GetActionView E (trim_space token) [] user) (\<lambda>view.
       ret (ViewOk (view\<lparr>av_ask_url := buildMobileAskURL (ae_base_url E)
         (mm_source_path (me_meta (ii_entry (av_message view)))) (av_session view)\<rparr>)))"

record reply_request =
  rr_content :: gostr
  rr_files :: gostr
  rr_action :: gostr
  rr_department :: gostr

definition mobileActionFullCodePath :: "inbox_item \<Rightarrow> gostr" where
  "mobileActionFullCodePath item = (let m = me_meta (ii_entry item) in
     ResolveMessageWorkspacePath (mm_source_path m) (mm_full_code_path m) (mm_parent_path m))"

definition workspace_request_of ::
  "reply_request \<Rightarrow> action_view \<Rightarrow> reply_resp \<Rightarrow> workspace_request" where
  "workspace_request_of req view resp =
     (let e = ii_entry (av_message view); m = me_meta e in
      \<lparr>wq_user = av_recipient view, wq_department = rr_department req,
       wq_channel = firstNonEmpty [rp_channel resp, av_channel view], wq_full_code_path = rp_full_code_path resp,
       wq_session_id = rp_session_id resp, wq_content = rp_draft resp, wq_display = trim_space (rr_content req),
       wq_files = trim_space (rr_files req), wq_title = me_title e,
       wq_source_ref = firstNonEmpty [mm_source_ref m, ''message:'' @ show_int (me_id e)], wq_meta = m\<rparr>)"

definition releasePublicMessageActionReply :: "action_env \<Rightarrow> gostr \<Rightarrow> unit msg" where
  "releasePublicMessageActionReply E token = andThen (attempt (ReleaseActionReply E token)) (\<lambda>_. ret ())"

definition give_back :: "action_env \<Rightarrow> gostr \<Rightarrow> http_reply \<Rightarrow> http_reply msg" where
  "give_back E token r = andThen (releasePublicMessageActionReply E token) (\<lambda>_. ret r)"

definition confirm_reply ::
  "action_env \<Rightarrow> gostr \<Rightarrow> gostr \<Rightarrow> reply_resp \<Rightarrow> gostr \<Rightarrow> http_reply msg" where
  "confirm_reply E token full_code_path resp sid =
     (let sid = trim_space sid in
      andThen (attempt (FinalizeActionReply E token sid)) (\<lambda>r.
      case r of
        Inl e \<Rightarrow> give_back E token (Status 500 ''not confirmed'')
      | Inr t \<Rightarrow> ret (ReplyOk (resp\<lparr>rp_session_id := sid, rp_status := TokenSubmitted, rp_submitted_at := t,
          rp_agent_submitted := True, rp_ask_url := buildMobileAskURL (ae_base_url E) full_code_path sid\<rparr>))))"

definition run_reply ::
  "action_env \<Rightarrow> gostr \<Rightarrow> reply_request \<Rightarrow> action_view \<Rightarrow> gostr \<Rightarrow> reply_resp \<Rightarrow> http_reply msg" where
  "run_reply E token req view full_code_path resp0 =
     (let resp = resp0\<lparr>rp_full_code_path := firstNonEmpty [rp_full_code_path resp0, full_code_path]\<rparr> in
      case WorkspaceSubmit E (workspace_request_of req view resp) of
        Inl e \<Rightarrow> give_back E token (Status 500 ''no session'')
      | Inr sid \<Rightarrow> confirm_reply E token full_code_path resp sid)"

definition submitPublicMessageActionReply ::
  "action_env \<Rightarrow> gostr \<Rightarrow> reply_request \<Rightarrow> gostr \<Rightarrow> http_reply msg" where
  "submitPublicMessageActionReply E token0 req user =
     (let token = trim_space token0; user = trim_space user in
      if rr_content req = [] then ret (Status 400 ''bad request'')
      else replied (GetActionView E token [] user) (\<lambda>view.
        if user = [] then ret NoAuth
        else if trim_space (av_recipient view) \<noteq> user then ret (Status 403 ''other user'')
        else
          let full_code_path = mobileActionFullCodePath (av_message view) in
          if full_code_path = [] then ret (Status 400 ''no path'')
          else replied (BeginActionReply E token (rr_content req) (rr_files req) (rr_action req) user)
            (run_reply E token req view full_code_path)))"

end
