(* ===== verification/MsgReplySteps.thy ===== *)
theory MsgReplySteps
  imports MsgReplies
begin

text \<open>
  What the operations do to the action tokens, and answers as a transition system: requests
  interleave between the transactions and statements of the repository, the clock advances, and
  anything else leaves the tokens alone. A handler that has taken a token is in flight until it
  confirms or gives it back.
\<close>

section \<open>The table of tokens\<close>

definition token_status_ok :: "gostr \<Rightarrow> bool" where
  "token_status_ok s \<longleftrightarrow> s \<in> {TokenOpen, TokenProcessing, TokenSubmitted}"

interpretation tokens_table: guarded_table action_tokens update_tokens "\<lambda>t r. r\<lparr>tn_updated_at := t\<rparr>"
  unfolding update_tokens_def
  by unfold_locales
    ((rule modify_upd_excluded [where put = "\<lambda>rs s. s\<lparr>action_tokens := rs\<rparr>"]
           modify_upd_included [where put = "\<lambda>rs s. s\<lparr>action_tokens := rs\<rparr>"]; simp)+)

definition token_at :: "gostr \<Rightarrow> msg_db \<Rightarrow> action_token option" where
  "token_at h s = first_row (\<lambda>r. tn_hash r = h) (action_tokens s)"

definition tokens_ok :: "msg_db world \<Rightarrow> bool" where
  "tokens_ok w \<longleftrightarrow> (let ts = action_tokens (store w) in
     distinct (map tn_hash ts) \<and> distinct (map tn_id ts) \<and>
     (\<forall>r \<in> set ts. tn_id r \<le> seqs w ''message_action_token'' \<and> token_status_ok (tn_status r)))"

lemma token_at_Some: "token_at h s = Some r \<Longrightarrow> r \<in> set (action_tokens s) \<and> tn_hash r = h"
  unfolding token_at_def by (drule first_row_Some) simp

lemma first_row_upd:
  "(\<And>r. k (f r) = k r) \<Longrightarrow>
     first_row (\<lambda>r. k r = h) (upd P f rows) = map_option (\<lambda>r. if P r then f r else r) (first_row (\<lambda>r. k r = h) rows)"
  by (induction rows) auto

definition token_map :: "msg_db \<Rightarrow> gostr \<Rightarrow> action_token option" where
  "token_map s = (\<lambda>h. token_at h s)"

text \<open>A change of rows that keeps hash and id, and what becomes of the token of a hash.\<close>

definition keeps_identity :: "(action_token \<Rightarrow> action_token) \<Rightarrow> bool" where
  "keeps_identity g \<longleftrightarrow> (\<forall>r. tn_hash (g r) = tn_hash r \<and> tn_id (g r) = tn_id r)"

definition stamped :: "(action_token \<Rightarrow> bool) \<Rightarrow> (action_token \<Rightarrow> action_token) \<Rightarrow> int \<Rightarrow> action_token \<Rightarrow> action_token" where
  "stamped P f t r = (if P r then (f r)\<lparr>tn_updated_at := t\<rparr> else r)"

lemma upd_stamped: "upd P (\<lambda>r. (f r)\<lparr>tn_updated_at := t\<rparr>) rows = map (stamped P f t) rows"
  by (simp add: upd_def stamped_def)

lemma keeps_identityI: "(\<And>r. tn_hash (g r) = tn_hash r) \<Longrightarrow> (\<And>r. tn_id (g r) = tn_id r) \<Longrightarrow> keeps_identity g"
  by (simp add: keeps_identity_def)

lemma keeps_identity_comp: "keeps_identity g \<Longrightarrow> keeps_identity h \<Longrightarrow> keeps_identity (g \<circ> h)"
  by (simp add: keeps_identity_def)

lemma token_at_map:
  assumes "keeps_identity g" and "action_tokens s' = map g (action_tokens s)"
  shows "token_at h s' = map_option g (token_at h s)"
proof -
  have "first_row (\<lambda>r. tn_hash r = h) (map g rows) = map_option g (first_row (\<lambda>r. tn_hash r = h) rows)" for rows
    using assms(1) by (induction rows) (auto simp: keeps_identity_def)
  then show ?thesis by (simp add: token_at_def assms(2))
qed

lemma tokens_ok_map:
  assumes "tokens_ok w" and "keeps_identity g" and "action_tokens (store w') = map g (action_tokens (store w))"
    and "\<And>r. r \<in> set (action_tokens (store w)) \<Longrightarrow> token_status_ok (tn_status (g r))"
    and "seqs w ''message_action_token'' \<le> seqs w' ''message_action_token''"
  shows "tokens_ok w'"
proof -
  let ?ts = "action_tokens (store w)"
  have ok: "distinct (map tn_hash ?ts)" "distinct (map tn_id ?ts)"
    "\<And>r. r \<in> set ?ts \<Longrightarrow> tn_id r \<le> seqs w ''message_action_token''"
    using assms(1) by (simp_all add: tokens_ok_def Let_def)
  have same: "map tn_hash (map g ?ts) = map tn_hash ?ts" "map tn_id (map g ?ts) = map tn_id ?ts"
    using assms(2) by (simp_all add: keeps_identity_def)
  have "tn_id x \<le> seqs w' ''message_action_token'' \<and> token_status_ok (tn_status x)" if "x \<in> set (map g ?ts)" for x
  proof -
    from that obtain r where "r \<in> set ?ts" "x = g r" by auto
    then show ?thesis using ok(3) [of r] assms(2,4,5) by (simp add: keeps_identity_def)
  qed
  then show ?thesis unfolding tokens_ok_def Let_def assms(3) same using ok(1,2) by blast
qed

text \<open>Ids and hashes are unique: a row is the token of its hash, and equal ids make equal rows.\<close>

lemma token_of_row: "tokens_ok w \<Longrightarrow> r \<in> set (action_tokens (store w)) \<Longrightarrow> token_at (tn_hash r) (store w) = Some r"
proof -
  assume "tokens_ok w" and r: "r \<in> set (action_tokens (store w))"
  then have d: "distinct (map tn_hash (action_tokens (store w)))" by (simp add: tokens_ok_def Let_def)
  obtain x where "token_at (tn_hash r) (store w) = Some x"
    using r by (cases "token_at (tn_hash r) (store w)") (auto simp: token_at_def first_row_None)
  moreover from this have "x \<in> set (action_tokens (store w))" "tn_hash x = tn_hash r"
    by (simp_all add: token_at_Some)
  ultimately show ?thesis using d r by (metis (no_types, lifting) distinct_map inj_on_def)
qed

lemma same_id_same_token:
  assumes "tokens_ok w" and "token_at h (store w) = Some r" and "token_at h' (store w) = Some r'"
    and "tn_id r = tn_id r'"
  shows "h = h' \<and> r = r'"
proof -
  have "distinct (map tn_id (action_tokens (store w)))" using assms(1) by (simp add: tokens_ok_def Let_def)
  moreover have "r \<in> set (action_tokens (store w))" "r' \<in> set (action_tokens (store w))"
    using assms(2,3) by (simp_all add: token_at_Some)
  ultimately have "r = r'" using assms(4) by (metis (no_types, lifting) distinct_map inj_on_def)
  then show ?thesis using assms(2,3) by (metis token_at_Some)
qed

text \<open>An update of one token, seen on the map.\<close>

lemma token_map_one:
  assumes "keeps_identity g" and "action_tokens s' = map g (action_tokens s)"
    and "\<And>h' r'. token_at h' s = Some r' \<Longrightarrow> h' \<noteq> h \<Longrightarrow> g r' = r'" and "token_at h s = Some r"
  shows "token_map s' = (token_map s)(h \<mapsto> g r)"
proof
  fix h'
  show "token_map s' h' = ((token_map s)(h \<mapsto> g r)) h'"
    using assms token_at_map [OF assms(1,2), of h'] by (cases "token_at h' s") (auto simp: token_map_def)
qed

section \<open>The operations on tokens\<close>

definition taken :: "int \<Rightarrow> action_token \<Rightarrow> action_token" where
  "taken t r = r\<lparr>tn_status := TokenProcessing, tn_used_at := None, tn_reply_id := 0, tn_updated_at := t\<rparr>"

definition confirmed :: "int \<Rightarrow> gostr \<Rightarrow> action_token \<Rightarrow> action_token" where
  "confirmed t sid r = r\<lparr>tn_status := TokenSubmitted, tn_used_at := Some t, tn_session_id := sid, tn_updated_at := t\<rparr>"

definition given_back :: "int \<Rightarrow> action_token \<Rightarrow> action_token" where
  "given_back t r = r\<lparr>tn_status := TokenOpen, tn_used_at := None, tn_updated_at := t\<rparr>"

definition renamed :: "int \<Rightarrow> gostr \<Rightarrow> action_token \<Rightarrow> action_token" where
  "renamed t sid r = r\<lparr>tn_session_id := sid, tn_updated_at := t\<rparr>"

text \<open>The specification: a lock per hash, with an expiry and a limit on how long it is held.\<close>

datatype reply_label = Idle | Took gostr | Confirmed gostr gostr | GaveBack gostr

inductive reply_spec ::
  "int \<Rightarrow> reply_label \<Rightarrow> (gostr \<Rightarrow> action_token option) \<Rightarrow> (gostr \<Rightarrow> action_token option) \<Rightarrow> bool" for t where
  sp_idle: "reply_spec t Idle m m"
| sp_issue: "m h = None \<Longrightarrow> tn_hash r = h \<Longrightarrow> tn_status r = TokenOpen \<Longrightarrow> reply_spec t Idle m (m(h \<mapsto> r))"
| sp_take: "m h = Some r \<Longrightarrow> effectiveActionTokenStatus r t = TokenOpen \<Longrightarrow>
     reply_spec t (Took h) m (m(h \<mapsto> taken t r))"
| sp_confirm: "m h = Some r \<Longrightarrow> tn_status r = TokenProcessing \<Longrightarrow> trim_space sid \<noteq> [] \<Longrightarrow>
     reply_spec t (Confirmed h (trim_space sid)) m (m(h \<mapsto> confirmed t (trim_space sid) r))"
| sp_back: "m h = Some r \<Longrightarrow> tn_status r = TokenProcessing \<Longrightarrow> reply_spec t (GaveBack h) m (m(h \<mapsto> given_back t r))"
| sp_rename: "m h = Some r \<Longrightarrow> reply_spec t Idle m (m(h \<mapsto> renamed t sid r))"

section \<open>Every operation implements the specification\<close>

definition implements :: "'a msg \<Rightarrow> (msg_error + 'a \<Rightarrow> reply_label set) \<Rightarrow> bool" where
  "implements m L \<longleftrightarrow> (\<forall>w res w'. tokens_ok w \<longrightarrow> m w = (res, w') \<longrightarrow>
     tokens_ok w' \<and> clock w' = clock w \<and>
     (\<exists>l \<in> L res. reply_spec (clock w) l (token_map (store w)) (token_map (store w'))))"

lemma update_tokens_cases:
  assumes "update_tokens P f w = (res, w')"
  obtains e where "res = Inl e" "store w' = store w" "seqs w' = seqs w" "clock w' = clock w"
    | "res = Inr (hits P (action_tokens (store w)))"
      "action_tokens (store w') = map (stamped P f (clock w)) (action_tokens (store w))"
      "seqs w' = seqs w" "clock w' = clock w"
  using assms
  by (auto simp: update_tokens_def andThen_def now_def modify_def stmt_def upd_stamped split: if_splits)

lemma token_map_same: "action_tokens s' = action_tokens s \<Longrightarrow> token_map s' = token_map s"
  by (simp add: token_map_def token_at_def fun_eq_iff)

lemma tokens_ok_same:
  "tokens_ok w \<Longrightarrow> action_tokens (store w') = action_tokens (store w) \<Longrightarrow>
     seqs w ''message_action_token'' \<le> seqs w' ''message_action_token'' \<Longrightarrow> tokens_ok w'"
  by (auto simp: tokens_ok_def Let_def)

text \<open>An update whose guard holds for no token, or for the token of one hash.\<close>

lemma map_stamped_none: "\<not> list_ex P rows \<Longrightarrow> map (stamped P f t) rows = rows"
  by (induction rows) (auto simp: stamped_def)

lemma hash_update:
  assumes ok: "tokens_ok w"
    and run: "action_tokens (store w') = map (stamped (\<lambda>r. tn_hash r = h \<and> Q r) f t) (action_tokens (store w))"
    and f: "keeps_identity f" and good: "\<And>r. Q r \<Longrightarrow> token_status_ok (tn_status r) \<Longrightarrow> token_status_ok (tn_status (f r))"
    and sq: "seqs w' = seqs w"
  shows "tokens_ok w' \<and>
     (case token_at h (store w) of
        Some r \<Rightarrow> if Q r then token_map (store w') = (token_map (store w))(h \<mapsto> (f r)\<lparr>tn_updated_at := t\<rparr>)
                 else token_map (store w') = token_map (store w) \<and> action_tokens (store w') = action_tokens (store w)
      | None \<Rightarrow> token_map (store w') = token_map (store w) \<and> action_tokens (store w') = action_tokens (store w))"
proof -
  let ?P = "\<lambda>r. tn_hash r = h \<and> Q r"
  have id: "keeps_identity (stamped ?P f t)" using f by (simp add: keeps_identity_def stamped_def)
  have "token_status_ok (tn_status (stamped ?P f t r))" if "r \<in> set (action_tokens (store w))" for r
    using that ok good by (auto simp: stamped_def tokens_ok_def Let_def)
  then have ok': "tokens_ok w'" using tokens_ok_map [OF ok id run] sq by simp
  have none: "action_tokens (store w') = action_tokens (store w)"
    if "\<And>r. token_at h (store w) = Some r \<Longrightarrow> \<not> Q r"
  proof -
    have "\<not> ?P r" if "r \<in> set (action_tokens (store w))" for r
      using token_of_row [OF ok that] \<open>\<And>r. token_at h (store w) = Some r \<Longrightarrow> \<not> Q r\<close> by auto
    then show ?thesis unfolding run by (intro map_stamped_none) (auto simp: list_ex_iff)
  qed
  show ?thesis
  proof (cases "token_at h (store w)")
    case None
    then have "action_tokens (store w') = action_tokens (store w)" by (intro none) simp
    moreover from this have "token_map (store w') = token_map (store w)" by (rule token_map_same)
    ultimately show ?thesis using None ok' by simp
  next
    case (Some r)
    then have "tn_hash r = h" by (simp add: token_at_Some)
    moreover have "token_map (store w') = (token_map (store w))(h \<mapsto> stamped ?P f t r)"
      by (rule token_map_one [OF id run _ Some]) (auto simp: stamped_def dest: token_at_Some)
    moreover have same: "action_tokens (store w') = action_tokens (store w)" if "\<not> Q r"
      by (rule none) (simp add: Some that)
    moreover from this have "token_map (store w') = token_map (store w)" if "\<not> Q r"
      using that by (intro token_map_same) simp
    ultimately show ?thesis using ok' Some by (cases "Q r") (simp_all add: stamped_def)
  qed
qed

lemma hits_unique:
  assumes "distinct rows" and "r \<in> set rows \<and> P r" and "\<And>x. x \<in> set rows \<Longrightarrow> P x \<Longrightarrow> x = r"
  shows "hits P rows = 1"
proof -
  have "set (filter P rows) = {r}" using assms(2,3) by auto
  moreover have "card (set (filter P rows)) = length (filter P rows)" using assms(1) by (intro distinct_card) simp
  ultimately show ?thesis by (simp add: hits_def)
qed

lemma hash_update_run:
  assumes ok: "tokens_ok w" and run: "update_tokens (\<lambda>r. tn_hash r = h \<and> Q r) f w = (res, w')"
    and f: "keeps_identity f" and good: "\<forall>r. Q r \<and> token_status_ok (tn_status r) \<longrightarrow> token_status_ok (tn_status (f r))"
  obtains (failed) e where "res = Inl e" "tokens_ok w'" "clock w' = clock w" "token_map (store w') = token_map (store w)"
    | (one) r where "res = Inr 1" "tokens_ok w'" "clock w' = clock w" "token_map (store w) h = Some r" "Q r"
        "token_map (store w') = (token_map (store w))(h \<mapsto> (f r)\<lparr>tn_updated_at := clock w\<rparr>)"
    | (none) "res = Inr 0" "tokens_ok w'" "clock w' = clock w" "token_map (store w') = token_map (store w)"
        "\<And>r. token_map (store w) h = Some r \<Longrightarrow> \<not> Q r"
  using run
proof (cases rule: update_tokens_cases)
  case (1 e)
  then have "token_map (store w') = token_map (store w)" "tokens_ok w'"
    using tokens_ok_same [OF ok, of w'] by simp_all
  with 1 that(1) show ?thesis by blast
next
  case 2
  let ?P = "\<lambda>r. tn_hash r = h \<and> Q r"
  have "\<And>r. Q r \<Longrightarrow> token_status_ok (tn_status r) \<Longrightarrow> token_status_ok (tn_status (f r))" using good by blast
  note u = hash_update [OF ok 2(2) f this 2(3)]
  show ?thesis
  proof (cases "\<exists>r. token_at h (store w) = Some r \<and> Q r")
    case True
    then obtain r where r: "token_at h (store w) = Some r" "Q r" by auto
    have "x = r" if "x \<in> set (action_tokens (store w))" "?P x" for x
      using token_of_row [OF ok that(1)] that(2) r(1) by simp
    moreover have "r \<in> set (action_tokens (store w)) \<and> ?P r" using token_at_Some [OF r(1)] r(2) by simp
    moreover have "distinct (action_tokens (store w))" using ok by (auto simp: tokens_ok_def Let_def distinct_map)
    ultimately have "hits ?P (action_tokens (store w)) = 1" by (intro hits_unique) auto
    with 2 u r that(2) [of r] show ?thesis by (simp add: token_map_def)
  next
    case False
    then have no: "\<And>r. token_at h (store w) = Some r \<Longrightarrow> \<not> Q r" by blast
    have "\<not> ?P x" if "x \<in> set (action_tokens (store w))" for x using token_of_row [OF ok that] no by auto
    then have "hits ?P (action_tokens (store w)) = 0" by (auto simp: hits_def filter_empty_conv)
    moreover have "token_map (store w') = token_map (store w)" using u no by (auto split: option.splits)
    ultimately show ?thesis using 2 u no that(3) by (simp add: token_map_def)
  qed
qed

lemma Finalize_implements:
  "implements (FinalizeActionReply E raw sid) (\<lambda>res. case res of Inl _ \<Rightarrow> {Idle}
     | Inr _ \<Rightarrow> {Confirmed (hashMessageActionToken E raw) (trim_space sid)})"
  unfolding implements_def
proof (intro allI impI)
  fix w res w' assume ok: "tokens_ok w" and run: "FinalizeActionReply E raw sid w = (res, w')"
  let ?h = "hashMessageActionToken E raw" and ?sid = "trim_space sid" and ?t = "clock w"
  let ?Q = "\<lambda>r. tn_status r = TokenProcessing"
  let ?f = "\<lambda>r. r\<lparr>tn_status := TokenSubmitted, tn_used_at := Some ?t, tn_session_id := ?sid\<rparr>"
  show "tokens_ok w' \<and> clock w' = ?t \<and> (\<exists>l \<in> (case res of Inl _ \<Rightarrow> {Idle} | Inr _ \<Rightarrow> {Confirmed ?h ?sid}).
      reply_spec ?t l (token_map (store w)) (token_map (store w')))"
  proof (cases "?sid = []")
    case True
    with run ok show ?thesis by (auto simp: FinalizeActionReply_def fail_def intro: sp_idle)
  next
    case False
    obtain r1 w1 where upd1: "update_tokens (\<lambda>r. tn_hash r = ?h \<and> ?Q r) ?f w = (r1, w1)" by fastforce
    from run False have rest: "(res, w') = (case r1 of Inl e \<Rightarrow> (Inl e, w1)
        | Inr n \<Rightarrow> if n \<noteq> 1 then (Inl (MErr ''not processing''), w1) else (Inr ?t, w1))"
      by (auto simp: FinalizeActionReply_def andThen_def now_def upd1 fail_def ret_def split: sum.splits if_splits)
    have f: "keeps_identity ?f" by (simp add: keeps_identity_def)
    have g: "\<forall>r. ?Q r \<and> token_status_ok (tn_status r) \<longrightarrow> token_status_ok (tn_status (?f r))"
      by (simp add: token_status_ok_def)
    from ok upd1 f g show ?thesis
    proof (cases rule: hash_update_run)
      case (one r)
      with rest False sp_confirm [of "token_map (store w)" ?h r sid ?t] show ?thesis
        by (auto simp: confirmed_def)
    qed (use rest in \<open>auto intro: sp_idle\<close>)
  qed
qed

lemma Release_implements:
  "implements (ReleaseActionReply E raw) (\<lambda>_. {Idle, GaveBack (hashMessageActionToken E raw)})"
  unfolding implements_def
proof (intro allI impI)
  fix w res w' assume ok: "tokens_ok w" and run: "ReleaseActionReply E raw w = (res, w')"
  let ?h = "hashMessageActionToken E raw" and ?Q = "\<lambda>r. tn_status r = TokenProcessing"
  obtain r1 where upd1: "update_tokens (\<lambda>r. tn_hash r = ?h \<and> ?Q r) (\<lambda>r. r\<lparr>tn_status := TokenOpen, tn_used_at := None\<rparr>) w = (r1, w')"
    using run by (auto simp: ReleaseActionReply_def andThen_def ret_def split: prod.splits sum.splits)
  have f: "keeps_identity (\<lambda>r. r\<lparr>tn_status := TokenOpen, tn_used_at := None\<rparr>)" by (simp add: keeps_identity_def)
  have g: "\<forall>r. ?Q r \<and> token_status_ok (tn_status r) \<longrightarrow> token_status_ok (tn_status (r\<lparr>tn_status := TokenOpen, tn_used_at := None\<rparr>))"
    by (simp add: token_status_ok_def)
  from ok upd1 f g show "tokens_ok w' \<and> clock w' = clock w \<and> (\<exists>l \<in> {Idle, GaveBack ?h}.
      reply_spec (clock w) l (token_map (store w)) (token_map (store w')))"
  proof (cases rule: hash_update_run)
    case (one r)
    with sp_back [of "token_map (store w)" ?h r "clock w"] show ?thesis by (auto simp: given_back_def)
  qed (auto intro: sp_idle)
qed

lemma UpdateSession_implements: "implements (UpdateActionWorkspaceSession E raw sid) (\<lambda>_. {Idle})"
  unfolding implements_def
proof (intro allI impI)
  fix w res w' assume ok: "tokens_ok w" and run: "UpdateActionWorkspaceSession E raw sid w = (res, w')"
  let ?h = "hashMessageActionToken E raw"
  show "tokens_ok w' \<and> clock w' = clock w \<and> (\<exists>l \<in> {Idle}.
      reply_spec (clock w) l (token_map (store w)) (token_map (store w')))"
  proof (cases "trim_space sid = []")
    case True
    with run ok show ?thesis by (auto simp: UpdateActionWorkspaceSession_def ret_def intro: sp_idle)
  next
    case False
    with run obtain r1 where
      upd1: "update_tokens (\<lambda>r. tn_hash r = ?h \<and> True) (\<lambda>r. r\<lparr>tn_session_id := trim_space sid\<rparr>) w = (r1, w')"
      by (auto simp: UpdateActionWorkspaceSession_def andThen_def ret_def split: prod.splits sum.splits)
    have f: "keeps_identity (\<lambda>r. r\<lparr>tn_session_id := trim_space sid\<rparr>)" by (simp add: keeps_identity_def)
    have g: "\<forall>r. True \<and> token_status_ok (tn_status r) \<longrightarrow> token_status_ok (tn_status (r\<lparr>tn_session_id := trim_space sid\<rparr>))"
      by (simp add: token_status_ok_def)
    from ok upd1 f g show ?thesis
    proof (cases rule: hash_update_run)
      case (one r)
      with sp_rename [of "token_map (store w)" ?h r "clock w" "trim_space sid"] show ?thesis
        by (auto simp: renamed_def)
    qed (auto intro: sp_idle)
  qed
qed

lemma Create_cases:
  assumes "CreateActionToken E inp w = (res, w')"
  shows "clock w' = clock w \<and> seqs w ''message_action_token'' \<le> seqs w' ''message_action_token'' \<and>
     (action_tokens (store w') = action_tokens (store w) \<or>
      (\<exists>row. tn_id row = seqs w ''message_action_token'' + 1 \<and> tn_id row \<le> seqs w' ''message_action_token'' \<and>
         tn_status row = TokenOpen \<and> \<not> list_ex (\<lambda>x. tn_hash x = tn_hash row) (action_tokens (store w)) \<and>
         action_tokens (store w') = action_tokens (store w) @ [row]))"
  using assms
  by (auto simp: CreateActionToken_def newMessageActionToken_def andThen_def now_def next_id_def stmt_def fail_def
      ret_def Let_def split: if_splits option.splits prod.splits)

lemma Create_implements: "implements (CreateActionToken E inp) (\<lambda>_. {Idle})"
  unfolding implements_def
proof (intro allI impI)
  fix w res w' assume ok: "tokens_ok w" and run: "CreateActionToken E inp w = (res, w')"
  note c = Create_cases [OF run]
  let ?ts = "action_tokens (store w)"
  show "tokens_ok w' \<and> clock w' = clock w \<and> (\<exists>l \<in> {Idle}.
      reply_spec (clock w) l (token_map (store w)) (token_map (store w')))"
  proof (cases "action_tokens (store w') = ?ts")
    case True
    then have "token_map (store w') = token_map (store w)" by (rule token_map_same)
    with tokens_ok_same [OF ok True] c show ?thesis by (simp add: sp_idle)
  next
    case False
    with c obtain row where row: "tn_id row = seqs w ''message_action_token'' + 1"
      "tn_id row \<le> seqs w' ''message_action_token''" "tn_status row = TokenOpen"
      "\<not> list_ex (\<lambda>x. tn_hash x = tn_hash row) ?ts" "action_tokens (store w') = ?ts @ [row]" by auto
    have old: "distinct (map tn_hash ?ts)" "distinct (map tn_id ?ts)"
      "\<And>r. r \<in> set ?ts \<Longrightarrow> tn_id r \<le> seqs w ''message_action_token'' \<and> token_status_ok (tn_status r)"
      using ok by (simp_all add: tokens_ok_def Let_def)
    have "tn_id row \<notin> tn_id ` set ?ts" using old(3) row(1) by fastforce
    moreover have "tn_hash row \<notin> tn_hash ` set ?ts" using row(4) by (auto simp: list_ex_iff)
    moreover have "tn_id r \<le> seqs w' ''message_action_token''" if "r \<in> set ?ts" for r
      using old(3) [OF that] c by linarith
    ultimately have ok': "tokens_ok w'" using old row by (auto simp: tokens_ok_def Let_def token_status_ok_def)
    have none: "token_map (store w) (tn_hash row) = None"
      using row(4) by (auto simp: token_map_def token_at_def first_row_None list_ex_iff)
    have "first_row (\<lambda>x. tn_hash x = h) (xs @ [row]) = (case first_row (\<lambda>x. tn_hash x = h) xs of
        Some r \<Rightarrow> Some r | None \<Rightarrow> if tn_hash row = h then Some row else None)" for h xs by (induction xs) auto
    then have "token_map (store w') = (token_map (store w))(tn_hash row \<mapsto> row)"
      using none by (auto simp: token_map_def token_at_def row(5) fun_eq_iff split: option.splits)
    with ok' none row(3) c show ?thesis by (auto intro: sp_issue)
  qed
qed

text \<open>A reply that is taken: the token before and after.\<close>

lemma update_tokens_Inr:
  "update_tokens P f w = (Inr n, w') \<longleftrightarrow> \<not> next_fails w \<and> n = hits P (action_tokens (store w)) \<and>
     w' = next_world w ((store w)\<lparr>action_tokens := map (stamped P f (clock w)) (action_tokens (store w))\<rparr>)"
  by (auto simp: update_tokens_def run_simps upd_stamped)

lemma set_read_Inr:
  "set_read P t w = (Inr n, w') \<Longrightarrow>
     clock w' = clock w \<and> seqs w' = seqs w \<and> action_tokens (store w') = action_tokens (store w)"
  by (auto simp: set_read_def run_simps Let_def)

lemma token_by_hash_Inr:
  "token_by_hash h w = (Inr r, w') \<Longrightarrow>
     token_at h (store w) = Some r \<and> clock w' = clock w \<and> seqs w' = seqs w \<and> store w' = store w"
  by (auto simp: token_by_hash_def run_simps token_at_def split: option.splits)

lemma entry_by_id_Inr:
  "entry_by_id i w = (Inr e, w') \<Longrightarrow> first_row (\<lambda>e. me_id e = i \<and> me_deleted_at e = None) (entries (store w)) = Some e \<and>
     clock w' = clock w \<and> seqs w' = seqs w \<and> store w' = store w"
  by (auto simp: entry_by_id_def run_simps split: option.splits)

lemma authorize_Inr:
  "authorizeMessageActionUser row viewer w = (Inr u, w') \<longleftrightarrow>
     w' = w \<and> u = trim_space viewer \<and> u \<noteq> [] \<and> u \<in> set (actionAuthorizedUsers row)"
  by (auto simp: authorizeMessageActionUser_def run_simps Let_def)

lemma reopen_stale_Inr:
  "reopen_stale row status w = (Inr r, w') \<longleftrightarrow>
     (if tn_status row = TokenProcessing \<and> status = TokenOpen
      then (\<exists>n. update_tokens (\<lambda>r. tn_id r = tn_id row \<and> tn_status r = TokenProcessing)
              (\<lambda>r. r\<lparr>tn_status := TokenOpen\<rparr>) w = (Inr n, w')) \<and> r = row\<lparr>tn_status := TokenOpen\<rparr>
      else r = row \<and> w' = w)"
  by (auto simp: reopen_stale_def run_simps)

text \<open>Reopening as one change of rows.\<close>

lemma reopen_change:
  assumes "reopen_stale r0 status w = (Inr r, w')"
  obtains g where "keeps_identity g" "action_tokens (store w') = map g (action_tokens (store w))"
    "\<And>x. tn_id x \<noteq> tn_id r0 \<Longrightarrow> g x = x" "\<And>t. taken t (g r0) = taken t r0" "clock w' = clock w" "seqs w' = seqs w"
    "tn_status r = TokenOpen \<Longrightarrow> tn_status r0 = TokenOpen \<or> (tn_status r0 = TokenProcessing \<and> status = TokenOpen)"
    "tn_actions r = tn_actions r0" "tn_id r = tn_id r0" "tn_message_id r = tn_message_id r0" "tn_channel r = tn_channel r0"
    "tn_session_id r = tn_session_id r0" "entries (store w') = entries (store w)"
proof (cases "tn_status r0 = TokenProcessing \<and> status = TokenOpen")
  case True
  let ?g = "stamped (\<lambda>x. tn_id x = tn_id r0 \<and> tn_status x = TokenProcessing) (\<lambda>x. x\<lparr>tn_status := TokenOpen\<rparr>) (clock w)"
  from assms True obtain n where
    n: "update_tokens (\<lambda>x. tn_id x = tn_id r0 \<and> tn_status x = TokenProcessing) (\<lambda>x. x\<lparr>tn_status := TokenOpen\<rparr>) w = (Inr n, w')"
    and r: "r = r0\<lparr>tn_status := TokenOpen\<rparr>" by (auto simp: reopen_stale_Inr)
  have "keeps_identity ?g" by (simp add: keeps_identity_def stamped_def)
  moreover have "taken t (?g r0) = taken t r0" for t by (simp add: taken_def stamped_def)
  moreover have "?g x = x" if "tn_id x \<noteq> tn_id r0" for x using that by (simp add: stamped_def)
  ultimately show ?thesis using n r True by (intro that [of ?g]) (auto simp: update_tokens_Inr)
next
  case False
  with assms have "r = r0" "w' = w" by (auto simp: reopen_stale_Inr)
  then show ?thesis using False by (intro that [of id]) (auto simp: keeps_identity_def reopen_stale_Inr)
qed

lemma Begin_Inr:
  assumes "BeginActionReply E raw content files action viewer w = (Inr resp, w')"
  obtains r0 g where "token_at (hashMessageActionToken E raw) (store w) = Some r0"
    "effectiveActionTokenStatus r0 (clock w) = TokenOpen"
    "trim_space content \<noteq> []" "rune_count (trim_space content) \<le> 8000" "length (trim_space files) \<le> 16000"
    "trim_space viewer \<noteq> []" "trim_space viewer \<in> set (actionAuthorizedUsers r0)"
    "\<exists>e \<in> set (entries (store w)). me_id e = tn_message_id r0 \<and> me_deleted_at e = None"
    "containsAllowedAction (splitAllowedActions (tn_actions r0))
       (if trim_space action = [] then ''reply'' else trim_space action)"
    "keeps_identity g" "action_tokens (store w') = map g (action_tokens (store w))"
    "g r0 = taken (clock w) r0" "\<And>r. tn_id r \<noteq> tn_id r0 \<Longrightarrow> g r = r" "clock w' = clock w" "seqs w' = seqs w"
proof -
  let ?t = "clock w" and ?h = "hashMessageActionToken E raw"
  let ?action = "if trim_space action = [] then ''reply'' else trim_space action"
  from assms obtain w1 where tx: "begin_reply_tx E raw (trim_space content) (trim_space files) ?action viewer w = (Inr resp, w1)"
    and w': "w' = next_world w1 (store w1)"
    and c: "trim_space content \<noteq> []" "rune_count (trim_space content) \<le> 8000" "length (trim_space files) \<le> 16000"
    by (auto simp: BeginActionReply_def check_reply_def run_simps Let_def split: if_splits)
  from tx obtain r0 wa where r0: "token_by_hash ?h w = (Inr r0, wa)"
    and rest: "andThen (authorizeMessageActionUser r0 viewer) (\<lambda>acting. andThen now (\<lambda>t.
      let status = effectiveActionTokenStatus r0 t in
      if status = TokenExpired
      then andThen (update_tokens (\<lambda>r. tn_id r = tn_id r0) (\<lambda>r. r\<lparr>tn_status := TokenExpired\<rparr>)) (\<lambda>_. fail (MErr ''link expired''))
      else andThen (reopen_stale r0 status) (\<lambda>row.
        if tn_status row \<noteq> TokenOpen then fail (MErr ''already handled'')
        else if \<not> containsAllowedAction (splitAllowedActions (tn_actions row)) ?action then fail (MErr ''action not allowed'')
        else andThen (entry_by_id (tn_message_id row)) (\<lambda>original.
          andThen (set_read (\<lambda>r. mr_username r = acting \<and> mr_message_id r = tn_message_id row) t) (\<lambda>_.
          andThen (update_tokens (\<lambda>r. tn_id r = tn_id row)
            (\<lambda>r. r\<lparr>tn_status := TokenProcessing, tn_used_at := None, tn_reply_id := 0\<rparr>)) (\<lambda>_.
          ret (reply_context E row original (trim_space content) (trim_space files) acting))))))) wa = (Inr resp, w1)"
    unfolding begin_reply_tx_def andThen_Inr [of "token_by_hash ?h"] by blast
  note a = token_by_hash_Inr [OF r0]
  let ?status = "effectiveActionTokenStatus r0 ?t"
  let ?f = "\<lambda>r. r\<lparr>tn_status := TokenProcessing, tn_used_at := None, tn_reply_id := 0\<rparr>"
  from rest a obtain row wb e wc n wd m where
    auth: "trim_space viewer \<noteq> []" "trim_space viewer \<in> set (actionAuthorizedUsers r0)" and live: "?status \<noteq> TokenExpired"
    and re: "reopen_stale r0 ?status wa = (Inr row, wb)" and op: "tn_status row = TokenOpen"
    and act: "containsAllowedAction (splitAllowedActions (tn_actions row)) ?action"
    and e: "entry_by_id (tn_message_id row) wb = (Inr e, wc)"
    and n: "set_read (\<lambda>r. mr_username r = trim_space viewer \<and> mr_message_id r = tn_message_id row) ?t wc = (Inr n, wd)"
    and m: "update_tokens (\<lambda>r. tn_id r = tn_id row) ?f wd = (Inr m, w1)"
    by (auto simp: run_simps authorize_Inr Let_def split: if_splits)
  from re obtain g where g: "keeps_identity g" "action_tokens (store wb) = map g (action_tokens (store wa))"
    "\<And>x. tn_id x \<noteq> tn_id r0 \<Longrightarrow> g x = x" "\<And>t. taken t (g r0) = taken t r0" "clock wb = clock wa" "seqs wb = seqs wa"
    "tn_status row = TokenOpen \<Longrightarrow> tn_status r0 = TokenOpen \<or> (tn_status r0 = TokenProcessing \<and> ?status = TokenOpen)"
    "tn_actions row = tn_actions r0" "tn_id row = tn_id r0" "tn_message_id row = tn_message_id r0"
    "entries (store wb) = entries (store wa)"
    by (rule reopen_change) blast
  let ?u = "stamped (\<lambda>r. tn_id r = tn_id r0) ?f ?t"
  have u: "?u x = taken ?t x" if "tn_id x = tn_id r0" for x using that by (simp add: stamped_def taken_def)
  have open_now: "?status = TokenOpen"
    using g(7) [OF op] live by (auto simp: effectiveActionTokenStatus_def Let_def go_string_simps plain_char_def split: if_splits)
  note ec = entry_by_id_Inr [OF e] and nc = set_read_Inr [OF n]
  have same: "action_tokens (store wd) = map g (action_tokens (store w))" "clock wd = ?t" "seqs wd = seqs w"
    using ec nc g(2,5,6) a by simp_all
  have "keeps_identity (?u \<circ> g)" using g(1) by (simp add: keeps_identity_def stamped_def)
  moreover have "action_tokens (store w') = map (?u \<circ> g) (action_tokens (store w))"
    using m same g(9) by (simp add: w' update_tokens_Inr)
  moreover have "(?u \<circ> g) r0 = taken ?t r0" using g(1,4) u [of "g r0"] by (simp add: keeps_identity_def)
  moreover have "(?u \<circ> g) r = r" if "tn_id r \<noteq> tn_id r0" for r using that g(3) by (simp add: stamped_def)
  moreover have "clock w' = ?t" "seqs w' = seqs w" using m same by (auto simp: w' update_tokens_Inr)
  moreover have "\<exists>e \<in> set (entries (store w)). me_id e = tn_message_id r0 \<and> me_deleted_at e = None"
    using ec g(10,11) a by (auto dest!: first_row_Some)
  ultimately show ?thesis using that a open_now auth c act g(8) by auto
qed

lemma Begin_quiet: "counts_up (BeginActionReply E raw c f a v)" "timeless (BeginActionReply E raw c f a v)"
  unfolding BeginActionReply_def begin_reply_tx_def check_reply_def token_by_hash_def authorizeMessageActionUser_def
    update_tokens_def reopen_stale_def entry_by_id_def set_read_def Let_def
  by (intro counts_intros timeless_intros)+

lemma Begin_Inl: "BeginActionReply E raw c f a v w = (Inl e, w') \<Longrightarrow> store w' = store w"
  by (auto simp: BeginActionReply_def check_reply_def andThen_def fail_def ret_def Let_def
      split: if_splits prod.splits sum.splits dest: tx_Inl_store)

lemma Begin_implements:
  "implements (BeginActionReply E raw content files action viewer)
     (\<lambda>res. case res of Inl _ \<Rightarrow> {Idle} | Inr _ \<Rightarrow> {Took (hashMessageActionToken E raw)})"
  unfolding implements_def
proof (intro allI impI)
  fix w res w' assume ok: "tokens_ok w" and run: "BeginActionReply E raw content files action viewer w = (res, w')"
  let ?h = "hashMessageActionToken E raw"
  show "tokens_ok w' \<and> clock w' = clock w \<and> (\<exists>l \<in> (case res of Inl _ \<Rightarrow> {Idle} | Inr _ \<Rightarrow> {Took ?h}).
      reply_spec (clock w) l (token_map (store w)) (token_map (store w')))"
  proof (cases res)
    case (Inl e)
    then have "store w' = store w" using run Begin_Inl by blast
    with tokens_ok_same [OF ok] counts_upD [OF Begin_quiet(1) run] timelessD [OF Begin_quiet(2) run] Inl
    show ?thesis by (simp add: sp_idle)
  next
    case (Inr resp)
    from run [unfolded Inr] obtain r0 g where r0: "token_at ?h (store w) = Some r0"
      "effectiveActionTokenStatus r0 (clock w) = TokenOpen" and g: "keeps_identity g"
      "action_tokens (store w') = map g (action_tokens (store w))" "g r0 = taken (clock w) r0"
      "\<And>r. tn_id r \<noteq> tn_id r0 \<Longrightarrow> g r = r" "clock w' = clock w" "seqs w' = seqs w"
      by (rule Begin_Inr) blast
    have other: "g r = r" if "token_at h (store w) = Some r" "h \<noteq> ?h" for h r
      using g(4) same_id_same_token [OF ok that(1) r0(1)] that(2) by blast
    have "token_map (store w') = (token_map (store w))(?h \<mapsto> g r0)"
      by (rule token_map_one [OF g(1,2) _ r0(1)]) (rule other)
    moreover have "token_status_ok (tn_status (g r))" if r: "r \<in> set (action_tokens (store w))" for r
    proof (cases "tn_id r = tn_id r0")
      case True
      then have "r = r0" using same_id_same_token [OF ok token_of_row [OF ok r] r0(1)] by blast
      then show ?thesis by (simp add: g(3) taken_def token_status_ok_def)
    next
      case False
      then show ?thesis using ok r by (simp add: g(4) tokens_ok_def Let_def)
    qed
    then have "tokens_ok w'" using tokens_ok_map [OF ok g(1,2)] g(6) by simp
    moreover have "reply_spec (clock w) (Took ?h) (token_map (store w)) ((token_map (store w))(?h \<mapsto> taken (clock w) r0))"
      using r0 by (intro sp_take) (simp_all add: token_map_def)
    ultimately show ?thesis using g(3,5) Inr by simp
  qed
qed

section \<open>Answers as a transition system\<close>

inductive reply_step :: "(gostr \<Rightarrow> gostr) \<Rightarrow> reply_label \<Rightarrow> msg_db world \<Rightarrow> msg_db world \<Rightarrow> bool" for H where
  rs_other: "action_tokens (store w') = action_tokens (store w) \<Longrightarrow> clock w \<le> clock w' \<Longrightarrow>
     seqs w ''message_action_token'' \<le> seqs w' ''message_action_token'' \<Longrightarrow> reply_step H Idle w w'"
| rs_create: "ae_hash E = H \<Longrightarrow> reply_step H Idle w (snd (CreateActionToken E inp w))"
| rs_begin: "ae_hash E = H \<Longrightarrow> BeginActionReply E raw c f a v w = (res, w') \<Longrightarrow>
     l = (case res of Inl _ \<Rightarrow> Idle | Inr _ \<Rightarrow> Took (H (trim_space raw))) \<Longrightarrow> reply_step H l w w'"
| rs_finalize: "ae_hash E = H \<Longrightarrow> FinalizeActionReply E raw sid w = (res, w') \<Longrightarrow>
     l = (case res of Inl _ \<Rightarrow> Idle | Inr _ \<Rightarrow> Confirmed (H (trim_space raw)) (trim_space sid)) \<Longrightarrow> reply_step H l w w'"
| rs_release: "ae_hash E = H \<Longrightarrow> reply_step H (GaveBack (H (trim_space raw))) w (snd (ReleaseActionReply E raw w))"
| rs_session: "ae_hash E = H \<Longrightarrow> reply_step H Idle w (snd (UpdateActionWorkspaceSession E raw sid w))"

inductive reply_path :: "(gostr \<Rightarrow> gostr) \<Rightarrow> msg_db world \<Rightarrow> reply_label list \<Rightarrow> msg_db world \<Rightarrow> bool" for H w0 where
  rp_start: "reply_path H w0 [] w0"
| rp_more: "reply_path H w0 ls w \<Longrightarrow> reply_step H l w w' \<Longrightarrow> reply_path H w0 (ls @ [l]) w'"

text \<open>
  Handlers that finish in time: the answers under way with the instant they took their token. Time
  does not pass the limit of an answer under way; only an answer under way confirms or gives back.
\<close>

inductive reply_run ::
  "(gostr \<Rightarrow> gostr) \<Rightarrow> msg_db world \<Rightarrow> msg_db world \<Rightarrow> (gostr \<times> int) list \<Rightarrow> bool" for H w0 where
  rr_start: "reply_run H w0 w0 []"
| rr_idle: "reply_run H w0 w F \<Longrightarrow> reply_step H Idle w w' \<Longrightarrow>
     \<forall>(h, t) \<in> set F. clock w' < t + messageActionProcessingTTL \<Longrightarrow> reply_run H w0 w' F"
| rr_take: "reply_run H w0 w F \<Longrightarrow> reply_step H (Took h) w w' \<Longrightarrow> reply_run H w0 w' ((h, clock w) # F)"
| rr_confirm: "reply_run H w0 w F \<Longrightarrow> reply_step H (Confirmed h sid) w w' \<Longrightarrow> (h, t) \<in> set F \<Longrightarrow>
     reply_run H w0 w' (remove1 (h, t) F)"
| rr_back: "reply_run H w0 w F \<Longrightarrow> reply_step H (GaveBack h) w w' \<Longrightarrow> (h, t) \<in> set F \<Longrightarrow>
     reply_run H w0 w' (remove1 (h, t) F)"

text \<open>Every step is a step of the specification; a failed release changes nothing.\<close>

lemma implementsD:
  assumes "implements m L" and "tokens_ok w" and "m w = (res, w')"
  obtains l where "l \<in> L res" "reply_spec (clock w) l (token_map (store w)) (token_map (store w'))"
    "tokens_ok w'" "clock w' = clock w"
  using assms unfolding implements_def by blast

lemma reply_step_spec:
  assumes "reply_step H l w w'" and ok: "tokens_ok w"
  shows "tokens_ok w' \<and> clock w \<le> clock w' \<and> (l \<noteq> Idle \<longrightarrow> clock w' = clock w) \<and>
     (reply_spec (clock w) l (token_map (store w)) (token_map (store w')) \<or>
      (\<exists>h. l = GaveBack h) \<and> reply_spec (clock w) Idle (token_map (store w)) (token_map (store w')))"
  using assms(1)
proof cases
  case rs_other
  then have "tokens_ok w'" "token_map (store w') = token_map (store w)"
    using tokens_ok_same [OF ok] token_map_same [of "store w'" "store w"] by blast+
  then show ?thesis using rs_other by (simp add: sp_idle)
next
  case (rs_create E inp)
  then show ?thesis using implementsD [OF Create_implements ok, of E inp _ w'] by (metis order_refl prod.collapse singletonD)
next
  case (rs_begin E raw c f a v res)
  from implementsD [OF Begin_implements ok rs_begin(2)] obtain l' where
    "l' \<in> (case res of Inl _ \<Rightarrow> {Idle} | Inr _ \<Rightarrow> {Took (hashMessageActionToken E raw)})"
    "reply_spec (clock w) l' (token_map (store w)) (token_map (store w'))" "tokens_ok w'" "clock w' = clock w" by blast
  moreover from this(1) have "l' = l" using rs_begin(1,3) by (simp add: hashMessageActionToken_def split: sum.splits)
  ultimately show ?thesis by simp
next
  case (rs_finalize E raw sid res)
  from implementsD [OF Finalize_implements ok rs_finalize(2)] obtain l' where
    "l' \<in> (case res of Inl _ \<Rightarrow> {Idle} | Inr _ \<Rightarrow> {Confirmed (hashMessageActionToken E raw) (trim_space sid)})"
    "reply_spec (clock w) l' (token_map (store w)) (token_map (store w'))" "tokens_ok w'" "clock w' = clock w" by blast
  moreover from this(1) have "l' = l" using rs_finalize(1,3) by (simp add: hashMessageActionToken_def split: sum.splits)
  ultimately show ?thesis by simp
next
  case (rs_release E raw)
  then have "ReleaseActionReply E raw w = (fst (ReleaseActionReply E raw w), w')" by simp
  from implementsD [OF Release_implements ok this] obtain l' where
    "l' \<in> {Idle, GaveBack (hashMessageActionToken E raw)}"
    "reply_spec (clock w) l' (token_map (store w)) (token_map (store w'))" "tokens_ok w'" "clock w' = clock w" by blast
  then show ?thesis using rs_release by (auto simp: hashMessageActionToken_def)
next
  case (rs_session E raw sid)
  then show ?thesis
    using implementsD [OF UpdateSession_implements ok, of E raw sid _ w'] by (metis order_refl prod.collapse singletonD)
qed

end
