(* ===== verification/MsgSamples.thy ===== *)
theory MsgSamples
  imports MsgReplySteps
begin

text \<open>
  A concrete message server for the applications of the theorems: one message about a directory with
  two recipients, and a link for the first that names both.
\<close>

definition demo_meta :: send_meta where
  "demo_meta =
     \<lparr>mm_from = ''agent'', mm_request_user = ''agent'', mm_department = [], mm_full_code_path = ''/a/b'',
      mm_trace_id = [], mm_client_source = [], mm_source_type = [], mm_source_ref = ''timer_task:7'',
      mm_source_path = ''/a/b'', mm_source_title = [], mm_parent_path = [], mm_parent_title = [],
      mm_template_type = [], mm_session_id = [], mm_session_title = [], mm_role = [],
      mm_thread_key = ''source:/a/b''\<rparr>"

definition demo_entry :: message_entry where
  "demo_entry = \<lparr>me_id = 1, me_created_at = 5, me_deleted_at = None, me_meta = demo_meta, me_title = ''hi'',
     me_content = ''order'', me_content_type = ''markdown'', me_files = []\<rparr>"

definition demo_recipient :: "int \<Rightarrow> gostr \<Rightarrow> message_recipient" where
  "demo_recipient i name =
     \<lparr>mr_id = i, mr_deleted_at = None, mr_message_id = 1, mr_username = name, mr_read_at = None\<rparr>"

definition demo_token :: "gostr \<Rightarrow> int \<Rightarrow> action_token" where
  "demo_token status t =
     \<lparr>tn_id = 1, tn_updated_at = t, tn_hash = ''kat_1'', tn_message_id = 1, tn_recipient = ''bob'',
      tn_authorized = ''bob,al'', tn_channel = ''feishu'', tn_actions = ''reply'', tn_status = status,
      tn_expires_at = 1000000000000, tn_used_at = None, tn_reply_id = 0, tn_session_id = [], tn_thread_key = [],
      tn_source_path = ''/a/b'', tn_trace_id = []\<rparr>"

definition demo_action_env :: action_env where
  "demo_action_env =
     \<lparr>ae_random = Some ''2'', ae_hash = id, ae_draft = (\<lambda>e content files user channel. content),
      ae_json_field = (\<lambda>k v. Some v),
      ae_chat = (\<lambda>rq. Stream [''event: session'', ''data: s9'', []] None), ae_base_url = []\<rparr>"

definition demo_msg :: "action_token list \<Rightarrow> int \<Rightarrow> msg_db world" where
  "demo_msg ts t =
     \<lparr>clock = t, seqs = (\<lambda>_. 2), faults = [],
      store = \<lparr>entries = [demo_entry], recipients = [demo_recipient 1 ''bob'', demo_recipient 2 ''al''],
        channels = [], routes = [], action_tokens = ts\<rparr>\<rparr>"

lemma demo_msg_fields [simp]:
  "clock (demo_msg ts t) = t" "seqs (demo_msg ts t) x = 2" "faults (demo_msg ts t) = []"
  "action_tokens (store (demo_msg ts t)) = ts" "entries (store (demo_msg ts t)) = [demo_entry]"
  by (simp_all add: demo_msg_def)

lemma demo_token_fields [simp]:
  "tn_hash (demo_token st t) = ''kat_1''" "tn_id (demo_token st t) = 1" "tn_status (demo_token st t) = st"
  "tn_updated_at (demo_token st t) = t" "tn_expires_at (demo_token st t) = 1000000000000" "tn_message_id (demo_token st t) = 1"
  by (simp_all add: demo_token_def)

lemma demo_hash [simp]: "ae_hash demo_action_env = id" "hashMessageActionToken demo_action_env ''kat_1'' = ''kat_1''"
  by (simp_all add: demo_action_env_def hashMessageActionToken_def go_string_simps plain_char_def)

lemma demo_tokens_ok: "token_status_ok st \<Longrightarrow> tokens_ok (demo_msg [demo_token st u] t)"
  by (simp add: tokens_ok_def)

abbreviation demo_begin :: "msg_db world \<Rightarrow> (msg_error + reply_resp) \<times> msg_db world" where
  "demo_begin \<equiv> BeginActionReply demo_action_env ''kat_1'' ''yes'' [] ''reply'' ''bob''"

abbreviation demo_open :: "msg_db world" where
  "demo_open \<equiv> demo_msg [demo_token TokenOpen 5] 10"

abbreviation demo_finish :: "gostr \<Rightarrow> msg_db world \<Rightarrow> (msg_error + int) \<times> msg_db world" where
  "demo_finish \<equiv> FinalizeActionReply demo_action_env ''kat_1''"

abbreviation demo_answer :: reply_request where
  "demo_answer \<equiv> \<lparr>rr_content = ''yes'', rr_files = [], rr_action = ''reply'', rr_department = []\<rparr>"

lemma demo_open_ok: "tokens_ok demo_open"
  by (rule demo_tokens_ok) (simp add: token_status_ok_def)

lemma demo_allowed:
  "''bob'' \<in> set (actionAuthorizedUsers (demo_token st t))"
  "''al'' \<in> set (actionAuthorizedUsers (demo_token st t))"
  "containsAllowedAction (splitAllowedActions (tn_actions (demo_token st t))) ''reply''"
  "rune_count ''yes'' = 3"
  by code_simp+

end
