(* ===== verification/MsgReplyProps.thy ===== *)
theory MsgReplyProps
  imports MsgReplySteps MsgSamples
begin

text \<open>
  Theorems on answers: a token is answered once; handlers that finish in time exclude each other and
  can confirm; what happens when one does not; which requests take a token; an expired token; who may
  answer.
\<close>

section \<open>Answered once\<close>

lemma effective_cases:
  "token_status_ok (tn_status r) \<Longrightarrow> effectiveActionTokenStatus r t =
     (if tn_status r = TokenSubmitted then TokenSubmitted
      else if tn_status r = TokenProcessing \<and> (tn_updated_at r = 0 \<or> t - tn_updated_at r < messageActionProcessingTTL)
      then TokenProcessing
      else if tn_expires_at r \<noteq> 0 \<and> t > tn_expires_at r then TokenExpired else TokenOpen)"
  by (auto simp: token_status_ok_def effectiveActionTokenStatus_def Let_def go_string_simps plain_char_def)

definition spent :: "gostr \<Rightarrow> (gostr \<Rightarrow> action_token option) \<Rightarrow> bool" where
  "spent h m \<longleftrightarrow> (\<exists>r. m h = Some r \<and> tn_status r = TokenSubmitted)"

lemma spent_spec:
  assumes "reply_spec t l m m'" and "spent h m"
  shows "spent h m' \<and> l \<noteq> Took h \<and> (\<forall>sid. l \<noteq> Confirmed h sid)"
proof -
  from assms(2) obtain r where r: "m h = Some r" "tn_status r = TokenSubmitted" by (auto simp: spent_def)
  then have "effectiveActionTokenStatus r t \<noteq> TokenOpen" for t
    using effective_cases [of r t] by (simp add: token_status_ok_def)
  with assms(1) r show ?thesis by cases (auto simp: spent_def renamed_def)
qed

lemma confirmed_spent: "reply_spec t (Confirmed h sid) m m' \<Longrightarrow> spent h m'"
  by (auto elim!: reply_spec.cases simp: spent_def confirmed_def)

lemma path_ok: "reply_path H w0 ls w \<Longrightarrow> tokens_ok w0 \<Longrightarrow> tokens_ok w"
  by (induction rule: reply_path.induct) (auto dest: reply_step_spec)

lemma path_spent:
  assumes "reply_path H w0 ls w" and "tokens_ok w0" and "ls = as @ Confirmed h sid # bs"
  shows "spent h (token_map (store w)) \<and> Took h \<notin> set bs \<and> (\<forall>sid'. Confirmed h sid' \<notin> set bs)"
  using assms(1,3)
proof (induction arbitrary: bs rule: reply_path.induct)
  case rp_start
  then show ?case by simp
next
  case (rp_more ls w l w')
  note sp = reply_step_spec [OF rp_more.hyps(2) path_ok [OF rp_more.hyps(1) assms(2)]]
  show ?case
  proof (cases bs rule: rev_cases)
    case Nil
    then have "l = Confirmed h sid" using rp_more.prems by simp
    then have "reply_spec (clock w) (Confirmed h sid) (token_map (store w)) (token_map (store w'))" using sp by simp
    with Nil show ?thesis by (auto dest: confirmed_spent)
  next
    case (snoc bs' b)
    then have ls: "ls = as @ Confirmed h sid # bs'" and b: "b = l" using rp_more.prems by auto
    note ih = rp_more.IH [OF ls]
    then have "spent h (token_map (store w')) \<and> l \<noteq> Took h \<and> (\<forall>sid'. l \<noteq> Confirmed h sid')"
      using sp spent_spec by blast
    with ih b snoc show ?thesis by auto
  qed
qed

text \<open>
  C27. A link answers a message at most once: after a reply was confirmed no request takes the token
  again and no other reply is confirmed, whatever the order in which requests, expiries and late
  handlers interleave, and the token stays submitted.
\<close>

theorem answered_once:
  assumes "reply_path H w0 ls w" and "tokens_ok w0" and "ls = as @ Confirmed h sid # bs"
  shows "Took h \<notin> set bs \<and> (\<forall>sid'. Confirmed h sid' \<notin> set bs) \<and>
     (\<exists>r. token_at h (store w) = Some r \<and> tn_status r = TokenSubmitted)"
  using path_spent [OF assms] by (auto simp: spent_def token_map_def)

section \<open>One answer at a time\<close>

definition held :: "msg_db world \<Rightarrow> gostr \<times> int \<Rightarrow> bool" where
  "held w = (\<lambda>(h, t). t \<le> clock w \<and> clock w < t + messageActionProcessingTTL \<and>
     (\<exists>r. token_map (store w) h = Some r \<and> tn_status r = TokenProcessing \<and> t \<le> tn_updated_at r))"

lemma map_status_ok: "tokens_ok w \<Longrightarrow> token_map (store w) h = Some r \<Longrightarrow> token_status_ok (tn_status r)"
  by (auto simp: tokens_ok_def Let_def token_map_def dest: token_at_Some)

lemma held_not_taken:
  assumes "tokens_ok w" and "held w (h, t)"
  shows "\<not> reply_spec (clock w) (Took h) (token_map (store w)) m'"
proof
  assume "reply_spec (clock w) (Took h) (token_map (store w)) m'"
  then obtain r where r: "token_map (store w) h = Some r" "effectiveActionTokenStatus r (clock w) = TokenOpen"
    by cases auto
  then show False
    using assms map_status_ok [OF assms(1) r(1)] effective_cases [of r "clock w"] by (auto simp: held_def)
qed

text \<open>A step that is not a confirmation or a release of the hash leaves it held.\<close>

lemma held_spec:
  assumes "reply_spec (clock w) l (token_map (store w)) (token_map (store w'))" and "held w (h, t)"
    and "\<And>sid. l \<noteq> Confirmed h sid" and "l \<noteq> GaveBack h" and "clock w \<le> clock w'"
    and "clock w' < t + messageActionProcessingTTL"
  shows "held w' (h, t)"
proof -
  from assms(2) obtain r where r: "token_map (store w) h = Some r" "tn_status r = TokenProcessing"
    "t \<le> tn_updated_at r" "t \<le> clock w" by (auto simp: held_def)
  from assms(1) have "\<exists>r. token_map (store w') h = Some r \<and> tn_status r = TokenProcessing \<and> t \<le> tn_updated_at r"
    using r assms(3,4) by cases (auto simp: taken_def renamed_def)
  then show ?thesis using assms(5,6) r(4) by (simp add: held_def)
qed

lemma remove1_keys:
  assumes "distinct (map fst F)" and "(h, t) \<in> set F"
  shows "distinct (map fst (remove1 (h, t) F)) \<and>
     (\<forall>(h', t') \<in> set (remove1 (h, t) F). (h', t') \<in> set F \<and> h' \<noteq> h)"
proof -
  have "distinct F" using assms(1) by (simp add: distinct_map)
  then have "set (remove1 (h, t) F) = set F - {(h, t)}" by simp
  moreover have "h' \<noteq> h" if "(h', t') \<in> set F" "(h', t') \<noteq> (h, t)" for h' t'
    using assms that by (metis eq_key_imp_eq_value)
  moreover have "inj_on fst (set F)" using assms(1) by (simp add: distinct_map)
  then have "inj_on fst (set (remove1 (h, t) F))" by (rule inj_on_subset) (rule set_remove1_subset)
  ultimately show ?thesis using \<open>distinct F\<close> by (auto simp: distinct_map)
qed

lemma held_close:
  assumes F: "distinct (map fst F)" "(h, t) \<in> set F" "\<forall>x \<in> set F. held w x"
    and sp: "reply_spec (clock w) l (token_map (store w)) (token_map (store w'))" "clock w' = clock w"
    and l: "\<And>h'. h' \<noteq> h \<Longrightarrow> l \<noteq> GaveBack h' \<and> (\<forall>sid. l \<noteq> Confirmed h' sid)"
  shows "distinct (map fst (remove1 (h, t) F)) \<and> (\<forall>x \<in> set (remove1 (h, t) F). held w' x)"
proof -
  note keys = remove1_keys [OF F(1,2)]
  have "held w' (h', t')" if "(h', t') \<in> set (remove1 (h, t) F)" for h' t'
  proof -
    from that keys have k: "(h', t') \<in> set F" "h' \<noteq> h" by auto
    with F(3) have "held w (h', t')" by blast
    with k(2) l sp(2) show ?thesis by (intro held_spec [OF sp(1)]) (auto simp: held_def)
  qed
  with keys show ?thesis by auto
qed

lemma run_held:
  assumes "reply_run H w0 w F" and "tokens_ok w0"
  shows "tokens_ok w \<and> distinct (map fst F) \<and> (\<forall>x \<in> set F. held w x)"
  using assms(1)
proof (induction rule: reply_run.induct)
  case rr_start
  then show ?case using assms(2) by simp
next
  case (rr_idle w F w')
  from reply_step_spec [OF rr_idle.hyps(2)] rr_idle.IH have sp: "tokens_ok w'" "clock w \<le> clock w'"
    "reply_spec (clock w) Idle (token_map (store w)) (token_map (store w'))" by auto
  have "held w' (h, t)" if "(h, t) \<in> set F" for h t
    using that rr_idle.IH rr_idle.hyps(3) sp by (intro held_spec [OF sp(3)]) auto
  with sp(1) rr_idle.IH show ?case by auto
next
  case (rr_take w F h w')
  from reply_step_spec [OF rr_take.hyps(2)] rr_take.IH have sp: "tokens_ok w'" "clock w' = clock w"
    "reply_spec (clock w) (Took h) (token_map (store w)) (token_map (store w'))" by auto
  have "h \<notin> set (map fst F)" using held_not_taken sp(3) rr_take.IH by fastforce
  moreover have "held w' (h', t)" if "(h', t) \<in> set F" for h' t
    using that rr_take.IH sp(2) by (intro held_spec [OF sp(3)]) (auto simp: held_def)
  moreover have "held w' (h, clock w)"
    using sp(3) by cases (simp add: held_def sp(2) taken_def messageActionProcessingTTL_def)
  ultimately show ?case using sp(1) rr_take.IH by auto
next
  case (rr_confirm w F h sid w' t)
  from reply_step_spec [OF rr_confirm.hyps(2)] rr_confirm.IH have sp: "tokens_ok w'" "clock w' = clock w"
    "reply_spec (clock w) (Confirmed h sid) (token_map (store w)) (token_map (store w'))" by auto
  then show ?case using held_close [OF _ rr_confirm.hyps(3) _ sp(3,2)] rr_confirm.IH by simp
next
  case (rr_back w F h w' t)
  from reply_step_spec [OF rr_back.hyps(2)] rr_back.IH obtain l where sp: "tokens_ok w'" "clock w' = clock w"
    "reply_spec (clock w) l (token_map (store w)) (token_map (store w'))" "l = GaveBack h \<or> l = Idle" by auto
  then show ?case using held_close [OF _ rr_back.hyps(3) _ sp(3,2)] rr_back.IH by auto
qed

lemma finalize_calm:
  assumes "tokens_ok w" and "faults w = []" and "trim_space sid \<noteq> []"
    and r: "token_map (store w) (hashMessageActionToken E raw) = Some r" "tn_status r = TokenProcessing"
  shows "\<exists>w'. FinalizeActionReply E raw sid w = (Inr (clock w), w')"
proof -
  let ?h = "hashMessageActionToken E raw"
  let ?Q = "\<lambda>r. tn_hash r = ?h \<and> tn_status r = TokenProcessing"
  let ?f = "\<lambda>r. r\<lparr>tn_status := TokenSubmitted, tn_used_at := Some (clock w), tn_session_id := trim_space sid\<rparr>"
  obtain res w1 where run: "update_tokens ?Q ?f w = (res, w1)" by fastforce
  have f: "keeps_identity ?f" by (simp add: keeps_identity_def)
  have g: "\<forall>r. tn_status r = TokenProcessing \<and> token_status_ok (tn_status r) \<longrightarrow> token_status_ok (tn_status (?f r))"
    by (simp add: token_status_ok_def)
  have res: "\<exists>n. res = Inr n" using run assms(2) by (auto simp: update_tokens_def calm_simps)
  have "res = Inr 1" using assms(1) run f g by (cases rule: hash_update_run) (use res r in auto)
  with run assms(3) show ?thesis by (simp add: FinalizeActionReply_def andThen_def now_def ret_def)
qed

text \<open>
  When every handler confirms or gives back within two minutes of taking the token, at most one
  reply of a link is under way at any time, and the one under way can confirm: with the database
  answering, its confirmation succeeds, so no session of the workspace is started in vain.
\<close>

theorem answers_exclusive:
  assumes "reply_run (ae_hash E) w0 w F" and "tokens_ok w0"
    and "(hashMessageActionToken E raw, t) \<in> set F" and "faults w = []" and "trim_space sid \<noteq> []"
  shows "distinct (map fst F) \<and> (\<exists>w'. FinalizeActionReply E raw sid w = (Inr (clock w), w'))"
proof -
  note ok = run_held [OF assms(1,2)]
  then have "held w (hashMessageActionToken E raw, t)" using assms(3) by blast
  then show ?thesis using ok finalize_calm [OF _ assms(4,5)] by (auto simp: held_def)
qed

section \<open>Which requests take a token\<close>

definition startable :: "action_token \<Rightarrow> int \<Rightarrow> bool" where
  "startable r t \<longleftrightarrow>
     (tn_status r = TokenOpen \<or>
      (tn_status r = TokenProcessing \<and> tn_updated_at r \<noteq> 0 \<and> t - tn_updated_at r \<ge> messageActionProcessingTTL)) \<and>
     (tn_expires_at r = 0 \<or> t \<le> tn_expires_at r)"

lemma startable_effective:
  "token_status_ok (tn_status r) \<Longrightarrow> effectiveActionTokenStatus r t = TokenOpen \<longleftrightarrow> startable r t"
  by (auto simp: effective_cases startable_def token_status_ok_def)

lemma row_status_ok: "tokens_ok w \<Longrightarrow> token_at h (store w) = Some r \<Longrightarrow> token_status_ok (tn_status r)"
  using map_status_ok [of w h r] by (simp add: token_map_def)

definition reply_allowed :: "action_env \<Rightarrow> gostr \<Rightarrow> gostr \<Rightarrow> gostr \<Rightarrow> gostr \<Rightarrow> gostr \<Rightarrow> msg_db world \<Rightarrow> action_token \<Rightarrow> bool" where
  "reply_allowed E raw content files action viewer w r \<longleftrightarrow>
     trim_space content \<noteq> [] \<and> rune_count (trim_space content) \<le> 8000 \<and> length (trim_space files) \<le> 16000 \<and>
     token_at (hashMessageActionToken E raw) (store w) = Some r \<and>
     trim_space viewer \<noteq> [] \<and> trim_space viewer \<in> set (actionAuthorizedUsers r) \<and>
     containsAllowedAction (splitAllowedActions (tn_actions r)) (if trim_space action = [] then ''reply'' else trim_space action) \<and>
     (\<exists>e \<in> set (entries (store w)). me_id e = tn_message_id r \<and> me_deleted_at e = None)"

lemma check_reply_Inr:
  "check_reply content files w = (Inr u, w') \<longleftrightarrow>
     w' = w \<and> content \<noteq> [] \<and> rune_count content \<le> 8000 \<and> length files \<le> 16000"
  by (auto simp: check_reply_def run_simps)

lemma update_tokens_calm:
  "faults w = [] \<Longrightarrow> \<exists>n. update_tokens P f w =
     (Inr n, w\<lparr>store := (store w)\<lparr>action_tokens := map (stamped P f (clock w)) (action_tokens (store w))\<rparr>\<rparr>)"
  by (simp add: update_tokens_def calm_simps upd_stamped)

lemma set_read_calm:
  "faults w = [] \<Longrightarrow> \<exists>n w'. set_read P t w = (Inr n, w') \<and> faults w' = [] \<and> clock w' = clock w \<and>
     action_tokens (store w') = action_tokens (store w) \<and> entries (store w') = entries (store w)"
  by (simp add: set_read_def calm_simps Let_def)

lemma reopen_calm:
  assumes "faults w = []" and "tn_status r = TokenOpen \<or> (tn_status r = TokenProcessing \<and> status = TokenOpen)"
  obtains r' w' where "reopen_stale r status w = (Inr r', w')" "faults w' = []" "entries (store w') = entries (store w)"
    "tn_status r' = TokenOpen" "tn_actions r' = tn_actions r" "tn_message_id r' = tn_message_id r"
proof (cases "tn_status r = TokenOpen")
  case True
  then show ?thesis using assms(1) by (intro that [of r w]) (simp_all add: reopen_stale_def ret_def)
next
  case False
  with assms(2) have p: "tn_status r = TokenProcessing \<and> status = TokenOpen" by blast
  let ?P = "\<lambda>x. tn_id x = tn_id r \<and> tn_status x = TokenProcessing" and ?f = "\<lambda>x. x\<lparr>tn_status := TokenOpen\<rparr>"
  let ?w = "w\<lparr>store := (store w)\<lparr>action_tokens := map (stamped ?P ?f (clock w)) (action_tokens (store w))\<rparr>\<rparr>"
  obtain n where "update_tokens ?P ?f w = (Inr n, ?w)" using update_tokens_calm [OF assms(1)] by blast
  then have "reopen_stale r status w = (Inr (?f r), ?w)" using p by (simp add: reopen_stale_def andThen_def ret_def)
  then show ?thesis by (rule that) (simp_all add: assms(1))
qed

lemma tx_calm_Inr: "m w = (Inr a, w') \<Longrightarrow> faults w' = [] \<Longrightarrow> tx e m w = (Inr a, w')"
  by (simp add: tx_def next_fails_def)

lemma reply_taken:
  assumes "faults w = []" and "tokens_ok w" and a: "reply_allowed E raw content files action viewer w r"
    and "startable r (clock w)"
  shows "\<exists>r' e w'. BeginActionReply E raw content files action viewer w =
       (Inr (reply_context E r' e (trim_space content) (trim_space files) (trim_space viewer)), w') \<and>
     faults w' = [] \<and> e \<in> set (entries (store w))"
proof -
  let ?action = "if trim_space action = [] then ''reply'' else trim_space action"
  let ?status = "effectiveActionTokenStatus r (clock w)"
  from a have tok: "token_at (hashMessageActionToken E raw) (store w) = Some r" by (simp add: reply_allowed_def)
  have status: "?status = TokenOpen" using startable_effective [OF row_status_ok [OF assms(2) tok]] assms(4) by simp
  have st: "tn_status r = TokenOpen \<or> (tn_status r = TokenProcessing \<and> ?status = TokenOpen)"
    using assms(4) status by (auto simp: startable_def)
  obtain r' w1 where r': "reopen_stale r ?status w = (Inr r', w1)" "faults w1 = []" "entries (store w1) = entries (store w)"
    "tn_status r' = TokenOpen" "tn_actions r' = tn_actions r" "tn_message_id r' = tn_message_id r"
    using reopen_calm [OF assms(1) st] by blast
  have "first_row (\<lambda>e. me_id e = tn_message_id r \<and> me_deleted_at e = None) (entries (store w)) \<noteq> None"
    using a by (auto simp: reply_allowed_def first_row_None)
  then obtain e where first: "first_row (\<lambda>e. me_id e = tn_message_id r \<and> me_deleted_at e = None) (entries (store w)) = Some e"
    by auto
  then have e: "entry_by_id (tn_message_id r') w1 = (Inr e, w1)" and mem: "e \<in> set (entries (store w))"
    using r' by (auto simp: entry_by_id_def calm_simps dest: first_row_Some)
  obtain n w2 where n: "set_read (\<lambda>x. mr_username x = trim_space viewer \<and> mr_message_id x = tn_message_id r') (clock w) w1 = (Inr n, w2)"
    "faults w2 = []" using set_read_calm [OF r'(2)] by blast
  obtain k w3 where k: "update_tokens (\<lambda>x. tn_id x = tn_id r')
      (\<lambda>x. x\<lparr>tn_status := TokenProcessing, tn_used_at := None, tn_reply_id := 0\<rparr>) w2 = (Inr k, w3)" "faults w3 = []"
    using update_tokens_calm [OF n(2)] by (metis (no_types, lifting) n(2) world.select_convs(3) world.surjective world.update_convs(4))
  have "token_by_hash (hashMessageActionToken E raw) w = (Inr r, w)"
    using tok assms(1) by (simp add: token_by_hash_def calm_simps token_at_def)
  moreover have "authorizeMessageActionUser r viewer w = (Inr (trim_space viewer), w)"
    using a by (simp add: authorizeMessageActionUser_def Let_def ret_def reply_allowed_def)
  ultimately have "begin_reply_tx E raw (trim_space content) (trim_space files) act viewer w =
      (Inr (reply_context E r' e (trim_space content) (trim_space files) (trim_space viewer)), w3)"
    if "containsAllowedAction (splitAllowedActions (tn_actions r')) act" for act
    using that status r'(1,4,6) e n(1) k(1) by (simp add: begin_reply_tx_def andThen_def now_def ret_def Let_def)
  moreover have "containsAllowedAction (splitAllowedActions (tn_actions r')) ?action"
    using a r'(5) by (simp add: reply_allowed_def)
  moreover have "check_reply (trim_space content) (trim_space files) w = (Inr (), w)"
    using a by (simp add: check_reply_def ret_def reply_allowed_def)
  ultimately show ?thesis
    unfolding BeginActionReply_def Let_def using tx_calm_Inr [OF _ k(2), of "begin_reply_tx E raw (trim_space content)
      (trim_space files) ?action viewer" w] k(2) mem by (auto simp: andThen_def)
qed

text \<open>
  C28. With the database answering, a request takes the token exactly when its text is neither empty nor
  too long, the user is among those the link names, the link allows the action, the message exists,
  and the token is open and not expired, where a token whose processing began two minutes ago counts
  as open: a reply whose handler died does not block the link for longer.
\<close>

theorem reply_taken_iff:
  assumes "faults w = []" and "tokens_ok w"
  shows "(\<exists>resp w'. BeginActionReply E raw content files action viewer w = (Inr resp, w')) \<longleftrightarrow>
     (\<exists>r. reply_allowed E raw content files action viewer w r \<and> startable r (clock w))"
proof
  assume "\<exists>resp w'. BeginActionReply E raw content files action viewer w = (Inr resp, w')"
  then obtain resp w' where run: "BeginActionReply E raw content files action viewer w = (Inr resp, w')" by blast
  then show "\<exists>r. reply_allowed E raw content files action viewer w r \<and> startable r (clock w)"
  proof (rule Begin_Inr)
    fix r0
    assume "token_at (hashMessageActionToken E raw) (store w) = Some r0"
      and "effectiveActionTokenStatus r0 (clock w) = TokenOpen"
    moreover from this have "startable r0 (clock w)"
      using startable_effective [OF row_status_ok [OF assms(2)]] by blast
    moreover assume "trim_space content \<noteq> []" "rune_count (trim_space content) \<le> 8000"
      "length (trim_space files) \<le> 16000" "trim_space viewer \<noteq> []" "trim_space viewer \<in> set (actionAuthorizedUsers r0)"
      "\<exists>e \<in> set (entries (store w)). me_id e = tn_message_id r0 \<and> me_deleted_at e = None"
      "containsAllowedAction (splitAllowedActions (tn_actions r0))
         (if trim_space action = [] then ''reply'' else trim_space action)"
    ultimately show ?thesis by (auto simp: reply_allowed_def)
  qed
next
  assume "\<exists>r. reply_allowed E raw content files action viewer w r \<and> startable r (clock w)"
  then show "\<exists>resp w'. BeginActionReply E raw content files action viewer w = (Inr resp, w')"
    using reply_taken [OF assms] by meson
qed

section \<open>An expired link\<close>

text \<open>
  A request for an expired link is refused, and it leaves the tables as they were: the status
  expired, which the code writes in the transaction it then aborts, is never stored.
\<close>

theorem expired_never_stored:
  assumes "reply_path (ae_hash E) w0 ls w" and "tokens_ok w0"
    and "token_at (hashMessageActionToken E raw) (store w) = Some r"
    and "effectiveActionTokenStatus r (clock w) = TokenExpired"
    and "BeginActionReply E raw content files action viewer w = (res, w')"
  shows "tn_status r \<noteq> TokenExpired \<and> (\<exists>e. res = Inl e) \<and> store w' = store w"
proof -
  have "tn_status r \<noteq> TokenExpired"
    using row_status_ok [OF path_ok [OF assms(1,2)] assms(3)] by (auto simp: token_status_ok_def)
  moreover have "\<exists>e. res = Inl e"
  proof (cases res)
    case (Inr resp)
    from assms(5) [unfolded Inr] show ?thesis by (rule Begin_Inr) (use assms(3,4) in auto)
  qed blast
  ultimately show ?thesis using Begin_Inl assms(5) by blast
qed

section \<open>Who may answer\<close>

lemma view_parts:
  "stable I (ListInbox u f o1 l)" "timeless (ListInbox u f o1 l)" "counts_up (ListInbox u f o1 l)"
  "stable I (GetInboxMessage u i)" "timeless (GetInboxMessage u i)" "counts_up (GetInboxMessage u i)"
  "stable I (token_by_hash h)" "timeless (token_by_hash h)" "counts_up (token_by_hash h)"
  "stable I (authorizeMessageActionUser r v)" "timeless (authorizeMessageActionUser r v)"
  "counts_up (authorizeMessageActionUser r v)"
  unfolding ListInbox_def GetInboxMessage_def token_by_hash_def authorizeMessageActionUser_def Let_def
  by (intro stable_intros timeless_intros counts_intros | simp split: option.split
      | intro conjI allI impI stable_intros timeless_intros counts_intros)+

lemma thread_parts:
  fixes m :: "(inbox_item list \<times> nat) msg"
  assumes "stable I m" "timeless m" "counts_up m"
  shows "stable I (andThen (attempt m) (\<lambda>res. ret (g res)) :: inbox_item list msg)"
    "timeless (andThen (attempt m) (\<lambda>res. ret (g res)) :: inbox_item list msg)"
    "counts_up (andThen (attempt m) (\<lambda>res. ret (g res)) :: inbox_item list msg)"
  using assms by (intro stable_intros timeless_intros counts_intros; simp)+

lemma view_quiet: "stable I (GetActionView E raw url v)" "timeless (GetActionView E raw url v)"
  "counts_up (GetActionView E raw url v)"
proof -
  have k: "stable I (if b then ret x else m)" if "stable I m" for b x and m :: "inbox_item list msg" using that by (simp add: stable_ret)
  have l: "stable I (if b then fail y else m)" if "stable I m" for b y and m :: "action_token msg" using that by (simp add: stable_fail)
  show "stable I (GetActionView E raw url v)"
    unfolding GetActionView_def getActionToken_def Let_def
    by (intro stable_andThen k l view_parts thread_parts stable_ret stable_now)
  show "timeless (GetActionView E raw url v)" "counts_up (GetActionView E raw url v)"
    unfolding GetActionView_def getActionToken_def Let_def
    by (intro timeless_intros counts_intros view_parts thread_parts)+
qed

lemma hash_trim [simp]: "hashMessageActionToken E (trim_space raw) = hashMessageActionToken E raw"
  by (simp add: hashMessageActionToken_def)

lemma view_Inr:
  assumes "GetActionView E raw url v w = (Inr view, w')"
  obtains row where "token_at (hashMessageActionToken E raw) (store w) = Some row"
    "av_recipient view = trim_space (tn_recipient row)" "trim_space v \<in> set (actionAuthorizedUsers row)"
    "store w' = store w" "clock w' = clock w" "seqs w ''message_action_token'' \<le> seqs w' ''message_action_token''"
proof -
  from assms obtain row w1 where "getActionToken E raw w = (Inr row, w1)"
    and rest: "\<exists>u. authorizeMessageActionUser row v w1 = (Inr u, w1)" "av_recipient view = trim_space (tn_recipient row)"
    by (auto simp: GetActionView_def run_simps authorize_Inr Let_def)
  then have "token_at (hashMessageActionToken E raw) (store w) = Some row"
    by (auto simp: getActionToken_def Let_def run_simps split: if_splits dest: token_by_hash_Inr)
  moreover have "store w' = store w"
    using stableD [of "\<lambda>s. s = store w", OF view_quiet(1) refl assms] by simp
  ultimately show ?thesis
    using that rest timelessD [OF view_quiet(2) assms] counts_upD [OF view_quiet(3) assms]
    by (auto simp: authorize_Inr)
qed

lemma replied_Inr:
  "replied m f w = (Inr r, w') \<longleftrightarrow>
     (\<exists>e. m w = (Inl e, w') \<and> r = error_reply e) \<or> (\<exists>a w1. m w = (Inr a, w1) \<and> f a w1 = (Inr r, w'))"
proof (cases "m w")
  case (Pair x w1)
  then show ?thesis by (cases x) (auto simp: replied_def andThen_def attempt_def ret_def)
qed

lemma error_reply_not_ok [simp]: "error_reply e \<noteq> ReplyOk r" "ReplyOk r \<noteq> error_reply e"
  by (simp_all add: error_reply_def)

lemma give_back_Inr: "give_back E token r w = (Inr r', w') \<Longrightarrow> r' = r"
  by (auto simp: give_back_def releasePublicMessageActionReply_def run_simps)

text \<open>A reply that went through, step by step.\<close>

lemma confirm_ok:
  assumes "confirm_reply E token path b sid w = (Inr (ReplyOk resp), w')"
  shows "\<exists>t. FinalizeActionReply E token (trim_space sid) w = (Inr t, w') \<and> rp_session_id resp = trim_space sid"
proof (cases "FinalizeActionReply E token (trim_space sid) w")
  case (Pair r w1)
  with assms show ?thesis
    by (cases r) (auto simp: confirm_reply_def andThen_def attempt_def ret_def Let_def dest: give_back_Inr)
qed

lemma run_reply_ok:
  assumes "run_reply E token req view path begun w = (Inr (ReplyOk resp), w')"
  obtains wq sid t where "wq_user wq = av_recipient view" "WorkspaceSubmit E wq = Inr sid"
    "FinalizeActionReply E token (trim_space sid) w = (Inr t, w')" "rp_session_id resp = trim_space sid"
proof -
  let ?wq = "workspace_request_of req view (begun\<lparr>rp_full_code_path := firstNonEmpty [rp_full_code_path begun, path]\<rparr>)"
  have user: "wq_user ?wq = av_recipient view" by (simp add: workspace_request_of_def Let_def)
  show ?thesis
  proof (cases "WorkspaceSubmit E ?wq")
    case (Inl e)
    then show ?thesis using assms by (auto simp: run_reply_def Let_def dest: give_back_Inr)
  next
    case (Inr sid)
    then have "confirm_reply E token path (begun\<lparr>rp_full_code_path := firstNonEmpty [rp_full_code_path begun, path]\<rparr>) sid w
        = (Inr (ReplyOk resp), w')"
      using assms by (simp add: run_reply_def Let_def)
    from confirm_ok [OF this] show ?thesis using that user Inr by blast
  qed
qed

lemma submit_ReplyOk:
  assumes "submitPublicMessageActionReply E token req user w = (Inr (ReplyOk resp), w')"
  obtains view w1 begun w2 wq sid t where
    "GetActionView E (trim_space token) [] (trim_space user) w = (Inr view, w1)"
    "trim_space (av_recipient view) = trim_space user"
    "BeginActionReply E (trim_space token) (rr_content req) (rr_files req) (rr_action req) (trim_space user) w1 = (Inr begun, w2)"
    "wq_user wq = av_recipient view" "WorkspaceSubmit E wq = Inr sid"
    "FinalizeActionReply E (trim_space token) (trim_space sid) w2 = (Inr t, w')" "rp_session_id resp = trim_space sid"
proof -
  from assms obtain view w1 where v: "GetActionView E (trim_space token) [] (trim_space user) w = (Inr view, w1)"
    "trim_space (av_recipient view) = trim_space user"
    and rest: "replied (BeginActionReply E (trim_space token) (rr_content req) (rr_files req) (rr_action req) (trim_space user))
      (run_reply E (trim_space token) req view (mobileActionFullCodePath (av_message view))) w1 = (Inr (ReplyOk resp), w')"
    by (auto simp: submitPublicMessageActionReply_def Let_def replied_Inr [of "GetActionView _ _ _ _"] ret_def split: if_splits)
  from rest obtain begun w2 where b: "BeginActionReply E (trim_space token) (rr_content req) (rr_files req) (rr_action req) (trim_space user) w1 = (Inr begun, w2)"
    "run_reply E (trim_space token) req view (mobileActionFullCodePath (av_message view)) begun w2 = (Inr (ReplyOk resp), w')"
    by (auto simp: replied_Inr)
  from b(2) obtain wq sid t where "wq_user wq = av_recipient view" "WorkspaceSubmit E wq = Inr sid"
    "FinalizeActionReply E (trim_space token) (trim_space sid) w2 = (Inr t, w')" "rp_session_id resp = trim_space sid"
    by (rule run_reply_ok)
  with v b(1) that show ?thesis by blast
qed

text \<open>
  A reply is accepted only from the recipient of the message, who must be among the users of the
  link, for a token that was open, and only once the workspace has started a session for that user:
  the token is then submitted and carries the id of that session.
\<close>

theorem reply_submitted:
  assumes "tokens_ok w" and "submitPublicMessageActionReply E token req user w = (Inr (ReplyOk resp), w')"
  shows "\<exists>r r' wq sid. reply_allowed E token (rr_content req) (rr_files req) (rr_action req) user w r \<and>
     startable r (clock w) \<and> trim_space (tn_recipient r) = trim_space user \<and>
     wq_user wq = trim_space user \<and> WorkspaceSubmit E wq = Inr sid \<and> trim_space sid = rp_session_id resp \<and>
     token_at (hashMessageActionToken E token) (store w') = Some r' \<and> tn_status r' = TokenSubmitted \<and>
     tn_session_id r' = rp_session_id resp \<and> rp_session_id resp \<noteq> []"
  using assms(2)
proof (rule submit_ReplyOk)
  let ?h = "hashMessageActionToken E token"
  fix view w1 begun w2 wq sid t
  assume v: "GetActionView E (trim_space token) [] (trim_space user) w = (Inr view, w1)"
    and u: "trim_space (av_recipient view) = trim_space user"
    and b: "BeginActionReply E (trim_space token) (rr_content req) (rr_files req) (rr_action req) (trim_space user) w1 = (Inr begun, w2)"
    and q: "wq_user wq = av_recipient view" "WorkspaceSubmit E wq = Inr sid"
    and f: "FinalizeActionReply E (trim_space token) (trim_space sid) w2 = (Inr t, w')"
    and sid: "rp_session_id resp = trim_space sid"
  from v obtain row where row: "token_at ?h (store w) = Some row" "av_recipient view = trim_space (tn_recipient row)"
    "store w1 = store w" "clock w1 = clock w" "seqs w ''message_action_token'' \<le> seqs w1 ''message_action_token''"
    by (rule view_Inr) simp
  have ok1: "tokens_ok w1" using tokens_ok_same [OF assms(1)] row by simp
  from b have allowed: "reply_allowed E token (rr_content req) (rr_files req) (rr_action req) user w row \<and> startable row (clock w)"
  proof (rule Begin_Inr)
    fix r0 assume r0: "token_at (hashMessageActionToken E (trim_space token)) (store w1) = Some r0"
      "effectiveActionTokenStatus r0 (clock w1) = TokenOpen"
    have "r0 = row" using r0(1) row by simp
    moreover have "startable row (clock w)"
      using r0 row \<open>r0 = row\<close> startable_effective [OF row_status_ok [OF assms(1) row(1)]] by simp
    moreover assume "trim_space (rr_content req) \<noteq> []" "rune_count (trim_space (rr_content req)) \<le> 8000"
      "length (trim_space (rr_files req)) \<le> 16000" "trim_space (trim_space user) \<noteq> []"
      "trim_space (trim_space user) \<in> set (actionAuthorizedUsers r0)"
      "\<exists>e \<in> set (entries (store w1)). me_id e = tn_message_id r0 \<and> me_deleted_at e = None"
      "containsAllowedAction (splitAllowedActions (tn_actions r0))
         (if trim_space (rr_action req) = [] then ''reply'' else trim_space (rr_action req))"
    ultimately show ?thesis using row by (simp add: reply_allowed_def)
  qed
  from implementsD [OF Begin_implements ok1 b] have ok2: "tokens_ok w2" by blast
  from implementsD [OF Finalize_implements ok2 f] obtain
    sp: "reply_spec (clock w2) (Confirmed ?h (trim_space sid)) (token_map (store w2)) (token_map (store w'))" by auto
  then obtain r' where "token_map (store w') ?h = Some r'" "tn_status r' = TokenSubmitted"
    "tn_session_id r' = trim_space sid" "trim_space sid \<noteq> []"
    by cases (auto simp: confirmed_def)
  then show ?thesis using allowed row u q sid by (auto simp: token_map_def)
qed

text \<open>
  Naming a user in a link does not let that user answer: the link opens for every user it names and
  says that a reply is possible, but a reply from anyone but the recipient is answered with 403 and
  changes nothing.
\<close>

theorem named_user_cannot_reply:
  assumes "getPublicMessageAction E token user w = (Inr (ViewOk view), w1)" and "av_can_reply view"
    and "av_recipient view \<noteq> trim_space user" and "rr_content req \<noteq> []"
  shows "submitPublicMessageActionReply E token req user w = (Inr (Status 403 ''other user''), w1) \<and> store w1 = store w"
proof -
  from assms(1) obtain v where v: "GetActionView E (trim_space token) [] user w = (Inr v, w1)"
    and view: "av_recipient view = av_recipient v"
    by (auto simp: getPublicMessageAction_def replied_Inr ret_def error_reply_def split: if_splits)
  from v obtain row where row: "token_at (hashMessageActionToken E token) (store w) = Some row"
    "av_recipient v = trim_space (tn_recipient row)" "trim_space user \<noteq> []" "store w1 = store w"
    by (rule view_Inr) (use v in \<open>auto simp: GetActionView_def run_simps authorize_Inr\<close>)
  obtain v2 where "GetActionView E (trim_space token) [] (trim_space user) w = (Inr v2, w1)"
    "av_recipient v2 = av_recipient v"
    using v by (auto simp: GetActionView_def run_simps authorize_Inr Let_def)
  then show ?thesis using assms(3,4) row view
    by (simp add: submitPublicMessageActionReply_def Let_def replied_def andThen_def attempt_def ret_def)
qed

section \<open>Applications\<close>

lemma demo_reply_allowed:
  "reply_allowed demo_action_env ''kat_1'' ''yes'' [] ''reply'' ''bob'' (demo_msg [demo_token st u] t) (demo_token st u)"
  using demo_allowed by (simp add: reply_allowed_def token_at_def go_string_simps plain_char_def demo_entry_def)

lemma demo_began: "\<exists>r w'. demo_begin demo_open = (Inr r, w') \<and> faults w' = []"
  using reply_taken [OF _ demo_open_ok demo_reply_allowed] by (simp add: startable_def) blast

lemma demo_took: "reply_step id (Took ''kat_1'') demo_open (snd (demo_begin demo_open))"
proof -
  obtain r w' where run: "demo_begin demo_open = (Inr r, w')" using demo_began by blast
  from rs_begin [OF _ run, of id] run show ?thesis by (simp add: go_string_simps plain_char_def)
qed

lemma demo_finished: "\<exists>t. demo_finish ''s9'' (snd (demo_begin demo_open)) =
    (Inr t, snd (demo_finish ''s9'' (snd (demo_begin demo_open))))"
proof -
  obtain r w' where run: "demo_begin demo_open = (Inr r, w')" "faults w' = []" using demo_began by blast
  from implementsD [OF Begin_implements demo_open_ok run(1)] obtain
    sp: "reply_spec 10 (Took ''kat_1'') (token_map (store demo_open)) (token_map (store w'))" and ok: "tokens_ok w'" by auto
  from sp obtain k where "token_map (store w') ''kat_1'' = Some k" "tn_status k = TokenProcessing"
    by cases (auto simp: taken_def)
  then have "\<exists>w''. demo_finish ''s9'' w' = (Inr (clock w'), w'')"
    using finalize_calm [OF ok run(2)] by (simp add: go_string_simps plain_char_def)
  with run show ?thesis by (metis prod.collapse snd_conv)
qed

lemma demo_confirmed:
  "reply_step id (Confirmed ''kat_1'' ''s9'') (snd (demo_begin demo_open))
     (snd (demo_finish ''s9'' (snd (demo_begin demo_open))))"
proof -
  obtain t where "demo_finish ''s9'' (snd (demo_begin demo_open)) =
    (Inr t, snd (demo_finish ''s9'' (snd (demo_begin demo_open))))" using demo_finished by blast
  from rs_finalize [OF _ this, of id] show ?thesis by (simp add: go_string_simps plain_char_def)
qed

theorem answered_once_witness:
  "\<exists>r. token_at ''kat_1'' (store (snd (demo_finish ''s9'' (snd (demo_begin demo_open))))) = Some r \<and>
     tn_status r = TokenSubmitted"
proof -
  have "reply_path id demo_open ([] @ [Took ''kat_1''] @ [Confirmed ''kat_1'' ''s9''])
      (snd (demo_finish ''s9'' (snd (demo_begin demo_open))))"
    using rp_more [OF rp_more [OF rp_start demo_took] demo_confirmed] by simp
  from answered_once [OF this demo_open_ok, of "[Took ''kat_1'']" "''kat_1''" "''s9''" "[]"] show ?thesis by simp
qed

theorem answers_exclusive_witness:
  "\<exists>w'. demo_finish ''s9'' (snd (demo_begin demo_open)) = (Inr 10, w')"
proof -
  have "reply_run id demo_open (snd (demo_begin demo_open)) [(''kat_1'', 10)]"
    using rr_take [OF rr_start demo_took] by simp
  moreover have "faults (snd (demo_begin demo_open)) = []" "clock (snd (demo_begin demo_open)) = 10"
    using demo_began implementsD [OF Begin_implements demo_open_ok, of demo_action_env "''kat_1''" "''yes''" "[]"
        "''reply''" "''bob''"] by (auto, metis demo_msg_fields(1) prod.collapse)
  ultimately show ?thesis
    using answers_exclusive [of demo_action_env demo_open "snd (demo_begin demo_open)" "[(''kat_1'', 10)]" "''kat_1''" 10 "''s9''"]
      demo_open_ok by (simp add: go_string_simps plain_char_def)
qed

theorem reply_taken_iff_witness:
  "(\<exists>resp w'. demo_begin (demo_msg [demo_token TokenProcessing 5] 200000000000) = (Inr resp, w')) \<and>
   \<not> (\<exists>resp w'. demo_begin (demo_msg [demo_token TokenProcessing 5] 10) = (Inr resp, w'))"
proof -
  have ok: "tokens_ok (demo_msg [demo_token TokenProcessing 5] t)" for t
    by (rule demo_tokens_ok) (simp add: token_status_ok_def)
  have "startable (demo_token TokenProcessing 5) 200000000000"
    by (simp add: startable_def messageActionProcessingTTL_def)
  moreover have "\<not> startable (demo_token TokenProcessing 5) 10"
    by (simp add: startable_def messageActionProcessingTTL_def)
  moreover have "r = demo_token TokenProcessing 5"
    if "reply_allowed demo_action_env ''kat_1'' ''yes'' [] ''reply'' ''bob'' (demo_msg [demo_token TokenProcessing 5] t) r" for r t
    using that by (auto simp: reply_allowed_def token_at_def)
  ultimately show ?thesis
    using reply_taken_iff [OF demo_msg_fields(3) ok] demo_reply_allowed by (metis demo_msg_fields(1))
qed

theorem expired_never_stored_witness:
  "\<exists>e w'. demo_begin (demo_msg [demo_token TokenOpen 5] 1000000000001) = (Inl e, w') \<and>
     store w' = store (demo_msg [demo_token TokenOpen 5] 1000000000001)"
proof -
  let ?w = "demo_msg [demo_token TokenOpen 5] 1000000000001"
  obtain res w' where run: "demo_begin ?w = (res, w')" by fastforce
  have e: "effectiveActionTokenStatus (demo_token TokenOpen 5) (clock ?w) = TokenExpired"
    by (subst effective_cases) (simp_all add: token_status_ok_def)
  have t: "token_at (hashMessageActionToken demo_action_env ''kat_1'') (store ?w) = Some (demo_token TokenOpen 5)"
    by (simp add: token_at_def)
  have ok: "tokens_ok ?w" by (rule demo_tokens_ok) (simp add: token_status_ok_def)
  from expired_never_stored [OF rp_start ok t e run] run show ?thesis by blast
qed

text \<open>The view of the link, for both users it names.\<close>

lemma demo_view:
  assumes "u \<in> {''bob'', ''al''}"
  shows "\<exists>v. GetActionView demo_action_env ''kat_1'' [] u demo_open = (Inr v, demo_open) \<and>
     av_recipient v = ''bob'' \<and> av_can_reply v \<and> ii_entry (av_message v) = demo_entry"
proof -
  have trim: "trim_space u = u" using assms by (auto simp: go_string_simps plain_char_def)
  have u: "u \<in> set (actionAuthorizedUsers (demo_token st t))" for st t using assms demo_allowed by auto
  have "getActionToken demo_action_env ''kat_1'' demo_open = (Inr (demo_token TokenOpen 5), demo_open)"
    by (simp add: getActionToken_def token_by_hash_def calm_simps go_string_simps plain_char_def)
  moreover have "authorizeMessageActionUser (demo_token TokenOpen 5) u demo_open = (Inr u, demo_open)"
    using assms u by (auto simp: authorizeMessageActionUser_def trim Let_def ret_def)
  moreover have "\<exists>r. find (\<lambda>(r, m). me_id m = 1) (inboxBaseQuery u (store demo_open)) = Some (r, demo_entry)"
    using assms by (auto simp: inboxBaseQuery_def inbox_join_def demo_msg_def demo_entry_def demo_recipient_def)
  then obtain item where "GetInboxMessage u 1 demo_open = (Inr item, demo_open)" "ii_entry item = demo_entry"
    by (auto simp: GetInboxMessage_def calm_simps hydrateMessageSourceDisplay_def Let_def split: prod.splits)
  moreover obtain ls n where "(attempt (ListInbox u \<lparr>if_status = [], if_thread_key = mm_thread_key (me_meta demo_entry),
      if_source_path = [], if_children = False\<rparr> 0 30) :: (msg_error + inbox_item list \<times> nat) msg) demo_open = (Inr (Inr (ls, n)), demo_open)"
    by (simp add: attempt_def ListInbox_def calm_simps Let_def)
  moreover have "effectiveActionTokenStatus (demo_token TokenOpen 5) 10 = TokenOpen"
    by (subst effective_cases) (simp_all add: token_status_ok_def)
  moreover have "trim_space (tn_recipient (demo_token TokenOpen 5)) = ''bob''"
    by (simp add: demo_token_def go_string_simps plain_char_def)
  ultimately show ?thesis
    using demo_allowed(3) by (simp add: GetActionView_def andThen_def now_def ret_def Let_def)
qed

lemma demo_chat: "ae_chat demo_action_env q = Stream [''event: session'', ''data: s9'', []] None"
  by (simp add: demo_action_env_def)

lemma demo_stream: "readWorkspaceActionStream demo_action_env [''event: session'', ''data: s9'', []] None = Inr ''s9''"
  by code_simp

lemma demo_path: "normalizeMessageWorkspacePath ''/a/b'' = ''/a/b''"
  by code_simp

lemma demo_trims [simp]: "trim_space ''yes'' = ''yes''" "trim_space ''bob'' = ''bob''" "trim_space ''/a/b'' = ''/a/b''"
  "trim_space ''s9'' = ''s9''" "trim_space ''kat_1'' = ''kat_1''"
  by (simp_all add: go_string_simps plain_char_def)

theorem reply_submitted_witness:
  "\<exists>resp w' r'. submitPublicMessageActionReply demo_action_env ''kat_1'' demo_answer ''bob'' demo_open = (Inr (ReplyOk resp), w') \<and>
     token_at ''kat_1'' (store w') = Some r' \<and> tn_status r' = TokenSubmitted \<and> tn_session_id r' = rp_session_id resp"
proof -
  let ?E = demo_action_env
  obtain v where v: "GetActionView ?E ''kat_1'' [] ''bob'' demo_open = (Inr v, demo_open)" "av_recipient v = ''bob''"
    "ii_entry (av_message v) = demo_entry" using demo_view by blast
  obtain r' e w1 where b: "demo_begin demo_open = (Inr (reply_context ?E r' e ''yes'' [] ''bob''), w1)" "faults w1 = []"
    "e \<in> set (entries (store demo_open))"
    using reply_taken [OF _ demo_open_ok demo_reply_allowed] by (auto simp: startable_def go_string_simps plain_char_def)
  have m: "mm_source_path (me_meta demo_entry) = ''/a/b''" by (simp add: demo_entry_def demo_meta_def)
  have path: "mobileActionFullCodePath (av_message v) = ''/a/b''"
    by (simp add: mobileActionFullCodePath_def v(3) m ResolveMessageWorkspacePath_def demo_path)
  have "e = demo_entry" using b(3) by simp
  then have ctx: "rp_full_code_path (reply_context ?E r' e ''yes'' [] ''bob'') = ''/a/b''"
    "rp_draft (reply_context ?E r' e ''yes'' [] ''bob'') = ''yes''"
    by (simp_all add: reply_context_def m ResolveMessageWorkspacePath_def demo_path demo_action_env_def Let_def)
  let ?resp = "(reply_context ?E r' e ''yes'' [] ''bob'')\<lparr>rp_full_code_path := ''/a/b''\<rparr>"
  have sub: "WorkspaceSubmit ?E (workspace_request_of demo_answer v ?resp) = Inr ''s9''"
    by (simp add: WorkspaceSubmit_def workspace_run_def workspace_request_of_def Let_def demo_chat demo_stream v(2) ctx(2))
  from implementsD [OF Begin_implements demo_open_ok b(1)] obtain
    sp: "reply_spec 10 (Took ''kat_1'') (token_map (store demo_open)) (token_map (store w1))" and ok: "tokens_ok w1" by auto
  from sp obtain k where "token_map (store w1) ''kat_1'' = Some k" "tn_status k = TokenProcessing"
    by cases (auto simp: taken_def)
  then obtain w2 where fin: "demo_finish ''s9'' w1 = (Inr (clock w1), w2)"
    using finalize_calm [OF ok b(2), of "''s9''" ?E "''kat_1''"] by auto
  obtain resp where run: "submitPublicMessageActionReply ?E ''kat_1'' demo_answer ''bob'' demo_open = (Inr (ReplyOk resp), w2)"
    using v(1,2) path ctx(1) sub b(1) fin
    by (simp add: submitPublicMessageActionReply_def replied_def andThen_def attempt_def ret_def Let_def run_reply_def confirm_reply_def)
  from reply_submitted [OF demo_open_ok this] run show ?thesis by auto
qed

theorem named_user_cannot_reply_witness:
  "\<exists>view. getPublicMessageAction demo_action_env ''kat_1'' ''al'' demo_open = (Inr (ViewOk view), demo_open) \<and> av_can_reply view \<and>
     submitPublicMessageActionReply demo_action_env ''kat_1'' demo_answer ''al'' demo_open = (Inr (Status 403 ''other user''), demo_open)"
proof -
  obtain v where v: "GetActionView demo_action_env ''kat_1'' [] ''al'' demo_open = (Inr v, demo_open)"
    "av_recipient v = ''bob''" "av_can_reply v" using demo_view by blast
  then obtain view where view: "getPublicMessageAction demo_action_env ''kat_1'' ''al'' demo_open = (Inr (ViewOk view), demo_open)"
    "av_recipient view = ''bob''" "av_can_reply view"
    by (simp add: getPublicMessageAction_def replied_def andThen_def attempt_def ret_def go_string_simps plain_char_def)
  then show ?thesis using named_user_cannot_reply [OF view(1,3)] by (simp add: go_string_simps plain_char_def)
qed

end
