(* ===== verification/MsgInboxProps.thy ===== *)
theory MsgInboxProps
  imports MsgInbox MsgSamples "HOL-Library.Multiset"
begin

text \<open>
  Facts about the inbox: the groupings count every message once, marking a source as read
  touches exactly the rows it names, and what a new message changes.
\<close>

section \<open>Groups\<close>

lemma sum_by_key:
  fixes f :: "'r \<Rightarrow> nat"
  assumes "finite K" "k ` set rows \<subseteq> K"
  shows "(\<Sum>key \<in> K. \<Sum>r \<leftarrow> filter (\<lambda>r. k r = key) rows. f r) = (\<Sum>r \<leftarrow> rows. f r)"
  using assms
proof (induction rows)
  case (Cons a rows)
  have "(\<Sum>key \<in> K. \<Sum>r \<leftarrow> filter (\<lambda>r. k r = key) (a # rows). f r) =
        (\<Sum>key \<in> K. (if key = k a then f a else 0) + (\<Sum>r \<leftarrow> filter (\<lambda>r. k r = key) rows. f r))"
    by (rule sum.cong) auto
  then show ?case using Cons by (simp add: sum.distrib)
qed simp

lemma group_keys_props: "distinct (group_keys k rows)" "set (group_keys k rows) = k ` set rows"
  by (simp_all add: group_keys_def)

lemma group_sum:
  fixes f :: "'r \<Rightarrow> nat"
  shows "(\<Sum>g \<leftarrow> group_rows k rows. \<Sum>r \<leftarrow> g. f r) = (\<Sum>r \<leftarrow> rows. f r)"
proof -
  have "(\<Sum>g \<leftarrow> group_rows k rows. \<Sum>r \<leftarrow> g. f r) =
        (\<Sum>key \<in> k ` set rows. \<Sum>r \<leftarrow> filter (\<lambda>r. k r = key) rows. f r)"
    using group_keys_props[of k rows]
    by (simp add: group_rows_def sum_list_distinct_conv_sum_set comp_def)
  then show ?thesis by (simp add: sum_by_key)
qed

lemma length_as_sum: "length (filter P rows) = (\<Sum>r \<leftarrow> rows. if P r then 1 else 0)"
  by (induction rows) auto

lemma group_counts: "(\<Sum>g \<leftarrow> group_rows k rows. length (filter P g)) = length (filter P rows)"
  by (simp only: length_as_sum group_sum)

lemma group_lengths: "(\<Sum>g \<leftarrow> group_rows k rows. length g) = length rows"
  using group_counts[of "\<lambda>_. True" k rows] by simp

text \<open>A group of the workspace list counts its own rows.\<close>

lemma count_message_counts:
  "wc_count (count_message x g) = wc_count g + 1"
  "wc_unread (count_message x g) = (if mr_read_at (fst x) = None then 1 else 0) + wc_unread g"
  by (cases x; simp add: count_message_def Let_def)+

lemma fold_count_message:
  "wc_count (fold count_message rows g) = wc_count g + length rows \<and>
   wc_unread (fold count_message rows g) = wc_unread g + unread_of rows"
  by (induction rows arbitrary: g) (auto simp: count_message_counts split_beta)

lemma fresh_workspace: "wc_count (messageWorkspaceFromPaths ps) = 0 \<and> wc_unread (messageWorkspaceFromPaths ps) = 0"
  by (induction ps) (auto split: prod.split)

lemma fresh_entry_workspace: "wc_count (entry_workspace e) = 0" "wc_unread (entry_workspace e) = 0"
  unfolding entry_workspace_def Let_def using fresh_workspace by blast+

lemma workspace_group_sums:
  "(\<Sum>g \<leftarrow> workspace_groups rows. wc_count g) = length rows"
  "(\<Sum>g \<leftarrow> workspace_groups rows. wc_unread g) = unread_of rows"
  by (simp_all add: workspace_groups_def comp_def fold_count_message fresh_entry_workspace group_counts group_lengths)

lemma thread_sums:
  "(\<Sum>t \<leftarrow> inbox_threads u st s. tr_count t) = length (inboxQuery u (any_filter st) s)"
  "(\<Sum>t \<leftarrow> inbox_threads u st s. tr_unread t) = unread_of (inboxQuery u (any_filter st) s)"
  by (simp_all add: inbox_threads_def thread_row_of_def comp_def group_counts group_lengths)

text \<open>Filtering by status drops only rows that were read.\<close>

lemma normalizeMessageSourcePath_Nil: "normalizeMessageSourcePath [] = []"
  by (simp add: normalizeMessageSourcePath_def)

lemma unread_any_filter: "unread_of (inboxQuery u (any_filter st) s) = unread_of (inboxBaseQuery u s)"
proof -
  have "inbox_matches (any_filter st) row" if "mr_read_at (fst row) = None" for row
    using that by (simp add: inbox_matches_def normalizeMessageSourcePath_Nil split_beta Let_def)
  then have "(mr_read_at (fst row) = None \<and> inbox_matches (any_filter st) row) = (mr_read_at (fst row) = None)" for row
    by blast
  then show ?thesis by (simp add: inboxQuery_def case_prod_unfold conj_commute)
qed

lemma sum_list_sort_key: "(\<Sum>x \<leftarrow> sort_key k xs. f x) = (\<Sum>x \<leftarrow> xs. f x)" for f :: "'a \<Rightarrow> nat"
  by (metis mset_map mset_sort sum_mset_sum_list)

lemma unread_sort_key: "length (filter P (sort_key k xs)) = length (filter P xs)"
  unfolding length_as_sum by (rule sum_list_sort_key)

text \<open>The unread badge of a user is the sum of the badges of the workspaces, whatever status the list is
  filtered by; the threads of the same inbox add up to the same number, and both count every message of the
  list once.\<close>

theorem inbox_counts_agree:
  assumes "CountUnread u w = (Inr n, w')" "ListWorkspaceCounts u st w' = (Inr groups, w'')"
  shows "(\<Sum>g \<leftarrow> groups. wc_unread g) = n \<and>
         (\<Sum>g \<leftarrow> groups. wc_count g) = length (inboxQuery u (any_filter st) (store w)) \<and>
         (\<Sum>t \<leftarrow> inbox_threads u st (store w). tr_unread t) = n \<and>
         (\<Sum>t \<leftarrow> inbox_threads u st (store w). tr_count t) = (\<Sum>g \<leftarrow> groups. wc_count g)"
  using assms
  by (auto simp: CountUnread_def ListWorkspaceCounts_def run_simps sum_list_sort_key workspace_group_sums
    thread_sums unread_any_filter unread_sort_key)

lemma demo_store_fields [simp]:
  "recipients (store (demo_msg ts t)) = [demo_recipient 1 ''bob'', demo_recipient 2 ''al'']"
  by (simp add: demo_msg_def)

lemma inbox_counts_agree_witness:
  "\<exists>groups. CountUnread ''bob'' demo_open = (Inr 1, demo_open) \<and>
     ListWorkspaceCounts ''bob'' ''unread'' demo_open = (Inr groups, demo_open) \<and> (\<Sum>g \<leftarrow> groups. wc_unread g) = 1"
proof -
  have count: "CountUnread ''bob'' demo_open = (Inr 1, demo_open)"
    by (simp add: CountUnread_def query_calm inboxBaseQuery_def inbox_join_def demo_recipient_def demo_entry_def)
  obtain groups where "ListWorkspaceCounts ''bob'' ''unread'' demo_open = (Inr groups, demo_open)"
    by (simp add: ListWorkspaceCounts_def calm_simps)
  with count inbox_counts_agree[OF count this] show ?thesis by blast
qed

section \<open>Reading\<close>

text \<open>Marking batch by batch is one update of all the rows.\<close>

definition marked :: "(message_recipient \<Rightarrow> bool) \<Rightarrow> int \<Rightarrow> message_recipient \<Rightarrow> message_recipient" where
  "marked P t r = (if mr_deleted_at r = None \<and> P r then r\<lparr>mr_read_at := Some t\<rparr> else r)"

lemma upd_read: "upd (\<lambda>r. mr_deleted_at r = None \<and> P r) (\<lambda>r. r\<lparr>mr_read_at := Some t\<rparr>) rows = map (marked P t) rows"
  by (simp add: upd_def marked_def)

lemma marked_rows_Inr:
  assumes "set_read P t w = (Inr n, w')"
  shows "store w' = (store w)\<lparr>recipients := map (marked P t) (recipients (store w))\<rparr>" "clock w' = clock w"
  using assms unfolding set_read_def Let_def upd_read modify_Inr fst_conv snd_conv
  by (elim conjE; simp only: next_world_fields)+

lemma marked_marked:
  "marked Q t (marked P t r) = marked (\<lambda>x. P x \<or> Q x) t r" if "\<And>x. Q (x\<lparr>mr_read_at := Some t\<rparr>) \<longleftrightarrow> Q x"
  by (cases "mr_deleted_at r"; cases "P r"; cases "Q r"; simp add: marked_def that)

lemma marked_none: "marked (\<lambda>_. False) t = id"
  by (auto simp: marked_def)

lemma for_each_batches:
  assumes "for_each (\<lambda>b. andThen (set_read (\<lambda>r. mr_id r \<in> set b) t) (\<lambda>_. ret ())) bs w = (Inr (), w')"
  shows "store w' = (store w)\<lparr>recipients := map (marked (\<lambda>r. mr_id r \<in> set (concat bs)) t) (recipients (store w))\<rparr>"
  using assms
proof (induction bs arbitrary: w)
  case Nil
  then show ?case by (simp add: run_simps marked_none)
next
  case (Cons b bs)
  then obtain n v where one: "set_read (\<lambda>r. mr_id r \<in> set b) t w = (Inr n, v)"
    and rest: "for_each (\<lambda>b. andThen (set_read (\<lambda>r. mr_id r \<in> set b) t) (\<lambda>_. ret ())) bs v = (Inr (), w')"
    by (auto simp: run_simps)
  show ?case using Cons.IH[OF rest] marked_rows_Inr[OF one] by (simp add: comp_def marked_marked)
qed

lemma batches_Nil: "batches [] = []"
  by (simp add: batches.simps[of "[]"])

lemma concat_batches: "concat (batches xs) = xs"
proof (induction xs rule: batches.induct)
  case (1 xs)
  then show ?case by (cases "xs = []") (simp_all add: batches.simps[of xs] batches_Nil)
qed

lemma batch_lengths: "\<forall>b \<in> set (batches xs). b \<noteq> [] \<and> length b \<le> 1000"
proof (induction xs rule: batches.induct)
  case (1 xs)
  then show ?case by (cases "xs = []") (auto simp: batches.simps[of xs] batches_Nil)
qed

text \<open>The rows that marking a source touches: unread rows of the user whose message has such a source.\<close>

definition own_unread :: "gostr \<Rightarrow> message_recipient \<Rightarrow> bool" where
  "own_unread u r \<longleftrightarrow> mr_username r = u \<and> mr_deleted_at r = None \<and> mr_read_at r = None"

definition message_has :: "msg_db \<Rightarrow> (message_entry \<Rightarrow> bool) \<Rightarrow> message_recipient \<Rightarrow> bool" where
  "message_has s P r \<longleftrightarrow> (\<exists>m \<in> set (entries s). me_id m = mr_message_id r \<and> me_deleted_at m = None \<and> P m)"

definition mark_rows :: "gostr \<Rightarrow> (message_entry \<Rightarrow> bool) \<Rightarrow> int \<Rightarrow> msg_db \<Rightarrow> msg_db" where
  "mark_rows u P t s = s\<lparr>recipients :=
     map (\<lambda>r. if own_unread u r \<and> message_has s P r then r\<lparr>mr_read_at := Some t\<rparr> else r) (recipients s)\<rparr>"

lemma unread_ids:
  "r \<in> set (recipients s) \<Longrightarrow> distinct (map mr_id (recipients s)) \<Longrightarrow>
   mr_id r \<in> set (map (\<lambda>(r, m). mr_id r) (filter (\<lambda>(r, m). mr_read_at r = None) (inboxQuery u f s))) \<longleftrightarrow>
   own_unread u r \<and> message_has s (\<lambda>m. inbox_matches f (r, m)) r"
  by (auto simp: inboxQuery_def inboxBaseQuery_def inbox_join_def own_unread_def message_has_def distinct_map
    dest: inj_onD)

lemma mark_source_rows:
  assumes run: "MarkSourceRead u path children w = (Inr (), w')"
    and ids: "distinct (map mr_id (recipients (store w)))"
    and p: "p = normalizeMessageSourcePath (normalizeMessageSourcePath path)" "p \<noteq> []"
  shows "store w' = mark_rows u (source_matches p children) (clock w) (store w)"
proof -
  let ?f = "source_filter (normalizeMessageSourcePath path) children"
  let ?ids = "map (\<lambda>(r, m). mr_id r) (filter (\<lambda>(r, m). mr_read_at r = None) (inboxQuery u ?f (store w)))"
  have "normalizeMessageSourcePath path \<noteq> []" using p by (auto simp: normalizeMessageSourcePath_Nil)
  with run have rest: "for_each (\<lambda>b. andThen (set_read (\<lambda>r. mr_id r \<in> set b) (clock w)) (\<lambda>_. ret ())) (batches ?ids)
      (next_world w (store w)) = (Inr (), w')"
    by (auto simp: MarkSourceRead_def andThen_Inr query_Inr now_Inr Let_def)
  have matches: "inbox_matches ?f (r, m) = source_matches p children m" for r m
    using p by (simp add: inbox_matches_def source_filter_def Let_def to_lower_def)
  have "marked (\<lambda>r. mr_id r \<in> set ?ids) (clock w) r =
        (if own_unread u r \<and> message_has (store w) (source_matches p children) r
         then r\<lparr>mr_read_at := Some (clock w)\<rparr> else r)" if "r \<in> set (recipients (store w))" for r
    using unread_ids[OF that ids, of u ?f] unfolding marked_def matches by (auto simp: own_unread_def)
  then show ?thesis
    using for_each_batches[OF rest] by (simp add: concat_batches mark_rows_def)
qed

text \<open>Without wildcards in the path the pattern is the prefix.\<close>

definition of_source :: "gostr \<Rightarrow> bool \<Rightarrow> gostr \<Rightarrow> bool" where
  "of_source q children source \<longleftrightarrow> source = slash # q \<or> source = q \<or>
     (children \<and> (has_prefix source (slash # q @ [slash]) \<or> has_prefix source (q @ [slash])))"

lemma like_under:
  assumes "literal_pattern p"
  shows "sql_like (p @ ''/%'') s \<longleftrightarrow> has_prefix s (p @ [slash])"
proof -
  have "literal_pattern (p @ [slash])" using assms by (simp add: literal_pattern_def)
  from like_literal_prefix[OF this, of s] show ?thesis by simp
qed

lemma source_matches_literal:
  assumes "literal_pattern q" "normalizeMessageSourcePath (slash # q) = slash # q" "q \<noteq> []"
  shows "source_matches (slash # q) children m \<longleftrightarrow> of_source q children (inboxSourcePathSQL m)"
proof -
  have "literal_pattern (slash # q)" using assms(1) by (simp add: literal_pattern_def)
  with like_under[OF this] like_under[OF assms(1)] show ?thesis
    using assms by (auto simp: source_matches_def messageSourcePathVariants_def Let_def of_source_def)
qed

text \<open>Marking a source as read, for a path without wildcards of \<open>LIKE\<close>: exactly the caller's unread rows of
  live messages with that source (in either spelling, and with the children the sources below it) get the
  time of the call; every other row of every table is as before.\<close>

theorem source_read_exact:
  assumes "MarkSourceRead u path children w = (Inr (), w')"
    and "distinct (map mr_id (recipients (store w)))"
    and "normalizeMessageSourcePath path = slash # q" "normalizeMessageSourcePath (slash # q) = slash # q"
    and "literal_pattern q" "q \<noteq> []"
  shows "store w' = mark_rows u (\<lambda>m. of_source q children (inboxSourcePathSQL m)) (clock w) (store w)"
proof -
  have "source_matches (slash # q) children = (\<lambda>m. of_source q children (inboxSourcePathSQL m))"
    using source_matches_literal[OF assms(5,4,6)] by blast
  with mark_source_rows[OF assms(1,2), of "slash # q"] assms(3,4) show ?thesis by simp
qed

text \<open>With no fault pending the call succeeds.\<close>

lemma marking_calm: "faults w = [] \<Longrightarrow> \<exists>n w'. set_read P t w = (Inr n, w') \<and> faults w' = []"
  by (simp add: set_read_def modify_calm Let_def)

lemma for_each_read_calm:
  "faults w = [] \<Longrightarrow> \<exists>w'. for_each (\<lambda>b. andThen (set_read (P b) t) (\<lambda>_. ret ())) bs w = (Inr (), w')"
proof (induction bs arbitrary: w)
  case (Cons b bs)
  then obtain n v where "set_read (P b) t w = (Inr n, v)" "faults v = []" using marking_calm by blast
  with Cons.IH[of v] show ?case by (simp add: andThen_calm ret_calm)
qed (simp add: ret_calm)

lemma mark_source_calm:
  assumes "faults w = []" "normalizeMessageSourcePath path \<noteq> []"
  shows "\<exists>w'. MarkSourceRead u path children w = (Inr (), w')"
  using assms for_each_read_calm[of w "\<lambda>b r. mr_id r \<in> set b"]
  by (simp add: MarkSourceRead_def Let_def calm_simps)

lemma demo_paths:
  "normalizeMessageSourcePath ''/a/b/'' = slash # ''a/b''" "normalizeMessageSourcePath (slash # ''a/b'') = slash # ''a/b''"
  "normalizeMessageSourcePath ''/a/_b'' = ''/a/_b''"
  by code_simp+

lemma source_read_exact_witness:
  "\<exists>w'. MarkSourceRead ''bob'' ''/a/b/'' True demo_open = (Inr (), w') \<and>
     map mr_read_at (recipients (store w')) = [Some 10, None]"
proof -
  obtain w' where run: "MarkSourceRead ''bob'' ''/a/b/'' True demo_open = (Inr (), w')"
    using mark_source_calm[of demo_open "''/a/b/''"] demo_paths by auto
  have "distinct (map mr_id (recipients (store demo_open)))" by (simp add: demo_recipient_def)
  from source_read_exact[OF run this demo_paths(1,2)] run show ?thesis
    by (simp add: literal_pattern_def mark_rows_def own_unread_def message_has_def of_source_def
      inboxSourcePathSQL_def demo_recipient_def demo_entry_def demo_meta_def Let_def)
qed

text \<open>The pattern for the children of a source is built from the path as it is: an underscore in it stands
  for any character, so marking \<open>/a/_b\<close> with its children also marks a message of \<open>/a/xb/c\<close> as read.\<close>

theorem underscore_marks_other_source:
  assumes "MarkSourceRead u ''/a/_b'' True w = (Inr (), w')"
    and "distinct (map mr_id (recipients (store w)))"
    and "r \<in> set (recipients (store w))" "own_unread u r"
    and "message_has (store w) (\<lambda>m. inboxSourcePathSQL m = ''/a/xb/c'') r"
  shows "r\<lparr>mr_read_at := Some (clock w)\<rparr> \<in> set (recipients (store w')) \<and>
    \<not> of_source ''a/_b'' True ''/a/xb/c''"
proof -
  have "sql_like (''/a/_b'' @ ''/%'') ''/a/xb/c''" by code_simp
  then have "source_matches ''/a/_b'' True m" if "inboxSourcePathSQL m = ''/a/xb/c''" for m
    using that by (simp add: source_matches_def messageSourcePathVariants_def Let_def demo_paths(3))
  with assms(5) have "message_has (store w) (source_matches ''/a/_b'' True) r" by (auto simp: message_has_def)
  with mark_source_rows[OF assms(1,2), of "''/a/_b''"] assms(3,4) demo_paths(3)
  show ?thesis by (force simp: mark_rows_def of_source_def)
qed

definition demo_other :: "msg_db world" where
  "demo_other = demo_open\<lparr>store := (store demo_open)\<lparr>
     entries := [demo_entry\<lparr>me_meta := demo_meta\<lparr>mm_source_path := ''/a/xb/c''\<rparr>\<rparr>]\<rparr>\<rparr>"

lemma underscore_marks_other_source_witness:
  "\<exists>w'. MarkSourceRead ''bob'' ''/a/_b'' True demo_other = (Inr (), w') \<and>
     (demo_recipient 1 ''bob'')\<lparr>mr_read_at := Some 10\<rparr> \<in> set (recipients (store w'))"
proof -
  obtain w' where run: "MarkSourceRead ''bob'' ''/a/_b'' True demo_other = (Inr (), w')"
    using mark_source_calm[of demo_other "''/a/_b''"] demo_paths(3) by (auto simp: demo_other_def)
  have "message_has (store demo_other) (\<lambda>m. inboxSourcePathSQL m = ''/a/xb/c'') (demo_recipient 1 ''bob'')"
    "own_unread ''bob'' (demo_recipient 1 ''bob'')"
    by (simp_all add: message_has_def own_unread_def demo_other_def demo_recipient_def demo_entry_def demo_meta_def
      inboxSourcePathSQL_def Let_def)
  with underscore_marks_other_source[OF run, of "demo_recipient 1 ''bob''"] run show ?thesis
    by (simp add: demo_other_def demo_recipient_def)
qed

end
