(* ===== verification/MsgRoutes.thy ===== *)
theory MsgRoutes
  imports MsgStore "HOL-Library.List_Lexorder" "HOL-Library.Char_ord"
begin

text \<open>
  Where notifications go (\<open>core/message-server/repository/notification_repository.go\<close>,
  \<open>service/notification_target_resolver.go\<close>): channels of a user, routes of a directory, the choice
  between them, and the record of the last deliveries. Sealing secrets is a parameter of the services.
\<close>

section \<open>Scope paths\<close>

text \<open>\<open>path.Clean\<close> of a path that starts with a slash.\<close>

fun clean_parts :: "gostr list \<Rightarrow> gostr list \<Rightarrow> gostr list" where
  "clean_parts out [] = out"
| "clean_parts out (p # ps) =
     (if p = [] \<or> p = ''.'' then clean_parts out ps
      else if p = ''..'' then clean_parts (butlast out) ps
      else clean_parts (out @ [p]) ps)"

definition clean_rooted :: "gostr \<Rightarrow> gostr" where
  "clean_rooted path = slash # join_with [slash] (clean_parts [] (split_on slash path))"

definition NormalizeNotificationScopePath :: "gostr \<Rightarrow> gostr" where
  "NormalizeNotificationScopePath path =
     (let path = trim_space path in
      if path = [] then []
      else let cleaned = clean_rooted (if has_prefix path [slash] then path else slash # path) in
        if cleaned = ''.'' \<or> cleaned = [slash] then [] else cleaned)"

definition notificationScopeAncestors :: "gostr \<Rightarrow> gostr list" where
  "notificationScopeAncestors path =
     (let path = NormalizeNotificationScopePath path in
      if path = [] then []
      else let parts = split_on slash (trim_char slash path);
               least = (if length parts \<ge> 2 then 2 else 1) in
        map (\<lambda>size. slash # join_with [slash] (take size parts)) (rev [least..<length parts + 1]))"

text \<open>A list without repetitions, in the order of the first occurrences.\<close>

definition unique_paths :: "gostr list \<Rightarrow> gostr list" where
  "unique_paths xs = rev (remdups (rev xs))"

definition NotificationRouteCandidatePaths :: "gostr list \<Rightarrow> gostr list" where
  "NotificationRouteCandidatePaths vs =
     unique_paths (concat (map (\<lambda>v. let p = NormalizeNotificationScopePath v in
       if p = [] then [] else notificationScopeAncestors p) vs))"

definition normalizeNotificationScopePaths :: "gostr list \<Rightarrow> gostr list" where
  "normalizeNotificationScopePaths = keep_new NormalizeNotificationScopePath"

definition normalizeNotificationScopeType :: "gostr \<Rightarrow> gostr \<Rightarrow> gostr" where
  "normalizeNotificationScopeType scope_type scope_path =
     (let t = to_lower (trim_space scope_type) in
      if t \<in> {''workspace'', ''directory'', ''function''} then t
      else let parts = split_on slash (trim_char slash (NormalizeNotificationScopePath scope_path)) in
        if length parts \<le> 2 then ''workspace''
        else if CHR ''.'' \<in> set (last parts) then ''function'' else ''directory'')"

definition normalizeNotificationChannelForRepository :: "gostr \<Rightarrow> gostr" where
  "normalizeNotificationChannelForRepository channel = to_lower (trim_space channel)"

text \<open>The pattern for a prefix: exclamation marks escape what \<open>LIKE\<close> would read as a wildcard.\<close>

definition escapeSQLLikePattern :: "gostr \<Rightarrow> gostr" where
  "escapeSQLLikePattern v =
     concat (map (\<lambda>c. if c = CHR ''!'' then ''!!'' else if c = CHR ''%'' then ''!%'' else if c = CHR ''_'' then ''!_'' else [c]) v)"

text \<open>\<open>LIKE ... ESCAPE '!'\<close>.\<close>

function like_escape :: "gostr \<Rightarrow> gostr \<Rightarrow> bool" where
  "like_escape [] s = (s = [])"
| "like_escape (p # ps) [] = (p = CHR ''%'' \<and> like_escape ps [])"
| "like_escape (p # ps) (c # s) =
     (if p = CHR ''%'' then like_escape ps (c # s) \<or> like_escape (p # ps) s
      else if p = CHR ''_'' then like_escape ps s
      else if p = CHR ''!'' \<and> ps \<noteq> [] then c = hd ps \<and> like_escape (tl ps) s
      else c = p \<and> like_escape ps s)"
  by pat_completeness auto
termination
  by (relation "measure (\<lambda>(p, s). length p + length s)") auto

text \<open>The first runes of a string, and three dots when there are more.\<close>

fun take_runes :: "nat \<Rightarrow> gostr \<Rightarrow> gostr" where
  "take_runes 0 s = []"
| "take_runes (Suc n) [] = []"
| "take_runes (Suc n) (c # rest) =
     (c # take (rune_width c rest - 1) rest) @ take_runes n (drop (rune_width c rest - 1) rest)"

definition truncateNotificationDeliveryError :: "gostr \<Rightarrow> nat \<Rightarrow> gostr" where
  "truncateNotificationDeliveryError message max_runes =
     (let message = trim_space message in
      if max_runes = 0 \<or> rune_count message \<le> max_runes then message
      else take_runes max_runes message @ ''...'')"

section \<open>Channels and routes\<close>

definition ListNotificationChannels :: "gostr \<Rightarrow> channel_setting list msg" where
  "ListNotificationChannels owner =
     query MErrDB (\<lambda>s. sort_key ns_channel (sel (\<lambda>r. nc_owner r = trim_space owner) (channels s)))"

definition ListEnabledNotificationChannels :: "gostr list \<Rightarrow> channel_setting list msg" where
  "ListEnabledNotificationChannels usernames =
     (let names = normalizeUsernames usernames in
      if names = [] then ret []
      else query MErrDB (\<lambda>s. order2 nc_owner ns_channel (sel (\<lambda>r. nc_owner r \<in> set names \<and> ns_enabled r) (channels s))))"

definition ListNotificationRoutes :: "gostr \<Rightarrow> route_setting list msg" where
  "ListNotificationRoutes scope_path =
     (let p = NormalizeNotificationScopePath scope_path in
      query MErrDB (\<lambda>s. order2 nr_scope_path ns_channel (sel (\<lambda>r. p \<noteq> [] \<longrightarrow> nr_scope_path r = p) (routes s))))"

definition ListNotificationRoutesByRoot :: "gostr \<Rightarrow> route_setting list msg" where
  "ListNotificationRoutesByRoot root =
     (let p = NormalizeNotificationScopePath root in
      if p = [] then ret []
      else query MErrDB (\<lambda>s. order2 nr_scope_path ns_channel (sel (\<lambda>r. nr_scope_path r = p \<or>
        like_escape (escapeSQLLikePattern p @ ''/%'') (nr_scope_path r)) (routes s))))"

text \<open>The scopes come in descending order, within a scope by channel.\<close>

definition ListEnabledNotificationRoutesByPaths :: "gostr list \<Rightarrow> route_setting list msg" where
  "ListEnabledNotificationRoutesByPaths scope_paths =
     (let ps = normalizeNotificationScopePaths scope_paths in
      if ps = [] then ret []
      else query MErrDB (\<lambda>s. let rows = sel (\<lambda>r. nr_scope_path r \<in> set ps \<and> ns_enabled r) (routes s) in
        concat (map (\<lambda>p. sort_key ns_channel (sel (\<lambda>r. nr_scope_path r = p) rows))
          (rev (sort (remdups (map nr_scope_path rows)))))))"

definition GetNotificationRoute :: "gostr \<Rightarrow> gostr \<Rightarrow> route_setting msg" where
  "GetNotificationRoute scope_path channel =
     andThen (query MErrDB (\<lambda>s. first_row (\<lambda>r. nr_scope_path r = NormalizeNotificationScopePath scope_path \<and>
       ns_channel r = normalizeNotificationChannelForRepository channel) (routes s))) found_msg"

definition GetNotificationChannel :: "gostr \<Rightarrow> gostr \<Rightarrow> channel_setting msg" where
  "GetNotificationChannel owner channel =
     andThen (query MErrDB (\<lambda>s. first_row (\<lambda>r. nc_owner r = trim_space owner \<and>
       ns_channel r = normalizeNotificationChannelForRepository channel) (channels s))) found_msg"

text \<open>\<open>Model(existing).Updates\<close>: the row of the id, with the timestamp.\<close>

definition update_routes :: "(route_setting \<Rightarrow> bool) \<Rightarrow> (route_setting \<Rightarrow> route_setting) \<Rightarrow> nat msg" where
  "update_routes P f = andThen now (\<lambda>t. modify MErrDB (\<lambda>s.
     (hits P (routes s), s\<lparr>routes := upd P (\<lambda>r. (f r)\<lparr>ns_updated_at := t\<rparr>) (routes s)\<rparr>)))"

definition update_channels :: "(channel_setting \<Rightarrow> bool) \<Rightarrow> (channel_setting \<Rightarrow> channel_setting) \<Rightarrow> nat msg" where
  "update_channels P f = andThen now (\<lambda>t. modify MErrDB (\<lambda>s.
     (hits P (channels s), s\<lparr>channels := upd P (\<lambda>r. (f r)\<lparr>ns_updated_at := t\<rparr>) (channels s)\<rparr>)))"

definition create_route :: "route_setting \<Rightarrow> route_setting msg" where
  "create_route r0 =
     andThen now (\<lambda>t. andThen (next_id ''notification_route_setting'') (\<lambda>i.
       let r = r0\<lparr>ns_id := i, ns_updated_at := t\<rparr> in
       stmt MErrDB (\<lambda>s. if list_ex (\<lambda>x. nr_scope_path x = nr_scope_path r \<and> ns_channel x = ns_channel r) (routes s)
         then (Inl MErrDuplicate, s) else (Inr r, s\<lparr>routes := routes s @ [r]\<rparr>))))"

definition create_channel :: "channel_setting \<Rightarrow> channel_setting msg" where
  "create_channel r0 =
     andThen now (\<lambda>t. andThen (next_id ''notification_channel_setting'') (\<lambda>i.
       let r = r0\<lparr>ns_id := i, ns_updated_at := t\<rparr> in
       stmt MErrDB (\<lambda>s. if list_ex (\<lambda>x. nc_owner x = nc_owner r \<and> ns_channel x = ns_channel r) (channels s)
         then (Inl MErrDuplicate, s) else (Inr r, s\<lparr>channels := channels s @ [r]\<rparr>))))"

definition UpsertNotificationRoute :: "route_setting \<Rightarrow> route_setting msg" where
  "UpsertNotificationRoute st0 =
     (let path = NormalizeNotificationScopePath (nr_scope_path st0);
          st = st0\<lparr>nr_scope_path := path, nr_scope_type := normalizeNotificationScopeType (nr_scope_type st0) path,
                 ns_channel := normalizeNotificationChannelForRepository (ns_channel st0),
                 ns_delivery_type := (if trim_space (ns_delivery_type st0) = [] then ''webhook''
                                      else trim_space (ns_delivery_type st0))\<rparr> in
      if nr_scope_path st = [] \<or> ns_channel st = [] then fail (MErr ''scope_path and channel required'')
      else
        andThen (attempt (GetNotificationRoute (nr_scope_path st) (ns_channel st))) (\<lambda>r.
        case r of
          Inr existing \<Rightarrow>
            andThen (update_routes (\<lambda>x. ns_id x = ns_id existing) (\<lambda>x. x\<lparr>nr_scope_type := nr_scope_type st,
              ns_enabled := ns_enabled st, ns_delivery_type := ns_delivery_type st,
              ns_display_name := trim_space (ns_display_name st), nr_remark := trim_space (nr_remark st),
              ns_webhook_cipher := ns_webhook_cipher st, ns_secret_cipher := ns_secret_cipher st,
              ns_metadata := ns_metadata st\<rparr>)) (\<lambda>_.
            GetNotificationRoute (nr_scope_path st) (ns_channel st))
        | Inl e \<Rightarrow> if e \<noteq> MErrNotFound then fail e
                   else create_route (st\<lparr>nr_remark := trim_space (nr_remark st)\<rparr>)))"

definition UpsertNotificationChannel :: "channel_setting \<Rightarrow> channel_setting msg" where
  "UpsertNotificationChannel st0 =
     (let st = st0\<lparr>nc_owner := trim_space (nc_owner st0),
                 ns_channel := normalizeNotificationChannelForRepository (ns_channel st0),
                 ns_delivery_type := (if trim_space (ns_delivery_type st0) = [] then ''webhook''
                                      else trim_space (ns_delivery_type st0))\<rparr> in
      if nc_owner st = [] \<or> ns_channel st = [] then fail (MErr ''owner and channel required'')
      else
        andThen (attempt (GetNotificationChannel (nc_owner st) (ns_channel st))) (\<lambda>r.
        case r of
          Inr existing \<Rightarrow>
            andThen (update_channels (\<lambda>x. ns_id x = ns_id existing) (\<lambda>x. x\<lparr>
              ns_enabled := ns_enabled st, ns_delivery_type := ns_delivery_type st,
              ns_display_name := trim_space (ns_display_name st),
              ns_webhook_cipher := ns_webhook_cipher st, ns_secret_cipher := ns_secret_cipher st,
              ns_metadata := ns_metadata st\<rparr>)) (\<lambda>_.
            GetNotificationChannel (nc_owner st) (ns_channel st))
        | Inl e \<Rightarrow> if e \<noteq> MErrNotFound then fail e else create_channel st))"

definition DeleteNotificationRoute :: "gostr \<Rightarrow> gostr \<Rightarrow> unit msg" where
  "DeleteNotificationRoute scope_path channel = modify MErrDB (\<lambda>s. ((), s\<lparr>routes :=
     sel (\<lambda>r. \<not> (nr_scope_path r = NormalizeNotificationScopePath scope_path \<and>
                 ns_channel r = normalizeNotificationChannelForRepository channel)) (routes s)\<rparr>))"

definition DeleteNotificationChannel :: "gostr \<Rightarrow> gostr \<Rightarrow> unit msg" where
  "DeleteNotificationChannel owner channel = modify MErrDB (\<lambda>s. ((), s\<lparr>channels :=
     sel (\<lambda>r. \<not> (nc_owner r = trim_space owner \<and>
                 ns_channel r = normalizeNotificationChannelForRepository channel)) (channels s)\<rparr>))"

section \<open>The record of deliveries\<close>

definition delivered :: "int \<Rightarrow> bool \<Rightarrow> ('a delivery_setting_scheme \<Rightarrow> 'a delivery_setting_scheme)" where
  "delivered t is_test r =
     (let r = r\<lparr>ns_last_success_at := Some t, ns_last_error := [], ns_fail_count := 0\<rparr> in
      if is_test then r\<lparr>ns_last_test_at := Some t\<rparr> else r)"

definition undelivered :: "int \<Rightarrow> gostr \<Rightarrow> bool \<Rightarrow> ('a delivery_setting_scheme \<Rightarrow> 'a delivery_setting_scheme)" where
  "undelivered t message is_test r =
     (let r = r\<lparr>ns_last_failed_at := Some t, ns_last_error := truncateNotificationDeliveryError message 2000,
              ns_fail_count := ns_fail_count r + 1\<rparr> in
      if is_test then r\<lparr>ns_last_test_at := Some t\<rparr> else r)"

definition RecordNotificationRouteDeliverySuccess :: "int \<Rightarrow> bool \<Rightarrow> unit msg" where
  "RecordNotificationRouteDeliverySuccess i is_test =
     (if i \<le> 0 then fail (MErr ''route id required'')
      else andThen now (\<lambda>t. andThen (update_routes (\<lambda>r. ns_id r = i) (delivered t is_test)) (\<lambda>_. ret ())))"

definition RecordNotificationRouteDeliveryFailure :: "int \<Rightarrow> gostr \<Rightarrow> bool \<Rightarrow> unit msg" where
  "RecordNotificationRouteDeliveryFailure i message is_test =
     (if i \<le> 0 then fail (MErr ''route id required'')
      else andThen now (\<lambda>t. andThen (update_routes (\<lambda>r. ns_id r = i) (undelivered t message is_test)) (\<lambda>_. ret ())))"

definition RecordNotificationChannelDeliverySuccess :: "gostr \<Rightarrow> gostr \<Rightarrow> bool \<Rightarrow> unit msg" where
  "RecordNotificationChannelDeliverySuccess owner channel is_test = andThen now (\<lambda>t.
     andThen (update_channels (\<lambda>r. nc_owner r = trim_space owner \<and>
       ns_channel r = normalizeNotificationChannelForRepository channel) (delivered t is_test)) (\<lambda>_. ret ()))"

definition RecordNotificationChannelDeliveryFailure :: "gostr \<Rightarrow> gostr \<Rightarrow> gostr \<Rightarrow> bool \<Rightarrow> unit msg" where
  "RecordNotificationChannelDeliveryFailure owner channel message is_test = andThen now (\<lambda>t.
     andThen (update_channels (\<lambda>r. nc_owner r = trim_space owner \<and>
       ns_channel r = normalizeNotificationChannelForRepository channel) (undelivered t message is_test)) (\<lambda>_. ret ()))"

end
