(* ===== verification/MsgConsumer.thy ===== *)
theory MsgConsumer
  imports MsgReplies MsgRoutes
begin

text \<open>
  Sending a message: the target resolver and the consumer
  (\<open>core/message-server/service/notification_target_resolver.go\<close>, \<open>message_consumer_service.go\<close>,
  \<open>message_handler.go\<close>, \<open>server/message_api.go\<close>). Sealing and opening secrets, the texts of cards and
  the HTTP delivery are parameters; a delivery answers with an error or nothing.
\<close>

section \<open>Parameters\<close>

record notification_target =
  nt_route :: bool
  nt_recipient :: gostr
  nt_authorized :: "gostr list"
  nt_channel :: gostr
  nt_webhook_url :: gostr
  nt_secret :: gostr
  nt_metadata :: "(gostr \<times> gostr) list"
  nt_route_id :: int
  nt_scope_path :: gostr
  nt_scope_type :: gostr

record notify_env =
  ne_actions :: action_env
  ne_open :: "gostr \<Rightarrow> gostr option"
  ne_seal :: "gostr \<Rightarrow> gostr option"
  ne_providers :: "gostr list"
  ne_resolves :: bool
  ne_deliver :: "notification_target \<Rightarrow> message_entry \<Rightarrow> send_payload \<Rightarrow> gostr \<Rightarrow> gostr \<Rightarrow> gostr option"
  ne_base_url :: gostr

definition VaultOpen :: "notify_env \<Rightarrow> gostr \<Rightarrow> gostr option" where
  "VaultOpen E c = (if trim_space c = [] then Some [] else ne_open E c)"

definition VaultSeal :: "notify_env \<Rightarrow> gostr \<Rightarrow> gostr option" where
  "VaultSeal E p = (if trim_space p = [] then Some [] else ne_seal E p)"

section \<open>Targets\<close>

text \<open>The URL and the secret of a row; a row that cannot be opened is skipped.\<close>

definition open_setting :: "notify_env \<Rightarrow> 'a delivery_setting_scheme \<Rightarrow> (gostr \<times> gostr) option" where
  "open_setting E r =
     (if trim_space (ns_webhook_cipher r) = [] then None
      else case VaultOpen E (ns_webhook_cipher r) of
          None \<Rightarrow> None
        | Some url \<Rightarrow>
            if trim_space url = [] then None
            else map_option (\<lambda>secret. (trim_space url, trim_space secret)) (VaultOpen E (ns_secret_cipher r)))"

definition notificationTargetAuthorizedUsers :: "gostr list \<Rightarrow> gostr list" where
  "notificationTargetAuthorizedUsers = keep_new trim_space"

definition route_target :: "notify_env \<Rightarrow> gostr list \<Rightarrow> route_setting \<Rightarrow> notification_target list" where
  "route_target E users r =
     (case open_setting E r of
        None \<Rightarrow> []
      | Some (url, secret) \<Rightarrow>
          [\<lparr>nt_route = True, nt_recipient = (case users of [] \<Rightarrow> [] | u # _ \<Rightarrow> u),
            nt_authorized = notificationTargetAuthorizedUsers users,
            nt_channel = normalizeNotificationChannelForRepository (ns_channel r), nt_webhook_url = url,
            nt_secret = secret, nt_metadata = ns_metadata r, nt_route_id = ns_id r,
            nt_scope_path = NormalizeNotificationScopePath (nr_scope_path r),
            nt_scope_type = trim_space (nr_scope_type r)\<rparr>])"

definition user_target :: "notify_env \<Rightarrow> gostr list \<Rightarrow> channel_setting \<Rightarrow> notification_target list" where
  "user_target E users r =
     (if trim_space (nc_owner r) \<notin> set users then []
      else case open_setting E r of
        None \<Rightarrow> []
      | Some (url, secret) \<Rightarrow>
          [\<lparr>nt_route = False, nt_recipient = trim_space (nc_owner r), nt_authorized = [trim_space (nc_owner r)],
            nt_channel = normalizeNotificationChannelForRepository (ns_channel r), nt_webhook_url = url,
            nt_secret = secret, nt_metadata = ns_metadata r, nt_route_id = 0, nt_scope_path = [], nt_scope_type = []\<rparr>])"

text \<open>The routes of the first candidate that has any; no candidate with a route is no match.\<close>

definition best_scope :: "gostr list \<Rightarrow> route_setting list \<Rightarrow> gostr option" where
  "best_scope candidates rows =
     find (\<lambda>c. list_ex (\<lambda>r. NormalizeNotificationScopePath (nr_scope_path r) = c) rows) candidates"

definition entry_paths :: "message_entry \<Rightarrow> gostr list" where
  "entry_paths e = (let m = me_meta e in [mm_source_path m, mm_full_code_path m, mm_parent_path m])"

definition resolveRouteTargets ::
  "notify_env \<Rightarrow> gostr list \<Rightarrow> message_entry \<Rightarrow> notification_target list option msg" where
  "resolveRouteTargets E users e =
     (let candidates = NotificationRouteCandidatePaths (entry_paths e) in
      if candidates = [] then ret None
      else andThen (ListEnabledNotificationRoutesByPaths candidates) (\<lambda>rows.
        ret (map_option (\<lambda>best. concat (map (route_target E users)
          (filter (\<lambda>r. NormalizeNotificationScopePath (nr_scope_path r) = best) rows))) (best_scope candidates rows))))"

definition ResolveNotificationTargets ::
  "notify_env \<Rightarrow> gostr list \<Rightarrow> message_entry \<Rightarrow> notification_target list msg" where
  "ResolveNotificationTargets E users e =
     (let names = filter (\<lambda>u. u \<noteq> []) (map trim_space users) in
      andThen (resolveRouteTargets E users e) (\<lambda>r.
      case r of
        Some targets \<Rightarrow> ret targets
      | None \<Rightarrow> andThen (ListEnabledNotificationChannels names) (\<lambda>rows.
          ret (concat (map (user_target E names) rows)))))"

section \<open>Delivery\<close>

definition absoluteCardURL :: "gostr \<Rightarrow> gostr \<Rightarrow> gostr" where
  "absoluteCardURL base route =
     (let route = trim_space route in
      if route = [] then []
      else if has_prefix route ''http://'' \<or> has_prefix route ''https://'' then route
      else let base = trim_right_char slash (trim_space base) in
        if base = [] then route
        else base @ (if has_prefix route [slash] then route else slash # route))"

definition mobile_token_input :: "message_entry \<Rightarrow> notification_target \<Rightarrow> int \<Rightarrow> create_token_in" where
  "mobile_token_input e target t =
     (let m = me_meta e in
      \<lparr>ci_message_id = me_id e, ci_recipient = nt_recipient target, ci_authorized = nt_authorized target,
       ci_channel = nt_channel target, ci_actions = [''reply'', ''continue_agent''],
       ci_expires_at = t + DefaultMessageActionTokenTTL, ci_session_id = mm_session_id m,
       ci_thread_key = mm_thread_key m, ci_source_path = mm_source_path m, ci_trace_id = mm_trace_id m\<rparr>)"

definition buildMobileNotificationURLs ::
  "notify_env \<Rightarrow> message_entry \<Rightarrow> notification_target \<Rightarrow> (gostr \<times> gostr) msg" where
  "buildMobileNotificationURLs E e target =
     (let q = ask_query (mm_source_path (me_meta e)) (mm_session_id (me_meta e));
          ask = absoluteCardURL (ne_base_url E) (if q = [] then ''/m'' else ''/m?'' @ encode_query q) in
      if me_id e \<le> 0 \<or> trim_space (nt_recipient target) = [] then ret ([], ask)
      else andThen now (\<lambda>t.
        andThen (attempt (CreateActionToken (ne_actions E) (mobile_token_input e target t))) (\<lambda>r.
        ret (case r of
           Inl _ \<Rightarrow> ([], ask)
         | Inr (raw, _) \<Rightarrow>
             (absoluteCardURL (ne_base_url E) (''/m/action?'' @ encode_query [(''t'', raw)]), ask)))))"

text \<open>The record of a delivery; an error of it is only logged.\<close>

definition recordNotificationDelivery :: "notification_target \<Rightarrow> gostr option \<Rightarrow> unit msg" where
  "recordNotificationDelivery target outcome =
     (let username = trim_space (nt_recipient target);
          channel = normalizeNotificationChannelForRepository (nt_channel target) in
      andThen (attempt
        (if nt_route_id target > 0
         then (case outcome of
            None \<Rightarrow> RecordNotificationRouteDeliverySuccess (nt_route_id target) False
          | Some e \<Rightarrow> RecordNotificationRouteDeliveryFailure (nt_route_id target) e False)
         else if username = [] \<or> channel = [] then ret ()
         else (case outcome of
            None \<Rightarrow> RecordNotificationChannelDeliverySuccess username channel False
          | Some e \<Rightarrow> RecordNotificationChannelDeliveryFailure username channel e False))) (\<lambda>_. ret ()))"

definition deliver_to :: "notify_env \<Rightarrow> message_entry \<Rightarrow> send_payload \<Rightarrow> notification_target \<Rightarrow> unit msg" where
  "deliver_to E e payload target =
     (let channel = normalizeNotificationChannelForRepository (nt_channel target) in
      if channel = [] then ret ()
      else if channel \<notin> set (ne_providers E)
      then recordNotificationDelivery target (Some (''no provider for '' @ channel))
      else andThen (buildMobileNotificationURLs E e target) (\<lambda>(action_url, ask_url).
        recordNotificationDelivery target (ne_deliver E target e payload action_url ask_url)))"

definition deliverExternalNotifications ::
  "notify_env \<Rightarrow> message_entry \<Rightarrow> send_payload \<Rightarrow> gostr list \<Rightarrow> unit msg" where
  "deliverExternalNotifications E e payload users =
     (if ne_providers E = [] then ret ()
      else andThen (attempt (if ne_resolves E then ResolveNotificationTargets E users e else ret [])) (\<lambda>r.
        case r of Inl _ \<Rightarrow> ret () | Inr targets \<Rightarrow> for_each (deliver_to E e payload) targets))"

section \<open>Normalising and checking\<close>

definition normalizeMessageMeta :: "send_meta \<Rightarrow> send_meta" where
  "normalizeMessageMeta m0 =
     (let m = trim_meta m0;
          m = (if mm_source_path m = [] then m\<lparr>mm_source_path := mm_full_code_path m\<rparr> else m);
          m = (if mm_from m = [] then m\<lparr>mm_from := mm_request_user m\<rparr> else m);
          m = (if mm_from m = [] then m\<lparr>mm_from := ''system''\<rparr> else m) in
      if mm_request_user m = [] then m\<lparr>mm_request_user := mm_from m\<rparr> else m)"

text \<open>The separators of attachments: commas of two widths, the enumeration comma, semicolons, line breaks, tabs.\<close>

definition file_separators :: "gostr list" where
  "file_separators =
     [[CHR 0xEF, CHR 0xBC, CHR 0x8C], [CHR 0xE3, CHR 0x80, CHR 0x81], '';'', [CHR 0xEF, CHR 0xBC, CHR 0x9B],
      [CHR 0x0A], [CHR 0x09]]"

function replace_separators :: "gostr list \<Rightarrow> gostr \<Rightarrow> gostr" where
  "replace_separators es [] = []"
| "replace_separators es (c # s) =
     (case find (\<lambda>e. e \<noteq> [] \<and> prefix e (c # s)) es of
        Some e \<Rightarrow> CHR '','' # replace_separators es (drop (length e - 1) s)
      | None \<Rightarrow> c # replace_separators es s)"
  by pat_completeness auto
termination
  by (relation "measure (\<lambda>(es, s). length s)") auto

definition normalizeMessageFiles :: "gostr \<Rightarrow> gostr" where
  "normalizeMessageFiles files =
     join_with '','' (keep_new trim_space (split_on (CHR '','') (replace_separators file_separators (trim_space files))))"

definition normalizeMessagePayload :: "send_payload \<Rightarrow> send_payload" where
  "normalizeMessagePayload p =
     \<lparr>mp_to_users = trim_space (mp_to_users p), mp_title = trim_space (mp_title p), mp_content = trim_space (mp_content p),
      mp_content_type = (if to_lower (trim_space (mp_content_type p)) = [] then ''markdown''
                         else to_lower (trim_space (mp_content_type p))),
      mp_files = normalizeMessageFiles (mp_files p)\<rparr>"

definition normalizeDefaultMessageRecipient :: "gostr \<Rightarrow> gostr" where
  "normalizeDefaultMessageRecipient name = (if trim_space name = ''system'' then [] else trim_space name)"

definition applyDefaultMessageRecipient :: "send_payload \<Rightarrow> send_meta \<Rightarrow> send_meta \<Rightarrow> send_payload" where
  "applyDefaultMessageRecipient p incoming meta =
     (if trim_space (mp_to_users p) \<noteq> [] then p
      else let a = normalizeDefaultMessageRecipient (mm_request_user incoming);
               b = normalizeDefaultMessageRecipient (mm_request_user meta) in
        if a \<noteq> [] then p\<lparr>mp_to_users := a\<rparr> else if b \<noteq> [] then p\<lparr>mp_to_users := b\<rparr> else p)"

definition validateMessagePayload :: "send_payload \<Rightarrow> gostr" where
  "validateMessagePayload p =
     (if mp_to_users p = [] then ''to_users required''
      else if mp_content p = [] \<and> mp_files p = [] then ''content or files required''
      else if mp_content_type p \<in> {''markdown'', ''html'', ''text''} then [] else ''bad content_type'')"

definition splitAndTrim :: "gostr \<Rightarrow> gostr list" where
  "splitAndTrim s = filter (\<lambda>p. p \<noteq> []) (map trim_space (split_on (CHR '','') s))"

definition resolveRecipients :: "send_payload \<Rightarrow> gostr list" where
  "resolveRecipients p = keep_new id (splitAndTrim (mp_to_users p))"

section \<open>Consuming\<close>

text \<open>The envelope is changed in place: the answer shows the payload that was sent.\<close>

definition Consume :: "notify_env \<Rightarrow> send_meta \<Rightarrow> send_payload \<Rightarrow> send_payload msg" where
  "Consume E incoming payload0 =
     (let meta = normalizeMessageMeta incoming;
          payload = applyDefaultMessageRecipient (normalizeMessagePayload payload0) incoming meta in
      if validateMessagePayload payload \<noteq> [] then fail (MErr (validateMessagePayload payload))
      else let users = resolveRecipients payload in
        if users = [] then fail (MErr ''no recipient'')
        else andThen (MsgCreate meta payload users) (\<lambda>entry.
             andThen (deliverExternalNotifications E entry payload users) (\<lambda>_. ret payload)))"

definition own_or :: "gostr \<Rightarrow> gostr \<Rightarrow> gostr" where
  "own_or own context_value = (if trim_space own = [] then trim_space context_value else own)"

definition fillMessageMetaFromContext :: "send_meta \<Rightarrow> send_meta \<Rightarrow> send_meta" where
  "fillMessageMetaFromContext cx m0 =
     (let m = m0\<lparr>mm_request_user := own_or (mm_request_user m0) (mm_request_user cx)\<rparr>;
          m = m\<lparr>mm_from := own_or (mm_from m) (mm_request_user m)\<rparr>;
          m = m\<lparr>mm_from := (if trim_space (mm_from m) = [] then ''system'' else mm_from m)\<rparr> in
      m\<lparr>mm_department := own_or (mm_department m) (mm_department cx),
        mm_trace_id := own_or (mm_trace_id m) (mm_trace_id cx),
        mm_client_source := own_or (mm_client_source m) (mm_client_source cx),
        mm_source_type := own_or (mm_source_type m) (mm_source_type cx),
        mm_source_ref := own_or (mm_source_ref m) (mm_source_ref cx),
        mm_source_path := own_or (mm_source_path m) (mm_source_path cx),
        mm_source_title := own_or (mm_source_title m) (mm_source_title cx),
        mm_parent_path := own_or (mm_parent_path m) (mm_parent_path cx),
        mm_parent_title := own_or (mm_parent_title m) (mm_parent_title cx),
        mm_template_type := own_or (mm_template_type m) (mm_template_type cx),
        mm_session_id := own_or (mm_session_id m) (mm_session_id cx),
        mm_session_title := own_or (mm_session_title m) (mm_session_title cx),
        mm_role := own_or (mm_role m) (mm_role cx)\<rparr>)"

text \<open>A command of the bus: the answer is sent when the publisher waits for one.\<close>

definition HandleMessageSend ::
  "notify_env \<Rightarrow> send_meta \<Rightarrow> (send_meta \<times> send_payload) option \<Rightarrow> (msg_error + send_meta \<times> send_payload) msg" where
  "HandleMessageSend E cx envelope =
     (case envelope of
        None \<Rightarrow> ret (Inl (MErr ''bad command''))
      | Some (m0, p) \<Rightarrow>
          let m = fillMessageMetaFromContext cx m0 in
          andThen (attempt (Consume E m p)) (\<lambda>r.
          ret (case r of Inl e \<Rightarrow> Inl e | Inr payload \<Rightarrow> Inr (m, payload))))"

text \<open>
  The HTTP request: the sender is the user of the request, whatever the body says; the body only fills
  what the context of the request leaves open.
\<close>

definition context_meta :: "send_meta \<Rightarrow> gostr \<Rightarrow> send_meta" where
  "context_meta cx sender =
     (let m = (trim_meta cx)\<lparr>mm_from := sender, mm_request_user := sender, mm_full_code_path := [], mm_thread_key := []\<rparr> in
      if has_prefix (mm_source_ref m) [slash] then m\<lparr>mm_full_code_path := mm_source_ref m\<rparr> else m)"

definition first_set :: "gostr \<Rightarrow> gostr \<Rightarrow> gostr" where
  "first_set a b = (if a = [] then b else a)"

definition fill_meta :: "send_meta \<Rightarrow> send_meta \<Rightarrow> send_meta" where
  "fill_meta m i =
     m\<lparr>mm_full_code_path := first_set (mm_full_code_path m) (mm_full_code_path i),
       mm_source_path := first_set (mm_source_path m) (mm_source_path i),
       mm_source_title := first_set (mm_source_title m) (mm_source_title i),
       mm_parent_path := first_set (mm_parent_path m) (mm_parent_path i),
       mm_parent_title := first_set (mm_parent_title m) (mm_parent_title i),
       mm_template_type := first_set (mm_template_type m) (mm_template_type i),
       mm_session_id := first_set (mm_session_id m) (mm_session_id i),
       mm_session_title := first_set (mm_session_title m) (mm_session_title i),
       mm_role := first_set (mm_role m) (mm_role i),
       mm_thread_key := first_set (mm_thread_key m) (mm_thread_key i)\<rparr>"

definition resolveRequestMessageMeta :: "send_meta \<Rightarrow> send_meta option \<Rightarrow> msg_error + send_meta" where
  "resolveRequestMessageMeta cx incoming =
     (let sender = trim_space (mm_request_user cx) in
      if sender = [] then Inl (MErr ''no sender'')
      else
        let m = context_meta cx sender;
            m = (case incoming of None \<Rightarrow> m | Some i \<Rightarrow> fill_meta m (trim_meta i)) in
        Inr (if mm_source_path m = [] then m\<lparr>mm_source_path := mm_full_code_path m\<rparr> else m))"

definition submitMessage :: "notify_env \<Rightarrow> send_meta \<Rightarrow> send_meta option \<Rightarrow> send_payload \<Rightarrow> (send_meta \<times> send_payload) msg" where
  "submitMessage E cx incoming payload =
     (case resolveRequestMessageMeta cx incoming of
        Inl e \<Rightarrow> fail e
      | Inr meta \<Rightarrow> andThen (Consume E meta payload) (\<lambda>p. ret (meta, p)))"

end
