(* ===== verification/MsgRouteProps.thy ===== *)
theory MsgRouteProps
  imports MsgConsumer MsgSamples
begin

text \<open>
  Facts about notification routes: the pattern of a subtree, the candidates of a message, and the
  choice of the nearest scope.
\<close>

section \<open>The escaped pattern\<close>

text \<open>The pattern that lists the routes under a root matches exactly the scope paths below it, whatever
  characters the root has: percent signs, underscores and exclamation marks stand for themselves.\<close>

theorem escape_like_exact: "like_escape (escapeSQLLikePattern root @ ''/%'') path \<longleftrightarrow> has_prefix path (root @ [slash])"
proof (induction root arbitrary: path)
  case Nil
  have "like_escape ''%'' s" for s by (induction s) (simp_all only: like_escape.simps, simp_all)
  then show ?case by (cases path) (auto simp: escapeSQLLikePattern_def)
next
  case (Cons c root)
  then show ?case by (cases path) (auto simp: escapeSQLLikePattern_def)
qed

section \<open>Scope paths in normal form\<close>

definition plain_part :: "gostr \<Rightarrow> bool" where
  "plain_part p \<longleftrightarrow> p \<noteq> [] \<and> p \<noteq> ''.'' \<and> p \<noteq> ''..'' \<and> slash \<notin> set p"

lemma clean_parts_plain:
  "list_all plain_part out \<Longrightarrow> list_all (\<lambda>p. slash \<notin> set p) ps \<Longrightarrow> list_all plain_part (clean_parts out ps)"
proof (induction out ps rule: clean_parts.induct)
  case (2 out p ps)
  have "list_all plain_part (butlast out)"
    using "2.prems"(1) by (simp add: list_all_iff) (blast dest: in_set_butlastD)
  moreover have "p \<noteq> [] \<Longrightarrow> p \<noteq> ''.'' \<Longrightarrow> p \<noteq> ''..'' \<Longrightarrow> plain_part p"
    using "2.prems"(2) by (simp add: plain_part_def)
  ultimately show ?case using 2 by simp
qed simp

lemma clean_parts_fix: "list_all plain_part ps \<Longrightarrow> clean_parts out ps = out @ ps"
  by (induction ps arbitrary: out) (auto simp: plain_part_def)

text \<open>A path in normal form is a list of plain parts.\<close>

definition scope_of :: "gostr list \<Rightarrow> gostr" where
  "scope_of parts = slash # join_with [slash] parts"

lemma normal_path_parts:
  assumes "NormalizeNotificationScopePath v \<noteq> []"
  obtains parts where "NormalizeNotificationScopePath v = scope_of parts" "list_all plain_part parts" "parts \<noteq> []"
proof -
  let ?p = "if has_prefix (trim_space v) [slash] then trim_space v else slash # trim_space v"
  let ?parts = "clean_parts [] (split_on slash ?p)"
  have n: "NormalizeNotificationScopePath v = scope_of ?parts" "?parts \<noteq> []"
    using assms by (auto simp: NormalizeNotificationScopePath_def Let_def clean_rooted_def scope_of_def split: if_splits)
  have "list_all plain_part ?parts"
    by (rule clean_parts_plain) (auto simp: list_all_iff dest: split_on_no_sep)
  with n that show ?thesis by blast
qed

lemma join_with_head: "\<exists>t. join_with sep (p # ps) = p @ t"
  by (cases ps) auto

lemma plain_join:
  assumes "list_all plain_part parts" "parts \<noteq> []"
  shows "split_on slash (join_with [slash] parts) = parts"
    "join_with [slash] parts \<noteq> []" "hd (join_with [slash] parts) \<noteq> slash" "last (join_with [slash] parts) \<noteq> slash"
proof -
  show split: "split_on slash (join_with [slash] parts) = parts"
    using assms by (intro split_on_join_with) (auto simp: list_all_iff plain_part_def)
  obtain p ps where parts: "parts = p # ps" "p \<noteq> []" "slash \<notin> set p"
    using assms by (cases parts) (auto simp: plain_part_def)
  obtain t where "join_with [slash] parts = p @ t" using join_with_head[of "[slash]" p ps] parts by blast
  with parts show "join_with [slash] parts \<noteq> []" "hd (join_with [slash] parts) \<noteq> slash"
    by (cases p; auto)+
  have "list_all plain_part xs \<Longrightarrow> xs \<noteq> [] \<Longrightarrow> join_with [slash] xs \<noteq> [] \<and> last (join_with [slash] xs) \<noteq> slash" for xs
    by (induction "[slash]" xs rule: join_with.induct)
      (simp_all add: plain_part_def, metis last_in_set)
  with assms show "last (join_with [slash] parts) \<noteq> slash" by blast
qed

lemma scope_trim:
  assumes "list_all plain_part parts" "parts \<noteq> []"
  shows "trim_char slash (scope_of parts) = join_with [slash] parts"
  using trim_char_fix[of "join_with [slash] parts" slash] plain_join[OF assms]
  by (simp add: scope_of_def trim_char_def)

lemma scope_fix:
  assumes "list_all plain_part parts" "parts \<noteq> []" "trimmed (scope_of parts)"
  shows "NormalizeNotificationScopePath (scope_of parts) = scope_of parts"
proof -
  have "trim_space (scope_of parts) = scope_of parts" using assms(3) by (rule trim_space_fix)
  moreover have "clean_rooted (scope_of parts) = scope_of parts"
    using assms(1,2) plain_join[OF assms(1,2)] by (simp add: clean_rooted_def scope_of_def clean_parts_fix)
  ultimately show ?thesis
    using plain_join[OF assms(1,2)] by (simp add: NormalizeNotificationScopePath_def Let_def scope_of_def)
qed

section \<open>Candidates\<close>

text \<open>A scope that is the path or above it.\<close>

definition at_or_above :: "gostr \<Rightarrow> gostr \<Rightarrow> bool" where
  "at_or_above c p \<longleftrightarrow> c = p \<or> has_prefix p (c @ [slash])"

lemma above_is_take:
  assumes "s = t \<or> has_prefix t (s @ [slash])"
  shows "s = join_with [slash] (take (Suc (count_list s slash)) (split_on slash t)) \<and>
    Suc (count_list s slash) \<le> length (split_on slash t)"
  using assms
proof
  assume "s = t"
  then show ?thesis using length_split_on[of slash t] by (simp add: join_split_on flip: length_split_on)
next
  assume "has_prefix t (s @ [slash])"
  from prefix_is_join_take[OF this] show ?thesis by (simp add: length_split_on)
qed

lemma ancestors_iff:
  assumes "list_all plain_part parts" "parts \<noteq> []" "trimmed (scope_of parts)"
  shows "c \<in> set (notificationScopeAncestors (scope_of parts)) \<longleftrightarrow>
    at_or_above c (scope_of parts) \<and> (2 \<le> count_list c slash \<or> c = scope_of parts)"
proof -
  let ?t = "join_with [slash] parts" let ?k = "if 2 \<le> length parts then 2 else 1 :: nat"
  have split: "split_on slash ?t = parts" using plain_join[OF assms(1,2)] by simp
  have anc: "notificationScopeAncestors (scope_of parts) =
      map (\<lambda>n. scope_of (take n parts)) (rev [?k..<length parts + 1])"
    using scope_fix[OF assms] scope_trim[OF assms(1,2)] split
    by (simp add: notificationScopeAncestors_def Let_def scope_of_def)
  show ?thesis
  proof
    assume "c \<in> set (notificationScopeAncestors (scope_of parts))"
    then obtain n where n: "c = scope_of (take n parts)" "?k \<le> n" "n \<le> length parts" unfolding anc by auto
    then have "0 < n" by (auto split: if_splits)
    have "length (take n parts) = Suc (count_list (join_with [slash] (take n parts)) slash)"
      using plain_join(1)[of "take n parts"] assms(1,2) \<open>0 < n\<close>
      by (metis length_split_on list_all_append append_take_drop_id take_eq_Nil neq0_conv)
    then have "count_list c slash = n" using n by (simp add: scope_of_def)
    moreover have "at_or_above c (scope_of parts)"
      using join_take_split[OF \<open>0 < n\<close>, of slash ?t] n split by (auto simp: at_or_above_def scope_of_def)
    ultimately show "at_or_above c (scope_of parts) \<and> (2 \<le> count_list c slash \<or> c = scope_of parts)"
      using n assms(2) by (auto split: if_splits simp: le_Suc_eq)
  next
    assume c: "at_or_above c (scope_of parts) \<and> (2 \<le> count_list c slash \<or> c = scope_of parts)"
    then obtain s where s: "c = slash # s" "s = ?t \<or> has_prefix ?t (s @ [slash])"
      by (cases c) (auto simp: at_or_above_def scope_of_def)
    let ?n = "Suc (count_list s slash)"
    have n: "s = join_with [slash] (take ?n parts)" "?n \<le> length parts"
      using above_is_take[OF s(2)] split by simp_all
    moreover have "?k \<le> ?n"
    proof (cases "c = scope_of parts")
      case True
      then have "?n = length parts" using s(1) length_split_on[of slash ?t] split by (simp add: scope_of_def)
      then show ?thesis by simp
    next
      case False
      then show ?thesis using c s(1) by simp
    qed
    ultimately have "?n \<in> set (rev [?k..<length parts + 1])" "c = scope_of (take ?n parts)"
      using s(1) by (auto simp: scope_of_def)
    then show "c \<in> set (notificationScopeAncestors (scope_of parts))"
      unfolding anc set_map by (metis imageI)
  qed
qed

lemma set_unique_paths: "set (unique_paths xs) = set xs" and distinct_unique_paths: "distinct (unique_paths xs)"
  by (simp_all add: unique_paths_def)

text \<open>The scopes a message may be routed by are its own paths and their ancestors down to the workspace
  level of two segments (a path of one segment stands for itself), each once.\<close>

theorem candidates_are_ancestors:
  assumes "\<forall>v \<in> set vs. trimmed (NormalizeNotificationScopePath v)"
  shows "distinct (NotificationRouteCandidatePaths vs) \<and>
    (c \<in> set (NotificationRouteCandidatePaths vs) \<longleftrightarrow>
      (\<exists>v \<in> set vs. let p = NormalizeNotificationScopePath v in
         p \<noteq> [] \<and> at_or_above c p \<and> (2 \<le> count_list c slash \<or> c = p)))"
proof -
  have "c \<in> set (notificationScopeAncestors p) \<longleftrightarrow> at_or_above c p \<and> (2 \<le> count_list c slash \<or> c = p)"
    if "v \<in> set vs" "p = NormalizeNotificationScopePath v" "p \<noteq> []" for v p
    using that assms ancestors_iff by (metis normal_path_parts)
  then show ?thesis
    by (auto simp: NotificationRouteCandidatePaths_def set_unique_paths distinct_unique_paths Let_def)
qed

lemma candidates_are_ancestors_witness:
  "''/a/b'' \<in> set (NotificationRouteCandidatePaths [''/a/b/c.md''])"
proof -
  have n: "NormalizeNotificationScopePath ''/a/b/c.md'' = ''/a/b/c.md''" by code_simp
  have "trimmed ''/a/b/c.md''" by (rule trimmed_plain) (simp add: plain_char_def)
  with n candidates_are_ancestors[of "[''/a/b/c.md'']" "''/a/b''"] show ?thesis
    by (simp add: Let_def at_or_above_def)
qed

section \<open>The choice of the scope\<close>

lemma set_keep_new: "set (keep_new f xs) = f ` set xs - {[]}"
proof -
  have "set (fold (\<lambda>x out. let y = f x in if y = [] \<or> y \<in> set out then out else out @ [y]) xs acc) =
        set acc \<union> (f ` set xs - {[]})" for acc
    by (induction xs arbitrary: acc) (auto simp: Let_def)
  then show ?thesis by (simp add: keep_new_def)
qed

definition has_route :: "msg_db \<Rightarrow> gostr \<Rightarrow> bool" where
  "has_route s c \<longleftrightarrow> (\<exists>r \<in> set (routes s). ns_enabled r \<and> nr_scope_path r = c)"

definition normal_scope :: "gostr \<Rightarrow> bool" where
  "normal_scope c \<longleftrightarrow> c \<noteq> [] \<and> NormalizeNotificationScopePath c = c"

text \<open>The rows that are read are the enabled routes of the candidates.\<close>

lemma enabled_routes:
  assumes "ListEnabledNotificationRoutesByPaths cs w = (Inr rows, w')" "\<forall>c \<in> set cs. normal_scope c"
  shows "set rows = {r \<in> set (routes (store w)). ns_enabled r \<and> nr_scope_path r \<in> set cs} \<and> store w' = store w"
proof -
  have "set (normalizeNotificationScopePaths cs) = set cs"
    using assms(2) by (force simp: normalizeNotificationScopePaths_def set_keep_new normal_scope_def)
  with assms(1) show ?thesis
    by (auto simp: ListEnabledNotificationRoutesByPaths_def Let_def run_simps split: if_splits)
qed

definition first_scope :: "msg_db \<Rightarrow> gostr list \<Rightarrow> gostr option" where
  "first_scope s candidates = find (has_route s) candidates"

lemma best_scope_first:
  assumes "set rows = {r \<in> set (routes s). ns_enabled r \<and> nr_scope_path r \<in> set cs}" "\<forall>c \<in> set cs. normal_scope c"
  shows "best_scope cs rows = first_scope s cs"
  unfolding best_scope_def first_scope_def
proof (rule find_cong)
  fix c assume "c \<in> set cs"
  with assms show "list_ex (\<lambda>r. NormalizeNotificationScopePath (nr_scope_path r) = c) rows = has_route s c"
    by (auto simp: list_ex_iff has_route_def normal_scope_def)
qed simp

lemma route_target_scope:
  "t \<in> set (route_target E users r) \<Longrightarrow> nt_route t \<and> nt_scope_path t = NormalizeNotificationScopePath (nr_scope_path r)"
  by (auto simp: route_target_def split: option.splits)

lemma user_target_owner:
  "t \<in> set (user_target E users r) \<Longrightarrow> \<not> nt_route t \<and> nt_recipient t \<in> set users \<and> nt_authorized t = [nt_recipient t]"
  by (auto simp: user_target_def split: option.splits if_splits)

lemma filter_scopes:
  assumes "distinct ps"
  shows "filter (\<lambda>r. nr_scope_path r = c) (concat (map (\<lambda>p. sort_key ns_channel (sel (\<lambda>r. nr_scope_path r = p) rows)) ps)) =
    (if c \<in> set ps then sort_key ns_channel (sel (\<lambda>r. nr_scope_path r = c) rows) else [])"
  using assms
proof (induction ps)
  case (Cons p ps)
  have "filter (\<lambda>r. nr_scope_path r = c) (sort_key ns_channel (sel (\<lambda>r. nr_scope_path r = p) rows)) =
      (if c = p then sort_key ns_channel (sel (\<lambda>r. nr_scope_path r = p) rows) else [])"
    by (auto simp: filter_id_conv filter_empty_conv sel_def)
  with Cons show ?case by auto
qed simp

definition routes_of :: "msg_db \<Rightarrow> gostr \<Rightarrow> route_setting list" where
  "routes_of s c = sort_key ns_channel (filter (\<lambda>r. ns_enabled r \<and> nr_scope_path r = c) (routes s))"

text \<open>Of the rows that are read, those of one scope.\<close>

lemma rows_of_scope:
  assumes "ListEnabledNotificationRoutesByPaths cs w = (Inr rows, w')" "\<forall>c \<in> set cs. normal_scope c" "c \<in> set cs"
  shows "filter (\<lambda>r. NormalizeNotificationScopePath (nr_scope_path r) = c) rows = routes_of (store w) c"
proof -
  have norm: "set (normalizeNotificationScopePaths cs) = set cs"
    using assms(2) by (force simp: normalizeNotificationScopePaths_def set_keep_new normal_scope_def)
  let ?rows = "sel (\<lambda>r. nr_scope_path r \<in> set cs \<and> ns_enabled r) (routes (store w))"
  have rows: "rows = concat (map (\<lambda>p. sort_key ns_channel (sel (\<lambda>r. nr_scope_path r = p) ?rows))
      (rev (sort (remdups (map nr_scope_path ?rows)))))"
    using assms(1,3) norm by (auto simp: ListEnabledNotificationRoutesByPaths_def Let_def run_simps split: if_splits)
  have "filter (\<lambda>r. NormalizeNotificationScopePath (nr_scope_path r) = c) rows = filter (\<lambda>r. nr_scope_path r = c) rows"
    using enabled_routes [OF assms(1,2)] assms(2) by (intro filter_cong) (auto simp: normal_scope_def)
  also have "\<dots> = (if c \<in> nr_scope_path ` set ?rows then sort_key ns_channel (sel (\<lambda>r. nr_scope_path r = c) ?rows) else [])"
    unfolding rows by (subst filter_scopes) (simp_all add: comp_def)
  also have "\<dots> = sort_key ns_channel (sel (\<lambda>r. nr_scope_path r = c) ?rows)"
  proof (cases "c \<in> nr_scope_path ` set ?rows")
    case False
    then have "sel (\<lambda>r. nr_scope_path r = c) ?rows = []"
      unfolding sel_def [of "\<lambda>r. nr_scope_path r = c"] filter_empty_conv by blast
    with False show ?thesis by simp
  qed simp
  also have "sel (\<lambda>r. nr_scope_path r = c) ?rows = filter (\<lambda>r. ns_enabled r \<and> nr_scope_path r = c) (routes (store w))"
    using assms(3) by (auto simp: sel_def intro: filter_cong)
  finally show ?thesis by (simp add: routes_of_def)
qed

text \<open>C29. The targets of a message's notifications are exactly the openable rows of one place. When the
  candidate scopes of the message (its own paths and their ancestors) are in normal form, as plain paths are,
  and one of them has an enabled route, these are the enabled routes of the first such scope, all of them and no
  other: a nearer scope hides those above it, even when none of its routes can be opened. Only when no
  candidate has an enabled route, they are the enabled channels of the recipients.\<close>

theorem nearest_route_wins:
  assumes "ResolveNotificationTargets E users e w = (Inr targets, w')"
    and "cs = NotificationRouteCandidatePaths (entry_paths e)" "\<forall>c \<in> set cs. normal_scope c"
    and "names = filter (\<lambda>u. u \<noteq> []) (map trim_space users)"
  shows "case first_scope (store w) cs of
      Some c \<Rightarrow> targets = concat (map (route_target E users) (routes_of (store w) c)) \<and>
        (\<forall>t \<in> set targets. nt_route t \<and> nt_scope_path t = c)
    | None \<Rightarrow> set targets = (\<Union>r \<in> {r \<in> set (channels (store w)). ns_enabled r \<and> nc_owner r \<in> set names}. set (user_target E names r)) \<and>
        (\<forall>t \<in> set targets. \<not> nt_route t \<and> nt_recipient t \<in> set names \<and> nt_authorized t = [nt_recipient t])"
proof -
  obtain r v where r: "resolveRouteTargets E users e w = (Inr r, v)" and
    cont: "(case r of Some ts \<Rightarrow> ret ts
      | None \<Rightarrow> andThen (ListEnabledNotificationChannels names) (\<lambda>rows.
          ret (concat (map (user_target E names) rows)))) v = (Inr targets, w')"
    using assms(1,4) unfolding ResolveNotificationTargets_def Let_def andThen_Inr by blast
  have first: "r = map_option (\<lambda>c. concat (map (route_target E users) (routes_of (store w) c))) (first_scope (store w) cs)
      \<and> store v = store w"
  proof (cases "cs = []")
    case True
    then show ?thesis using r assms(2) by (simp add: resolveRouteTargets_def run_simps first_scope_def)
  next
    case False
    with r assms(2) obtain rows where rows: "ListEnabledNotificationRoutesByPaths cs w = (Inr rows, v)" and
      "r = map_option (\<lambda>best. concat (map (route_target E users)
         (filter (\<lambda>r. NormalizeNotificationScopePath (nr_scope_path r) = best) rows))) (best_scope cs rows)"
      by (auto simp: resolveRouteTargets_def Let_def run_simps)
    with enabled_routes [OF rows assms(3)] best_scope_first [of rows "store w" cs] assms(3)
    have "r = map_option (\<lambda>best. concat (map (route_target E users)
        (filter (\<lambda>r. NormalizeNotificationScopePath (nr_scope_path r) = best) rows))) (first_scope (store w) cs)"
      "store v = store w" by simp_all
    moreover have "c \<in> set cs" if "first_scope (store w) cs = Some c" for c
      using that by (auto simp: first_scope_def find_Some_iff)
    ultimately show ?thesis
      using rows_of_scope [OF rows assms(3)] by (cases "first_scope (store w) cs") simp_all
  qed
  show ?thesis
  proof (cases "first_scope (store w) cs")
    case (Some c)
    with first cont have "targets = concat (map (route_target E users) (routes_of (store w) c))"
      by (simp add: run_simps)
    moreover have "normal_scope c" using Some assms(3) by (auto simp: first_scope_def find_Some_iff)
    ultimately show ?thesis
      using Some by (auto simp: routes_of_def normal_scope_def dest!: route_target_scope)
  next
    case None
    have same: "trim_space x = x \<and> x \<noteq> []" if "x \<in> set names" for x
      using that assms(4) by auto
    have "trim_space ` set names = id ` set names" by (rule image_cong [OF refl]) (simp add: same)
    moreover have "[] \<notin> set names" using same by blast
    ultimately have "set (normalizeUsernames names) = set names"
      unfolding normalizeUsernames_def set_keep_new by simp
    with None first cont have "set targets =
        (\<Union>r \<in> {r \<in> set (channels (store w)). ns_enabled r \<and> nc_owner r \<in> set names}. set (user_target E names r))"
      by (auto simp: ListEnabledNotificationChannels_def Let_def run_simps sel_def order2_def split: if_splits)
    with None show ?thesis by (auto dest!: user_target_owner)
  qed
qed

definition demo_notify :: notify_env where
  "demo_notify = \<lparr>ne_actions = demo_action_env, ne_open = Some, ne_seal = Some, ne_providers = [''feishu''],
     ne_resolves = True, ne_deliver = (\<lambda>t e p a k. None), ne_base_url = []\<rparr>"

definition demo_route :: "gostr \<Rightarrow> gostr \<Rightarrow> route_setting" where
  "demo_route path channel =
     \<lparr>ns_id = 1, ns_updated_at = 0, ns_channel = channel, ns_enabled = True, ns_delivery_type = ''webhook'',
      ns_display_name = [], ns_webhook_cipher = ''hook'', ns_secret_cipher = [], ns_metadata = [],
      ns_last_success_at = None, ns_last_failed_at = None, ns_last_test_at = None, ns_last_error = [],
      ns_fail_count = 0, nr_scope_path = path, nr_scope_type = ''directory'', nr_remark = []\<rparr>"

definition demo_routed :: "msg_db world" where
  "demo_routed = demo_open\<lparr>store := (store demo_open)\<lparr>routes := [demo_route ''/a'' ''feishu'', demo_route ''/a/b'' ''feishu'']\<rparr>\<rparr>"

lemma demo_candidates: "NotificationRouteCandidatePaths (entry_paths demo_entry) = [''/a/b'']"
  by code_simp

lemma demo_targets:
  "(case fst (ResolveNotificationTargets demo_notify [''bob''] demo_entry demo_routed) of
      Inl _ \<Rightarrow> [] | Inr ts \<Rightarrow> map nt_scope_path ts) = [''/a/b'']"
  by code_simp

lemma nearest_route_wins_witness:
  "\<exists>targets w'. ResolveNotificationTargets demo_notify [''bob''] demo_entry demo_routed = (Inr targets, w') \<and>
     targets = route_target demo_notify [''bob''] (demo_route ''/a/b'' ''feishu'')"
proof -
  obtain targets w' where run: "ResolveNotificationTargets demo_notify [''bob''] demo_entry demo_routed = (Inr targets, w')"
    using demo_targets by (cases "ResolveNotificationTargets demo_notify [''bob''] demo_entry demo_routed")
      (auto split: sum.splits)
  have "NormalizeNotificationScopePath ''/a/b'' = ''/a/b''" by code_simp
  then have normal: "\<forall>c \<in> set [''/a/b'']. normal_scope c" by (simp add: normal_scope_def)
  have "first_scope (store demo_routed) [''/a/b''] = Some ''/a/b''"
    "routes_of (store demo_routed) ''/a/b'' = [demo_route ''/a/b'' ''feishu'']"
    by (simp_all add: first_scope_def has_route_def routes_of_def demo_routed_def demo_route_def)
  with nearest_route_wins[OF run demo_candidates[symmetric] normal refl] run show ?thesis by auto
qed

end
