(* ===== verification/MsgConsumerProps.thy ===== *)
theory MsgConsumerProps
  imports MsgRouteProps MsgInboxProps
begin

text \<open>
  Facts about sending: what a new message adds to the inboxes, that deliveries outside neither touch
  the inboxes nor make the call fail, and who a message of the HTTP interface is from.
\<close>

section \<open>Creating\<close>

lemma keep_new_distinct: "distinct (keep_new f xs)"
proof -
  have "distinct acc \<Longrightarrow> distinct (fold (\<lambda>x out. let y = f x in if y = [] \<or> y \<in> set out then out else out @ [y]) xs acc)" for acc
    by (induction xs arbitrary: acc) (auto simp: Let_def)
  then show ?thesis by (simp add: keep_new_def)
qed

text \<open>Messages and recipient rows are numbered by the counters.\<close>

definition numbered :: "msg_db world \<Rightarrow> bool" where
  "numbered w \<longleftrightarrow> (\<forall>m \<in> set (entries (store w)). me_id m \<le> seqs w ''message_entry'') \<and>
     (\<forall>r \<in> set (recipients (store w)). mr_message_id r \<le> seqs w ''message_entry'')"

lemma insert_recipients_Inr:
  assumes "insert_recipients i names w = (Inr (), w')"
  shows "\<exists>rows. store w' = (store w)\<lparr>recipients := recipients (store w) @ rows\<rparr> \<and>
    map mr_username rows = names \<and> (\<forall>r \<in> set rows. mr_message_id r = i \<and> mr_deleted_at r = None \<and> mr_read_at r = None)"
proof -
  let ?rows = "number_rows (\<lambda>name k. \<lparr>mr_id = k, mr_deleted_at = None, mr_message_id = i,
     mr_username = name, mr_read_at = None\<rparr>) names (seqs w ''message_recipient'' + 1)"
  have "store w' = (store w)\<lparr>recipients := recipients (store w) @ ?rows\<rparr>"
    using assms by (auto simp: insert_recipients_def Let_def run_simps split: if_splits)
  moreover have "map mr_username ?rows = names" by (simp add: number_rows_def comp_def split_beta)
  moreover have "\<forall>r \<in> set ?rows. mr_message_id r = i \<and> mr_deleted_at r = None \<and> mr_read_at r = None"
    by (auto simp: number_rows_def)
  ultimately show ?thesis by blast
qed

lemma create_store:
  assumes "MsgCreate meta p users w = (Inr e, w')"
  shows "\<exists>rows. store w' = (store w)\<lparr>entries := entries (store w) @ [e], recipients := recipients (store w) @ rows\<rparr> \<and>
    map mr_username rows = normalizeUsernames users \<and> me_id e = seqs w ''message_entry'' + 1 \<and> me_deleted_at e = None \<and>
    (\<forall>r \<in> set rows. mr_message_id r = me_id e \<and> mr_deleted_at r = None \<and> mr_read_at r = None)"
proof -
  let ?v = "next_world (w\<lparr>seqs := (seqs w)(''message_entry'' := seqs w ''message_entry'' + 1)\<rparr>)
    (store w\<lparr>entries := entries (store w) @ [e]\<rparr>)"
  obtain v' where
    e: "e = new_entry meta p (seqs w ''message_entry'' + 1) (clock w)" and
    ins: "insert_recipients (seqs w ''message_entry'' + 1) (normalizeUsernames users) ?v = (Inr (), v')" and
    w': "store w' = store v'"
    using assms by (auto simp: MsgCreate_def Let_def run_simps split: if_splits)
  then show ?thesis using insert_recipients_Inr[OF ins] by (auto simp: new_entry_def)
qed

text \<open>With no fault pending a message with recipients is stored.\<close>

lemma insert_calm:
  assumes "faults w = []" "\<forall>r \<in> set (recipients (store w)). mr_message_id r \<noteq> i"
  shows "\<exists>w'. insert_recipients i names w = (Inr (), w') \<and> faults w' = []"
  using assms by (auto simp: insert_recipients_def Let_def andThen_calm next_id_calm stmt_calm number_rows_def list_ex_iff)

lemma create_calm:
  assumes "faults w = []" "numbered w" "normalizeUsernames users \<noteq> []"
  shows "\<exists>e w'. MsgCreate meta p users w = (Inr e, w')"
proof -
  let ?i = "seqs w ''message_entry'' + 1"
  let ?e = "new_entry meta p ?i (clock w)"
  let ?v = "w\<lparr>seqs := (seqs w)(''message_entry'' := ?i), store := (store w)\<lparr>entries := entries (store w) @ [?e]\<rparr>\<rparr>"
  have "\<forall>r \<in> set (recipients (store ?v)). mr_message_id r \<noteq> ?i" using assms(2) by (auto simp: numbered_def)
  with insert_calm[of ?v ?i] assms(1) obtain v' where
    "insert_recipients ?i (normalizeUsernames users) ?v = (Inr (), v')" "faults v' = []" by auto
  then show ?thesis
    using assms(1,3) by (auto simp: MsgCreate_def Let_def tx_def andThen_calm now_calm next_id_calm modify_calm ret_calm next_fails_def)
qed

text \<open>The inbox of a user as it is shown: the message and when it was read.\<close>

definition inbox_view :: "gostr \<Rightarrow> msg_db \<Rightarrow> (int option \<times> message_entry) list" where
  "inbox_view u s = map (\<lambda>(r, m). (mr_read_at r, m)) (inboxBaseQuery u s)"

lemma join_add:
  assumes "\<forall>m \<in> set ms. me_id m < me_id e" "\<forall>r \<in> set rs. mr_message_id r < me_id e"
    and "\<forall>r \<in> set rows. mr_message_id r = me_id e"
  shows "[(r, m). r \<leftarrow> rs @ rows, m \<leftarrow> ms @ [e], me_id m = mr_message_id r] =
    [(r, m). r \<leftarrow> rs, m \<leftarrow> ms, me_id m = mr_message_id r] @ map (\<lambda>r. (r, e)) rows"
proof -
  have "[(r, m). m \<leftarrow> ms @ [e], me_id m = mr_message_id r] = [(r, m). m \<leftarrow> ms, me_id m = mr_message_id r]"
    if "r \<in> set rs" for r
    using that assms(2) by fastforce
  then have old: "[(r, m). r \<leftarrow> rs, m \<leftarrow> ms @ [e], me_id m = mr_message_id r] =
      [(r, m). r \<leftarrow> rs, m \<leftarrow> ms, me_id m = mr_message_id r]"
    by (simp cong: map_cong)
  have "[(r, m). m \<leftarrow> ms @ [e], me_id m = mr_message_id r] = [(r, e)]" if "r \<in> set rows" for r
    using that assms(1,3) by (fastforce simp: concat_eq_Nil_conv)
  then have "[(r, m). r \<leftarrow> rows, m \<leftarrow> ms @ [e], me_id m = mr_message_id r] = map (\<lambda>r. (r, e)) rows"
    by (simp cong: map_cong add: concat_map_singleton)
  with old show ?thesis by simp
qed

lemma filter_distinct_name:
  assumes "distinct (map f rows)"
  shows "(\<exists>r \<in> set rows. f r = u \<and> filter (\<lambda>r. f r = u) rows = [r]) \<or>
    u \<notin> f ` set rows \<and> filter (\<lambda>r. f r = u) rows = []"
  using assms
proof (induction rows)
  case (Cons a rows)
  then show ?case by (cases "f a = u") (auto simp: filter_empty_conv image_iff)
qed simp

lemma create_view:
  assumes "MsgCreate meta p users w = (Inr e, w')" "numbered w"
  shows "inbox_view u (store w') = inbox_view u (store w) @ (if u \<in> set (normalizeUsernames users) then [(None, e)] else [])"
proof -
  obtain rows where
    s: "store w' = (store w)\<lparr>entries := entries (store w) @ [e], recipients := recipients (store w) @ rows\<rparr>" and
    names: "map mr_username rows = normalizeUsernames users" and
    i: "me_id e = seqs w ''message_entry'' + 1" "me_deleted_at e = None" and
    new: "\<forall>r \<in> set rows. mr_message_id r = me_id e \<and> mr_deleted_at r = None \<and> mr_read_at r = None"
    using create_store[OF assms(1)] by blast
  have join: "inbox_join (store w') = inbox_join (store w) @ map (\<lambda>r. (r, e)) rows"
    using assms(2) i new join_add[of "entries (store w)" e "recipients (store w)" rows]
    unfolding inbox_join_def s numbered_def by (fastforce simp del: map_append)
  have "distinct (map mr_username rows)" using names by (simp add: normalizeUsernames_def keep_new_distinct)
  from filter_distinct_name[OF this, of u]
  have "map (\<lambda>(r, m). (mr_read_at r, m)) (filter (\<lambda>(r, m). mr_username r = u \<and> mr_deleted_at r = None \<and> me_deleted_at m = None)
      (map (\<lambda>r. (r, e)) rows)) = (if u \<in> mr_username ` set rows then [(None, e)] else [])"
    using new i(2) by (force simp: filter_map comp_def cong: filter_cong)
  then show ?thesis using arg_cong[OF names, of set] by (simp add: inbox_view_def inboxBaseQuery_def join)
qed

section \<open>Deliveries outside\<close>

text \<open>An action that never answers with an error.\<close>

definition never_fails :: "('s, 'e, 'a) act \<Rightarrow> bool" where
  "never_fails m \<longleftrightarrow> (\<forall>w. \<exists>a w'. m w = (Inr a, w'))"

lemma never_fails_ret: "never_fails (ret a)" and never_fails_now: "never_fails now"
  and never_fails_attempt: "never_fails (attempt m)"
  by (auto simp: never_fails_def ret_def now_def attempt_def split: prod.split)

lemma never_fails_andThen: "never_fails m \<Longrightarrow> (\<And>a. never_fails (f a)) \<Longrightarrow> never_fails (andThen m f)"
  by (simp add: never_fails_def andThen_def) (metis (no_types, lifting) case_prod_conv sum.case(2))

lemma never_fails_for_each: "(\<And>x. never_fails (f x)) \<Longrightarrow> never_fails (for_each f xs)"
  by (induction xs) (auto intro: never_fails_ret never_fails_andThen)

lemmas never_fails_intros = never_fails_ret never_fails_now never_fails_attempt never_fails_andThen never_fails_for_each

lemma never_fails_record: "never_fails (recordNotificationDelivery target outcome)"
  by (auto simp: recordNotificationDelivery_def Let_def intro!: never_fails_intros)

lemma never_fails_urls: "never_fails (buildMobileNotificationURLs E e target)"
  by (auto simp: buildMobileNotificationURLs_def Let_def split: sum.split intro!: never_fails_intros)

lemma never_fails_deliver: "never_fails (deliver_to E e payload target)"
  by (auto simp: deliver_to_def Let_def intro!: never_fails_intros never_fails_record never_fails_urls)

lemma never_fails_deliveries: "never_fails (deliverExternalNotifications E e payload users)"
  by (auto simp: deliverExternalNotifications_def split: sum.split intro!: never_fails_intros never_fails_deliver)

text \<open>The inbox tables.\<close>

definition inbox_is :: "message_entry list \<Rightarrow> message_recipient list \<Rightarrow> msg_db \<Rightarrow> bool" where
  "inbox_is ms rs s \<longleftrightarrow> entries s = ms \<and> recipients s = rs"

lemma stable_updates: "stable (inbox_is ms rs) (update_routes P f)" "stable (inbox_is ms rs) (update_channels Q g)"
  by (auto simp: update_routes_def update_channels_def inbox_is_def intro!: stable_intros stable_modify)

lemma stable_token: "stable (inbox_is ms rs) (CreateActionToken E inp)"
  by (auto simp: CreateActionToken_def newMessageActionToken_def Let_def inbox_is_def split: option.split
    intro!: stable_intros stable_stmt)

lemma stable_record: "stable (inbox_is ms rs) (recordNotificationDelivery target outcome)"
  by (auto simp: recordNotificationDelivery_def Let_def RecordNotificationRouteDeliverySuccess_def
    RecordNotificationRouteDeliveryFailure_def RecordNotificationChannelDeliverySuccess_def
    RecordNotificationChannelDeliveryFailure_def split: option.split intro!: stable_intros stable_updates)

lemma stable_urls: "stable (inbox_is ms rs) (buildMobileNotificationURLs E e target)"
  by (auto simp: buildMobileNotificationURLs_def Let_def split: sum.split intro!: stable_intros stable_token)

lemma stable_deliver_to: "stable (inbox_is ms rs) (deliver_to E e payload target)"
  by (auto simp: deliver_to_def Let_def intro!: stable_intros stable_record stable_urls)

lemma stable_targets: "stable (inbox_is ms rs) (ResolveNotificationTargets E users e)"
  by (auto simp: ResolveNotificationTargets_def resolveRouteTargets_def ListEnabledNotificationRoutesByPaths_def
    ListEnabledNotificationChannels_def Let_def split: option.split intro!: stable_intros)

lemma stable_deliveries: "stable (inbox_is ms rs) (deliverExternalNotifications E e payload users)"
  by (auto simp: deliverExternalNotifications_def split: sum.split intro!: stable_intros stable_deliver_to stable_targets)

section \<open>Sending\<close>

lemma split_trimmed: "u \<in> set (splitAndTrim s) \<Longrightarrow> u \<noteq> [] \<and> trim_space u = u"
  by (auto simp: splitAndTrim_def)

lemma recipients_normal: "set (normalizeUsernames (resolveRecipients p)) = set (resolveRecipients p)"
  using split_trimmed by (auto simp: normalizeUsernames_def resolveRecipients_def set_keep_new) force

lemma create_failed:
  assumes "MsgCreate meta p users w = (Inl err, w')"
  shows "store w' = store w"
  using assms by (auto simp: MsgCreate_def Let_def fail_def split: if_splits dest: tx_Inl_store)

lemma create_entry: "MsgCreate meta p users w = (Inr e, w') \<Longrightarrow> \<exists>i t. e = new_entry meta p i t"
  by (auto simp: MsgCreate_def Let_def run_simps split: if_splits)

lemma consume_cases:
  assumes "Consume E incoming payload w = (r, w')" "numbered w"
  shows "case r of
      Inl _ \<Rightarrow> entries (store w') = entries (store w) \<and> recipients (store w') = recipients (store w)
    | Inr p \<Rightarrow> \<exists>e i t. e = new_entry (normalizeMessageMeta incoming) p i t \<and> (\<forall>u. inbox_view u (store w') =
        inbox_view u (store w) @ (if u \<in> set (resolveRecipients p) then [(None, e)] else []))"
proof -
  let ?meta = "normalizeMessageMeta incoming"
  let ?p = "applyDefaultMessageRecipient (normalizeMessagePayload payload) incoming ?meta"
  let ?users = "resolveRecipients ?p"
  show ?thesis
  proof (cases "validateMessagePayload ?p \<noteq> [] \<or> ?users = []")
    case True
    then have "\<exists>err. Consume E incoming payload w = (Inl err, w)" by (auto simp: Consume_def Let_def fail_def)
    with assms(1) show ?thesis by auto
  next
    case False
    obtain c v where c: "MsgCreate ?meta ?p ?users w = (c, v)" by (cases "MsgCreate ?meta ?p ?users w")
    show ?thesis
    proof (cases c)
      case (Inl err)
      then show ?thesis using assms(1) c False create_failed[of ?meta ?p ?users w]
        by (auto simp: Consume_def Let_def andThen_def)
    next
      case (Inr e)
      obtain a v' where d: "deliverExternalNotifications E e ?p ?users v = (Inr a, v')"
        using never_fails_deliveries by (auto simp: never_fails_def) blast
      have "r = Inr ?p \<and> w' = v'" using assms(1) c Inr d False by (simp add: Consume_def Let_def andThen_def ret_def)
      moreover have "inbox_is (entries (store v)) (recipients (store v)) (store v')"
        using stableD[OF stable_deliveries _ d] by (simp add: inbox_is_def)
      then have "inbox_view u (store v') = inbox_view u (store v)" for u
        by (simp add: inbox_is_def inbox_view_def inboxBaseQuery_def inbox_join_def)
      ultimately show ?thesis
        using create_view[of ?meta ?p ?users w e v] create_entry[of ?meta ?p ?users w e v] c Inr assms(2)
        by (auto simp: recipients_normal)
    qed
  qed
qed

text \<open>Sending a message is all or nothing, whatever happens to the notifications outside: when it answers
  with the payload, each user the payload names finds the message once at the end of the inbox, unread, and
  no other inbox has changed; when it answers with an error, no inbox has changed.\<close>

theorem consume_all_or_nothing:
  assumes "Consume E incoming payload w = (r, w')" "numbered w"
  shows "case r of
      Inl _ \<Rightarrow> entries (store w') = entries (store w) \<and> recipients (store w') = recipients (store w)
    | Inr p \<Rightarrow> \<exists>e. \<forall>u. inbox_view u (store w') =
        inbox_view u (store w) @ (if u \<in> set (resolveRecipients p) then [(None, e)] else [])"
proof (cases r)
  case (Inl err)
  then show ?thesis using consume_cases[OF assms] by simp
next
  case (Inr p)
  then show ?thesis using consume_cases[OF assms] by auto
qed

definition demo_payload :: send_payload where
  "demo_payload = \<lparr>mp_to_users = ''al, '', mp_title = [], mp_content = ''hi'', mp_content_type = [], mp_files = []\<rparr>"

lemma consume_calm:
  fixes E incoming payload
  defines "p \<equiv> applyDefaultMessageRecipient (normalizeMessagePayload payload) incoming (normalizeMessageMeta incoming)"
  assumes "faults w = []" "numbered w" "validateMessagePayload p = []" "resolveRecipients p \<noteq> []"
  shows "\<exists>w'. Consume E incoming payload w = (Inr p, w')"
proof -
  have "normalizeUsernames (resolveRecipients p) \<noteq> []" using recipients_normal[of p] assms(5) by force
  then obtain e v where "MsgCreate (normalizeMessageMeta incoming) p (resolveRecipients p) w = (Inr e, v)"
    using create_calm assms(2,3) by blast
  moreover obtain a v' where "deliverExternalNotifications E e p (resolveRecipients p) v = (Inr a, v')"
    using never_fails_deliveries by (auto simp: never_fails_def) blast
  ultimately show ?thesis using assms(4,5) by (simp add: Consume_def Let_def p_def[symmetric] andThen_def ret_def)
qed

definition demo_ready :: send_payload where
  "demo_ready = demo_payload\<lparr>mp_to_users := ''al,'', mp_content_type := ''markdown''\<rparr>"

lemma demo_normal:
  "applyDefaultMessageRecipient (normalizeMessagePayload demo_payload) demo_meta (normalizeMessageMeta demo_meta) = demo_ready"
  "validateMessagePayload demo_ready = []" "resolveRecipients demo_ready = [''al'']"
  by code_simp+

lemma demo_numbered: "numbered demo_routed"
  by (simp add: numbered_def demo_routed_def demo_recipient_def demo_entry_def)

lemma demo_consumed: "\<exists>w'. Consume demo_notify demo_meta demo_payload demo_routed = (Inr demo_ready, w')"
  using consume_calm[of demo_routed demo_payload demo_meta demo_notify] demo_numbered demo_normal
  by (simp add: demo_routed_def)

lemma consume_all_or_nothing_witness:
  "\<exists>p e w'. Consume demo_notify demo_meta demo_payload demo_routed = (Inr p, w') \<and>
     inbox_view ''al'' (store w') = inbox_view ''al'' (store demo_routed) @ [(None, e)] \<and>
     inbox_view ''bob'' (store w') = inbox_view ''bob'' (store demo_routed)"
proof -
  obtain w' where run: "Consume demo_notify demo_meta demo_payload demo_routed = (Inr demo_ready, w')"
    using demo_consumed by blast
  show ?thesis using run demo_normal(3) consume_all_or_nothing[OF run demo_numbered] by auto
qed

text \<open>The sender of the HTTP interface.\<close>

lemma context_sender: "mm_from (context_meta cx u) = u" "mm_request_user (context_meta cx u) = u"
  by (simp_all add: context_meta_def Let_def)

lemma fill_sender: "mm_from (fill_meta m i) = mm_from m" "mm_request_user (fill_meta m i) = mm_request_user m"
  by (simp_all add: fill_meta_def)

lemma request_sender:
  assumes "resolveRequestMessageMeta cx incoming = Inr m"
  shows "trim_space (mm_request_user cx) \<noteq> [] \<and> mm_from m = trim_space (mm_request_user cx) \<and>
    mm_request_user m = trim_space (mm_request_user cx)"
  using assms by (cases incoming)
    (auto simp: resolveRequestMessageMeta_def Let_def context_sender fill_sender split: if_splits)

lemma trim_sender: "mm_from (trim_meta m) = trim_space (mm_from m)" "mm_request_user (trim_meta m) = trim_space (mm_request_user m)"
  by (simp_all add: trim_meta_def)

lemma entry_sender: "mm_from (entry_meta m) = trim_space (mm_from m)" "mm_request_user (entry_meta m) = trim_space (mm_request_user m)"
  by (simp_all add: entry_meta_def Let_def trim_sender)

lemma normal_sender:
  assumes "trim_space (mm_from m) \<noteq> []" "trim_space (mm_request_user m) \<noteq> []"
  shows "mm_from (normalizeMessageMeta m) = trim_space (mm_from m) \<and>
    mm_request_user (normalizeMessageMeta m) = trim_space (mm_request_user m)"
  using assms by (cases "mm_source_path (trim_meta m) = []") (simp_all add: normalizeMessageMeta_def Let_def trim_sender)

lemma stored_sender:
  assumes "u \<noteq> []" "trim_space u = u" "mm_from m = u" "mm_request_user m = u"
  shows "mm_from (entry_meta (normalizeMessageMeta m)) = u \<and> mm_request_user (entry_meta (normalizeMessageMeta m)) = u"
  using normal_sender[of m] assms by (simp add: entry_sender)

text \<open>A message sent over HTTP is from the user of the request, whatever sender the body names: every message
  the call stores carries that user as its sender and as its requester.\<close>

theorem sender_not_forged:
  assumes "submitMessage E cx incoming payload w = (Inr (m, p), w')" "numbered w"
  shows "trim_space (mm_request_user cx) \<noteq> [] \<and> mm_from m = trim_space (mm_request_user cx) \<and>
    (\<exists>e. mm_from (me_meta e) = trim_space (mm_request_user cx) \<and>
         mm_request_user (me_meta e) = trim_space (mm_request_user cx) \<and>
         (\<forall>u. inbox_view u (store w') =
            inbox_view u (store w) @ (if u \<in> set (resolveRecipients p) then [(None, e)] else [])))"
proof -
  have meta: "resolveRequestMessageMeta cx incoming = Inr m"
    and run: "Consume E m payload w = (Inr p, w')"
    using assms(1) by (auto simp: submitMessage_def run_simps split: sum.splits)
  have m: "trim_space (mm_request_user cx) \<noteq> [] \<and> mm_from m = trim_space (mm_request_user cx) \<and>
      mm_request_user m = trim_space (mm_request_user cx)"
    using request_sender[OF meta] .
  obtain e i t where "e = new_entry (normalizeMessageMeta m) p i t" and
    views: "\<forall>u. inbox_view u (store w') =
      inbox_view u (store w) @ (if u \<in> set (resolveRecipients p) then [(None, e)] else [])"
    using consume_cases[OF run assms(2)] by auto
  then have "me_meta e = entry_meta (normalizeMessageMeta m)" by (simp add: new_entry_def)
  with m views stored_sender[of "trim_space (mm_request_user cx)" m] show ?thesis by (metis trim_space_idem)
qed

lemma demo_resolved:
  "resolveRequestMessageMeta demo_meta (Some (demo_meta\<lparr>mm_from := ''boss''\<rparr>)) = Inr demo_meta"
  "trim_space (mm_request_user demo_meta) = ''agent''"
  by code_simp+

lemma sender_not_forged_witness:
  "\<exists>p w'. submitMessage demo_notify demo_meta (Some (demo_meta\<lparr>mm_from := ''boss''\<rparr>)) demo_payload demo_routed =
     (Inr (demo_meta, p), w') \<and> (\<exists>e. mm_from (me_meta e) = ''agent'' \<and>
       (\<forall>u. inbox_view u (store w') =
          inbox_view u (store demo_routed) @ (if u \<in> set (resolveRecipients p) then [(None, e)] else [])))"
proof -
  obtain p w' where "Consume demo_notify demo_meta demo_payload demo_routed = (Inr p, w')"
    using demo_consumed by blast
  then have run: "submitMessage demo_notify demo_meta (Some (demo_meta\<lparr>mm_from := ''boss''\<rparr>)) demo_payload demo_routed =
      (Inr (demo_meta, p), w')"
    by (simp add: submitMessage_def demo_resolved andThen_def ret_def)
  from sender_not_forged[OF run demo_numbered] run show ?thesis unfolding demo_resolved(2) by blast
qed

end
