(* ===== verification/GwTokens.thy ===== *)
theory GwTokens
  imports HrAuth
begin

text \<open>
  The token caches of the API gateway (\<open>core/api-gateway/server/access_token_validator.go\<close>,
  \<open>openapi_token_validator.go\<close>, \<open>nats_listener.go\<close>). Both validators keep the answers of the HR
  server: principals accepted for at most a minute, and hashes refused until a time. The two
  validators have the same code but for their constants, the shape of the principal and what a
  refusal without end means, so the operations take a \<open>token_kind\<close>. A Go map is an association list
  with distinct keys; the order in which Go ranges over it is the argument \<open>pick\<close>. Each operation
  reads the clock once.
\<close>

section \<open>Kinds of token\<close>

datatype gw_error =
    GErrNotConfigured
  | GErrNoConfig
  | GErrNoRoute
  | GErrJwt jwt_error
  | GErrAuthorityRejected
  | GErrTokenRevoked
  | GErrUnavailable
  | GErrDecode
  | GErrEmptyPrincipal
  | GErrMismatch

record 'p token_kind =
  tk_active_ttl :: int
  tk_rejected_ttl :: int
  tk_max :: nat
  tk_zero_lasts :: bool
  tk_refused :: gw_error
  tk_empty :: "'p \<Rightarrow> bool"
  tk_matches :: "jwt_claims \<Rightarrow> 'p \<Rightarrow> bool"

definition access_empty :: "access_token_principal \<Rightarrow> bool" where
  "access_empty p \<longleftrightarrow> tp_user_id p \<le> 0 \<or> trim_space (tp_username p) = []"

definition access_matches :: "jwt_claims \<Rightarrow> access_token_principal \<Rightarrow> bool" where
  "access_matches c p \<longleftrightarrow>
     \<not> (tp_user_id p \<noteq> jw_user_id c \<or> tp_username p \<noteq> trim_space (jw_username c))"

definition access_kind :: "access_token_principal token_kind" where
  "access_kind =
     \<lparr>tk_active_ttl = 60 * second, tk_rejected_ttl = 30 * second, tk_max = 20000,
      tk_zero_lasts = False, tk_refused = GErrAuthorityRejected, tk_empty = access_empty,
      tk_matches = access_matches\<rparr>"

definition openapi_empty :: "openapi_principal \<Rightarrow> bool" where
  "openapi_empty p \<longleftrightarrow> trim_space (op_username p) = []"

definition openapi_matches :: "jwt_claims \<Rightarrow> openapi_principal \<Rightarrow> bool" where
  "openapi_matches c p \<longleftrightarrow>
     \<not> (op_username p \<noteq> trim_space (jw_username c) \<or>
         op_user_id p \<noteq> 0 \<and> op_user_id p \<noteq> jw_user_id c)"

definition openapi_kind :: "openapi_principal token_kind" where
  "openapi_kind =
     \<lparr>tk_active_ttl = 60 * second, tk_rejected_ttl = 300 * second, tk_max = 10000,
      tk_zero_lasts = True, tk_refused = GErrTokenRevoked, tk_empty = openapi_empty,
      tk_matches = openapi_matches\<rparr>"

text \<open>How long an unanswered question to the HR server stays open: the timeout of the client.\<close>

abbreviation accessTokenValidateTimeout :: int where "accessTokenValidateTimeout \<equiv> 5 * second"
abbreviation openAPITokenValidateTimeout :: int where "openAPITokenValidateTimeout \<equiv> 5 * second"

section \<open>The cache\<close>

text \<open>The end of a refusal; \<open>None\<close> is Go's zero time.\<close>

type_synonym refusal_end = "int option"

record 'p token_cache =
  tc_active :: "(gostr \<times> ('p \<times> int)) list"
  tc_rejected :: "(gostr \<times> refusal_end) list"

definition empty_cache :: "'p token_cache" where
  "empty_cache = \<lparr>tc_active = [], tc_rejected = []\<rparr>"

definition cache_size :: "'p token_cache \<Rightarrow> nat" where
  "cache_size c = length (tc_active c) + length (tc_rejected c)"

definition delete_active :: "gostr \<Rightarrow> 'p token_cache \<Rightarrow> 'p token_cache" where
  "delete_active h c = c\<lparr>tc_active := AList.delete h (tc_active c)\<rparr>"

definition delete_rejected :: "gostr \<Rightarrow> 'p token_cache \<Rightarrow> 'p token_cache" where
  "delete_rejected h c = c\<lparr>tc_rejected := AList.delete h (tc_rejected c)\<rparr>"

definition refusal_lasts :: "'p token_kind \<Rightarrow> int \<Rightarrow> refusal_end \<Rightarrow> bool" where
  "refusal_lasts K t u = (case u of None \<Rightarrow> tk_zero_lasts K | Some e \<Rightarrow> e > t)"

text \<open>
  Reading a map happens under the read lock; a stale entry is deleted afterwards, under the write
  lock. The two parts are apart because another request may come between them.
\<close>

datatype 'a cache_read = Absent | Stale | Valid 'a

definition read_rejected :: "'p token_kind \<Rightarrow> int \<Rightarrow> gostr \<Rightarrow> 'p token_cache \<Rightarrow> unit cache_read" where
  "read_rejected K t h c =
     (case map_of (tc_rejected c) h of
        None \<Rightarrow> Absent
      | Some u \<Rightarrow> if refusal_lasts K t u then Valid () else Stale)"

definition read_active :: "int \<Rightarrow> gostr \<Rightarrow> 'p token_cache \<Rightarrow> 'p cache_read" where
  "read_active t h c =
     (case map_of (tc_active c) h of
        None \<Rightarrow> Absent
      | Some (p, e) \<Rightarrow> if \<not> e > t then Stale else Valid p)"

definition isRejected :: "'p token_kind \<Rightarrow> int \<Rightarrow> gostr \<Rightarrow> 'p token_cache \<Rightarrow> bool \<times> 'p token_cache" where
  "isRejected K t h c =
     (case read_rejected K t h c of
        Absent \<Rightarrow> (False, c)
      | Valid _ \<Rightarrow> (True, c)
      | Stale \<Rightarrow> (False, delete_rejected h c))"

definition cachedPrincipal :: "int \<Rightarrow> gostr \<Rightarrow> 'p token_cache \<Rightarrow> 'p option \<times> 'p token_cache" where
  "cachedPrincipal t h c =
     (case read_active t h c of
        Absent \<Rightarrow> (None, c)
      | Stale \<Rightarrow> (None, delete_active h c)
      | Valid p \<Rightarrow> (Some p, c))"

text \<open>
  Making room: first the entries past their end, then one entry after the other, accepted ones
  first. With \<open>n\<close> entries left in a map, the range visits the one at \<open>pick n\<close> first.
\<close>

definition drop_at :: "nat \<Rightarrow> 'a list \<Rightarrow> 'a list" where
  "drop_at i xs = take i xs @ drop (Suc i) xs"

definition evicted :: "(nat \<Rightarrow> nat) \<Rightarrow> 'a list \<Rightarrow> 'a list" where
  "evicted pick xs = drop_at (pick (length xs) mod length xs) xs"

lemma length_evicted: "xs \<noteq> [] \<Longrightarrow> length (evicted pick xs) = length xs - 1"
  and length_evicted_Suc: "xs \<noteq> [] \<Longrightarrow> Suc (length (evicted pick xs)) = length xs"
proof -
  assume xs: "xs \<noteq> []"
  then have "pick (length xs) mod length xs < length xs" by simp
  then show "length (evicted pick xs) = length xs - 1" "Suc (length (evicted pick xs)) = length xs"
    unfolding evicted_def drop_at_def by auto
qed

function evict :: "(nat \<Rightarrow> nat) \<Rightarrow> nat \<Rightarrow> 'p token_cache \<Rightarrow> 'p token_cache" where
  "evict pick m c =
     (if \<not> cache_size c > m then c
      else if tc_active c \<noteq> [] then evict pick m (c\<lparr>tc_active := evicted pick (tc_active c)\<rparr>)
      else if tc_rejected c \<noteq> [] then evict pick m (c\<lparr>tc_rejected := evicted pick (tc_rejected c)\<rparr>)
      else c)"
  by pat_completeness auto
termination
  by (relation "measure (\<lambda>(_, _, c). cache_size c)")
    (auto simp: cache_size_def length_evicted)

declare evict.simps [simp del]

definition pruneLocked ::
  "'p token_kind \<Rightarrow> (nat \<Rightarrow> nat) \<Rightarrow> int \<Rightarrow> nat \<Rightarrow> 'p token_cache \<Rightarrow> 'p token_cache" where
  "pruneLocked K pick t m c =
     (if cache_size c \<le> m then c
      else evict pick m
        (c\<lparr>tc_active := filter (\<lambda>(_, _, e). e > t) (tc_active c),
           tc_rejected := filter (\<lambda>(_, u). refusal_lasts K t u) (tc_rejected c)\<rparr>))"

definition cachePrincipal ::
  "'p token_kind \<Rightarrow> (nat \<Rightarrow> nat) \<Rightarrow> int \<Rightarrow> gostr \<Rightarrow> 'p \<Rightarrow> int option \<Rightarrow> 'p token_cache \<Rightarrow> 'p token_cache" where
  "cachePrincipal K pick t h p token_expires_at c =
     (let valid_until = t + tk_active_ttl K;
          valid_until = (case token_expires_at of None \<Rightarrow> valid_until
                         | Some e \<Rightarrow> if e < valid_until then e else valid_until);
          c = pruneLocked K pick t (tk_max K - 1) (delete_rejected h c) in
      c\<lparr>tc_active := AList.update h (p, valid_until) (tc_active c)\<rparr>)"

definition rejectUntil ::
  "'p token_kind \<Rightarrow> (nat \<Rightarrow> nat) \<Rightarrow> int \<Rightarrow> gostr \<Rightarrow> refusal_end \<Rightarrow> 'p token_cache \<Rightarrow> 'p token_cache" where
  "rejectUntil K pick t h u c =
     (let c = pruneLocked K pick t (tk_max K - 1) (delete_active h c) in
      c\<lparr>tc_rejected := AList.update h u (tc_rejected c)\<rparr>)"

section \<open>Revocation notices\<close>

definition AccessMarkRevoked ::
  "(nat \<Rightarrow> nat) \<Rightarrow> int \<Rightarrow> gostr \<Rightarrow> int \<Rightarrow> access_token_principal token_cache \<Rightarrow>
     access_token_principal token_cache" where
  "AccessMarkRevoked pick t h expires_at_unix c =
     (if trim_space h = [] then c
      else rejectUntil access_kind pick t h
        (Some (if expires_at_unix > 0 then expires_at_unix * second
               else t + tk_rejected_ttl access_kind)) c)"

definition OpenAPIMarkRevoked ::
  "(nat \<Rightarrow> nat) \<Rightarrow> int \<Rightarrow> gostr \<Rightarrow> int \<Rightarrow> openapi_principal token_cache \<Rightarrow>
     openapi_principal token_cache" where
  "OpenAPIMarkRevoked pick t h expires_at_unix c =
     (if trim_space h = [] then c
      else rejectUntil openapi_kind pick t h
        (if expires_at_unix > 0 then Some (expires_at_unix * second) else None) c)"

text \<open>A message that does not parse changes nothing.\<close>

definition handleTokenInvalidate ::
  "int \<Rightarrow> (nat \<Rightarrow> nat) \<Rightarrow> int \<Rightarrow> gostr list \<Rightarrow> access_token_principal token_cache \<Rightarrow>
     access_token_principal token_cache" where
  "handleTokenInvalidate configured_expire pick t tokens c =
     (let seconds = (if configured_expire \<le> 0 then 7 * 24 * 3600 else configured_expire);
          expire_time = expire_after seconds t div second in
      fold (\<lambda>h. AccessMarkRevoked pick t h expire_time) tokens c)"

definition HandleTokenInvalidate ::
  "int \<Rightarrow> (nat \<Rightarrow> nat) \<Rightarrow> int \<Rightarrow> gostr list option \<Rightarrow> access_token_principal token_cache \<Rightarrow>
     access_token_principal token_cache" where
  "HandleTokenInvalidate configured_expire pick t message c =
     (case message of None \<Rightarrow> c | Some tokens \<Rightarrow> handleTokenInvalidate configured_expire pick t tokens c)"

definition HandleOpenAPITokenRevoked ::
  "(nat \<Rightarrow> nat) \<Rightarrow> int \<Rightarrow> (gostr \<times> int) option \<Rightarrow> openapi_principal token_cache \<Rightarrow>
     openapi_principal token_cache" where
  "HandleOpenAPITokenRevoked pick t message c =
     (case message of None \<Rightarrow> c | Some (h, e) \<Rightarrow> OpenAPIMarkRevoked pick t h e c)"

section \<open>Asking the HR server\<close>

text \<open>
  What comes back: no answer within the timeout, a body that is too large or does not parse, or the
  status, the code in the body and the principal in it.
\<close>

datatype 'p authority_answer = Unreachable | BadBody | Answered int int 'p

definition validateWithHR :: "'p token_kind \<Rightarrow> 'p authority_answer \<Rightarrow> gw_error + 'p" where
  "validateWithHR K answer =
     (case answer of
        Unreachable \<Rightarrow> Inl GErrUnavailable
      | BadBody \<Rightarrow> Inl GErrDecode
      | Answered status code p \<Rightarrow>
          if status \<noteq> 200 \<or> code \<noteq> 0 then Inl GErrAuthorityRejected
          else if tk_empty K p then Inl GErrEmptyPrincipal
          else Inr p)"

text \<open>What the function run by the group does once the answer is there.\<close>

definition settle ::
  "'p token_kind \<Rightarrow> (nat \<Rightarrow> nat) \<Rightarrow> int \<Rightarrow> gostr \<Rightarrow> jwt_claims \<Rightarrow> 'p authority_answer \<Rightarrow>
     'p token_cache \<Rightarrow> (gw_error + 'p) \<times> 'p token_cache" where
  "settle K pick t h claims answer c =
     (case validateWithHR K answer of
        Inl e \<Rightarrow>
          (Inl e, if e = GErrAuthorityRejected
                  then rejectUntil K pick t h (Some (t + tk_rejected_ttl K)) c else c)
      | Inr p \<Rightarrow>
          if \<not> tk_matches K claims p
          then (Inl GErrMismatch, rejectUntil K pick t h (Some (t + tk_rejected_ttl K)) c)
          else (Inr p, cachePrincipal K pick t h p (rc_expires_at claims) c))"

text \<open>The look into the cache, made before a request joins the group and again inside it.\<close>

definition look_up ::
  "'p token_kind \<Rightarrow> int \<Rightarrow> gostr \<Rightarrow> 'p token_cache \<Rightarrow> (gw_error + 'p) option \<times> 'p token_cache" where
  "look_up K t h c =
     (case isRejected K t h c of
        (True, c) \<Rightarrow> (Some (Inl (tk_refused K)), c)
      | (False, c) \<Rightarrow>
          (case cachedPrincipal t h c of
             (Some p, c) \<Rightarrow> (Some (Inr p), c)
           | (None, c) \<Rightarrow> (None, c)))"

text \<open>
  A request that is alone: the looks at time \<open>t\<close>, the answer at \<open>t'\<close>. How requests interleave is in
  the theory \<open>GwSteps\<close>.
\<close>

definition validate_with_claims ::
  "'p token_kind \<Rightarrow> (nat \<Rightarrow> nat) \<Rightarrow> int \<Rightarrow> int \<Rightarrow> gostr \<Rightarrow> jwt_claims \<Rightarrow> 'p authority_answer \<Rightarrow>
     'p token_cache \<Rightarrow> (gw_error + 'p) \<times> 'p token_cache" where
  "validate_with_claims K pick t t' h claims answer c =
     (case look_up K t h c of
        (Some r, c) \<Rightarrow> (r, c)
      | (None, c) \<Rightarrow>
          (case look_up K t h c of
             (Some r, c) \<Rightarrow> (r, c)
           | (None, c) \<Rightarrow> settle K pick t' h claims answer c))"

text \<open>\<open>hash\<close> is SHA-256 in hex.\<close>

definition validateAccessWithClaims ::
  "(gostr \<Rightarrow> gostr) \<Rightarrow> (nat \<Rightarrow> nat) \<Rightarrow> int \<Rightarrow> int \<Rightarrow> gostr \<Rightarrow> jwt_claims \<Rightarrow>
     access_token_principal authority_answer \<Rightarrow> access_token_principal token_cache \<Rightarrow>
     (gw_error + access_token_principal) \<times> access_token_principal token_cache" where
  "validateAccessWithClaims hash pick t t' raw_token claims answer c =
     validate_with_claims access_kind pick t t' (hash raw_token) claims answer c"

text \<open>A scheduled token is checked by its signature and claims alone.\<close>

definition scheduled_principal :: "jwt_claims \<Rightarrow> access_token_principal" where
  "scheduled_principal c =
     \<lparr>tp_user_id = jw_user_id c, tp_username = trim_space (jw_username c),
      tp_email = trim_space (jw_email c),
      tp_department = (case jw_department c of None \<Rightarrow> [] | Some d \<Rightarrow> trim_space d)\<rparr>"

definition GwValidateGatewayToken ::
  "jwt_env \<Rightarrow> gostr \<Rightarrow> (gostr \<Rightarrow> gostr) \<Rightarrow> (nat \<Rightarrow> nat) \<Rightarrow> int \<Rightarrow> int \<Rightarrow> gostr \<Rightarrow>
     access_token_principal authority_answer \<Rightarrow> access_token_principal token_cache \<Rightarrow>
     (gw_error + access_token_principal) \<times> access_token_principal token_cache" where
  "GwValidateGatewayToken J url hash pick t t' raw_token answer c =
     (let raw_token = trim_space raw_token in
      case ValidateGatewayToken J t raw_token of
        Inl e \<Rightarrow> (Inl (GErrJwt e), c)
      | Inr claims \<Rightarrow>
          if jw_token_use claims = TokenUseScheduled then (Inr (scheduled_principal claims), c)
          else if trim_space url = [] then (Inl GErrNotConfigured, c)
          else validateAccessWithClaims hash pick t t' raw_token claims answer c)"

definition AccessTokenValidate ::
  "jwt_env \<Rightarrow> gostr \<Rightarrow> (gostr \<Rightarrow> gostr) \<Rightarrow> (nat \<Rightarrow> nat) \<Rightarrow> int \<Rightarrow> int \<Rightarrow> gostr \<Rightarrow>
     access_token_principal authority_answer \<Rightarrow> access_token_principal token_cache \<Rightarrow>
     (gw_error + access_token_principal) \<times> access_token_principal token_cache" where
  "AccessTokenValidate J url hash pick t t' raw_token answer c =
     (let raw_token = trim_space raw_token in
      if trim_space url = [] then (Inl GErrNotConfigured, c)
      else case JwtValidateAccessToken J t raw_token of
        Inl e \<Rightarrow> (Inl (GErrJwt e), c)
      | Inr claims \<Rightarrow> validateAccessWithClaims hash pick t t' raw_token claims answer c)"

definition OpenAPITokenValidate ::
  "jwt_env \<Rightarrow> gostr \<Rightarrow> (gostr \<Rightarrow> gostr) \<Rightarrow> (nat \<Rightarrow> nat) \<Rightarrow> int \<Rightarrow> int \<Rightarrow> gostr \<Rightarrow>
     openapi_principal authority_answer \<Rightarrow> openapi_principal token_cache \<Rightarrow>
     (gw_error + openapi_principal) \<times> openapi_principal token_cache" where
  "OpenAPITokenValidate J url hash pick t t' raw_token answer c =
     (let raw_token = trim_space raw_token in
      if trim_space url = [] then (Inl GErrNotConfigured, c)
      else case ValidateOpenAPIToken J t raw_token of
        Inl e \<Rightarrow> (Inl (GErrJwt e), c)
      | Inr claims \<Rightarrow> validate_with_claims openapi_kind pick t t' (hash raw_token) claims answer c)"

section \<open>The endpoints of the HR server that answer\<close>

text \<open>
  \<open>core/hr-server/api/v1/access_token.go\<close> and \<open>openapi_token.go\<close>. A refusal is status 401 with code
  7 and no principal in the body, whatever the reason.
\<close>

definition no_access_principal :: access_token_principal where
  "no_access_principal = \<lparr>tp_user_id = 0, tp_username = [], tp_email = [], tp_department = []\<rparr>"

definition AccessTokenEndpoint ::
  "hr_env \<Rightarrow> gostr \<Rightarrow> hr_db world \<Rightarrow> access_token_principal authority_answer \<times> hr_db world" where
  "AccessTokenEndpoint E header w =
     (let raw_token = trim_space header in
      if raw_token = [] then (Answered 401 7 no_access_principal, w)
      else case ValidateAccessToken E raw_token w of
        (Inl _, w') \<Rightarrow> (Answered 401 7 no_access_principal, w')
      | (Inr p, w') \<Rightarrow> (Answered 200 0 p, w'))"

definition no_openapi_principal :: openapi_principal where
  "no_openapi_principal =
     \<lparr>op_token_id = 0, op_user_id = 0, op_username = [], op_email = [], op_department = []\<rparr>"

definition OpenAPITokenEndpoint ::
  "hr_env \<Rightarrow> gostr \<Rightarrow> gostr \<Rightarrow> gostr \<Rightarrow> hr_db world \<Rightarrow>
     openapi_principal authority_answer \<times> hr_db world" where
  "OpenAPITokenEndpoint E header ip agent w =
     (let raw_token = BearerToken header; refused = Answered 401 7 no_openapi_principal in
      if trim_space raw_token = [] then (refused, w)
      else case TokenValidate E raw_token ip agent w of
        (Inl _, w') \<Rightarrow> (refused, w')
      | (Inr p, w') \<Rightarrow>
          (case GetUserByUsername (op_username p) w' of
             (Inl _, w'') \<Rightarrow> (refused, w'')
           | (Inr u, w'') \<Rightarrow>
               if us_status u \<noteq> StatusActive \<or> op_user_id p \<noteq> 0 \<and> us_id u \<noteq> op_user_id p
               then (refused, w'') else (Answered 200 0 p, w'')))"

end
