(* ===== verification/GwSteps.thy ===== *)
theory GwSteps
  imports GwTokens HrSteps
begin

text \<open>
  The gateway and the HR server together. Requests interleave: each is a call that moves on in steps
  of one access to the cache, made under its lock. A call that finds nothing joins the group of its
  hash (\<open>singleflight\<close>): the first one inside looks again, asks the HR server and settles the answer;
  the others get what it gets. Between two steps the HR server changes, time passes and notices of
  revoked tokens arrive.
\<close>

section \<open>Calls\<close>

text \<open>The flag says whether the call is the one inside the group.\<close>

datatype 'p stage =
    AtRejected bool
  | SweepRejected bool
  | AtActive bool
  | SweepActive bool
  | Joining
  | Asking int
  | Got int "'p authority_answer"

record 'p gw_call =
  cl_raw :: gostr
  cl_claims :: jwt_claims
  cl_stage :: "'p stage"

definition past_cache :: "bool \<Rightarrow> int \<Rightarrow> 'p stage" where
  "past_cache inner t = (if inner then Asking t else Joining)"

fun looking :: "'p stage \<Rightarrow> bool" where
  "looking (AtRejected _) = True"
| "looking (SweepRejected _) = True"
| "looking (AtActive _) = True"
| "looking (SweepActive _) = True"
| "looking _ = False"

fun inside :: "'p stage \<Rightarrow> bool" where
  "inside (AtRejected i) = i"
| "inside (SweepRejected i) = i"
| "inside (AtActive i) = i"
| "inside (SweepActive i) = i"
| "inside Joining = False"
| "inside (Asking _) = True"
| "inside (Got _ _) = True"

text \<open>One access to the cache: the next stage, or the end of the call.\<close>

fun look_step ::
  "'p token_kind \<Rightarrow> int \<Rightarrow> gostr \<Rightarrow> 'p stage \<Rightarrow> 'p token_cache \<Rightarrow>
     ('p stage + (gw_error + 'p)) \<times> 'p token_cache" where
  "look_step K t h (AtRejected i) c =
     (case read_rejected K t h c of
        Absent \<Rightarrow> (Inl (AtActive i), c)
      | Stale \<Rightarrow> (Inl (SweepRejected i), c)
      | Valid _ \<Rightarrow> (Inr (Inl (tk_refused K)), c))"
| "look_step K t h (SweepRejected i) c = (Inl (AtActive i), delete_rejected h c)"
| "look_step K t h (AtActive i) c =
     (case read_active t h c of
        Absent \<Rightarrow> (Inl (past_cache i t), c)
      | Stale \<Rightarrow> (Inl (SweepActive i), c)
      | Valid p \<Rightarrow> (Inr (Inr p), c))"
| "look_step K t h (SweepActive i) c = (Inl (past_cache i t), delete_active h c)"
| "look_step K t h st c = (Inl st, c)"

text \<open>Without interruption the steps are the look of the code.\<close>

fun look_run ::
  "'p token_kind \<Rightarrow> int \<Rightarrow> gostr \<Rightarrow> nat \<Rightarrow> 'p stage \<Rightarrow> 'p token_cache \<Rightarrow>
     ('p stage + (gw_error + 'p)) \<times> 'p token_cache" where
  "look_run K t h 0 st c = (Inl st, c)"
| "look_run K t h (Suc n) st c =
     (if \<not> looking st then (Inl st, c)
      else case look_step K t h st c of
        (Inl st', c') \<Rightarrow> look_run K t h n st' c'
      | (Inr r, c') \<Rightarrow> (Inr r, c'))"

lemma look_run_look_up:
  "look_run K t h 4 (AtRejected i) c =
     (case look_up K t h c of
        (Some r, c') \<Rightarrow> (Inr r, c')
      | (None, c') \<Rightarrow> (Inl (past_cache i t), c'))"
  by (cases "read_rejected K t h c"; cases "read_active t h c"; cases "read_active t h (delete_rejected h c)"; cases i)
    (simp_all add: look_up_def isRejected_def cachedPrincipal_def past_cache_def eval_nat_numeral)

section \<open>Steps\<close>

text \<open>
  A deployment: the kind of token, its hash, the check of the signature, the clock, what the HR
  server may answer, what else it may do, what a notice of a hash does (a message with several
  hashes is several notices), and how long after the question an answer may be settled.
\<close>

record ('w, 'p) gw_setup =
  su_kind :: "'p token_kind"
  su_hash :: "gostr \<Rightarrow> gostr"
  su_check :: "int \<Rightarrow> gostr \<Rightarrow> jwt_claims option"
  su_time :: "'w \<Rightarrow> int"
  su_ask :: "gostr \<Rightarrow> 'w \<Rightarrow> 'p authority_answer \<Rightarrow> 'w \<Rightarrow> bool"
  su_step :: "'w \<Rightarrow> 'w \<Rightarrow> bool"
  su_notice :: "(nat \<Rightarrow> nat) \<Rightarrow> int \<Rightarrow> gostr \<Rightarrow> int \<Rightarrow> 'p token_cache \<Rightarrow> 'p token_cache"
  su_limit :: int

type_synonym ('w, 'p) gw_state = "'w \<times> 'p token_cache \<times> 'p gw_call list"

datatype 'p gw_label = Quiet | Answers gostr "gw_error + 'p"

inductive gw_step ::
  "('w, 'p) gw_setup \<Rightarrow> 'p gw_label \<Rightarrow> ('w, 'p) gw_state \<Rightarrow> ('w, 'p) gw_state \<Rightarrow> bool" for S where
  gw_authority: "su_step S w w' \<Longrightarrow> gw_step S Quiet (w, c, ks) (w', c, ks)"
| gw_notice: "gw_step S Quiet (w, c, ks) (w, su_notice S pick (su_time S w) h x c, ks)"
| gw_request: "su_check S (su_time S w) raw = Some claims \<Longrightarrow>
     gw_step S Quiet (w, c, ks)
       (w, c, \<lparr>cl_raw = raw, cl_claims = claims, cl_stage = AtRejected False\<rparr> # ks)"
| gw_look: "looking (cl_stage k) \<Longrightarrow>
     look_step (su_kind S) (su_time S w) (su_hash S (cl_raw k)) (cl_stage k) c = (Inl st, c') \<Longrightarrow>
     gw_step S Quiet (w, c, xs @ k # ys) (w, c', xs @ k\<lparr>cl_stage := st\<rparr> # ys)"
| gw_look_ends: "looking (cl_stage k) \<Longrightarrow>
     look_step (su_kind S) (su_time S w) (su_hash S (cl_raw k)) (cl_stage k) c = (Inr r, c') \<Longrightarrow>
     gw_step S (Answers (cl_raw k) r) (w, c, xs @ k # ys) (w, c', xs @ ys)"
| gw_lead: "cl_stage k = Joining \<Longrightarrow>
     \<forall>k' \<in> set (xs @ ys). su_hash S (cl_raw k') = su_hash S (cl_raw k) \<longrightarrow> \<not> inside (cl_stage k') \<Longrightarrow>
     gw_step S Quiet (w, c, xs @ k # ys) (w, c, xs @ k\<lparr>cl_stage := AtRejected True\<rparr> # ys)"
| gw_follow: "cl_stage k = Joining \<Longrightarrow>
     \<exists>k' \<in> set (xs @ ys). su_hash S (cl_raw k') = su_hash S (cl_raw k) \<and> inside (cl_stage k') \<Longrightarrow>
     gw_step S Quiet (w, c, xs @ k # ys) (w, c, xs @ ys)"
| gw_asked: "cl_stage k = Asking t \<Longrightarrow> su_ask S (cl_raw k) w a w' \<Longrightarrow>
     gw_step S Quiet (w, c, xs @ k # ys) (w', c, xs @ k\<lparr>cl_stage := Got t a\<rparr> # ys)"
| gw_lost: "cl_stage k = Asking t \<Longrightarrow> a = Unreachable \<or> a = BadBody \<Longrightarrow>
     gw_step S Quiet (w, c, xs @ k # ys) (w, c, xs @ k\<lparr>cl_stage := Got t a\<rparr> # ys)"
| gw_settle: "cl_stage k = Got t a \<Longrightarrow> su_time S w \<le> t + su_limit S \<Longrightarrow>
     settle (su_kind S) pick (su_time S w) (su_hash S (cl_raw k)) (cl_claims k) a c = (r, c') \<Longrightarrow>
     gw_step S (Answers (cl_raw k) r) (w, c, xs @ k # ys) (w, c', xs @ ys)"

text \<open>Runs through states that satisfy \<open>ok\<close>.\<close>

inductive gw_reach ::
  "('w, 'p) gw_setup \<Rightarrow> (('w, 'p) gw_state \<Rightarrow> bool) \<Rightarrow> ('w, 'p) gw_state \<Rightarrow> ('w, 'p) gw_state \<Rightarrow> bool"
  for S ok s0 where
  gw_refl: "gw_reach S ok s0 s0"
| gw_more: "gw_reach S ok s0 s \<Longrightarrow> ok s \<Longrightarrow> gw_step S l s s' \<Longrightarrow> gw_reach S ok s0 s'"

lemma gw_invariant:
  assumes "gw_reach S ok s0 s" and "I s0"
    and "\<And>l s s'. gw_step S l s s' \<Longrightarrow> ok s \<Longrightarrow> I s \<Longrightarrow> I s'"
  shows "I s"
  using assms(1,2) by (induction rule: gw_reach.induct) (auto intro: assms(3))

section \<open>The two deployments on the HR server\<close>

text \<open>
  The normal access tokens: those for the gateway that are not scheduled ones. \<open>allowed\<close> restricts
  what may happen to the accounts.
\<close>

definition access_check :: "jwt_env \<Rightarrow> int \<Rightarrow> gostr \<Rightarrow> jwt_claims option" where
  "access_check J t raw =
     (case ValidateGatewayToken J t raw of
        Inl _ \<Rightarrow> None
      | Inr c \<Rightarrow> if jw_token_use c = TokenUseScheduled then None else Some c)"

definition openapi_check :: "jwt_env \<Rightarrow> int \<Rightarrow> gostr \<Rightarrow> jwt_claims option" where
  "openapi_check J t raw = (case ValidateOpenAPIToken J t raw of Inl _ \<Rightarrow> None | Inr c \<Rightarrow> Some c)"

definition hr_moves :: "hr_env \<Rightarrow> (acct_label \<Rightarrow> bool) \<Rightarrow> hr_db world \<Rightarrow> hr_db world \<Rightarrow> bool" where
  "hr_moves E allowed w w' \<longleftrightarrow> clock w \<le> clock w' \<and> (\<exists>l. allowed l \<and> acct_step E l w w')"

definition access_setup ::
  "hr_env \<Rightarrow> int \<Rightarrow> (acct_label \<Rightarrow> bool) \<Rightarrow> (hr_db world, access_token_principal) gw_setup" where
  "access_setup E lag allowed =
     \<lparr>su_kind = access_kind, su_hash = he_token_hash E, su_check = access_check (he_jwt E),
      su_time = clock, su_ask = (\<lambda>raw w a w'. AccessTokenEndpoint E raw w = (a, w')),
      su_step = hr_moves E allowed,
      su_notice = (\<lambda>pick t h _. handleTokenInvalidate (je_access_expire (he_jwt E)) pick t [h]),
      su_limit = accessTokenValidateTimeout + lag\<rparr>"

definition openapi_setup ::
  "hr_env \<Rightarrow> int \<Rightarrow> (acct_label \<Rightarrow> bool) \<Rightarrow> (hr_db world, openapi_principal) gw_setup" where
  "openapi_setup E lag allowed =
     \<lparr>su_kind = openapi_kind, su_hash = he_openapi_hash E, su_check = openapi_check (he_jwt E),
      su_time = clock,
      su_ask = (\<lambda>raw w a w'. \<exists>ip agent. OpenAPITokenEndpoint E (''Bearer '' @ raw) ip agent w = (a, w')),
      su_step = hr_moves E allowed, su_notice = OpenAPIMarkRevoked,
      su_limit = openAPITokenValidateTimeout + lag\<rparr>"

lemma setup_fields [simp]:
  "su_kind (access_setup E lag allowed) = access_kind" "su_time (access_setup E lag allowed) = clock"
  "su_hash (access_setup E lag allowed) = he_token_hash E"
  "su_check (access_setup E lag allowed) = access_check (he_jwt E)"
  "su_step (access_setup E lag allowed) = hr_moves E allowed"
  "su_limit (access_setup E lag allowed) = 5 * second + lag"
  "su_ask (access_setup E lag allowed) raw w a w' \<longleftrightarrow> AccessTokenEndpoint E raw w = (a, w')"
  "su_notice (access_setup E lag allowed) pick t h x =
     handleTokenInvalidate (je_access_expire (he_jwt E)) pick t [h]"
  "su_kind (openapi_setup E lag allowed) = openapi_kind" "su_time (openapi_setup E lag allowed) = clock"
  "su_step (openapi_setup E lag allowed) = hr_moves E allowed"
  "su_limit (openapi_setup E lag allowed) = 5 * second + lag"
  "su_ask (openapi_setup E lag allowed) raw w b w' \<longleftrightarrow>
     (\<exists>ip agent. OpenAPITokenEndpoint E (''Bearer '' @ raw) ip agent w = (b, w'))"
  "su_notice (openapi_setup E lag allowed) pick t h x = OpenAPIMarkRevoked pick t h x"
  by (simp_all add: access_setup_def openapi_setup_def)

lemma kind_fields [simp]:
  "tk_active_ttl access_kind = 60 * second" "tk_rejected_ttl access_kind = 30 * second" "tk_max access_kind = 20000"
  "tk_active_ttl openapi_kind = 60 * second" "tk_rejected_ttl openapi_kind = 300 * second" "tk_max openapi_kind = 10000"
  by (simp_all add: access_kind_def openapi_kind_def)

end
