(* ===== verification/GwSamples.thy ===== *)
theory GwSamples
  imports GwSteps HrSamples
begin

text \<open>Concrete runs of the gateway on the sample deployment of the HR server.\<close>

text \<open>A request that finds nothing goes through to the HR server.\<close>

lemma gw_flight:
  assumes check: "su_check S (su_time S w) raw = Some claims"
    and rejected: "map_of (tc_rejected c) (su_hash S raw) = None"
    and active: "map_of (tc_active c) (su_hash S raw) = None"
    and alone: "\<forall>k \<in> set ks. su_hash S (cl_raw k) = su_hash S raw \<longrightarrow> \<not> inside (cl_stage k)"
    and ask: "su_ask S raw w a w'"
  shows "gw_reach S (\<lambda>_. True) (w, c, ks)
    (w', c, \<lparr>cl_raw = raw, cl_claims = claims, cl_stage = Got (su_time S w) a\<rparr> # ks)"
proof -
  let ?s = "\<lambda>st. (w, c, \<lparr>cl_raw = raw, cl_claims = claims, cl_stage = st\<rparr> # ks)"
  have look: "gw_step S Quiet (?s st) (?s st')"
    if "looking st" "look_step (su_kind S) (su_time S w) (su_hash S raw) st c = (Inl st', c)" for st st'
    using gw_look [of "\<lparr>cl_raw = raw, cl_claims = claims, cl_stage = st\<rparr>" S w c st' c "[]" ks] that by simp
  have read: "look_step (su_kind S) (su_time S w) (su_hash S raw) (AtRejected i) c = (Inl (AtActive i), c)"
    "look_step (su_kind S) (su_time S w) (su_hash S raw) (AtActive i) c = (Inl (past_cache i (su_time S w)), c)" for i
    using rejected active by (simp_all add: read_rejected_def read_active_def)
  have s1: "gw_step S Quiet (w, c, ks) (?s (AtRejected False))" by (rule gw_request [OF check])
  have s2: "gw_step S Quiet (?s (AtRejected False)) (?s (AtActive False))" by (rule look [OF _ read(1)]) simp
  have s3: "gw_step S Quiet (?s (AtActive False)) (?s Joining)"
    using look [OF _ read(2), of False] by (simp add: past_cache_def)
  have s4: "gw_step S Quiet (?s Joining) (?s (AtRejected True))"
    using gw_lead [of "\<lparr>cl_raw = raw, cl_claims = claims, cl_stage = Joining\<rparr>" "[]" ks S w c] alone by simp
  have s5: "gw_step S Quiet (?s (AtRejected True)) (?s (AtActive True))" by (rule look [OF _ read(1)]) simp
  have s6: "gw_step S Quiet (?s (AtActive True)) (?s (Asking (su_time S w)))"
    using look [OF _ read(2), of True] by (simp add: past_cache_def)
  have s7: "gw_step S Quiet (?s (Asking (su_time S w)))
      (w', c, \<lparr>cl_raw = raw, cl_claims = claims, cl_stage = Got (su_time S w) a\<rparr> # ks)"
    using gw_asked [of "\<lparr>cl_raw = raw, cl_claims = claims, cl_stage = Asking (su_time S w)\<rparr>" "su_time S w"
        S w a w' c "[]" ks] ask by simp
  note more = gw_more [where ok = "\<lambda>_. True", OF _ TrueI]
  show ?thesis by (rule more [OF more [OF more [OF more [OF more [OF more [OF more [OF gw_refl s1] s2] s3] s4] s5] s6] s7])
qed

definition demo_principal :: access_token_principal where
  "demo_principal =
     \<lparr>tp_user_id = 7, tp_username = ''bob'', tp_email = ''bob@x'', tp_department = ''/org/sales''\<rparr>"

text \<open>The session of the sample is checked at second 101.\<close>

abbreviation demo_now :: "hr_db world" where "demo_now \<equiv> demo_hr [demo_session] (101 * second)"

definition demo_checked :: "hr_db world" where
  "demo_checked = snd (AccessTokenEndpoint demo_env ''access-100'' demo_now)"

lemma demo_endpoint:
  "AccessTokenEndpoint demo_env ''access-100'' demo_now = (Answered 200 0 demo_principal, demo_checked)"
proof -
  have "fst (AccessTokenEndpoint demo_env ''access-100'' demo_now) = Answered 200 0 demo_principal"
    by code_simp
  then show ?thesis by (simp add: demo_checked_def prod_eq_iff)
qed

lemma demo_access_check:
  "access_check (he_jwt demo_env) (101 * second) ''access-100'' = Some (demo_claims TokenUseAccess)"
  by code_simp

definition demo_call :: "access_token_principal stage \<Rightarrow> access_token_principal gw_call" where
  "demo_call st = \<lparr>cl_raw = ''access-100'', cl_claims = demo_claims TokenUseAccess, cl_stage = st\<rparr>"

lemma demo_call_fields [simp]:
  "cl_raw (demo_call st) = ''access-100''" "cl_claims (demo_call st) = demo_claims TokenUseAccess"
  "cl_stage (demo_call st) = st"
  by (simp_all add: demo_call_def)

lemma demo_flight:
  "gw_reach (access_setup demo_env lag allowed) (\<lambda>_. True) (demo_now, empty_cache, [])
     (demo_checked, empty_cache, [demo_call (Got (101 * second) (Answered 200 0 demo_principal))])"
  using gw_flight [of "access_setup demo_env lag allowed" demo_now "''access-100''" "demo_claims TokenUseAccess"
      empty_cache "[]" "Answered 200 0 demo_principal" demo_checked]
  by (simp add: demo_access_check [simplified] demo_endpoint [simplified] empty_cache_def demo_call_def)

lemma demo_settle:
  "fst (settle access_kind id (101 * second) ''access-100'' (demo_claims TokenUseAccess)
     (Answered 200 0 demo_principal) empty_cache) = Inr demo_principal"
  by (simp add: settle_def validateWithHR_def access_kind_def access_empty_def access_matches_def
    demo_principal_def demo_claims_def) code_simp

lemma demo_last:
  "clock w = 101 * second \<Longrightarrow> 0 \<le> lag \<Longrightarrow>
     \<exists>s'. gw_step (access_setup demo_env lag allowed) (Answers ''access-100'' (Inr demo_principal))
       (w, empty_cache, [demo_call (Got (101 * second) (Answered 200 0 demo_principal))]) s'"
  using gw_settle [of "demo_call (Got (101 * second) (Answered 200 0 demo_principal))" "101 * second"
      "Answered 200 0 demo_principal" "access_setup demo_env lag allowed" w id empty_cache
      "Inr demo_principal" _ "[]" "[]"] demo_settle
  by (force simp: demo_env_def prod_eq_iff)

text \<open>The answer in the cache.\<close>

definition demo_cache :: "access_token_principal token_cache" where
  "demo_cache = \<lparr>tc_active = [(''access-100'', demo_principal, 161 * second)], tc_rejected = []\<rparr>"

lemma demo_cached:
  "gw_reach (access_setup demo_env 0 allowed) (\<lambda>_. True) (demo_now, empty_cache, []) (demo_checked, demo_cache, [])"
proof -
  have "clock demo_checked = 101 * second" by code_simp
  moreover have "settle access_kind id (101 * second) ''access-100'' (demo_claims TokenUseAccess)
      (Answered 200 0 demo_principal) empty_cache = (Inr demo_principal, demo_cache)"
    using demo_settle
    by (simp add: settle_def validateWithHR_def cachePrincipal_def pruneLocked_def cache_size_def empty_cache_def
      delete_rejected_def demo_claims_def access_kind_def demo_cache_def split: if_splits)
  ultimately have "gw_step (access_setup demo_env 0 allowed) (Answers ''access-100'' (Inr demo_principal))
      (demo_checked, empty_cache, [demo_call (Got (101 * second) (Answered 200 0 demo_principal))])
      (demo_checked, demo_cache, [])"
    using gw_settle [of "demo_call (Got (101 * second) (Answered 200 0 demo_principal))" "101 * second"
      "Answered 200 0 demo_principal" "access_setup demo_env 0 allowed" demo_checked id empty_cache
      "Inr demo_principal" demo_cache "[]" "[]"]
    by (simp add: demo_env_def)
  from gw_more [OF demo_flight TrueI this] show ?thesis by simp
qed

end
