(* ===== verification/GwCacheProps.thy ===== *)
theory GwCacheProps
  imports GwSamples
begin

text \<open>
  The cache of the gateway in every run: its keys are distinct, no hash is accepted and refused at
  once, it never holds more entries than its limit, and no principal stays longer than its minute.
\<close>

section \<open>Operations that only remove\<close>

definition shrinks :: "'p token_cache \<Rightarrow> 'p token_cache \<Rightarrow> bool" where
  "shrinks c c' \<longleftrightarrow> subseq (tc_active c') (tc_active c) \<and> subseq (tc_rejected c') (tc_rejected c)"

named_theorems shrinks_intros

lemma shrinks_refl [shrinks_intros]: "shrinks c c"
  by (simp add: shrinks_def)

lemma shrinks_trans: "shrinks c c1 \<Longrightarrow> shrinks c1 c2 \<Longrightarrow> shrinks c c2"
  unfolding shrinks_def by (meson subseq_order.trans)

lemma shrinks_size: "shrinks c c' \<Longrightarrow> cache_size c' \<le> cache_size c"
  unfolding shrinks_def cache_size_def by (meson add_mono list_emb_length)

lemma subseq_delete: "subseq (AList.delete k xs) xs"
  by (simp add: AList.delete_eq)

lemma subseq_drop_at: "subseq (drop_at i xs) xs"
proof (cases "i < length xs")
  case True
  then have "xs = take i xs @ xs ! i # drop (Suc i) xs" by (simp add: id_take_nth_drop)
  moreover have "subseq (take i xs @ drop (Suc i) xs) (take i xs @ xs ! i # drop (Suc i) xs)"
    by (intro list_emb_append_mono) auto
  ultimately show ?thesis unfolding drop_at_def by metis
qed (simp add: drop_at_def)

lemma subseq_set: "subseq xs ys \<Longrightarrow> set xs \<subseteq> set ys"
  by (auto dest: list_emb_set)

lemma subseq_distinct: "subseq xs ys \<Longrightarrow> distinct ys \<Longrightarrow> distinct xs"
  by (induction rule: list_emb.induct) (auto dest: subseq_set)

lemma shrinks_deletes [shrinks_intros]: "shrinks c (delete_active h c)" "shrinks c (delete_rejected h c)"
  by (simp_all add: shrinks_def delete_active_def delete_rejected_def subseq_delete)

lemma shrinks_evict [shrinks_intros]: "shrinks c (evict pick m c)"
proof (induction pick m c rule: evict.induct)
  case (1 pick m c)
  have less: "shrinks c (c\<lparr>tc_active := evicted pick (tc_active c)\<rparr>)"
    "shrinks c (c\<lparr>tc_rejected := evicted pick (tc_rejected c)\<rparr>)"
    by (simp_all add: shrinks_def evicted_def subseq_drop_at)
  show ?case
    using 1 less by (subst evict.simps) (auto intro: shrinks_refl shrinks_trans)
qed

lemma shrinks_prune [shrinks_intros]: "shrinks c (pruneLocked K pick t m c)"
proof -
  let ?c = "c\<lparr>tc_active := filter (\<lambda>(_, _, e). e > t) (tc_active c),
      tc_rejected := filter (\<lambda>(_, u). refusal_lasts K t u) (tc_rejected c)\<rparr>"
  have "shrinks c ?c" by (simp add: shrinks_def)
  then show ?thesis
    unfolding pruneLocked_def using shrinks_evict [of ?c pick m] by (auto intro: shrinks_refl shrinks_trans)
qed

lemma shrinks_look: "look_step K t h st c = (r, c') \<Longrightarrow> shrinks c c'"
  by (cases st) (auto split: cache_read.splits intro: shrinks_intros)

lemma evict_size: "cache_size (evict pick m c) \<le> m"
proof (induction pick m c rule: evict.induct)
  case (1 pick m c)
  show ?case using 1 by (subst evict.simps) (auto simp: cache_size_def)
qed

lemma prune_size: "cache_size (pruneLocked K pick t m c) \<le> m"
  by (simp add: pruneLocked_def evict_size)

section \<open>The cache is well formed\<close>

definition cache_ok :: "'p token_kind \<Rightarrow> 'p token_cache \<Rightarrow> bool" where
  "cache_ok K c \<longleftrightarrow> distinct (map fst (tc_active c)) \<and> distinct (map fst (tc_rejected c)) \<and>
     fst ` set (tc_active c) \<inter> fst ` set (tc_rejected c) = {} \<and> cache_size c \<le> tk_max K"

lemma shrinks_keys:
  assumes "shrinks c c'"
  shows "fst ` set (tc_active c') \<subseteq> fst ` set (tc_active c)" and "fst ` set (tc_rejected c') \<subseteq> fst ` set (tc_rejected c)"
    and "distinct (map fst (tc_active c)) \<Longrightarrow> distinct (map fst (tc_active c'))"
    and "distinct (map fst (tc_rejected c)) \<Longrightarrow> distinct (map fst (tc_rejected c'))"
proof -
  have sub: "subseq (tc_active c') (tc_active c)" "subseq (tc_rejected c') (tc_rejected c)"
    using assms by (simp_all add: shrinks_def)
  show "fst ` set (tc_active c') \<subseteq> fst ` set (tc_active c)" "fst ` set (tc_rejected c') \<subseteq> fst ` set (tc_rejected c)"
    using sub by (simp_all add: image_mono subseq_set)
  show "distinct (map fst (tc_active c)) \<Longrightarrow> distinct (map fst (tc_active c'))"
    "distinct (map fst (tc_rejected c)) \<Longrightarrow> distinct (map fst (tc_rejected c'))"
    using sub by (meson subseq_distinct subseq_map)+
qed

lemma cache_ok_shrinks: "cache_ok K c \<Longrightarrow> shrinks c c' \<Longrightarrow> cache_ok K c'"
  using shrinks_keys [of c c'] shrinks_size [of c c'] unfolding cache_ok_def by (meson disjoint_iff in_mono le_trans)

lemma cache_ok_empty [simp]: "cache_ok K empty_cache"
  by (simp add: cache_ok_def empty_cache_def cache_size_def)

lemma update_size: "length (AList.update k v xs) \<le> Suc (length xs)"
  using arg_cong [OF update_keys [of k v xs], of length] by (auto split: if_splits)

lemma cache_ok_insert:
  assumes "cache_ok K c" and "shrinks c c'" and "cache_size c' \<le> tk_max K - 1" and "0 < tk_max K"
  shows "h \<notin> fst ` set (tc_rejected c') \<Longrightarrow> cache_ok K (c'\<lparr>tc_active := AList.update h v (tc_active c')\<rparr>)"
    and "h \<notin> fst ` set (tc_active c') \<Longrightarrow> cache_ok K (c'\<lparr>tc_rejected := AList.update h u (tc_rejected c')\<rparr>)"
proof -
  have ok: "cache_ok K c'" by (rule cache_ok_shrinks [OF assms(1,2)])
  have "set (map fst (AList.update h v xs)) = insert h (set (map fst xs))" for v :: 'v and xs
    by (simp add: update_keys insert_absorb)
  then have keys: "fst ` set (AList.update h v xs) = insert h (fst ` set xs)" for v :: 'v and xs
    by simp
  show "cache_ok K (c'\<lparr>tc_active := AList.update h v (tc_active c')\<rparr>)" if "h \<notin> fst ` set (tc_rejected c')"
    using ok that assms(3,4) update_size [of h v "tc_active c'"]
    by (auto simp: cache_ok_def cache_size_def keys distinct_update)
  show "cache_ok K (c'\<lparr>tc_rejected := AList.update h u (tc_rejected c')\<rparr>)" if "h \<notin> fst ` set (tc_active c')"
    using ok that assms(3,4) update_size [of h u "tc_rejected c'"]
    by (auto simp: cache_ok_def cache_size_def keys distinct_update)
qed

lemma deleted_key:
  "shrinks (delete_rejected h c) c' \<Longrightarrow> h \<notin> fst ` set (tc_rejected c')"
  "shrinks (delete_active h c) c' \<Longrightarrow> h \<notin> fst ` set (tc_active c')"
  using shrinks_keys(1,2) [of _ c'] by (fastforce simp: delete_rejected_def delete_active_def AList.delete_eq)+

lemma cache_ok_cachePrincipal:
  assumes "cache_ok K c" and "0 < tk_max K"
  shows "cache_ok K (cachePrincipal K pick t h p e c)"
  unfolding cachePrincipal_def Let_def
  by (rule cache_ok_insert(1) [OF assms(1) shrinks_trans [OF shrinks_deletes(2) shrinks_prune] prune_size assms(2)])
    (rule deleted_key(1) [OF shrinks_prune])

lemma cache_ok_rejectUntil:
  assumes "cache_ok K c" and "0 < tk_max K"
  shows "cache_ok K (rejectUntil K pick t h u c)"
  unfolding rejectUntil_def Let_def
  by (rule cache_ok_insert(2) [OF assms(1) shrinks_trans [OF shrinks_deletes(1) shrinks_prune] prune_size assms(2)])
    (rule deleted_key(2) [OF shrinks_prune])

lemma settle_cases:
  assumes "settle K pick t h cl a c = (r, c')"
  shows "(\<exists>e. r = Inl e \<and> (c' = c \<or> (\<exists>u. c' = rejectUntil K pick t h u c))) \<or>
     (\<exists>p. r = Inr p \<and> validateWithHR K a = Inr p \<and> tk_matches K cl p \<and>
        c' = cachePrincipal K pick t h p (rc_expires_at cl) c)"
proof (cases "validateWithHR K a")
  case (Inl e)
  with assms show ?thesis by (cases "e = GErrAuthorityRejected") (auto simp: settle_def Inl)
next
  case (Inr p)
  with assms show ?thesis by (cases "tk_matches K cl p") (auto simp: settle_def Inr)
qed

text \<open>The interface of a gateway: it has room, and a notice refuses the hash or changes nothing.\<close>

locale gateway =
  fixes S :: "('w, 'p) gw_setup"
  assumes room: "0 < tk_max (su_kind S)"
    and notice: "su_notice S pick t h x c = c \<or> (\<exists>u. su_notice S pick t h x c = rejectUntil (su_kind S) pick t h u c)"
begin

lemma cache_ok_step:
  assumes "gw_step S l s s'" and "cache_ok (su_kind S) (fst (snd s))"
  shows "cache_ok (su_kind S) (fst (snd s'))"
  using assms
proof (cases rule: gw_step.cases)
  case (gw_notice w c ks pick h x)
  then show ?thesis using notice [of pick "su_time S w" h x c] assms(2) room
    by (auto intro: cache_ok_rejectUntil)
next
  case (gw_settle k t a w pick c r c' xs ys)
  then show ?thesis
    using settle_cases [OF gw_settle(6)] assms(2) room
    by (auto intro: cache_ok_cachePrincipal cache_ok_rejectUntil)
qed (auto intro: cache_ok_shrinks shrinks_look)

lemma cache_ok_reach:
  assumes "gw_reach S ok (w, empty_cache, ks) (w', c, ks')"
  shows "cache_ok (su_kind S) c"
  using gw_invariant [OF assms, of "\<lambda>s. cache_ok (su_kind S) (fst (snd s))"] cache_ok_step by simp

end

section \<open>The two gateways\<close>

interpretation access_gateway: gateway "access_setup E lag allowed" for E lag allowed
  by unfold_locales (auto simp: handleTokenInvalidate_def AccessMarkRevoked_def Let_def)

interpretation openapi_gateway: gateway "openapi_setup E lag allowed" for E lag allowed
  by unfold_locales (auto simp: OpenAPIMarkRevoked_def)

text \<open>
  C33. In every run the cache of access tokens holds at most 20000 entries, accepted and refused ones
  together, its keys are distinct, and no hash is accepted and refused at once.
\<close>

theorem token_cache_bounded:
  assumes "gw_reach (access_setup E lag allowed) ok (w, empty_cache, ks) (w', c, ks')"
  shows "length (tc_active c) + length (tc_rejected c) \<le> 20000 \<and> distinct (map fst (tc_active c)) \<and>
     distinct (map fst (tc_rejected c)) \<and> fst ` set (tc_active c) \<inter> fst ` set (tc_rejected c) = {}"
  using access_gateway.cache_ok_reach [OF assms] by (simp add: cache_ok_def cache_size_def)

text \<open>Applied to a run that leaves a principal in the cache.\<close>

theorem token_cache_bounded_witness:
  "gw_reach (access_setup demo_env 0 (\<lambda>_. True)) (\<lambda>_. True) (demo_now, empty_cache, []) (demo_checked, demo_cache, []) \<and>
   length (tc_active demo_cache) + length (tc_rejected demo_cache) \<le> 20000"
  using token_cache_bounded [OF demo_cached] demo_cached by blast

text \<open>The cache of OpenAPI tokens.\<close>

lemma openapi_cache_bounded:
  assumes "gw_reach (openapi_setup E lag allowed) ok (w, empty_cache, ks) (w', c, ks')"
  shows "length (tc_active c) + length (tc_rejected c) \<le> 10000 \<and> distinct (map fst (tc_active c)) \<and>
     distinct (map fst (tc_rejected c)) \<and> fst ` set (tc_active c) \<inter> fst ` set (tc_rejected c) = {}"
  using openapi_gateway.cache_ok_reach [OF assms] by (simp add: cache_ok_def cache_size_def)

end
