(* ===== verification/GwProps.thy ===== *)
theory GwProps
  imports GwCacheProps GwSamples HrProps
begin

text \<open>
  What the gateway still lets in after the HR server has decided otherwise. The interface the gateway
  relies on is an authority whose clock does not run backwards and which, once it denies a principal,
  never grants it again; under it an acceptance is a minute and one question old at most. The HR
  server provides it for both kinds of token.
\<close>

section \<open>An authority with a clock\<close>

definition stage_start :: "'p stage \<Rightarrow> int option" where
  "stage_start st = (case st of Asking t \<Rightarrow> Some t | Got t _ \<Rightarrow> Some t | _ \<Rightarrow> None)"

lemma stage_start_simps [simp]:
  "stage_start (Asking t) = Some t" "stage_start (Got t a) = Some t" "stage_start Joining = None"
  "stage_start (AtRejected i) = None" "stage_start (SweepRejected i) = None"
  "stage_start (AtActive i) = None" "stage_start (SweepActive i) = None"
  "stage_start (past_cache i t) = (if i then Some t else None)"
  by (simp_all add: stage_start_def past_cache_def)

text \<open>Entries end within the time to live, and no question was asked in the future.\<close>

definition timely :: "('w, 'p) gw_setup \<Rightarrow> ('w, 'p) gw_state \<Rightarrow> bool" where
  "timely S = (\<lambda>(w, c, ks).
     (\<forall>(h, p, e) \<in> set (tc_active c). e \<le> su_time S w + tk_active_ttl (su_kind S)) \<and>
     (\<forall>k \<in> set ks. \<forall>t. stage_start (cl_stage k) = Some t \<longrightarrow> t \<le> su_time S w))"

lemma set_update_entry: "(k', v') \<in> set (AList.update k v xs) \<Longrightarrow> (k', v') \<in> set xs \<or> k' = k \<and> v' = v"
  by (induction xs) (auto split: if_splits)

lemma cachePrincipal_entry:
  assumes "(h', p', e') \<in> set (tc_active (cachePrincipal K pick t h p ex c))"
  shows "(h', p', e') \<in> set (tc_active c) \<or>
     h' = h \<and> p' = p \<and> e' \<le> t + tk_active_ttl K \<and> (\<forall>e. ex = Some e \<longrightarrow> e' \<le> e)"
proof -
  have "shrinks c (pruneLocked K pick t (tk_max K - 1) (delete_rejected h c))"
    by (rule shrinks_trans [OF shrinks_deletes(2) shrinks_prune])
  then have "set (tc_active (pruneLocked K pick t (tk_max K - 1) (delete_rejected h c))) \<subseteq> set (tc_active c)"
    by (simp add: shrinks_def subseq_set)
  then show ?thesis
    using assms by (auto simp: cachePrincipal_def Let_def dest!: set_update_entry split: option.splits)
qed

lemma rejectUntil_active: "set (tc_active (rejectUntil K pick t h u c)) \<subseteq> set (tc_active c)"
proof -
  have "shrinks c (pruneLocked K pick t (tk_max K - 1) (delete_active h c))"
    by (rule shrinks_trans [OF shrinks_deletes(1) shrinks_prune])
  then show ?thesis by (simp add: rejectUntil_def Let_def shrinks_def subseq_set)
qed

lemma shrinks_active: "shrinks c c' \<Longrightarrow> set (tc_active c') \<subseteq> set (tc_active c)"
  by (simp add: shrinks_def subseq_set)

text \<open>What a settled answer leaves among the accepted entries.\<close>

lemma settle_active:
  assumes "settle K pick t h cl a c = (r, c')" and "(h', p, e) \<in> set (tc_active c')"
  shows "(h', p, e) \<in> set (tc_active c) \<or> validateWithHR K a = Inr p \<and> e \<le> t + tk_active_ttl K"
  using settle_cases [OF assms(1)] assms(2)
  by (auto dest: cachePrincipal_entry subsetD [OF rejectUntil_active])

lemma look_step_start:
  "look_step K t h st c = (Inl st', c') \<Longrightarrow> looking st \<Longrightarrow> stage_start st' = Some t' \<Longrightarrow> t' = t"
  by (cases st) (auto split: cache_read.splits if_splits)

lemma look_step_got: "look_step K t h st c = (Inl st', c') \<Longrightarrow> looking st \<Longrightarrow> st' \<noteq> Got t0 a"
  by (cases st) (auto split: cache_read.splits if_splits simp: past_cache_def)

lemma look_step_accepts:
  assumes "look_step K t h st c = (Inr (Inr p), c')"
  shows "\<exists>e. (h, p, e) \<in> set (tc_active c) \<and> e > t"
  using assms by (cases st) (auto simp: read_active_def split: cache_read.splits option.splits if_splits dest!: map_of_SomeD)

locale timed_authority = gateway S for S :: "('w, 'p) gw_setup" +
  assumes step_time: "su_step S w w' \<Longrightarrow> su_time S w \<le> su_time S w'"
    and ask_time: "su_ask S raw w a w' \<Longrightarrow> su_time S w \<le> su_time S w'"
begin

lemma notice_active: "set (tc_active (su_notice S pick t h x c)) \<subseteq> set (tc_active c)"
  using notice [of pick t h x c] rejectUntil_active by (elim disjE exE) simp_all

lemma timely_step:
  assumes "gw_step S l s s'" and "timely S s"
  shows "timely S s'"
  using assms
proof (cases rule: gw_step.cases)
  case (gw_authority w w' c ks)
  then show ?thesis using assms(2) step_time [of w w'] by (fastforce simp: timely_def)
next
  case (gw_notice w c ks pick h x)
  then show ?thesis using assms(2) notice_active [of pick "su_time S w" h x c] by (fastforce simp: timely_def)
next
  case (gw_look k w c st c' xs ys)
  then show ?thesis
    using assms(2) shrinks_active [OF shrinks_look [OF gw_look(5)]] look_step_start [OF gw_look(5,4)]
    by (fastforce simp: timely_def)
next
  case (gw_look_ends k w c r c' xs ys)
  then show ?thesis
    using assms(2) shrinks_active [OF shrinks_look [OF gw_look_ends(5)]] by (fastforce simp: timely_def)
next
  case (gw_asked k t w a w' c xs ys)
  then show ?thesis using assms(2) ask_time [OF gw_asked(5)] by (fastforce simp: timely_def)
next
  case (gw_settle k t a w pick c r c' xs ys)
  then show ?thesis using assms(2) settle_active [OF gw_settle(6)] by (fastforce simp: timely_def)
qed (auto simp: timely_def)

lemma timely_reach: "gw_reach S ok s0 s \<Longrightarrow> timely S s0 \<Longrightarrow> timely S s"
  by (erule gw_invariant [where I = "timely S"]) (auto intro: timely_step)

end

text \<open>Denying a principal is final.\<close>

locale denying_authority = timed_authority S for S :: "('w, 'p) gw_setup" +
  fixes denied :: "'p \<Rightarrow> 'w \<Rightarrow> bool"
  assumes step_denied: "su_step S w w' \<Longrightarrow> denied p w \<Longrightarrow> denied p w'"
    and ask_denied: "su_ask S raw w a w' \<Longrightarrow> denied p w \<Longrightarrow> denied p w'"
    and ask_refused: "su_ask S raw w a w' \<Longrightarrow> denied p w \<Longrightarrow> validateWithHR (su_kind S) a \<noteq> Inr p"
begin

definition fading :: "'p \<Rightarrow> int \<Rightarrow> ('w, 'p) gw_state \<Rightarrow> bool" where
  "fading p T = (\<lambda>(w, c, ks). denied p w \<and>
     (\<forall>(h, p', e) \<in> set (tc_active c). p' = p \<longrightarrow> e \<le> T + su_limit S + tk_active_ttl (su_kind S)) \<and>
     (\<forall>k \<in> set ks. \<forall>t a. cl_stage k = Got t a \<longrightarrow> validateWithHR (su_kind S) a = Inr p \<longrightarrow> t \<le> T))"

lemma fading_step:
  assumes "gw_step S l s s'" and "fading p T s"
  shows "fading p T s'"
  using assms
proof (cases rule: gw_step.cases)
  case (gw_authority w w' c ks)
  then show ?thesis using assms(2) step_denied [of w w'] by (fastforce simp: fading_def)
next
  case (gw_notice w c ks pick h x)
  then show ?thesis using assms(2) notice_active [of pick "su_time S w" h x c] by (fastforce simp: fading_def)
next
  case (gw_look k w c st c' xs ys)
  then show ?thesis
    using assms(2) shrinks_active [OF shrinks_look [OF gw_look(5)]] look_step_got [OF gw_look(5,4)]
    by (fastforce simp: fading_def)
next
  case (gw_look_ends k w c r c' xs ys)
  then show ?thesis
    using assms(2) shrinks_active [OF shrinks_look [OF gw_look_ends(5)]] by (fastforce simp: fading_def)
next
  case (gw_asked k t w a w' c xs ys)
  then show ?thesis
    using assms(2) ask_denied [OF gw_asked(5)] ask_refused [OF gw_asked(5)] by (fastforce simp: fading_def)
next
  case (gw_lost k t a w c xs ys)
  then show ?thesis using assms(2) by (fastforce simp: fading_def validateWithHR_def)
next
  case (gw_settle k t a w pick c r c' xs ys)
  then have "t \<le> T" if "validateWithHR (su_kind S) a = Inr p"
    using assms(2) that by (fastforce simp: fading_def)
  then show ?thesis using gw_settle assms(2) settle_active [OF gw_settle(6)] by (fastforce simp: fading_def)
qed (auto simp: fading_def)

lemma accepted_in_time:
  assumes start: "timely S (w0, c0, ks0)" and denied: "denied p w0" and limit: "0 \<le> su_limit S" "0 < tk_active_ttl (su_kind S)"
    and run: "gw_reach S ok (w0, c0, ks0) (w, c, ks)" and last: "gw_step S (Answers raw (Inr p)) (w, c, ks) s'"
  shows "su_time S w < su_time S w0 + su_limit S + tk_active_ttl (su_kind S)"
proof -
  have "fading p (su_time S w0) (w0, c0, ks0)"
    using start denied limit by (fastforce simp: fading_def timely_def)
  then have fading: "fading p (su_time S w0) (w, c, ks)"
    using run by - (erule gw_invariant [where I = "fading p (su_time S w0)"], auto intro: fading_step)
  from last show ?thesis
  proof (cases rule: gw_step.cases)
    case (gw_look_ends k c' xs ys)
    from look_step_accepts [OF gw_look_ends(5)] gw_look_ends fading show ?thesis
      by (fastforce simp: fading_def)
  next
    case (gw_settle k t a pick c' xs ys)
    then have "validateWithHR (su_kind S) a = Inr p" using settle_cases [OF gw_settle(6)] by auto
    then have "t \<le> su_time S w0" using fading gw_settle by (auto simp: fading_def)
    then show ?thesis using gw_settle limit by simp
  qed
qed

end

section \<open>The HR server is such an authority\<close>

lemma wrapping_intros [stable_intros, timeless_intros, counts_intros]:
  "stable I m \<Longrightarrow> stable I (wrapping f m)" "timeless m \<Longrightarrow> timeless (wrapping f m)"
  "counts_up m \<Longrightarrow> counts_up (wrapping f m)"
  "stable I (checked_claims e r)" "timeless (checked_claims e r)" "counts_up (checked_claims e r)"
  "timeless (found_row v)"
  unfolding stable_def timeless_def counts_up_def wrapping_def checked_claims_def found_row_def fail_def ret_def
  by (auto split: prod.split sum.split option.split) (metis snd_conv)+

lemma access_check_quiet:
  "stable I (ValidateAccessToken E raw)" "timeless (ValidateAccessToken E raw)" "counts_up (ValidateAccessToken E raw)"
  unfolding ValidateAccessToken_def GetUserSessionByToken_def UserGetByID_def Let_def
  by (intro stable_intros timeless_intros counts_intros)+

lemma user_lookup_quiet:
  "stable I (GetUserByUsername n)" "timeless (GetUserByUsername n)" "counts_up (GetUserByUsername n)"
  unfolding GetUserByUsername_def UserGetByUsername_def
  by (intro stable_intros timeless_intros counts_intros)+

lemma touch_timeless [timeless_intros]: "timeless (touch_api_token i t ip agent)"
  by (simp add: touch_api_token_def timeless_modify)

lemma timeless_case_prod [timeless_intros]: "(\<And>a b. timeless (g a b)) \<Longrightarrow> timeless (case p of (a, b) \<Rightarrow> g a b)"
  by (simp split: prod.split)

lemma stable_case_token [stable_intros]:
  "stable I n \<Longrightarrow> (\<And>x. stable I (h x)) \<Longrightarrow> stable I (case v of None \<Rightarrow> n | Some x \<Rightarrow> h x)"
  by (simp split: option.split)

lemma openapi_check_quiet:
  "timeless (TokenValidate E raw ip agent)" "counts_up (TokenValidate E raw ip agent)"
  "stable (\<lambda>s. users s = us \<and> shut i name s) (TokenValidate E raw ip agent)"
  unfolding TokenValidate_def Let_def
  by (intro timeless_intros) (intro counts_intros counts_operations, intro stable_intros shut_operations)

text \<open>An endpoint does not move the clock and keeps a locked out account locked out.\<close>

lemma AccessTokenEndpoint_keeps:
  assumes "AccessTokenEndpoint E raw w = (a, w')"
  shows "clock w' = clock w" and "locked_out i name w \<Longrightarrow> locked_out i name w'"
proof -
  have w': "w' = w \<or> w' = snd (ValidateAccessToken E (trim_space raw) w)"
    using assms by (auto simp: AccessTokenEndpoint_def Let_def split: if_splits sum.splits prod.splits)
  then show "clock w' = clock w" using access_check_quiet(2) by (auto simp: timeless_def)
  show "locked_out i name w'" if "locked_out i name w"
    using w' that locked_out_stable [OF access_check_quiet(1,3)] by auto
qed

lemma OpenAPITokenEndpoint_keeps:
  assumes "OpenAPITokenEndpoint E header ip agent w = (a, w')"
  shows "clock w' = clock w" and "locked_out i name w \<Longrightarrow> locked_out i name w'"
proof -
  let ?w = "snd (TokenValidate E (BearerToken header) ip agent w)"
  have w': "w' = w \<or> w' = ?w \<or> (\<exists>n. w' = snd (GetUserByUsername n ?w))"
    using assms
    by (auto simp: OpenAPITokenEndpoint_def Let_def split: if_splits sum.splits prod.splits; metis snd_conv)
  have time: "clock ?w = clock w" using openapi_check_quiet(1) by (simp add: timeless_def)
  then show "clock w' = clock w" using w' user_lookup_quiet(2) by (auto simp: timeless_def)
  show "locked_out i name w'" if "locked_out i name w"
  proof -
    have "locked_out i name ?w" by (rule locked_out_stable [OF openapi_check_quiet(3,2) that])
    then show ?thesis using w' that locked_out_stable [OF user_lookup_quiet(1,3)] by auto
  qed
qed

lemma AccessTokenEndpoint_refuses:
  assumes "AccessTokenEndpoint E raw w = (a, w')" and "locked_out (tp_user_id p) name w"
  shows "validateWithHR access_kind a \<noteq> Inr p"
proof -
  have "ValidateAccessToken E (trim_space raw) w \<noteq> (Inr p, w')"
    using assms(2) by (force simp: locked_out_def elim: ValidateAccessToken_row)
  then show ?thesis
    using assms(1)
    by (auto simp: AccessTokenEndpoint_def validateWithHR_def Let_def split: if_splits sum.splits prod.splits)
qed

lemma OpenAPITokenEndpoint_refuses:
  assumes "OpenAPITokenEndpoint E header ip agent w = (a, w')" and "locked_out i (op_username p) w"
  shows "validateWithHR openapi_kind a \<noteq> Inr p"
proof -
  have refused: "\<forall>w''. TokenValidate E (BearerToken header) ip agent w \<noteq> (Inr p, w'')"
    using assms(2) TokenValidate_row [of E "BearerToken header" ip agent w p]
    by (fastforce simp: locked_out_def shut_def)
  show ?thesis
    using assms(1) refused
    by (auto simp: OpenAPITokenEndpoint_def validateWithHR_def Let_def split: if_splits sum.splits prod.splits)
qed

interpretation access_clock: timed_authority "access_setup E lag allowed" for E lag allowed
  by unfold_locales (auto simp: hr_moves_def AccessTokenEndpoint_keeps(1))

interpretation openapi_clock: timed_authority "openapi_setup E lag allowed" for E lag allowed
  by unfold_locales (auto simp: hr_moves_def dest: OpenAPITokenEndpoint_keeps(1))

interpretation access_hr: denying_authority "access_setup E lag (\<lambda>l. l \<noteq> Activates i)"
  "\<lambda>p w. tp_user_id p = i \<and> locked_out i name w" for E lag i name
  by unfold_locales
    (auto simp: hr_moves_def intro: locked_out_step AccessTokenEndpoint_keeps(2) dest: AccessTokenEndpoint_refuses)

interpretation openapi_hr: denying_authority "openapi_setup E lag (\<lambda>l. l \<noteq> Activates i)"
  "\<lambda>p w. op_username p = name \<and> locked_out i name w" for E lag i name
  by unfold_locales
    (auto simp: hr_moves_def intro: locked_out_step OpenAPITokenEndpoint_keeps(2) dest: OpenAPITokenEndpoint_refuses)

section \<open>A suspended account at the gateway\<close>

lemma timeless_ChangeUserStatus: "timeless (ChangeUserStatus name status actor reason)"
  unfolding ChangeUserStatus_def UserGetByUsername_def freeze_account_def set_user_status_def
    add_status_event_def deactivate_def revoke_tokens_def Let_def
  by (intro timeless_intros)

lemma timely_empty: "timely S (w, empty_cache, [])"
  by (simp add: timely_def empty_cache_def)

text \<open>
  C30. Once the HR server has suspended an account, the gateway stops accepting its access tokens within a
  minute and the time of one question. Take any run of the gateway from an empty cache up to the
  suspension, with whatever in the cache and on the way then, and any continuation in which nobody
  activates the account: a request that is still let in as this user is let in less than 65 seconds
  after the suspension, plus the \<open>lag\<close> the gateway may take between the timeout of its client and the
  write to its cache.
\<close>

theorem suspended_user_expires_at_gateway:
  assumes "gw_reach (access_setup E lag (\<lambda>_. True)) ok (w00, empty_cache, []) (w0, c0, ks0)"
    and "users_ok w0" and "ChangeUserStatus name status actor reason w0 = (Inr (u, ss, ts), w1)"
    and "status \<noteq> StatusActive" and "0 \<le> lag"
    and "gw_reach (access_setup E lag (\<lambda>l. l \<noteq> Activates (us_id u))) ok' (w1, c0, ks0) (w, c, ks)"
    and "gw_step (access_setup E lag (\<lambda>l. l \<noteq> Activates (us_id u))) (Answers raw (Inr p)) (w, c, ks) s'"
    and "tp_user_id p = us_id u"
  shows "clock w < clock w1 + (65 * second + lag)"
proof -
  have "timely (access_setup E lag (\<lambda>_. True)) (w0, c0, ks0)"
    by (rule access_clock.timely_reach [OF assms(1) timely_empty])
  moreover have "clock w1 = clock w0"
    by (rule timelessD [OF timeless_ChangeUserStatus assms(3)])
  ultimately have start: "timely (access_setup E lag (\<lambda>l. l \<noteq> Activates (us_id u))) (w1, c0, ks0)"
    by (simp add: timely_def)
  have "tp_user_id p = us_id u \<and> locked_out (us_id u) name w1"
    using ChangeUserStatus_locks_out [OF assms(2-4)] assms(8) by simp
  from access_hr.accepted_in_time [OF start this _ _ assms(6,7)] show ?thesis
    using assms(5) by simp
qed

text \<open>
  Applied to an account that is suspended while the HR server's answer is on the way: the answer
  still lets the request in.
\<close>

definition demo_suspended :: "hr_db world" where
  "demo_suspended = snd (ChangeUserStatus ''bob'' ''disabled'' ''root'' ''left'' demo_checked)"

theorem suspended_user_expires_at_gateway_witness:
  "\<exists>s'. gw_step (access_setup demo_env 0 (\<lambda>l. l \<noteq> Activates 7)) (Answers ''access-100'' (Inr demo_principal))
     (demo_suspended, empty_cache, [demo_call (Got (101 * second) (Answered 200 0 demo_principal))]) s' \<and>
     clock demo_suspended < clock demo_suspended + 65 * second"
proof -
  let ?op = "ChangeUserStatus ''bob'' ''disabled'' ''root'' ''left'' demo_checked"
  have ok: "users_ok demo_checked" by code_simp
  have "map_sum id (us_id \<circ> fst) (fst ?op) = Inr 7" by code_simp
  then obtain u ss ts where run: "?op = (Inr (u, ss, ts), demo_suspended)" and u: "us_id u = 7"
    by (cases ?op; cases "fst ?op") (auto simp: demo_suspended_def)
  have "clock demo_suspended = 101 * second" by code_simp
  then obtain s' where last: "gw_step (access_setup demo_env 0 (\<lambda>l. l \<noteq> Activates 7))
      (Answers ''access-100'' (Inr demo_principal))
      (demo_suspended, empty_cache, [demo_call (Got (101 * second) (Answered 200 0 demo_principal))]) s'"
    using demo_last [of demo_suspended 0 "\<lambda>l. l \<noteq> Activates 7"] by auto
  have "clock demo_suspended < clock demo_suspended + (65 * second + 0)"
    by (rule suspended_user_expires_at_gateway [OF demo_flight ok run _ _ gw_refl last [folded u]])
      (simp_all add: u demo_principal_def)
  then show ?thesis using last by (intro exI [of _ s'] conjI) simp_all
qed

text \<open>The same for the OpenAPI tokens of the account.\<close>

theorem suspended_token_expires_at_gateway:
  assumes "gw_reach (openapi_setup E lag (\<lambda>_. True)) ok (w00, empty_cache, []) (w0, c0, ks0)"
    and "users_ok w0" and "ChangeUserStatus name status actor reason w0 = (Inr (u, ss, ts), w1)"
    and "status \<noteq> StatusActive" and "0 \<le> lag"
    and "gw_reach (openapi_setup E lag (\<lambda>l. l \<noteq> Activates (us_id u))) ok' (w1, c0, ks0) (w, c, ks)"
    and "gw_step (openapi_setup E lag (\<lambda>l. l \<noteq> Activates (us_id u))) (Answers raw (Inr p)) (w, c, ks) s'"
    and "op_username p = name"
  shows "clock w < clock w1 + (65 * second + lag)"
proof -
  have "timely (openapi_setup E lag (\<lambda>_. True)) (w0, c0, ks0)"
    by (rule openapi_clock.timely_reach [OF assms(1) timely_empty])
  moreover have "clock w1 = clock w0"
    by (rule timelessD [OF timeless_ChangeUserStatus assms(3)])
  ultimately have start: "timely (openapi_setup E lag (\<lambda>l. l \<noteq> Activates (us_id u))) (w1, c0, ks0)"
    by (simp add: timely_def)
  have "op_username p = name \<and> locked_out (us_id u) name w1"
    using ChangeUserStatus_locks_out [OF assms(2-4)] assms(8) by simp
  from openapi_hr.accepted_in_time [OF start this _ _ assms(6,7)] show ?thesis
    using assms(5) by simp
qed

end
