(* ===== verification/GwRevokeProps.thy ===== *)
theory GwRevokeProps
  imports GwProps
begin

text \<open>
  Revocation notices at the gateway: once a notice is in, the hash is refused until the end the
  notice sets, unless a question to the HR server was already past the cache; such an answer
  overtakes the notice and lets the token in again for up to a minute.
\<close>

section \<open>A notice holds\<close>

text \<open>A call that has passed the look for refusals inside its group, or is about to delete one.\<close>

fun overtaking :: "'p stage \<Rightarrow> bool" where
  "overtaking (AtRejected _) = False"
| "overtaking (SweepRejected _) = True"
| "overtaking (AtActive i) = i"
| "overtaking (SweepActive i) = i"
| "overtaking Joining = False"
| "overtaking (Asking _) = True"
| "overtaking (Got _ _) = True"

text \<open>The refusal of \<open>h\<close> stands at least until \<open>e\<close>, and no call on \<open>h\<close> is about to undo it.\<close>

definition standing :: "('w, 'p) gw_setup \<Rightarrow> gostr \<Rightarrow> int \<Rightarrow> 'p token_cache \<Rightarrow> 'p gw_call list \<Rightarrow> bool" where
  "standing S h e c ks \<longleftrightarrow>
     (\<exists>e'. map_of (tc_rejected c) h = Some (Some e') \<and> e \<le> e') \<and> map_of (tc_active c) h = None \<and>
     (\<forall>k \<in> set ks. su_hash S (cl_raw k) = h \<longrightarrow> \<not> overtaking (cl_stage k))"

lemma prune_roomy: "cache_size c < tk_max K \<Longrightarrow> shrinks c c' \<Longrightarrow> pruneLocked K pick t (tk_max K - 1) c' = c'"
  using shrinks_size [of c c'] by (simp add: pruneLocked_def)

lemma roomy_writes:
  assumes "cache_size c < tk_max K"
  shows "rejectUntil K pick t h u c =
      (delete_active h c)\<lparr>tc_rejected := AList.update h u (tc_rejected (delete_active h c))\<rparr>"
    and "\<exists>v. cachePrincipal K pick t h p ex c =
      (delete_rejected h c)\<lparr>tc_active := AList.update h v (tc_active (delete_rejected h c))\<rparr>"
  using prune_roomy [OF assms shrinks_deletes(1)] prune_roomy [OF assms shrinks_deletes(2)]
  by (auto simp del: One_nat_def simp: rejectUntil_def cachePrincipal_def Let_def)

lemma map_of_deletes [simp]:
  "map_of (tc_active (delete_active h c)) = (map_of (tc_active c))(h := None)"
  "map_of (tc_rejected (delete_rejected h c)) = (map_of (tc_rejected c))(h := None)"
  "tc_rejected (delete_active h c) = tc_rejected c" "tc_active (delete_rejected h c) = tc_active c"
  by (simp_all add: delete_active_def delete_rejected_def delete_conv')

lemma standing_other_write:
  assumes "standing S h e c ks" and "cache_size c < tk_max K" and "h' \<noteq> h"
  shows "standing S h e (rejectUntil K pick t h' u c) ks" and "standing S h e (cachePrincipal K pick t h' p ex c) ks"
  using assms(1,3) roomy_writes(1) [OF assms(2), of pick t h' u] roomy_writes(2) [OF assms(2), of pick t h' p ex]
  by (auto simp: standing_def update_conv')

lemma standing_refused:
  "standing S h e c ks \<Longrightarrow> e \<le> e' \<Longrightarrow> cache_size c < tk_max K \<Longrightarrow>
     standing S h e (rejectUntil K pick t h (Some e') c) ks"
  by (simp add: standing_def roomy_writes(1) update_conv')

lemma standing_new:
  assumes "0 < tk_max K" and "\<forall>k \<in> set ks. su_hash S (cl_raw k) = h \<longrightarrow> \<not> overtaking (cl_stage k)"
  shows "standing S h e (rejectUntil K pick t h (Some e) c) ks"
proof -
  let ?c = "pruneLocked K pick t (tk_max K - 1) (delete_active h c)"
  have "h \<notin> fst ` set (tc_active ?c)" by (rule deleted_key(2) [OF shrinks_prune])
  then have "map_of (tc_active ?c) h = None" by (simp add: map_of_eq_None_iff)
  then show ?thesis using assms(2) by (simp add: standing_def rejectUntil_def Let_def update_conv')
qed

lemma standing_calls:
  "standing S h e c ks \<Longrightarrow> (\<And>k. k \<in> set ks' \<Longrightarrow> k \<notin> set ks \<Longrightarrow> su_hash S (cl_raw k) = h \<Longrightarrow> \<not> overtaking (cl_stage k)) \<Longrightarrow>
     standing S h e c ks'"
  unfolding standing_def by blast

lemma standing_look:
  assumes "standing S h e c ks" and "t < e" and "k \<in> set ks" and "looking (cl_stage k)"
    and "look_step K t (su_hash S (cl_raw k)) (cl_stage k) c = (r, c')"
  shows "standing S h e c' ks"
    and "r = Inl st \<Longrightarrow> su_hash S (cl_raw k) = h \<Longrightarrow> \<not> overtaking st"
    and "r = Inr v \<Longrightarrow> su_hash S (cl_raw k) = h \<Longrightarrow> v = Inl (tk_refused K)"
proof -
  obtain e' where e': "map_of (tc_rejected c) h = Some (Some e')" "t < e'"
    using assms(1,2) by (auto simp: standing_def)
  have same: "(\<exists>i. cl_stage k = AtRejected i) \<or> cl_stage k = AtActive False \<or> cl_stage k = SweepActive False"
    if "su_hash S (cl_raw k) = h"
    using assms(1,3,4) that by (cases "cl_stage k") (auto simp: standing_def)
  have none: "map_of (tc_active c) h = None" using assms(1) by (simp add: standing_def)
  have cases: "c' = c \<or> c' = delete_active (su_hash S (cl_raw k)) c \<or>
      c' = delete_rejected (su_hash S (cl_raw k)) c \<and> (\<exists>i. cl_stage k = SweepRejected i)"
    using assms(4,5) by (cases "cl_stage k") (auto split: cache_read.splits)
  show "standing S h e c' ks"
    using cases assms(1) same by (auto simp: standing_def)
  show "\<not> overtaking st" if "r = Inl st" "su_hash S (cl_raw k) = h"
    using same [OF that(2)] assms(5) that e' none
    by (auto simp: read_rejected_def read_active_def refusal_lasts_def past_cache_def)
  show "v = Inl (tk_refused K)" if "r = Inr v" "su_hash S (cl_raw k) = h"
    using same [OF that(2)] assms(5) that e' none
    by (auto simp: read_rejected_def read_active_def refusal_lasts_def past_cache_def)
qed

text \<open>A gateway whose notices refuse until an end that depends on the time alone.\<close>

locale revoking_gateway = timed_authority S for S :: "('w, 'p) gw_setup" +
  fixes ends :: "int \<Rightarrow> int"
  assumes notice_ends: "trim_space h \<noteq> [] \<Longrightarrow> 0 < ends t \<Longrightarrow>
      su_notice S pick t h x c = rejectUntil (su_kind S) pick t h (Some (ends t)) c"
    and ends_mono: "t \<le> t' \<Longrightarrow> ends t \<le> ends t'"
begin

definition held :: "gostr \<Rightarrow> int \<Rightarrow> ('w, 'p) gw_state \<Rightarrow> bool" where
  "held h T = (\<lambda>(w, c, ks). T \<le> su_time S w \<and> (su_time S w < ends T \<longrightarrow> standing S h (ends T) c ks))"

lemma held_step:
  assumes "gw_step S l s s'" and "held h T s" and room: "cache_size (fst (snd s)) < tk_max (su_kind S)"
    and h: "trim_space h \<noteq> []" "0 < ends T"
  shows "held h T s'"
  using assms(1)
proof (cases rule: gw_step.cases)
  case (gw_authority w w' c ks)
  then show ?thesis using assms(2) step_time [of w w'] by (auto simp: held_def)
next
  case (gw_notice w c ks pick h' x)
  let ?t = "su_time S w"
  show ?thesis
  proof (cases "h' = h")
    case True
    have "ends T \<le> ends ?t" using assms(2) gw_notice ends_mono by (simp add: held_def)
    then show ?thesis
      using gw_notice assms(2) room h True notice_ends [of h ?t pick x c]
      by (auto simp: held_def intro: standing_refused)
  next
    case False
    then show ?thesis
      using gw_notice assms(2) room notice [of pick ?t h' x c]
      by (auto simp: held_def intro: standing_other_write)
  qed
next
  case (gw_look k w c st c' xs ys)
  show ?thesis
  proof (cases "su_time S w < ends T")
    case True
    then have st: "standing S h (ends T) c (xs @ k # ys)" using gw_look assms(2) by (simp add: held_def)
    note look = standing_look [OF st True _ gw_look(4,5)]
    have "standing S h (ends T) c' (xs @ k\<lparr>cl_stage := st\<rparr> # ys)"
      by (rule standing_calls [OF look(1)]) (use look(2) in auto)
    then show ?thesis using gw_look assms(2) by (simp add: held_def)
  qed (use gw_look assms(2) in \<open>simp add: held_def\<close>)
next
  case (gw_look_ends k w c r c' xs ys)
  show ?thesis
  proof (cases "su_time S w < ends T")
    case True
    then have st: "standing S h (ends T) c (xs @ k # ys)" using gw_look_ends assms(2) by (simp add: held_def)
    have "standing S h (ends T) c' (xs @ ys)"
      by (rule standing_calls [OF standing_look(1) [OF st True _ gw_look_ends(4,5)]]) auto
    then show ?thesis using gw_look_ends assms(2) by (simp add: held_def)
  qed (use gw_look_ends assms(2) in \<open>simp add: held_def\<close>)
next
  case (gw_asked k t w a w' c xs ys)
  then show ?thesis
    using assms(2) ask_time [OF gw_asked(5)] by (auto simp: held_def standing_def)
next
  case (gw_settle k t a w pick c r c' xs ys)
  have "standing S h (ends T) c' (xs @ ys)" if "su_time S w < ends T"
  proof -
    have st: "standing S h (ends T) c (xs @ k # ys)" using that gw_settle assms(2) by (simp add: held_def)
    then have other: "su_hash S (cl_raw k) \<noteq> h" using gw_settle by (auto simp: standing_def)
    have "standing S h (ends T) c (xs @ ys)" by (rule standing_calls [OF st]) auto
    then show ?thesis
      using settle_cases [OF gw_settle(6)] room gw_settle(2) other
      by (auto intro: standing_other_write)
  qed
  then show ?thesis using gw_settle assms(2) by (simp add: held_def)
qed (use assms(2) in \<open>auto simp: held_def standing_def\<close>)

lemma refused_after_notice:
  assumes "trim_space h \<noteq> []" and "0 < ends (su_time S w0)"
    and "\<forall>k \<in> set ks0. su_hash S (cl_raw k) = h \<longrightarrow> \<not> overtaking (cl_stage k)"
    and run: "gw_reach S (\<lambda>(_, c, _). cache_size c < tk_max (su_kind S))
        (w0, su_notice S pick (su_time S w0) h x c0, ks0) (w, c, ks)"
    and last: "gw_step S (Answers raw r) (w, c, ks) s'" and "su_hash S raw = h" and "su_time S w < ends (su_time S w0)"
  shows "r = Inl (tk_refused (su_kind S))"
proof -
  let ?T = "su_time S w0"
  have "held h ?T (w0, su_notice S pick ?T h x c0, ks0)"
    using assms(1-3) room by (simp add: held_def notice_ends standing_new)
  then have "held h ?T (w, c, ks)"
    using run by - (erule gw_invariant [where I = "held h ?T"], auto intro: held_step [OF _ _ _ assms(1,2)])
  then have st: "standing S h (ends ?T) c ks" using assms(7) by (simp add: held_def)
  from last show ?thesis
  proof (cases rule: gw_step.cases)
    case (gw_look_ends k c' xs ys)
    then show ?thesis using standing_look(3) [OF st assms(7) _ gw_look_ends(4,5)] assms(6) by auto
  next
    case (gw_settle k t a pick c' xs ys)
    then show ?thesis using st assms(6) by (auto simp: standing_def)
  qed
qed

end

definition invalidation_end :: "hr_env \<Rightarrow> int \<Rightarrow> int" where
  "invalidation_end E t =
     (let configured = je_access_expire (he_jwt E) in
      expire_after (if configured \<le> 0 then 7 * 24 * 3600 else configured) t div second * second)"

interpretation access_revoking: revoking_gateway "access_setup E lag allowed" "invalidation_end E" for E lag allowed
proof unfold_locales
  show "su_notice (access_setup E lag allowed) pick t h x c =
      rejectUntil (su_kind (access_setup E lag allowed)) pick t h (Some (invalidation_end E t)) c"
    if "trim_space h \<noteq> []" "0 < invalidation_end E t" for h t pick x c
    using that by (simp add: handleTokenInvalidate_def AccessMarkRevoked_def invalidation_end_def Let_def
      zero_less_mult_iff)
  show "invalidation_end E t \<le> invalidation_end E t'" if "t \<le> t'" for t t'
    using that by (simp add: invalidation_end_def expire_after_def Let_def zdiv_mono1)
qed

text \<open>
  C31. After a notice of the hash of a session's token the gateway refuses this token until the end the
  notice sets, the time after which every access token issued before has expired. This holds in every
  run in which the cache is not full, provided that no request with the token was already past its
  last look at the refusals when the notice came in.
\<close>

theorem invalidated_token_refused:
  assumes "trim_space h \<noteq> []" and "0 < invalidation_end E (clock w0)"
    and "\<forall>k \<in> set ks0. he_token_hash E (cl_raw k) = h \<longrightarrow> \<not> overtaking (cl_stage k)"
    and "gw_reach (access_setup E lag allowed) (\<lambda>(_, c, _). cache_size c < 20000)
        (w0, handleTokenInvalidate (je_access_expire (he_jwt E)) pick (clock w0) [h] c0, ks0) (w, c, ks)"
    and "gw_step (access_setup E lag allowed) (Answers raw r) (w, c, ks) s'"
    and "he_token_hash E raw = h" and "clock w < invalidation_end E (clock w0)"
  shows "r = Inl GErrAuthorityRejected"
  using access_revoking.refused_after_notice [where E = E and lag = lag and allowed = allowed and ?w0.0 = w0
      and x = 0 and h = h, of ks0 pick c0 w c ks raw r s'] assms
  by (simp add: access_kind_def)

text \<open>Applied to a request that comes right after the notice.\<close>

theorem invalidated_token_refused_witness:
  "\<exists>r s'. gw_step (access_setup demo_env 0 (\<lambda>_. True)) (Answers ''access-100'' r)
     (demo_now, handleTokenInvalidate 3600 id (101 * second) [''access-100''] empty_cache,
      [demo_call (AtRejected False)]) s' \<and> r = Inl GErrAuthorityRejected"
proof -
  let ?c = "handleTokenInvalidate (je_access_expire (he_jwt demo_env)) id (clock demo_now) [''access-100''] empty_cache"
  let ?S = "access_setup demo_env 0 (\<lambda>_. True)"
  have named: "trim_space ''access-100'' \<noteq> []" by code_simp
  then have c: "?c = \<lparr>tc_active = [], tc_rejected = [(''access-100'', Some (3701 * second))]\<rparr>"
    by (simp add: handleTokenInvalidate_def AccessMarkRevoked_def rejectUntil_def pruneLocked_def cache_size_def
      demo_env_def delete_active_def empty_cache_def expire_after_def wrap64_def)
  have eq: "handleTokenInvalidate 3600 id (101 * second) [''access-100''] empty_cache = ?c"
    by (simp add: demo_env_def)
  have "gw_step ?S Quiet (demo_now, ?c, []) (demo_now, ?c, [demo_call (AtRejected False)])"
    using gw_request [of ?S demo_now "''access-100''" "demo_claims TokenUseAccess" ?c "[]"]
    by (simp add: demo_access_check [simplified] demo_call_def)
  moreover have "cache_size ?c < 20000" unfolding c by (simp add: cache_size_def)
  ultimately have run: "gw_reach ?S (\<lambda>(_, c, _). cache_size c < 20000) (demo_now, ?c, [])
      (demo_now, ?c, [demo_call (AtRejected False)])"
    by (intro gw_more [OF gw_refl]) blast+
  have "look_step access_kind (101 * second) ''access-100'' (AtRejected False) ?c =
      (Inr (Inl GErrAuthorityRejected), ?c)"
    unfolding c by (simp add: read_rejected_def refusal_lasts_def access_kind_def)
  then obtain r where last: "gw_step ?S (Answers ''access-100'' r) (demo_now, ?c, [demo_call (AtRejected False)]) (demo_now, ?c, [])"
    using gw_look_ends [of "demo_call (AtRejected False)" ?S demo_now ?c _ ?c "[]" "[]"]
    by (force simp: demo_env_def)
  have "r = Inl GErrAuthorityRejected"
    by (rule invalidated_token_refused [OF _ _ _ run last])
      (simp_all add: named demo_env_def invalidation_end_def expire_after_def wrap64_def)
  with last show ?thesis unfolding eq by blast
qed

section \<open>An answer overtakes a notice\<close>

text \<open>
  C32. The proviso is needed: when the HR server's answer was on the way while the notice came in, settling
  the answer deletes the refusal the notice left and caches the principal, so a token that has been
  revoked, with the notice delivered, is accepted again for up to a minute.
\<close>

theorem answer_overtakes_notice:
  assumes "validateWithHR access_kind a = Inr p" and "access_matches claims p"
    and "rc_expires_at claims = Some e" and "t \<le> t'" and "t' < t + 60 * second" and "t' < e"
  shows "fst (settle access_kind pick' t h claims a (AccessMarkRevoked pick t0 h x c)) = Inr p \<and>
     fst (look_up access_kind t' h
       (snd (settle access_kind pick' t h claims a (AccessMarkRevoked pick t0 h x c)))) = Some (Inr p)"
proof -
  let ?c = "AccessMarkRevoked pick t0 h x c"
  have run: "settle access_kind pick' t h claims a ?c = (Inr p, cachePrincipal access_kind pick' t h p (Some e) ?c)"
    using assms(1-3) by (simp add: settle_def access_kind_def)
  let ?p = "pruneLocked access_kind pick' t (tk_max access_kind - 1) (delete_rejected h ?c)"
  have "h \<notin> fst ` set (tc_rejected ?p)" by (rule deleted_key(1) [OF shrinks_prune])
  then have "map_of (tc_rejected ?p) h = None" by (simp add: map_of_eq_None_iff)
  then show ?thesis
    using assms(4-6) unfolding run
    by (auto simp: look_up_def isRejected_def read_rejected_def cachedPrincipal_def read_active_def
      cachePrincipal_def Let_def update_conv' split: if_splits)
qed

text \<open>Applied to the session of the sample.\<close>

theorem answer_overtakes_notice_witness:
  "fst (look_up access_kind (160 * second) ''access-100''
     (snd (settle access_kind id (101 * second) ''access-100'' (demo_claims TokenUseAccess)
       (Answered 200 0 demo_principal)
       (AccessMarkRevoked id (101 * second) ''access-100'' 3701 empty_cache)))) = Some (Inr demo_principal)"
proof -
  have granted: "validateWithHR access_kind (Answered 200 0 demo_principal) = Inr demo_principal" by code_simp
  have signed: "access_matches (demo_claims TokenUseAccess) demo_principal" by code_simp
  have "rc_expires_at (demo_claims TokenUseAccess) = Some (3700 * second)" by (simp add: demo_claims_def)
  from answer_overtakes_notice [OF granted signed this, of "101 * second" "160 * second"] show ?thesis by simp
qed

end
