(* ===== verification/GwProxy.thy ===== *)
theory GwProxy
  imports GwTokens
begin

text \<open>
  The reverse proxy of the API gateway (\<open>core/api-gateway/server/router.go\<close>, \<open>server.go\<close>) and the
  middleware with which the services behind it take over the identity it sets
  (\<open>pkg/middleware/jwt_auth.go\<close>, \<open>userinfo.go\<close>, \<open>pub_key_auth.go\<close>). Parsing a URL, joining its
  path and matching a pattern are the libraries' and arguments here; what the reverse proxy of the
  Go library does to the headers of a request is written out.
\<close>

section \<open>Routes\<close>

record route_config =
  rt_path :: gostr
  rt_targets :: "gostr list"
  rt_timeout :: int
  rt_rewrite :: gostr
  rt_service :: gostr

record gw_config =
  gc_routes :: "route_config list"
  gc_default_timeout :: int

text \<open>The service of the routes that answers for tokens.\<close>

fun find_hr_route :: "route_config list \<Rightarrow> gostr option" where
  "find_hr_route [] = None"
| "find_hr_route (r # rs) =
     (if rt_service r \<noteq> ''hr'' \<and> rt_path r \<noteq> ''/hr'' then find_hr_route rs
      else case rt_targets r of
        [] \<Rightarrow> None
      | url # _ \<Rightarrow> if trim_space url = [] then None else Some (trim_right_char slash url))"

definition resolveAccessTokenValidationURL :: "gw_config option \<Rightarrow> gw_error + gostr" where
  "resolveAccessTokenValidationURL cfg =
     (case cfg of None \<Rightarrow> Inl GErrNoConfig
      | Some cfg \<Rightarrow>
          (case find_hr_route (gc_routes cfg) of
             None \<Rightarrow> Inl GErrNoRoute
           | Some url \<Rightarrow> Inr (url @ ''/hr/api/v1/auth/access_token/validate'')))"

definition resolveOpenAPITokenValidationURL :: "gw_config option \<Rightarrow> gw_error + gostr" where
  "resolveOpenAPITokenValidationURL cfg =
     (case cfg of None \<Rightarrow> Inl GErrNoConfig
      | Some cfg \<Rightarrow>
          (case find_hr_route (gc_routes cfg) of
             None \<Rightarrow> Inl GErrNoRoute
           | Some url \<Rightarrow> Inr (url @ ''/hr/api/v1/auth/openapi_token/validate'')))"

definition getTimeout :: "gw_config \<Rightarrow> int \<Rightarrow> int" where
  "getTimeout cfg timeout =
     (let timeout = (if timeout \<le> 0 then gc_default_timeout cfg else timeout) in
      if timeout = 0 then 300 else timeout)"

datatype config_error = DuplicateService gostr nat | InvalidTarget nat nat

fun check_targets :: "(gostr \<Rightarrow> bool) \<Rightarrow> nat \<Rightarrow> nat \<Rightarrow> gostr list \<Rightarrow> config_error option" where
  "check_targets url_ok i j [] = None"
| "check_targets url_ok i j (url # urls) =
     (if url \<noteq> [] \<and> \<not> url_ok url then Some (InvalidTarget i j) else check_targets url_ok i (Suc j) urls)"

fun check_routes ::
  "(gostr \<Rightarrow> bool) \<Rightarrow> nat \<Rightarrow> gostr list \<Rightarrow> route_config list \<Rightarrow> config_error option" where
  "check_routes url_ok i seen [] = None"
| "check_routes url_ok i seen (r # rs) =
     (if rt_service r \<noteq> [] \<and> rt_service r \<in> set seen then Some (DuplicateService (rt_service r) i)
      else case check_targets url_ok i 0 (rt_targets r) of
        Some e \<Rightarrow> Some e
      | None \<Rightarrow> check_routes url_ok (Suc i)
          (if rt_service r \<noteq> [] then rt_service r # seen else seen) rs)"

definition validateConfig :: "(gostr \<Rightarrow> bool) \<Rightarrow> gw_config \<Rightarrow> config_error option" where
  "validateConfig url_ok cfg = check_routes url_ok 0 [] (gc_routes cfg)"

text \<open>A route is usable with a path and some target; it is general if another path extends it.\<close>

definition route_usable :: "route_config \<Rightarrow> bool" where
  "route_usable r \<longleftrightarrow> rt_path r \<noteq> [] \<and> rt_targets r \<noteq> [] \<and> list_ex (\<lambda>url. url \<noteq> []) (rt_targets r)"

definition isCatchAll :: "route_config list \<Rightarrow> route_config \<Rightarrow> bool" where
  "isCatchAll routes r \<longleftrightarrow> list_ex (\<lambda>other.
     rt_path other \<noteq> rt_path r \<and> length (rt_path other) > length (rt_path r) \<and>
     take (length (rt_path r)) (rt_path other) = rt_path r \<and> rt_path other ! length (rt_path r) = slash) routes"

definition specificRoutes :: "route_config list \<Rightarrow> route_config list" where
  "specificRoutes routes = filter (\<lambda>r. route_usable r \<and> \<not> isCatchAll routes r) routes"

definition catchAllRoutes :: "route_config list \<Rightarrow> route_config list" where
  "catchAllRoutes routes = filter (\<lambda>r. route_usable r \<and> isCatchAll routes r) routes"

definition route_pattern :: "route_config \<Rightarrow> gostr" where
  "route_pattern r = rt_path r @ ''/*path''"

datatype dispatch = ToRoute route_config | NotFound

text \<open>\<open>matches\<close> says whether the router takes a path for a pattern.\<close>

definition dispatch_route :: "(gostr \<Rightarrow> gostr \<Rightarrow> bool) \<Rightarrow> route_config list \<Rightarrow> gostr \<Rightarrow> dispatch" where
  "dispatch_route matches routes path =
     (case find (\<lambda>r. matches (route_pattern r) path) (specificRoutes routes) of
        Some r \<Rightarrow> ToRoute r
      | None \<Rightarrow>
          (case catchAllRoutes routes of
             [] \<Rightarrow> NotFound
           | r # _ \<Rightarrow> if length path \<ge> length (rt_path r) \<and> take (length (rt_path r)) path = rt_path r
                       then ToRoute r else NotFound))"

text \<open>One target or several: the first one, the timeout made definite once or twice.\<close>

definition proxy_target :: "gw_config \<Rightarrow> route_config \<Rightarrow> gostr \<times> int" where
  "proxy_target cfg r =
     (hd (rt_targets r),
      if length (rt_targets r) = 1 then getTimeout cfg (rt_timeout r)
      else getTimeout cfg (getTimeout cfg (rt_timeout r)))"

definition rewrite_path :: "route_config \<Rightarrow> gostr \<Rightarrow> gostr" where
  "rewrite_path r path =
     (if rt_rewrite r \<noteq> [] \<and> take (length (rt_path r)) path = rt_path r
      then let rest = drop (length (rt_path r)) path; new = rt_rewrite r in
        (if last new \<noteq> slash \<and> rest \<noteq> [] \<and> hd rest \<noteq> slash then new @ [slash] else new) @ rest
      else path)"

section \<open>Headers\<close>

text \<open>By canonical name, as \<open>net/http\<close> keeps them.\<close>

type_synonym http_headers = "gostr \<rightharpoonup> gostr list"

definition header_get :: "http_headers \<Rightarrow> gostr \<Rightarrow> gostr" where
  "header_get h k = (case h k of Some (v # _) \<Rightarrow> v | _ \<Rightarrow> [])"

definition header_set :: "gostr \<Rightarrow> gostr \<Rightarrow> http_headers \<Rightarrow> http_headers" where
  "header_set k v h = h(k \<mapsto> [v])"

definition header_del :: "gostr \<Rightarrow> http_headers \<Rightarrow> http_headers" where
  "header_del k h = h(k := None)"

abbreviation TraceIdHeader :: gostr where "TraceIdHeader \<equiv> ''X-Trace-Id''"
abbreviation RequestUserHeader :: gostr where "RequestUserHeader \<equiv> ''X-Request-User''"
abbreviation UsernameHeader :: gostr where "UsernameHeader \<equiv> ''X-Username''"
abbreviation DepartmentFullPathHeader :: gostr where "DepartmentFullPathHeader \<equiv> ''X-Department-Full-Path''"
abbreviation TokenHeader :: gostr where "TokenHeader \<equiv> ''X-Token''"
abbreviation AuthorizationHeader :: gostr where "AuthorizationHeader \<equiv> ''Authorization''"
abbreviation ClientSourceHeader :: gostr where "ClientSourceHeader \<equiv> ''X-Client-Source''"
abbreviation SourceTypeHeader :: gostr where "SourceTypeHeader \<equiv> ''X-Source-Type''"
abbreviation SourceRefHeader :: gostr where "SourceRefHeader \<equiv> ''X-Source-Ref''"
abbreviation PubKeyHeader :: gostr where "PubKeyHeader \<equiv> ''X-Pub-Key''"
abbreviation ForwardedForHeader :: gostr where "ForwardedForHeader \<equiv> ''X-Forwarded-For''"
abbreviation ForwardedHostHeader :: gostr where "ForwardedHostHeader \<equiv> ''X-Forwarded-Host''"
abbreviation ForwardedPortHeader :: gostr where "ForwardedPortHeader \<equiv> ''X-Forwarded-Port''"

definition stripUntrustedIdentityHeaders :: "http_headers \<Rightarrow> http_headers" where
  "stripUntrustedIdentityHeaders h =
     fold header_del [RequestUserHeader, UsernameHeader, DepartmentFullPathHeader] h"

definition applyAccessPrincipalHeaders :: "access_token_principal \<Rightarrow> http_headers \<Rightarrow> http_headers" where
  "applyAccessPrincipalHeaders p h =
     (let h = header_set RequestUserHeader (tp_username p) h in
      if tp_department p \<noteq> [] then header_set DepartmentFullPathHeader (tp_department p) h else h)"

definition applyOpenAPIPrincipalHeaders :: "openapi_principal \<Rightarrow> http_headers \<Rightarrow> http_headers" where
  "applyOpenAPIPrincipalHeaders p h =
     (let h = header_set RequestUserHeader (op_username p) h;
          h = (if op_department p \<noteq> [] then header_set DepartmentFullPathHeader (op_department p) h else h);
          h = header_set ClientSourceHeader ''openapi'' h;
          h = header_set SourceTypeHeader ''openapi_token'' h in
      header_set SourceRefHeader (op_username p) h)"

section \<open>The handler\<close>

fun contains_sub :: "gostr \<Rightarrow> gostr \<Rightarrow> bool" where
  "contains_sub sub [] \<longleftrightarrow> sub = []"
| "contains_sub sub (x # xs) \<longleftrightarrow> take (length sub) (x # xs) = sub \<or> contains_sub sub xs"

definition isStreamingRequest :: "gostr \<Rightarrow> bool" where
  "isStreamingRequest path \<longleftrightarrow> contains_sub ''/stream'' path \<or> contains_sub ''/chat/stream'' path"

definition request_timeout :: "int \<Rightarrow> gostr \<Rightarrow> int" where
  "request_timeout timeout path =
     (if isStreamingRequest path then 30 * 60 * second else wrap64 (timeout * second))"

text \<open>Both refusals are status 401, with code 7 for an OpenAPI token.\<close>

datatype proxy_outcome =
    OpenAPITokenRefused gw_error
  | AccessTokenRefused gw_error
  | Forwarded http_headers int

definition proxy_handler ::
  "(gostr \<Rightarrow> gw_error + openapi_principal) \<Rightarrow> (gostr \<Rightarrow> gw_error + access_token_principal) \<Rightarrow>
     int \<Rightarrow> gostr \<Rightarrow> gostr \<Rightarrow> http_headers \<Rightarrow> proxy_outcome" where
  "proxy_handler openapi access timeout trace path h =
     (let h = stripUntrustedIdentityHeaders h;
          h = (if trace \<noteq> [] then header_set TraceIdHeader trace h else h);
          bearer = BearerToken (header_get h AuthorizationHeader);
          token = header_get h TokenHeader in
      if bearer \<noteq> [] then
        (case openapi bearer of
           Inl e \<Rightarrow> OpenAPITokenRefused e
         | Inr p \<Rightarrow> Forwarded
             (header_del TokenHeader (header_del AuthorizationHeader (applyOpenAPIPrincipalHeaders p h)))
             (request_timeout timeout path))
      else if token \<noteq> [] then
        (case access token of
           Inl e \<Rightarrow> AccessTokenRefused e
         | Inr p \<Rightarrow> Forwarded (applyAccessPrincipalHeaders p h) (request_timeout timeout path))
      else Forwarded h (request_timeout timeout path))"

text \<open>
  What the director adds before the request leaves: the host the client asked for, and the new path;
  \<open>joined\<close> is the path after the library has joined it to the target's.
\<close>

fun after_colon :: "gostr \<Rightarrow> gostr" where
  "after_colon [] = []"
| "after_colon (x # xs) = (if x = CHR '':'' then xs else after_colon xs)"

definition direct :: "route_config \<Rightarrow> gostr \<Rightarrow> gostr \<Rightarrow> gostr \<Rightarrow> http_headers \<Rightarrow> http_headers \<times> gostr" where
  "direct r target_host host joined h =
     (let given = header_get h ForwardedHostHeader;
          h' = (if given \<noteq> [] then header_set ForwardedHostHeader given h
                else if host \<noteq> [] \<and> host \<noteq> target_host
                then (let h = header_set ForwardedHostHeader host h in
                      if after_colon host \<noteq> [] then header_set ForwardedPortHeader (after_colon host) h else h)
                else h) in
      (h', rewrite_path r joined))"

section \<open>The reverse proxy of the Go library\<close>

text \<open>
  What \<open>httputil.ReverseProxy\<close> does to the headers after the director: it removes the headers the
  \<open>Connection\<close> header of the request names and the hop-by-hop headers, keeps an upgrade and
  trailers going, and appends the address of the client. Names are made canonical as
  \<open>textproto.CanonicalMIMEHeaderKey\<close> does: a name with a byte that no name has stays as it is.
\<close>

definition token_byte :: "char \<Rightarrow> bool" where
  "token_byte c \<longleftrightarrow> (let n = of_char c :: nat in
     48 \<le> n \<and> n \<le> 57 \<or> 65 \<le> n \<and> n \<le> 90 \<or> 97 \<le> n \<and> n \<le> 122 \<or> n = 39 \<or> c \<in> set ''!#$%&*+-.^_`|~'')"

definition upper_char :: "char \<Rightarrow> char" where
  "upper_char c = (let n = of_char c :: nat in if 97 \<le> n \<and> n \<le> 122 then char_of (n - 32) else c)"

fun key_case :: "bool \<Rightarrow> gostr \<Rightarrow> gostr" where
  "key_case upper [] = []"
| "key_case upper (c # cs) = (if upper then upper_char c else lower_char c) # key_case (c = CHR ''-'') cs"

definition canonical_key :: "gostr \<Rightarrow> gostr" where
  "canonical_key s = (if list_all token_byte s then key_case True s else s)"

definition trim_http :: "gostr \<Rightarrow> gostr" where
  "trim_http s = (let blank = (\<lambda>c. of_char c \<in> {32, 9, 10, 13 :: nat}) in
     rev (dropWhile blank (rev (dropWhile blank s))))"

definition header_values :: "http_headers \<Rightarrow> gostr \<Rightarrow> gostr list" where
  "header_values h k = (case h k of None \<Rightarrow> [] | Some vs \<Rightarrow> vs)"

definition header_tokens :: "http_headers \<Rightarrow> gostr \<Rightarrow> gostr list" where
  "header_tokens h k = concat (map (\<lambda>v. map trim_http (split_on CHR '','' v)) (header_values h k))"

abbreviation ConnectionHeader :: gostr where "ConnectionHeader \<equiv> ''Connection''"

definition connection_names :: "http_headers \<Rightarrow> gostr list" where
  "connection_names h = map canonical_key (filter (\<lambda>s. s \<noteq> []) (header_tokens h ConnectionHeader))"

definition hop_headers :: "gostr list" where
  "hop_headers = [ConnectionHeader, ''Proxy-Connection'', ''Keep-Alive'', ''Proxy-Authenticate'',
     ''Proxy-Authorization'', ''Te'', ''Trailer'', ''Transfer-Encoding'', ''Upgrade'']"

definition removeHopByHopHeaders :: "http_headers \<Rightarrow> http_headers" where
  "removeHopByHopHeaders h = fold header_del hop_headers (fold header_del (connection_names h) h)"

definition upgradeType :: "http_headers \<Rightarrow> gostr" where
  "upgradeType h =
     (if ''upgrade'' \<in> set (map to_lower (header_tokens h ConnectionHeader)) then header_get h ''Upgrade'' else [])"

text \<open>\<open>None\<close> is the answer 502 to an upgrade that is not printable; the address is the client's, if it has one.\<close>

definition reverse_proxy :: "gostr option \<Rightarrow> http_headers \<Rightarrow> http_headers option" where
  "reverse_proxy client h =
     (let upgrade = upgradeType h in
      if \<not> list_all (\<lambda>c. 32 \<le> (of_char c :: nat) \<and> (of_char c :: nat) \<le> 126) upgrade then None
      else
        let out = removeHopByHopHeaders h;
            out = (if ''trailers'' \<in> set (map to_lower (header_tokens h ''Te'')) then header_set ''Te'' ''trailers'' out else out);
            out = (if upgrade \<noteq> [] then header_set ''Upgrade'' upgrade (header_set ConnectionHeader ''Upgrade'' out) else out);
            out = (case client of None \<Rightarrow> out
              | Some ip \<Rightarrow>
                  (case out ForwardedForHeader of
                     None \<Rightarrow> header_set ForwardedForHeader ip out
                   | Some [] \<Rightarrow> out
                   | Some prior \<Rightarrow> header_set ForwardedForHeader (join_with '', '' (prior @ [ip])) out)) in
        Some (if out ''User-Agent'' = None then header_set ''User-Agent'' [] out else out))"

section \<open>The middleware of the services\<close>

text \<open>What the middleware leaves in the context of a request.\<close>

record auth_ctx =
  ax_request_user :: "gostr option"
  ax_department :: "gostr option"
  ax_user_id :: "int option"
  ax_username :: "gostr option"
  ax_email :: "gostr option"
  ax_token_id :: "int option"
  ax_token :: "gostr option"
  ax_source :: "gostr option"

definition no_ctx :: auth_ctx where
  "no_ctx = \<lparr>ax_request_user = None, ax_department = None, ax_user_id = None, ax_username = None,
     ax_email = None, ax_token_id = None, ax_token = None, ax_source = None\<rparr>"

datatype auth_outcome = Blocked | Passed auth_ctx http_headers

definition isInternalRequest :: "gostr \<Rightarrow> http_headers \<Rightarrow> bool" where
  "isInternalRequest client_ip h \<longleftrightarrow>
     client_ip = ''127.0.0.1'' \<or> client_ip = ''localhost'' \<or> client_ip = ''::1'' \<or>
     client_ip = ''172.17.0.1'' \<or> client_ip = ''host.docker.internal'' \<or>
     header_get h ForwardedForHeader = []"

definition claimed_department :: "jwt_claims \<Rightarrow> gostr option" where
  "claimed_department c =
     (case jw_department c of None \<Rightarrow> None | Some d \<Rightarrow> if d \<noteq> [] then Some d else None)"

definition openapi_source_headers :: "openapi_principal \<Rightarrow> gostr \<Rightarrow> http_headers \<Rightarrow> http_headers" where
  "openapi_source_headers p raw h =
     (let h = header_set TokenHeader raw h;
          h = (if op_department p \<noteq> [] then header_set DepartmentFullPathHeader (op_department p) h else h);
          h = header_set ClientSourceHeader ''openapi'' h;
          h = header_set SourceTypeHeader ''openapi_token'' h in
      header_set SourceRefHeader (op_username p) h)"

definition openapi_ctx :: "openapi_principal \<Rightarrow> gostr \<Rightarrow> auth_ctx" where
  "openapi_ctx p raw =
     \<lparr>ax_request_user = Some (op_username p), ax_department = non_empty (op_department p),
      ax_user_id = Some (op_user_id p), ax_username = Some (op_username p), ax_email = Some (op_email p),
      ax_token_id = Some (op_token_id p), ax_token = Some raw, ax_source = Some ''openapi''\<rparr>"

text \<open>\<open>validate\<close> is the token store of the service, \<open>access\<close> the check of a signed access token.\<close>

definition JWTAuth ::
  "(gostr \<Rightarrow> 'e + openapi_principal) \<Rightarrow> (gostr \<Rightarrow> jwt_error + jwt_claims) \<Rightarrow> gostr \<Rightarrow> http_headers \<Rightarrow>
     auth_outcome" where
  "JWTAuth validate access client_ip h =
     (let raw = BearerToken (header_get h AuthorizationHeader) in
      if raw \<noteq> [] then
        (case validate raw of
           Inl _ \<Rightarrow> Blocked
         | Inr p \<Rightarrow> Passed (openapi_ctx p raw)
             (openapi_source_headers p raw (header_set RequestUserHeader (op_username p) h)))
      else
        let user = header_get h RequestUserHeader;
            user = (if user = [] then header_get h UsernameHeader else user);
            token = header_get h TokenHeader in
        if user \<noteq> [] then
          Passed (no_ctx\<lparr>ax_request_user := Some user,
                         ax_department := non_empty (header_get h DepartmentFullPathHeader)\<rparr>) h
        else if token \<noteq> [] then
          (case access token of
             Inl _ \<Rightarrow> Blocked
           | Inr c \<Rightarrow> Passed (no_ctx\<lparr>ax_user_id := Some (jw_user_id c), ax_username := Some (jw_username c),
                 ax_email := Some (jw_email c), ax_request_user := Some (jw_username c),
                 ax_token := Some token, ax_department := claimed_department c\<rparr>) h)
        else if isInternalRequest client_ip h then
          (let user = header_get h RequestUserHeader in
           if user = [] then Blocked else Passed (no_ctx\<lparr>ax_request_user := Some user\<rparr>) h)
        else Blocked)"

definition JWTAuthOptional ::
  "(gostr \<Rightarrow> jwt_error + jwt_claims) \<Rightarrow> http_headers \<Rightarrow> auth_ctx" where
  "JWTAuthOptional access h =
     (let user = header_get h RequestUserHeader;
          user = (if user = [] then header_get h UsernameHeader else user);
          token = header_get h TokenHeader in
      if user \<noteq> [] then no_ctx\<lparr>ax_request_user := Some user\<rparr>
      else if token \<noteq> [] then
        (case access token of
           Inl _ \<Rightarrow> no_ctx
         | Inr c \<Rightarrow> no_ctx\<lparr>ax_request_user := Some (jw_username c)\<rparr>)
      else no_ctx)"

text \<open>The context after each of the two fallbacks, with the headers they change.\<close>

definition user_from_openapi ::
  "(gostr \<Rightarrow> 'e + openapi_principal) \<Rightarrow> http_headers \<Rightarrow> gostr \<times> auth_ctx \<times> http_headers" where
  "user_from_openapi validate h =
     (let raw = BearerToken (header_get h AuthorizationHeader) in
      if raw \<noteq> [] then
        (case validate raw of
           Inl _ \<Rightarrow> ([], no_ctx, h)
         | Inr p \<Rightarrow> (op_username p, (openapi_ctx p raw)\<lparr>ax_request_user := None\<rparr>,
             openapi_source_headers p raw h))
      else ([], no_ctx, h))"

definition user_from_token ::
  "(gostr \<Rightarrow> jwt_error + jwt_claims) \<Rightarrow> http_headers \<Rightarrow> auth_ctx \<Rightarrow> gostr \<times> auth_ctx" where
  "user_from_token access h cx =
     (let token = header_get h TokenHeader in
      if token \<noteq> [] then
        (case access token of
           Inl _ \<Rightarrow> ([], cx)
         | Inr c \<Rightarrow> (jw_username c,
             case claimed_department c of None \<Rightarrow> cx | Some d \<Rightarrow> cx\<lparr>ax_department := Some d\<rparr>))
      else ([], cx))"

definition WithUserInfo ::
  "(gostr \<Rightarrow> 'e + openapi_principal) \<Rightarrow> (gostr \<Rightarrow> jwt_error + jwt_claims) \<Rightarrow> http_headers \<Rightarrow>
     auth_ctx \<times> http_headers" where
  "WithUserInfo validate access h =
     (let user = header_get h RequestUserHeader in
      if user \<noteq> [] then
        (no_ctx\<lparr>ax_department := non_empty (header_get h DepartmentFullPathHeader),
                ax_request_user := Some user\<rparr>, h)
      else case user_from_openapi validate h of
        (user, cx, h) \<Rightarrow>
          if user \<noteq> [] then
            (cx\<lparr>ax_department := (case non_empty (header_get h DepartmentFullPathHeader) of
                                   None \<Rightarrow> ax_department cx | Some d \<Rightarrow> Some d),
                ax_request_user := Some user\<rparr>, h)
          else case user_from_token access h cx of
            (user, cx) \<Rightarrow> (cx\<lparr>ax_request_user := Some user\<rparr>, h))"

definition JWTOrPubKeyAuth ::
  "(gostr \<Rightarrow> 'e + gostr) option \<Rightarrow> (gostr \<Rightarrow> jwt_error + jwt_claims) \<Rightarrow> gostr \<Rightarrow> http_headers \<Rightarrow>
     auth_outcome" where
  "JWTOrPubKeyAuth validator access client_ip h =
     (let pub_key = header_get h PubKeyHeader;
          user = header_get h RequestUserHeader;
          user = (if user = [] then header_get h UsernameHeader else user);
          token = header_get h TokenHeader;
          internal = (if isInternalRequest client_ip h \<and> header_get h RequestUserHeader \<noteq> []
                      then Passed (no_ctx\<lparr>ax_request_user := Some (header_get h RequestUserHeader)\<rparr>) h
                      else Blocked);
          without_key =
            (if user \<noteq> [] then
               Passed (no_ctx\<lparr>ax_request_user := Some user,
                              ax_department := non_empty (header_get h DepartmentFullPathHeader)\<rparr>) h
             else if token \<noteq> [] then
               (case access token of
                  Inr c \<Rightarrow> Passed (no_ctx\<lparr>ax_request_user := Some (jw_username c), ax_token := Some token,
                      ax_department := claimed_department c\<rparr>) h
                | Inl _ \<Rightarrow> internal)
             else internal) in
      case validator of
        Some v \<Rightarrow>
          if pub_key \<noteq> [] then
            (case v pub_key of
               Inl _ \<Rightarrow> Blocked
             | Inr username \<Rightarrow> Passed (no_ctx\<lparr>ax_request_user := Some username\<rparr>) h)
          else without_key
      | None \<Rightarrow> without_key)"

end
