(* ===== verification/GwProxyProps.thy ===== *)
theory GwProxyProps
  imports GwProps GwProxy
begin

text \<open>
  What the proxy of the gateway guarantees: the services see the identity the gateway has validated
  and nothing the client claims, and the routes it registers do not cover each other.
\<close>

section \<open>Validated principals have a name\<close>

context gateway
begin

definition named :: "('w, 'p) gw_state \<Rightarrow> bool" where
  "named = (\<lambda>(w, c, ks). \<forall>(h, p, e) \<in> set (tc_active c). \<not> tk_empty (su_kind S) p)"

lemma named_step:
  assumes "gw_step S l s s'" and "named s"
  shows "named s'"
  using assms
proof (cases rule: gw_step.cases)
  case (gw_notice w c ks pick h x)
  have "set (tc_active (su_notice S pick (su_time S w) h x c)) \<subseteq> set (tc_active c)"
    using notice [of pick "su_time S w" h x c] rejectUntil_active by (elim disjE exE) simp_all
  then show ?thesis using gw_notice assms(2) by (fastforce simp: named_def)
next
  case (gw_look k w c st c' xs ys)
  then show ?thesis
    using assms(2) shrinks_active [OF shrinks_look [OF gw_look(5)]] by (fastforce simp: named_def)
next
  case (gw_look_ends k w c r c' xs ys)
  then show ?thesis
    using assms(2) shrinks_active [OF shrinks_look [OF gw_look_ends(5)]] by (fastforce simp: named_def)
next
  case (gw_settle k t a w pick c r c' xs ys)
  have "\<not> tk_empty (su_kind S) p" if "validateWithHR (su_kind S) a = Inr p" for p
    using that by (auto simp: validateWithHR_def split: authority_answer.splits if_splits)
  then show ?thesis using gw_settle assms(2) settle_active [OF gw_settle(6)] by (fastforce simp: named_def)
qed (auto simp: named_def)

lemma named_reach: "gw_reach S ok (w, empty_cache, ks) s \<Longrightarrow> named s"
  by (erule gw_invariant [where I = named]) (simp add: named_def empty_cache_def, rule named_step)

end

lemma validateWithHR_named: "validateWithHR K a = Inr p \<Longrightarrow> \<not> tk_empty K p"
  by (auto simp: validateWithHR_def split: authority_answer.splits if_splits)

lemma look_up_cached:
  assumes "look_up K t h c = (Some (Inr p), c')"
  shows "\<exists>e. (h, p, e) \<in> set (tc_active c)"
proof -
  have "tc_active (snd (isRejected K t h c)) = tc_active c"
    by (auto simp: isRejected_def delete_rejected_def split: cache_read.split)
  then show ?thesis
    using assms
    by (auto simp: look_up_def cachedPrincipal_def read_active_def split: prod.splits bool.splits
      cache_read.splits option.splits if_splits dest!: map_of_SomeD)
qed

lemma look_up_active: "look_up K t h c = (r, c') \<Longrightarrow> set (tc_active c') \<subseteq> set (tc_active c)"
  by (auto simp: look_up_def isRejected_def cachedPrincipal_def delete_rejected_def delete_active_def
    AList.delete_eq split: prod.splits bool.splits cache_read.splits option.splits)

lemma validate_with_claims_named:
  assumes "\<forall>(h, p, e) \<in> set (tc_active c). \<not> tk_empty K p"
    and "fst (validate_with_claims K pick t t' h cl a c) = Inr p"
  shows "\<not> tk_empty K p"
proof -
  obtain r1 c1 r2 c2 where looks: "look_up K t h c = (r1, c1)" "look_up K t h c1 = (r2, c2)"
    by (metis surj_pair)
  have cached: "\<not> tk_empty K p'" if "look_up K t h c' = (Some (Inr p'), c'')" "set (tc_active c') \<subseteq> set (tc_active c)"
    for c' c'' p'
    using look_up_cached [OF that(1)] that(2) assms(1) by fastforce
  show ?thesis
    using assms(2) looks cached [of c] cached [of c1] look_up_active [OF looks(1)]
      settle_cases [of K pick t' h cl a c2] validateWithHR_named [of K a p]
    by (cases r1; cases r2; cases "settle K pick t' h cl a c2")
      (auto simp: validate_with_claims_def)
qed

lemma OpenAPITokenValidate_named:
  assumes "\<forall>(h, p, e) \<in> set (tc_active c). \<not> openapi_empty p"
    and "fst (OpenAPITokenValidate J url hash pick t t' raw a c) = Inr p"
  shows "op_username p \<noteq> []"
proof -
  have "\<not> tk_empty openapi_kind p"
    using assms(2) validate_with_claims_named [of c openapi_kind] assms(1)
    by (auto simp: OpenAPITokenValidate_def Let_def openapi_kind_def split: if_splits sum.splits)
  then show ?thesis by (auto simp: openapi_kind_def openapi_empty_def)
qed

lemma GwValidateGatewayToken_named:
  assumes "\<forall>(h, p, e) \<in> set (tc_active c). \<not> access_empty p"
    and "fst (GwValidateGatewayToken J url hash pick t t' raw a c) = Inr p"
  shows "tp_username p \<noteq> []"
proof -
  obtain cl where cl: "ValidateGatewayToken J t (trim_space raw) = Inr cl"
    using assms(2) by (auto simp: GwValidateGatewayToken_def Let_def split: sum.splits)
  show ?thesis
  proof (cases "jw_token_use cl = TokenUseScheduled")
    case True
    then have "trim_space (jw_username cl) \<noteq> []"
      using cl by (auto simp: ValidateGatewayToken_def checked_token_def check_gateway_def validateScheduledClaims_def
        split: sum.splits option.splits if_splits)
    then show ?thesis
      using assms(2) cl True by (auto simp: GwValidateGatewayToken_def Let_def scheduled_principal_def)
  next
    case False
    then have "\<not> tk_empty access_kind p"
      using assms cl validate_with_claims_named [of c access_kind]
      by (auto simp: GwValidateGatewayToken_def validateAccessWithClaims_def Let_def access_kind_def split: if_splits)
    then show ?thesis by (auto simp: access_kind_def access_empty_def)
  qed
qed

section \<open>The identity behind the gateway\<close>

text \<open>What the gateway has validated of a request: user and department.\<close>

definition gateway_identity ::
  "(gostr \<Rightarrow> gw_error + openapi_principal) \<Rightarrow> (gostr \<Rightarrow> gw_error + access_token_principal) \<Rightarrow> http_headers \<Rightarrow>
     (gostr \<times> gostr option) option" where
  "gateway_identity openapi access h =
     (let bearer = BearerToken (header_get h AuthorizationHeader); token = header_get h TokenHeader in
      if bearer \<noteq> [] then
        (case openapi bearer of Inl _ \<Rightarrow> None | Inr p \<Rightarrow> Some (op_username p, non_empty (op_department p)))
      else if token \<noteq> [] then
        (case access token of Inl _ \<Rightarrow> None | Inr p \<Rightarrow> Some (tp_username p, non_empty (tp_department p)))
      else None)"

definition backend_identity :: "auth_outcome \<Rightarrow> (gostr \<times> gostr option) option" where
  "backend_identity r =
     (case r of Blocked \<Rightarrow> None | Passed cx _ \<Rightarrow> Some (the (ax_request_user cx), ax_department cx))"

definition identity_headers :: "gostr list" where
  "identity_headers =
     [RequestUserHeader, UsernameHeader, DepartmentFullPathHeader, TokenHeader, AuthorizationHeader]"

lemma header_get_simps [simp]:
  "header_get (header_set k v h) k' = (if k' = k then v else header_get h k')"
  "header_get (header_del k h) k' = (if k' = k then [] else header_get h k')"
  by (simp_all add: header_get_def header_set_def header_del_def)

lemma header_get_strip [simp]:
  "header_get (stripUntrustedIdentityHeaders h) k =
     (if k \<in> {RequestUserHeader, UsernameHeader, DepartmentFullPathHeader} then [] else header_get h k)"
  by (simp add: stripUntrustedIdentityHeaders_def)

lemma header_del_at: "header_del k h k' = (if k' = k then None else h k')"
  by (simp add: header_del_def)

lemma fold_header_del: "fold header_del ks h k = (if k \<in> set ks then None else h k)"
  by (induction ks arbitrary: h) (auto simp: header_del_at)

lemma header_get_other: "h k = h' k \<Longrightarrow> header_get h k = header_get h' k"
  by (simp add: header_get_def)

text \<open>Of the identity headers the reverse proxy passes on those the \<open>Connection\<close> header does not name.\<close>

lemma identity_header_names:
  "k \<in> set identity_headers \<Longrightarrow> k \<notin> set hop_headers \<and>
     k \<notin> {''User-Agent'', ForwardedForHeader, ForwardedHostHeader, ForwardedPortHeader, ConnectionHeader, TraceIdHeader}"
  by (auto simp: identity_headers_def hop_headers_def)

lemma reverse_proxy_identity:
  assumes "reverse_proxy client h = Some h2" and "k \<in> set identity_headers"
  shows "h2 k = (if k \<in> set (connection_names h) then None else h k)"
proof -
  have set_other: "header_set k' v h' k = h' k" if "k' \<noteq> k" for k' v h'
    using that by (simp add: header_set_def)
  have ne: "''User-Agent'' \<noteq> k" "ForwardedForHeader \<noteq> k" "''Te'' \<noteq> k" "''Upgrade'' \<noteq> k" "ConnectionHeader \<noteq> k"
    using identity_header_names [OF assms(2)] by (auto simp: hop_headers_def)
  have "h2 k = removeHopByHopHeaders h k"
    using assms(1) unfolding reverse_proxy_def Let_def
    by (simp add: set_other [OF ne(1)] set_other [OF ne(2)] set_other [OF ne(3)] set_other [OF ne(4)] set_other [OF ne(5)]
        split: if_splits option.splits list.splits) (auto simp: set_other ne)
  then show ?thesis
    using identity_header_names [OF assms(2)] by (simp add: removeHopByHopHeaders_def fold_header_del)
qed

lemma direct_identity:
  "k \<in> set identity_headers \<Longrightarrow> fst (direct r target_host host joined h) k = h k"
  "connection_names (fst (direct r target_host host joined h)) = connection_names h"
  by (auto simp: direct_def Let_def header_set_def identity_headers_def connection_names_def header_tokens_def header_values_def)

lemma BearerToken_Nil [simp]: "BearerToken [] = []"
  by code_simp

lemma forwarded_headers:
  assumes "proxy_handler openapi access timeout trace path h = Forwarded h1 d"
  shows "header_get h1 UsernameHeader = []" and "connection_names h1 = connection_names h"
    and "(\<exists>p. BearerToken (header_get h AuthorizationHeader) \<noteq> [] \<and>
        openapi (BearerToken (header_get h AuthorizationHeader)) = Inr p \<and>
        header_get h1 RequestUserHeader = op_username p \<and> header_get h1 DepartmentFullPathHeader = op_department p \<and>
        header_get h1 TokenHeader = [] \<and> header_get h1 AuthorizationHeader = []) \<or>
     (\<exists>p. BearerToken (header_get h AuthorizationHeader) = [] \<and> header_get h TokenHeader \<noteq> [] \<and>
        access (header_get h TokenHeader) = Inr p \<and>
        header_get h1 RequestUserHeader = tp_username p \<and> header_get h1 DepartmentFullPathHeader = tp_department p \<and>
        header_get h1 TokenHeader = header_get h TokenHeader \<and>
        header_get h1 AuthorizationHeader = header_get h AuthorizationHeader) \<or>
     BearerToken (header_get h AuthorizationHeader) = [] \<and> header_get h TokenHeader = [] \<and>
        header_get h1 RequestUserHeader = [] \<and>
        header_get h1 TokenHeader = [] \<and> header_get h1 AuthorizationHeader = header_get h AuthorizationHeader"
proof -
  note rules = proxy_handler_def Let_def applyOpenAPIPrincipalHeaders_def applyAccessPrincipalHeaders_def
  show "header_get h1 UsernameHeader = []"
    using assms by (auto simp: rules split: if_splits sum.splits)
  have "h1 ConnectionHeader = h ConnectionHeader"
    using assms
    by (auto simp: rules stripUntrustedIdentityHeaders_def header_set_def header_del_def split: if_splits sum.splits)
  then show "connection_names h1 = connection_names h"
    by (simp add: connection_names_def header_tokens_def header_values_def)
  show "(\<exists>p. BearerToken (header_get h AuthorizationHeader) \<noteq> [] \<and>
        openapi (BearerToken (header_get h AuthorizationHeader)) = Inr p \<and>
        header_get h1 RequestUserHeader = op_username p \<and> header_get h1 DepartmentFullPathHeader = op_department p \<and>
        header_get h1 TokenHeader = [] \<and> header_get h1 AuthorizationHeader = []) \<or>
     (\<exists>p. BearerToken (header_get h AuthorizationHeader) = [] \<and> header_get h TokenHeader \<noteq> [] \<and>
        access (header_get h TokenHeader) = Inr p \<and>
        header_get h1 RequestUserHeader = tp_username p \<and> header_get h1 DepartmentFullPathHeader = tp_department p \<and>
        header_get h1 TokenHeader = header_get h TokenHeader \<and>
        header_get h1 AuthorizationHeader = header_get h AuthorizationHeader) \<or>
     BearerToken (header_get h AuthorizationHeader) = [] \<and> header_get h TokenHeader = [] \<and>
        header_get h1 RequestUserHeader = [] \<and>
        header_get h1 TokenHeader = [] \<and> header_get h1 AuthorizationHeader = header_get h AuthorizationHeader"
    using assms by (auto simp: rules split: if_splits sum.splits)
qed

text \<open>What a service makes of the headers when those named in \<open>N\<close> got lost on the way.\<close>

lemma identity_passes:
  assumes forwarded: "proxy_handler openapi access timeout trace path h = Forwarded h1 d"
    and arrives: "\<forall>k \<in> set identity_headers. h2 k = (if k \<in> N then None else h1 k)"
    and names: "\<forall>raw p. openapi raw = Inr p \<longrightarrow> op_username p \<noteq> []" "\<forall>raw p. access raw = Inr p \<longrightarrow> tp_username p \<noteq> []"
    and eqs: "service = backend_identity (JWTAuth validate check client_ip h2)"
      "info = ax_request_user (fst (WithUserInfo validate check h2))" "identity = gateway_identity openapi access h"
  shows "set identity_headers \<inter> N = {} \<Longrightarrow>
      service = identity \<and> info = Some (case identity of None \<Rightarrow> [] | Some (u, _) \<Rightarrow> u)"
    and "service = Some (u, dep) \<Longrightarrow> (\<exists>dep'. identity = Some (u, dep') \<and> (dep = dep' \<or> dep = None)) \<or>
      RequestUserHeader \<in> N \<and> identity \<noteq> None \<and>
      (\<exists>c. check (header_get h TokenHeader) = Inr c \<and> u = jw_username c \<and> dep = claimed_department c)"
    and "info = Some u \<Longrightarrow> u = [] \<or> (\<exists>dep. identity = Some (u, dep)) \<or>
      RequestUserHeader \<in> N \<and> identity \<noteq> None \<and> (\<exists>c. check (header_get h TokenHeader) = Inr c \<and> u = jw_username c)"
    and "RequestUserHeader \<in> N \<Longrightarrow> BearerToken (header_get h AuthorizationHeader) \<noteq> [] \<Longrightarrow> service = None"
proof -
  have get: "header_get h2 RequestUserHeader = (if RequestUserHeader \<in> N then [] else header_get h1 RequestUserHeader)"
    "header_get h2 UsernameHeader = []"
    "header_get h2 DepartmentFullPathHeader = (if DepartmentFullPathHeader \<in> N then [] else header_get h1 DepartmentFullPathHeader)"
    "header_get h2 TokenHeader = (if TokenHeader \<in> N then [] else header_get h1 TokenHeader)"
    "header_get h2 AuthorizationHeader = (if AuthorizationHeader \<in> N then [] else header_get h1 AuthorizationHeader)"
    using arrives forwarded_headers(1) [OF forwarded] by (simp_all add: header_get_def identity_headers_def split: option.splits)
  have none: "non_empty [] = None" by (simp add: non_empty_def)
  note rules = eqs JWTAuth_def WithUserInfo_def backend_identity_def gateway_identity_def
    Let_def no_ctx_def user_from_openapi_def user_from_token_def get none
  note named = names [rule_format]
  note three = forwarded_headers(3) [OF forwarded]
  show "service = identity \<and> info = Some (case identity of None \<Rightarrow> [] | Some (u, _) \<Rightarrow> u)"
    if "set identity_headers \<inter> N = {}"
    using three that by (elim disjE exE conjE) (auto simp: rules identity_headers_def dest: named)
  show "(\<exists>dep'. identity = Some (u, dep') \<and> (dep = dep' \<or> dep = None)) \<or>
      RequestUserHeader \<in> N \<and> identity \<noteq> None \<and>
      (\<exists>c. check (header_get h TokenHeader) = Inr c \<and> u = jw_username c \<and> dep = claimed_department c)"
    if "service = Some (u, dep)"
    using three that by (elim disjE exE conjE) (auto simp: rules dest: named split: if_splits sum.splits)
  show "u = [] \<or> (\<exists>dep. identity = Some (u, dep)) \<or>
      RequestUserHeader \<in> N \<and> identity \<noteq> None \<and> (\<exists>c. check (header_get h TokenHeader) = Inr c \<and> u = jw_username c)"
    if "info = Some u"
    using three that by (elim disjE exE conjE) (auto simp: rules dest: named split: if_splits sum.splits option.splits)
  show "service = None" if "RequestUserHeader \<in> N" "BearerToken (header_get h AuthorizationHeader) \<noteq> []"
    using three that by (elim disjE exE conjE) (auto simp: rules split: if_splits)
qed

text \<open>The verdicts of the two validators on a request, with the answers the HR server gives.\<close>

definition openapi_verdict ::
  "jwt_env \<Rightarrow> gostr \<Rightarrow> (gostr \<Rightarrow> gostr) \<Rightarrow> (nat \<Rightarrow> nat) \<Rightarrow> int \<Rightarrow> int \<Rightarrow>
     (gostr \<Rightarrow> openapi_principal authority_answer) \<Rightarrow> openapi_principal token_cache \<Rightarrow>
     gostr \<Rightarrow> gw_error + openapi_principal" where
  "openapi_verdict J url hash pick t t' answer c raw =
     fst (OpenAPITokenValidate J url hash pick t t' raw (answer raw) c)"

definition access_verdict ::
  "jwt_env \<Rightarrow> gostr \<Rightarrow> (gostr \<Rightarrow> gostr) \<Rightarrow> (nat \<Rightarrow> nat) \<Rightarrow> int \<Rightarrow> int \<Rightarrow>
     (gostr \<Rightarrow> access_token_principal authority_answer) \<Rightarrow> access_token_principal token_cache \<Rightarrow>
     gostr \<Rightarrow> gw_error + access_token_principal" where
  "access_verdict J url hash pick t t' answer c raw =
     fst (GwValidateGatewayToken J url hash pick t t' raw (answer raw) c)"

text \<open>
  C34. A service behind the gateway never takes over a name the client merely claims. A request that the
  proxy forwards reaches the service after the director and the reverse proxy of the Go library, which
  removes the headers the client's \<open>Connection\<close> header names. If it names none of the five headers that
  carry identities, the middleware \<open>JWTAuth\<close> of the service lets the request pass exactly if the gateway
  has validated a token in it, with the user and the department of that token's principal, and
  \<open>WithUserInfo\<close> sets this user, or none. Whatever it names, a request that passes has a token the gateway
  has validated, and its user is that principal, with its department or none, or, only when
  \<open>Connection\<close> names \<open>X-Request-User\<close>, the user of the same access token by the service's own check. So a
  client can take its own identity away: with \<open>X-Request-User\<close> named, a request with a valid OpenAPI token
  is refused. The caches are those of any runs of the gateway.
\<close>

theorem gateway_identity_reaches_backend:
  assumes openapi: "openapi = openapi_verdict J url hash pick t t' oanswer oc"
    and access: "access = access_verdict J url' hash' pick' t t' answer ac"
    and "gw_reach (openapi_setup E lag allowed) ok (w0, empty_cache, []) (w, oc, ks)"
    and "gw_reach (access_setup E lag allowed) ok' (w0', empty_cache, []) (w', ac, ks')"
    and "proxy_handler openapi access timeout trace path h = Forwarded h1 d"
    and "reverse_proxy client (fst (direct route target_host host joined h1)) = Some h2"
    and "service = backend_identity (JWTAuth validate check client_ip h2)"
    and "info = ax_request_user (fst (WithUserInfo validate check h2))"
    and "identity = gateway_identity openapi access h"
  shows "(set identity_headers \<inter> set (connection_names h) = {} \<longrightarrow>
      service = identity \<and> info = Some (case identity of None \<Rightarrow> [] | Some (u, _) \<Rightarrow> u)) \<and>
    (\<forall>u dep. service = Some (u, dep) \<longrightarrow> (\<exists>dep'. identity = Some (u, dep') \<and> (dep = dep' \<or> dep = None)) \<or>
      RequestUserHeader \<in> set (connection_names h) \<and> identity \<noteq> None \<and>
      (\<exists>c. check (header_get h TokenHeader) = Inr c \<and> u = jw_username c \<and> dep = claimed_department c)) \<and>
    (\<forall>u. info = Some u \<longrightarrow> u = [] \<or> (\<exists>dep. identity = Some (u, dep)) \<or>
      RequestUserHeader \<in> set (connection_names h) \<and> identity \<noteq> None \<and>
      (\<exists>c. check (header_get h TokenHeader) = Inr c \<and> u = jw_username c)) \<and>
    (RequestUserHeader \<in> set (connection_names h) \<and> BearerToken (header_get h AuthorizationHeader) \<noteq> [] \<longrightarrow>
      service = None)"
proof -
  have "\<forall>(h, p, e) \<in> set (tc_active oc). \<not> openapi_empty p"
    using openapi_gateway.named_reach [OF assms(3)] by (simp add: openapi_gateway.named_def openapi_kind_def)
  then have o: "\<forall>raw p. openapi raw = Inr p \<longrightarrow> op_username p \<noteq> []"
    using OpenAPITokenValidate_named unfolding openapi openapi_verdict_def by blast
  have "\<forall>(h, p, e) \<in> set (tc_active ac). \<not> access_empty p"
    using access_gateway.named_reach [OF assms(4)] by (simp add: access_gateway.named_def access_kind_def)
  then have a: "\<forall>raw p. access raw = Inr p \<longrightarrow> tp_username p \<noteq> []"
    using GwValidateGatewayToken_named unfolding access access_verdict_def by blast
  have "\<forall>k \<in> set identity_headers. h2 k = (if k \<in> set (connection_names h) then None else h1 k)"
    using reverse_proxy_identity [OF assms(6)] direct_identity forwarded_headers(2) [OF assms(5)] by simp
  note passes = identity_passes [where N = "set (connection_names h)", OF assms(5) this o a assms(7-9)]
  show ?thesis
  proof (intro conjI [OF impI conjI [OF allI [OF allI [OF impI]] conjI [OF allI [OF impI] impI]]], goal_cases)
    case 4
    then show ?case by (elim conjE) (rule passes(4))
  qed (fact passes(1-3))+
qed

text \<open>Applied to a request with a session's token that claims to come from somebody else.\<close>

definition demo_headers :: http_headers where
  "demo_headers = [TokenHeader \<mapsto> [''access-100''], RequestUserHeader \<mapsto> [''root'']]"

definition demo_route :: "gostr \<Rightarrow> route_config" where
  "demo_route path = \<lparr>rt_path = path, rt_targets = [''http://s''], rt_timeout = 0, rt_rewrite = [], rt_service = []\<rparr>"

lemma demo_verdict:
  "access_verdict (he_jwt demo_env) ''u'' id id (101 * second) (101 * second)
     (\<lambda>_. Answered 200 0 demo_principal) empty_cache ''access-100'' = Inr demo_principal"
proof -
  have "ValidateGatewayToken (he_jwt demo_env) (101 * second) (trim_space ''access-100'') =
      Inr (demo_claims TokenUseAccess)" by code_simp
  moreover have "jw_token_use (demo_claims TokenUseAccess) \<noteq> TokenUseScheduled" "trim_space ''u'' \<noteq> []"
    by code_simp+
  moreover have "trim_space ''access-100'' = ''access-100''" by code_simp
  ultimately show ?thesis
    using demo_settle
    by (simp add: access_verdict_def GwValidateGatewayToken_def validateAccessWithClaims_def
      validate_with_claims_def look_up_def isRejected_def read_rejected_def cachedPrincipal_def read_active_def
      empty_cache_def Let_def)
qed

theorem gateway_identity_reaches_backend_witness:
  "\<exists>h1 d h2. proxy_handler (\<lambda>_. Inl GErrUnavailable)
       (access_verdict (he_jwt demo_env) ''u'' id id (101 * second) (101 * second)
         (\<lambda>_. Answered 200 0 demo_principal) empty_cache) 300 [] ''/api/x'' demo_headers = Forwarded h1 d \<and>
     reverse_proxy (Some ''10.0.0.9'') (fst (direct (demo_route ''/api'') ''s'' ''h'' ''/api/x'' h1)) = Some h2 \<and>
     backend_identity (JWTAuth (\<lambda>_. Inl HErrDB) (\<lambda>_. Inl JErrParse) ''10.0.0.1'' h2) = Some (''bob'', Some ''/org/sales'')"
proof -
  let ?o = "openapi_verdict (he_jwt demo_env) ''u'' id id (101 * second) (101 * second) (\<lambda>_. Unreachable) empty_cache"
  let ?a = "access_verdict (he_jwt demo_env) ''u'' id id (101 * second) (101 * second)
      (\<lambda>_. Answered 200 0 demo_principal) empty_cache"
  have get: "header_get demo_headers AuthorizationHeader = []" "header_get demo_headers TokenHeader = ''access-100''"
    by (simp_all add: demo_headers_def header_get_def)
  let ?h1 = "applyAccessPrincipalHeaders demo_principal (stripUntrustedIdentityHeaders demo_headers)"
  have run: "proxy_handler f ?a 300 [] ''/api/x'' demo_headers = Forwarded ?h1 (request_timeout 300 ''/api/x'')" for f
    by (simp add: proxy_handler_def Let_def get demo_verdict [simplified])
  have names: "connection_names demo_headers = []"
    by (simp add: connection_names_def header_tokens_def header_values_def demo_headers_def)
  have "reverse_proxy (Some ''10.0.0.9'') (fst (direct (demo_route ''/api'') ''s'' ''h'' ''/api/x'' ?h1)) \<noteq> None"
    by (simp add: reverse_proxy_def Let_def upgradeType_def header_tokens_def header_values_def direct_def header_get_def
      applyAccessPrincipalHeaders_def stripUntrustedIdentityHeaders_def header_set_def header_del_def demo_headers_def
      demo_principal_def)
  then obtain h2 where h2: "reverse_proxy (Some ''10.0.0.9'')
      (fst (direct (demo_route ''/api'') ''s'' ''h'' ''/api/x'' ?h1)) = Some h2" by blast
  have "backend_identity (JWTAuth (\<lambda>_. Inl HErrDB) (\<lambda>_. Inl JErrParse) ''10.0.0.1'' h2) = gateway_identity ?o ?a demo_headers"
    by (rule gateway_identity_reaches_backend [OF refl refl gw_refl gw_refl run h2 refl refl refl,
      THEN conjunct1, THEN mp, THEN conjunct1]) (simp add: names)
  moreover have "gateway_identity ?o ?a demo_headers = Some (''bob'', Some ''/org/sales'')"
    using demo_verdict by (simp add: gateway_identity_def Let_def get) (simp add: demo_principal_def non_empty_def)
  ultimately show ?thesis using run h2 by metis
qed

section \<open>Routes\<close>

text \<open>
  No pattern the gateway registers covers another: for two specific routes with different paths the
  path of one, with its slash, is not a prefix of the other's. So a request matches at most one.
\<close>

theorem route_patterns_apart:
  assumes "r \<in> set (specificRoutes routes)" and "r' \<in> set (specificRoutes routes)" and "rt_path r \<noteq> rt_path r'"
  shows "\<not> prefix (rt_path r @ [slash]) (rt_path r' @ [slash])"
proof
  assume "prefix (rt_path r @ [slash]) (rt_path r' @ [slash])"
  then have pre: "prefix (rt_path r @ [slash]) (rt_path r')"
    using assms(3) by (auto simp: prefix_snoc)
  then obtain rest where rest: "rt_path r' = rt_path r @ slash # rest" by (auto simp: prefix_def)
  have "r' \<in> set routes" using assms(2) by (simp add: specificRoutes_def)
  then have "isCatchAll routes r"
    using rest by (force simp: isCatchAll_def list_ex_iff nth_append)
  then show False using assms(1) by (simp add: specificRoutes_def)
qed

text \<open>Applied to a general route and a route inside it.\<close>

theorem route_patterns_apart_witness:
  "demo_route ''/hr'' \<in> set (specificRoutes (map demo_route [''/api'', ''/api/v1'', ''/hr''])) \<and>
   \<not> prefix (rt_path (demo_route ''/api/v1'') @ [slash]) (rt_path (demo_route ''/hr'') @ [slash])"
proof -
  let ?rs = "map demo_route [''/api'', ''/api/v1'', ''/hr'']"
  have "specificRoutes ?rs = map demo_route [''/api/v1'', ''/hr'']"
    by (simp add: specificRoutes_def route_usable_def isCatchAll_def demo_route_def)
  then have "demo_route ''/api/v1'' \<in> set (specificRoutes ?rs)" "demo_route ''/hr'' \<in> set (specificRoutes ?rs)"
    by simp_all
  then show ?thesis using route_patterns_apart [of "demo_route ''/api/v1''" ?rs "demo_route ''/hr''"]
    by (simp add: demo_route_def)
qed

lemma check_routes_distinct:
  "check_routes url_ok i seen rs = None \<Longrightarrow>
     distinct (filter (\<lambda>s. s \<noteq> []) (map rt_service rs)) \<and>
     set (filter (\<lambda>s. s \<noteq> []) (map rt_service rs)) \<inter> set seen = {}"
proof (induction rs arbitrary: i seen)
  case (Cons r rs)
  let ?seen = "if rt_service r \<noteq> [] then rt_service r # seen else seen"
  have "check_routes url_ok (Suc i) ?seen rs = None" and fresh: "rt_service r = [] \<or> rt_service r \<notin> set seen"
    using Cons.prems by (auto split: if_splits option.splits)
  from Cons.IH [OF this(1)] fresh show ?case by (cases "rt_service r = []") auto
qed simp

lemma validateConfig_services:
  "validateConfig url_ok cfg = None \<Longrightarrow> distinct (filter (\<lambda>s. s \<noteq> []) (map rt_service (gc_routes cfg)))"
  unfolding validateConfig_def using check_routes_distinct by blast

lemma getTimeout_idem: "getTimeout cfg (getTimeout cfg n) = getTimeout cfg n"
  by (auto simp: getTimeout_def Let_def)

text \<open>A path below the route keeps its rest below the new path.\<close>

lemma rewrite_below:
  "rt_rewrite r \<noteq> [] \<Longrightarrow> rewrite_path r (rt_path r @ slash # rest) = rt_rewrite r @ slash # rest"
  by (simp add: rewrite_path_def Let_def)

end
