(* ===== verification/TreeModel.thy ===== *)
theory TreeModel
  imports Store
begin

text \<open>
  A node of the service tree and the methods on it (\<open>core/app-server/model/service_tree.go\<close>,
  \<open>pkg/servicetree/constants.go\<close>). A node lies at its full code path \<open>/user/app/dir/...\<close>; nothing
  else links it to its parent. The application GORM may have loaded with a node is an argument.
\<close>

section \<open>Rows\<close>

abbreviation TypePackage :: gostr where "TypePackage \<equiv> ''package''"
abbreviation TypeFunction :: gostr where "TypeFunction \<equiv> ''function''"
abbreviation TypeDocs :: gostr where "TypeDocs \<equiv> ''docs''"

text \<open>A node, less the columns on connectors that no modelled operation reads.\<close>

record tree_row =
  tr_id :: int
  tr_created_at :: int
  tr_deleted_at :: "int option"
  tr_created_by :: gostr
  tr_updated_by :: gostr
  tr_name :: gostr
  tr_code :: gostr
  tr_type :: gostr
  tr_description :: gostr
  tr_tags :: gostr
  tr_admins :: gostr
  tr_app_id :: int
  tr_ref_id :: int
  tr_template_type :: gostr
  tr_full_code_path :: gostr
  tr_add_version :: int
  tr_update_version :: int
  tr_version :: gostr
  tr_version_num :: int
  tr_run_count :: int

definition no_tree_row :: tree_row where
  "no_tree_row =
     \<lparr>tr_id = 0, tr_created_at = 0, tr_deleted_at = None, tr_created_by = [], tr_updated_by = [],
      tr_name = [], tr_code = [], tr_type = [], tr_description = [], tr_tags = [], tr_admins = [],
      tr_app_id = 0, tr_ref_id = 0, tr_template_type = [], tr_full_code_path = [],
      tr_add_version = 0, tr_update_version = 0, tr_version = [], tr_version_num = 0,
      tr_run_count = 0\<rparr>"

text \<open>A workspace (\<open>model.App\<close>), less the columns no modelled operation reads.\<close>

record ws_row =
  wk_id :: int
  wk_deleted_at :: "int option"
  wk_created_by :: gostr
  wk_user :: gostr
  wk_code :: gostr
  wk_name :: gostr
  wk_version :: gostr
  wk_admins :: gostr
  wk_host_id :: int
  wk_hide :: bool

section \<open>Strings\<close>

text \<open>\<open>strings.TrimSuffix(s, "/")\<close> and \<open>strings.TrimPrefix\<close>.\<close>

definition trim_suffix_slash :: "gostr \<Rightarrow> gostr" where
  "trim_suffix_slash s = (if s \<noteq> [] \<and> last s = slash then butlast s else s)"

definition trim_prefix :: "gostr \<Rightarrow> gostr \<Rightarrow> gostr" where
  "trim_prefix s p = (if has_prefix s p then drop (length p) s else s)"

abbreviation under_slash :: "gostr list \<Rightarrow> gostr" where
  "under_slash parts \<equiv> slash # join_with [slash] parts"

text \<open>The segments between slashes, \<open>strings.Split(strings.Trim(p, "/"), "/")\<close>.\<close>

abbreviation path_parts :: "gostr \<Rightarrow> gostr list" where
  "path_parts p \<equiv> split_on slash (trim_char slash p)"

section \<open>Methods\<close>

definition IsPackage :: "tree_row \<Rightarrow> bool" where "IsPackage st \<longleftrightarrow> tr_type st = TypePackage"
definition IsFunction :: "tree_row \<Rightarrow> bool" where "IsFunction st \<longleftrightarrow> tr_type st = TypeFunction"
definition IsDocs :: "tree_row \<Rightarrow> bool" where "IsDocs st \<longleftrightarrow> tr_type st = TypeDocs"
definition HasRefID :: "tree_row \<Rightarrow> bool" where "HasRefID st \<longleftrightarrow> tr_ref_id st > 0"

definition GetPathSegments :: "tree_row \<Rightarrow> gostr list" where
  "GetPathSegments st =
     (let path = trim_char slash (tr_full_code_path st) in
      if path = [] then [] else split_on slash path)"

definition IsRoot :: "tree_row \<Rightarrow> bool" where
  "IsRoot st \<longleftrightarrow> length (GetPathSegments st) = 2"

definition GetDepth :: "tree_row \<Rightarrow> nat" where
  "GetDepth st =
     (let segments = GetPathSegments st in
      if length segments \<le> 2 then 0 else length segments - 2)"

definition GetBreadcrumbs :: "tree_row \<Rightarrow> gostr list" where
  "GetBreadcrumbs st =
     (let parts = split_on slash (tr_full_code_path st) in
      if length parts > 0 \<and> hd parts = [] then tl parts else parts)"

definition GetAppPrefix :: "ws_row option \<Rightarrow> gostr" where
  "GetAppPrefix app =
     (case app of None \<Rightarrow> [] | Some a \<Rightarrow> slash # wk_user a @ slash # wk_code a)"

definition GetBasePath :: "ws_row option \<Rightarrow> tree_row \<Rightarrow> gostr" where
  "GetBasePath app st =
     (let full = tr_full_code_path st; pre = GetAppPrefix app in
      if pre \<noteq> [] \<and> has_prefix full pre then trim_prefix full pre else full)"

definition BuildFullPath :: "ws_row option \<Rightarrow> tree_row \<Rightarrow> gostr \<Rightarrow> gostr" where
  "BuildFullPath app st name =
     (if IsRoot st then
        let pre = GetAppPrefix app in
        if pre \<noteq> [] then pre @ slash # name else slash # name
      else tr_full_code_path st @ slash # name)"

definition GetParentFullPath :: "tree_row \<Rightarrow> gostr" where
  "GetParentFullPath st =
     (if IsRoot st then []
      else let parts = path_parts (tr_full_code_path st) in
        if length parts \<le> 1 then [] else under_slash (butlast parts))"

definition GetNodeName :: "tree_row \<Rightarrow> gostr" where
  "GetNodeName st =
     (let parts = path_parts (tr_full_code_path st) in
      if length parts = 0 then [] else last parts)"

definition NodeIsOwnerOrAdmin :: "tree_row \<Rightarrow> gostr \<Rightarrow> bool" where
  "NodeIsOwnerOrAdmin st username =
     (let username = trim_space username in
      if username = [] then False
      else if trim_space (tr_created_by st) = username then True
      else list_ex (\<lambda>admin. trim_space admin = username) (split_on (CHR '','') (tr_admins st)))"

definition GetPackageChain :: "ws_row option \<Rightarrow> tree_row \<Rightarrow> gostr list" where
  "GetPackageChain app st =
     (let full = GetBasePath app st in
      if full = [] \<or> full = [slash] then []
      else let parts = path_parts full in
        if length parts = 0 then []
        else if IsFunction st \<and> length parts > 1 then butlast parts
        else parts)"

definition GetPackagePath :: "ws_row option \<Rightarrow> tree_row \<Rightarrow> gostr" where
  "GetPackagePath app st =
     (if IsPackage st then tr_full_code_path st
      else let parent = GetParentFullPath st in
        if parent = [] then GetAppPrefix app else parent)"

definition GetRelativePath :: "ws_row option \<Rightarrow> tree_row \<Rightarrow> gostr" where
  "GetRelativePath app st =
     (let pre = GetAppPrefix app in
      if pre = [] then GetBasePath app st
      else if has_prefix (tr_full_code_path st) pre then trim_prefix (tr_full_code_path st) pre
      else GetBasePath app st)"

definition IsInPackage :: "tree_row \<Rightarrow> gostr \<Rightarrow> bool" where
  "IsInPackage st package_path =
     (if package_path = [] \<or> package_path = [slash] then IsRoot st
      else let package_path = trim_suffix_slash package_path;
               current = trim_suffix_slash (tr_full_code_path st) in
        if package_path = current then True
        else has_prefix current (package_path @ [slash]))"

definition GetHierarchyType :: "tree_row \<Rightarrow> gostr" where
  "GetHierarchyType st =
     (if tr_type st = TypePackage then (if IsRoot st then ''root'' else TypePackage)
      else if tr_type st = TypeFunction then TypeFunction
      else ''unknown'')"

definition GetDisplayName :: "tree_row \<Rightarrow> gostr" where
  "GetDisplayName st = (if tr_name st \<noteq> [] then tr_name st else tr_code st)"

definition GetPackagePathForFileCreation :: "ws_row option \<Rightarrow> tree_row \<Rightarrow> gostr" where
  "GetPackagePathForFileCreation app st =
     (let pre = GetAppPrefix app; full = tr_full_code_path st;
          full = (if pre \<noteq> [] \<and> has_prefix full pre then trim_prefix full pre else full);
          base = trim_prefix full [slash];
          package_path =
            (if IsFunction st then
               let parts = split_on slash base in
               if length parts > 1 then join_with [slash] (butlast parts) else []
             else base) in
      if package_path = [] then tr_code st else package_path)"

definition clean_items :: "gostr list \<Rightarrow> gostr list" where
  "clean_items xs = filter (\<lambda>x. x \<noteq> []) (map trim_space xs)"

definition GetTagsSlice :: "tree_row \<Rightarrow> gostr list" where
  "GetTagsSlice st =
     (if tr_tags st = [] then [] else clean_items (split_on (CHR '','') (tr_tags st)))"

definition SetTagsSlice :: "gostr list \<Rightarrow> tree_row \<Rightarrow> tree_row" where
  "SetTagsSlice tags st =
     (if tags = [] then st\<lparr>tr_tags := []\<rparr>
      else st\<lparr>tr_tags := join_with '','' (clean_items tags)\<rparr>)"

definition IsInStandardLib :: "tree_row \<Rightarrow> bool" where
  "IsInStandardLib st \<longleftrightarrow>
     tr_full_code_path st = ''/system/tools'' \<or> has_prefix (tr_full_code_path st) ''/system/tools/''"

definition GetFunctionPath :: "tree_row \<Rightarrow> gostr" where
  "GetFunctionPath st = (if \<not> IsFunction st then [] else tr_full_code_path st)"

definition IsDescendantOf :: "tree_row \<Rightarrow> tree_row \<Rightarrow> bool" where
  "IsDescendantOf st ancestor =
     (if tr_full_code_path st = tr_full_code_path ancestor then False
      else has_prefix (tr_full_code_path st) (tr_full_code_path ancestor @ [slash]))"

text \<open>The length of the common front of two lists: the loop stops at the first difference.\<close>

fun common_length :: "gostr list \<Rightarrow> gostr list \<Rightarrow> nat" where
  "common_length (x # xs) (y # ys) = (if x = y then Suc (common_length xs ys) else 0)"
| "common_length _ _ = 0"

definition GetCommonAncestorPath :: "tree_row \<Rightarrow> tree_row \<Rightarrow> gostr" where
  "GetCommonAncestorPath st other =
     (let mine = GetPathSegments st; n = common_length mine (GetPathSegments other) in
      if n = 0 then [] else under_slash (take n mine))"

section \<open>Facts about paths\<close>

named_theorems tree_paths_simps

lemma count_dropWhile_le: "count_list (dropWhile P s) c \<le> count_list s c"
  by (induction s) auto

lemma count_trim_le: "count_list (trim_char c s) d \<le> count_list s d"
proof -
  have "count_list (trim_char c s) d = count_list (dropWhile (\<lambda>x. x = c) (rev (dropWhile (\<lambda>x. x = c) s))) d"
    by (simp add: trim_char_def trim_right_char_def)
  also have "\<dots> \<le> count_list (rev (dropWhile (\<lambda>x. x = c) s)) d" by (rule count_dropWhile_le)
  also have "\<dots> \<le> count_list s d" by (simp add: count_dropWhile_le)
  finally show ?thesis .
qed

lemma trim_char_leading: "trim_char c (c # s) = trim_char c s"
  by (simp add: trim_char_def)

text \<open>The parent path has fewer segments than the path.\<close>

lemma parent_fewer_parts:
  assumes "length (path_parts p) \<ge> 2"
  shows "length (path_parts (under_slash (butlast (path_parts p)))) < length (path_parts p)"
proof -
  let ?init = "butlast (path_parts p)"
  have ne: "?init \<noteq> []" using assms by (cases "path_parts p" rule: rev_cases) auto
  have "length (path_parts (under_slash ?init)) \<le> length (split_on slash (join_with [slash] ?init))"
    by (simp add: trim_char_leading length_split_on count_trim_le)
  also have "split_on slash (join_with [slash] ?init) = ?init"
    using ne by (rule split_on_join_with) (auto dest: in_set_butlastD split_on_no_sep)
  also have "length ?init < length (path_parts p)" using assms by simp
  finally show ?thesis .
qed

end
