(* ===== verification/TreeStore.thy ===== *)
theory TreeStore
  imports TreeModel SchedManage RoleStore
begin

text \<open>
  The tables of the service tree and their repositories
  (\<open>core/app-server/repository/service_tree_repository.go\<close>, \<open>doc_repository.go\<close>, and of
  \<open>app_repository.go\<close> the two cached reads), with the store of the timer scheduler, which the app
  server reaches over the gateway, and the one of the permission subsystem of the same server. \<open>service_tree\<close> has no unique index on the path. \<open>First\<close> takes the
  smallest id. Rows are soft-deleted.
\<close>

section \<open>Tables\<close>

text \<open>A document (\<open>model.Docs\<close>).\<close>

record doc_row =
  dc_id :: int
  dc_created_at :: int
  dc_deleted_at :: "int option"
  dc_created_by :: gostr
  dc_updated_by :: gostr
  dc_name :: gostr
  dc_content :: gostr
  dc_format :: gostr
  dc_app_id :: int
  dc_tree_id :: int
  dc_full_code_path :: gostr
  dc_summary :: gostr

text \<open>What was asked of the runtime of the workspace: the host, and the directories by their paths.\<close>

datatype runtime_call =
    CreateDirectories int gostr gostr "gostr list"
  | DeleteDirectory int gostr gostr gostr

record tree_db =
  td_nodes :: "tree_row list"
  td_docs :: "doc_row list"
  td_apps :: "ws_row list"
  td_app_cache :: "(gostr \<times> ws_row \<times> int) list"
  td_app_id_cache :: "(int \<times> ws_row \<times> int) list"
  td_runtime :: "runtime_call list"
  td_sched :: sched_db
  td_perm :: perm_db

text \<open>The errors, by what their messages say, with the value they name or the error they wrap.\<close>

datatype tree_error =
    TErrDB
  | TErrNotFound
  | TErrTransport
  | TOutOfFuel
  | TErr gostr
  | TErrOf gostr gostr
  | TErrIn gostr tree_error
  | TErrTimer sched_error
  | TErrPerm perm_error

type_synonym 'a tree = "(tree_db, tree_error, 'a) act"

definition node_live :: "tree_row \<Rightarrow> bool" where "node_live r \<longleftrightarrow> tr_deleted_at r = None"
definition doc_live :: "doc_row \<Rightarrow> bool" where "doc_live r \<longleftrightarrow> dc_deleted_at r = None"
definition ws_live :: "ws_row \<Rightarrow> bool" where "ws_live r \<longleftrightarrow> wk_deleted_at r = None"

definition found_node :: "'r option \<Rightarrow> 'r tree" where
  "found_node r = (case r of None \<Rightarrow> fail TErrNotFound | Some x \<Rightarrow> ret x)"

text \<open>\<open>fmt.Errorf("...: %w", err)\<close>; the end of the fuel is no error of the code.\<close>

definition wrapped :: "gostr \<Rightarrow> 'a tree \<Rightarrow> 'a tree" where
  "wrapped msg m = (\<lambda>w. case m w of
     (Inl e, w') \<Rightarrow> (Inl (if e = TOutOfFuel then e else TErrIn msg e), w')
   | (Inr a, w') \<Rightarrow> (Inr a, w'))"

section \<open>Calls to another server\<close>

text \<open>
  An action on the store of another server, run in this world: the counters are told apart by the
  names of their tables, the clock is common.
\<close>

definition remote ::
  "('s \<Rightarrow> 't) \<Rightarrow> ('t \<Rightarrow> 's \<Rightarrow> 's) \<Rightarrow> ('e \<Rightarrow> 'f) \<Rightarrow> ('t, 'e, 'a) act \<Rightarrow> ('s, 'f, 'a) act" where
  "remote part put err m = (\<lambda>w.
     case m \<lparr>clock = clock w, seqs = seqs w, faults = faults w, store = part (store w)\<rparr> of
       (r, v) \<Rightarrow> (map_sum err id r,
          \<lparr>clock = clock v, seqs = seqs v, faults = faults v, store = put (store v) (store w)\<rparr>))"

text \<open>
  A request over HTTP may be lost on the way there, and its answer on the way back, when the other
  server has done what it was asked.
\<close>

definition timer_call :: "'a sched \<Rightarrow> 'a tree" where
  "timer_call m =
     andThen (query TErrTransport (\<lambda>_. ())) (\<lambda>_.
     andThen (remote td_sched (\<lambda>t s. s\<lparr>td_sched := t\<rparr>) TErrTimer m) (\<lambda>a.
     andThen (query TErrTransport (\<lambda>_. ())) (\<lambda>_. ret a)))"

section \<open>Nodes\<close>

definition TreeCreate :: "tree_row \<Rightarrow> tree_row tree" where
  "TreeCreate r =
     andThen (next_id ''service_tree'') (\<lambda>i. andThen now (\<lambda>t.
     let row = r\<lparr>tr_id := i, tr_created_at := t\<rparr> in
     modify TErrDB (\<lambda>s. (row, s\<lparr>td_nodes := td_nodes s @ [row]\<rparr>))))"

definition CreateServiceTreeWithParentPath :: "tree_row \<Rightarrow> gostr \<Rightarrow> tree_row tree" where
  "CreateServiceTreeWithParentPath r parent_full_id_path = TreeCreate r"

text \<open>\<open>Save\<close> of a row read earlier.\<close>

definition UpdateServiceTree :: "tree_row \<Rightarrow> unit tree" where
  "UpdateServiceTree r = modify TErrDB (\<lambda>s. ((),
     s\<lparr>td_nodes := upd (\<lambda>x. node_live x \<and> tr_id x = tr_id r) (\<lambda>_. r) (td_nodes s)\<rparr>))"

definition calculatePathsWithAppPrefix :: "ws_row option \<Rightarrow> gostr \<Rightarrow> tree_row \<Rightarrow> tree_row" where
  "calculatePathsWithAppPrefix app user_app_prefix st =
     (case app of
        Some a \<Rightarrow> st\<lparr>tr_full_code_path := (slash # wk_user a @ slash # wk_code a) @ slash # tr_code st\<rparr>
      | None \<Rightarrow> st\<lparr>tr_full_code_path := user_app_prefix @ slash # tr_code st\<rparr>)"

definition CreateServiceTreeWithAppPrefix :: "ws_row option \<Rightarrow> tree_row \<Rightarrow> gostr \<Rightarrow> unit tree" where
  "CreateServiceTreeWithAppPrefix app r user_app_prefix =
     andThen (TreeCreate r) (\<lambda>row. UpdateServiceTree (calculatePathsWithAppPrefix app user_app_prefix row))"

definition GetServiceTreeByID :: "int \<Rightarrow> tree_row tree" where
  "GetServiceTreeByID i =
     andThen (query TErrDB (\<lambda>s. first_row (\<lambda>r. node_live r \<and> tr_id r = i) (td_nodes s))) found_node"

abbreviation by_id :: "tree_row list \<Rightarrow> tree_row list" where
  "by_id rows \<equiv> sort_key tr_id rows"

definition GetServiceTreesByAppID :: "int \<Rightarrow> tree_row list tree" where
  "GetServiceTreesByAppID app_id =
     query TErrDB (\<lambda>s. by_id (sel (\<lambda>r. node_live r \<and> tr_app_id r = app_id) (td_nodes s)))"

definition GetServiceTreesByAppIDAndType :: "int \<Rightarrow> gostr \<Rightarrow> tree_row list tree" where
  "GetServiceTreesByAppIDAndType app_id node_type =
     query TErrDB (\<lambda>s. by_id (sel (\<lambda>r. node_live r \<and> tr_app_id r = app_id \<and>
       (node_type \<noteq> [] \<longrightarrow> tr_type r = node_type)) (td_nodes s)))"

definition GetRootNodeByAppID :: "int \<Rightarrow> tree_row tree" where
  "GetRootNodeByAppID app_id =
     andThen (query TErrDB (\<lambda>s. first_row (\<lambda>r. node_live r \<and> tr_app_id r = app_id \<and> tr_ref_id r = app_id)
       (td_nodes s))) found_node"

definition normalizeFullCodePath :: "gostr \<Rightarrow> gostr" where
  "normalizeFullCodePath p =
     (let p = trim_space p; p = trim_suffix_slash p in
      if p \<noteq> [] \<and> \<not> has_prefix p [slash] then slash # p else p)"

definition GetServiceTreeByFullPath :: "gostr \<Rightarrow> tree_row tree" where
  "GetServiceTreeByFullPath full_path =
     (let full_path = normalizeFullCodePath full_path in
      if full_path = [] then fail TErrNotFound
      else andThen (query TErrDB (\<lambda>s. first_row (\<lambda>r. node_live r \<and> tr_full_code_path r = full_path)
             (by_id (td_nodes s)))) found_node)"

text \<open>The first row of every path, as Go's map: later rows of a path already seen are skipped.\<close>

definition first_of_paths :: "tree_row list \<Rightarrow> (gostr \<times> tree_row) list" where
  "first_of_paths rows = rev (fold (\<lambda>r m. if map_of m (tr_full_code_path r) \<noteq> None then m
                                         else (tr_full_code_path r, r) # m) rows [])"

definition GetServiceTreeByFullPaths :: "gostr list \<Rightarrow> (gostr \<times> tree_row) list tree" where
  "GetServiceTreeByFullPaths paths =
     (if paths = [] then ret []
      else query TErrDB (\<lambda>s. first_of_paths
        (by_id (sel (\<lambda>r. node_live r \<and> tr_full_code_path r \<in> set paths) (td_nodes s)))))"

definition CheckNameExistsByPath :: "gostr \<Rightarrow> gostr \<Rightarrow> int \<Rightarrow> bool tree" where
  "CheckNameExistsByPath parent_path code app_id =
     (let target = trim_suffix_slash parent_path @ slash # code in
      query TErrDB (\<lambda>s. 0 < hits (\<lambda>r. node_live r \<and> tr_full_code_path r = target \<and> tr_app_id r = app_id)
        (td_nodes s)))"

definition CheckNameExists :: "int \<Rightarrow> gostr \<Rightarrow> int \<Rightarrow> bool tree" where
  "CheckNameExists parent_id code app_id =
     (if parent_id = 0 then ret False
      else andThen (wrapped ''query parent'' (GetServiceTreeByID parent_id)) (\<lambda>parent.
        CheckNameExistsByPath (tr_full_code_path parent) code app_id))"

definition IncrementRunCountByFullCodePath :: "gostr \<Rightarrow> unit tree" where
  "IncrementRunCountByFullCodePath full_path =
     (let full_path = normalizeFullCodePath full_path in
      if full_path = [] then ret ()
      else modify TErrDB (\<lambda>s. ((), s\<lparr>td_nodes :=
        upd (\<lambda>r. node_live r \<and> tr_full_code_path r = full_path \<and> tr_type r = TypeFunction)
            (\<lambda>r. r\<lparr>tr_run_count := wrap64 (tr_run_count r + 1)\<rparr>) (td_nodes s)\<rparr>)))"

section \<open>Administrators of a node\<close>

definition GetNodeAdmins :: "gostr \<Rightarrow> gostr list tree" where
  "GetNodeAdmins resource_path =
     andThen (andThen (query TErrDB (\<lambda>s. first_row (\<lambda>r. node_live r \<and> tr_full_code_path r = resource_path)
       (by_id (td_nodes s)))) found_node) (\<lambda>node.
     ret (if tr_admins node = [] then [] else clean_items (split_on (CHR '','') (tr_admins node))))"

definition set_node_admins :: "gostr \<Rightarrow> gostr list \<Rightarrow> unit tree" where
  "set_node_admins resource_path admins = modify TErrDB (\<lambda>s. ((), s\<lparr>td_nodes :=
     upd (\<lambda>r. node_live r \<and> tr_full_code_path r = resource_path)
         (\<lambda>r. r\<lparr>tr_admins := join_with '','' admins\<rparr>) (td_nodes s)\<rparr>))"

definition AddNodeAdmin :: "gostr \<Rightarrow> gostr \<Rightarrow> unit tree" where
  "AddNodeAdmin resource_path admin =
     andThen (GetNodeAdmins resource_path) (\<lambda>admins.
     if list_ex (\<lambda>a. a = admin) admins then ret ()
     else set_node_admins resource_path (admins @ [admin]))"

definition RemoveNodeAdmin :: "gostr \<Rightarrow> gostr \<Rightarrow> unit tree" where
  "RemoveNodeAdmin resource_path admin =
     andThen (GetNodeAdmins resource_path) (\<lambda>admins.
     set_node_admins resource_path (filter (\<lambda>a. a \<noteq> admin) admins))"

section \<open>Below a path\<close>

text \<open>\<open>strings.TrimSuffix(path, "/") + "/"\<close>, and the pattern that goes into the query.\<close>

definition prefix_of :: "gostr \<Rightarrow> gostr" where
  "prefix_of path = trim_suffix_slash path @ [slash]"

definition like_below :: "int \<Rightarrow> gostr \<Rightarrow> tree_row \<Rightarrow> bool" where
  "like_below app_id path r \<longleftrightarrow>
     node_live r \<and> tr_app_id r = app_id \<and> sql_like (prefix_of path @ ''%'') (tr_full_code_path r)"

definition GetDocsNodesByPathPrefix :: "int \<Rightarrow> gostr \<Rightarrow> tree_row list tree" where
  "GetDocsNodesByPathPrefix app_id parent_path =
     query TErrDB (\<lambda>s. sort_key tr_created_at
       (sel (\<lambda>r. like_below app_id parent_path r \<and> tr_type r = TypeDocs) (td_nodes s)))"

text \<open>Rows of a path already seen, up to surrounding space and slashes, are dropped.\<close>

definition dedupe_key :: "tree_row \<Rightarrow> gostr" where
  "dedupe_key r = (let key = normalizeFullCodePath (tr_full_code_path r) in
     if key = [] then tr_full_code_path r else key)"

fun dedupe_from :: "gostr list \<Rightarrow> tree_row list \<Rightarrow> tree_row list" where
  "dedupe_from seen [] = []"
| "dedupe_from seen (r # rows) =
     (if dedupe_key r \<in> set seen then dedupe_from seen rows
      else r # dedupe_from (dedupe_key r # seen) rows)"

definition dedupeServiceTreesByFullPath :: "tree_row list \<Rightarrow> tree_row list" where
  "dedupeServiceTreesByFullPath rows = dedupe_from [] rows"

definition GetDirectChildrenByPath :: "int \<Rightarrow> gostr \<Rightarrow> tree_row list tree" where
  "GetDirectChildrenByPath app_id parent_path =
     andThen (query TErrDB (\<lambda>s. by_id (sel (like_below app_id parent_path) (td_nodes s)))) (\<lambda>all.
     let parent_depth = length (path_parts parent_path) in
     ret (dedupeServiceTreesByFullPath
       (filter (\<lambda>r. length (path_parts (tr_full_code_path r)) = parent_depth + 1) all)))"

definition GetServiceTreeChildren :: "int \<Rightarrow> tree_row list tree" where
  "GetServiceTreeChildren parent_id =
     andThen (wrapped ''query parent'' (GetServiceTreeByID parent_id)) (\<lambda>parent.
     GetDirectChildrenByPath (tr_app_id parent) (tr_full_code_path parent))"

definition below_sorted :: "(tree_row \<Rightarrow> bool) \<Rightarrow> int \<Rightarrow> gostr \<Rightarrow> tree_row list tree" where
  "below_sorted P app_id parent_path =
     andThen (query TErrDB (\<lambda>s. sort_key tr_full_code_path
       (sel (\<lambda>r. like_below app_id parent_path r \<and> P r) (td_nodes s)))) (\<lambda>rows.
     ret (filter (\<lambda>r. has_prefix (tr_full_code_path r) (prefix_of parent_path)) rows))"

definition GetDescendantDirectories :: "int \<Rightarrow> gostr \<Rightarrow> tree_row list tree" where
  "GetDescendantDirectories app_id parent_path =
     below_sorted (\<lambda>r. tr_type r = TypePackage) app_id parent_path"

definition GetDescendantNodes :: "int \<Rightarrow> gostr \<Rightarrow> tree_row list tree" where
  "GetDescendantNodes app_id parent_path = below_sorted (\<lambda>_. True) app_id parent_path"

section \<open>Deleting a node and what lies below\<close>

definition delete_node_row :: "int \<Rightarrow> unit tree" where
  "delete_node_row i = andThen now (\<lambda>t. modify TErrDB (\<lambda>s. ((),
     s\<lparr>td_nodes := upd (\<lambda>r. node_live r \<and> tr_id r = i) (\<lambda>r. r\<lparr>tr_deleted_at := Some t\<rparr>) (td_nodes s)\<rparr>)))"

text \<open>The recursion goes down one level of the path at a time; the fuel bounds its depth.\<close>

primrec RepoDeleteServiceTree :: "nat \<Rightarrow> int \<Rightarrow> unit tree" where
  "RepoDeleteServiceTree 0 = (\<lambda>i. fail TOutOfFuel)"
| "RepoDeleteServiceTree (Suc n) = (\<lambda>i.
     andThen (GetServiceTreeChildren i) (\<lambda>children.
     andThen (for_each (\<lambda>c. RepoDeleteServiceTree n (tr_id c)) children) (\<lambda>_.
     delete_node_row i)))"

end
