(* ===== verification/TreeTasks.thy ===== *)
theory TreeTasks
  imports TreeStore
begin

text \<open>
  Keeping the scheduled tasks of a workspace in step with its service tree
  (\<open>core/app-server/service/scheduled_task_reconciler.go\<close>). The scheduler is the modelled one: the
  client's requests run its \<open>ListTasks\<close> and \<open>DeleteTask\<close> on its own tables.
\<close>

abbreviation scheduledTaskReconcilePageSize :: int where "scheduledTaskReconcilePageSize \<equiv> 100"

text \<open>\<open>contextx.WithClientSource(ctx, scheduledTaskSourceManifest)\<close>.\<close>

definition managed_ctx :: "req_context \<Rightarrow> req_context" where
  "managed_ctx cx = cx\<lparr>cx_client_source := ''app_manifest''\<rparr>"

definition normalizeScheduledResourcePath :: "gostr \<Rightarrow> gostr" where
  "normalizeScheduledResourcePath path =
     (let path = trim_right_char slash (trim_space path) in
      if path \<noteq> [] \<and> \<not> has_prefix path [slash] then slash # path else path)"

definition scheduledResourceWithinPrefix :: "gostr \<Rightarrow> gostr \<Rightarrow> bool" where
  "scheduledResourceWithinPrefix path pre =
     (let path = normalizeScheduledResourcePath path; pre = normalizeScheduledResourcePath pre in
      path = pre \<or> has_prefix path (pre @ [slash]))"

definition scheduledTaskExpectedTreeType :: "sdk_task \<Rightarrow> gostr option" where
  "scheduledTaskExpectedTreeType task =
     (if st_executor_key task = ''app.function'' \<and> st_resource_scope task = ''function''
      then Some TypeFunction
      else if st_executor_key task = ''agent.session'' \<and> st_resource_scope task = ''workspace_directory''
      then Some TypePackage
      else None)"

section \<open>Listing all pages\<close>

definition any_task :: list_tasks_request where
  "any_task = \<lparr>lt_executor_key = [], lt_status = [], lt_category = [], lt_source_type = [],
     lt_source_ref = [], lt_resource_scope = [], lt_resource_key = [], lt_resource_key_prefix = [],
     lt_created_by = [], lt_page = 0, lt_page_size = 0\<rparr>"

text \<open>The loop over the pages; the fuel bounds their number.\<close>

primrec list_pages :: "nat \<Rightarrow> list_tasks_request \<Rightarrow> int \<Rightarrow> sdk_task list \<Rightarrow> sdk_task list tree" where
  "list_pages 0 = (\<lambda>req page all. fail TOutOfFuel)"
| "list_pages (Suc n) = (\<lambda>req page all.
     andThen (wrapped ''list tasks'' (timer_call (ListTasks
       (req\<lparr>lt_page := page, lt_page_size := scheduledTaskReconcilePageSize\<rparr>)))) (\<lambda>(rows, total).
     if rows = [] then ret all
     else let all = all @ rows in
       if length all \<ge> total \<or> int (length rows) < scheduledTaskReconcilePageSize then ret all
       else list_pages n req (page + 1) all))"

definition reconciler_listTasks :: "nat \<Rightarrow> list_tasks_request \<Rightarrow> sdk_task list tree" where
  "reconciler_listTasks fuel req = list_pages fuel req 1 []"

section \<open>The tasks of a directory\<close>

definition timer_DeleteTask :: "sched_env \<Rightarrow> req_context \<Rightarrow> int \<Rightarrow> unit tree" where
  "timer_DeleteTask E cx i = timer_call (DeleteTask E cx i)"

text \<open>The loops count what they deleted; an error ends them, and the count with it.\<close>

fun delete_within :: "sched_env \<Rightarrow> req_context \<Rightarrow> gostr \<Rightarrow> sdk_task list \<Rightarrow> int \<Rightarrow> int tree" where
  "delete_within E cx path [] deleted = ret deleted"
| "delete_within E cx path (task # rest) deleted =
     (if st_id task \<le> 0 then delete_within E cx path rest deleted
      else if \<not> scheduledResourceWithinPrefix (st_resource_key task) path
      then delete_within E cx path rest deleted
      else andThen (wrapped ''delete task'' (timer_DeleteTask E (managed_ctx cx) (st_id task))) (\<lambda>_.
        delete_within E cx path rest (deleted + 1)))"

definition DeleteTasksByResourcePrefix ::
  "nat \<Rightarrow> sched_env \<Rightarrow> req_context \<Rightarrow> gostr \<Rightarrow> int tree" where
  "DeleteTasksByResourcePrefix fuel E cx resource_path =
     (let path = normalizeScheduledResourcePath resource_path in
      if path = [] then fail (TErr ''no resource path'')
      else andThen (reconciler_listTasks fuel (any_task\<lparr>lt_resource_key_prefix := path\<rparr>)) (\<lambda>tasks.
        delete_within E cx path tasks 0))"

section \<open>Tasks whose resource is gone\<close>

record reconcile_result =
  rr_checked :: nat
  rr_deleted :: nat
  rr_skipped :: nat

definition reconcile_candidate :: "sdk_task \<Rightarrow> bool" where
  "reconcile_candidate task \<longleftrightarrow>
     scheduledTaskExpectedTreeType task \<noteq> None \<and>
     normalizeScheduledResourcePath (st_resource_key task) \<noteq> []"

definition resource_present :: "(gostr \<times> tree_row) list \<Rightarrow> sdk_task \<Rightarrow> bool" where
  "resource_present nodes task =
     (case map_of nodes (normalizeScheduledResourcePath (st_resource_key task)) of
        None \<Rightarrow> False
      | Some node \<Rightarrow> Some (tr_type node) = scheduledTaskExpectedTreeType task)"

fun delete_orphans ::
  "sched_env \<Rightarrow> req_context \<Rightarrow> (gostr \<times> tree_row) list \<Rightarrow> sdk_task list \<Rightarrow> nat \<Rightarrow> nat tree" where
  "delete_orphans E cx nodes [] deleted = ret deleted"
| "delete_orphans E cx nodes (task # rest) deleted =
     (if resource_present nodes task then delete_orphans E cx nodes rest deleted
      else andThen (wrapped ''delete orphan'' (timer_DeleteTask E (managed_ctx cx) (st_id task))) (\<lambda>_.
        delete_orphans E cx nodes rest (deleted + 1)))"

definition ReconcileOrphans :: "nat \<Rightarrow> sched_env \<Rightarrow> req_context \<Rightarrow> reconcile_result tree" where
  "ReconcileOrphans fuel E cx =
     andThen (reconciler_listTasks fuel any_task) (\<lambda>tasks.
     let candidates = filter reconcile_candidate tasks;
         paths = map (\<lambda>t. normalizeScheduledResourcePath (st_resource_key t)) candidates in
     andThen (wrapped ''query nodes'' (GetServiceTreeByFullPaths paths)) (\<lambda>nodes.
     andThen (delete_orphans E cx nodes candidates 0) (\<lambda>deleted.
     ret \<lparr>rr_checked = length candidates, rr_deleted = deleted,
          rr_skipped = length tasks - length candidates\<rparr>)))"

end
