(* ===== verification/TreeDocs.thy ===== *)
theory TreeDocs
  imports TreeStore
begin

text \<open>
  The cached reads of workspaces (\<open>core/app-server/repository/app_repository.go\<close>) and documents:
  \<open>doc_repository.go\<close> and the operations of \<open>core/app-server/service/doc_service.go\<close> on one document.
\<close>

section \<open>Workspaces\<close>

abbreviation wsCacheTTL :: int where "wsCacheTTL \<equiv> 300000000000"

definition cache_entry :: "('k \<times> ws_row \<times> int) list \<Rightarrow> 'k \<Rightarrow> int \<Rightarrow> ws_row option" where
  "cache_entry c k t =
     (case map_of c k of None \<Rightarrow> None
      | Some (row, cached_at) \<Rightarrow> if t - cached_at < wsCacheTTL then Some row else None)"

definition ws_key :: "gostr \<Rightarrow> gostr \<Rightarrow> gostr" where
  "ws_key user code = user @ CHR '':'' # code"

text \<open>A row read from the table enters both caches. Reading a cache needs no database.\<close>

definition cache_workspace :: "ws_row \<Rightarrow> unit tree" where
  "cache_workspace row = (\<lambda>w. (Inr (), w\<lparr>store := (store w)
     \<lparr>td_app_cache := AList.update (ws_key (wk_user row) (wk_code row)) (row, clock w) (td_app_cache (store w)),
      td_app_id_cache := AList.update (wk_id row) (row, clock w) (td_app_id_cache (store w))\<rparr>\<rparr>))"

definition WsGetByUserName :: "gostr \<Rightarrow> gostr \<Rightarrow> ws_row tree" where
  "WsGetByUserName user app = (\<lambda>w.
     case cache_entry (td_app_cache (store w)) (ws_key user app) (clock w) of
       Some row \<Rightarrow> (Inr row, w)
     | None \<Rightarrow>
         andThen (query TErrDB (\<lambda>s. first_row
           (\<lambda>a. ws_live a \<and> wk_user a = user \<and> wk_code a = app) (td_apps s))) (\<lambda>found.
         andThen (found_node found) (\<lambda>row.
         andThen (cache_workspace row) (\<lambda>_. ret row))) w)"

definition WsGetByID :: "int \<Rightarrow> ws_row tree" where
  "WsGetByID i = (\<lambda>w.
     case cache_entry (td_app_id_cache (store w)) i (clock w) of
       Some row \<Rightarrow> (Inr row, w)
     | None \<Rightarrow>
         andThen (query TErrDB (\<lambda>s. first_row (\<lambda>a. ws_live a \<and> wk_id a = i) (td_apps s))) (\<lambda>found.
         andThen (found_node found) (\<lambda>row.
         andThen (cache_workspace row) (\<lambda>_. ret row))) w)"

definition GetAllApps :: "ws_row list tree" where
  "GetAllApps = query TErrDB (\<lambda>s. sort_key wk_id (sel ws_live (td_apps s)))"

section \<open>The table of documents\<close>

definition DocCreate :: "doc_row \<Rightarrow> doc_row tree" where
  "DocCreate r =
     andThen (next_id ''docs'') (\<lambda>i. andThen now (\<lambda>t.
     let row = r\<lparr>dc_id := i, dc_created_at := t\<rparr> in
     modify TErrDB (\<lambda>s. (row, s\<lparr>td_docs := td_docs s @ [row]\<rparr>))))"

definition GetByTreeID :: "int \<Rightarrow> doc_row tree" where
  "GetByTreeID tree_id =
     andThen (query TErrDB (\<lambda>s. first_row (\<lambda>r. doc_live r \<and> dc_tree_id r = tree_id) (td_docs s))) found_node"

definition DocUpdate :: "doc_row \<Rightarrow> unit tree" where
  "DocUpdate r = modify TErrDB (\<lambda>s. ((),
     s\<lparr>td_docs := upd (\<lambda>x. doc_live x \<and> dc_id x = dc_id r) (\<lambda>_. r) (td_docs s)\<rparr>))"

definition DeleteByTreeID :: "int \<Rightarrow> unit tree" where
  "DeleteByTreeID tree_id = andThen now (\<lambda>t. modify TErrDB (\<lambda>s. ((),
     s\<lparr>td_docs := upd (\<lambda>x. doc_live x \<and> dc_tree_id x = tree_id)
                      (\<lambda>x. x\<lparr>dc_deleted_at := Some t\<rparr>) (td_docs s)\<rparr>)))"

definition ListByTreeIDs :: "int list \<Rightarrow> doc_row list tree" where
  "ListByTreeIDs ids = query TErrDB (\<lambda>s. sel (\<lambda>r. doc_live r \<and> dc_tree_id r \<in> set ids) (td_docs s))"

section \<open>The document service\<close>

text \<open>The node of a document; a missing node and a node of another type are errors of their own.\<close>

definition docs_node :: "gostr \<Rightarrow> tree_row tree" where
  "docs_node path =
     andThen (attempt (GetServiceTreeByFullPath path)) (\<lambda>r. case r of
       Inl e \<Rightarrow> fail (if e = TErrNotFound then TErrOf ''no tree node'' path else TErrIn ''get tree node'' e)
     | Inr tree \<Rightarrow>
         if \<not> IsDocs tree then fail (TErrOf ''node is not docs'' (tr_type tree)) else ret tree)"

definition doc_of_node :: "tree_row \<Rightarrow> doc_row tree" where
  "doc_of_node tree =
     andThen (attempt (GetByTreeID (tr_id tree))) (\<lambda>r. case r of
       Inl e \<Rightarrow> fail (if e = TErrNotFound then TErr ''no document'' else TErrIn ''get document'' e)
     | Inr doc \<Rightarrow> ret doc)"

definition GetDoc :: "gostr \<Rightarrow> doc_row tree" where
  "GetDoc path = andThen (docs_node path) doc_of_node"

record create_doc_req =
  cd_full_code_path :: gostr
  cd_content :: gostr
  cd_format :: gostr
  cd_summary :: gostr

definition CreateDoc :: "gostr \<Rightarrow> create_doc_req \<Rightarrow> doc_row tree" where
  "CreateDoc user req =
     (if user = [] then fail (TErr ''no request user'')
      else andThen (docs_node (cd_full_code_path req)) (\<lambda>tree.
        andThen (attempt (GetByTreeID (tr_id tree))) (\<lambda>existing. case existing of
          Inr _ \<Rightarrow> fail (TErr ''document exists'')
        | Inl _ \<Rightarrow>
            let format = (if cd_format req = [] then ''markdown'' else cd_format req) in
            andThen (wrapped ''create document'' (DocCreate
              \<lparr>dc_id = 0, dc_created_at = 0, dc_deleted_at = None, dc_created_by = user,
               dc_updated_by = user, dc_name = tr_name tree, dc_content = cd_content req,
               dc_format = format, dc_app_id = tr_app_id tree, dc_tree_id = tr_id tree,
               dc_full_code_path = tr_full_code_path tree, dc_summary = cd_summary req\<rparr>)) (\<lambda>doc.
            andThen (attempt (UpdateServiceTree (tree\<lparr>tr_ref_id := dc_id doc\<rparr>))) (\<lambda>_.
            ret doc)))))"

record update_doc_req =
  ud_full_code_path :: gostr
  ud_content :: gostr
  ud_format :: gostr
  ud_summary :: gostr

definition UpdateDoc :: "gostr \<Rightarrow> update_doc_req \<Rightarrow> doc_row tree" where
  "UpdateDoc user req =
     (if user = [] then fail (TErr ''no request user'')
      else andThen (docs_node (ud_full_code_path req)) (\<lambda>tree.
        andThen (doc_of_node tree) (\<lambda>doc.
        let doc = (if ud_content req \<noteq> [] then doc\<lparr>dc_content := ud_content req\<rparr> else doc);
            doc = (if ud_format req \<noteq> [] then doc\<lparr>dc_format := ud_format req\<rparr> else doc);
            doc = (if ud_summary req \<noteq> [] then doc\<lparr>dc_summary := ud_summary req\<rparr> else doc);
            doc = doc\<lparr>dc_updated_by := user\<rparr> in
        andThen (wrapped ''update document'' (DocUpdate doc)) (\<lambda>_. ret doc))))"

definition DeleteDoc :: "nat \<Rightarrow> gostr \<Rightarrow> unit tree" where
  "DeleteDoc fuel path =
     andThen (docs_node path) (\<lambda>tree.
     andThen (wrapped ''delete document'' (DeleteByTreeID (tr_id tree))) (\<lambda>_.
     wrapped ''delete document node'' (RepoDeleteServiceTree fuel (tr_id tree))))"

definition GetDocsByFullCodePath :: "gostr \<Rightarrow> doc_row list tree" where
  "GetDocsByFullCodePath path =
     andThen (wrapped ''get tree node'' (GetServiceTreeByFullPath path)) (\<lambda>tree.
     andThen (wrapped ''get docs nodes''
       (GetDocsNodesByPathPrefix (tr_app_id tree) (tr_full_code_path tree))) (\<lambda>nodes.
     if nodes = [] then ret []
     else let ids = map tr_id (filter (\<lambda>n. tr_ref_id n > 0) nodes) in
       if ids = [] then ret []
       else wrapped ''list documents'' (ListByTreeIDs ids)))"

end
