(* ===== verification/Naming.thy ===== *)
theory Naming
  imports GoBase
begin

text \<open>
  The codes of directories and workspaces (\<open>pkg/naming/go_package.go\<close>, \<open>pinyin_code.go\<close>): a code is
  the name of a Go package. Of the libraries the code calls, Unicode lower case, the compatibility
  decomposition (as the runes of the result), the class of combining marks and the pinyin of a rune
  are parameters; a rune is an integer.
\<close>

record naming_env =
  nm_lower :: "gostr \<Rightarrow> gostr"
  nm_nfkd :: "gostr \<Rightarrow> int list"
  nm_mark :: "int \<Rightarrow> bool"
  nm_pinyin :: "int \<Rightarrow> gostr list"

abbreviation underscore :: char where "underscore \<equiv> CHR ''_''"
abbreviation MaxGoPackageNameLength :: nat where "MaxGoPackageNameLength \<equiv> 50"

section \<open>Checking a code\<close>

datatype name_error =
    NameEmpty gostr
  | NameSpace gostr
  | NameLength gostr nat nat
  | NameTooShort gostr nat
  | NameTooLong gostr nat
  | NameChars gostr
  | NameKeyword gostr gostr

definition goKeywords :: "gostr list" where
  "goKeywords =
     [''break'', ''case'', ''chan'', ''const'', ''continue'', ''default'', ''defer'', ''else'',
      ''fallthrough'', ''for'', ''func'', ''go'', ''goto'', ''if'', ''import'', ''interface'', ''map'',
      ''package'', ''range'', ''return'', ''select'', ''struct'', ''switch'', ''type'', ''var'']"

definition NormalizeGoPackageName :: "gostr \<Rightarrow> gostr" where
  "NormalizeGoPackageName code = trim_space code"

definition IsGoKeyword :: "gostr \<Rightarrow> bool" where
  "IsGoKeyword code \<longleftrightarrow> code \<in> set goKeywords"

definition char_between :: "char \<Rightarrow> char \<Rightarrow> char \<Rightarrow> bool" where
  "char_between lo hi c \<longleftrightarrow> (of_char lo :: nat) \<le> of_char c \<and> (of_char c :: nat) \<le> of_char hi"

abbreviation small_letter :: "char \<Rightarrow> bool" where "small_letter \<equiv> char_between CHR ''a'' CHR ''z''"
abbreviation digit_char :: "char \<Rightarrow> bool" where "digit_char \<equiv> char_between CHR ''0'' CHR ''9''"

definition package_char :: "char \<Rightarrow> bool" where
  "package_char c \<longleftrightarrow> small_letter c \<or> digit_char c \<or> c = underscore"

text \<open>\<open>^[a-z][a-z0-9_]*$\<close>.\<close>

definition goPackageNameRegex :: "gostr \<Rightarrow> bool" where
  "goPackageNameRegex s = (case s of [] \<Rightarrow> False | c # cs \<Rightarrow> small_letter c \<and> list_all package_char cs)"

definition ValidateGoPackageNameLength :: "gostr \<Rightarrow> gostr \<Rightarrow> nat \<Rightarrow> nat \<Rightarrow> name_error option" where
  "ValidateGoPackageNameLength code label min_length max_length =
     (let label = trim_space label;
          label = (if label = [] then ''code'' else label);
          normalized = NormalizeGoPackageName code in
      if normalized = [] then Some (NameEmpty label)
      else if code \<noteq> normalized then Some (NameSpace label)
      else if 0 < min_length \<and> 0 < max_length \<and> (length code < min_length \<or> length code > max_length)
      then Some (NameLength label min_length max_length)
      else if 0 < min_length \<and> length code < min_length then Some (NameTooShort label min_length)
      else if 0 < max_length \<and> length code > max_length then Some (NameTooLong label max_length)
      else if \<not> goPackageNameRegex code then Some (NameChars label)
      else if IsGoKeyword code then Some (NameKeyword label code)
      else None)"

definition ValidateGoPackageName :: "gostr \<Rightarrow> gostr \<Rightarrow> name_error option" where
  "ValidateGoPackageName code label = ValidateGoPackageNameLength code label 1 MaxGoPackageNameLength"

section \<open>Deriving a code from a label\<close>

definition isASCIIAlphaNumeric :: "int \<Rightarrow> bool" where
  "isASCIIAlphaNumeric r \<longleftrightarrow> 97 \<le> r \<and> r \<le> 122 \<or> 65 \<le> r \<and> r \<le> 90 \<or> 48 \<le> r \<and> r \<le> 57"

definition rune_char :: "int \<Rightarrow> char" where "rune_char r = char_of (nat r)"

text \<open>The loop of \<open>normalizeGoPackageCodeCandidate\<close>; the flag is \<open>lastUnderscore\<close>.\<close>

fun candidate_loop :: "naming_env \<Rightarrow> bool \<Rightarrow> int list \<Rightarrow> gostr" where
  "candidate_loop E u [] = []"
| "candidate_loop E u (r # rs) =
     (if nm_mark E r then candidate_loop E u rs
      else if isASCIIAlphaNumeric r then rune_char r # candidate_loop E False rs
      else if \<not> u then underscore # candidate_loop E True rs
      else candidate_loop E u rs)"

definition normalizeGoPackageCodeCandidate :: "naming_env \<Rightarrow> gostr \<Rightarrow> gostr" where
  "normalizeGoPackageCodeCandidate E value =
     (let value = nm_lower E (trim_space value) in
      if value = [] then [] else trim_char underscore (candidate_loop E False (nm_nfkd E value)))"

definition flush_ascii :: "gostr \<Rightarrow> gostr list" where
  "flush_ascii ascii = (if ascii = [] then [] else [ascii])"

fun token_loop :: "naming_env \<Rightarrow> gostr \<Rightarrow> int list \<Rightarrow> gostr list" where
  "token_loop E ascii [] = flush_ascii ascii"
| "token_loop E ascii (r # rs) =
     (if nm_mark E r then token_loop E ascii rs
      else if isASCIIAlphaNumeric r then token_loop E (ascii @ [lower_char (rune_char r)]) rs
      else flush_ascii ascii @
        (case nm_pinyin E r of [] \<Rightarrow> []
         | py # _ \<Rightarrow> let token = normalizeGoPackageCodeCandidate E py in
             if token \<noteq> [] then [token] else []) @
        token_loop E [] rs)"

definition pinyinCodeTokens :: "naming_env \<Rightarrow> gostr \<Rightarrow> gostr list" where
  "pinyinCodeTokens E label = token_loop E [] (nm_nfkd E label)"

definition trimGoPackageCode :: "gostr \<Rightarrow> int \<Rightarrow> gostr" where
  "trimGoPackageCode code max_length =
     (let max_length = (if max_length \<le> 0 then int MaxGoPackageNameLength else max_length);
          code = (if int (length code) > max_length then take (nat max_length) code else code) in
      trim_right_char underscore (trim_char underscore code))"

definition startsWithASCIILetter :: "gostr \<Rightarrow> bool" where
  "startsWithASCIILetter value = (case value of [] \<Rightarrow> False | c # _ \<Rightarrow> small_letter c)"

definition DeriveGoPackageName :: "naming_env \<Rightarrow> gostr \<Rightarrow> gostr \<Rightarrow> gostr" where
  "DeriveGoPackageName E label fallback =
     (let fallback = normalizeGoPackageCodeCandidate E fallback;
          fallback = (if fallback = [] then ''directory'' else fallback);
          code = normalizeGoPackageCodeCandidate E (join_with [underscore] (pinyinCodeTokens E label));
          code = (if code = [] then fallback else code);
          code = (if \<not> startsWithASCIILetter code then fallback @ underscore # code else code);
          code = (if IsGoKeyword code then fallback @ underscore # code else code);
          code = trimGoPackageCode code (int MaxGoPackageNameLength) in
      if code = [] \<or> \<not> startsWithASCIILetter code then fallback
      else if IsGoKeyword code
      then trimGoPackageCode (fallback @ underscore # code) (int MaxGoPackageNameLength)
      else code)"

definition GoPackageNameWithNumericSuffix :: "naming_env \<Rightarrow> gostr \<Rightarrow> int \<Rightarrow> gostr" where
  "GoPackageNameWithNumericSuffix E base index =
     (let base = normalizeGoPackageCodeCandidate E base;
          base = (if base = [] then ''directory'' else base) in
      if index \<le> 1 then trimGoPackageCode base (int MaxGoPackageNameLength)
      else let suffix = underscore # show_int index;
               max_base = int MaxGoPackageNameLength - int (length suffix);
               max_base = (if max_base < 1 then 1 else max_base);
               base = trimGoPackageCode base max_base;
               base = (if base = [] then ''directory'' else base) in
        trimGoPackageCode (base @ suffix) (int MaxGoPackageNameLength))"

end
