(* ===== verification/TreeOps.thy ===== *)
theory TreeOps
  imports TreeTasks TreeDocs Naming
begin

text \<open>
  Creating, changing and deleting nodes (\<open>core/app-server/service/package_service.go\<close>,
  \<open>service_tree_special_node_service.go\<close>, \<open>service_tree_mutation_service.go\<close>, and the calls of
  \<open>service_tree_runtime_workspace_bridge.go\<close> they make). The runtime of a workspace is another
  server: what is asked of it is recorded in \<open>td_runtime\<close>, what it answers is the environment's.
\<close>

section \<open>The environment\<close>

record tree_env =
  te_naming :: naming_env
  te_sched :: sched_env
  te_create_dirs :: "int \<Rightarrow> gostr \<Rightarrow> gostr \<Rightarrow> gostr list \<Rightarrow> bool"
  te_delete_dir :: "int \<Rightarrow> gostr \<Rightarrow> gostr \<Rightarrow> gostr \<Rightarrow> (bool \<times> gostr) option option"

text \<open>\<open>te_delete_dir\<close>: \<open>None\<close> is an error of the call, \<open>Some None\<close> an empty response.\<close>

definition check_name :: "name_error option \<Rightarrow> unit tree" where
  "check_name e = (case e of None \<Rightarrow> ret () | Some _ \<Rightarrow> fail (TErr ''bad code''))"

text \<open>\<open>strconv.Atoi\<close>: an optional sign and decimal digits that fit into 64 bits.\<close>

fun digits_of :: "gostr \<Rightarrow> int \<Rightarrow> int option" where
  "digits_of [] n = Some n"
| "digits_of (c # cs) n =
     (if digit_char c then digits_of cs (10 * n + (of_char c - 48)) else None)"

definition atoi :: "gostr \<Rightarrow> int option" where
  "atoi s =
     (let neg = has_prefix s ''-'';
          ds = (if neg \<or> has_prefix s ''+'' then tl s else s) in
      if ds = [] then None
      else case digits_of ds 0 of None \<Rightarrow> None
      | Some n \<Rightarrow> let v = (if neg then - n else n) in
          if - (2 ^ 63) \<le> v \<and> v < 2 ^ 63 then Some v else None)"

definition extractVersionNumForServiceTree :: "gostr \<Rightarrow> int" where
  "extractVersionNumForServiceTree version =
     (if version = [] then 0
      else let version = trim_prefix version ''v''; version = trim_prefix version ''V'' in
        case atoi version of None \<Rightarrow> 0 | Some n \<Rightarrow> n)"

section \<open>The runtime\<close>

text \<open>A request to the runtime over NATS: it may not arrive, or fail there.\<close>

definition runtime_create :: "tree_env \<Rightarrow> int \<Rightarrow> gostr \<Rightarrow> gostr \<Rightarrow> gostr list \<Rightarrow> unit tree" where
  "runtime_create E host user app paths =
     andThen (modify TErrTransport (\<lambda>s. ((), s\<lparr>td_runtime := td_runtime s @ [CreateDirectories host user app paths]\<rparr>)))
       (\<lambda>_. if te_create_dirs E host user app paths then ret () else fail (TErr ''runtime''))"

definition requireRuntimeBinding :: "ws_row \<Rightarrow> ws_row tree" where
  "requireRuntimeBinding a = (if wk_host_id a \<le> 0 then fail (TErr ''no runtime'') else ret a)"

definition getRuntimeBoundAppByUserApp :: "gostr \<Rightarrow> gostr \<Rightarrow> ws_row tree" where
  "getRuntimeBoundAppByUserApp user app =
     andThen (wrapped ''get app'' (WsGetByUserName user app)) requireRuntimeBinding"

definition getRuntimeBoundAppByID :: "int \<Rightarrow> ws_row tree" where
  "getRuntimeBoundAppByID app_id = andThen (wrapped ''get app'' (WsGetByID app_id)) requireRuntimeBinding"

definition createDirectoryScaffold :: "tree_env \<Rightarrow> gostr \<Rightarrow> gostr \<Rightarrow> tree_row \<Rightarrow> unit tree" where
  "createDirectoryScaffold E user app st =
     andThen (getRuntimeBoundAppByUserApp user app) (\<lambda>a.
     wrapped ''create scaffold'' (runtime_create E (wk_host_id a) user app [tr_full_code_path st]))"

definition deleteDirectoryScaffold :: "tree_env \<Rightarrow> int \<Rightarrow> gostr \<Rightarrow> (bool \<times> gostr) option tree" where
  "deleteDirectoryScaffold E app_id package_path =
     andThen (getRuntimeBoundAppByID app_id) (\<lambda>a.
     andThen (modify TErrTransport (\<lambda>s. ((), s\<lparr>td_runtime := td_runtime s @
       [DeleteDirectory (wk_host_id a) (wk_user a) (wk_code a) package_path]\<rparr>))) (\<lambda>_.
     case te_delete_dir E (wk_host_id a) (wk_user a) (wk_code a) package_path of
       None \<Rightarrow> fail (TErr ''runtime'') | Some resp \<Rightarrow> ret resp))"

section \<open>Creating a directory\<close>

record create_package_req =
  cp_user :: gostr
  cp_app :: gostr
  cp_name :: gostr
  cp_code :: gostr
  cp_parent :: gostr
  cp_description :: gostr
  cp_tags :: gostr
  cp_admins :: gostr

text \<open>The loop from 1 to 1000; the argument counts the indices left.\<close>

fun next_code :: "naming_env \<Rightarrow> nat \<Rightarrow> gostr \<Rightarrow> int \<Rightarrow> gostr \<Rightarrow> gostr tree" where
  "next_code N 0 parent_path app_id base = fail (TErr ''no code generated'')"
| "next_code N (Suc n) parent_path app_id base =
     (let index = 1000 - int n;
          candidate = (if index > 1 then GoPackageNameWithNumericSuffix N base index else base) in
      andThen (wrapped ''check generated code'' (CheckNameExistsByPath parent_path candidate app_id)) (\<lambda>ex.
      if \<not> ex then ret candidate else next_code N n parent_path app_id base))"

definition nextAvailablePackageCode :: "naming_env \<Rightarrow> gostr \<Rightarrow> int \<Rightarrow> gostr \<Rightarrow> gostr tree" where
  "nextAvailablePackageCode N parent_path app_id base = next_code N 1000 parent_path app_id base"

text \<open>The parent a request names, none when the path is empty.\<close>

definition parent_node :: "gostr \<Rightarrow> tree_row option tree" where
  "parent_node path =
     (if path \<noteq> [] then andThen (wrapped ''get parent'' (GetServiceTreeByFullPath path)) (\<lambda>p. ret (Some p))
      else ret None)"

definition path_of_parent :: "tree_row option \<Rightarrow> gostr" where
  "path_of_parent parent = (case parent of None \<Rightarrow> [] | Some p \<Rightarrow> tr_full_code_path p)"

definition child_path :: "ws_row \<Rightarrow> tree_row option \<Rightarrow> gostr \<Rightarrow> gostr" where
  "child_path app parent code =
     (case parent of None \<Rightarrow> slash # wk_user app @ slash # wk_code app @ slash # code
      | Some p \<Rightarrow> tr_full_code_path p @ slash # code)"

definition new_node :: "ws_row \<Rightarrow> gostr \<Rightarrow> gostr \<Rightarrow> gostr \<Rightarrow> gostr \<Rightarrow> gostr \<Rightarrow> gostr \<Rightarrow> gostr \<Rightarrow> gostr \<Rightarrow> tree_row" where
  "new_node app name code node_type description tags admins full_path request_user = no_tree_row
     \<lparr>tr_name := name, tr_code := code, tr_type := node_type, tr_description := description,
      tr_tags := tags, tr_admins := admins, tr_app_id := wk_id app, tr_full_code_path := full_path,
      tr_add_version := extractVersionNumForServiceTree (wk_version app),
      tr_created_by := request_user\<rparr>"

definition CreatePackage :: "tree_env \<Rightarrow> gostr \<Rightarrow> create_package_req \<Rightarrow> tree_row tree" where
  "CreatePackage E request_user req =
     (let provided = trim_space (cp_code req) \<noteq> [];
          code = NormalizeGoPackageName (cp_code req);
          code = (if \<not> provided then DeriveGoPackageName (te_naming E) (cp_name req) ''directory'' else code) in
      andThen (check_name (ValidateGoPackageName code ''directory code'')) (\<lambda>_.
      andThen (wrapped ''get app'' (WsGetByUserName (cp_user req) (cp_app req))) (\<lambda>app.
      andThen (parent_node (cp_parent req)) (\<lambda>parent.
      andThen (case parent of None \<Rightarrow> ret () | Some p \<Rightarrow>
          if tr_app_id p \<noteq> wk_id app then fail (TErrOf ''parent of another app'' (cp_parent req)) else ret ()) (\<lambda>_.
      let parent_path = path_of_parent parent in
      andThen (if \<not> provided then nextAvailablePackageCode (te_naming E) parent_path (wk_id app) code
               else ret code) (\<lambda>code.
      andThen (wrapped ''check name'' (CheckNameExistsByPath parent_path code (wk_id app))) (\<lambda>ex.
      if ex then fail (TErrOf ''directory exists'' code)
      else
        andThen (wrapped ''create node'' (CreateServiceTreeWithParentPath
          (new_node app (cp_name req) code TypePackage (cp_description req) (cp_tags req) (cp_admins req)
             (child_path app parent code) request_user) [])) (\<lambda>row.
        andThen (attempt (createDirectoryScaffold E (cp_user req) (cp_app req) row)) (\<lambda>_.
        ret row)))))))))"

section \<open>Creating a document\<close>

record create_node_req =
  cn_user :: gostr
  cn_app :: gostr
  cn_name :: gostr
  cn_code :: gostr
  cn_parent :: gostr
  cn_description :: gostr
  cn_tags :: gostr
  cn_admins :: gostr
  cn_doc_content :: gostr
  cn_doc_format :: gostr
  cn_doc_summary :: gostr

definition createSpecialNode :: "gostr \<Rightarrow> create_node_req \<Rightarrow> gostr \<Rightarrow> gostr \<Rightarrow> tree_row tree" where
  "createSpecialNode request_user req node_type code_suffix =
     (let code = (if cn_code req \<noteq> [] \<and> \<not> suffix code_suffix (cn_code req)
                  then cn_code req @ code_suffix else cn_code req) in
      andThen (wrapped ''get app'' (WsGetByUserName (cn_user req) (cn_app req))) (\<lambda>app.
      andThen (parent_node (cn_parent req)) (\<lambda>parent.
      andThen (wrapped ''check name''
        (CheckNameExistsByPath (path_of_parent parent) code (wk_id app))) (\<lambda>ex.
      if ex then fail (TErrOf ''node exists'' code)
      else wrapped ''create node'' (CreateServiceTreeWithParentPath
        (new_node app (cn_name req) code node_type (cn_description req) (cn_tags req) (cn_admins req)
           (child_path app parent code) request_user) [])))))"

definition CreateDocsNode :: "gostr \<Rightarrow> create_node_req \<Rightarrow> tree_row tree" where
  "CreateDocsNode request_user req =
     andThen (createSpecialNode request_user req TypeDocs ''.docs'') (\<lambda>st.
     if cn_doc_content req = [] then ret st
     else
       let format = (if cn_doc_format req = [] then ''markdown'' else cn_doc_format req) in
       andThen (attempt (CreateDoc request_user
         \<lparr>cd_full_code_path = tr_full_code_path st, cd_content = cn_doc_content req,
          cd_format = format, cd_summary = cn_doc_summary req\<rparr>)) (\<lambda>r. case r of
         Inl _ \<Rightarrow> ret st
       | Inr doc \<Rightarrow>
           if tr_ref_id st = 0 then
             let st = st\<lparr>tr_ref_id := dc_id doc\<rparr> in
             andThen (attempt (UpdateServiceTree st)) (\<lambda>_. ret st)
           else ret st))"

section \<open>Changing a node\<close>

record update_node_req =
  un_id :: int
  un_name :: "gostr option"
  un_code :: "gostr option"
  un_description :: "gostr option"
  un_tags :: "gostr option"
  un_admins :: "gostr option"

definition or_keep :: "'v option \<Rightarrow> 'v \<Rightarrow> 'v" where
  "or_keep new old = (case new of None \<Rightarrow> old | Some v \<Rightarrow> v)"

definition apply_node_update :: "update_node_req \<Rightarrow> tree_row \<Rightarrow> tree_row" where
  "apply_node_update req st = st\<lparr>tr_name := or_keep (un_name req) (tr_name st),
     tr_description := or_keep (un_description req) (tr_description st),
     tr_tags := or_keep (un_tags req) (tr_tags st), tr_admins := or_keep (un_admins req) (tr_admins st)\<rparr>"

definition UpdateServiceTreeMetadata :: "update_node_req \<Rightarrow> unit tree" where
  "UpdateServiceTreeMetadata req =
     (if un_id req \<le> 0 then fail (TErr ''no id'')
      else andThen (wrapped ''get node'' (GetServiceTreeByID (un_id req))) (\<lambda>st.
        if (case un_code req of None \<Rightarrow> False | Some c \<Rightarrow> trim_space c \<noteq> tr_code st)
        then fail (TErr ''code cannot change'')
        else wrapped ''update node'' (UpdateServiceTree (apply_node_update req st))))"

text \<open>\<open>UpdatePackage\<close> passes every field on, \<open>UpdateFunction\<close> all but the administrators.\<close>

definition UpdatePackage :: "update_node_req \<Rightarrow> unit tree" where
  "UpdatePackage req = UpdateServiceTreeMetadata req"

definition UpdateFunction :: "update_node_req \<Rightarrow> unit tree" where
  "UpdateFunction req = UpdateServiceTreeMetadata (req\<lparr>un_admins := None\<rparr>)"

text \<open>Whether the message of an error of \<open>GetDoc\<close> says that something does not exist.\<close>

definition says_missing :: "tree_error \<Rightarrow> bool" where
  "says_missing e \<longleftrightarrow> (case e of TErr m \<Rightarrow> m = ''no document'' | TErrOf m _ \<Rightarrow> m = ''no tree node'' | _ \<Rightarrow> False)"

record update_docs_req =
  uo_node :: update_node_req
  uo_content :: "gostr option"
  uo_format :: "gostr option"
  uo_summary :: "gostr option"

definition upsertDocContent :: "gostr \<Rightarrow> tree_row \<Rightarrow> update_docs_req \<Rightarrow> unit tree" where
  "upsertDocContent user st req =
     andThen (attempt (GetDoc (tr_full_code_path st))) (\<lambda>r. case r of
       Inl e \<Rightarrow>
         if \<not> says_missing e then fail (TErrIn ''get document'' e)
         else andThen (wrapped ''create document'' (CreateDoc user
           \<lparr>cd_full_code_path = tr_full_code_path st, cd_content = or_keep (uo_content req) [],
            cd_format = or_keep (uo_format req) ''markdown'', cd_summary = or_keep (uo_summary req) []\<rparr>))
           (\<lambda>_. ret ())
     | Inr _ \<Rightarrow> andThen (wrapped ''update document'' (UpdateDoc user
           \<lparr>ud_full_code_path = tr_full_code_path st, ud_content = or_keep (uo_content req) [],
            ud_format = or_keep (uo_format req) [], ud_summary = or_keep (uo_summary req) []\<rparr>))
           (\<lambda>_. ret ()))"

definition UpdateDocs :: "gostr \<Rightarrow> update_docs_req \<Rightarrow> unit tree" where
  "UpdateDocs user req =
     andThen (UpdateServiceTreeMetadata (uo_node req)) (\<lambda>_.
     if uo_content req = None \<and> uo_format req = None \<and> uo_summary req = None then ret ()
     else andThen (wrapped ''get docs node'' (GetServiceTreeByID (un_id (uo_node req)))) (\<lambda>st.
       if tr_type st \<noteq> TypeDocs then fail (TErrOf ''node is not docs'' (tr_type st))
       else upsertDocContent user st req))"

section \<open>Deleting a node\<close>

definition cleanupRuntimePackageScaffold :: "tree_env \<Rightarrow> tree_row \<Rightarrow> unit tree" where
  "cleanupRuntimePackageScaffold E st =
     (if tr_type st \<noteq> TypePackage \<or> IsRoot st \<or> tr_full_code_path st = [] then ret ()
      else andThen (wrapped ''get app of directory'' (WsGetByID (tr_app_id st))) (\<lambda>a.
        let pre = slash # wk_user a @ slash # wk_code a @ [slash];
            package_path = trim_char slash (trim_prefix (tr_full_code_path st) pre) in
        if package_path = [] then ret ()
        else andThen (wrapped ''delete runtime directory''
            (deleteDirectoryScaffold E (tr_app_id st) package_path)) (\<lambda>resp.
          case resp of None \<Rightarrow> fail (TErr ''empty response'')
          | Some (success, msg) \<Rightarrow>
              if \<not> success then fail (TErrOf ''delete runtime directory'' msg) else ret ())))"

definition DeleteServiceTree :: "nat \<Rightarrow> nat \<Rightarrow> tree_env \<Rightarrow> req_context \<Rightarrow> int \<Rightarrow> unit tree" where
  "DeleteServiceTree pages depth E cx i =
     andThen (wrapped ''get node'' (GetServiceTreeByID i)) (\<lambda>st.
     andThen (wrapped ''delete tasks''
       (DeleteTasksByResourcePrefix pages (te_sched E) cx (tr_full_code_path st))) (\<lambda>_.
     andThen (cleanupRuntimePackageScaffold E st) (\<lambda>_.
     wrapped ''delete node'' (RepoDeleteServiceTree depth i))))"

definition deleteTypedServiceTree ::
  "nat \<Rightarrow> nat \<Rightarrow> tree_env \<Rightarrow> req_context \<Rightarrow> int \<Rightarrow> gostr \<Rightarrow> unit tree" where
  "deleteTypedServiceTree pages depth E cx i expected =
     andThen (wrapped ''get node'' (GetServiceTreeByID i)) (\<lambda>st.
     if tr_type st \<noteq> expected then fail (TErrOf ''wrong node type'' (tr_type st))
     else DeleteServiceTree pages depth E cx i)"

definition DeletePackage :: "nat \<Rightarrow> nat \<Rightarrow> tree_env \<Rightarrow> req_context \<Rightarrow> int \<Rightarrow> unit tree" where
  "DeletePackage pages depth E cx i = deleteTypedServiceTree pages depth E cx i TypePackage"

definition DeleteFunction :: "nat \<Rightarrow> nat \<Rightarrow> tree_env \<Rightarrow> req_context \<Rightarrow> int \<Rightarrow> unit tree" where
  "DeleteFunction pages depth E cx i = deleteTypedServiceTree pages depth E cx i TypeFunction"

definition DeleteDocs :: "nat \<Rightarrow> nat \<Rightarrow> tree_env \<Rightarrow> req_context \<Rightarrow> int \<Rightarrow> unit tree" where
  "DeleteDocs pages depth E cx i = deleteTypedServiceTree pages depth E cx i TypeDocs"

end
