(* ===== verification/TreeView.thy ===== *)
theory TreeView
  imports TreeOps PermissionService
begin

text \<open>
  The tree a client is shown: building it from the rows
  (\<open>core/app-server/repository/service_tree_repository.go\<close>) and answering with permissions
  (\<open>core/app-server/service/service_tree_query_view.go\<close>, without the badges of scheduled tasks). The
  permissions come from the modelled permission subsystem.
\<close>

section \<open>Building the tree\<close>

datatype service_tree = TreeNode tree_row "service_tree list"

text \<open>
  Go fills a map from paths to nodes, in which a later row replaces an earlier one, and appends
  every node to the children of the node at its parent path, or to the roots.
\<close>

definition parent_of :: "tree_row list \<Rightarrow> tree_row \<Rightarrow> tree_row option" where
  "parent_of ds t =
     (let p = GetParentFullPath t in
      if p = [] then None else map_of (rev (map (\<lambda>d. (tr_full_code_path d, d)) ds)) p)"

definition kids :: "tree_row list \<Rightarrow> tree_row \<Rightarrow> tree_row list" where
  "kids ds p = filter (\<lambda>t. parent_of ds t = Some p) ds"

definition tree_roots :: "tree_row list \<Rightarrow> tree_row list" where
  "tree_roots ds = filter (\<lambda>t. parent_of ds t = None) ds"

lemma parent_of_path: "parent_of ds t = Some p \<Longrightarrow> p \<in> set ds \<and> tr_full_code_path p = GetParentFullPath t"
  by (auto simp: parent_of_def Let_def split: if_splits dest!: map_of_SomeD)

text \<open>A child has more segments than its parent, so following the children ends.\<close>

definition node_parts :: "tree_row \<Rightarrow> nat" where
  "node_parts t = length (path_parts (tr_full_code_path t))"

lemma GetParentFullPath_parts:
  assumes "GetParentFullPath t \<noteq> []"
  shows "length (path_parts (GetParentFullPath t)) < node_parts t"
proof -
  from assms have "GetParentFullPath t = under_slash (butlast (path_parts (tr_full_code_path t)))"
    and "2 \<le> length (path_parts (tr_full_code_path t))"
    by (auto simp: GetParentFullPath_def Let_def split: if_splits)
  then show ?thesis using parent_fewer_parts [of "tr_full_code_path t"] by (simp add: node_parts_def)
qed

lemma parent_of_parts: "parent_of ds t = Some p \<Longrightarrow> node_parts p < node_parts t"
  using parent_of_path [of ds t p] GetParentFullPath_parts [of t]
  by (auto simp: node_parts_def parent_of_def Let_def split: if_splits)

lemma deeper_fewer:
  assumes "t \<in> set (kids ds p)"
  shows "length (filter (\<lambda>x. node_parts x > node_parts t) ds) < length (filter (\<lambda>x. node_parts x > node_parts p) ds)"
proof -
  from assms have t: "t \<in> set ds" and less: "node_parts p < node_parts t"
    by (auto simp: kids_def dest: parent_of_parts)
  have "length (filter (\<lambda>x. node_parts x > node_parts t) ds) =
      length (filter (\<lambda>x. node_parts x > node_parts t) (filter (\<lambda>x. node_parts x > node_parts p) ds))"
    using less by (auto intro!: arg_cong [where f = length] filter_cong)
  also have "\<dots> < length (filter (\<lambda>x. node_parts x > node_parts p) ds)"
    by (rule length_filter_less [of t]) (use t less in auto)
  finally show ?thesis .
qed

function tree_of :: "tree_row list \<Rightarrow> tree_row \<Rightarrow> service_tree" where
  "tree_of ds p = TreeNode p (map (tree_of ds) (kids ds p))"
  by pat_completeness auto
termination
  by (relation "measure (\<lambda>(ds, p). length (filter (\<lambda>x. node_parts x > node_parts p) ds))")
    (simp, use deeper_fewer in simp)

declare tree_of.simps [simp del]

definition buildTreeFromNodes :: "tree_row list \<Rightarrow> service_tree list" where
  "buildTreeFromNodes rows =
     (let ds = dedupeServiceTreesByFullPath rows in map (tree_of ds) (tree_roots ds))"

definition BuildServiceTree :: "int \<Rightarrow> service_tree list tree" where
  "BuildServiceTree app_id =
     andThen (GetServiceTreesByAppID app_id) (\<lambda>rows. ret (buildTreeFromNodes rows))"

definition BuildServiceTreeByType :: "int \<Rightarrow> gostr \<Rightarrow> service_tree list tree" where
  "BuildServiceTreeByType app_id node_type =
     andThen (GetServiceTreesByAppIDAndType app_id node_type) (\<lambda>rows. ret (buildTreeFromNodes rows))"

definition BuildServiceTreeByVersion :: "int \<Rightarrow> int \<Rightarrow> service_tree list tree" where
  "BuildServiceTreeByVersion app_id version =
     andThen (query TErrDB (\<lambda>s. by_id (sel (\<lambda>r. node_live r \<and> tr_app_id r = app_id \<and>
         tr_add_version r \<le> version \<and> (tr_update_version r = 0 \<or> tr_update_version r \<le> version))
       (td_nodes s)))) (\<lambda>rows. ret (buildTreeFromNodes rows))"

section \<open>The answer\<close>

record resp_node =
  rn_row :: tree_row
  rn_permissions :: permission_set
  rn_role_codes :: "gostr list"
  rn_inherited_from :: gostr
  rn_expires_at :: "int option"
  rn_has_function :: bool

datatype resp_tree = RespTree resp_node "resp_tree list"

primrec tree_root :: "service_tree \<Rightarrow> tree_row" where "tree_root (TreeNode r ts) = r"
primrec tree_children :: "service_tree \<Rightarrow> service_tree list" where "tree_children (TreeNode r ts) = ts"
primrec resp_root :: "resp_tree \<Rightarrow> resp_node" where "resp_root (RespTree n ts) = n"

primrec tree_nodes :: "service_tree \<Rightarrow> tree_row list" where
  "tree_nodes (TreeNode r ts) = r # concat (map tree_nodes ts)"

definition collectServiceTreePaths :: "service_tree list \<Rightarrow> gostr list" where
  "collectServiceTreePaths trees = map tr_full_code_path (concat (map tree_nodes trees))"

definition hasFunctionInDirectChildren :: "service_tree \<Rightarrow> bool" where
  "hasFunctionInDirectChildren t \<longleftrightarrow> list_ex (\<lambda>c. tr_type (tree_root c) = TypeFunction) (tree_children t)"

definition resp_node_of ::
  "(gostr \<times> access_result) list \<Rightarrow> tree_row \<Rightarrow> bool \<Rightarrow> resp_node" where
  "resp_node_of perms r has_function =
     (case map_of perms (NormalizeResourcePath (tr_full_code_path r)) of
        Some res \<Rightarrow> \<lparr>rn_row = r, rn_permissions = re_permissions res, rn_role_codes = re_role_codes res,
           rn_inherited_from = re_inherited_from res, rn_expires_at = re_expires_at res,
           rn_has_function = has_function\<rparr>
      | None \<Rightarrow> \<lparr>rn_row = r, rn_permissions = EmptyPermissionSet, rn_role_codes = [],
           rn_inherited_from = [], rn_expires_at = None, rn_has_function = has_function\<rparr>)"

primrec convertToGetServiceTreeResp ::
  "(gostr \<times> access_result) list \<Rightarrow> service_tree \<Rightarrow> resp_tree" where
  "convertToGetServiceTreeResp perms (TreeNode r ts) =
     RespTree (resp_node_of perms r
         (tr_type r = TypePackage \<and> hasFunctionInDirectChildren (TreeNode r ts)))
       (map (convertToGetServiceTreeResp perms) ts)"

text \<open>A node stays when it may be read or a node below it stays.\<close>

definition somes :: "'a option list \<Rightarrow> 'a list" where
  "somes xs = concat (map (\<lambda>x. case x of None \<Rightarrow> [] | Some y \<Rightarrow> [y]) xs)"

primrec filterVisibleServiceTree :: "resp_tree \<Rightarrow> resp_tree option" where
  "filterVisibleServiceTree (RespTree n ts) =
     (let kept = somes (map filterVisibleServiceTree ts) in
      if HasPermission (rn_permissions n) ActionRead \<or> kept \<noteq> [] then Some (RespTree n kept) else None)"

definition permissionsByPath ::
  "perm_env \<Rightarrow> perm_ctx \<Rightarrow> service_tree list \<Rightarrow> (gostr \<times> access_result) list tree" where
  "permissionsByPath E cx trees =
     remote td_perm (\<lambda>p s. s\<lparr>td_perm := p\<rparr>) TErrPerm
       (PermissionsForTree E cx (pc_user cx) (collectServiceTreePaths trees))"

definition getServiceTreeByAppModel ::
  "perm_env \<Rightarrow> perm_ctx \<Rightarrow> ws_row \<Rightarrow> gostr \<Rightarrow> resp_tree list tree" where
  "getServiceTreeByAppModel E cx app node_type =
     andThen (wrapped ''build tree'' (if node_type \<noteq> [] then BuildServiceTreeByType (wk_id app) node_type
                               else BuildServiceTree (wk_id app))) (\<lambda>trees.
     if trees = [] then fail (TErr ''empty tree'')
     else if \<not> IsRoot (tree_root (hd trees)) \<or> tr_ref_id (tree_root (hd trees)) \<noteq> wk_id app
     then fail (TErr ''bad root'')
     else andThen (permissionsByPath E cx trees) (\<lambda>perms.
       let root = convertToGetServiceTreeResp perms (hd trees) in
       if wk_hide app then ret (case filterVisibleServiceTree root of None \<Rightarrow> [] | Some t \<Rightarrow> [t])
       else ret [root]))"

definition resolveUserAppFromResourcePath :: "gostr \<Rightarrow> (gostr \<times> gostr) tree" where
  "resolveUserAppFromResourcePath path =
     (if trim_space path = [] then fail (TErr ''no resource path'')
      else case path_parts path of
        user # app # _ \<Rightarrow> if user = [] \<or> app = [] then fail (TErrOf ''bad resource path'' path) else ret (user, app)
      | _ \<Rightarrow> fail (TErrOf ''bad resource path'' path))"

definition calculateExpandedKeys :: "resp_tree list \<Rightarrow> int list" where
  "calculateExpandedKeys trees =
     remdups (map tr_id (filter (\<lambda>r. tr_type r = TypePackage \<and> length (path_parts (tr_full_code_path r)) = 2)
       (map (\<lambda>t. rn_row (resp_root t)) trees)))"

definition GetAppWithServiceTree ::
  "perm_env \<Rightarrow> perm_ctx \<Rightarrow> gostr \<Rightarrow> gostr \<Rightarrow> (ws_row \<times> resp_tree list \<times> int list) tree" where
  "GetAppWithServiceTree E cx resource_path node_type =
     andThen (resolveUserAppFromResourcePath resource_path) (\<lambda>(user, code).
     andThen (attempt (WsGetByUserName user code)) (\<lambda>r. case r of
       Inl e \<Rightarrow> fail (if e = TErrNotFound then TErrOf ''no app'' code else TErrIn ''get app'' e)
     | Inr app \<Rightarrow>
         andThen (wrapped ''get tree'' (getServiceTreeByAppModel E cx app node_type)) (\<lambda>trees.
         ret (app, trees, calculateExpandedKeys trees))))"

end
