(* ===== verification/NamingProps.thy ===== *)
theory NamingProps
  imports Naming
begin

text \<open>
  The codes derived from labels: whatever the label, the code is one the check accepts, so a request
  without a code is never refused for it, and so are the numbered variants tried when it is taken.
\<close>

section \<open>Characters\<close>

definition ascii_char :: "char \<Rightarrow> bool" where "ascii_char c \<longleftrightarrow> (of_char c :: nat) < 128"

text \<open>
  What is assumed of the library: ASCII strings have their ASCII lower case and are normalized, and no
  combining mark is ASCII.
\<close>

definition ascii_ok :: "naming_env \<Rightarrow> bool" where
  "ascii_ok E \<longleftrightarrow> (\<forall>s. list_all ascii_char s \<longrightarrow>
     nm_lower E s = to_lower s \<and> nm_nfkd E s = map of_char s) \<and> (\<forall>r. nm_mark E r \<longrightarrow> 128 \<le> r)"

definition alnum_char :: "char \<Rightarrow> bool" where "alnum_char c \<longleftrightarrow> isASCIIAlphaNumeric (of_char c)"

lemma of_char_int: "(of_char c :: int) = int (of_char c)"
  by (rule of_nat_of_char [symmetric])

lemma of_char_char_of_small [simp]: "0 \<le> r \<Longrightarrow> r < 256 \<Longrightarrow> (of_char (char_of (nat r)) :: nat) = nat r"
  by simp

lemma rune_char_alnum: "isASCIIAlphaNumeric r \<Longrightarrow> alnum_char (rune_char r)"
  unfolding alnum_char_def rune_char_def of_char_int isASCIIAlphaNumeric_def by auto

lemma rune_char_of [simp]: "rune_char (of_char c) = c"
  by (simp add: rune_char_def)

lemma alnum_ascii: "alnum_char c \<Longrightarrow> ascii_char c"
  unfolding alnum_char_def isASCIIAlphaNumeric_def ascii_char_def of_char_int by auto

definition word_char :: "char \<Rightarrow> bool" where "word_char c \<longleftrightarrow> alnum_char c \<or> c = underscore"

lemma word_ascii: "word_char c \<Longrightarrow> ascii_char c"
  by (auto simp: word_char_def alnum_ascii) (simp add: ascii_char_def)

lemma package_char_word: "package_char c \<longleftrightarrow> word_char c \<and> \<not> (65 \<le> (of_char c :: nat) \<and> (of_char c :: nat) \<le> 90)"
  unfolding package_char_def word_char_def alnum_char_def isASCIIAlphaNumeric_def char_between_def of_char_int
  by auto

lemma lower_word: "word_char c \<Longrightarrow> package_char (lower_char c)"
  unfolding package_char_def word_char_def alnum_char_def isASCIIAlphaNumeric_def char_between_def
    lower_char_def of_char_int
  by (auto simp: of_char_of take_bit_eq_mod)

lemma code_plain: "package_char c \<Longrightarrow> plain_char c"
  unfolding package_char_def char_between_def plain_char_def by auto

section \<open>Candidates\<close>

lemma candidate_loop_word: "list_all word_char (candidate_loop E u rs)"
  by (induction E u rs rule: candidate_loop.induct) (auto simp: rune_char_alnum word_char_def)

lemma candidate_loop_code:
  assumes "list_all (\<lambda>c. lower_char c = c) cs"
  shows "list_all package_char (candidate_loop E u (map of_char cs))"
  using assms
proof (induction cs arbitrary: u)
  case (Cons c cs)
  have "package_char c" if "isASCIIAlphaNumeric (of_char c)"
    using lower_word [of c] that Cons.prems by (simp add: word_char_def alnum_char_def)
  moreover have "package_char underscore" by (simp add: package_char_def)
  ultimately show ?case using Cons by simp
qed simp

lemma list_all_trim: "list_all P s \<Longrightarrow> list_all P (trim_char c s)"
  unfolding trim_char_def trim_right_char_def list_all_iff by (auto dest!: set_dropWhileD)

lemma candidate_word: "list_all word_char (normalizeGoPackageCodeCandidate E s)"
  by (simp add: normalizeGoPackageCodeCandidate_def Let_def list_all_trim candidate_loop_word)

lemma trim_space_sub: "set (trim_space s) \<subseteq> set s"
proof -
  have "set (trim_space s) \<subseteq> set (trim_left_space s)"
    unfolding trim_space_def using prefix_trim_right_space set_mono_prefix by blast
  also have "\<dots> \<subseteq> set s"
    unfolding trim_left_space_def using strip_any_suffix set_mono_suffix by blast
  finally show ?thesis .
qed

lemma candidate_code:
  assumes "ascii_ok E" and "list_all ascii_char s"
  shows "list_all package_char (normalizeGoPackageCodeCandidate E s)"
proof -
  let ?t = "trim_space s"
  have asc: "list_all ascii_char ?t"
    using assms(2) trim_space_sub by (auto simp: list_all_iff subset_eq)
  then have low: "nm_lower E ?t = to_lower ?t" using assms(1) by (simp add: ascii_ok_def)
  have "ascii_char (lower_char c)" if "ascii_char c" for c
    using that by (auto simp: ascii_char_def lower_char_def)
  then have "list_all ascii_char (to_lower ?t)" using asc by (simp add: to_lower_def list_all_iff)
  then have "nm_nfkd E (to_lower ?t) = map of_char (to_lower ?t)" using assms(1) by (simp add: ascii_ok_def)
  moreover have "list_all (\<lambda>c. lower_char c = c) (to_lower ?t)" by (simp add: to_lower_def list_all_iff)
  ultimately show ?thesis
    by (simp add: normalizeGoPackageCodeCandidate_def Let_def low list_all_trim candidate_loop_code)
qed

lemma flush_ascii_word: "list_all word_char ascii \<Longrightarrow> list_all (list_all word_char) (flush_ascii ascii)"
  by (simp add: flush_ascii_def)

lemma lower_alnum: "alnum_char c \<Longrightarrow> word_char (lower_char c)"
  using lower_word [of c] package_char_word by (simp add: word_char_def)

lemma token_loop_word:
  "list_all word_char ascii \<Longrightarrow> list_all (list_all word_char) (token_loop E ascii rs)"
  by (induction E ascii rs rule: token_loop.induct)
    (auto simp: flush_ascii_word candidate_word lower_alnum rune_char_alnum Let_def split: list.split)

lemma join_all: "list_all (list_all P) xs \<Longrightarrow> P c \<Longrightarrow> list_all P (join_with [c] xs)"
  by (induction "[c]" xs rule: join_with.induct) auto

lemma tokens_ascii: "list_all ascii_char (join_with [underscore] (pinyinCodeTokens E label))"
proof -
  have "list_all (list_all word_char) (pinyinCodeTokens E label)"
    unfolding pinyinCodeTokens_def by (rule token_loop_word) simp
  then have "list_all word_char (join_with [underscore] (pinyinCodeTokens E label))"
    by (rule join_all) (simp add: word_char_def)
  then show ?thesis by (auto simp: list_all_iff word_ascii)
qed

section \<open>Codes the check accepts\<close>

definition valid_code :: "gostr \<Rightarrow> bool" where
  "valid_code s \<longleftrightarrow>
     startsWithASCIILetter s \<and> list_all package_char s \<and> length s \<le> MaxGoPackageNameLength \<and> \<not> IsGoKeyword s"

lemma valid_code_accepted: "valid_code s \<Longrightarrow> ValidateGoPackageName s label = None"
proof -
  assume v: "valid_code s"
  then obtain c cs where s: "s = c # cs" and l: "small_letter c" and cs: "list_all package_char (c # cs)"
    by (cases s) (auto simp: valid_code_def startsWithASCIILetter_def)
  have "package_char (last s)" using cs by (simp add: s list_all_iff)
  then have "trim_space s = s" using cs by (intro trim_space_plain) (simp add: s code_plain)
  with v l cs s show ?thesis
    by (simp add: ValidateGoPackageName_def ValidateGoPackageNameLength_def NormalizeGoPackageName_def
        goPackageNameRegex_def valid_code_def Let_def)
qed

lemma keyword_no_underscore: "IsGoKeyword s \<Longrightarrow> underscore \<notin> set s"
  by (auto simp: IsGoKeyword_def goKeywords_def)

lemma trim_right_keeps_head: "c \<noteq> u \<Longrightarrow> \<exists>ys. trim_right_char u (c # xs) = c # ys \<and> prefix ys xs"
proof -
  assume "c \<noteq> u"
  then have "dropWhile (\<lambda>x. x = u) (rev xs @ [c]) = dropWhile (\<lambda>x. x = u) (rev xs) @ [c]"
    by (simp add: dropWhile_append)
  then have "trim_right_char u (c # xs) = c # trim_right_char u xs"
    by (simp add: trim_right_char_def)
  then show ?thesis using prefix_trim_right_char by blast
qed

lemma small_not_underscore: "small_letter c \<Longrightarrow> c \<noteq> underscore"
  by (auto simp: char_between_def)

lemma trim_code_ok:
  assumes "startsWithASCIILetter s" and "list_all package_char s" and "0 < n"
  shows "startsWithASCIILetter (trimGoPackageCode s n)" "list_all package_char (trimGoPackageCode s n)"
    "int (length (trimGoPackageCode s n)) \<le> n" "trimGoPackageCode s n \<noteq> []"
proof -
  obtain c cs where s: "s = c # cs" and l: "small_letter c"
    using assms(1) by (cases s) (auto simp: startsWithASCIILetter_def)
  define t where "t = (if int (length s) > n then take (nat n) s else s)"
  obtain ts where t: "t = c # ts"
    using assms(3) by (cases "nat n"; cases "int (length s) > n") (auto simp: t_def s)
  have pre: "prefix t s" by (simp add: t_def take_is_prefix)
  have len: "int (length t) \<le> n" using assms(3) by (simp add: t_def)
  have cu: "c \<noteq> underscore" using l by (rule small_not_underscore)
  obtain ys where ys: "trim_right_char underscore t = c # ys" "prefix ys ts"
    using trim_right_keeps_head [OF cu] t by blast
  obtain zs where zs: "trim_right_char underscore (c # ys) = c # zs" "prefix zs ys"
    using trim_right_keeps_head [OF cu] by blast
  have res: "trimGoPackageCode s n = c # zs"
  proof -
    have "trim_char underscore t = c # ys" using cu t ys(1) by (simp add: trim_char_def)
    with zs(1) assms(3) show ?thesis by (simp add: trimGoPackageCode_def Let_def t_def [symmetric])
  qed
  have "prefix (c # zs) s" using pre zs(2) ys(2) t by (metis prefix_order.trans Cons_prefix_Cons)
  then have "set (c # zs) \<subseteq> set s" by (rule set_mono_prefix)
  with assms(2) have "list_all package_char (c # zs)" by (auto simp: list_all_iff)
  moreover have "length (c # zs) \<le> length t"
    using zs(2) ys(2) t by (metis prefix_length_le prefix_order.trans Cons_prefix_Cons)
  ultimately show "startsWithASCIILetter (trimGoPackageCode s n)" "list_all package_char (trimGoPackageCode s n)"
    "int (length (trimGoPackageCode s n)) \<le> n" "trimGoPackageCode s n \<noteq> []"
    using len l by (simp_all add: res startsWithASCIILetter_def)
qed

section \<open>Derived codes\<close>

lemma directory_valid: "startsWithASCIILetter ''directory'' \<and> list_all package_char ''directory''"
  by (simp add: startsWithASCIILetter_def char_between_def package_char_def)

lemma candidate_loop_alnum:
  assumes "ascii_ok E" and "list_all alnum_char cs"
  shows "candidate_loop E u (map of_char cs) = cs"
  using assms(2)
proof (induction cs arbitrary: u)
  case (Cons c cs)
  then have "(of_char c :: nat) < 128" using alnum_ascii [of c] by (simp add: ascii_char_def)
  then have "(of_char c :: int) < 128" unfolding of_char_int by simp
  then have "\<not> nm_mark E (of_char c)" using assms(1) by (auto simp: ascii_ok_def)
  with Cons show ?case by (simp add: alnum_char_def)
qed simp

lemma candidate_directory:
  assumes "ascii_ok E"
  shows "normalizeGoPackageCodeCandidate E ''directory'' = ''directory''"
proof -
  have "trim_space ''directory'' = ''directory''" by (rule trim_space_plain) (simp add: plain_char_def)
  moreover have "to_lower ''directory'' = ''directory''" by (simp add: to_lower_def lower_char_def)
  moreover have "list_all ascii_char ''directory''" by (simp add: ascii_char_def)
  ultimately have v: "nm_lower E (trim_space ''directory'') = ''directory''"
    "nm_nfkd E ''directory'' = map of_char ''directory''"
    using assms by (simp_all add: ascii_ok_def)
  have "list_all alnum_char ''directory''" by (simp add: alnum_char_def isASCIIAlphaNumeric_def)
  then have "candidate_loop E False (map of_char ''directory'') = ''directory''"
    by (rule candidate_loop_alnum [OF assms])
  moreover have "trim_char underscore ''directory'' = ''directory''" by (rule trim_char_fix) simp
  ultimately show ?thesis by (simp add: normalizeGoPackageCodeCandidate_def v Let_def)
qed

definition with_directory :: "gostr \<Rightarrow> gostr" where
  "with_directory code = ''directory'' @ underscore # code"

lemma with_directory_ok:
  "list_all package_char code \<Longrightarrow>
   startsWithASCIILetter (with_directory code) \<and> list_all package_char (with_directory code)"
  by (simp add: with_directory_def startsWithASCIILetter_def char_between_def package_char_def)

lemma trim_with_directory_valid:
  assumes "IsGoKeyword code" and "list_all package_char code"
  shows "valid_code (trimGoPackageCode (with_directory code) 50)"
proof -
  note ok = with_directory_ok [OF assms(2)]
  have len: "length (with_directory code) \<le> 50" and ends: "last (with_directory code) \<noteq> underscore"
    using assms(1) by (auto simp: with_directory_def IsGoKeyword_def goKeywords_def)
  have "trim_char underscore (with_directory code) = with_directory code"
    by (rule trim_char_fix) (use ends in \<open>simp add: with_directory_def\<close>)
  moreover have "trim_right_char underscore (with_directory code) = with_directory code"
  proof -
    have "dropWhile (\<lambda>x. x = underscore) (rev (with_directory code)) = rev (with_directory code)"
      using ends by (cases "rev (with_directory code)") (auto simp: hd_rev [symmetric] with_directory_def)
    then show ?thesis by (simp add: trim_right_char_def)
  qed
  ultimately have "trimGoPackageCode (with_directory code) 50 = with_directory code"
    using len by (simp add: trimGoPackageCode_def Let_def)
  moreover have "\<not> IsGoKeyword (with_directory code)"
    using keyword_no_underscore [of "with_directory code"] by (auto simp: with_directory_def)
  ultimately show ?thesis using ok len by (simp add: valid_code_def)
qed

text \<open>
  C40. A directory created without a code gets one from its name, by way of pinyin: for every name the
  derived code passes the check that a code given by the client has to pass, so a missing code never
  makes the request fail on its code. Assumed of the Unicode library is its behaviour on ASCII.
\<close>

theorem derived_code_valid:
  assumes "ascii_ok E"
  shows "ValidateGoPackageName (DeriveGoPackageName E label ''directory'') what = None"
proof -
  define c0 where "c0 = normalizeGoPackageCodeCandidate E (join_with [underscore] (pinyinCodeTokens E label))"
  define c1 where "c1 = (if c0 = [] then ''directory'' else c0)"
  define c2 where "c2 = (if \<not> startsWithASCIILetter c1 then with_directory c1 else c1)"
  define c3 where "c3 = (if IsGoKeyword c2 then with_directory c2 else c2)"
  define c4 where "c4 = trimGoPackageCode c3 50"
  have "list_all package_char c0" unfolding c0_def by (rule candidate_code [OF assms tokens_ascii])
  then have c1: "list_all package_char c1" using directory_valid by (simp add: c1_def)
  then have c2: "list_all package_char c2" "startsWithASCIILetter c2"
    using with_directory_ok [OF c1] by (auto simp: c2_def)
  then have c3: "list_all package_char c3" "startsWithASCIILetter c3"
    using with_directory_ok [OF c2(1)] by (auto simp: c3_def)
  note c4 = trim_code_ok [OF c3(2,1), of 50, folded c4_def, simplified]
  have "DeriveGoPackageName E label ''directory'' =
      (if c4 = [] \<or> \<not> startsWithASCIILetter c4 then ''directory''
       else if IsGoKeyword c4 then trimGoPackageCode (with_directory c4) 50 else c4)"
    by (simp only: DeriveGoPackageName_def Let_def candidate_directory [OF assms] if_cancel
        c4_def c3_def c2_def c1_def c0_def with_directory_def of_nat_numeral)
  then have "DeriveGoPackageName E label ''directory'' =
      (if IsGoKeyword c4 then trimGoPackageCode (with_directory c4) 50 else c4)"
    using c4(1,4) by simp
  moreover have "valid_code c4" if "\<not> IsGoKeyword c4" using c4 that by (simp add: valid_code_def)
  ultimately show ?thesis
    using trim_with_directory_valid [OF _ c4(2)] by (simp add: valid_code_accepted)
qed

definition ascii_env :: naming_env where
  "ascii_env = \<lparr>nm_lower = to_lower, nm_nfkd = map of_char, nm_mark = (\<lambda>r. False), nm_pinyin = (\<lambda>r. [])\<rparr>"

lemma ascii_env_ok: "ascii_ok ascii_env"
  by (simp add: ascii_ok_def ascii_env_def)

theorem derived_code_valid_witness:
  "ascii_ok ascii_env \<and>
   ValidateGoPackageName (DeriveGoPackageName ascii_env ''Go'' ''directory'') ''code'' = None"
  using derived_code_valid [OF ascii_env_ok] ascii_env_ok by blast

section \<open>Numbered codes\<close>

lemma show_nat_digits: "list_all digit_char (show_nat n)"
proof (induction n rule: show_nat.induct)
  case (1 n)
  have "digit_char (char_of (48 + k))" if "k < 10" for k :: nat
    using that by (simp add: char_between_def)
  with "1" show ?case by (subst show_nat.simps) auto
qed

lemma show_nat_length: "n < 10 ^ Suc k \<Longrightarrow> length (show_nat n) \<le> Suc k"
proof (induction k arbitrary: n)
  case 0
  then show ?case by (subst show_nat.simps) simp
next
  case (Suc k)
  then have "n div 10 < 10 ^ Suc k" by (simp add: less_mult_imp_div_less)
  with Suc.IH show ?case by (subst show_nat.simps) simp
qed

definition digits_val :: "gostr \<Rightarrow> nat" where
  "digits_val s = foldl (\<lambda>a c. 10 * a + (of_char c - 48)) 0 s"

lemma digits_val_show: "digits_val (show_nat n) = n"
proof (induction n rule: show_nat.induct)
  case (1 n)
  show ?case
  proof (cases "n < 10")
    case True
    then show ?thesis by (subst show_nat.simps) (simp add: digits_val_def)
  next
    case False
    with "1" have "digits_val (show_nat (n div 10)) = n div 10" by simp
    with False show ?thesis by (subst show_nat.simps) (simp add: digits_val_def)
  qed
qed

lemma digit_not_underscore: "digit_char c \<Longrightarrow> c \<noteq> underscore"
  by (auto simp: char_between_def)

lemma code_lower: "package_char c \<Longrightarrow> lower_char c = c"
  by (auto simp: package_char_word lower_char_def)

lemma candidate_starts:
  assumes "ascii_ok E" and "valid_code base"
  shows "startsWithASCIILetter (normalizeGoPackageCodeCandidate E base)"
proof -
  obtain c cs where b: "base = c # cs" and l: "small_letter c" and all: "list_all package_char (c # cs)"
    using assms(2) by (cases base) (auto simp: valid_code_def startsWithASCIILetter_def)
  have "package_char (last base)" using all by (simp add: b list_all_iff)
  then have "trim_space base = base" using all by (intro trim_space_plain) (simp add: b code_plain)
  moreover have "to_lower base = base" using all by (auto simp: b to_lower_def list_all_iff code_lower intro!: map_idI)
  moreover have asc: "list_all ascii_char base"
    using all by (auto simp: b list_all_iff package_char_word word_ascii)
  ultimately have v: "nm_lower E (trim_space base) = base" "nm_nfkd E base = map of_char base"
    using assms(1) by (simp_all add: ascii_ok_def)
  have "alnum_char c"
    using l unfolding alnum_char_def isASCIIAlphaNumeric_def char_between_def of_char_int by auto
  moreover have "\<not> nm_mark E (of_char c)"
    using candidate_loop_alnum [OF assms(1), of "[c]" False] \<open>alnum_char c\<close> by (auto split: if_splits)
  ultimately have loop: "candidate_loop E False (map of_char base) = c # candidate_loop E False (map of_char cs)"
    by (simp add: b alnum_char_def)
  have "c \<noteq> underscore" using l by (rule small_not_underscore)
  then obtain ys where "trim_char underscore (c # candidate_loop E False (map of_char cs)) = c # ys"
    using trim_right_keeps_head [of c underscore "candidate_loop E False (map of_char cs)"]
    by (auto simp: trim_char_def)
  with l show ?thesis
    using v loop by (simp add: normalizeGoPackageCodeCandidate_def Let_def b startsWithASCIILetter_def)
qed

lemma trimGo_fix:
  assumes "s \<noteq> []" "hd s \<noteq> underscore" "last s \<noteq> underscore" "length s \<le> 50"
  shows "trimGoPackageCode s 50 = s"
proof -
  have "trim_char underscore s = s" using assms by (intro trim_char_fix) simp
  moreover have "dropWhile (\<lambda>x. x = underscore) (rev s) = rev s"
    using assms by (cases "rev s") (auto simp: hd_rev [symmetric])
  ultimately show ?thesis using assms(4) by (simp add: trimGoPackageCode_def Let_def trim_right_char_def)
qed

lemma numbered_code:
  assumes "ascii_ok E" and "valid_code base" and "2 \<le> i" and "i \<le> 1000"
  obtains b where "GoPackageNameWithNumericSuffix E base i = b @ underscore # show_nat (nat i)"
    and "valid_code (b @ underscore # show_nat (nat i))"
proof -
  define d where "d = show_nat (nat i)"
  have dl: "length d \<le> 4" unfolding d_def by (rule show_nat_length [of _ 3, simplified]) (use assms(4) in simp)
  have dne: "d \<noteq> []" unfolding d_def by (subst show_nat.simps) simp
  have dd: "list_all digit_char d" unfolding d_def by (rule show_nat_digits)
  let ?n = "normalizeGoPackageCodeCandidate E base"
  have n: "startsWithASCIILetter ?n" by (rule candidate_starts [OF assms(1,2)])
  have nc: "list_all package_char ?n"
  proof (rule candidate_code [OF assms(1)])
    show "list_all ascii_char base" using assms(2) by (auto simp: valid_code_def list_all_iff package_char_word word_ascii)
  qed
  define m where "m = 49 - int (length d)"
  have m: "0 < m" "m + int (Suc (length d)) = 50" using dl by (simp_all add: m_def)
  define b where "b = trimGoPackageCode ?n m"
  note b = trim_code_ok [OF n nc m(1), folded b_def]
  have ne: "?n \<noteq> []" using n by (auto simp: startsWithASCIILetter_def)
  have si: "show_int i = d" using assms(3) by (simp add: show_int_def d_def)
  let ?r = "b @ underscore # d"
  have "hd b \<noteq> underscore"
    using b(1) small_not_underscore by (cases b) (auto simp: startsWithASCIILetter_def)
  moreover have "last d \<noteq> underscore"
    using dd dne last_in_set [OF dne] digit_not_underscore by (auto simp: list_all_iff)
  moreover have len: "length ?r \<le> 50" using b(3) m(2) by simp
  ultimately have same: "trimGoPackageCode ?r 50 = ?r" using b(4) dne by (intro trimGo_fix) simp_all
  have "GoPackageNameWithNumericSuffix E base i = trimGoPackageCode ?r 50"
    using assms(3) ne b(4) m(1) dl
    by (simp add: GoPackageNameWithNumericSuffix_def Let_def si
        m_def [symmetric] b_def [symmetric])
  moreover have "list_all package_char d" using dd by (auto simp: list_all_iff package_char_def)
  moreover have "package_char underscore" by (simp add: package_char_def)
  moreover have "startsWithASCIILetter ?r" using b(1) by (cases b) (auto simp: startsWithASCIILetter_def)
  moreover have "\<not> IsGoKeyword ?r" using keyword_no_underscore [of ?r] by auto
  ultimately show ?thesis using that [of b] same len b(2) by (simp add: d_def valid_code_def)
qed

lemma last_part_unique:
  assumes "b @ u # x = c @ u # y" and "u \<notin> set x" and "u \<notin> set y"
  shows "x = y"
proof -
  have "rev x = takeWhile (\<lambda>z. z \<noteq> u) (rev (b @ u # x))" 
    using assms(2) by (simp, subst takeWhile_append2) auto
  moreover have "rev y = takeWhile (\<lambda>z. z \<noteq> u) (rev (c @ u # y))" 
    using assms(3) by (simp, subst takeWhile_append2) auto
  ultimately show ?thesis using assms(1) by (metis rev_rev_ident)
qed

lemma numbered_codes_differ:
  assumes "ascii_ok E" and "valid_code base" and "2 \<le> i" "i \<le> 1000" "2 \<le> j" "j \<le> 1000"
    and "GoPackageNameWithNumericSuffix E base i = GoPackageNameWithNumericSuffix E base j"
  shows "i = j"
proof -
  have no: "underscore \<notin> set (show_nat n)" for n
    using show_nat_digits [of n] digit_not_underscore by (auto simp: list_all_iff)
  obtain b where b: "GoPackageNameWithNumericSuffix E base i = b @ underscore # show_nat (nat i)"
    using numbered_code [OF assms(1,2,3,4)] by blast
  obtain c where c: "GoPackageNameWithNumericSuffix E base j = c @ underscore # show_nat (nat j)"
    using numbered_code [OF assms(1,2,5,6)] by blast
  have "show_nat (nat i) = show_nat (nat j)"
    using assms(7) last_part_unique [OF _ no no] by (simp add: b c)
  then have "nat i = nat j" by (metis digits_val_show)
  then show ?thesis using assms(3,5) by simp
qed

end
