(* ===== verification/TreeSamples.thy ===== *)
theory TreeSamples
  imports TreeView PermSamples SchedSamples NamingProps
begin

text \<open>
  A small concrete deployment for the witnesses: the workspaces \<open>alice/crm\<close>, which hides what may not
  be read, and \<open>bob/shop\<close>, with a few directories and a document, and a user who may read only the
  document.
\<close>

definition tdemo_node :: "int \<Rightarrow> int \<Rightarrow> gostr \<Rightarrow> gostr \<Rightarrow> gostr \<Rightarrow> tree_row" where
  "tdemo_node i app_id code node_type path = no_tree_row
     \<lparr>tr_id := i, tr_created_at := i, tr_name := code, tr_code := code, tr_type := node_type,
      tr_app_id := app_id, tr_full_code_path := path\<rparr>"

definition tdemo_crm_root :: tree_row where
  "tdemo_crm_root = (tdemo_node 1 1 ''crm'' TypePackage ''/alice/crm'')\<lparr>tr_ref_id := 1\<rparr>"

definition tdemo_shop_root :: tree_row where
  "tdemo_shop_root = (tdemo_node 5 2 ''shop'' TypePackage ''/bob/shop'')\<lparr>tr_ref_id := 2\<rparr>"

definition tdemo_sales :: tree_row where
  "tdemo_sales = tdemo_node 2 1 ''sales'' TypePackage ''/alice/crm/sales''"

definition tdemo_notes :: tree_row where
  "tdemo_notes = tdemo_node 3 1 ''notes.docs'' TypeDocs ''/alice/crm/sales/notes.docs''"

definition tdemo_hr :: tree_row where
  "tdemo_hr = tdemo_node 4 1 ''hr'' TypePackage ''/alice/crm/hr''"

definition tdemo_nodes :: "tree_row list" where
  "tdemo_nodes = [tdemo_crm_root, tdemo_sales, tdemo_notes, tdemo_hr, tdemo_shop_root]"

definition tdemo_crm :: ws_row where
  "tdemo_crm = \<lparr>wk_id = 1, wk_deleted_at = None, wk_created_by = ''alice'', wk_user = ''alice'',
     wk_code = ''crm'', wk_name = ''CRM'', wk_version = ''v2'', wk_admins = [], wk_host_id = 1,
     wk_hide = True\<rparr>"

definition tdemo_shop :: ws_row where
  "tdemo_shop = \<lparr>wk_id = 2, wk_deleted_at = None, wk_created_by = ''bob'', wk_user = ''bob'',
     wk_code = ''shop'', wk_name = ''Shop'', wk_version = ''v1'', wk_admins = [], wk_host_id = 1,
     wk_hide = False\<rparr>"

definition tdemo_role :: role_row where
  "tdemo_role = sample_role\<lparr>ra_principal_key := ''erin'',
     ra_resource_path := ''/alice/crm/sales/notes.docs'', ra_role_code := ''viewer''\<rparr>"

definition tdemo_perm :: perm_db where
  "tdemo_perm = sample_perm_db\<lparr>roles := [tdemo_role],
     apps := [sample_app, sample_app\<lparr>ap_id := 2, ap_user := ''bob'', ap_code := ''shop'', ap_created_by := ''bob''\<rparr>]\<rparr>"

definition tdemo_db :: tree_db where
  "tdemo_db = \<lparr>td_nodes = tdemo_nodes, td_docs = [], td_apps = [tdemo_crm, tdemo_shop],
     td_app_cache = [], td_app_id_cache = [], td_runtime = [], td_sched = sample_db, td_perm = tdemo_perm\<rparr>"

definition tdemo_world :: "tree_db world" where
  "tdemo_world = \<lparr>clock = 100, seqs = (\<lambda>_. 10), faults = [], store = tdemo_db\<rparr>"

definition tdemo_ctx :: "gostr \<Rightarrow> perm_ctx" where
  "tdemo_ctx user = \<lparr>pc_user = user, pc_department = []\<rparr>"

definition tdemo_env :: tree_env where
  "tdemo_env = \<lparr>te_naming = ascii_env, te_sched = sample_env, te_create_dirs = (\<lambda>_ _ _ _. True),
     te_delete_dir = (\<lambda>_ _ _ _. Some (Some (True, [])))\<rparr>"

lemmas tdemo_rows = tdemo_crm_root_def tdemo_sales_def tdemo_notes_def tdemo_hr_def tdemo_shop_root_def
  tdemo_node_def no_tree_row_def

lemma tdemo_keys:
  "dedupe_key tdemo_crm_root = ''/alice/crm''" "dedupe_key tdemo_sales = ''/alice/crm/sales''"
  "dedupe_key tdemo_notes = ''/alice/crm/sales/notes.docs''" "dedupe_key tdemo_hr = ''/alice/crm/hr''"
  by code_simp+

lemma tdemo_parents:
  "GetParentFullPath tdemo_crm_root = []" "GetParentFullPath tdemo_sales = ''/alice/crm''"
  "GetParentFullPath tdemo_notes = ''/alice/crm/sales''" "GetParentFullPath tdemo_hr = ''/alice/crm''"
  by code_simp+

lemma tdemo_fields:
  "tr_full_code_path tdemo_crm_root = ''/alice/crm''" "tr_full_code_path tdemo_sales = ''/alice/crm/sales''"
  "tr_full_code_path tdemo_notes = ''/alice/crm/sales/notes.docs''"
  "tr_full_code_path tdemo_hr = ''/alice/crm/hr''" "tr_id tdemo_crm_root = 1" "tr_id tdemo_sales = 2"
  "tr_id tdemo_notes = 3" "tr_id tdemo_hr = 4" "tr_ref_id tdemo_crm_root = 1"
  by (simp_all add: tdemo_rows)

lemma tdemo_distinct:
  "tdemo_sales \<noteq> tdemo_crm_root" "tdemo_notes \<noteq> tdemo_crm_root" "tdemo_hr \<noteq> tdemo_crm_root"
  "tdemo_notes \<noteq> tdemo_sales" "tdemo_hr \<noteq> tdemo_sales" "tdemo_hr \<noteq> tdemo_notes"
  by (auto dest: arg_cong [where f = tr_id] simp: tdemo_fields)

abbreviation tdemo_crm_rows :: "tree_row list" where
  "tdemo_crm_rows \<equiv> [tdemo_crm_root, tdemo_sales, tdemo_notes, tdemo_hr]"

lemma tdemo_parent_of:
  "parent_of tdemo_crm_rows tdemo_crm_root = None" "parent_of tdemo_crm_rows tdemo_sales = Some tdemo_crm_root"
  "parent_of tdemo_crm_rows tdemo_notes = Some tdemo_sales" "parent_of tdemo_crm_rows tdemo_hr = Some tdemo_crm_root"
  by (simp_all add: parent_of_def tdemo_parents tdemo_fields Let_def)

definition tdemo_tree :: service_tree where
  "tdemo_tree = TreeNode tdemo_crm_root [TreeNode tdemo_sales [TreeNode tdemo_notes []], TreeNode tdemo_hr []]"

lemma tdemo_tree_of: "tree_of tdemo_crm_rows tdemo_crm_root = tdemo_tree"
proof -
  have kids: "kids tdemo_crm_rows tdemo_notes = []" "kids tdemo_crm_rows tdemo_hr = []"
    "kids tdemo_crm_rows tdemo_sales = [tdemo_notes]" "kids tdemo_crm_rows tdemo_crm_root = [tdemo_sales, tdemo_hr]"
    using tdemo_distinct by (auto simp: kids_def tdemo_parent_of)
  have leaf: "tree_of tdemo_crm_rows tdemo_notes = TreeNode tdemo_notes []"
    "tree_of tdemo_crm_rows tdemo_hr = TreeNode tdemo_hr []"
    using tree_of.simps [of tdemo_crm_rows tdemo_notes] tree_of.simps [of tdemo_crm_rows tdemo_hr]
    by (simp_all only: kids list.map)
  have "tree_of tdemo_crm_rows tdemo_sales = TreeNode tdemo_sales [TreeNode tdemo_notes []]"
    using tree_of.simps [of tdemo_crm_rows tdemo_sales] by (simp only: kids list.map leaf)
  then show ?thesis
    using tree_of.simps [of tdemo_crm_rows tdemo_crm_root] by (simp only: kids list.map leaf tdemo_tree_def)
qed

lemma tdemo_built: "buildTreeFromNodes tdemo_crm_rows = [tdemo_tree]"
proof -
  have "dedupeServiceTreesByFullPath tdemo_crm_rows = tdemo_crm_rows"
    by (simp add: dedupeServiceTreesByFullPath_def tdemo_keys)
  moreover have "tree_roots tdemo_crm_rows = [tdemo_crm_root]"
    by (simp add: tree_roots_def tdemo_parent_of)
  ultimately show ?thesis by (simp add: buildTreeFromNodes_def tdemo_tree_of)
qed

end
