(* ===== verification/TreeViewProps.thy ===== *)
theory TreeViewProps
  imports TreeSamples AuthorityProps "HOL-Library.Multiset"
begin

text \<open>
  What the tree shows: every row once and below its parent; with hidden nodes, those that may be read
  and the way to them; and when the whole tree is refused.
\<close>

section \<open>Every row once\<close>

lemma dedupe_from_sub: "set (dedupe_from seen rows) \<subseteq> set rows"
  by (induction seen rows rule: dedupe_from.induct) auto

lemma dedupe_from_distinct:
  "distinct (map dedupe_key (dedupe_from seen rows)) \<and>
   dedupe_key ` set (dedupe_from seen rows) \<inter> set seen = {}"
  by (induction seen rows rule: dedupe_from.induct) auto

lemma dedupe_from_all:
  "r \<in> set rows \<Longrightarrow> dedupe_key r \<notin> set seen \<Longrightarrow> dedupe_key r \<in> dedupe_key ` set (dedupe_from seen rows)"
  by (induction seen rows rule: dedupe_from.induct) auto

lemma dedupe_distinct: "distinct (dedupeServiceTreesByFullPath rows)"
  using dedupe_from_distinct [of "[]" rows]
  by (simp add: dedupeServiceTreesByFullPath_def distinct_map)

lemma tree_nodes_of: "tree_nodes (tree_of ds p) = p # concat (map (\<lambda>k. tree_nodes (tree_of ds k)) (kids ds p))"
proof -
  have "tree_nodes (tree_of ds p) = p # concat (map tree_nodes (map (tree_of ds) (kids ds p)))"
    by (metis tree_nodes.simps tree_of.simps)
  then show ?thesis by (simp add: comp_def)
qed

lemma tree_nodes_within:
  "x \<in> set (tree_nodes (tree_of ds p)) \<Longrightarrow> x = p \<or> x \<in> set ds \<and> node_parts p < node_parts x"
proof (induction ds p rule: tree_of.induct)
  case (1 ds p)
  show ?case
  proof (cases "x = p")
    case False
    with "1.prems" obtain k where k: "k \<in> set (kids ds p)" and x: "x \<in> set (tree_nodes (tree_of ds k))"
      by (subst (asm) tree_nodes_of) auto
    have "k \<in> set ds" and "node_parts p < node_parts k" using k by (auto simp: kids_def dest: parent_of_parts)
    with "1.IH" [OF k x] show ?thesis by auto
  qed simp
qed

lemma sum_list_if_eq:
  "distinct xs \<Longrightarrow> (\<Sum>x\<leftarrow>xs. if x = a then Suc 0 else 0) = (if a \<in> set xs then 1 else 0)"
  by (induction xs) auto

lemma count_list_concat: "count_list (concat xss) x = (\<Sum>xs\<leftarrow>xss. count_list xs x)"
  by (induction xss) auto

text \<open>How often a row occurs below a node: as often as its parent, or once if it is the node.\<close>

lemma tree_nodes_count:
  assumes "distinct ds" and "t \<in> set ds"
  shows "count_list (tree_nodes (tree_of ds p)) t =
    (if t = p then 1 else case parent_of ds t of None \<Rightarrow> 0 | Some q \<Rightarrow> count_list (tree_nodes (tree_of ds p)) q)"
  using assms
proof (induction ds p rule: tree_of.induct)
  case (1 ds p)
  let ?N = "\<lambda>k. count_list (tree_nodes (tree_of ds k))"
  have dk: "distinct (kids ds p)" using "1.prems" by (simp add: kids_def)
  have unfold: "?N p x = (if x = p then 1 else 0) + (\<Sum>k\<leftarrow>kids ds p. ?N k x)" for x
    by (subst tree_nodes_of) (simp add: count_list_concat comp_def)
  have up: "?N k p = 0" if "k \<in> set (kids ds p)" for k
  proof -
    have "node_parts p < node_parts k" using that by (auto simp: kids_def dest: parent_of_parts)
    then have "p \<notin> set (tree_nodes (tree_of ds k))" using tree_nodes_within [of p ds k] by auto
    then show ?thesis by simp
  qed
  have at_p: "?N p p = 1"
    using up by (simp add: unfold sum_list_0 [symmetric] cong: map_cong)
  show ?case
  proof (cases "t = p")
    case True
    then show ?thesis using at_p by simp
  next
    case False
    have IH: "?N k t = (if t = k then 1 else case parent_of ds t of None \<Rightarrow> 0 | Some q \<Rightarrow> ?N k q)"
      if "k \<in> set (kids ds p)" for k
      using "1.IH" [OF that] "1.prems" by simp
    have kid: "t \<in> set (kids ds p) \<longleftrightarrow> parent_of ds t = Some p" using "1.prems" by (simp add: kids_def)
    show ?thesis
    proof (cases "parent_of ds t")
      case None
      then have "?N k t = 0" if "k \<in> set (kids ds p)" for k using IH [OF that] that kid by auto
      then have "(\<Sum>k\<leftarrow>kids ds p. ?N k t) = 0" by (simp cong: map_cong)
      with False None show ?thesis by (simp add: unfold)
    next
      case (Some q)
      show ?thesis
      proof (cases "q = p")
        case True
        then have "?N k t = (if k = t then Suc 0 else 0)" if "k \<in> set (kids ds p)" for k
          using IH [OF that] up [OF that] Some by auto
        then have "(\<Sum>k\<leftarrow>kids ds p. ?N k t) = (\<Sum>k\<leftarrow>kids ds p. if k = t then Suc 0 else 0)"
          by (simp cong: map_cong)
        also have "\<dots> = 1" using sum_list_if_eq [OF dk] kid Some True by simp
        finally show ?thesis using False Some True at_p by (simp add: unfold)
      next
        case other: False
        then have "?N k t = ?N k q" if "k \<in> set (kids ds p)" for k
          using IH [OF that] that kid Some by auto
        then have "(\<Sum>k\<leftarrow>kids ds p. ?N k t) = (\<Sum>k\<leftarrow>kids ds p. ?N k q)" by (simp cong: map_cong)
        with False Some other show ?thesis by (simp add: unfold)
      qed
    qed
  qed
qed

lemma count_roots:
  assumes "distinct ds" and "t \<in> set ds"
  shows "(\<Sum>r\<leftarrow>tree_roots ds. count_list (tree_nodes (tree_of ds r)) t) = 1"
  using assms(2)
proof (induction "node_parts t" arbitrary: t rule: less_induct)
  case less
  note c = tree_nodes_count [OF assms(1) less.prems]
  have dr: "distinct (tree_roots ds)" using assms(1) by (simp add: tree_roots_def)
  show ?case
  proof (cases "parent_of ds t")
    case None
    then have "count_list (tree_nodes (tree_of ds r)) t = (if r = t then Suc 0 else 0)" for r
      using c [of r] by auto
    then have "(\<Sum>r\<leftarrow>tree_roots ds. count_list (tree_nodes (tree_of ds r)) t) =
        (\<Sum>r\<leftarrow>tree_roots ds. if r = t then Suc 0 else 0)" by simp
    also have "\<dots> = 1" using sum_list_if_eq [OF dr] None less.prems by (simp add: tree_roots_def)
    finally show ?thesis .
  next
    case (Some q)
    then have "q \<in> set ds" and "node_parts q < node_parts t"
      using parent_of_path parent_of_parts by blast+
    then have "(\<Sum>r\<leftarrow>tree_roots ds. count_list (tree_nodes (tree_of ds r)) q) = 1"
      using less.hyps by simp
    moreover have "count_list (tree_nodes (tree_of ds r)) t = count_list (tree_nodes (tree_of ds r)) q"
      if "r \<in> set (tree_roots ds)" for r
      using c [of r] that Some by (auto simp: tree_roots_def)
    ultimately show ?thesis by (simp cong: map_cong)
  qed
qed

lemma built_nodes:
  "mset (concat (map tree_nodes (buildTreeFromNodes rows))) = mset (dedupeServiceTreesByFullPath rows)"
proof -
  define ds where "ds = dedupeServiceTreesByFullPath rows"
  have dd: "distinct ds" by (simp add: ds_def dedupe_distinct)
  have nodes: "concat (map tree_nodes (buildTreeFromNodes rows)) =
      concat (map (\<lambda>r. tree_nodes (tree_of ds r)) (tree_roots ds))"
    by (simp add: buildTreeFromNodes_def Let_def ds_def comp_def)
  have "count_list (concat (map (\<lambda>r. tree_nodes (tree_of ds r)) (tree_roots ds))) t = count_list ds t" for t
  proof (cases "t \<in> set ds")
    case True
    then have "count_list ds t = 1" using dd by (simp add: count_list_eq_length_filter distinct_length_filter)
    with count_roots [OF dd True] show ?thesis by (simp add: count_list_concat comp_def)
  next
    case False
    have "t \<notin> set (tree_nodes (tree_of ds r))" if "r \<in> set (tree_roots ds)" for r
      using that False tree_nodes_within [of t ds r] by (auto simp: tree_roots_def)
    then have "t \<notin> set (concat (map (\<lambda>r. tree_nodes (tree_of ds r)) (tree_roots ds)))" by auto
    with False show ?thesis by (metis count_list_0_iff)
  qed
  then show ?thesis by (simp add: nodes ds_def [symmetric] multiset_eq_iff count_mset)
qed

text \<open>Below every node of a tree lie only nodes whose parent path is its path.\<close>

fun well_placed :: "service_tree \<Rightarrow> bool" where
  "well_placed (TreeNode r ts) \<longleftrightarrow>
     (\<forall>t \<in> set ts. GetParentFullPath (tree_root t) = tr_full_code_path r \<and> well_placed t)"

lemma tree_root_of [simp]: "tree_root (tree_of ds p) = p"
  by (metis tree_of.simps tree_root.simps)

lemma well_placed_tree_of: "well_placed (tree_of ds p)"
proof (induction ds p rule: tree_of.induct)
  case (1 ds p)
  have "GetParentFullPath k = tr_full_code_path p" if "k \<in> set (kids ds p)" for k
    using that by (auto simp: kids_def dest: parent_of_path)
  moreover have "tree_of ds p = TreeNode p (map (tree_of ds) (kids ds p))" by (rule tree_of.simps)
  ultimately show ?case using "1.IH" by simp
qed

lemma parent_of_None:
  "parent_of ds t = None \<Longrightarrow> GetParentFullPath t = [] \<or> GetParentFullPath t \<notin> tr_full_code_path ` set ds"
  by (auto simp: parent_of_def Let_def map_of_eq_None_iff image_image split: if_splits)

definition app_rows :: "int \<Rightarrow> tree_db \<Rightarrow> tree_row list" where
  "app_rows i s = sel (\<lambda>r. node_live r \<and> tr_app_id r = i) (td_nodes s)"

lemma BuildServiceTree_run:
  "BuildServiceTree i w = (Inr trees, w') \<Longrightarrow>
     trees = buildTreeFromNodes (by_id (app_rows i (store w))) \<and> store w' = store w"
  by (auto simp: BuildServiceTree_def GetServiceTreesByAppID_def run_simps app_rows_def)

lemma built_shown:
  "mset (concat (map tree_nodes (buildTreeFromNodes rows))) = mset (dedupeServiceTreesByFullPath rows)"
  "set (concat (map tree_nodes (buildTreeFromNodes rows))) = set (dedupeServiceTreesByFullPath rows)"
  using built_nodes [of rows] mset_eq_setD [OF built_nodes [of rows]] by simp_all

lemma built_within: "set (concat (map tree_nodes (buildTreeFromNodes (by_id rows)))) \<subseteq> set rows"
  unfolding built_shown(2) using dedupe_from_sub [of "[]" "by_id rows"]
  by (simp add: dedupeServiceTreesByFullPath_def)

text \<open>
  C37. The tree of a workspace loses nothing and repeats nothing: every live node of the workspace,
  and no other, stands in the answer under its path exactly once (of rows at the same path, one), and
  every node that is not a root stands right below the node at its parent path. The roots are exactly the
  nodes with no node at their parent path: the workspace itself, and a node whose parent is gone.
\<close>

theorem tree_shows_every_node:
  assumes "BuildServiceTree app_id w = (Inr trees, w')"
  shows "distinct (map dedupe_key (concat (map tree_nodes trees))) \<and>
    dedupe_key ` set (concat (map tree_nodes trees)) = dedupe_key ` set (app_rows app_id (store w)) \<and>
    set (concat (map tree_nodes trees)) \<subseteq> set (app_rows app_id (store w)) \<and>
    (\<forall>t \<in> set trees. well_placed t \<and> (GetParentFullPath (tree_root t) = [] \<or>
       GetParentFullPath (tree_root t) \<notin> tr_full_code_path ` set (concat (map tree_nodes trees))))"
proof (intro conjI)
  let ?rows = "by_id (app_rows app_id (store w))"
  have trees: "trees = buildTreeFromNodes ?rows" using BuildServiceTree_run [OF assms] by simp
  note shown = built_shown [of ?rows, folded trees]
  have "mset (map dedupe_key (concat (map tree_nodes trees))) =
      mset (map dedupe_key (dedupeServiceTreesByFullPath ?rows))"
    using shown(1) by (metis mset_map)
  moreover have "distinct (map dedupe_key (dedupeServiceTreesByFullPath ?rows))"
    using dedupe_from_distinct [of "[]" ?rows] by (simp add: dedupeServiceTreesByFullPath_def)
  ultimately show "distinct (map dedupe_key (concat (map tree_nodes trees)))"
    by (metis mset_eq_imp_distinct_iff)
  show sub: "set (concat (map tree_nodes trees)) \<subseteq> set (app_rows app_id (store w))"
    unfolding trees by (rule built_within)
  show "dedupe_key ` set (concat (map tree_nodes trees)) = dedupe_key ` set (app_rows app_id (store w))"
  proof
    show "dedupe_key ` set (concat (map tree_nodes trees)) \<subseteq> dedupe_key ` set (app_rows app_id (store w))"
      using sub by (rule image_mono)
    show "dedupe_key ` set (app_rows app_id (store w)) \<subseteq> dedupe_key ` set (concat (map tree_nodes trees))"
      unfolding shown(2) dedupeServiceTreesByFullPath_def
      using dedupe_from_all [of _ ?rows "[]"] by auto
  qed
  have "GetParentFullPath r = [] \<or> GetParentFullPath r \<notin> tr_full_code_path ` set (concat (map tree_nodes trees))"
    if "r \<in> set (tree_roots (dedupeServiceTreesByFullPath ?rows))" for r
    unfolding shown(2) using that by (auto simp: tree_roots_def dest: parent_of_None)
  then show "\<forall>t \<in> set trees. well_placed t \<and> (GetParentFullPath (tree_root t) = [] \<or>
       GetParentFullPath (tree_root t) \<notin> tr_full_code_path ` set (concat (map tree_nodes trees)))"
    unfolding trees buildTreeFromNodes_def Let_def by (simp add: well_placed_tree_of)
qed

section \<open>What may be seen\<close>

primrec resp_nodes :: "resp_tree \<Rightarrow> resp_node list" where
  "resp_nodes (RespTree n ts) = n # concat (map resp_nodes ts)"

definition readable :: "resp_node \<Rightarrow> bool" where
  "readable n \<longleftrightarrow> HasPermission (rn_permissions n) ActionRead"

text \<open>Every node of the tree may be read or has a node below it that may be read.\<close>

fun all_needed :: "resp_tree \<Rightarrow> bool" where
  "all_needed (RespTree n ts) \<longleftrightarrow>
     (readable n \<or> (\<exists>m \<in> set (concat (map resp_nodes ts)). readable m)) \<and> (\<forall>t \<in> set ts. all_needed t)"

lemma set_somes: "x \<in> set (somes xs) \<longleftrightarrow> Some x \<in> set xs"
  by (induction xs) (auto simp: somes_def split: option.splits)

lemma somes_Cons [simp]: "somes (x # xs) = (case x of None \<Rightarrow> somes xs | Some y \<Rightarrow> y # somes xs)"
  by (simp add: somes_def split: option.split)

lemma somes_Nil [simp]: "somes [] = []"
  by (simp add: somes_def)

definition visible_ok :: "resp_tree \<Rightarrow> resp_tree option \<Rightarrow> bool" where
  "visible_ok t res = (case res of
     None \<Rightarrow> filter readable (resp_nodes t) = []
   | Some t' \<Rightarrow> filter readable (resp_nodes t') = filter readable (resp_nodes t) \<and> all_needed t' \<and>
       filter readable (resp_nodes t') \<noteq> [] \<and> resp_root t' = resp_root t)"

lemma visible_children:
  assumes "\<And>t. t \<in> set ts \<Longrightarrow> visible_ok t (filterVisibleServiceTree t)"
  shows "filter readable (concat (map resp_nodes (somes (map filterVisibleServiceTree ts)))) =
      filter readable (concat (map resp_nodes ts)) \<and>
    (\<forall>t \<in> set (somes (map filterVisibleServiceTree ts)). all_needed t) \<and>
    (somes (map filterVisibleServiceTree ts) \<noteq> [] \<longrightarrow> filter readable (concat (map resp_nodes ts)) \<noteq> [])"
  using assms
proof (induction ts)
  case (Cons t ts)
  then have t: "visible_ok t (filterVisibleServiceTree t)" by simp
  note ih = Cons.IH [OF Cons.prems]
  show ?case
  proof (cases "filterVisibleServiceTree t")
    case None
    with t ih show ?thesis by (simp add: visible_ok_def)
  next
    case (Some a)
    with t have "filter readable (resp_nodes t) \<noteq> []" by (auto simp: visible_ok_def)
    with Some t ih show ?thesis by (simp add: visible_ok_def)
  qed
qed simp

lemma filterVisible_ok: "visible_ok t (filterVisibleServiceTree t)"
proof (induction t)
  case (RespTree n ts)
  have kids: "filter readable (concat (map resp_nodes (somes (map filterVisibleServiceTree ts)))) =
      filter readable (concat (map resp_nodes ts))"
    "\<forall>t \<in> set (somes (map filterVisibleServiceTree ts)). all_needed t"
    "somes (map filterVisibleServiceTree ts) \<noteq> [] \<longrightarrow> filter readable (concat (map resp_nodes ts)) \<noteq> []"
    using visible_children [of ts] RespTree.IH by blast+
  let ?kept = "somes (map filterVisibleServiceTree ts)"
  show ?case
  proof (cases "readable n \<or> ?kept \<noteq> []")
    case True
    then have "filterVisibleServiceTree (RespTree n ts) = Some (RespTree n ?kept)"
      by (simp add: Let_def readable_def)
    moreover have "readable n \<or> (\<exists>m \<in> set (concat (map resp_nodes ?kept)). readable m)"
      using True kids by (metis filter_empty_conv)
    ultimately show ?thesis using kids True by (auto simp: visible_ok_def)
  next
    case False
    then have "filterVisibleServiceTree (RespTree n ts) = None" by (simp add: Let_def readable_def)
    moreover have "filter readable (concat (map resp_nodes ts)) = []" using False kids by simp
    ultimately show ?thesis using False by (simp add: visible_ok_def)
  qed
qed

definition row_readable :: "(gostr \<times> access_result) list \<Rightarrow> tree_row \<Rightarrow> bool" where
  "row_readable perms r \<longleftrightarrow> readable (resp_node_of perms r False)"

lemma resp_node_of_row [simp]: "rn_row (resp_node_of perms r b) = r"
  by (simp add: resp_node_of_def split: option.split)

lemma resp_node_of_readable [simp]: "readable (resp_node_of perms r b) = row_readable perms r"
  by (simp add: row_readable_def readable_def resp_node_of_def split: option.split)

lemma converted_readable:
  "map rn_row (filter readable (resp_nodes (convertToGetServiceTreeResp perms t))) =
     filter (row_readable perms) (tree_nodes t)"
proof (induction t)
  case (TreeNode r ts)
  have "map rn_row (filter readable (concat (map resp_nodes (map (convertToGetServiceTreeResp perms) us)))) =
      filter (row_readable perms) (concat (map tree_nodes us))" if "set us \<subseteq> set ts" for us
    using that TreeNode.IH by (induction us) (simp_all add: comp_def)
  from this [of ts] show ?case by (simp add: comp_def)
qed

text \<open>The permission subsystem's part of the world.\<close>

definition perm_world :: "tree_db world \<Rightarrow> perm_db world" where
  "perm_world w = \<lparr>clock = clock w, seqs = seqs w, faults = faults w, store = td_perm (store w)\<rparr>"

lemma permissionsByPath_run:
  "permissionsByPath E cx trees w = (Inr perms, w') \<Longrightarrow>
     \<exists>v. PermissionsForTree E cx (pc_user cx) (collectServiceTreePaths trees) (perm_world w) = (Inr perms, v)"
  by (auto simp: permissionsByPath_def remote_def perm_world_def split: prod.splits)
    (metis id_apply map_sum.simps sum.exhaust sum.inject(2) sum.simps(4))

definition may_read :: "perm_env \<Rightarrow> perm_ctx \<Rightarrow> tree_db world \<Rightarrow> tree_row \<Rightarrow> bool" where
  "may_read E cx w r \<longleftrightarrow> (\<exists>res. fst (ResolvePermissions E cx (pc_user cx) (tr_full_code_path r) (perm_world w)) = Inr res \<and>
     HasPermission (re_permissions res) ActionRead)"

lemma wrapped_Inr [run_simps]: "wrapped msg m w = (Inr a, w') \<longleftrightarrow> m w = (Inr a, w')"
  by (auto simp: wrapped_def split: prod.splits sum.splits)

lemma BuildServiceTree_calm:
  "faults w = [] \<Longrightarrow> BuildServiceTree i w = (Inr (buildTreeFromNodes (by_id (app_rows i (store w)))), w)"
  by (simp add: BuildServiceTree_def GetServiceTreesByAppID_def calm_simps app_rows_def)

lemma row_readable_may_read:
  assumes "permissionsByPath E cx trees w = (Inr perms, w')" and "faults w = []"
    and "trim_space (pc_user cx) = pc_user cx"
    and "\<forall>x \<in> set (concat (map tree_nodes trees)).
      NormalizeResourcePath (NormalizeResourcePath (tr_full_code_path x)) = NormalizeResourcePath (tr_full_code_path x)"
    and "r \<in> set (concat (map tree_nodes trees))"
  shows "row_readable perms r \<longleftrightarrow> may_read E cx w r"
proof -
  obtain v where run: "PermissionsForTree E cx (pc_user cx) (collectServiceTreePaths trees) (perm_world w) = (Inr perms, v)"
    using permissionsByPath_run [OF assms(1)] by blast
  have calm: "faults (perm_world w) = []" using assms(2) by (simp add: perm_world_def)
  have "tr_full_code_path r \<in> set (collectServiceTreePaths trees)"
    using assms(5) by (auto simp: collectServiceTreePaths_def)
  moreover have "NormalizeResourcePath (NormalizeResourcePath q) = NormalizeResourcePath q"
    if "q \<in> set (collectServiceTreePaths trees)" for q
    using that assms(4) by (auto simp: collectServiceTreePaths_def)
  ultimately obtain res where "fst (ResolvePermissions E cx (pc_user cx) (tr_full_code_path r) (perm_world w)) = Inr res"
    and "map_of perms (NormalizeResourcePath (tr_full_code_path r)) = Some res"
    using PermissionsForTree_agrees [OF run calm _ assms(3)] by blast
  then show ?thesis by (simp add: row_readable_def resp_node_of_def readable_def may_read_def)
qed

text \<open>
  C38. A workspace that hides what its users may not read shows each of them exactly what they may
  read: the readable nodes of the answer, in order, are the nodes of the tree for which the permission
  subsystem, asked about the path alone, grants reading; and every other node of the answer is there
  only because something below it is readable.
\<close>

theorem hidden_tree_exact:
  assumes "getServiceTreeByAppModel E cx app [] w = (Inr answer, w')" and "wk_hide app"
    and "faults w = []" and "trim_space (pc_user cx) = pc_user cx"
    and "\<forall>r \<in> set (app_rows (wk_id app) (store w)).
      NormalizeResourcePath (NormalizeResourcePath (tr_full_code_path r)) = NormalizeResourcePath (tr_full_code_path r)"
  shows "\<exists>trees. BuildServiceTree (wk_id app) w = (Inr trees, w) \<and> trees \<noteq> [] \<and>
    map rn_row (filter readable (concat (map resp_nodes answer))) =
      filter (may_read E cx w) (tree_nodes (hd trees)) \<and>
    (\<forall>t \<in> set answer. all_needed t)"
proof -
  define trees where "trees = buildTreeFromNodes (by_id (app_rows (wk_id app) (store w)))"
  have build: "BuildServiceTree (wk_id app) w = (Inr trees, w)"
    using BuildServiceTree_calm [OF assms(3)] by (simp add: trees_def)
  from assms(1) build obtain perms w1 where ne: "trees \<noteq> []"
    and perms: "permissionsByPath E cx trees w = (Inr perms, w1)"
    and ans: "answer = (case filterVisibleServiceTree (convertToGetServiceTreeResp perms (hd trees)) of
        None \<Rightarrow> [] | Some t \<Rightarrow> [t])"
    by (auto simp: getServiceTreeByAppModel_def run_simps Let_def assms(2) split: if_splits)
  have nodes: "set (concat (map tree_nodes trees)) \<subseteq> set (app_rows (wk_id app) (store w))"
    unfolding trees_def by (rule built_within)
  have norm: "\<forall>x \<in> set (concat (map tree_nodes trees)).
      NormalizeResourcePath (NormalizeResourcePath (tr_full_code_path x)) = NormalizeResourcePath (tr_full_code_path x)"
    using assms(5) nodes by blast
  have "row_readable perms r \<longleftrightarrow> may_read E cx w r" if "r \<in> set (tree_nodes (hd trees))" for r
    by (rule row_readable_may_read [OF perms assms(3,4) norm])
      (use that ne in \<open>auto intro: hd_in_set\<close>)
  then have "filter (may_read E cx w) (tree_nodes (hd trees)) = filter (row_readable perms) (tree_nodes (hd trees))"
    by (intro filter_cong) simp_all
  also have "\<dots> = map rn_row (filter readable (concat (map resp_nodes answer)))"
    using filterVisible_ok [of "convertToGetServiceTreeResp perms (hd trees)"]
      converted_readable [of perms "hd trees"]
    by (auto simp: ans visible_ok_def split: option.splits)
  moreover have "\<forall>t \<in> set answer. all_needed t"
    using filterVisible_ok [of "convertToGetServiceTreeResp perms (hd trees)"]
    by (auto simp: ans visible_ok_def split: option.splits)
  ultimately show ?thesis using build ne by (intro exI [of _ trees]) simp
qed

section \<open>When the tree is refused\<close>

lemma same_workspace_of_tree:
  assumes "permissionsByPath E cx trees w = (Inr perms, w')"
    and "r \<in> set (concat (map tree_nodes trees))" "r' \<in> set (concat (map tree_nodes trees))"
  shows "ParseUserApp (tr_full_code_path r) = ParseUserApp (tr_full_code_path r')"
proof -
  obtain v where run: "PermissionsForTree E cx (pc_user cx) (collectServiceTreePaths trees) (perm_world w) = (Inr perms, v)"
    using permissionsByPath_run [OF assms(1)] by blast
  have "tr_full_code_path r \<in> set (collectServiceTreePaths trees)"
    using assms(2) unfolding collectServiceTreePaths_def by simp
  then have "collectServiceTreePaths trees \<noteq> []" by auto
  with run obtain ws where "\<forall>p \<in> set (collectServiceTreePaths trees). ParseUserApp p = Inr ws"
    by (auto simp: PermissionsForTree_def run_simps same_workspace_run split: if_splits)
  moreover have "tr_full_code_path x \<in> set (collectServiceTreePaths trees)"
    if "x \<in> set (concat (map tree_nodes trees))" for x
    using that unfolding collectServiceTreePaths_def by simp
  ultimately show ?thesis using assms(2,3) by (metis (no_types, lifting))
qed

text \<open>
  One node in the wrong workspace takes the whole tree away: if two live nodes carry the id of a
  workspace and their paths lie in different workspaces (and no two of its nodes share a path), every
  call fails.
\<close>

lemma foreign_node_blocks:
  assumes "r \<in> set (app_rows (wk_id app) (store w))" and "r' \<in> set (app_rows (wk_id app) (store w))"
    and "ParseUserApp (tr_full_code_path r) \<noteq> ParseUserApp (tr_full_code_path r')"
    and "inj_on dedupe_key (set (app_rows (wk_id app) (store w)))"
  shows "\<exists>e w'. getServiceTreeByAppModel E cx app [] w = (Inl e, w')"
proof (rule ccontr)
  assume "\<not> ?thesis"
  then obtain answer w' where "getServiceTreeByAppModel E cx app [] w = (Inr answer, w')"
    by (metis surj_pair sum.exhaust)
  then obtain trees w1 perms w2 where build: "BuildServiceTree (wk_id app) w = (Inr trees, w1)"
    and perms: "permissionsByPath E cx trees w1 = (Inr perms, w2)"
    by (auto simp: getServiceTreeByAppModel_def run_simps split: if_splits)
  let ?rows = "by_id (app_rows (wk_id app) (store w))"
  have trees: "trees = buildTreeFromNodes ?rows" using BuildServiceTree_run [OF build] by simp
  have "x \<in> set (concat (map tree_nodes trees))" if x: "x \<in> set (app_rows (wk_id app) (store w))" for x
  proof -
    have "dedupe_key x \<in> dedupe_key ` set (dedupeServiceTreesByFullPath ?rows)"
      unfolding dedupeServiceTreesByFullPath_def by (rule dedupe_from_all) (use x in simp_all)
    then obtain y where y: "y \<in> set (dedupeServiceTreesByFullPath ?rows)" "dedupe_key y = dedupe_key x" by auto
    moreover have "y \<in> set (app_rows (wk_id app) (store w))"
      using y(1) dedupe_from_sub [of "[]" ?rows] by (auto simp: dedupeServiceTreesByFullPath_def)
    ultimately have "y = x" using assms(4) x by (simp add: inj_on_def)
    with y(1) show ?thesis unfolding trees built_shown(2) by simp
  qed
  with assms(1-3) same_workspace_of_tree [OF perms] show False by blast
qed

text \<open>
  C39. The documented filter on a node type only works for directories: asked for the functions or the
  documents of a workspace, the call always fails, because the root of every workspace is a directory
  and so is filtered out.
\<close>

theorem typed_tree_refused:
  assumes "node_type \<noteq> []" and "node_type \<noteq> TypePackage"
    and "\<forall>r \<in> set (app_rows (wk_id app) (store w)). IsRoot r \<longrightarrow> tr_type r = TypePackage"
  shows "\<exists>e w'. getServiceTreeByAppModel E cx app node_type w = (Inl e, w')"
proof (rule ccontr)
  assume "\<not> ?thesis"
  then obtain answer w' where "getServiceTreeByAppModel E cx app node_type w = (Inr answer, w')"
    by (metis surj_pair sum.exhaust)
  then obtain trees w1 where build: "BuildServiceTreeByType (wk_id app) node_type w = (Inr trees, w1)"
    and ne: "trees \<noteq> []" and root: "IsRoot (tree_root (hd trees))"
    using assms(1) by (auto simp: getServiceTreeByAppModel_def run_simps split: if_splits)
  let ?rows = "sel (\<lambda>r. node_live r \<and> tr_app_id r = wk_id app \<and> (node_type \<noteq> [] \<longrightarrow> tr_type r = node_type)) (td_nodes (store w))"
  from build have trees: "trees = buildTreeFromNodes (by_id ?rows)"
    by (auto simp: BuildServiceTreeByType_def GetServiceTreesByAppIDAndType_def run_simps)
  have "tree_root (hd trees) \<in> set (tree_nodes (hd trees))" by (cases "hd trees") simp
  then have "tree_root (hd trees) \<in> set (concat (map tree_nodes trees))" using ne by (auto intro: hd_in_set)
  then have "tree_root (hd trees) \<in> set ?rows" using built_within [of ?rows] by (auto simp: trees)
  with assms root show False by (auto simp: app_rows_def)
qed

section \<open>A deployment\<close>

lemma tdemo_app_rows: "by_id (app_rows 1 tdemo_db) = tdemo_crm_rows"
  by (simp add: app_rows_def tdemo_db_def tdemo_nodes_def node_live_def tdemo_rows)

lemma tdemo_build: "BuildServiceTree 1 tdemo_world = (Inr [tdemo_tree], tdemo_world)"
  using BuildServiceTree_calm [of tdemo_world 1] by (simp add: tdemo_world_def tdemo_app_rows tdemo_built)

theorem tree_shows_every_node_witness:
  "BuildServiceTree 1 tdemo_world = (Inr [tdemo_tree], tdemo_world) \<and> well_placed tdemo_tree"
  using tree_shows_every_node [OF tdemo_build] tdemo_build by simp

lemma tdemo_answer:
  "\<exists>answer w'. getServiceTreeByAppModel sample_perm_env (tdemo_ctx ''system'') tdemo_crm [] tdemo_world =
     (Inr answer, w')"
proof -
  let ?paths = "[''/alice/crm'', ''/alice/crm/sales'', ''/alice/crm/sales/notes.docs'', ''/alice/crm/hr'']"
  have paths: "collectServiceTreePaths [tdemo_tree] = ?paths"
    by (simp add: collectServiceTreePaths_def tdemo_tree_def tdemo_fields)
  have parse: "list_all (\<lambda>q. ParseUserApp q = Inr (''alice'', ''crm'')) ?paths"
    "NormalizeResourcePath ''/alice/crm'' = ''/alice/crm''" "isSystemRootUser ''system''" by code_simp+
  let ?v = "perm_world tdemo_world"
  have "same_workspace (''alice'', ''crm'') ?paths ?v = (Inr (), ?v)"
    "parse_user_app ''/alice/crm'' ?v = (Inr (''alice'', ''crm''), ?v)"
    using parse unfolding same_workspace_run parse_user_app_run by simp_all
  then have "PermissionsForTree sample_perm_env (tdemo_ctx ''system'') ''system'' ?paths ?v =
      (Inr (tree_results ownerAccessResult ?paths), ?v)"
    using parse by (simp add: PermissionsForTree_def andThen_calm ret_calm del: same_workspace.simps)
  then obtain perms w1 where perms: "permissionsByPath sample_perm_env (tdemo_ctx ''system'') [tdemo_tree] tdemo_world =
      (Inr perms, w1)"
    by (simp add: permissionsByPath_def paths remote_def perm_world_def [symmetric] tdemo_ctx_def)
  have root: "IsRoot tdemo_crm_root" by code_simp
  show ?thesis
    using tdemo_build root perms
    by (simp add: getServiceTreeByAppModel_def wrapped_def andThen_def tdemo_crm_def tdemo_tree_def [symmetric]
        Let_def ret_def) (simp add: tdemo_tree_def tdemo_fields)
qed

theorem hidden_tree_exact_witness:
  "\<exists>answer w' trees. getServiceTreeByAppModel sample_perm_env (tdemo_ctx ''system'') tdemo_crm [] tdemo_world =
     (Inr answer, w') \<and>
   map rn_row (filter readable (concat (map resp_nodes answer))) =
      filter (may_read sample_perm_env (tdemo_ctx ''system'') tdemo_world) (tree_nodes (hd trees))"
proof -
  obtain answer w' where run: "getServiceTreeByAppModel sample_perm_env (tdemo_ctx ''system'') tdemo_crm []
      tdemo_world = (Inr answer, w')" using tdemo_answer by blast
  have facts: "wk_hide tdemo_crm" "faults tdemo_world = []" by (simp_all add: tdemo_crm_def tdemo_world_def)
  have user: "trim_space (pc_user (tdemo_ctx ''system'')) = pc_user (tdemo_ctx ''system'')" by code_simp
  have "set (app_rows (wk_id tdemo_crm) (store tdemo_world)) = set tdemo_crm_rows"
    by (metis set_sort tdemo_app_rows tdemo_crm_def tdemo_world_def ws_row.select_convs(1) world.select_convs(4))
  moreover have "NormalizeResourcePath ''/alice/crm'' = ''/alice/crm''"
    "NormalizeResourcePath ''/alice/crm/sales'' = ''/alice/crm/sales''"
    "NormalizeResourcePath ''/alice/crm/sales/notes.docs'' = ''/alice/crm/sales/notes.docs''"
    "NormalizeResourcePath ''/alice/crm/hr'' = ''/alice/crm/hr''" by code_simp+
  ultimately have "\<forall>r \<in> set (app_rows (wk_id tdemo_crm) (store tdemo_world)).
      NormalizeResourcePath (NormalizeResourcePath (tr_full_code_path r)) = NormalizeResourcePath (tr_full_code_path r)"
    by (simp add: tdemo_fields)
  from hidden_tree_exact [OF run facts user this] run show ?thesis by blast
qed

theorem typed_tree_refused_witness:
  "\<exists>e w'. getServiceTreeByAppModel sample_perm_env (tdemo_ctx ''system'') tdemo_crm TypeFunction tdemo_world = (Inl e, w')"
proof -
  have "set (app_rows (wk_id tdemo_crm) (store tdemo_world)) = set tdemo_crm_rows"
    by (metis set_sort tdemo_app_rows tdemo_crm_def tdemo_world_def ws_row.select_convs(1) world.select_convs(4))
  moreover have "tr_type tdemo_crm_root = TypePackage" "tr_type tdemo_sales = TypePackage"
    "tr_type tdemo_hr = TypePackage" by (simp_all add: tdemo_rows)
  moreover have "\<not> IsRoot tdemo_notes" by code_simp
  ultimately have "\<forall>r \<in> set (app_rows (wk_id tdemo_crm) (store tdemo_world)). IsRoot r \<longrightarrow> tr_type r = TypePackage"
    by auto
  from typed_tree_refused [OF _ _ this] show ?thesis by simp
qed

end
