(* ===== verification/TreeCreateProps.thy ===== *)
theory TreeCreateProps
  imports TreeViewProps
begin

text \<open>
  What creating a node does: a directory gets a code and a path of its own below its parent; what is
  missing when there is no parent, and when a document names a parent in another workspace.
\<close>

section \<open>What leaves the nodes alone\<close>

lemma stable_wrapped [stable_intros]: "stable I m \<Longrightarrow> stable I (wrapped msg m)"
  by (auto simp: stable_def wrapped_def split: prod.splits sum.splits)

lemma stable_found_node [stable_intros]: "stable I (found_node r)"
  by (cases r) (simp_all add: found_node_def stable_intros)

lemma stable_cached:
  assumes "\<And>s a b. I s \<Longrightarrow> I (s\<lparr>td_app_cache := a, td_app_id_cache := b\<rparr>)"
  shows "stable I (cache_workspace row)"
  using assms by (auto simp: stable_def cache_workspace_def)

lemma stable_WsGetByUserName:
  assumes "\<And>s a b. I s \<Longrightarrow> I (s\<lparr>td_app_cache := a, td_app_id_cache := b\<rparr>)"
  shows "stable I (WsGetByUserName user app)"
proof -
  let ?m = "andThen (query TErrDB (\<lambda>s. first_row
       (\<lambda>a. ws_live a \<and> wk_user a = user \<and> wk_code a = app) (td_apps s))) (\<lambda>found.
     andThen (found_node found) (\<lambda>row. andThen (cache_workspace row) (\<lambda>_. ret row)))"
  have "stable I ?m" by (intro stable_intros stable_cached assms)
  then show ?thesis by (simp add: stable_def WsGetByUserName_def split: option.split)
qed

lemma stable_WsGetByID:
  assumes "\<And>s a b. I s \<Longrightarrow> I (s\<lparr>td_app_cache := a, td_app_id_cache := b\<rparr>)"
  shows "stable I (WsGetByID i)"
proof -
  let ?m = "andThen (query TErrDB (\<lambda>s. first_row (\<lambda>a. ws_live a \<and> wk_id a = i) (td_apps s))) (\<lambda>found.
     andThen (found_node found) (\<lambda>row. andThen (cache_workspace row) (\<lambda>_. ret row)))"
  have "stable I ?m" by (intro stable_intros stable_cached assms)
  then show ?thesis by (simp add: stable_def WsGetByID_def split: option.split)
qed

lemma stable_GetServiceTreeByFullPath [stable_intros]: "stable I (GetServiceTreeByFullPath p)"
  by (auto simp: GetServiceTreeByFullPath_def Let_def intro!: stable_intros)

lemma stable_CheckNameExistsByPath [stable_intros]: "stable I (CheckNameExistsByPath p c i)"
  by (simp add: CheckNameExistsByPath_def Let_def stable_intros)

lemma stable_parent_node [stable_intros]: "stable I (parent_node p)"
  by (auto simp: parent_node_def intro!: stable_intros)

lemma stable_next_code [stable_intros]: "stable I (next_code N n p i b)"
proof (induction N n p i b rule: next_code.induct)
  case (2 N n p i b)
  then show ?case by (auto simp: Let_def intro!: stable_intros split: if_splits)
qed (simp add: stable_intros)

lemma stable_runtime_scaffold:
  assumes "\<And>s a b. I s \<Longrightarrow> I (s\<lparr>td_app_cache := a, td_app_id_cache := b\<rparr>)"
    and "\<And>s c. I s \<Longrightarrow> I (s\<lparr>td_runtime := c\<rparr>)"
  shows "stable I (createDirectoryScaffold E user app st)"
  unfolding createDirectoryScaffold_def getRuntimeBoundAppByUserApp_def requireRuntimeBinding_def runtime_create_def
  by (intro stable_andThen stable_wrapped stable_WsGetByUserName stable_modify assms(1))
    (auto intro: stable_intros assms)

section \<open>Creating a directory\<close>

lemma found_node_run [run_simps]: "found_node x w = (Inr r, w') \<longleftrightarrow> x = Some r \<and> w' = w"
  by (cases x) (auto simp: found_node_def run_simps)

lemma parent_node_run:
  assumes "parent_node path w = (Inr parent, w')"
  shows "store w' = store w" and "path = [] \<longleftrightarrow> parent = None"
    and "\<And>p. parent = Some p \<Longrightarrow> p \<in> set (td_nodes (store w)) \<and> node_live p \<and>
      tr_full_code_path p = normalizeFullCodePath path"
  using assms
  by (auto simp: parent_node_def GetServiceTreeByFullPath_def Let_def run_simps split: if_splits dest!: first_row_Some)

definition taken :: "gostr \<Rightarrow> gostr \<Rightarrow> int \<Rightarrow> tree_db \<Rightarrow> bool" where
  "taken parent_path code i s \<longleftrightarrow> (\<exists>x \<in> set (td_nodes s). node_live x \<and>
     tr_full_code_path x = trim_suffix_slash parent_path @ slash # code \<and> tr_app_id x = i)"

lemma CheckNameExistsByPath_run:
  "CheckNameExistsByPath p c i w = (Inr b, w') \<longleftrightarrow>
     \<not> next_fails w \<and> b = taken p c i (store w) \<and> w' = next_world w (store w)"
  by (auto simp: CheckNameExistsByPath_def Let_def run_simps hits_pos taken_def)

lemma TreeCreate_run:
  assumes "TreeCreate r w = (Inr row, w')"
  shows "td_nodes (store w') = td_nodes (store w) @ [row]"
    and "row = r\<lparr>tr_id := seqs w ''service_tree'' + 1, tr_created_at := clock w\<rparr>"
  using assms by (auto simp: TreeCreate_def run_simps Let_def)

lemma accepted_valid_code:
  assumes "ValidateGoPackageName s label = None"
  shows "valid_code s"
proof -
  from assms have s: "goPackageNameRegex s" "\<not> IsGoKeyword s" "length s \<le> 50"
    by (auto simp: ValidateGoPackageName_def ValidateGoPackageNameLength_def Let_def split: if_splits)
  then show ?thesis
    by (auto simp: valid_code_def goPackageNameRegex_def startsWithASCIILetter_def package_char_def split: list.splits)
qed

lemma next_code_run:
  assumes "next_code N n p i base w = (Inr c, w')" and "n \<le> 1000"
  shows "store w' = store w \<and> \<not> taken p c i (store w) \<and>
    (c = base \<or> (\<exists>k. 2 \<le> k \<and> k \<le> 1000 \<and> c = GoPackageNameWithNumericSuffix N base k))"
  using assms
proof (induction N n p i base arbitrary: w rule: next_code.induct)
  case (1 N p i base)
  then show ?case by (simp add: run_simps)
next
  case (2 N n p i base)
  define k where "k = 1000 - int n"
  define cand where "cand = (if k > 1 then GoPackageNameWithNumericSuffix N base k else base)"
  have cand: "cand = base \<or> (\<exists>k. 2 \<le> k \<and> k \<le> 1000 \<and> cand = GoPackageNameWithNumericSuffix N base k)"
    unfolding cand_def k_def by (auto intro!: exI [of _ "1000 - int n"])
  from "2.prems"(1) obtain ex w1 where check: "CheckNameExistsByPath p cand i w = (Inr ex, w1)"
    and rest: "(if \<not> ex then ret cand else next_code N n p i base) w1 = (Inr c, w')"
    unfolding next_code.simps Let_def k_def [symmetric] cand_def [symmetric] run_simps by blast
  from check have w1: "store w1 = store w" "ex = taken p cand i (store w)"
    by (simp_all add: CheckNameExistsByPath_run)
  show ?case
  proof (cases ex)
    case True
    then have "next_code N n p i base w1 = (Inr c, w')" using rest by simp
    moreover have "n \<le> 1000" using "2.prems"(2) by simp
    ultimately show ?thesis using "2.IH" [OF refl refl, of ex w1] True w1 by simp
  next
    case False
    with rest w1 cand show ?thesis by (simp add: run_simps)
  qed
qed

lemma numbered_or_base_valid:
  "ascii_ok N \<Longrightarrow> valid_code base \<Longrightarrow>
   c = base \<or> (\<exists>k. 2 \<le> k \<and> k \<le> 1000 \<and> c = GoPackageNameWithNumericSuffix N base k) \<Longrightarrow> valid_code c"
  by (metis numbered_code)

lemma WsGetByUserName_nodes:
  "WsGetByUserName u a w = (r, w') \<Longrightarrow> td_nodes (store w') = td_nodes (store w)"
  by (rule stableD [OF stable_WsGetByUserName [of "\<lambda>s. td_nodes s = td_nodes (store w)"], of w]) simp_all

lemma createDirectoryScaffold_nodes:
  "createDirectoryScaffold E u a st w = (r, w') \<Longrightarrow> td_nodes (store w') = td_nodes (store w)"
  by (rule stableD [OF stable_runtime_scaffold [of "\<lambda>s. td_nodes s = td_nodes (store w)"], of w]) simp_all

lemma CreatePackage_run:
  assumes "CreatePackage E user req w = (Inr row, w')"
  obtains base code app parent w0 w1 w2 where
    "ValidateGoPackageName base ''directory code'' = None"
    "WsGetByUserName (cp_user req) (cp_app req) w = (Inr app, w0)"
    "parent_node (cp_parent req) w0 = (Inr parent, w1)"
    "\<And>p. parent = Some p \<Longrightarrow> tr_app_id p = wk_id app"
    "code = base \<or> nextAvailablePackageCode (te_naming E) (path_of_parent parent) (wk_id app) base w1 = (Inr code, w2)"
    "\<not> taken (path_of_parent parent) code (wk_id app) (store w)"
    "td_nodes (store w') = td_nodes (store w) @ [row]"
    "tr_app_id row = wk_id app" "tr_code row = code" "tr_type row = TypePackage" "tr_deleted_at row = None"
    "tr_full_code_path row = child_path app parent code"
    "trim_space (cp_code req) \<noteq> [] \<Longrightarrow> code = NormalizeGoPackageName (cp_code req)"
proof -
  define provided where "provided = (trim_space (cp_code req) \<noteq> [])"
  define base where "base = (if \<not> provided then DeriveGoPackageName (te_naming E) (cp_name req) ''directory''
    else NormalizeGoPackageName (cp_code req))"
  from assms obtain u wc app w0 parent w1 u1 w1' code w2 ex w3 where
    ok: "check_name (ValidateGoPackageName base ''directory code'') w = (Inr u, wc)"
    and app': "WsGetByUserName (cp_user req) (cp_app req) wc = (Inr app, w0)"
    and parent: "parent_node (cp_parent req) w0 = (Inr parent, w1)"
    and own: "(case parent of None \<Rightarrow> ret () | Some p \<Rightarrow> if tr_app_id p \<noteq> wk_id app
        then fail (TErrOf ''parent of another app'' (cp_parent req)) else ret ()) w1 = (Inr u1, w1')"
    and code': "(if \<not> provided then nextAvailablePackageCode (te_naming E) (path_of_parent parent) (wk_id app) base
        else ret base) w1' = (Inr code, w2)"
    and free': "CheckNameExistsByPath (path_of_parent parent) code (wk_id app) w2 = (Inr ex, w3)"
    and rest: "(if ex then fail (TErrOf ''directory exists'' code) else
        andThen (wrapped ''create node'' (TreeCreate (new_node app (cp_name req) code TypePackage (cp_description req)
          (cp_tags req) (cp_admins req) (child_path app parent code) user))) (\<lambda>row.
        andThen (attempt (createDirectoryScaffold E (cp_user req) (cp_app req) row)) (\<lambda>_. ret row))) w3 = (Inr row, w')"
    unfolding CreatePackage_def Let_def provided_def [symmetric] base_def [symmetric]
      CreateServiceTreeWithParentPath_def andThen_Inr wrapped_Inr by blast
  have wc: "wc = w" using ok by (auto simp: check_name_def run_simps split: option.splits)
  have w1': "w1' = w1" and mine: "\<And>p. parent = Some p \<Longrightarrow> tr_app_id p = wk_id app"
    using own by (auto simp: run_simps split: option.splits if_splits)
  note app = app' [unfolded wc] and code = code' [unfolded w1']
  from rest have nex: "\<not> ex" by (auto simp: run_simps)
  from rest nex obtain w4 r where
    row: "TreeCreate (new_node app (cp_name req) code TypePackage (cp_description req) (cp_tags req)
        (cp_admins req) (child_path app parent code) user) w3 = (Inr row, w4)"
    and last: "createDirectoryScaffold E (cp_user req) (cp_app req) row w4 = (r, w')"
    by (auto simp: run_simps)
  have s1: "td_nodes (store w1) = td_nodes (store w)"
    using WsGetByUserName_nodes [OF app] parent_node_run(1) [OF parent] by simp
  have s2: "store w2 = store w1"
    using code next_code_run [of _ 1000] by (auto simp: nextAvailablePackageCode_def run_simps split: if_splits)
  have s3: "store w3 = store w2" and nt: "\<not> taken (path_of_parent parent) code (wk_id app) (store w2)"
    using free' nex by (auto simp: CheckNameExistsByPath_run)
  have "\<not> taken (path_of_parent parent) code (wk_id app) (store w)"
    using nt s1 s2 by (simp add: taken_def)
  moreover have "td_nodes (store w') = td_nodes (store w) @ [row]"
    using createDirectoryScaffold_nodes [OF last] TreeCreate_run(1) [OF row] s1 s2 s3 by simp
  moreover have "ValidateGoPackageName base ''directory code'' = None"
    using ok by (auto simp: check_name_def run_simps split: option.splits)
  moreover have "code = base \<or>
      nextAvailablePackageCode (te_naming E) (path_of_parent parent) (wk_id app) base w1 = (Inr code, w2)"
    using code by (auto simp: run_simps split: if_splits)
  moreover have "tr_app_id row = wk_id app" "tr_code row = code" "tr_type row = TypePackage"
    "tr_deleted_at row = None" "tr_full_code_path row = child_path app parent code"
    unfolding TreeCreate_run(2) [OF row] new_node_def no_tree_row_def by simp_all
  moreover have "code = NormalizeGoPackageName (cp_code req)" if "trim_space (cp_code req) \<noteq> []"
    using code that by (simp add: run_simps provided_def base_def)
  ultimately show ?thesis using that [OF _ app parent mine] by blast
qed

lemma last_not_slash_trim: "last p \<noteq> slash \<Longrightarrow> trim_suffix_slash p = p"
  by (simp add: trim_suffix_slash_def)

text \<open>The tables a creation leaves alone.\<close>

definition untouched :: "tree_db \<Rightarrow> tree_db \<Rightarrow> bool" where
  "untouched s s' \<longleftrightarrow> td_docs s' = td_docs s \<and> td_apps s' = td_apps s \<and> td_sched s' = td_sched s \<and> td_perm s' = td_perm s"

lemma CreatePackage_untouched:
  assumes "CreatePackage E user req w = (r, w')"
  shows "untouched (store w) (store w')"
proof -
  let ?I = "untouched (store w)"
  have checked: "stable ?I (check_name e)" for e
    by (cases e) (simp_all add: check_name_def stable_intros)
  have row: "stable ?I (TreeCreate x)" for x
    unfolding TreeCreate_def Let_def by (intro stable_intros stable_modify) (simp add: untouched_def)
  have "stable ?I (CreatePackage E user req)"
    unfolding CreatePackage_def CreateServiceTreeWithParentPath_def nextAvailablePackageCode_def Let_def
    by (auto intro!: stable_intros checked row stable_WsGetByUserName stable_runtime_scaffold
        simp: untouched_def split: option.split)
  from stableD [OF this _ assms] show ?thesis by (simp add: untouched_def)
qed

text \<open>
  C35. A directory that was created is one new live row of type package at the end of the table of nodes,
  for the workspace the request names; no other row of any table changed (only the cached workspaces and
  what was asked of the runtime). Its code is a valid one (given that the Unicode library leaves ASCII
  alone), the one the request gives, if any, in normal form. Without a parent its path is the code below
  the workspace. With a parent, the parent is a live node of the same workspace at the path the request
  names, the path is the parent's with the code appended, and, unless the parent's path ends with a slash,
  no live node of the workspace had this path before.
\<close>

theorem CreatePackage_effect:
  assumes "CreatePackage E user req w = (Inr row, w')" and "ascii_ok (te_naming E)"
  shows "td_nodes (store w') = td_nodes (store w) @ [row] \<and> untouched (store w) (store w') \<and>
    node_live row \<and> tr_type row = TypePackage \<and> valid_code (tr_code row) \<and>
    (trim_space (cp_code req) \<noteq> [] \<longrightarrow> tr_code row = NormalizeGoPackageName (cp_code req)) \<and>
    (\<exists>app w0. WsGetByUserName (cp_user req) (cp_app req) w = (Inr app, w0) \<and> tr_app_id row = wk_id app \<and>
       (if cp_parent req = []
        then tr_full_code_path row = slash # wk_user app @ slash # wk_code app @ slash # tr_code row
        else (\<exists>p \<in> set (td_nodes (store w)). node_live p \<and> tr_app_id p = wk_id app \<and>
               tr_full_code_path p = normalizeFullCodePath (cp_parent req) \<and>
               tr_full_code_path row = tr_full_code_path p @ slash # tr_code row) \<and>
             (last (normalizeFullCodePath (cp_parent req)) \<noteq> slash \<longrightarrow>
               (\<forall>x \<in> set (td_nodes (store w)). node_live x \<and> tr_app_id x = wk_id app \<longrightarrow>
                  tr_full_code_path x \<noteq> tr_full_code_path row))))"
proof -
  obtain base code app parent w0 w1 w2 where
    base: "ValidateGoPackageName base ''directory code'' = None"
    and app: "WsGetByUserName (cp_user req) (cp_app req) w = (Inr app, w0)"
    and parent: "parent_node (cp_parent req) w0 = (Inr parent, w1)"
    and own: "\<And>p. parent = Some p \<Longrightarrow> tr_app_id p = wk_id app"
    and code: "code = base \<or> nextAvailablePackageCode (te_naming E) (path_of_parent parent) (wk_id app) base w1 = (Inr code, w2)"
    and free: "\<not> taken (path_of_parent parent) code (wk_id app) (store w)"
    and nodes: "td_nodes (store w') = td_nodes (store w) @ [row]"
    and row: "tr_app_id row = wk_id app" "tr_code row = code" "tr_type row = TypePackage" "tr_deleted_at row = None"
      "tr_full_code_path row = child_path app parent code"
    and given: "trim_space (cp_code req) \<noteq> [] \<Longrightarrow> code = NormalizeGoPackageName (cp_code req)"
    by (rule CreatePackage_run [OF assms(1)]; rule that; assumption)
  have "code = base \<or> (\<exists>k. 2 \<le> k \<and> k \<le> 1000 \<and> code = GoPackageNameWithNumericSuffix (te_naming E) base k)"
    using code
  proof
    assume "nextAvailablePackageCode (te_naming E) (path_of_parent parent) (wk_id app) base w1 = (Inr code, w2)"
    from next_code_run [OF this [unfolded nextAvailablePackageCode_def]] show ?thesis by simp
  qed simp
  then have valid: "valid_code (tr_code row)"
    unfolding row(2) by (rule numbered_or_base_valid [OF assms(2) accepted_valid_code [OF base]])
  have live: "node_live row" using row(4) by (simp add: node_live_def)
  note common = nodes CreatePackage_untouched [OF assms(1)] live row(3) valid given [folded row(2)]
  show ?thesis
  proof (cases parent)
    case None
    then have "cp_parent req = []" using parent_node_run(2) [OF parent] by simp
    moreover have "tr_full_code_path row = slash # wk_user app @ slash # wk_code app @ slash # tr_code row"
      using row None by (simp add: child_path_def)
    ultimately show ?thesis using common app row(1) by auto
  next
    case (Some p)
    then have given_parent: "cp_parent req \<noteq> []" using parent_node_run(2) [OF parent] by auto
    have pn: "p \<in> set (td_nodes (store w))" "node_live p" "tr_full_code_path p = normalizeFullCodePath (cp_parent req)"
      using parent_node_run(3) [OF parent Some] WsGetByUserName_nodes [OF app] by simp_all
    have path: "tr_full_code_path row = tr_full_code_path p @ slash # tr_code row"
      using row Some by (simp add: child_path_def)
    have fresh: "tr_full_code_path x \<noteq> tr_full_code_path row"
      if "last (normalizeFullCodePath (cp_parent req)) \<noteq> slash" "x \<in> set (td_nodes (store w))" "node_live x"
        "tr_app_id x = wk_id app" for x
      using free pn(3) last_not_slash_trim [OF that(1)] that(2-4) path row(2)
      by (auto simp: taken_def path_of_parent_def Some)
    show ?thesis using common app row(1) given_parent pn path own [OF Some] fresh by auto
  qed
qed

definition tdemo_package :: "gostr \<Rightarrow> gostr \<Rightarrow> create_package_req" where
  "tdemo_package code parent = \<lparr>cp_user = ''alice'', cp_app = ''crm'', cp_name = ''Deals'', cp_code = code,
     cp_parent = parent, cp_description = [], cp_tags = [], cp_admins = []\<rparr>"

text \<open>Evaluation of the steps of a creation in the deployment.\<close>

lemma tdemo_lookup:
  "\<exists>w0. WsGetByUserName ''alice'' ''crm'' tdemo_world = (Inr tdemo_crm, w0) \<and> faults w0 = [] \<and>
     td_nodes (store w0) = tdemo_nodes \<and> seqs w0 = (\<lambda>_. 10)"
  by (simp add: WsGetByUserName_def tdemo_world_def tdemo_db_def cache_entry_def calm_simps found_node_def
      cache_workspace_def tdemo_crm_def tdemo_shop_def ws_live_def)

lemma andThen_go: "m w = (Inr a, w1) \<Longrightarrow> andThen m f w = f a w1"
  by (simp add: andThen_def)

lemma CreatePackage_calm:
  assumes "faults w0 = []" and "WsGetByUserName (cp_user req) (cp_app req) w = (Inr app, w0)"
    and "NormalizeGoPackageName (cp_code req) = cp_code req" "trim_space (cp_code req) \<noteq> []"
    and "ValidateGoPackageName (cp_code req) ''directory code'' = None"
    and "parent_node (cp_parent req) w0 = (Inr parent, w0)"
    and "\<And>p. parent = Some p \<Longrightarrow> tr_app_id p = wk_id app"
    and "\<not> taken (path_of_parent parent) (cp_code req) (wk_id app) (store w0)"
  shows "\<exists>row w'. CreatePackage E user req w = (Inr row, w')"
proof -
  define r where "r = new_node app (cp_name req) (cp_code req) TypePackage (cp_description req) (cp_tags req)
    (cp_admins req) (child_path app parent (cp_code req)) user"
  have free: "wrapped ''check name'' (CheckNameExistsByPath (path_of_parent parent) (cp_code req) (wk_id app)) w0 = (Inr False, w0)"
    unfolding wrapped_Inr
    using assms(1,8) by (auto simp: CheckNameExistsByPath_def Let_def query_calm hits_pos taken_def)
  obtain row w1 where row: "wrapped ''create node'' (TreeCreate r) w0 = (Inr row, w1)"
    unfolding wrapped_Inr using assms(1) by (simp add: TreeCreate_def calm_simps Let_def)
  obtain res w2 where scaffold: "createDirectoryScaffold E (cp_user req) (cp_app req) row w1 = (res, w2)" by fastforce
  have app: "wrapped ''get app'' (WsGetByUserName (cp_user req) (cp_app req)) w = (Inr app, w0)"
    using assms(2) unfolding wrapped_Inr .
  have own: "(case parent of None \<Rightarrow> ret () | Some p \<Rightarrow> if tr_app_id p \<noteq> wk_id app
      then fail (TErrOf ''parent of another app'' (cp_parent req)) else ret ()) = ret ()"
    using assms(7) by (simp split: option.split)
  have check: "check_name (ValidateGoPackageName (cp_code req) ''directory code'') = ret ()"
    using assms(5) by (simp add: check_name_def)
  have go: "andThen (ret a) f = f a" for a and f :: "'x \<Rightarrow> 'y tree" by (simp add: andThen_def ret_def)
  have "CreatePackage E user req w = (Inr row, w2)"
    unfolding CreatePackage_def Let_def assms(3) CreateServiceTreeWithParentPath_def
    by (simp add: assms(4) check go own, simp add: andThen_def app assms(6) own free r_def [symmetric] row
        attempt_def scaffold ret_def)
  then show ?thesis by blast
qed

lemma tdemo_by_id: "by_id tdemo_nodes = tdemo_nodes"
  by (simp add: tdemo_nodes_def tdemo_rows)

lemma parent_node_calm:
  assumes "faults w = []" and "path \<noteq> []" and "normalizeFullCodePath path = path"
    and "first_row (\<lambda>r. node_live r \<and> tr_full_code_path r = path) (by_id (td_nodes (store w))) = Some p"
  shows "parent_node path w = (Inr (Some p), w)"
  using assms by (simp add: parent_node_def GetServiceTreeByFullPath_def Let_def wrapped_def andThen_def
      query_calm found_node_def ret_def)

lemma tdemo_live: "node_live tdemo_crm_root" "node_live tdemo_sales" "node_live tdemo_notes" "node_live tdemo_hr"
    "node_live tdemo_shop_root" "tr_full_code_path tdemo_shop_root = ''/bob/shop''" "tr_app_id tdemo_shop_root = 2"
    "tr_app_id tdemo_crm_root = 1" "tr_app_id tdemo_sales = 1" "tr_app_id tdemo_notes = 1" "tr_app_id tdemo_hr = 1"
  by (simp_all add: tdemo_rows node_live_def)

lemma tdemo_create_run:
  assumes "parent_node parent (snd (WsGetByUserName ''alice'' ''crm'' tdemo_world)) =
      (Inr p, snd (WsGetByUserName ''alice'' ''crm'' tdemo_world))"
    and "\<And>x. p = Some x \<Longrightarrow> tr_app_id x = 1"
    and "\<not> taken (path_of_parent p) code 1 tdemo_db"
    and "NormalizeGoPackageName code = code" "trim_space code \<noteq> []" "valid_code code"
  shows "\<exists>row w'. CreatePackage tdemo_env ''alice'' (tdemo_package code parent) tdemo_world = (Inr row, w')"
proof -
  obtain w0 where w0: "WsGetByUserName ''alice'' ''crm'' tdemo_world = (Inr tdemo_crm, w0)" "faults w0 = []"
    "td_nodes (store w0) = tdemo_nodes" using tdemo_lookup by blast
  show ?thesis
    by (rule CreatePackage_calm [where app = tdemo_crm and parent = p, OF w0(2)])
      (use assms w0 valid_code_accepted in
        \<open>simp_all add: tdemo_package_def tdemo_crm_def taken_def tdemo_db_def\<close>)
qed

theorem CreatePackage_effect_witness:
  "\<exists>row w'. CreatePackage tdemo_env ''alice'' (tdemo_package ''deals'' ''/alice/crm/sales'') tdemo_world = (Inr row, w') \<and>
     td_nodes (store w') = tdemo_nodes @ [row] \<and> valid_code (tr_code row)"
proof -
  let ?req = "tdemo_package ''deals'' ''/alice/crm/sales''"
  obtain w0 where w0: "WsGetByUserName ''alice'' ''crm'' tdemo_world = (Inr tdemo_crm, w0)" "faults w0 = []"
    "td_nodes (store w0) = tdemo_nodes" using tdemo_lookup by blast
  have norm: "normalizeFullCodePath ''/alice/crm/sales'' = ''/alice/crm/sales''" by code_simp
  have parent: "parent_node ''/alice/crm/sales'' w0 = (Inr (Some tdemo_sales), w0)"
    by (rule parent_node_calm [OF w0(2)])
      (simp_all add: norm w0(3) tdemo_by_id, simp add: tdemo_nodes_def tdemo_live tdemo_fields)
  have free: "\<not> taken (path_of_parent (Some tdemo_sales)) ''deals'' 1 tdemo_db"
    by (simp add: taken_def path_of_parent_def tdemo_db_def tdemo_nodes_def tdemo_fields tdemo_live trim_suffix_slash_def)
  have code: "NormalizeGoPackageName ''deals'' = ''deals''" "trim_space ''deals'' \<noteq> []" "valid_code ''deals''"
    by code_simp+
  obtain row w' where run: "CreatePackage tdemo_env ''alice'' ?req tdemo_world = (Inr row, w')"
    using tdemo_create_run [OF _ _ free code, of "''/alice/crm/sales''"] parent w0(1) tdemo_live by auto
  have "ascii_ok (te_naming tdemo_env)" by (simp add: tdemo_env_def ascii_env_ok)
  from CreatePackage_effect [OF run this] run show ?thesis
    by (auto simp: tdemo_world_def tdemo_db_def)
qed

text \<open>
  Without a parent the check looks for the code right below the root of all paths, where no node is:
  a second directory is created at the path of the first.
\<close>

theorem root_directory_duplicated:
  "\<exists>row w'. CreatePackage tdemo_env ''alice'' (tdemo_package ''sales'' []) tdemo_world = (Inr row, w') \<and>
     tr_full_code_path row = tr_full_code_path tdemo_sales \<and> tr_app_id row = tr_app_id tdemo_sales \<and>
     td_nodes (store w') = tdemo_nodes @ [row] \<and> node_live row \<and> node_live tdemo_sales \<and> tdemo_sales \<in> set tdemo_nodes"
proof -
  let ?req = "tdemo_package ''sales'' []"
  obtain w0 where w0: "WsGetByUserName ''alice'' ''crm'' tdemo_world = (Inr tdemo_crm, w0)" using tdemo_lookup by blast
  have parent: "parent_node [] w0 = (Inr None, w0)" by (simp add: parent_node_def ret_def)
  have free: "\<not> taken (path_of_parent None) ''sales'' 1 tdemo_db"
    by (simp add: taken_def path_of_parent_def tdemo_db_def tdemo_nodes_def tdemo_fields tdemo_live trim_suffix_slash_def)
  have code: "NormalizeGoPackageName ''sales'' = ''sales''" "trim_space ''sales'' \<noteq> []" "valid_code ''sales''"
    by code_simp+
  obtain row w' where run: "CreatePackage tdemo_env ''alice'' ?req tdemo_world = (Inr row, w')"
    using tdemo_create_run [OF _ _ free code, of "[]"] parent w0 by auto
  obtain base c app p w0' w1 w2 where
    "ValidateGoPackageName base ''directory code'' = None"
    and app: "WsGetByUserName (cp_user ?req) (cp_app ?req) tdemo_world = (Inr app, w0')"
    and par: "parent_node (cp_parent ?req) w0' = (Inr p, w1)"
    and "\<And>x. p = Some x \<Longrightarrow> tr_app_id x = wk_id app"
    and "c = base \<or> nextAvailablePackageCode (te_naming tdemo_env) (path_of_parent p) (wk_id app) base w1 = (Inr c, w2)"
    and "\<not> taken (path_of_parent p) c (wk_id app) (store tdemo_world)"
    and nodes: "td_nodes (store w') = td_nodes (store tdemo_world) @ [row]"
    and row: "tr_app_id row = wk_id app" "tr_code row = c" "tr_type row = TypePackage" "tr_deleted_at row = None"
      "tr_full_code_path row = child_path app p c"
    and given: "trim_space (cp_code ?req) \<noteq> [] \<Longrightarrow> c = NormalizeGoPackageName (cp_code ?req)"
    by (rule CreatePackage_run [OF run]; rule that; assumption)
  have "app = tdemo_crm" and "p = None"
    using app par w0 by (auto simp: tdemo_package_def parent_node_def ret_def)
  moreover have "c = ''sales''" using given code by (simp add: tdemo_package_def)
  moreover have "node_live row" using row(4) by (simp add: node_live_def)
  ultimately show ?thesis
    using run nodes row by (intro exI [of _ row] exI [of _ w'])
      (simp add: tdemo_world_def tdemo_db_def child_path_def tdemo_crm_def tdemo_fields tdemo_live tdemo_nodes_def)
qed

section \<open>A document in another workspace\<close>

lemma createSpecialNode_run:
  assumes "createSpecialNode user req node_type suf w = (Inr st, w')"
  obtains app w0 parent w1 code where
    "WsGetByUserName (cn_user req) (cn_app req) w = (Inr app, w0)"
    "parent_node (cn_parent req) w0 = (Inr parent, w1)"
    "td_nodes (store w') = td_nodes (store w) @ [st]"
    "tr_app_id st = wk_id app" "tr_code st = code" "tr_type st = node_type" "tr_deleted_at st = None"
    "tr_full_code_path st = child_path app parent code"
    "code = (if cn_code req \<noteq> [] \<and> \<not> suffix suf (cn_code req) then cn_code req @ suf else cn_code req)"
proof -
  define code where "code = (if cn_code req \<noteq> [] \<and> \<not> suffix suf (cn_code req) then cn_code req @ suf else cn_code req)"
  from assms obtain app w0 parent w1 ex w2 where
    app: "WsGetByUserName (cn_user req) (cn_app req) w = (Inr app, w0)"
    and parent: "parent_node (cn_parent req) w0 = (Inr parent, w1)"
    and free: "CheckNameExistsByPath (path_of_parent parent) code (wk_id app) w1 = (Inr ex, w2)"
    and rest: "(if ex then fail (TErrOf ''node exists'' code) else
        wrapped ''create node'' (TreeCreate (new_node app (cn_name req) code node_type (cn_description req)
          (cn_tags req) (cn_admins req) (child_path app parent code) user))) w2 = (Inr st, w')"
    unfolding createSpecialNode_def Let_def code_def [symmetric] CreateServiceTreeWithParentPath_def
      andThen_Inr wrapped_Inr by blast
  from rest have "\<not> ex" by (auto simp: run_simps)
  with rest have row: "TreeCreate (new_node app (cn_name req) code node_type (cn_description req)
      (cn_tags req) (cn_admins req) (child_path app parent code) user) w2 = (Inr st, w')"
    by (simp add: wrapped_Inr)
  have "td_nodes (store w') = td_nodes (store w) @ [st]"
    using TreeCreate_run(1) [OF row] free WsGetByUserName_nodes [OF app] parent_node_run(1) [OF parent]
    by (simp add: CheckNameExistsByPath_run)
  moreover have "tr_app_id st = wk_id app" "tr_code st = code" "tr_type st = node_type" "tr_deleted_at st = None"
    "tr_full_code_path st = child_path app parent code"
    unfolding TreeCreate_run(2) [OF row] new_node_def no_tree_row_def by simp_all
  ultimately show ?thesis using that [OF app parent] code_def by blast
qed

text \<open>
  C36. \<open>CreateDocsNode\<close> does not check that the parent belongs to the workspace the request names, and the
  interface checks the right to write at the parent only. So a user may put a document below a
  directory of their own and into the table of another workspace. Whenever the row of such a document and
  a node of the workspace itself, with a path in another workspace than the document's, are live, as they
  are right after a creation without content, and no two of the workspace's nodes share a path,
  \<open>getServiceTreeByAppModel\<close> without a node type fails for it: nobody is shown the whole tree.
\<close>

theorem docs_node_blocks_tenant:
  assumes "CreateDocsNode user req w = (Inr st, w')" and "wk_id app = tr_app_id st"
    and "root \<in> set (app_rows (wk_id app) (store w))"
    and "ParseUserApp (tr_full_code_path root) \<noteq> ParseUserApp (tr_full_code_path st)"
  shows "(cn_doc_content req = [] \<longrightarrow>
       st \<in> set (app_rows (wk_id app) (store w')) \<and> root \<in> set (app_rows (wk_id app) (store w'))) \<and>
    (\<forall>v d r. d \<in> set (app_rows (wk_id app) (store v)) \<and> tr_full_code_path d = tr_full_code_path st \<and>
       r \<in> set (app_rows (wk_id app) (store v)) \<and> tr_full_code_path r = tr_full_code_path root \<and>
       inj_on dedupe_key (set (app_rows (wk_id app) (store v))) \<longrightarrow>
       (\<exists>e v'. getServiceTreeByAppModel E cx app [] v = (Inl e, v')))"
proof (intro conjI allI impI)
  assume "cn_doc_content req = []"
  with assms(1) have run: "createSpecialNode user req TypeDocs ''.docs'' w = (Inr st, w')"
    by (auto simp: CreateDocsNode_def run_simps)
  have nodes: "td_nodes (store w') = td_nodes (store w) @ [st]" and "tr_deleted_at st = None"
    by (rule createSpecialNode_run [OF run]; assumption)+
  then show "st \<in> set (app_rows (wk_id app) (store w'))" "root \<in> set (app_rows (wk_id app) (store w'))"
    using assms(2,3) by (auto simp: app_rows_def node_live_def)
next
  fix v :: "tree_db world" and d r
  assume rows: "d \<in> set (app_rows (wk_id app) (store v)) \<and> tr_full_code_path d = tr_full_code_path st \<and>
       r \<in> set (app_rows (wk_id app) (store v)) \<and> tr_full_code_path r = tr_full_code_path root \<and>
       inj_on dedupe_key (set (app_rows (wk_id app) (store v)))"
  with assms(4) show "\<exists>e v'. getServiceTreeByAppModel E cx app [] v = (Inl e, v')"
    by (intro foreign_node_blocks [of r app v d]) auto
qed

definition tdemo_foreign :: create_node_req where
  "tdemo_foreign = \<lparr>cn_user = ''alice'', cn_app = ''crm'', cn_name = ''X'', cn_code = ''x.docs'',
     cn_parent = ''/bob/shop'', cn_description = [], cn_tags = [], cn_admins = [], cn_doc_content = [],
     cn_doc_format = [], cn_doc_summary = []\<rparr>"

lemma tdemo_foreign_run:
  "\<exists>st w'. CreateDocsNode ''bob'' tdemo_foreign tdemo_world = (Inr st, w')"
proof -
  obtain w0 where w0: "WsGetByUserName ''alice'' ''crm'' tdemo_world = (Inr tdemo_crm, w0)" "faults w0 = []"
    "td_nodes (store w0) = tdemo_nodes" using tdemo_lookup by blast
  have norm: "normalizeFullCodePath ''/bob/shop'' = ''/bob/shop''" by code_simp
  have parent: "parent_node ''/bob/shop'' w0 = (Inr (Some tdemo_shop_root), w0)"
    by (rule parent_node_calm [OF w0(2)])
      (simp_all add: norm w0(3) tdemo_by_id, simp add: tdemo_nodes_def tdemo_live tdemo_fields)
  have "\<not> taken ''/bob/shop'' ''x.docs'' 1 (store w0)"
    by (simp add: taken_def w0(3) tdemo_nodes_def tdemo_fields tdemo_live trim_suffix_slash_def)
  then have free: "CheckNameExistsByPath ''/bob/shop'' ''x.docs'' 1 w0 = (Inr False, w0)"
    using w0(2) by (auto simp: CheckNameExistsByPath_def Let_def query_calm hits_pos taken_def)
  have suf: "suffix ''.docs'' ''x.docs''" by (simp add: suffix_def)
  obtain st w' where row: "TreeCreate (new_node tdemo_crm ''X'' ''x.docs'' TypeDocs [] [] []
      (child_path tdemo_crm (Some tdemo_shop_root) ''x.docs'') ''bob'') w0 = (Inr st, w')"
    using w0(2) by (simp add: TreeCreate_def calm_simps Let_def)
  have "createSpecialNode ''bob'' tdemo_foreign TypeDocs ''.docs'' tdemo_world = (Inr st, w')"
    by (simp add: createSpecialNode_def tdemo_foreign_def Let_def suf CreateServiceTreeWithParentPath_def
        wrapped_def andThen_def w0(1) parent)
      (simp add: path_of_parent_def tdemo_live tdemo_crm_def [THEN arg_cong, of wk_id] free row wrapped_Inr
        CreateServiceTreeWithParentPath_def)
  then have "CreateDocsNode ''bob'' tdemo_foreign tdemo_world = (Inr st, w')"
    by (simp add: CreateDocsNode_def andThen_def tdemo_foreign_def ret_def)
  then show ?thesis by blast
qed

theorem docs_node_blocks_tenant_witness:
  "\<exists>st w' e v. CreateDocsNode ''bob'' tdemo_foreign tdemo_world = (Inr st, w') \<and>
     getServiceTreeByAppModel sample_perm_env (tdemo_ctx ''system'') tdemo_crm [] w' = (Inl e, v) \<and>
     (\<exists>answer u. getServiceTreeByAppModel sample_perm_env (tdemo_ctx ''system'') tdemo_crm [] tdemo_world = (Inr answer, u))"
proof -
  obtain st w' where run: "CreateDocsNode ''bob'' tdemo_foreign tdemo_world = (Inr st, w')"
    using tdemo_foreign_run by blast
  have content: "cn_doc_content tdemo_foreign = []" by (simp add: tdemo_foreign_def)
  from run content have special: "createSpecialNode ''bob'' tdemo_foreign TypeDocs ''.docs'' tdemo_world = (Inr st, w')"
    by (auto simp: CreateDocsNode_def run_simps)
  obtain app w0 parent w1 code where
    app: "WsGetByUserName (cn_user tdemo_foreign) (cn_app tdemo_foreign) tdemo_world = (Inr app, w0)"
    and parent: "parent_node (cn_parent tdemo_foreign) w0 = (Inr parent, w1)"
    and nodes: "td_nodes (store w') = td_nodes (store tdemo_world) @ [st]"
    and row: "tr_app_id st = wk_id app" "tr_code st = code" "tr_type st = TypeDocs" "tr_deleted_at st = None"
    "tr_full_code_path st = child_path app parent code"
    and code: "code = (if cn_code tdemo_foreign \<noteq> [] \<and> \<not> suffix ''.docs'' (cn_code tdemo_foreign)
      then cn_code tdemo_foreign @ ''.docs'' else cn_code tdemo_foreign)"
    by (rule createSpecialNode_run [OF special]; rule that; assumption)
  have "app = tdemo_crm" using app tdemo_lookup by (auto simp: tdemo_foreign_def)
  then have id: "tr_app_id st = 1" using row by (simp add: tdemo_crm_def)
  have norm: "normalizeFullCodePath ''/bob/shop'' = ''/bob/shop''" by code_simp
  obtain p where p: "parent = Some p" "tr_full_code_path p = ''/bob/shop''"
    using parent_node_run(2,3) [OF parent] norm by (cases parent) (auto simp: tdemo_foreign_def)
  have path: "tr_full_code_path st = ''/bob/shop/x.docs''"
    using row(5) code by (simp add: child_path_def p tdemo_foreign_def suffix_def)
  have "normalizeFullCodePath ''/bob/shop/x.docs'' = ''/bob/shop/x.docs''" by code_simp
  then have key: "dedupe_key st = ''/bob/shop/x.docs''" by (simp add: dedupe_key_def path Let_def)
  have rows: "set (app_rows (wk_id tdemo_crm) (store w')) = set tdemo_crm_rows \<union> {st}"
    using nodes id row(4)
    by (auto simp: app_rows_def tdemo_world_def tdemo_db_def tdemo_nodes_def tdemo_live tdemo_crm_def node_live_def [of st])
  have inj: "inj_on dedupe_key (set (app_rows (wk_id tdemo_crm) (store w')))"
    unfolding rows by (simp add: inj_on_def tdemo_keys key)
  have root: "tdemo_crm_root \<in> set (app_rows (wk_id tdemo_crm) (store tdemo_world))"
    by (simp add: app_rows_def tdemo_world_def tdemo_db_def tdemo_nodes_def tdemo_live tdemo_crm_def)
  have "ParseUserApp ''/alice/crm'' = Inr (''alice'', ''crm'')" "ParseUserApp ''/bob/shop/x.docs'' = Inr (''bob'', ''shop'')"
    by code_simp+
  then have other: "ParseUserApp (tr_full_code_path tdemo_crm_root) \<noteq> ParseUserApp (tr_full_code_path st)"
    by (simp add: path tdemo_fields)
  have "wk_id tdemo_crm = tr_app_id st" using id by (simp add: tdemo_crm_def)
  note blocked = docs_node_blocks_tenant [OF run this root other, of sample_perm_env "tdemo_ctx ''system''"]
  then have "\<exists>e v. getServiceTreeByAppModel sample_perm_env (tdemo_ctx ''system'') tdemo_crm [] w' = (Inl e, v)"
    using content inj by blast
  with run tdemo_answer show ?thesis by blast
qed

end
