(* ===== verification/Spec2Isabelle.thy ===== *)
theory Spec2Isabelle
  imports SchedInvariants SchedTaskProps SchedExecProps SchedRecovery SchedOutboxProps
    AuthorityProps RequestProps JwtProps HrSessionProps HrUserProps HrDeptProps
    MsgReplyProps MsgInboxProps MsgRouteProps MsgConsumerProps
    GwRevokeProps GwProxyProps
    TreeCreateProps
begin

text \<open>
  A verification development for Kageos, a multi-tenant application platform written in Go.

  The platform is a set of servers around one gateway. Six of its subsystems carry state that
  every tenant depends on, and these are modelled here: the timer scheduler, which runs the
  scheduled tasks of applications (\<open>core/timer-scheduler\<close>, \<open>pkg/scheduledsdk\<close>,
  \<open>pkg/subjects/timer.go\<close>), and the permission subsystem of the app server, which decides who may
  do what in a workspace (\<open>pkg/access\<close>, \<open>core/app-server/service/permission_service.go\<close>,
  \<open>permission_request_service.go\<close> and their repositories). The third is the HR server, which keeps
  the users, the departments the permission subsystem refers to, and the login sessions the gateway
  asks about (\<open>core/hr-server\<close>, \<open>pkg/auth\<close>, \<open>pkg/openapitoken\<close>). The fourth is the message server, whose
  inbox the others write notices to, which forwards them to outside channels and takes answers from
  there (\<open>core/message-server\<close>). The fifth is the gateway itself (\<open>core/api-gateway/server\<close>): it
  caches what the HR server says of a token, sets the headers by which the servers behind it know the
  user (\<open>pkg/middleware\<close>), and is proved together with the HR server. The sixth is the tree of
  directories, functions and documents of every workspace, kept by the app server (\<open>service_tree_*.go\<close>,
  \<open>package_service.go\<close> and \<open>doc_service.go\<close> in \<open>core/app-server/service\<close>): it names the resources the
  permission subsystem decides on and the scheduler runs, and is proved together with both.

  \<^bold>\<open>Layout.\<close>
  \<^item> \<open>GoBase\<close>: Go strings as bytes, \<open>TrimSpace\<close>, \<open>Trim\<close>, \<open>ToLower\<close>, \<open>Split\<close>, \<open>Join\<close>, decimals and
    64-bit wrap-around, with the facts about them.
  \<^item> \<open>Store\<close>: tables as lists of rows; actions over a world (clock, counters, pending faults,
    tables); transactions; three calculi: \<open>stable\<close> (invariants of every run), \<open>hoare\<close> (successful
    runs), \<open>achieves\<close> (runs that succeed when no fault is pending); the interfaces
    \<open>guarded_table\<close> and \<open>lifecycle_table\<close>.
  \<^item> \<open>Access\<close>: \<open>pkg/access/access.go\<close>, with the theorems on path inheritance, resolution, roles,
    principals and the assignment key.
  \<^item> \<open>SchedTypes\<close>, \<open>SchedRepo\<close>, \<open>SchedHelpers\<close>: the scheduler's requests and rows, its three
    repositories (one definition per statement) and its helpers. \<open>SchedRepo\<close> interprets
    \<open>lifecycle_table\<close> for tasks, executions and outbox events.
  \<^item> \<open>SchedService\<close>, \<open>SchedManage\<close>, \<open>SchedReports\<close>: the operations of \<open>service/service.go\<close>:
    dispatch; task management; worker reports, recovery and the outbox.
  \<^item> \<open>SchedSteps\<close>: the scheduler as a transition system. Several instances share the database, so
    a step is one statement or transaction with arbitrary arguments, that is also with rows read
    earlier; the clock may advance and statements may fail between any two steps. Every operation
    is proved to be a path of it.
  \<^item> \<open>SchedInvariants\<close>, \<open>SchedTaskProps\<close>, \<open>SchedExecProps\<close>, \<open>SchedRecovery\<close>, \<open>SchedOutboxProps\<close>:
    the theorems on the scheduler, of which \<open>SchedRecovery\<close> follows an unattended execution through whole
    passes of the recovery loop; \<open>SchedSamples\<close> the concrete states of their witnesses.
  \<^item> \<open>RoleStore\<close>: the tables and repositories of the permission subsystem and the cache of
    applications. \<open>GrantStore\<close>: the interfaces \<open>grant_map\<close>, a map of grants, and \<open>grant_store\<close>, which adds
    removing, and their interpretations on the repository: with grants told apart by what the key of an
    assignment hashes, and with the columns a removal matches.
  \<^item> \<open>PermissionService\<close>, \<open>PermissionRequest\<close>: the operations of the two services. \<open>PermCore\<close>:
    what they leave alone, and the decision they compute. \<open>PermProps\<close>: decisions, granting and
    revoking as updates of the map of grants. \<open>AuthorityProps\<close>: who may change grants, and the
    tree of permissions against the single question. \<open>PermSteps\<close>: the subsystem as a transition
    system of which every call is a path; \<open>RequestProps\<close>: the life of a permission request in it.
    \<open>PermSamples\<close>: the concrete states of the witnesses.
  \<^item> \<open>JwtTokens\<close>: \<open>pkg/auth/jwt.go\<close>, the four kinds of token; \<open>JwtProps\<close>: that they are separate and
    that what is issued validates.
  \<^item> \<open>HrStore\<close>: the tables and repositories of the HR server. \<open>HrDepartments\<close>, \<open>HrUsers\<close>, \<open>HrAuth\<close>: its
    department, user and login services, with the store of OpenAPI tokens.
  \<^item> \<open>HrSteps\<close>: accounts as a labelled transition system of the writes to users, sessions and tokens.
    \<open>HrProps\<close>: a suspended account is locked out, and how a stale write undoes it; \<open>HrSessionProps\<close>:
    logout, refresh and logins in the same second; \<open>HrUserProps\<close>: user codes; \<open>HrSamples\<close>: the
    concrete deployment of the witnesses.
  \<^item> \<open>HrDeptSteps\<close>: the organisation tree as a transition system and its invariant; \<open>HrDeptRuns\<close>: every
    operation of the department service is a path of it; \<open>HrDeptProps\<close>: the theorems on the tree, and
    what it means for the principals of the permission subsystem.
  \<^item> \<open>MsgStore\<close>, \<open>MsgInbox\<close>: the tables of the message server, creating a message, and the inbox with its
    groupings. \<open>MsgActions\<close>, \<open>MsgReplies\<close>: links that let a recipient answer, and their handlers.
    \<open>MsgRoutes\<close>, \<open>MsgConsumer\<close>: the channels and routes of notifications, and sending a message.
  \<^item> \<open>MsgReplySteps\<close>: links as an instance of \<open>guarded_table\<close> and a step relation on their abstract
    states that the operations implement; \<open>MsgReplyProps\<close>: a link is answered once.
    \<open>MsgInboxProps\<close>: counting and reading; \<open>MsgRouteProps\<close>: the pattern of a subtree and the choice of
    the scope; \<open>MsgConsumerProps\<close>: sending is all or nothing. \<open>MsgSamples\<close>: the concrete states of the
    witnesses.
  \<^item> \<open>GwTokens\<close>: the validators of the gateway with their caches, the notices of revoked tokens and the
    endpoints of the HR server that answer. \<open>GwSteps\<close>: gateway and HR server as one transition system, in
    which requests interleave between any two accesses to a cache. \<open>GwCacheProps\<close>: the caches are well
    formed, with the interface \<open>gateway\<close>; \<open>GwProps\<close>: a suspended account at the gateway, from the
    interfaces \<open>timed_authority\<close> and \<open>denying_authority\<close>, which the HR server provides;
    \<open>GwRevokeProps\<close>: what a notice achieves and when an answer overtakes it; \<open>GwSamples\<close>: the runs of the
    witnesses.
  \<^item> \<open>GwProxy\<close>: routes, headers and the handler of the proxy, what the reverse proxy of the Go library does
    to the headers afterwards (\<open>reverse_proxy\<close>), and the middleware of the services;
    \<open>GwProxyProps\<close>: whom a service behind the gateway sees.
  \<^item> \<open>Naming\<close>: \<open>pkg/naming\<close>, the codes of directories; \<open>NamingProps\<close>: derived codes are valid.
  \<^item> \<open>TreeModel\<close>, \<open>TreeStore\<close>, \<open>TreeDocs\<close>: nodes, workspaces and documents with their repositories and caches.
    \<open>TreeStore\<close> embeds the stores of the scheduler and of the permission subsystem: \<open>remote\<close> runs their
    modelled operations inside an operation on the tree. \<open>TreeTasks\<close>: keeping the tasks of the scheduler in
    step with the tree. \<open>TreeOps\<close>: creating, changing and deleting nodes. \<open>TreeView\<close>: the tree a user is shown.
  \<^item> \<open>TreeViewProps\<close>: the tree shows every node once, and a hidden tree exactly what may be read;
    \<open>TreeCreateProps\<close>: what creating a directory or a document does; \<open>TreeSamples\<close>: the deployment of the
    witnesses.

  \<^bold>\<open>Conventions.\<close> A record has the fields of the struct, an operation is an action that returns
  \<open>Inl\<close> an error or \<open>Inr\<close> a value, and every early return of the source is a branch. Times and
  durations are nanoseconds, 0 is Go's zero time, a nil pointer is \<open>None\<close>. \<open>time.Now()\<close> is the clock of
  the world, the same instant within one operation. Of the database is assumed: \<open>RowsAffected\<close> counts
  the matched rows, strings compare byte by byte, transactions are serial, a rollback restores the
  tables but not the counters, and any statement may fail (the list \<open>faults\<close>). JSON columns hold the
  values encoded in them. \<open>ToLower\<close> acts on ASCII letters; in NATS subjects a byte of 128 or more is a
  letter. GORM's \<open>Save\<close> overwrites the live row of the id; when that row was deleted meanwhile, GORM
  falls back to inserting the row again with all its columns, which the model does not do: there a
  \<open>Save\<close> of a deleted row (\<open>TaskUpdate\<close>, \<open>UserSave\<close>, \<open>DeptSave\<close>, \<open>UpdateServiceTree\<close>) changes nothing.

  \<^bold>\<open>Fuel and bounds.\<close> The recursions of the department service over parent links carry fuel, whose
  end is the error \<open>HOutOfFuel\<close>. Of the tree, \<open>list_pages\<close> takes the number of pages of a hundred tasks it
  may read, and \<open>RepoDeleteServiceTree\<close> the depth it may descend; \<open>TOutOfFuel\<close> is their end. No other definition
  uses fuel: every other loop of the modelled code runs over a list or shortens a string. The number
  of recovery passes after which an unattended execution has ended is \<open>recovery_rank\<close> in
  \<open>SchedRecovery\<close> and one, where \<open>recovery_passes\<close> iterates \<open>RecoverStaleExecutions\<close>. The bound of a minute and five seconds at the gateway is its time to live plus the timeout of its client;
  \<open>lag\<close> stands for the time the gateway itself needs after that.

  \<^bold>\<open>Parameters.\<close> Cron parsing, time zones, token validation, UUIDs, SHA-256, the user directory and the
  organisation tree as the other services see them, JWT signing and parsing, password hashing, the
  sealing of secrets, the texts of drafts and cards, the HTTP calls of the message server, the NATS
  connection, the router and the order of maps of the gateway, Unicode tables and pinyin,
  and the answers of the runtime of a workspace are functions of the environment records. An error is
  named by a constructor or a short text in place of its message.

  \<^bold>\<open>Not modelled.\<close> The texts of notifications; the metadata of operate logs; HTTP and NATS transport;
  external logins, mail and settings of the HR server; the handlers that edit notification settings;
  the pages and the start of the gateway; searching, copying and bundling directories, the badges of the
  tree and the tree of a server built without a permission service, and publishing and running applications; the other servers (agents, runtime, storage, connectors), the
  command line tools and the front end.
\<close>

end
